(* ===== verification/Prelude.thy ===== *)
theory Prelude
  imports Complex_Main "HOL-Library.AList" "HOL-Library.List_Lexorder" "HOL-Library.Char_ord"
begin

text \<open>
  Shared vocabulary of the development: the exceptions the services throw, the sum monad that
  carries them, JavaScript strings, numbers and JSON values, objects and \<open>Map\<close>s as association
  lists in insertion order, and comparator sorting.  Strings are lists of 8-bit characters (the
  code units below 256 of a JavaScript string).  A finite JavaScript number is the rational it
  denotes, so the rounding of doubles is not modelled.
\<close>

named_theorems js_simps "evaluation of the JavaScript primitives"

section \<open>Exceptions and the sum monad\<close>

text \<open>
  The classes the code throws or tests with \<open>instanceof\<close>.  \<open>HealthcheckError\<close> is the \<open>Error\<close>
  with an attached \<open>healthcheckResult\<close>: its message, URL, expected and last actual status, duration.
\<close>

datatype js_error =
    BadRequestException string
  | NotFoundException string
  | ConflictException string
  | ForbiddenException string
  | UnauthorizedException
  | PlainError string
  | TypeError string
  | TestRunCancellationError
  | TestRunTimeoutError string
  | HealthcheckError string string int "int option" int

fun error_message :: "js_error \<Rightarrow> string" where
  "error_message (BadRequestException m) = m"
| "error_message (NotFoundException m) = m"
| "error_message (ConflictException m) = m"
| "error_message (ForbiddenException m) = m"
| "error_message UnauthorizedException = ''Unauthorized''"
| "error_message (PlainError m) = m"
| "error_message (TypeError m) = m"
| "error_message TestRunCancellationError = ''Test run was cancelled''"
| "error_message (TestRunTimeoutError m) = m"
| "error_message (HealthcheckError m u e a d) = m"

fun is_conflict :: "js_error \<Rightarrow> bool" where
  "is_conflict (ConflictException m) = True"
| "is_conflict _ = False"

fun sbind :: "'e + 'a \<Rightarrow> ('a \<Rightarrow> 'e + 'b) \<Rightarrow> 'e + 'b" where
  "sbind (Inl e) f = Inl e"
| "sbind (Inr a) f = f a"

fun traverse :: "('a \<Rightarrow> 'e + 'b) \<Rightarrow> 'a list \<Rightarrow> 'e + 'b list" where
  "traverse f [] = Inr []"
| "traverse f (x # xs) =
     sbind (f x) (\<lambda>y. sbind (traverse f xs) (\<lambda>ys. Inr (y # ys)))"

lemma sbind_Inr_iff [simp]: "sbind m f = Inr b \<longleftrightarrow> (\<exists>a. m = Inr a \<and> f a = Inr b)"
  by (cases m) auto

lemma sbind_Inl_iff: "sbind m f = Inl e \<longleftrightarrow> m = Inl e \<or> (\<exists>a. m = Inr a \<and> f a = Inl e)"
  by (cases m) auto

lemma sbind_assoc: "sbind (sbind m f) g = sbind m (\<lambda>a. sbind (f a) g)"
  by (cases m) auto

lemma traverse_Inr_iff:
  "traverse f xs = Inr ys \<longleftrightarrow> list_all2 (\<lambda>x y. f x = Inr y) xs ys"
  by (induction xs arbitrary: ys) (auto simp: list_all2_Cons1)

lemma traverse_map_Inr [simp]: "traverse (\<lambda>x. Inr (f x)) xs = Inr (map f xs)"
  by (induction xs) auto

lemma traverse_length: "traverse f xs = Inr ys \<Longrightarrow> length ys = length xs"
  by (auto simp: traverse_Inr_iff dest: list_all2_lengthD)

lemma traverse_member: "traverse f xs = Inr ys \<Longrightarrow> y \<in> set ys \<Longrightarrow> \<exists>x\<in>set xs. f x = Inr y"
  by (induction xs arbitrary: ys) auto

section \<open>Strings\<close>

definition is_ws :: "char \<Rightarrow> bool" where
  "is_ws c = (of_char c \<in> {9, 10, 11, 12, 13, 32, 160 :: nat})"

definition trim_start :: "string \<Rightarrow> string" where
  "trim_start s = dropWhile is_ws s"

definition trim :: "string \<Rightarrow> string" where
  "trim s = rev (dropWhile is_ws (rev (dropWhile is_ws s)))"

definition upper_char :: "char \<Rightarrow> char" where
  "upper_char c = (let n = (of_char c :: nat) in
     if 97 \<le> n \<and> n \<le> 122 then char_of (n - 32) else c)"

definition lower_char :: "char \<Rightarrow> char" where
  "lower_char c = (let n = (of_char c :: nat) in
     if 65 \<le> n \<and> n \<le> 90 then char_of (n + 32) else c)"

definition to_upper :: "string \<Rightarrow> string" where
  "to_upper s = map upper_char s"

definition to_lower :: "string \<Rightarrow> string" where
  "to_lower s = map lower_char s"

fun starts_with :: "string \<Rightarrow> string \<Rightarrow> bool" where
  "starts_with s [] = True"
| "starts_with [] (p # ps) = False"
| "starts_with (c # s) (p # ps) = (c = p \<and> starts_with s ps)"

fun str_includes :: "string \<Rightarrow> string \<Rightarrow> bool" where
  "str_includes [] t = (t = [])"
| "str_includes (c # s) t = (starts_with (c # s) t \<or> str_includes s t)"

text \<open>\<open>/.../i.test\<close> of a literal pattern without metacharacters.\<close>

definition includes_ci :: "string \<Rightarrow> string \<Rightarrow> bool" where
  "includes_ci s t = str_includes (to_lower s) (to_lower t)"

fun split_char :: "char \<Rightarrow> string \<Rightarrow> string list" where
  "split_char c [] = [[]]"
| "split_char c (x # xs) =
     (if x = c then [] # split_char c xs
      else (case split_char c xs of [] \<Rightarrow> [[x]] | w # ws \<Rightarrow> (x # w) # ws))"

fun join_with :: "string \<Rightarrow> string list \<Rightarrow> string" where
  "join_with sep [] = []"
| "join_with sep [x] = x"
| "join_with sep (x # y # ys) = x @ sep @ join_with sep (y # ys)"

definition digit_char :: "nat \<Rightarrow> char" where
  "digit_char n = char_of (48 + n)"

fun dec_nat :: "nat \<Rightarrow> string" where
  "dec_nat n = (if n < 10 then [digit_char n] else dec_nat (n div 10) @ [digit_char (n mod 10)])"

declare dec_nat.simps [simp del]

definition dec_int :: "int \<Rightarrow> string" where
  "dec_int i = (if i < 0 then CHR ''-'' # dec_nat (nat (- i)) else dec_nat (nat i))"

definition pad_start :: "nat \<Rightarrow> char \<Rightarrow> string \<Rightarrow> string" where
  "pad_start n c s = replicate (n - length s) c @ s"

text \<open>Optional chaining on strings: \<open>x?.trim()\<close> is falsy when \<open>x\<close> is missing or blank.\<close>

definition blank :: "string option \<Rightarrow> bool" where
  "blank x = (case x of None \<Rightarrow> True | Some s \<Rightarrow> trim s = [])"

definition trimmed :: "string option \<Rightarrow> string option" where
  "trimmed x = (case x of None \<Rightarrow> None | Some s \<Rightarrow> if trim s = [] then None else Some (trim s))"

lemma starts_with_iff: "starts_with s t \<longleftrightarrow> (\<exists>r. s = t @ r)"
  by (induction s t rule: starts_with.induct) auto

lemma str_includes_iff: "str_includes s t \<longleftrightarrow> (\<exists>a b. s = a @ t @ b)"
proof (induction s)
  case Nil
  then show ?case by auto
next
  case (Cons c s)
  show ?case
    by (auto simp: Cons starts_with_iff Cons_eq_append_conv)
qed

lemma dropWhile_idem: "dropWhile P (dropWhile P xs) = dropWhile P xs"
  by (induction xs) auto

lemma dropWhile_nonempty_hd: "dropWhile P xs = y # ys \<Longrightarrow> \<not> P y"
  by (induction xs) (auto split: if_splits)

lemma dropWhile_rev_hd:
  assumes "xs \<noteq> []" "\<not> P (hd xs)"
  shows "dropWhile P (rev (dropWhile P (rev xs))) = rev (dropWhile P (rev xs))"
proof -
  obtain x xs' where xs: "xs = x # xs'" and nx: "\<not> P x"
    using assms by (cases xs) auto
  have "dropWhile P (rev xs' @ [x]) = dropWhile P (rev xs') @ [x]"
    using nx by (induction "rev xs'") (auto simp: dropWhile_append3 dropWhile_append)
  then show ?thesis
    using nx by (simp add: xs)
qed

lemma trim_idem [simp]: "trim (trim s) = trim s"
proof (cases "dropWhile is_ws s")
  case Nil
  show ?thesis by (simp only: trim_def Nil rev.simps dropWhile.simps)
next
  case (Cons y ys)
  have "\<not> is_ws (hd (dropWhile is_ws s))"
    using Cons dropWhile_nonempty_hd[of is_ws s y ys] by simp
  then have "dropWhile is_ws (rev (dropWhile is_ws (rev (dropWhile is_ws s))))
      = rev (dropWhile is_ws (rev (dropWhile is_ws s)))"
    using Cons by (intro dropWhile_rev_hd) auto
  then show ?thesis
    by (simp add: trim_def dropWhile_idem)
qed

lemma trim_Nil [simp]: "trim [] = []"
  by (simp add: trim_def)

lemma of_char_upper:
  "(of_char (upper_char c) :: nat)
     = (if 97 \<le> (of_char c :: nat) \<and> (of_char c :: nat) \<le> 122 then of_char c - 32 else of_char c)"
  by (auto simp: upper_char_def Let_def)

lemma is_ws_upper [simp]: "is_ws (upper_char c) = is_ws c"
  unfolding is_ws_def of_char_upper by auto

lemma upper_char_idem [simp]: "upper_char (upper_char c) = upper_char c"
proof -
  have "\<not> (97 \<le> (of_char (upper_char c) :: nat) \<and> (of_char (upper_char c) :: nat) \<le> 122)"
    unfolding of_char_upper by auto
  then show ?thesis unfolding upper_char_def[of "upper_char c"] Let_def by (simp only: if_False)
qed

lemma to_upper_idem [simp]: "to_upper (to_upper s) = to_upper s"
  by (simp add: to_upper_def)

lemma to_upper_Nil_iff [simp]: "to_upper s = [] \<longleftrightarrow> s = []"
  by (simp add: to_upper_def)

lemma trim_to_upper: "trim (to_upper s) = to_upper (trim s)"
  by (simp add: trim_def to_upper_def dropWhile_map rev_map o_def)

lemma blank_simps [simp]: "blank None" "blank (Some s) \<longleftrightarrow> trim s = []"
  by (simp_all add: blank_def)

lemma trimmed_None_iff: "trimmed x = None \<longleftrightarrow> blank x"
  by (auto simp: trimmed_def split: option.splits)

lemma trimmed_idem [simp]: "trimmed (trimmed x) = trimmed x"
  by (auto simp: trimmed_def split: option.splits)

end
