(* ===== verification/Json.thy ===== *)
theory Json
  imports Prelude "HOL-Library.Multiset"
begin

text \<open>
  JavaScript values as the services handle them: numbers with their non-finite values, JSON trees
  (\<open>undefined\<close> is \<open>None\<close> of an option around them), \<open>String(v)\<close>, property reads, objects and
  \<open>Map\<close>s as association lists in insertion order, \<open>Date.toISOString\<close> and \<open>Array.sort\<close>.  Keys
  that are array indices keep their insertion position here (JavaScript moves them to the front),
  and properties inherited from a prototype are not visible.
\<close>

section \<open>Numbers\<close>

datatype jsnum = Fin rat | PosInf | NegInf | NaN

fun num_finite :: "jsnum \<Rightarrow> bool" where
  "num_finite (Fin q) = True"
| "num_finite _ = False"

fun num_less :: "jsnum \<Rightarrow> jsnum \<Rightarrow> bool" where
  "num_less (Fin a) (Fin b) = (a < b)"
| "num_less (Fin a) PosInf = True"
| "num_less NegInf (Fin b) = True"
| "num_less NegInf PosInf = True"
| "num_less _ _ = False"

fun num_eq :: "jsnum \<Rightarrow> jsnum \<Rightarrow> bool" where
  "num_eq NaN _ = False"
| "num_eq a b = (a = b)"

definition num_leq :: "jsnum \<Rightarrow> jsnum \<Rightarrow> bool" where
  "num_leq a b = (num_less a b \<or> num_eq a b)"

text \<open>Multiplication by a positive constant.\<close>

fun num_scale :: "rat \<Rightarrow> jsnum \<Rightarrow> jsnum" where
  "num_scale k (Fin a) = Fin (k * a)"
| "num_scale k n = n"

definition num_pos :: "jsnum \<Rightarrow> bool" where
  "num_pos n = (num_finite n \<and> num_less (Fin 0) n)"

definition num_nonneg :: "jsnum \<Rightarrow> bool" where
  "num_nonneg n = (num_finite n \<and> num_leq (Fin 0) n)"

lemma num_pos_iff: "num_pos n \<longleftrightarrow> (\<exists>q. n = Fin q \<and> 0 < q)"
  by (cases n) (auto simp: num_pos_def)

lemma num_nonneg_iff: "num_nonneg n \<longleftrightarrow> (\<exists>q. n = Fin q \<and> 0 \<le> q)"
  by (cases n) (auto simp: num_nonneg_def num_leq_def)

text \<open>
  \<open>String(n)\<close>: integers in decimal, other numbers by their decimal expansion up to 17 digits.  This
  is what JavaScript prints for numbers of at most 15 significant digits between \<open>1e-6\<close> and \<open>1e21\<close>.
\<close>

fun frac_digits :: "nat \<Rightarrow> rat \<Rightarrow> string" where
  "frac_digits 0 q = []"
| "frac_digits (Suc k) q =
     (if q = 0 then []
      else (let d = \<lfloor>10 * q\<rfloor> in digit_char (nat d) # frac_digits k (10 * q - of_int d)))"

fun num_string :: "jsnum \<Rightarrow> string" where
  "num_string NaN = ''NaN''"
| "num_string PosInf = ''Infinity''"
| "num_string NegInf = ''-Infinity''"
| "num_string (Fin q) =
     (let a = \<bar>q\<bar>; i = \<lfloor>a\<rfloor>; f = a - of_int i in
      (if q < 0 then ''-'' else []) @ dec_nat (nat i)
        @ (if f = 0 then [] else ''.'' @ frac_digits 17 f))"

section \<open>JSON trees\<close>

datatype json =
    JNull
  | JBool bool
  | JNum jsnum
  | JStr string
  | JArr "json list"
  | JObj "(string \<times> json) list"

fun is_object :: "json \<Rightarrow> bool" where
  "is_object (JArr xs) = True"
| "is_object (JObj es) = True"
| "is_object _ = False"

fun strict_eq :: "json \<Rightarrow> json \<Rightarrow> bool" where
  "strict_eq JNull JNull = True"
| "strict_eq (JBool a) (JBool b) = (a = b)"
| "strict_eq (JNum a) (JNum b) = num_eq a b"
| "strict_eq (JStr a) (JStr b) = (a = b)"
| "strict_eq _ _ = False"

fun json_string :: "json \<Rightarrow> string" where
  "json_string JNull = ''null''"
| "json_string (JBool b) = (if b then ''true'' else ''false'')"
| "json_string (JNum n) = num_string n"
| "json_string (JStr s) = s"
| "json_string (JArr xs) =
     join_with '','' (map (\<lambda>x. if x = JNull then [] else json_string x) xs)"
| "json_string (JObj es) = ''[object Object]''"

definition arr_get :: "json list \<Rightarrow> string \<Rightarrow> json option" where
  "arr_get xs key =
     (case find (\<lambda>i. dec_nat i = key) [0..<length xs] of
        Some i \<Rightarrow> Some (xs ! i)
      | None \<Rightarrow> if key = ''length'' then Some (JNum (Fin (of_nat (length xs)))) else None)"

text \<open>\<open>v[key]\<close> of an object or array; primitives never reach it.\<close>

fun json_get :: "json \<Rightarrow> string \<Rightarrow> json option" where
  "json_get (JObj es) key = map_of es key"
| "json_get (JArr xs) key = arr_get xs key"
| "json_get _ key = None"

fun json_truthy :: "json \<Rightarrow> bool" where
  "json_truthy JNull = False"
| "json_truthy (JBool b) = b"
| "json_truthy (JNum n) = (n \<noteq> NaN \<and> n \<noteq> Fin 0)"
| "json_truthy (JStr s) = (s \<noteq> [])"
| "json_truthy _ = True"

text \<open>\<open>a ?? b\<close> of JSON values, and \<open>Object.entries\<close> of objects and arrays.\<close>

definition nullish :: "json option \<Rightarrow> bool" where
  "nullish v = (v = None \<or> v = Some JNull)"

definition coalesce :: "json option \<Rightarrow> json option \<Rightarrow> json option" where
  "coalesce a b = (if nullish a then b else a)"

fun entries_of :: "json \<Rightarrow> (string \<times> json) list" where
  "entries_of (JObj es) = es"
| "entries_of (JArr xs) = zip (map dec_nat [0..<length xs]) xs"
| "entries_of _ = []"

definition as_num :: "json option \<Rightarrow> jsnum option" where
  "as_num v = (case v of Some (JNum n) \<Rightarrow> Some n | _ \<Rightarrow> None)"

text \<open>\<open>v.key\<close> and \<open>v?.trim()\<close>: reads of \<open>null\<close> or \<open>undefined\<close> and calls on other types throw.\<close>

definition prop_of :: "json option \<Rightarrow> string \<Rightarrow> js_error + json option" where
  "prop_of v key =
     (case v of
        None \<Rightarrow> Inl (TypeError (''Cannot read properties of undefined (reading '' @ key @ '')''))
      | Some JNull \<Rightarrow> Inl (TypeError (''Cannot read properties of null (reading '' @ key @ '')''))
      | Some j \<Rightarrow> Inr (json_get j key))"

definition opt_prop :: "json option \<Rightarrow> string \<Rightarrow> json option" where
  "opt_prop v key = (case v of None \<Rightarrow> None | Some j \<Rightarrow> json_get j key)"

definition opt_trim :: "json option \<Rightarrow> js_error + string option" where
  "opt_trim v =
     (case v of
        None \<Rightarrow> Inr None
      | Some JNull \<Rightarrow> Inr None
      | Some (JStr s) \<Rightarrow> Inr (Some (trim s))
      | Some _ \<Rightarrow> Inl (TypeError ''trim is not a function''))"

definition has_key :: "json \<Rightarrow> string \<Rightarrow> bool" where
  "has_key v key = (json_get v key \<noteq> None)"

definition truthy_str :: "string option \<Rightarrow> bool" where
  "truthy_str v = (v \<noteq> None \<and> v \<noteq> Some [])"

lemma truthy_str_simps [simp]: "\<not> truthy_str None" "truthy_str (Some s) \<longleftrightarrow> s \<noteq> []"
  by (auto simp: truthy_str_def)

section \<open>\<open>Number(v)\<close>\<close>

definition is_digit :: "char \<Rightarrow> bool" where
  "is_digit c = (48 \<le> (of_char c :: nat) \<and> (of_char c :: nat) \<le> 57)"

lemma is_digit_digit_char: "m < 10 \<Longrightarrow> is_digit (digit_char m)"
  by (simp add: is_digit_def digit_char_def)

lemma dec_nat_digits: "list_all is_digit (dec_nat n)"
proof (induction n rule: dec_nat.induct)
  case (1 n)
  then show ?case
    by (cases "n < 10") (simp_all add: dec_nat.simps[of n] is_digit_digit_char)
qed

lemma length_dec_nat: "n < 10 ^ k \<Longrightarrow> 0 < k \<Longrightarrow> length (dec_nat n) \<le> k"
proof (induction k arbitrary: n)
  case (Suc k)
  show ?case
  proof (cases "n < 10")
    case True
    then show ?thesis by (simp add: dec_nat.simps[of n])
  next
    case False
    then have "n div 10 < 10 ^ k" "0 < k" using Suc.prems by (auto intro: gr0I)
    with Suc.IH False show ?thesis by (simp add: dec_nat.simps[of n])
  qed
qed simp

definition digits_value :: "string \<Rightarrow> nat" where
  "digits_value s = foldl (\<lambda>n c. 10 * n + (of_char c - 48)) 0 s"

definition decimal_part :: "string \<Rightarrow> (rat \<times> string) option" where
  "decimal_part s =
     (let ip = takeWhile is_digit s; r = dropWhile is_digit s;
          fp = (case r of CHR ''.'' # t \<Rightarrow> takeWhile is_digit t | _ \<Rightarrow> []);
          r' = (case r of CHR ''.'' # t \<Rightarrow> dropWhile is_digit t | _ \<Rightarrow> r)
      in if ip = [] \<and> fp = [] then None
         else Some (of_nat (digits_value (ip @ fp)) / 10 ^ length fp, r'))"

definition exponent_part :: "string \<Rightarrow> int option" where
  "exponent_part s =
     (case s of
        [] \<Rightarrow> Some 0
      | c # t \<Rightarrow>
          (let neg = (take 1 t = ''-''); ds = (if take 1 t \<in> {''-'', ''+''} then drop 1 t else t) in
           if c \<in> {CHR ''e'', CHR ''E''} \<and> ds \<noteq> [] \<and> list_all is_digit ds
           then Some (if neg then - int (digits_value ds) else int (digits_value ds)) else None))"

text \<open>Decimal literals, with the radix prefixes \<open>0x\<close>, \<open>0o\<close> and \<open>0b\<close> left out (they read as \<open>NaN\<close>).\<close>

definition string_number :: "string \<Rightarrow> jsnum" where
  "string_number str =
     (let t = trim str; neg = (take 1 t = ''-'');
          body = (if take 1 t \<in> {''-'', ''+''} then drop 1 t else t)
      in if t = [] then Fin 0
         else if body = ''Infinity'' then (if neg then NegInf else PosInf)
         else (case decimal_part body of
             None \<Rightarrow> NaN
           | Some (q, r) \<Rightarrow>
               (case exponent_part r of
                  None \<Rightarrow> NaN
                | Some e \<Rightarrow>
                    (let v = (if 0 \<le> e then q * 10 ^ nat e else q / 10 ^ nat (- e)) in
                     Fin (if neg then - v else v)))))"

fun json_number :: "json \<Rightarrow> jsnum" where
  "json_number JNull = Fin 0"
| "json_number (JBool b) = Fin (if b then 1 else 0)"
| "json_number (JNum n) = n"
| "json_number (JStr s) = string_number s"
| "json_number (JArr xs) = string_number (json_string (JArr xs))"
| "json_number (JObj es) = NaN"

section \<open>Objects and maps\<close>

text \<open>Recursions into a document end because a member is smaller than its object.\<close>

lemma map_of_size: "map_of es k = Some v \<Longrightarrow> size v < Suc (size_list (size_prod (\<lambda>_. 0) size) es)"
  by (induction es) (auto split: if_splits)

definition from_entries :: "(string \<times> 'a) list \<Rightarrow> (string \<times> 'a) list" where
  "from_entries es = fold (\<lambda>(k, v) o'. AList.update k v o') es []"

lemma from_entries_Nil [simp]: "from_entries [] = []"
  by (simp add: from_entries_def)

lemma fold_update_distinct:
  "distinct (map fst acc) \<Longrightarrow> distinct (map fst (fold (\<lambda>(k, v) o'. AList.update k v o') es acc))"
  by (induction es arbitrary: acc) (auto simp: distinct_update)

lemma from_entries_distinct: "distinct (map fst (from_entries es))"
  by (simp add: from_entries_def fold_update_distinct)

lemma update_append_new: "k \<notin> fst ` set al \<Longrightarrow> AList.update k v al = al @ [(k, v)]"
  by (induction al) auto

lemma fold_update_id:
  "distinct (map fst (acc @ es)) \<Longrightarrow> fold (\<lambda>(k, v) o'. AList.update k v o') es acc = acc @ es"
proof (induction es arbitrary: acc)
  case Nil
  then show ?case by simp
next
  case (Cons e es)
  obtain k v where e: "e = (k, v)" by force
  have "k \<notin> fst ` set acc" using Cons.prems by (auto simp: e)
  then have "AList.update k v acc = acc @ [(k, v)]" by (rule update_append_new)
  with Cons show ?case by (simp add: e)
qed

lemma from_entries_id: "distinct (map fst es) \<Longrightarrow> from_entries es = es"
  using fold_update_id[of "[]" es] by (simp add: from_entries_def)

lemma from_entries_idem [simp]: "from_entries (from_entries es) = from_entries es"
  by (rule from_entries_id) (rule from_entries_distinct)

lemma set_fold_update: "set (fold (\<lambda>(k, v) o'. AList.update k v o') es acc) \<subseteq> set es \<union> set acc"
proof (induction es arbitrary: acc)
  case (Cons e es)
  have "set (AList.update k v al) \<subseteq> insert (k, v) (set al)" for k v and al :: "('a \<times> 'b) list"
    by (induction al) auto
  with Cons show ?case by (cases e) fastforce
qed simp

lemma set_from_entries: "set (from_entries es) \<subseteq> set es"
  using set_fold_update[of es "[]"] by (simp add: from_entries_def)

section \<open>Dates\<close>

definition civil_of_days :: "int \<Rightarrow> int \<times> int \<times> int" where
  "civil_of_days days =
     (let z = days + 719468;
          era = z div 146097;
          doe = z - era * 146097;
          yoe = (doe - doe div 1460 + doe div 36524 - doe div 146096) div 365;
          doy = doe - (365 * yoe + yoe div 4 - yoe div 100);
          mp = (5 * doy + 2) div 153;
          d = doy - (153 * mp + 2) div 5 + 1;
          m = (if mp < 10 then mp + 3 else mp - 9)
      in (yoe + era * 400 + (if m \<le> 2 then 1 else 0), m, d))"

definition pad_int :: "nat \<Rightarrow> int \<Rightarrow> string" where
  "pad_int n i = pad_start n (CHR ''0'') (dec_nat (nat i))"

text \<open>\<open>Date.prototype.toISOString\<close> of a time in milliseconds, for the years 0 to 9999.\<close>

definition iso_string :: "int \<Rightarrow> string" where
  "iso_string ms =
     (case civil_of_days (ms div 86400000) of (y, m, d) \<Rightarrow>
      (let t = ms mod 86400000 in
       pad_int 4 y @ ''-'' @ pad_int 2 m @ ''-'' @ pad_int 2 d @ ''T''
         @ pad_int 2 (t div 3600000) @ '':'' @ pad_int 2 (t div 60000 mod 60) @ '':''
         @ pad_int 2 (t div 1000 mod 60) @ ''.'' @ pad_int 3 (t mod 1000) @ ''Z''))"

section \<open>Sorting by a comparator\<close>

text \<open>\<open>Array.sort\<close> with a comparator: stable insertion.\<close>

fun insert_by :: "('a \<Rightarrow> 'a \<Rightarrow> int) \<Rightarrow> 'a \<Rightarrow> 'a list \<Rightarrow> 'a list" where
  "insert_by cmp x [] = [x]"
| "insert_by cmp x (y # ys) = (if cmp x y \<le> 0 then x # y # ys else y # insert_by cmp x ys)"

definition sort_by :: "('a \<Rightarrow> 'a \<Rightarrow> int) \<Rightarrow> 'a list \<Rightarrow> 'a list" where
  "sort_by cmp xs = foldr (insert_by cmp) xs []"

text \<open>The default order of \<open>Array.sort()\<close> on strings: by code units.\<close>

definition code_unit_cmp :: "string \<Rightarrow> string \<Rightarrow> int" where
  "code_unit_cmp a b = (if a < b then - 1 else if a = b then 0 else 1)"

lemma mset_insert_by [simp]: "mset (insert_by cmp x ys) = add_mset x (mset ys)"
  by (induction ys) auto

lemma mset_sort_by [simp]: "mset (sort_by cmp xs) = mset xs"
  by (induction xs) (auto simp: sort_by_def)

lemma set_sort_by [simp]: "set (sort_by cmp xs) = set xs"
  using mset_sort_by[of cmp xs] by (metis set_mset_mset)

lemma length_sort_by [simp]: "length (sort_by cmp xs) = length xs"
  using mset_sort_by[of cmp xs] by (metis size_mset)

lemma distinct_sort_by [simp]: "distinct (map f (sort_by cmp xs)) \<longleftrightarrow> distinct (map f xs)"
  by (rule mset_eq_imp_distinct_iff) simp

lemma sort_by_Nil [simp]: "sort_by cmp [] = []"
  by (simp add: sort_by_def)

lemma sort_by_id: "sorted_wrt (\<lambda>x y. cmp x y \<le> 0) xs \<Longrightarrow> sort_by cmp xs = xs"
proof (induction xs)
  case Nil
  then show ?case by simp
next
  case (Cons x xs)
  then have "sort_by cmp xs = xs" by simp
  then have "sort_by cmp (x # xs) = insert_by cmp x xs" by (simp add: sort_by_def)
  with Cons.prems show ?case by (cases xs) auto
qed

text \<open>
  What the callers rely on of \<open>localeCompare\<close>, whose tables belong to the host: its sign is a total
  preorder.  The comparators the code builds from it (on a node's id, a variable's name) inherit
  the law, so the contract is stated over any type.
\<close>

locale collation =
  fixes cmp :: "'k \<Rightarrow> 'k \<Rightarrow> int"
  assumes cmp_total: "cmp a b \<le> 0 \<or> cmp b a \<le> 0"
    and cmp_trans: "cmp a b \<le> 0 \<Longrightarrow> cmp b c \<le> 0 \<Longrightarrow> cmp a c \<le> 0"
begin

lemma insert_by_sorted:
  "sorted_wrt (\<lambda>x y. cmp (f x) (f y) \<le> 0) ys \<Longrightarrow>
   sorted_wrt (\<lambda>x y. cmp (f x) (f y) \<le> 0) (insert_by (\<lambda>x y. cmp (f x) (f y)) x ys)"
proof (induction ys)
  case Nil
  then show ?case by simp
next
  case (Cons y ys)
  have "set (insert_by (\<lambda>x y. cmp (f x) (f y)) x ys) = insert x (set ys)"
    using mset_insert_by[of "\<lambda>x y. cmp (f x) (f y)" x ys] by (metis set_mset_add_mset_insert set_mset_mset)
  with Cons show ?case
    using cmp_total cmp_trans by auto
qed

lemma sort_by_sorted:
  "sorted_wrt (\<lambda>x y. cmp (f x) (f y) \<le> 0) (sort_by (\<lambda>x y. cmp (f x) (f y)) xs)"
  by (induction xs) (auto simp: sort_by_def insert_by_sorted)

lemma sort_by_idem:
  "sort_by (\<lambda>x y. cmp (f x) (f y)) (sort_by (\<lambda>x y. cmp (f x) (f y)) xs)
     = sort_by (\<lambda>x y. cmp (f x) (f y)) xs"
  by (rule sort_by_id) (rule sort_by_sorted)

lemma cmp_refl: "cmp a a \<le> 0"
  using cmp_total by blast

text \<open>A stable sort begins with the first of the least elements.\<close>

lemma sort_by_first:
  "sort_by (\<lambda>x y. cmp (f x) (f y)) xs = b # r \<Longrightarrow>
   \<exists>i<length xs. xs ! i = b \<and> (\<forall>j<length xs. cmp (f b) (f (xs ! j)) \<le> 0)
     \<and> (\<forall>j<i. \<not> cmp (f (xs ! j)) (f b) \<le> 0)"
proof (induction xs arbitrary: b r)
  case Nil
  then show ?case by simp
next
  case (Cons x xs)
  let ?sorted = "sort_by (\<lambda>x y. cmp (f x) (f y)) xs"
  have ins: "insert_by (\<lambda>x y. cmp (f x) (f y)) x ?sorted = b # r"
    using Cons.prems by (simp add: sort_by_def)
  show ?case
  proof (cases ?sorted)
    case Nil
    then have "xs = []" by (metis length_0_conv length_sort_by)
    with ins Nil show ?thesis by (simp add: cmp_refl)
  next
    case (Cons b' r')
    obtain i where i: "i < length xs" "xs ! i = b'" "\<forall>j<length xs. cmp (f b') (f (xs ! j)) \<le> 0"
      "\<forall>j<i. \<not> cmp (f (xs ! j)) (f b') \<le> 0"
      using Cons.IH[OF Cons] by blast
    show ?thesis
    proof (cases "cmp (f x) (f b') \<le> 0")
      case True
      then have b: "b = x" using ins Cons by simp
      have "cmp (f x) (f ((x # xs) ! j)) \<le> 0" if "j < length (x # xs)" for j
        using that i(3) True cmp_trans cmp_refl by (cases j) auto
      then show ?thesis using b by (intro exI[of _ 0]) simp
    next
      case False
      then have b: "b = b'" using ins Cons by simp
      have "cmp (f b') (f ((x # xs) ! j)) \<le> 0" if "j < length (x # xs)" for j
        using that i(3) False cmp_total by (cases j) auto
      moreover have "\<not> cmp (f ((x # xs) ! j)) (f b') \<le> 0" if "j < Suc i" for j
        using that i(4) False by (cases j) auto
      ultimately show ?thesis using b i(1,2) by (intro exI[of _ "Suc i"]) simp
    qed
  qed
qed

end

interpretation code_units: collation code_unit_cmp
  by unfold_locales (auto simp: code_unit_cmp_def split: if_splits)

text \<open>\<open>(left, right) => right - left\<close>, the order the code uses for scores and revision numbers.\<close>

definition descending :: "int \<Rightarrow> int \<Rightarrow> int" where
  "descending left right = right - left"

interpretation down: collation descending
  by unfold_locales (auto simp: descending_def)

end
