(* ===== verification/Async.thy ===== *)
theory Async
  imports Json
begin

text \<open>
  Asynchronous service code.  A computation runs over a store that other clients of the database
  change too: every awaited call consumes one entry of \<open>pending\<close>, which says what the others do to
  the store just before the call and whether the call answers, is rejected, or takes effect and
  loses its reply.  When \<open>pending\<close> is exhausted nobody interferes.  Code between two awaits is
  atomic, as on the JavaScript event loop.  \<open>upholds R\<close> is the guarantee of a computation under the
  rely \<open>R\<close> of the others; the locale \<open>step_relation\<close> proves it compositionally.
\<close>

named_theorems upholds_intros "rules that establish a guarantee"
named_theorems run_simps "evaluation of computations"

datatype outcome = Done | Rejected js_error | LostReply js_error

datatype 's call_env = CallEnv (others: "'s \<Rightarrow> 's") (reply: outcome)

record 's world =
  store :: 's
  pending :: "'s call_env list"

type_synonym ('s, 'a) io = "'s world \<Rightarrow> (js_error + 'a) \<times> 's world"

definition io_return :: "'a \<Rightarrow> ('s, 'a) io" where
  "io_return a w = (Inr a, w)"

definition io_throw :: "js_error \<Rightarrow> ('s, 'a) io" where
  "io_throw e w = (Inl e, w)"

definition io_bind :: "('s, 'a) io \<Rightarrow> ('a \<Rightarrow> ('s, 'b) io) \<Rightarrow> ('s, 'b) io" where
  "io_bind m f w = (case m w of (Inl e, w') \<Rightarrow> (Inl e, w') | (Inr a, w') \<Rightarrow> f a w')"

definition io_then :: "('s, 'a) io \<Rightarrow> ('s, 'b) io \<Rightarrow> ('s, 'b) io" where
  "io_then m k = io_bind m (\<lambda>_. k)"

text \<open>\<open>try { m } catch (e) { h e }\<close>\<close>

definition io_catch :: "('s, 'a) io \<Rightarrow> (js_error \<Rightarrow> ('s, 'a) io) \<Rightarrow> ('s, 'a) io" where
  "io_catch m h w = (case m w of (Inl e, w') \<Rightarrow> h e w' | (Inr a, w') \<Rightarrow> (Inr a, w'))"

text \<open>\<open>m.catch(() => undefined)\<close> and the \<open>finally\<close> clause.\<close>

definition io_ignore :: "('s, 'a) io \<Rightarrow> ('s, unit) io" where
  "io_ignore m = io_catch (io_then m (io_return ())) (\<lambda>_. io_return ())"

definition io_finally :: "('s, 'a) io \<Rightarrow> ('s, unit) io \<Rightarrow> ('s, 'a) io" where
  "io_finally m f w =
     (case m w of (r, w') \<Rightarrow> (case f w' of (Inl e, w'') \<Rightarrow> (Inl e, w'') | (Inr _, w'') \<Rightarrow> (r, w'')))"

text \<open>A synchronous read of the store: the clock, a configuration value.\<close>

definition io_peek :: "('s \<Rightarrow> 'a) \<Rightarrow> ('s, 'a) io" where
  "io_peek f w = (Inr (f (store w)), w)"

definition io_lift :: "js_error + 'a \<Rightarrow> ('s, 'a) io" where
  "io_lift r w = (r, w)"

definition io_call :: "('s \<Rightarrow> (js_error + 'a) \<times> 's) \<Rightarrow> ('s, 'a) io" where
  "io_call f w =
     (case pending w of
        [] \<Rightarrow> (case f (store w) of (r, s) \<Rightarrow> (r, w\<lparr>store := s\<rparr>))
      | c # cs \<Rightarrow>
          (let s0 = others c (store w) in
           case reply c of
             Done \<Rightarrow> (case f s0 of (r, s) \<Rightarrow> (r, \<lparr>store = s, pending = cs\<rparr>))
           | Rejected e \<Rightarrow> (Inl e, \<lparr>store = s0, pending = cs\<rparr>)
           | LostReply e \<Rightarrow> (Inl e, \<lparr>store = snd (f s0), pending = cs\<rparr>)))"

definition io_read :: "('s \<Rightarrow> 'a) \<Rightarrow> ('s, 'a) io" where
  "io_read f = io_call (\<lambda>s. (Inr (f s), s))"

fun io_for :: "'a list \<Rightarrow> ('a \<Rightarrow> ('s, unit) io) \<Rightarrow> ('s, unit) io" where
  "io_for [] f = io_return ()"
| "io_for (x # xs) f = io_then (f x) (io_for xs f)"

definition quiet :: "'s \<Rightarrow> 's world" where
  "quiet s = \<lparr>store = s, pending = []\<rparr>"

lemma quiet_inject [simp]: "quiet s = quiet t \<longleftrightarrow> s = t"
  by (simp add: quiet_def)

lemma io_return_run [run_simps]: "io_return a w = (Inr a, w)"
  by (simp add: io_return_def)

lemma io_throw_run [run_simps]: "io_throw e w = (Inl e, w)"
  by (simp add: io_throw_def)

lemma io_lift_run [run_simps]: "io_lift r w = (r, w)"
  by (simp add: io_lift_def)

lemma io_peek_run [run_simps]: "io_peek f w = (Inr (f (store w)), w)"
  by (simp add: io_peek_def)

lemma io_call_quiet [run_simps]: "io_call f (quiet s) = (case f s of (r, s') \<Rightarrow> (r, quiet s'))"
  by (simp add: io_call_def quiet_def split: prod.splits)

lemma io_read_quiet [run_simps]: "io_read f (quiet s) = (Inr (f s), quiet s)"
  by (simp add: io_read_def run_simps)

lemma store_quiet [run_simps, simp]: "store (quiet s) = s" "pending (quiet s) = []"
  by (simp_all add: quiet_def)

lemmas io_defs = io_bind_def io_then_def io_catch_def io_ignore_def io_finally_def

section \<open>Rely and guarantee\<close>

definition rely :: "('s \<Rightarrow> 's \<Rightarrow> bool) \<Rightarrow> 's call_env list \<Rightarrow> bool" where
  "rely R cs = (\<forall>c\<in>set cs. \<forall>s. R s (others c s))"

definition upholds :: "('s \<Rightarrow> 's \<Rightarrow> bool) \<Rightarrow> ('s, 'a) io \<Rightarrow> bool" where
  "upholds R m =
     (\<forall>w. rely R (pending w) \<longrightarrow> R (store w) (store (snd (m w))) \<and> rely R (pending (snd (m w))))"

lemma rely_simps [simp]:
  "rely R []"
  "rely R (c # cs) \<longleftrightarrow> (\<forall>s. R s (others c s)) \<and> rely R cs"
  by (auto simp: rely_def)

lemma upholdsD:
  "upholds R m \<Longrightarrow> rely R (pending w) \<Longrightarrow> R (store w) (store (snd (m w)))"
  by (simp add: upholds_def)

lemma upholds_run:
  assumes "upholds R m" "rely R (pending w)" "m w = (r, w')"
  shows "R (store w) (store w')" and "rely R (pending w')"
  using assms unfolding upholds_def by (metis snd_conv)+

locale step_relation =
  fixes R :: "'s \<Rightarrow> 's \<Rightarrow> bool"
  assumes step_refl: "R s s"
    and step_trans: "R s t \<Longrightarrow> R t u \<Longrightarrow> R s u"
begin

lemma upholds_return: "upholds R (io_return a)"
  by (simp add: upholds_def io_return_def step_refl)

lemma upholds_throw: "upholds R (io_throw e)"
  by (simp add: upholds_def io_throw_def step_refl)

lemma upholds_lift: "upholds R (io_lift r)"
  by (simp add: upholds_def io_lift_def step_refl)

lemma upholds_peek: "upholds R (io_peek f)"
  by (simp add: upholds_def io_peek_def step_refl)

lemma upholds_bind:
  assumes "upholds R m" "\<And>a. upholds R (f a)"
  shows "upholds R (io_bind m f)"
  unfolding upholds_def
proof (intro allI impI)
  fix w :: "'s world" assume w: "rely R (pending w)"
  obtain r w' where m: "m w = (r, w')" by force
  have 1: "R (store w) (store w')" "rely R (pending w')"
    using upholds_run[OF assms(1) w m] .
  show "R (store w) (store (snd (io_bind m f w))) \<and> rely R (pending (snd (io_bind m f w)))"
  proof (cases r)
    case (Inl e)
    with m 1 show ?thesis by (simp add: io_bind_def)
  next
    case (Inr a)
    have "R (store w') (store (snd (f a w')))" "rely R (pending (snd (f a w')))"
      using assms(2)[of a] 1(2) by (simp_all add: upholds_def)
    with m 1 Inr show ?thesis by (auto simp: io_bind_def intro: step_trans)
  qed
qed

lemma upholds_then: "upholds R m \<Longrightarrow> upholds R k \<Longrightarrow> upholds R (io_then m k)"
  by (simp add: io_then_def upholds_bind)

lemma upholds_catch:
  assumes "upholds R m" "\<And>e. upholds R (h e)"
  shows "upholds R (io_catch m h)"
  unfolding upholds_def
proof (intro allI impI)
  fix w :: "'s world" assume w: "rely R (pending w)"
  obtain r w' where m: "m w = (r, w')" by force
  have 1: "R (store w) (store w')" "rely R (pending w')"
    using upholds_run[OF assms(1) w m] .
  show "R (store w) (store (snd (io_catch m h w))) \<and> rely R (pending (snd (io_catch m h w)))"
  proof (cases r)
    case (Inr e)
    with m 1 show ?thesis by (simp add: io_catch_def)
  next
    case (Inl e)
    have "R (store w') (store (snd (h e w')))" "rely R (pending (snd (h e w')))"
      using assms(2)[of e] 1(2) by (simp_all add: upholds_def)
    with m 1 Inl show ?thesis by (auto simp: io_catch_def intro: step_trans)
  qed
qed

lemma upholds_ignore: "upholds R m \<Longrightarrow> upholds R (io_ignore m)"
  by (simp add: io_ignore_def upholds_catch upholds_then upholds_return)

lemma upholds_finally:
  assumes "upholds R m" "upholds R f"
  shows "upholds R (io_finally m f)"
  unfolding upholds_def
proof (intro allI impI)
  fix w :: "'s world" assume w: "rely R (pending w)"
  obtain r w' where m: "m w = (r, w')" by force
  obtain r2 w2 where f: "f w' = (r2, w2)" by force
  have 1: "R (store w) (store w')" "rely R (pending w')"
    using upholds_run[OF assms(1) w m] .
  have 2: "R (store w') (store w2)" "rely R (pending w2)"
    using upholds_run[OF assms(2) 1(2) f] .
  have "snd (io_finally m f w) = w2"
    by (simp add: io_finally_def m f split: sum.splits)
  with 1 2 step_trans show "R (store w) (store (snd (io_finally m f w)))
      \<and> rely R (pending (snd (io_finally m f w)))"
    by auto
qed

lemma upholds_call:
  assumes "\<And>s. R s (snd (f s))"
  shows "upholds R (io_call f)"
  unfolding upholds_def
proof (intro allI impI)
  fix w :: "'s world" assume w: "rely R (pending w)"
  show "R (store w) (store (snd (io_call f w))) \<and> rely R (pending (snd (io_call f w)))"
  proof (cases "pending w")
    case Nil
    then show ?thesis
      using assms[of "store w"] by (cases "f (store w)") (simp add: io_call_def)
  next
    case (Cons c cs)
    have o: "R (store w) (others c (store w))" using w Cons by simp
    have "R (store w) (snd (f (others c (store w))))"
      using step_trans[OF o assms] .
    with o w Cons show ?thesis
      by (cases "f (others c (store w))"; cases "reply c") (simp_all add: io_call_def Let_def)
  qed
qed

lemma upholds_read: "upholds R (io_read f)"
  unfolding io_read_def by (rule upholds_call) (simp add: step_refl)

lemma upholds_for: "(\<And>x. x \<in> set xs \<Longrightarrow> upholds R (f x)) \<Longrightarrow> upholds R (io_for xs f)"
  by (induction xs) (auto intro: upholds_return upholds_then)

lemmas upholds_rules =
  upholds_return upholds_throw upholds_lift upholds_peek upholds_bind upholds_then
  upholds_catch upholds_ignore upholds_finally upholds_read upholds_for

end

text \<open>Equality of one component of the store is a step relation: what nobody writes stays.\<close>

definition same_part :: "('s \<Rightarrow> 'b) \<Rightarrow> 's \<Rightarrow> 's \<Rightarrow> bool" where
  "same_part f s t = (f s = f t)"

end
