(* ===== verification/Run_Status.thy ===== *)
theory Run_Status
  imports Async
begin

text \<open>
  The life cycle of a test run: the enum \<open>TestRunStatus\<close> of the Prisma schema, the status groups of
  \<open>test-run-status.constants.ts\<close> and the transition table of \<open>test-run-state.service.ts\<close>.  The type
  is ordered along the life cycle; every allowed transition goes up in that order.
\<close>

datatype test_run_status =
    CREATED | QUEUED | CLAIMED
  | PREPARING_WORKSPACE | VALIDATING_ENVIRONMENT | PULLING_IMAGES | STARTING_ENVIRONMENT
  | WAITING_FOR_HEALTHCHECK | EXECUTING_TESTS | COLLECTING_ARTIFACTS | CLEANING_UP
  | PASSED | TEST_FAILED | INFRA_FAILED | TIMED_OUT | CANCEL_REQUESTED | CANCELLED

datatype failure_category =
    TEST_ASSERTION | ENVIRONMENT_VALIDATION | IMAGE_PULL | CONTAINER_START | HEALTHCHECK
  | NETWORK | TIMEOUT | CANCELLED_CATEGORY | INTERNAL

definition phase_statuses :: "test_run_status list" where
  "phase_statuses =
     [PREPARING_WORKSPACE, VALIDATING_ENVIRONMENT, PULLING_IMAGES, STARTING_ENVIRONMENT,
      WAITING_FOR_HEALTHCHECK, EXECUTING_TESTS, COLLECTING_ARTIFACTS, CLEANING_UP]"

definition terminal_statuses :: "test_run_status list" where
  "terminal_statuses = [PASSED, TEST_FAILED, INFRA_FAILED, TIMED_OUT, CANCELLED]"

definition active_statuses :: "test_run_status list" where
  "active_statuses = [CREATED, QUEUED, CLAIMED] @ phase_statuses @ [CANCEL_REQUESTED]"

definition cancellable_statuses :: "test_run_status list" where
  "cancellable_statuses = [QUEUED, CLAIMED] @ phase_statuses"

definition is_terminal :: "test_run_status \<Rightarrow> bool" where
  "is_terminal s = (s \<in> set terminal_statuses)"

definition is_phase :: "test_run_status \<Rightarrow> bool" where
  "is_phase s = (s \<in> set phase_statuses)"

fun allowed_transitions :: "test_run_status \<Rightarrow> test_run_status list" where
  "allowed_transitions CREATED = [QUEUED, INFRA_FAILED]"
| "allowed_transitions QUEUED = [CLAIMED, CANCEL_REQUESTED, INFRA_FAILED]"
| "allowed_transitions CLAIMED = [PREPARING_WORKSPACE, CANCEL_REQUESTED, INFRA_FAILED]"
| "allowed_transitions PREPARING_WORKSPACE =
     [VALIDATING_ENVIRONMENT, CANCEL_REQUESTED, INFRA_FAILED]"
| "allowed_transitions VALIDATING_ENVIRONMENT = [PULLING_IMAGES, CANCEL_REQUESTED, INFRA_FAILED]"
| "allowed_transitions PULLING_IMAGES = [STARTING_ENVIRONMENT, CANCEL_REQUESTED, INFRA_FAILED]"
| "allowed_transitions STARTING_ENVIRONMENT =
     [WAITING_FOR_HEALTHCHECK, CANCEL_REQUESTED, INFRA_FAILED]"
| "allowed_transitions WAITING_FOR_HEALTHCHECK =
     [EXECUTING_TESTS, CANCEL_REQUESTED, INFRA_FAILED, TIMED_OUT]"
| "allowed_transitions EXECUTING_TESTS =
     [COLLECTING_ARTIFACTS, CANCEL_REQUESTED, TEST_FAILED, TIMED_OUT, INFRA_FAILED]"
| "allowed_transitions COLLECTING_ARTIFACTS = [CLEANING_UP, CANCEL_REQUESTED, INFRA_FAILED]"
| "allowed_transitions CLEANING_UP = [PASSED, TEST_FAILED, INFRA_FAILED, CANCELLED]"
| "allowed_transitions CANCEL_REQUESTED = [CANCELLED]"
| "allowed_transitions PASSED = []"
| "allowed_transitions TEST_FAILED = []"
| "allowed_transitions INFRA_FAILED = []"
| "allowed_transitions TIMED_OUT = []"
| "allowed_transitions CANCELLED = []"

definition can_transition :: "test_run_status \<Rightarrow> test_run_status \<Rightarrow> bool" where
  "can_transition from to =
     (if is_terminal from then False else from = to \<or> to \<in> set (allowed_transitions from))"

lemmas status_group_defs =
  phase_statuses_def terminal_statuses_def active_statuses_def cancellable_statuses_def
  is_terminal_def is_phase_def

fun status_name :: "test_run_status \<Rightarrow> string" where
  "status_name CREATED = ''CREATED''"
| "status_name QUEUED = ''QUEUED''"
| "status_name CLAIMED = ''CLAIMED''"
| "status_name PREPARING_WORKSPACE = ''PREPARING_WORKSPACE''"
| "status_name VALIDATING_ENVIRONMENT = ''VALIDATING_ENVIRONMENT''"
| "status_name PULLING_IMAGES = ''PULLING_IMAGES''"
| "status_name STARTING_ENVIRONMENT = ''STARTING_ENVIRONMENT''"
| "status_name WAITING_FOR_HEALTHCHECK = ''WAITING_FOR_HEALTHCHECK''"
| "status_name EXECUTING_TESTS = ''EXECUTING_TESTS''"
| "status_name COLLECTING_ARTIFACTS = ''COLLECTING_ARTIFACTS''"
| "status_name CLEANING_UP = ''CLEANING_UP''"
| "status_name PASSED = ''PASSED''"
| "status_name TEST_FAILED = ''TEST_FAILED''"
| "status_name INFRA_FAILED = ''INFRA_FAILED''"
| "status_name TIMED_OUT = ''TIMED_OUT''"
| "status_name CANCEL_REQUESTED = ''CANCEL_REQUESTED''"
| "status_name CANCELLED = ''CANCELLED''"

section \<open>The life-cycle order\<close>

fun status_rank :: "test_run_status \<Rightarrow> nat" where
  "status_rank CREATED = 0"
| "status_rank QUEUED = 1"
| "status_rank CLAIMED = 2"
| "status_rank PREPARING_WORKSPACE = 3"
| "status_rank VALIDATING_ENVIRONMENT = 4"
| "status_rank PULLING_IMAGES = 5"
| "status_rank STARTING_ENVIRONMENT = 6"
| "status_rank WAITING_FOR_HEALTHCHECK = 7"
| "status_rank EXECUTING_TESTS = 8"
| "status_rank COLLECTING_ARTIFACTS = 9"
| "status_rank CLEANING_UP = 10"
| "status_rank CANCEL_REQUESTED = 11"
| "status_rank PASSED = 12"
| "status_rank TEST_FAILED = 13"
| "status_rank INFRA_FAILED = 14"
| "status_rank TIMED_OUT = 15"
| "status_rank CANCELLED = 16"

lemma status_rank_inj: "status_rank a = status_rank b \<Longrightarrow> a = b"
  by (cases a; cases b) simp_all

instantiation test_run_status :: linorder
begin

definition less_eq_test_run_status :: "test_run_status \<Rightarrow> test_run_status \<Rightarrow> bool" where
  "less_eq_test_run_status a b = (status_rank a \<le> status_rank b)"

definition less_test_run_status :: "test_run_status \<Rightarrow> test_run_status \<Rightarrow> bool" where
  "less_test_run_status a b = (status_rank a < status_rank b)"

instance
  by standard
    (auto simp: less_eq_test_run_status_def less_test_run_status_def intro: status_rank_inj)

end

inductive status_step :: "test_run_status \<Rightarrow> test_run_status \<Rightarrow> bool" where
  status_stepI: "to \<in> set (allowed_transitions from) \<Longrightarrow> status_step from to"

code_pred status_step .

inductive_simps status_step_iff [simp]: "status_step from to"

lemma is_terminal_iff:
  "is_terminal s \<longleftrightarrow> s = PASSED \<or> s = TEST_FAILED \<or> s = INFRA_FAILED \<or> s = TIMED_OUT \<or> s = CANCELLED"
  by (auto simp: status_group_defs)

lemma is_terminal_simps [simp]:
  "\<not> is_terminal CREATED" "\<not> is_terminal QUEUED" "\<not> is_terminal CLAIMED"
  "\<not> is_terminal PREPARING_WORKSPACE" "\<not> is_terminal VALIDATING_ENVIRONMENT"
  "\<not> is_terminal PULLING_IMAGES" "\<not> is_terminal STARTING_ENVIRONMENT"
  "\<not> is_terminal WAITING_FOR_HEALTHCHECK" "\<not> is_terminal EXECUTING_TESTS"
  "\<not> is_terminal COLLECTING_ARTIFACTS" "\<not> is_terminal CLEANING_UP"
  "\<not> is_terminal CANCEL_REQUESTED" "is_terminal PASSED" "is_terminal TEST_FAILED"
  "is_terminal INFRA_FAILED" "is_terminal TIMED_OUT" "is_terminal CANCELLED"
  by (simp_all add: is_terminal_iff)

lemma is_phase_simps [simp]:
  "\<not> is_phase CREATED" "\<not> is_phase QUEUED" "\<not> is_phase CLAIMED" "\<not> is_phase CANCEL_REQUESTED"
  "\<not> is_phase PASSED" "\<not> is_phase TEST_FAILED" "\<not> is_phase INFRA_FAILED" "\<not> is_phase TIMED_OUT"
  "\<not> is_phase CANCELLED" "is_phase PREPARING_WORKSPACE" "is_phase VALIDATING_ENVIRONMENT"
  "is_phase PULLING_IMAGES" "is_phase STARTING_ENVIRONMENT" "is_phase WAITING_FOR_HEALTHCHECK"
  "is_phase EXECUTING_TESTS" "is_phase COLLECTING_ARTIFACTS" "is_phase CLEANING_UP"
  by (simp_all add: status_group_defs)

lemma terminal_no_transitions: "is_terminal s \<longleftrightarrow> allowed_transitions s = []"
  by (cases s) simp_all

lemma allowed_increases: "b \<in> set (allowed_transitions a) \<Longrightarrow> a < b"
  by (cases a) (auto simp: less_test_run_status_def)

lemma status_path_increases: "status_step\<^sup>*\<^sup>* a b \<Longrightarrow> a \<le> b"
  by (induction rule: rtranclp_induct)
    (auto dest!: allowed_increases)

lemma terminal_path: "status_step\<^sup>*\<^sup>* a b \<Longrightarrow> is_terminal a \<Longrightarrow> b = a"
  by (induction rule: converse_rtranclp_induct) (auto simp: terminal_no_transitions)

lemma phase_not_terminal: "is_phase s \<Longrightarrow> \<not> is_terminal s"
  by (cases s) simp_all

lemma active_iff_not_terminal: "s \<in> set active_statuses \<longleftrightarrow> \<not> is_terminal s"
  by (cases s) (simp_all add: status_group_defs)

lemma can_transition_iff:
  "can_transition a b \<longleftrightarrow> \<not> is_terminal a \<and> (a = b \<or> b \<in> set (allowed_transitions a))"
  by (simp add: can_transition_def)

lemma can_transition_path: "can_transition a b \<Longrightarrow> status_step\<^sup>*\<^sup>* a b"
  by (auto simp: can_transition_def split: if_splits)

lemma cancellable_requestable:
  "s \<in> set cancellable_statuses \<Longrightarrow> s \<noteq> CLEANING_UP \<Longrightarrow> can_transition s CANCEL_REQUESTED"
  by (auto simp: status_group_defs can_transition_def)

end
