(* ===== verification/Run_State.thy ===== *)
theory Run_State
  imports Run_Status
begin

text \<open>
  \<open>TestRunStateService\<close> (\<open>test-runs/test-run-state.service.ts\<close>): the \<open>TestRun\<close> row of the Prisma
  schema, the store that holds the rows and the clock, and one definition per method of the service.
  Every Prisma call is an awaited call, so other clients act between the read and the conditional
  write of a transition.  \<open>row_step\<close> is what any operation may do to a row, \<open>row_inv\<close> the
  well-formedness of a row; all operations uphold both against interference that does.
\<close>

section \<open>The row and the store\<close>

record test_run =
  runId :: string
  projectId :: string
  status :: test_run_status
  statusReason :: "string option"
  failureCategory :: "failure_category option"
  currentPhase :: "test_run_status option"
  phaseTimestamps :: "json option"
  queueJobId :: "string option"
  queuedAt :: "int option"
  enqueuedAt :: "int option"
  claimedAt :: "int option"
  cancellationRequestedAt :: "int option"
  cancelRequestedAt :: "int option"
  cancelRequestedBy :: "string option"
  cancellationReason :: "string option"
  runnerId :: "string option"
  leaseAcquiredAt :: "int option"
  leaseExpiresAt :: "int option"
  heartbeatAt :: "int option"
  attempt :: nat
  cleanupError :: "string option"
  startedAt :: "int option"
  finishedAt :: "int option"
  totalTests :: nat
  passedTests :: nat
  failedTests :: nat
  durationMs :: "int option"
  errorMessage :: "string option"
  executionMetadata :: "(string \<times> json) list"

record run_store =
  clock :: int
  runs :: "string \<rightharpoonup> test_run"

record run_stats =
  statTotal :: nat
  statPassed :: nat
  statFailed :: nat

record lease_options =
  leaseRunner :: string
  leaseDuration :: int

text \<open>A column set to \<open>undefined\<close> in a Prisma update keeps its value.\<close>

definition keep_unless :: "'a option \<Rightarrow> 'a option \<Rightarrow> 'a option" where
  "keep_unless new old = (case new of None \<Rightarrow> old | Some v \<Rightarrow> Some v)"

lemma keep_unless_simps [simp]: "keep_unless None old = old" "keep_unless (Some v) old = Some v"
  by (simp_all add: keep_unless_def)

section \<open>Prisma calls on the table\<close>

definition find_run :: "string \<Rightarrow> ('a run_store_scheme, test_run option) io" where
  "find_run tid = io_read (\<lambda>s. runs s tid)"

definition find_run_or_throw :: "string \<Rightarrow> ('a run_store_scheme, test_run) io" where
  "find_run_or_throw tid =
     io_call (\<lambda>s. (case runs s tid of
        None \<Rightarrow> Inl (PlainError ''No TestRun found'') | Some r \<Rightarrow> Inr r, s))"

definition update_row ::
    "string \<Rightarrow> (test_run \<Rightarrow> bool) \<Rightarrow> (test_run \<Rightarrow> test_run) \<Rightarrow>
     'a run_store_scheme \<Rightarrow> nat \<times> 'a run_store_scheme" where
  "update_row tid cond upd s =
     (case runs s tid of
        None \<Rightarrow> (0, s)
      | Some r \<Rightarrow> if cond r then (1, s\<lparr>runs := (runs s)(tid \<mapsto> upd r)\<rparr>) else (0, s))"

definition update_many ::
    "string \<Rightarrow> (test_run \<Rightarrow> bool) \<Rightarrow> (test_run \<Rightarrow> test_run) \<Rightarrow>
     ('a run_store_scheme, nat) io" where
  "update_many tid cond upd =
     io_call (\<lambda>s. case update_row tid cond upd s of (n, s') \<Rightarrow> (Inr n, s'))"

section \<open>Private helpers of the service\<close>

definition cleared_lease :: "test_run \<Rightarrow> test_run" where
  "cleared_lease r =
     r\<lparr>runnerId := None, leaseAcquiredAt := None, leaseExpiresAt := None, heartbeatAt := None\<rparr>"

definition assert_transition_allowed ::
    "test_run \<Rightarrow> test_run_status \<Rightarrow> js_error + unit" where
  "assert_transition_allowed run target =
     (if is_terminal (status run)
      then Inl (ConflictException
        (''Cannot transition terminal test run from '' @ status_name (status run)))
      else if status run = target then Inr ()
      else if target \<notin> set (allowed_transitions (status run))
      then Inl (ConflictException
        (''Invalid test run status transition: '' @ status_name (status run) @ '' -> ''
           @ status_name target))
      else Inr ())"

fun is_string_entry :: "string \<times> json \<Rightarrow> bool" where
  "is_string_entry (k, JStr s) = True"
| "is_string_entry _ = False"

definition existing_timestamps :: "json option \<Rightarrow> (string \<times> json) list" where
  "existing_timestamps p = (case p of Some (JObj es) \<Rightarrow> filter is_string_entry es | _ \<Rightarrow> [])"

definition next_phase_timestamps ::
    "test_run \<Rightarrow> test_run_status \<Rightarrow> int \<Rightarrow> json option" where
  "next_phase_timestamps run target now =
     (if \<not> is_phase target then None
      else (let existing = existing_timestamps (phaseTimestamps run) in
        Some (JObj (AList.update (status_name target)
          (case map_of existing (status_name target) of
             Some t \<Rightarrow> t | None \<Rightarrow> JStr (iso_string now))
          existing))))"

definition transition_data ::
    "test_run \<Rightarrow> test_run_status \<Rightarrow> int \<Rightarrow> (test_run \<Rightarrow> test_run) \<Rightarrow> test_run \<Rightarrow> test_run" where
  "transition_data run target now data r =
     (data r)\<lparr>status := target,
       currentPhase := (if is_phase target then Some target else None),
       phaseTimestamps := keep_unless (next_phase_timestamps run target now) (phaseTimestamps r)\<rparr>"

definition transition ::
    "string \<Rightarrow> test_run_status \<Rightarrow> (test_run \<Rightarrow> test_run) \<Rightarrow>
     ('a run_store_scheme, test_run) io" where
  "transition tid target data =
     io_bind (find_run tid) (\<lambda>found. case found of
       None \<Rightarrow> io_throw (NotFoundException ''Test run not found'')
     | Some run \<Rightarrow>
         io_then (io_lift (assert_transition_allowed run target))
         (io_bind (io_peek clock) (\<lambda>now.
          io_bind (update_many tid (\<lambda>r. status r = status run)
                     (transition_data run target now data)) (\<lambda>count.
          if count = 0
          then io_throw (ConflictException ''Test run status changed concurrently'')
          else find_run_or_throw tid))))"

definition is_terminal_run :: "string \<Rightarrow> ('a run_store_scheme, bool) io" where
  "is_terminal_run tid =
     io_bind (find_run tid) (\<lambda>found. case found of
       None \<Rightarrow> io_throw (NotFoundException ''Test run not found'')
     | Some run \<Rightarrow> io_return (is_terminal (status run)))"

section \<open>The public methods\<close>

definition claim_data :: "lease_options \<Rightarrow> int \<Rightarrow> test_run \<Rightarrow> test_run" where
  "claim_data lease now r =
     r\<lparr>status := CLAIMED, currentPhase := None,
       runnerId := Some (leaseRunner lease), leaseAcquiredAt := Some now,
       leaseExpiresAt := Some (now + leaseDuration lease), heartbeatAt := Some now,
       attempt := attempt r + 1, claimedAt := Some now, startedAt := Some now,
       statusReason := None, failureCategory := None\<rparr>"

definition lease_free :: "int \<Rightarrow> test_run \<Rightarrow> bool" where
  "lease_free now r = (case leaseExpiresAt r of None \<Rightarrow> True | Some t \<Rightarrow> t < now)"

definition claim ::
    "string \<Rightarrow> lease_options option \<Rightarrow> ('a run_store_scheme, test_run) io" where
  "claim tid lease =
     (case lease of
        None \<Rightarrow>
          io_bind (io_peek clock) (\<lambda>now.
          transition tid CLAIMED (\<lambda>r. r\<lparr>claimedAt := Some now, startedAt := Some now,
            statusReason := None, failureCategory := None\<rparr>))
      | Some l \<Rightarrow>
          io_bind (io_peek clock) (\<lambda>now.
          io_bind (find_run tid) (\<lambda>found. case found of
            None \<Rightarrow> io_throw (NotFoundException ''Test run not found'')
          | Some run \<Rightarrow>
              io_then (io_lift (assert_transition_allowed run CLAIMED))
              (io_bind (update_many tid (\<lambda>r. status r = status run \<and> lease_free now r)
                          (claim_data l now)) (\<lambda>count.
               if count = 0
               then io_throw (ConflictException ''Test run has an active execution lease'')
               else find_run_or_throw tid)))))"

definition queued_data :: "string \<Rightarrow> int \<Rightarrow> test_run \<Rightarrow> test_run" where
  "queued_data jobId now r =
     cleared_lease (r\<lparr>queueJobId := Some jobId, queuedAt := Some now, enqueuedAt := Some now,
       statusReason := None, failureCategory := None\<rparr>)"

definition mark_queued :: "string \<Rightarrow> string \<Rightarrow> ('a run_store_scheme, test_run) io" where
  "mark_queued tid jobId =
     io_bind (io_peek clock) (\<lambda>now. transition tid QUEUED (queued_data jobId now))"

definition get_queue_state :: "string \<Rightarrow> ('a run_store_scheme, test_run) io" where
  "get_queue_state tid =
     io_bind (find_run tid) (\<lambda>found. case found of
       None \<Rightarrow> io_throw (NotFoundException ''Test run not found'')
     | Some run \<Rightarrow> io_return run)"

definition mark_queued_if_created ::
    "string \<Rightarrow> string \<Rightarrow> ('a run_store_scheme, test_run option) io" where
  "mark_queued_if_created tid jobId =
     io_bind (io_peek clock) (\<lambda>now.
     io_bind (update_many tid
        (\<lambda>r. status r = CREATED \<and> finishedAt r = None \<and> cancelRequestedAt r = None
               \<and> cancellationRequestedAt r = None)
        (\<lambda>r. (queued_data jobId now r)\<lparr>status := QUEUED\<rparr>)) (\<lambda>count.
     if count = 0 then io_then (get_queue_state tid) (io_return None)
     else io_bind (find_run_or_throw tid) (\<lambda>r. io_return (Some r))))"

definition enter_phase :: "string \<Rightarrow> test_run_status \<Rightarrow> ('a run_store_scheme, test_run) io" where
  "enter_phase tid phase =
     (if \<not> is_phase phase
      then io_throw (ConflictException (status_name phase @ '' is not an execution phase''))
      else transition tid phase (\<lambda>r. r))"

definition cancel_data :: "int \<Rightarrow> string option \<Rightarrow> string option \<Rightarrow> test_run \<Rightarrow> test_run" where
  "cancel_data now requestedBy reason r =
     r\<lparr>cancelRequestedAt := Some now, cancellationRequestedAt := Some now,
       cancelRequestedBy := keep_unless requestedBy (cancelRequestedBy r),
       cancellationReason := reason,
       statusReason := Some (case reason of
           None \<Rightarrow> ''Cancellation requested''
         | Some t \<Rightarrow> if t = [] then ''Cancellation requested'' else ''Cancellation requested: '' @ t)\<rparr>"

definition request_cancel ::
    "string \<Rightarrow> string option \<Rightarrow> string option \<Rightarrow> ('a run_store_scheme, test_run) io" where
  "request_cancel tid requestedBy reason =
     io_bind (io_peek clock) (\<lambda>now.
     transition tid CANCEL_REQUESTED (cancel_data now requestedBy reason))"

definition finished_data ::
    "int \<Rightarrow> int option \<Rightarrow> string option \<Rightarrow> failure_category option \<Rightarrow> test_run \<Rightarrow> test_run" where
  "finished_data now duration reason category r =
     cleared_lease (r\<lparr>finishedAt := Some now, durationMs := keep_unless duration (durationMs r),
       statusReason := reason, errorMessage := reason, failureCategory := category\<rparr>)"

definition stats_data :: "run_stats \<Rightarrow> test_run \<Rightarrow> test_run" where
  "stats_data st r =
     r\<lparr>totalTests := statTotal st, passedTests := statPassed st, failedTests := statFailed st\<rparr>"

definition mark_cancelled ::
    "string \<Rightarrow> int option \<Rightarrow> string option \<Rightarrow> ('a run_store_scheme, test_run) io" where
  "mark_cancelled tid duration cleanup =
     io_bind (io_peek clock) (\<lambda>now.
     transition tid CANCELLED (\<lambda>r.
       (finished_data now duration (Some ''Test run was cancelled'') (Some CANCELLED_CATEGORY) r)
         \<lparr>cleanupError := keep_unless cleanup (cleanupError r)\<rparr>))"

definition mark_passed ::
    "string \<Rightarrow> run_stats \<Rightarrow> int \<Rightarrow> ('a run_store_scheme, test_run) io" where
  "mark_passed tid st duration =
     io_bind (io_peek clock) (\<lambda>now.
     transition tid PASSED (\<lambda>r. stats_data st (finished_data now (Some duration) None None r)))"

definition mark_test_failed ::
    "string \<Rightarrow> run_stats \<Rightarrow> int \<Rightarrow> string \<Rightarrow> ('a run_store_scheme, test_run) io" where
  "mark_test_failed tid st duration reason =
     io_bind (io_peek clock) (\<lambda>now.
     transition tid TEST_FAILED (\<lambda>r.
       stats_data st (finished_data now (Some duration) (Some reason) (Some TEST_ASSERTION) r)))"

definition mark_infra_failed ::
    "string \<Rightarrow> failure_category \<Rightarrow> string \<Rightarrow> int option \<Rightarrow> ('a run_store_scheme, test_run) io" where
  "mark_infra_failed tid category reason duration =
     io_bind (io_peek clock) (\<lambda>now.
     transition tid INFRA_FAILED (finished_data now duration (Some reason) (Some category)))"

definition mark_timed_out ::
    "string \<Rightarrow> string \<Rightarrow> int option \<Rightarrow> ('a run_store_scheme, test_run) io" where
  "mark_timed_out tid reason duration =
     io_bind (io_peek clock) (\<lambda>now.
     transition tid TIMED_OUT (finished_data now duration (Some reason) (Some TIMEOUT)))"

text \<open>The common shape of \<open>tryMarkInfraFailed\<close> and \<open>tryMarkCancelled\<close>.\<close>

definition unless_terminal ::
    "string \<Rightarrow> ('a run_store_scheme, test_run) io \<Rightarrow> ('a run_store_scheme, test_run option) io" where
  "unless_terminal tid mark =
     io_bind (is_terminal_run tid) (\<lambda>t.
     if t then io_return None
     else io_catch (io_bind mark (\<lambda>r. io_return (Some r)))
       (\<lambda>e. if is_conflict e
             then io_bind (is_terminal_run tid) (\<lambda>t'. if t' then io_return None else io_throw e)
             else io_throw e))"

definition try_mark_infra_failed ::
    "string \<Rightarrow> failure_category \<Rightarrow> string \<Rightarrow> int option \<Rightarrow>
     ('a run_store_scheme, test_run option) io" where
  "try_mark_infra_failed tid category reason duration =
     unless_terminal tid (mark_infra_failed tid category reason duration)"

definition try_mark_cancelled ::
    "string \<Rightarrow> int option \<Rightarrow> string option \<Rightarrow> ('a run_store_scheme, test_run option) io" where
  "try_mark_cancelled tid duration cleanup =
     unless_terminal tid (mark_cancelled tid duration cleanup)"

definition renew_lease :: "string \<Rightarrow> string \<Rightarrow> int \<Rightarrow> ('a run_store_scheme, bool) io" where
  "renew_lease tid runner duration =
     io_bind (io_peek clock) (\<lambda>now.
     io_bind (update_many tid
        (\<lambda>r. runnerId r = Some runner \<and> finishedAt r = None \<and> status r \<in> set active_statuses)
        (\<lambda>r. r\<lparr>heartbeatAt := Some now, leaseExpiresAt := Some (now + duration)\<rparr>)) (\<lambda>count.
     io_return (count > 0)))"

definition is_cancellation_requested :: "string \<Rightarrow> ('a run_store_scheme, bool) io" where
  "is_cancellation_requested tid =
     io_bind (find_run tid) (\<lambda>found. io_return (case found of
       None \<Rightarrow> False
     | Some run \<Rightarrow> status run = CANCEL_REQUESTED \<or> status run = CANCELLED
         \<or> cancelRequestedAt run \<noteq> None \<or> cancellationRequestedAt run \<noteq> None))"

end
