(* ===== verification/Run_Safety.thy ===== *)
theory Run_Safety
  imports Run_State
begin

text \<open>
  The safety of the run table.  \<open>row_inv\<close> relates the columns of one row, \<open>row_step\<close> bounds what may
  happen to it, \<open>runs_step\<close> lifts both to the table.  Every method of the service upholds
  \<open>runs_step\<close> under interference by clients that do, so any interleaving of any number of clients
  keeps it.
\<close>

section \<open>Row invariant and row steps\<close>

definition outcome_category :: "test_run \<Rightarrow> bool" where
  "outcome_category r =
     (case status r of
        PASSED \<Rightarrow> failureCategory r = None
      | TEST_FAILED \<Rightarrow> failureCategory r = Some TEST_ASSERTION
      | INFRA_FAILED \<Rightarrow> failureCategory r \<noteq> None
      | TIMED_OUT \<Rightarrow> failureCategory r = Some TIMEOUT
      | CANCELLED \<Rightarrow> failureCategory r = Some CANCELLED_CATEGORY
      | _ \<Rightarrow> True)"

definition row_inv :: "test_run \<Rightarrow> bool" where
  "row_inv r =
     (currentPhase r = (if is_phase (status r) then Some (status r) else None)
      \<and> (finishedAt r \<noteq> None) = is_terminal (status r)
      \<and> (runnerId r \<noteq> None) = (leaseExpiresAt r \<noteq> None)
      \<and> (is_terminal (status r) \<or> status r = CREATED \<or> status r = QUEUED \<longrightarrow> cleared_lease r = r)
      \<and> (cancelRequestedAt r \<noteq> None) = (cancellationRequestedAt r \<noteq> None)
      \<and> (status r = CANCEL_REQUESTED \<longrightarrow> cancelRequestedAt r \<noteq> None)
      \<and> outcome_category r)"

text \<open>All columns but the execution metadata, which the runner merges after the run has ended.\<close>

definition frozen_part :: "test_run \<Rightarrow> test_run" where
  "frozen_part r = r\<lparr>executionMetadata := []\<rparr>"

definition row_step :: "test_run \<Rightarrow> test_run \<Rightarrow> bool" where
  "row_step r r' =
     (status_step\<^sup>*\<^sup>* (status r) (status r')
      \<and> (is_terminal (status r) \<longrightarrow> frozen_part r' = frozen_part r)
      \<and> attempt r \<le> attempt r'
      \<and> runId r' = runId r \<and> projectId r' = projectId r
      \<and> (cancelRequestedAt r \<noteq> None \<longrightarrow> cancelRequestedAt r' \<noteq> None)
      \<and> (row_inv r \<longrightarrow> row_inv r'))"

definition runs_step :: "'a run_store_scheme \<Rightarrow> 'a run_store_scheme \<Rightarrow> bool" where
  "runs_step s t =
     ((\<forall>tid r. runs s tid = Some r \<longrightarrow> (\<exists>r'. runs t tid = Some r' \<and> row_step r r'))
      \<and> (\<forall>tid r'. runs s tid = None \<and> runs t tid = Some r' \<longrightarrow> row_inv r'))"

lemma cleared_lease_iff:
  "cleared_lease r = r \<longleftrightarrow>
     runnerId r = None \<and> leaseAcquiredAt r = None \<and> leaseExpiresAt r = None \<and> heartbeatAt r = None"
  by (cases r) (auto simp: cleared_lease_def)

lemma cleared_lease_sel [simp]:
  "status (cleared_lease r) = status r" "failureCategory (cleared_lease r) = failureCategory r"
  "attempt (cleared_lease r) = attempt r" "runId (cleared_lease r) = runId r"
  "projectId (cleared_lease r) = projectId r" "finishedAt (cleared_lease r) = finishedAt r"
  "cancelRequestedAt (cleared_lease r) = cancelRequestedAt r"
  "cancellationRequestedAt (cleared_lease r) = cancellationRequestedAt r"
  "runnerId (cleared_lease r) = None" "leaseAcquiredAt (cleared_lease r) = None"
  "leaseExpiresAt (cleared_lease r) = None" "heartbeatAt (cleared_lease r) = None"
  "currentPhase (cleared_lease r) = currentPhase r"
  "phaseTimestamps (cleared_lease r) = phaseTimestamps r"
  by (simp_all add: cleared_lease_def)

lemmas row_defs = row_step_def row_inv_def cleared_lease_iff outcome_category_def

lemma frozen_status: "frozen_part r' = frozen_part r \<Longrightarrow> status r' = status r"
  by (cases r; cases r') (simp add: frozen_part_def)

lemma row_step_refl: "row_step r r"
  by (simp add: row_step_def)

lemma row_step_trans:
  assumes "row_step r s" "row_step s t"
  shows "row_step r t"
  unfolding row_step_def
proof (intro conjI impI)
  assume T: "is_terminal (status r)"
  then have sr: "frozen_part s = frozen_part r" using assms(1) unfolding row_step_def by blast
  then have "is_terminal (status s)" using T frozen_status by metis
  then have "frozen_part t = frozen_part s" using assms(2) unfolding row_step_def by blast
  with sr show "frozen_part t = frozen_part r" by simp
next
  show "status_step\<^sup>*\<^sup>* (status r) (status t)"
    using assms rtranclp_trans unfolding row_step_def by metis
next
  show "attempt r \<le> attempt t" "runId t = runId r" "projectId t = projectId r"
    using assms unfolding row_step_def by auto
  show "cancelRequestedAt t \<noteq> None" if "cancelRequestedAt r \<noteq> None"
    using assms that unfolding row_step_def by blast
  show "row_inv t" if "row_inv r"
    using assms that unfolding row_step_def by blast
qed

interpretation run_table: step_relation runs_step
proof
  show "runs_step s s" for s :: "'a run_store_scheme"
    unfolding runs_step_def using row_step_refl by fastforce
next
  fix s t u :: "'a run_store_scheme"
  assume st: "runs_step s t" and tu: "runs_step t u"
  have new: "row_inv r'" if "runs s tid = None" "runs u tid = Some r'" for tid r'
  proof (cases "runs t tid")
    case None
    with tu that show ?thesis unfolding runs_step_def by blast
  next
    case (Some r)
    with st that have "row_inv r" unfolding runs_step_def by blast
    moreover from tu Some that have "row_step r r'" unfolding runs_step_def by fastforce
    ultimately show ?thesis by (simp add: row_step_def)
  qed
  show "runs_step s u"
    unfolding runs_step_def
  proof (intro conjI allI impI)
    fix tid r assume "runs s tid = Some r"
    with st obtain r' where "runs t tid = Some r'" "row_step r r'" unfolding runs_step_def by blast
    with tu obtain r'' where "runs u tid = Some r''" "row_step r' r''" unfolding runs_step_def by blast
    with \<open>row_step r r'\<close> show "\<exists>r'. runs u tid = Some r' \<and> row_step r r'"
      using row_step_trans by blast
  qed (use new in blast)
qed

section \<open>Guarantees of the building blocks\<close>

lemma runs_step_update:
  assumes "\<And>r. runs s tid = Some r \<Longrightarrow> cond r \<Longrightarrow> row_step r (upd r)"
  shows "runs_step s (snd (update_row tid cond upd s))"
  using assms
  by (auto simp: runs_step_def update_row_def row_step_refl split: option.splits)

lemma upholds_update_many:
  assumes "\<And>r. cond r \<Longrightarrow> row_step r (upd r)"
  shows "upholds runs_step (update_many tid cond upd)"
  unfolding update_many_def
  by (rule run_table.upholds_call)
    (simp add: case_prod_unfold runs_step_update assms)

lemma upholds_find_run: "upholds runs_step (find_run tid)"
  unfolding find_run_def by (rule run_table.upholds_read)

lemma upholds_find_run_or_throw: "upholds runs_step (find_run_or_throw tid)"
  unfolding find_run_or_throw_def
  by (rule run_table.upholds_call) (simp add: run_table.step_refl)

lemmas table_rules =
  run_table.upholds_rules upholds_find_run upholds_find_run_or_throw

lemma upholds_option:
  "upholds R n \<Longrightarrow> (\<And>x. upholds R (f x)) \<Longrightarrow> upholds R (case y of None \<Rightarrow> n | Some x \<Rightarrow> f x)"
  by (cases y) auto

lemma upholds_if:
  "(b \<Longrightarrow> upholds R m) \<Longrightarrow> (\<not> b \<Longrightarrow> upholds R k) \<Longrightarrow> upholds R (if b then m else k)"
  by auto

lemma assert_transition_allowed_iff:
  "assert_transition_allowed run target = Inr () \<longleftrightarrow> can_transition (status run) target"
  by (simp add: assert_transition_allowed_def can_transition_def)

lemma upholds_guarded:
  "(g = Inr () \<Longrightarrow> upholds runs_step k) \<Longrightarrow> upholds runs_step (io_then (io_lift g) k)"
  by (cases g) (simp_all add: upholds_def io_then_def io_bind_def io_lift_def run_table.step_refl)

text \<open>
  A transition upholds the table when every row it may be applied to makes a row step, whatever
  the timestamps it read.
\<close>

lemma upholds_transition:
  assumes "\<And>r pts. can_transition (status r) target \<Longrightarrow>
    row_step r ((data r)\<lparr>status := target,
      currentPhase := (if is_phase target then Some target else None), phaseTimestamps := pts\<rparr>)"
  shows "upholds runs_step (transition tid target data)"
  unfolding transition_def
proof (intro upholds_guarded table_rules upholds_option upholds_if)
  fix found run now
  assume "assert_transition_allowed run target = Inr ()"
  then have "can_transition (status run) target"
    by (simp add: assert_transition_allowed_iff)
  then show "upholds runs_step
      (update_many tid (\<lambda>r. status r = status run) (transition_data run target now data))"
    by (intro upholds_update_many) (simp add: transition_data_def assms)
qed

lemma row_step_to:
  assumes "can_transition (status r) (status r')" "attempt r' = attempt r"
    "runId r' = runId r" "projectId r' = projectId r"
    "cancelRequestedAt r \<noteq> None \<longrightarrow> cancelRequestedAt r' \<noteq> None"
    "\<not> is_terminal (status r) \<Longrightarrow> row_inv r \<Longrightarrow> row_inv r'"
  shows "row_step r r'"
  using assms can_transition_path[of "status r" "status r'"]
  by (simp add: row_step_def can_transition_iff)

lemma outcome_category_active: "\<not> is_terminal (status r) \<Longrightarrow> outcome_category r"
  by (cases "status r") (simp_all add: outcome_category_def)

lemmas row_inv_simps = row_inv_def cleared_lease_iff outcome_category_active

section \<open>Guarantees of the methods\<close>

lemma upholds_enter_phase: "upholds runs_step (enter_phase tid phase)"
  unfolding enter_phase_def
proof (intro upholds_if run_table.upholds_throw upholds_transition row_step_to)
  assume "\<not> \<not> is_phase phase"
  then have p: "is_phase phase" "\<not> is_terminal phase"
      "phase \<noteq> CREATED" "phase \<noteq> QUEUED" "phase \<noteq> CANCEL_REQUESTED"
    using phase_not_terminal by auto
  show "row_inv (r\<lparr>status := phase, currentPhase := (if is_phase phase then Some phase else None),
      phaseTimestamps := pts\<rparr>)" if "row_inv r" "\<not> is_terminal (status r)" for r pts
    using that p by (simp add: row_inv_simps)
qed simp_all

lemma upholds_mark_queued: "upholds runs_step (mark_queued tid jobId)"
  unfolding mark_queued_def
  by (intro table_rules upholds_transition row_step_to)
    (simp_all add: queued_data_def row_inv_simps)

lemma upholds_request_cancel: "upholds runs_step (request_cancel tid requestedBy reason)"
  unfolding request_cancel_def
  by (intro table_rules upholds_transition row_step_to)
    (simp_all add: cancel_data_def row_inv_simps)

lemma upholds_finish:
  assumes "is_terminal target"
    "\<And>r. status (data r) = status r \<and> attempt (data r) = attempt r \<and> runId (data r) = runId r
       \<and> projectId (data r) = projectId r \<and> cleared_lease (data r) = data r
       \<and> finishedAt (data r) \<noteq> None \<and> cancelRequestedAt (data r) = cancelRequestedAt r
       \<and> cancellationRequestedAt (data r) = cancellationRequestedAt r"
    "\<And>r pts. outcome_category ((data r)\<lparr>status := target, currentPhase := None, phaseTimestamps := pts\<rparr>)"
  shows "upholds runs_step (transition tid target data)"
proof (intro upholds_transition row_step_to)
  fix r pts
  have np: "\<not> is_phase target" using assms(1) phase_not_terminal by auto
  have nc: "target \<noteq> CANCEL_REQUESTED" using assms(1) by auto
  show "row_inv ((data r)\<lparr>status := target,
      currentPhase := (if is_phase target then Some target else None), phaseTimestamps := pts\<rparr>)"
    if "row_inv r"
    using that assms(1) np nc assms(2)[of r] assms(3)[where r = r and pts = pts]
    by (simp add: row_inv_def cleared_lease_iff)
qed (use assms in simp_all)

lemmas finish_simps =
  finished_data_def stats_data_def cleared_lease_def outcome_category_def

lemma upholds_mark_cancelled: "upholds runs_step (mark_cancelled tid duration cleanup)"
  unfolding mark_cancelled_def
  by (intro table_rules upholds_finish) (simp_all add: finish_simps)

lemma upholds_mark_passed: "upholds runs_step (mark_passed tid st duration)"
  unfolding mark_passed_def
  by (intro table_rules upholds_finish) (simp_all add: finish_simps)

lemma upholds_mark_test_failed: "upholds runs_step (mark_test_failed tid st duration reason)"
  unfolding mark_test_failed_def
  by (intro table_rules upholds_finish) (simp_all add: finish_simps)

lemma upholds_mark_infra_failed: "upholds runs_step (mark_infra_failed tid cat reason duration)"
  unfolding mark_infra_failed_def
  by (intro table_rules upholds_finish) (simp_all add: finish_simps)

lemma upholds_mark_timed_out: "upholds runs_step (mark_timed_out tid reason duration)"
  unfolding mark_timed_out_def
  by (intro table_rules upholds_finish) (simp_all add: finish_simps)

lemma upholds_is_terminal_run: "upholds runs_step (is_terminal_run tid)"
  unfolding is_terminal_run_def by (intro table_rules upholds_option)

lemma upholds_unless_terminal:
  "upholds runs_step mark \<Longrightarrow> upholds runs_step (unless_terminal tid mark)"
  unfolding unless_terminal_def
  by (intro table_rules upholds_if upholds_is_terminal_run)

lemma upholds_try_mark_infra_failed:
  "upholds runs_step (try_mark_infra_failed tid cat reason duration)"
  unfolding try_mark_infra_failed_def
  by (intro upholds_unless_terminal upholds_mark_infra_failed)

lemma upholds_try_mark_cancelled: "upholds runs_step (try_mark_cancelled tid duration cleanup)"
  unfolding try_mark_cancelled_def
  by (intro upholds_unless_terminal upholds_mark_cancelled)

lemma row_step_renew:
  assumes "runnerId r = Some runner" "status r \<in> set active_statuses"
  shows "row_step r (r\<lparr>heartbeatAt := Some now, leaseExpiresAt := Some t\<rparr>)"
  using assms
  by (auto simp: active_iff_not_terminal row_step_def row_inv_simps)

lemma upholds_renew_lease: "upholds runs_step (renew_lease tid runner duration)"
  unfolding renew_lease_def
  by (intro table_rules upholds_update_many row_step_renew) auto

lemma row_step_claim:
  assumes "can_transition (status r) CLAIMED"
  shows "row_step r (claim_data lease now r)"
  using assms can_transition_path[OF assms]
  by (simp add: claim_data_def row_step_def row_inv_simps can_transition_iff)

lemma upholds_claim: "upholds runs_step (claim tid lease)"
proof (cases lease)
  case None
  show ?thesis
    unfolding claim_def None option.case
    by (intro table_rules upholds_transition row_step_to)
      (simp_all add: row_inv_simps)
next
  case (Some l)
  show ?thesis
    unfolding claim_def Some option.case
    by (intro upholds_guarded table_rules upholds_option upholds_if upholds_update_many row_step_claim)
      (simp add: assert_transition_allowed_iff)
qed

lemma upholds_get_queue_state: "upholds runs_step (get_queue_state tid)"
  unfolding get_queue_state_def by (intro table_rules upholds_option)

lemma row_step_queue:
  assumes "status r = CREATED"
  shows "row_step r ((queued_data jobId now r)\<lparr>status := QUEUED\<rparr>)"
  using assms can_transition_path[of CREATED QUEUED]
  by (simp add: queued_data_def row_step_def row_inv_simps can_transition_iff)

lemma upholds_mark_queued_if_created: "upholds runs_step (mark_queued_if_created tid jobId)"
  unfolding mark_queued_if_created_def
  by (intro table_rules upholds_if upholds_get_queue_state upholds_update_many row_step_queue) auto

lemma upholds_is_cancellation_requested: "upholds runs_step (is_cancellation_requested tid)"
  unfolding is_cancellation_requested_def by (intro table_rules)

lemmas state_rules =
  upholds_enter_phase upholds_mark_queued upholds_request_cancel upholds_mark_cancelled
  upholds_mark_passed upholds_mark_test_failed upholds_mark_infra_failed upholds_mark_timed_out
  upholds_is_terminal_run upholds_try_mark_infra_failed upholds_try_mark_cancelled
  upholds_renew_lease upholds_claim upholds_get_queue_state upholds_mark_queued_if_created
  upholds_is_cancellation_requested

end
