(* ===== verification/Run_Queue.thy ===== *)
theory Run_Queue
  imports Run_Safety
begin

text \<open>
  The queue around the run table: \<open>TestRunQueueService\<close>, \<open>TestRunQueueRecoveryService\<close>, the worker's
  failure handler, \<open>ProjectAccessService\<close> and the cancellation entry point of \<open>TestRunsService\<close>.
  BullMQ is a parameter, the record \<open>job_queue\<close>; what the services rely on of it is the locale
  \<open>bull_queue\<close>.  \<open>findMany\<close> returns rows in an order the code does not fix, so the definitions
  that scan the table take the list of ids as an argument.
\<close>

section \<open>The queue interface\<close>

record 'q job_queue =
  queue_add :: "string \<Rightarrow> string \<Rightarrow> 'q \<Rightarrow> 'q"
  queue_state :: "string \<Rightarrow> 'q \<Rightarrow> string option"
  queue_remove :: "string \<Rightarrow> 'q \<Rightarrow> js_error + 'q"

text \<open>
  BullMQ's documented behaviour: adding a job makes it findable and does nothing to a job with the
  same id or to other jobs; removing a job that no worker holds deletes exactly that job.
\<close>

definition pending_states :: "string list" where
  "pending_states = [''waiting'', ''delayed'', ''prioritized'']"

locale bull_queue =
  fixes api :: "'q job_queue"
  assumes add_state: "queue_state api j q = None \<Longrightarrow> queue_state api j (queue_add api j d q) = Some ''waiting''"
    and add_existing: "queue_state api j q = Some st \<Longrightarrow> queue_add api j d q = q"
    and add_other: "k \<noteq> j \<Longrightarrow> queue_state api k (queue_add api j d q) = queue_state api k q"
    and remove_pending: "queue_state api j q = Some st \<Longrightarrow> st \<in> set pending_states \<Longrightarrow>
      \<exists>q'. queue_remove api j q = Inr q' \<and> queue_state api j q' = None
        \<and> (\<forall>k. k \<noteq> j \<longrightarrow> queue_state api k q' = queue_state api k q)"
begin

lemma add_present: "queue_state api j (queue_add api j d q) \<noteq> None"
  by (cases "queue_state api j q") (auto simp: add_state add_existing)

lemma add_twice: "queue_add api j d (queue_add api j d' q) = queue_add api j d' q"
  using add_present[of j d' q] add_existing by blast

end

text \<open>A queue that satisfies the contract: jobs by id, with their state.\<close>

definition map_queue :: "(string \<rightharpoonup> string) job_queue" where
  "map_queue =
     \<lparr>queue_add = (\<lambda>j d q. if q j = None then q(j \<mapsto> ''waiting'') else q),
      queue_state = (\<lambda>j q. q j),
      queue_remove = (\<lambda>j q. if q j \<in> Some ` set pending_states then Inr (q(j := None))
        else Inl (PlainError ''Job is locked''))\<rparr>"

interpretation jobs: bull_queue map_queue
  by unfold_locales (auto simp: map_queue_def)

record 'q queue_store = run_store +
  queue :: 'q
  projectCompany :: "string \<rightharpoonup> string"

section \<open>TestRunQueueService\<close>

definition job_id :: "string \<Rightarrow> string" where
  "job_id tid = ''test-run:'' @ tid"

definition stored_job_id :: "test_run \<Rightarrow> string \<Rightarrow> string" where
  "stored_job_id run jobId = (case queueJobId run of None \<Rightarrow> jobId | Some j \<Rightarrow> j)"

definition add_job :: "'q job_queue \<Rightarrow> string \<Rightarrow> (('q, 'z) queue_store_scheme, unit) io" where
  "add_job api tid =
     io_call (\<lambda>s. (Inr (), s\<lparr>queue := queue_add api (job_id tid) tid (queue s)\<rparr>))"

definition enqueue :: "'q job_queue \<Rightarrow> string \<Rightarrow> (('q, 'z) queue_store_scheme, string) io" where
  "enqueue api tid =
     (let jobId = job_id tid in
      io_bind (get_queue_state tid) (\<lambda>run.
      if status run \<noteq> CREATED then io_return (stored_job_id run jobId)
      else io_then (add_job api tid)
           (io_then (mark_queued_if_created tid jobId) (io_return jobId))))"

definition has_job :: "'q job_queue \<Rightarrow> string \<Rightarrow> (('q, 'z) queue_store_scheme, bool) io" where
  "has_job api tid = io_read (\<lambda>s. queue_state api (job_id tid) (queue s) \<noteq> None)"

definition restore_missing_queued_job :: "'q job_queue \<Rightarrow> string \<Rightarrow> (('q, 'z) queue_store_scheme, string) io" where
  "restore_missing_queued_job api tid =
     (let jobId = job_id tid in
      io_bind (get_queue_state tid) (\<lambda>run.
      if status run \<noteq> QUEUED \<or> finishedAt run \<noteq> None then io_return (stored_job_id run jobId)
      else if cancelRequestedAt run \<noteq> None \<or> cancellationRequestedAt run \<noteq> None
      then io_return (stored_job_id run jobId)
      else io_then (add_job api tid) (io_return (stored_job_id run jobId))))"

datatype queue_cancel = Removed | Active | Missing

definition cancel_queued_run :: "'q job_queue \<Rightarrow> string \<Rightarrow> (('q, 'z) queue_store_scheme, queue_cancel) io" where
  "cancel_queued_run api tid =
     io_bind (io_read (\<lambda>s. queue_state api (job_id tid) (queue s))) (\<lambda>job.
     if job = None then io_return Missing
     else io_bind (io_read (\<lambda>s. queue_state api (job_id tid) (queue s))) (\<lambda>state.
          if state \<in> Some ` set pending_states
          then io_then
            (io_call (\<lambda>s. case queue_remove api (job_id tid) (queue s) of
                Inl e \<Rightarrow> (Inl e, s) | Inr q \<Rightarrow> (Inr (), s\<lparr>queue := q\<rparr>)))
            (io_return Removed)
          else io_return Active))"

section \<open>TestRunQueueRecoveryService\<close>

definition recoverable :: "test_run \<Rightarrow> bool" where
  "recoverable r =
     ((status r = CREATED \<or> status r = QUEUED) \<and> finishedAt r = None
      \<and> cancelRequestedAt r = None \<and> cancellationRequestedAt r = None)"

definition matching_runs ::
    "string list \<Rightarrow> (test_run \<Rightarrow> bool) \<Rightarrow> 'a run_store_scheme \<Rightarrow> (string \<times> test_run_status) list" where
  "matching_runs ids cond s =
     List.map_filter (\<lambda>tid. case runs s tid of
        Some r \<Rightarrow> if cond r then Some (tid, status r) else None | None \<Rightarrow> None) ids"

definition recover_queued_run ::
    "'q job_queue \<Rightarrow> string \<times> test_run_status \<Rightarrow> (('q, 'z) queue_store_scheme, unit) io" where
  "recover_queued_run api row =
     (case row of (tid, st) \<Rightarrow>
        io_ignore
          (if st = CREATED then io_then (enqueue api tid) (io_return ())
           else io_bind (has_job api tid) (\<lambda>present.
                if present then io_return ()
                else io_then (restore_missing_queued_job api tid) (io_return ()))))"

definition recover_queued_runs :: "'q job_queue \<Rightarrow> string list \<Rightarrow> (('q, 'z) queue_store_scheme, unit) io" where
  "recover_queued_runs api ids =
     io_bind (io_read (matching_runs ids recoverable)) (\<lambda>rows.
     io_for rows (recover_queued_run api))"

definition orphan_statuses :: "test_run_status list" where
  "orphan_statuses =
     [CLAIMED, PREPARING_WORKSPACE, VALIDATING_ENVIRONMENT, PULLING_IMAGES, STARTING_ENVIRONMENT,
      WAITING_FOR_HEALTHCHECK, EXECUTING_TESTS, COLLECTING_ARTIFACTS, CLEANING_UP,
      CANCEL_REQUESTED]"

definition orphaned :: "int \<Rightarrow> test_run \<Rightarrow> bool" where
  "orphaned now r =
     (status r \<in> set orphan_statuses \<and> finishedAt r = None
      \<and> (case leaseExpiresAt r of None \<Rightarrow> False | Some t \<Rightarrow> t < now))"

definition recover_orphan :: "string \<times> test_run_status \<Rightarrow> ('a run_store_scheme, unit) io" where
  "recover_orphan row =
     (case row of (tid, st) \<Rightarrow>
        io_ignore
          (if st = CANCEL_REQUESTED
           then try_mark_cancelled tid None
             (Some ''Worker lease expired before cleanup confirmation'')
           else try_mark_infra_failed tid INTERNAL
             ''Worker execution lease expired; run was not retried automatically'' None))"

definition recover_expired_leases :: "string list \<Rightarrow> ('a run_store_scheme, unit) io" where
  "recover_expired_leases ids =
     io_bind (io_peek clock) (\<lambda>now.
     io_bind (io_read (matching_runs ids (orphaned now))) (\<lambda>rows.
     io_for rows recover_orphan))"

section \<open>The worker's failure handler\<close>

text \<open>\<open>TestRunWorkerProcessor.onFailed\<close> for a test-run job, with the attempts made and allowed.\<close>

definition on_failed ::
    "string \<Rightarrow> nat \<Rightarrow> nat option \<Rightarrow> js_error \<Rightarrow> ('a run_store_scheme, unit) io" where
  "on_failed tid attemptsMade attempts err =
     (if attemptsMade < (case attempts of None \<Rightarrow> 1 | Some n \<Rightarrow> n) then io_return ()
      else io_ignore (try_mark_infra_failed tid INTERNAL (error_message err) None))"

section \<open>TestRunsService: access and cancellation\<close>

definition get_project_or_throw :: "string \<Rightarrow> string \<Rightarrow> (('q, 'z) queue_store_scheme, unit) io" where
  "get_project_or_throw pid company =
     io_call (\<lambda>s. (case projectCompany s pid of
          None \<Rightarrow> Inl (NotFoundException ''Project not found'')
        | Some c \<Rightarrow> if c \<noteq> company
                    then Inl (ForbiddenException ''Project belongs to another company'')
                    else Inr (), s))"

definition find_project_run ::
    "string \<Rightarrow> string \<Rightarrow> string \<Rightarrow> (('q, 'z) queue_store_scheme, test_run) io" where
  "find_project_run pid tid company =
     io_then (get_project_or_throw pid company)
     (io_call (\<lambda>s. (case runs s tid of
          Some r \<Rightarrow> if projectId r = pid then Inr r
                    else Inl (NotFoundException ''Test run not found'')
        | None \<Rightarrow> Inl (NotFoundException ''Test run not found''), s)))"

definition cancel ::
    "'q job_queue \<Rightarrow> string \<Rightarrow> string \<Rightarrow> string \<Rightarrow> string option \<Rightarrow> string option \<Rightarrow>
     (('q, 'z) queue_store_scheme, test_run) io" where
  "cancel api pid tid company requestedBy reason =
     io_bind (find_project_run pid tid company) (\<lambda>run.
     if is_terminal (status run) then io_return run
     else if status run = CANCEL_REQUESTED then io_return run
     else if status run \<notin> set cancellable_statuses then io_return run
     else io_then (request_cancel tid requestedBy reason)
       (if status run = QUEUED
        then io_bind (cancel_queued_run api tid) (\<lambda>queueState.
          if queueState = Removed \<or> queueState = Missing
          then io_then (mark_cancelled tid None None) (find_project_run pid tid company)
          else find_project_run pid tid company)
        else find_project_run pid tid company))"

text \<open>
  The end of \<open>TestRunsService.create\<close>: a created run is enqueued; if that fails it is closed as an
  infrastructure failure.
\<close>

definition enqueue_created ::
    "'q job_queue \<Rightarrow> string \<Rightarrow> string \<Rightarrow> string \<Rightarrow> (('q, 'z) queue_store_scheme, test_run) io" where
  "enqueue_created api pid tid company =
     io_bind (io_catch (io_then (enqueue api tid) (io_return None))
        (\<lambda>e. io_bind (mark_infra_failed tid INTERNAL
                (''Failed to enqueue test run: '' @ error_message e) None) (\<lambda>r. io_return (Some r))))
     (\<lambda>failed. case failed of Some r \<Rightarrow> io_return r | None \<Rightarrow> find_project_run pid tid company)"

section \<open>Guarantees\<close>

lemma upholds_queue_call:
  assumes "\<And>s. runs (snd (f s)) = runs s"
  shows "upholds runs_step (io_call f)"
proof (rule run_table.upholds_call)
  show "runs_step s (snd (f s))" for s
    unfolding runs_step_def assms by (auto intro: row_step_refl)
qed

lemma upholds_add_job: "upholds runs_step (add_job api tid)"
  unfolding add_job_def by (rule upholds_queue_call) simp

lemma upholds_enqueue: "upholds runs_step (enqueue api tid)"
  unfolding enqueue_def Let_def
  by (intro table_rules state_rules upholds_if upholds_add_job)

lemma upholds_restore: "upholds runs_step (restore_missing_queued_job api tid)"
  unfolding restore_missing_queued_job_def Let_def
  by (intro table_rules state_rules upholds_if upholds_add_job)

lemma upholds_cancel_queued_run: "upholds runs_step (cancel_queued_run api tid)"
  unfolding cancel_queued_run_def
  by (intro table_rules upholds_if upholds_queue_call) (simp split: sum.splits)

lemma upholds_recover_queued_runs: "upholds runs_step (recover_queued_runs api ids)"
  unfolding recover_queued_runs_def recover_queued_run_def case_prod_unfold has_job_def
  by (intro table_rules upholds_if upholds_enqueue upholds_restore)

lemma upholds_recover_expired_leases: "upholds runs_step (recover_expired_leases ids)"
  unfolding recover_expired_leases_def recover_orphan_def case_prod_unfold
  by (intro table_rules state_rules upholds_if)

lemma upholds_on_failed: "upholds runs_step (on_failed tid made attempts err)"
  unfolding on_failed_def by (intro upholds_if table_rules state_rules)

lemma upholds_find_project_run: "upholds runs_step (find_project_run pid tid company)"
  unfolding find_project_run_def get_project_or_throw_def
  by (intro table_rules upholds_queue_call) simp_all

lemma upholds_cancel: "upholds runs_step (cancel api pid tid company requestedBy reason)"
  unfolding cancel_def
  by (intro table_rules state_rules upholds_if upholds_find_project_run upholds_cancel_queued_run)

lemma upholds_enqueue_created: "upholds runs_step (enqueue_created api pid tid company)"
  unfolding enqueue_created_def
  by (intro table_rules state_rules upholds_option upholds_enqueue upholds_find_project_run)

lemmas queue_rules =
  upholds_enqueue upholds_restore upholds_recover_queued_runs upholds_recover_expired_leases
  upholds_on_failed upholds_cancel upholds_enqueue_created

end
