(* ===== verification/Run_Props.thy ===== *)
theory Run_Props
  imports Run_Safety
begin

text \<open>
  Properties of the run life cycle: the guarantee of every service method under interference, the
  shape of status histories, mutual exclusion of claims, the functional behaviour of a transition
  and of the phase timestamps.
\<close>

section \<open>One entry point for the methods of the service\<close>

datatype run_op =
    Claim "lease_options option"
  | MarkQueued string
  | MarkQueuedIfCreated string
  | GetQueueState
  | EnterPhase test_run_status
  | RequestCancel "string option" "string option"
  | MarkCancelled "int option" "string option"
  | MarkPassed run_stats int
  | MarkTestFailed run_stats int string
  | MarkInfraFailed failure_category string "int option"
  | TryMarkInfraFailed failure_category string "int option"
  | TryMarkCancelled "int option" "string option"
  | MarkTimedOut string "int option"
  | RenewLease string int
  | IsCancellationRequested

definition io_void :: "('s, 'a) io \<Rightarrow> ('s, unit) io" where
  "io_void m = io_then m (io_return ())"

fun perform :: "string \<Rightarrow> run_op \<Rightarrow> (run_store, unit) io" where
  "perform tid (Claim lease) = io_void (claim tid lease)"
| "perform tid (MarkQueued jobId) = io_void (mark_queued tid jobId)"
| "perform tid (MarkQueuedIfCreated jobId) = io_void (mark_queued_if_created tid jobId)"
| "perform tid GetQueueState = io_void (get_queue_state tid)"
| "perform tid (EnterPhase phase) = io_void (enter_phase tid phase)"
| "perform tid (RequestCancel requestedBy reason) = io_void (request_cancel tid requestedBy reason)"
| "perform tid (MarkCancelled duration cleanup) = io_void (mark_cancelled tid duration cleanup)"
| "perform tid (MarkPassed st duration) = io_void (mark_passed tid st duration)"
| "perform tid (MarkTestFailed st duration reason) =
     io_void (mark_test_failed tid st duration reason)"
| "perform tid (MarkInfraFailed cat reason duration) =
     io_void (mark_infra_failed tid cat reason duration)"
| "perform tid (TryMarkInfraFailed cat reason duration) =
     io_void (try_mark_infra_failed tid cat reason duration)"
| "perform tid (TryMarkCancelled duration cleanup) =
     io_void (try_mark_cancelled tid duration cleanup)"
| "perform tid (MarkTimedOut reason duration) = io_void (mark_timed_out tid reason duration)"
| "perform tid (RenewLease runner duration) = io_void (renew_lease tid runner duration)"
| "perform tid IsCancellationRequested = io_void (is_cancellation_requested tid)"

lemma upholds_void: "upholds runs_step m \<Longrightarrow> upholds runs_step (io_void m)"
  unfolding io_void_def by (intro run_table.upholds_then run_table.upholds_return)

lemma upholds_perform: "upholds runs_step (perform tid op)"
  by (cases op) (simp_all add: upholds_void state_rules)

text \<open>A client is a sequence of method calls; each call may fail, and the client goes on.\<close>

definition client :: "(string \<times> run_op) list \<Rightarrow> (run_store, unit) io" where
  "client ops = io_for ops (\<lambda>(tid, op). io_ignore (perform tid op))"

lemma upholds_client: "upholds runs_step (client ops)"
  unfolding client_def
  by (intro run_table.upholds_for) (auto intro: run_table.upholds_ignore upholds_perform)

text \<open>
  The interference of other clients: each of them runs some calls to the end between two of ours.
\<close>

definition client_env :: "(string \<times> run_op) list \<Rightarrow> outcome \<Rightarrow> run_store call_env" where
  "client_env ops out = CallEnv (\<lambda>s. store (snd (client ops (quiet s)))) out"

lemma rely_client_env: "rely runs_step (map (\<lambda>(ops, out). client_env ops out) es)"
  using upholds_client[THEN upholdsD, of "quiet s" for s]
  by (induction es) (auto simp: client_env_def)

lemma client_guarantee:
  assumes "pending w = map (\<lambda>(ops, out). client_env ops out) es"
    and "runs (store w) tid = Some r"
  obtains r' where "runs (store (snd (client ops w))) tid = Some r'" "row_step r r'"
proof -
  have "runs_step (store w) (store (snd (client ops w)))"
    by (rule upholdsD[OF upholds_client]) (simp add: assms(1) rely_client_env)
  with assms(2) that show thesis unfolding runs_step_def by blast
qed

section \<open>Safety under interleaving\<close>

text \<open>
  C1: Any sequence of calls of the service, interleaved at every database call with any calls of
  other clients and with lost or rejected replies, moves a run only along allowed transitions, keeps
  the row invariant, never lowers its attempt counter, and leaves every column of a terminal run but
  its execution metadata as it is.
\<close>
theorem interleaved_clients_safe:
  assumes "pending w = map (\<lambda>(ops, out). client_env ops out) es"
    and "runs (store w) tid = Some r"
  shows "\<exists>r'. runs (store (snd (client ops w))) tid = Some r'
    \<and> status_step\<^sup>*\<^sup>* (status r) (status r')
    \<and> attempt r \<le> attempt r'
    \<and> (row_inv r \<longrightarrow> row_inv r')
    \<and> (is_terminal (status r) \<longrightarrow> frozen_part r' = frozen_part r)"
  using client_guarantee[OF assms] unfolding row_step_def by metis

definition sample_row :: test_run where
  "sample_row =
     \<lparr>runId = ''r1'', projectId = ''p1'', status = CREATED, statusReason = None,
      failureCategory = None, currentPhase = None, phaseTimestamps = None, queueJobId = None,
      queuedAt = None, enqueuedAt = None, claimedAt = None, cancellationRequestedAt = None,
      cancelRequestedAt = None, cancelRequestedBy = None, cancellationReason = None,
      runnerId = None, leaseAcquiredAt = None, leaseExpiresAt = None, heartbeatAt = None,
      attempt = 0, cleanupError = None, startedAt = None, finishedAt = None, totalTests = 0,
      passedTests = 0, failedTests = 0, durationMs = None, errorMessage = None,
      executionMetadata = []\<rparr>"

definition sample_store :: "test_run \<Rightarrow> run_store" where
  "sample_store r = \<lparr>clock = 1000, runs = [''r1'' \<mapsto> r]\<rparr>"

lemma sample_row_inv: "row_inv sample_row"
  by (simp add: sample_row_def row_inv_def cleared_lease_iff outcome_category_def)

theorem interleaved_clients_safe_witness:
  "\<exists>r'. runs (store (snd (client [(''r1'', MarkQueued ''j''), (''r1'', Claim None)]
       \<lparr>store = sample_store sample_row,
        pending = map (\<lambda>(ops, out). client_env ops out)
          [([(''r1'', MarkInfraFailed INTERNAL ''lost'' None)], Done)]\<rparr>))) ''r1'' = Some r'
    \<and> status_step\<^sup>*\<^sup>* (status sample_row) (status r')
    \<and> attempt sample_row \<le> attempt r'
    \<and> (row_inv sample_row \<longrightarrow> row_inv r')
    \<and> (is_terminal (status sample_row) \<longrightarrow> frozen_part r' = frozen_part sample_row)"
  by (rule interleaved_clients_safe
        [where es = "[([(''r1'', MarkInfraFailed INTERNAL ''lost'' None)], Done)]"])
    (simp_all add: sample_store_def)

section \<open>Status histories\<close>

fun status_chain :: "test_run_status list \<Rightarrow> bool" where
  "status_chain [] = True"
| "status_chain [a] = True"
| "status_chain (a # b # cs) = (status_step a b \<and> status_chain (b # cs))"

fun longest_path :: "test_run_status \<Rightarrow> nat" where
  "longest_path CREATED = 12"
| "longest_path QUEUED = 11"
| "longest_path CLAIMED = 10"
| "longest_path PREPARING_WORKSPACE = 9"
| "longest_path VALIDATING_ENVIRONMENT = 8"
| "longest_path PULLING_IMAGES = 7"
| "longest_path STARTING_ENVIRONMENT = 6"
| "longest_path WAITING_FOR_HEALTHCHECK = 5"
| "longest_path EXECUTING_TESTS = 4"
| "longest_path COLLECTING_ARTIFACTS = 3"
| "longest_path CLEANING_UP = 2"
| "longest_path CANCEL_REQUESTED = 2"
| "longest_path _ = 1"

lemma longest_path_step: "status_step a b \<Longrightarrow> longest_path b < longest_path a"
  by (cases a) auto

lemma longest_path_le: "1 \<le> longest_path a \<and> longest_path a \<le> 12"
  by (cases a) simp_all

lemma status_chain_length: "status_chain (a # cs) \<Longrightarrow> length (a # cs) \<le> longest_path a"
proof (induction cs arbitrary: a)
  case Nil
  then show ?case using longest_path_le[of a] by simp
next
  case (Cons b cs)
  then have "longest_path b < longest_path a" "length (b # cs) \<le> longest_path b"
    using longest_path_step by (simp_all del: status_step_iff)
  then show ?case by simp
qed

lemma status_chain_sorted: "status_chain xs \<Longrightarrow> sorted_wrt (<) xs"
proof (induction xs rule: status_chain.induct)
  case (3 a b cs)
  then have "a < b" using allowed_increases by simp
  with 3 show ?case by (auto dest: order.strict_trans)
qed auto

text \<open>
  A run passes through at most twelve statuses, never visits a status twice, and a status that
  is followed by another one is not terminal.
\<close>
theorem status_history_bounded:
  assumes "status_chain xs"
  shows "length xs \<le> 12 \<and> distinct xs \<and> list_all (\<lambda>s. \<not> is_terminal s) (butlast xs)"
proof (intro conjI)
  show "length xs \<le> 12"
  proof (cases xs)
    case (Cons a cs)
    then show ?thesis
      using status_chain_length[of a cs] longest_path_le[of a] assms by simp
  qed simp
  show "distinct xs"
    using status_chain_sorted[OF assms] strict_sorted_iff by blast
  show "list_all (\<lambda>s. \<not> is_terminal s) (butlast xs)"
    using assms by (induction xs rule: status_chain.induct) (auto simp: terminal_no_transitions)
qed

theorem status_history_bounded_witness:
  "length [CREATED, QUEUED, CLAIMED, CANCEL_REQUESTED, CANCELLED] \<le> 12
   \<and> distinct [CREATED, QUEUED, CLAIMED, CANCEL_REQUESTED, CANCELLED]
   \<and> list_all (\<lambda>s. \<not> is_terminal s) (butlast [CREATED, QUEUED, CLAIMED, CANCEL_REQUESTED, CANCELLED])"
  by (rule status_history_bounded) simp

text \<open>
  No run is stuck: every active status can be closed in one transition, by \<open>INFRA_FAILED\<close> or,
  once cancellation is requested, by \<open>CANCELLED\<close>; and no transition leaves a terminal status.
\<close>
theorem every_run_can_end:
  "list_all (\<lambda>s. s = CANCEL_REQUESTED \<or> can_transition s INFRA_FAILED) active_statuses
   \<and> can_transition CANCEL_REQUESTED CANCELLED
   \<and> \<not> can_transition CANCEL_REQUESTED INFRA_FAILED
   \<and> \<not> (\<exists>s t. is_terminal s \<and> can_transition s t)
   \<and> set active_statuses \<union> set terminal_statuses = UNIV"
proof (intro conjI)
  show "set active_statuses \<union> set terminal_statuses = UNIV"
    using active_iff_not_terminal by (auto simp: is_terminal_def)
qed (auto simp: status_group_defs can_transition_iff)

section \<open>A transition of a run nobody else touches\<close>

lemma find_run_quiet [run_simps]: "find_run tid (quiet s) = (Inr (runs s tid), quiet s)"
  by (simp add: find_run_def run_simps)

lemma find_run_or_throw_quiet [run_simps]:
  "runs s tid = Some r \<Longrightarrow> find_run_or_throw tid (quiet s) = (Inr r, quiet s)"
  by (simp add: find_run_or_throw_def run_simps)

lemma update_many_quiet [run_simps]:
  "update_many tid cond upd (quiet s) =
     (case runs s tid of
        None \<Rightarrow> (Inr 0, quiet s)
      | Some r \<Rightarrow> if cond r then (Inr 1, quiet (s\<lparr>runs := (runs s)(tid \<mapsto> upd r)\<rparr>))
                  else (Inr 0, quiet s))"
  by (simp add: update_many_def update_row_def run_simps split: option.splits)

lemma transition_quiet [run_simps]:
  "transition tid target data (quiet s) =
     (case runs s tid of
        None \<Rightarrow> (Inl (NotFoundException ''Test run not found''), quiet s)
      | Some r \<Rightarrow>
          (case assert_transition_allowed r target of
             Inl e \<Rightarrow> (Inl e, quiet s)
           | Inr _ \<Rightarrow>
               (let r' = transition_data r target (clock s) data r in
                (Inr r', quiet (s\<lparr>runs := (runs s)(tid \<mapsto> r')\<rparr>)))))"
  by (simp add: transition_def io_defs run_simps Let_def split: option.splits sum.splits)

text \<open>
  With no interference a transition is rejected with the store untouched, or writes exactly one
  row, whose new status is the target, whose phase column follows the status, and whose other columns
  come from the caller's data.  It is rejected with \<open>NotFoundException\<close> for an unknown run and with
  \<open>ConflictException\<close> precisely when the table forbids the step.
\<close>
theorem transition_outcomes:
  "case runs s tid of
     None \<Rightarrow> transition tid target data (quiet s)
               = (Inl (NotFoundException ''Test run not found''), quiet s)
   | Some r \<Rightarrow>
       (if can_transition (status r) target
        then \<exists>r'. transition tid target data (quiet s)
                 = (Inr r', quiet (s\<lparr>runs := (runs s)(tid \<mapsto> r')\<rparr>))
               \<and> status r' = target
               \<and> currentPhase r' = (if is_phase target then Some target else None)
               \<and> r'\<lparr>status := t, currentPhase := p, phaseTimestamps := q\<rparr>
                   = (data r)\<lparr>status := t, currentPhase := p, phaseTimestamps := q\<rparr>
        else \<exists>m. transition tid target data (quiet s) = (Inl (ConflictException m), quiet s))"
proof (cases "runs s tid")
  case None
  then show ?thesis by (simp add: run_simps)
next
  case (Some r)
  show ?thesis
  proof (cases "can_transition (status r) target")
    case True
    then have "assert_transition_allowed r target = Inr ()"
      by (simp add: assert_transition_allowed_iff)
    with Some True show ?thesis
      by (simp add: run_simps Let_def transition_data_def)
  next
    case False
    then obtain m where "assert_transition_allowed r target = Inl (ConflictException m)"
      using assert_transition_allowed_iff[of r target]
      by (auto simp: assert_transition_allowed_def split: if_splits)
    with Some False show ?thesis by (simp add: run_simps)
  qed
qed

text \<open>
  The conditional write detects a concurrent change.  If another client changes the status of
  the run between the read and the write of a transition, the transition reports a conflict and
  the other client's row stays as it is.
\<close>
theorem transition_detects_concurrent_change:
  assumes "runs s tid = Some r" "can_transition (status r) target"
    and "runs (f s) tid = Some ra" "status ra \<noteq> status r"
  shows "transition tid target data
       \<lparr>store = s, pending = [CallEnv (\<lambda>x. x) Done, CallEnv f Done]\<rparr>
     = (Inl (ConflictException ''Test run status changed concurrently''), quiet (f s))"
  using assms assert_transition_allowed_iff[of r target]
  by (simp add: transition_def io_defs find_run_def io_read_def io_call_def update_many_def
      update_row_def run_simps quiet_def)

section \<open>Exclusive claims\<close>

definition claim_env :: "string \<Rightarrow> lease_options \<Rightarrow> run_store call_env" where
  "claim_env tid lease = CallEnv (\<lambda>s. store (snd (claim tid (Some lease) (quiet s)))) Done"

lemma claim_quiet:
  assumes "runs s tid = Some r" "can_transition (status r) CLAIMED" "lease_free (clock s) r"
  shows "claim tid (Some l) (quiet s)
    = (Inr (claim_data l (clock s) r),
       quiet (s\<lparr>runs := (runs s)(tid \<mapsto> claim_data l (clock s) r)\<rparr>))"
  using assms assert_transition_allowed_iff[of r CLAIMED]
  by (simp add: claim_def io_defs run_simps)

text \<open>
  C2: Two workers never both win a run.  When worker B's claim runs to the end while worker A's claim
  is at any of its database calls, before its read or between its read and its write, A gets the
  conflict on which the runner gives up, and the row is B's.
\<close>
theorem claim_is_exclusive:
  assumes "runs s tid = Some r" "status r = QUEUED" "lease_free (clock s) r"
    and "0 \<le> leaseDuration lb"
    and "envs = [claim_env tid lb, CallEnv (\<lambda>x. x) Done]
         \<or> envs = [CallEnv (\<lambda>x. x) Done, claim_env tid lb]"
  shows "claim tid (Some la) \<lparr>store = s, pending = envs\<rparr>
     = (Inl (ConflictException ''Test run has an active execution lease''),
        quiet (s\<lparr>runs := (runs s)(tid \<mapsto> claim_data lb (clock s) r)\<rparr>))"
proof -
  have B: "others (claim_env tid lb) s = s\<lparr>runs := (runs s)(tid \<mapsto> claim_data lb (clock s) r)\<rparr>"
    using claim_quiet[of s tid r lb] assms by (simp add: claim_env_def can_transition_iff)
  have R: "reply (claim_env tid lb) = Done" by (simp add: claim_env_def)
  show ?thesis
    using assms B R
    by (auto simp: claim_def io_defs find_run_def io_read_def io_call_def update_many_def
        update_row_def run_simps quiet_def assert_transition_allowed_def claim_data_def
        lease_free_def)
qed

theorem claim_is_exclusive_witness:
  "claim ''r1'' (Some \<lparr>leaseRunner = ''A'', leaseDuration = 60000\<rparr>)
      \<lparr>store = sample_store (sample_row\<lparr>status := QUEUED\<rparr>),
       pending = [CallEnv (\<lambda>x. x) Done,
         claim_env ''r1'' \<lparr>leaseRunner = ''B'', leaseDuration = 60000\<rparr>]\<rparr>
   = (Inl (ConflictException ''Test run has an active execution lease''),
      quiet ((sample_store (sample_row\<lparr>status := QUEUED\<rparr>))\<lparr>runs :=
        (runs (sample_store (sample_row\<lparr>status := QUEUED\<rparr>)))(''r1'' \<mapsto>
          claim_data \<lparr>leaseRunner = ''B'', leaseDuration = 60000\<rparr>
            (clock (sample_store (sample_row\<lparr>status := QUEUED\<rparr>))) (sample_row\<lparr>status := QUEUED\<rparr>))\<rparr>))"
  by (rule claim_is_exclusive) (simp_all add: sample_store_def sample_row_def lease_free_def)

theorem transition_detects_concurrent_change_witness:
  "transition ''r1'' PREPARING_WORKSPACE (\<lambda>x. x)
     \<lparr>store = sample_store (sample_row\<lparr>status := CLAIMED\<rparr>),
      pending = [CallEnv (\<lambda>x. x) Done,
        CallEnv (\<lambda>s. s\<lparr>runs := [''r1'' \<mapsto> sample_row\<lparr>status := CANCEL_REQUESTED\<rparr>]\<rparr>) Done]\<rparr>
   = (Inl (ConflictException ''Test run status changed concurrently''),
      quiet ((sample_store (sample_row\<lparr>status := CLAIMED\<rparr>))
        \<lparr>runs := [''r1'' \<mapsto> sample_row\<lparr>status := CANCEL_REQUESTED\<rparr>]\<rparr>))"
  by (rule transition_detects_concurrent_change
      [where r = "sample_row\<lparr>status := CLAIMED\<rparr>" and ra = "sample_row\<lparr>status := CANCEL_REQUESTED\<rparr>"])
    (simp_all add: sample_store_def can_transition_iff)

section \<open>Phases and cancellation\<close>

lemma update_filter_string:
  "filter is_string_entry (AList.update k (JStr v) (filter is_string_entry es))
     = AList.update k (JStr v) (filter is_string_entry es)"
  by (induction es) auto

text \<open>
  Entering a phase stamps it once.  The recorded time of a phase entered before, this one
  included, is kept; a phase entered for the first time gets the current time; non-string entries
  of the stored value are dropped.
\<close>
theorem enter_phase_timestamps:
  assumes "runs s tid = Some r" "is_phase phase" "can_transition (status r) phase"
  shows "\<exists>r' es. enter_phase tid phase (quiet s)
          = (Inr r', quiet (s\<lparr>runs := (runs s)(tid \<mapsto> r')\<rparr>))
     \<and> status r' = phase \<and> currentPhase r' = Some phase
     \<and> phaseTimestamps r' = Some (JObj es)
     \<and> (\<forall>q. map_of es q =
           (case map_of (existing_timestamps (phaseTimestamps r)) q of
              Some t \<Rightarrow> Some t
            | None \<Rightarrow> if q = status_name phase then Some (JStr (iso_string (clock s))) else None))"
proof -
  have "assert_transition_allowed r phase = Inr ()"
    using assms by (simp add: assert_transition_allowed_iff)
  with assms show ?thesis
    by (auto simp: enter_phase_def run_simps Let_def transition_data_def next_phase_timestamps_def
        update_conv' split: option.splits)
qed

theorem enter_phase_timestamps_witness:
  "\<exists>r' w. enter_phase ''r1'' PULLING_IMAGES
        (quiet (sample_store (sample_row\<lparr>status := VALIDATING_ENVIRONMENT,
          phaseTimestamps := Some (JObj [(''X'', JNull), (''PULLING_IMAGES'', JStr ''t'')])\<rparr>)))
      = (Inr r', w) \<and> status r' = PULLING_IMAGES"
  using enter_phase_timestamps
    [of "sample_store (sample_row\<lparr>status := VALIDATING_ENVIRONMENT,
          phaseTimestamps := Some (JObj [(''X'', JNull), (''PULLING_IMAGES'', JStr ''t'')])\<rparr>)" "''r1''"
        "sample_row\<lparr>status := VALIDATING_ENVIRONMENT,
          phaseTimestamps := Some (JObj [(''X'', JNull), (''PULLING_IMAGES'', JStr ''t'')])\<rparr>"
        PULLING_IMAGES]
  by (auto simp: sample_store_def can_transition_iff)

text \<open>
  Every cancellable status accepts a cancellation request except \<open>CLEANING_UP\<close>, which
  \<open>TEST_RUN_CANCELLABLE_STATUSES\<close> lists and the transition table refuses: the request of a run
  that is cleaning up fails with a conflict and changes nothing.
\<close>
theorem cancel_request_outcomes:
  assumes "runs s tid = Some r" "status r \<in> set cancellable_statuses"
  shows "(\<exists>r'. request_cancel tid by reason (quiet s)
             = (Inr r', quiet (s\<lparr>runs := (runs s)(tid \<mapsto> r')\<rparr>))
           \<and> status r' = CANCEL_REQUESTED \<and> cancelRequestedAt r' = Some (clock s)
           \<and> cancellationReason r' = reason) = (status r \<noteq> CLEANING_UP)
    \<and> (status r = CLEANING_UP \<longrightarrow> request_cancel tid by reason (quiet s)
         = (Inl (ConflictException
             ''Invalid test run status transition: CLEANING_UP -> CANCEL_REQUESTED''), quiet s))"
proof (cases "status r = CLEANING_UP")
  case True
  then show ?thesis
    using assms
    by (simp add: request_cancel_def io_defs run_simps assert_transition_allowed_def)
next
  case False
  then have "assert_transition_allowed r CANCEL_REQUESTED = Inr ()"
    using cancellable_requestable[of "status r"] assms by (simp add: assert_transition_allowed_iff)
  with assms False show ?thesis
    by (simp add: request_cancel_def io_defs run_simps transition_data_def cancel_data_def Let_def)
qed

theorem cancel_request_outcomes_witness:
  "fst (request_cancel ''r1'' None None (quiet (sample_store (sample_row\<lparr>status := CLEANING_UP\<rparr>))))
     = Inl (ConflictException ''Invalid test run status transition: CLEANING_UP -> CANCEL_REQUESTED'')"
  using cancel_request_outcomes
    [of "sample_store (sample_row\<lparr>status := CLEANING_UP\<rparr>)" "''r1''" "sample_row\<lparr>status := CLEANING_UP\<rparr>"
        None None]
  by (simp add: sample_store_def status_group_defs)

end
