(* ===== verification/Queue_Props.thy ===== *)
theory Queue_Props
  imports Run_Queue Run_Props
begin

text \<open>
  Properties of the queue and its recovery: enqueueing, a crash between queue and table, the lease
  janitor, cancellation of a queued run, and the runs no recovery closes.
\<close>

lemma get_queue_state_quiet [run_simps]:
  "runs s tid = Some r \<Longrightarrow> get_queue_state tid (quiet s) = (Inr r, quiet s)"
  by (simp add: get_queue_state_def io_defs run_simps)

lemma io_ignore_run: "io_ignore m w = (Inr (), snd (m w))"
  by (cases "m w"; cases "fst (m w)") (auto simp: io_ignore_def io_catch_def io_then_def io_bind_def
      io_return_def)

definition queued_row :: "string \<Rightarrow> int \<Rightarrow> test_run \<Rightarrow> test_run" where
  "queued_row tid now r = (queued_data (job_id tid) now r)\<lparr>status := QUEUED\<rparr>"

lemma enqueue_quiet:
  assumes "runs s tid = Some r" "recoverable r" "status r = CREATED"
  shows "enqueue api tid (quiet s)
    = (Inr (job_id tid), quiet (s\<lparr>runs := (runs s)(tid \<mapsto> queued_row tid (clock s) r),
         queue := queue_add api (job_id tid) tid (queue s)\<rparr>))"
  using assms
  by (simp add: enqueue_def add_job_def mark_queued_if_created_def io_defs run_simps recoverable_def
      queued_row_def Let_def)

lemma enqueue_quiet_done:
  assumes "runs s tid = Some r" "status r \<noteq> CREATED"
  shows "enqueue api tid (quiet s) = (Inr (stored_job_id r (job_id tid)), quiet s)"
  using assms by (simp add: enqueue_def io_defs run_simps Let_def)

lemma queued_row_sel [simp]:
  "status (queued_row tid now r) = QUEUED" "queueJobId (queued_row tid now r) = Some (job_id tid)"
  "stored_job_id (queued_row tid now r) j = job_id tid"
  by (simp_all add: queued_row_def queued_data_def stored_job_id_def cleared_lease_def)

section \<open>Enqueueing\<close>

text \<open>
  Enqueueing a created run puts its job on the queue, marks the row \<open>QUEUED\<close> with the job's id,
  and touches no other job; enqueueing it again changes nothing.
\<close>
theorem enqueue_created_run:
  assumes "bull_queue api" "runs s tid = Some r" "recoverable r" "status r = CREATED"
  shows "\<exists>s'. enqueue api tid (quiet s) = (Inr (job_id tid), quiet s')
    \<and> queue_state api (job_id tid) (queue s') \<noteq> None
    \<and> (\<forall>k. k \<noteq> job_id tid \<longrightarrow> queue_state api k (queue s') = queue_state api k (queue s))
    \<and> runs s' = (runs s)(tid \<mapsto> queued_row tid (clock s) r)
    \<and> enqueue api tid (quiet s') = (Inr (job_id tid), quiet s')"
proof -
  let ?s' = "s\<lparr>runs := (runs s)(tid \<mapsto> queued_row tid (clock s) r),
         queue := queue_add api (job_id tid) tid (queue s)\<rparr>"
  have "enqueue api tid (quiet s) = (Inr (job_id tid), quiet ?s')"
    using assms(2-4) by (rule enqueue_quiet)
  moreover have "enqueue api tid (quiet ?s') = (Inr (job_id tid), quiet ?s')"
    using enqueue_quiet_done[of ?s' tid "queued_row tid (clock s) r" api] by simp
  ultimately show ?thesis
    using bull_queue.add_present[OF assms(1)] bull_queue.add_other[OF assms(1)]
    by (intro exI[of _ ?s']) simp
qed

definition sample_queue_store :: "test_run \<Rightarrow> (string \<rightharpoonup> string) \<Rightarrow> (string \<rightharpoonup> string) queue_store" where
  "sample_queue_store r q =
     \<lparr>clock = 1000, runs = [''r1'' \<mapsto> r], queue = q, projectCompany = [''p1'' \<mapsto> ''c1'']\<rparr>"

theorem enqueue_created_run_witness:
  "\<exists>s'. enqueue map_queue ''r1'' (quiet (sample_queue_store sample_row Map.empty))
      = (Inr (job_id ''r1''), quiet s')
    \<and> queue_state map_queue (job_id ''r1'') (queue s') \<noteq> None"
  using enqueue_created_run[OF jobs.bull_queue_axioms,
      of "sample_queue_store sample_row Map.empty" "''r1''" sample_row]
  by (auto simp: sample_queue_store_def recoverable_def sample_row_def)

section \<open>A crash between the queue and the table\<close>

text \<open>
  When the process dies after the job is on the queue and before the row is marked, the row is
  still \<open>CREATED\<close>; recovery at the next start marks it \<open>QUEUED\<close> and leaves the queue with the one
  job it has.
\<close>
theorem enqueue_crash_recovered:
  assumes "bull_queue api" "runs s tid = Some r" "recoverable r" "status r = CREATED"
    and "s1 = store (snd (enqueue api tid \<lparr>store = s,
          pending = [CallEnv (\<lambda>x. x) Done, CallEnv (\<lambda>x. x) Done, CallEnv (\<lambda>x. x) (Rejected e)]\<rparr>))"
  shows "runs s1 = runs s
    \<and> queue_state api (job_id tid) (queue s1) \<noteq> None
    \<and> (\<exists>s2. recover_queued_runs api [tid] (quiet s1) = (Inr (), quiet s2)
         \<and> runs s2 = (runs s)(tid \<mapsto> queued_row tid (clock s) r)
         \<and> queue s2 = queue s1)"
proof -
  have s1: "s1 = s\<lparr>queue := queue_add api (job_id tid) tid (queue s)\<rparr>"
    using assms(2-5)
    by (simp add: enqueue_def get_queue_state_def find_run_def io_read_def add_job_def
        mark_queued_if_created_def update_many_def io_defs io_call_def run_simps Let_def)
  have r1: "runs s1 tid = Some r" and c1: "clock s1 = clock s" using assms(2) s1 by simp_all
  have e1: "enqueue api tid (quiet s1)
      = (Inr (job_id tid), quiet (s1\<lparr>runs := (runs s1)(tid \<mapsto> queued_row tid (clock s1) r),
           queue := queue s1\<rparr>))"
    using enqueue_quiet[OF r1 assms(3,4), of api] s1 bull_queue.add_twice[OF assms(1)] by simp
  have m: "matching_runs [tid] recoverable s1 = [(tid, CREATED)]"
    using r1 assms(3,4) by (simp add: matching_runs_def List.map_filter_def)
  have "recover_queued_runs api [tid] (quiet s1)
      = (Inr (), quiet (s1\<lparr>runs := (runs s1)(tid \<mapsto> queued_row tid (clock s1) r)\<rparr>))"
    by (simp add: recover_queued_runs_def recover_queued_run_def m e1 io_defs run_simps)
  then show ?thesis
    using s1 c1 bull_queue.add_present[OF assms(1)] by simp
qed

theorem enqueue_crash_recovered_witness:
  "\<exists>s2. recover_queued_runs map_queue [''r1'']
      (quiet (store (snd (enqueue map_queue ''r1''
        \<lparr>store = sample_queue_store sample_row Map.empty,
         pending = [CallEnv (\<lambda>x. x) Done, CallEnv (\<lambda>x. x) Done,
           CallEnv (\<lambda>x. x) (Rejected (PlainError ''killed''))]\<rparr>)))) = (Inr (), quiet s2)"
  using enqueue_crash_recovered[OF jobs.bull_queue_axioms,
      of "sample_queue_store sample_row Map.empty" "''r1''" sample_row _ "PlainError ''killed''"]
  by (auto simp: sample_queue_store_def recoverable_def sample_row_def)

section \<open>The lease janitor\<close>

definition closed_row :: "int \<Rightarrow> test_run \<Rightarrow> test_run" where
  "closed_row now r =
     (if status r = CANCEL_REQUESTED
      then transition_data r CANCELLED now (\<lambda>r.
        (finished_data now None (Some ''Test run was cancelled'') (Some CANCELLED_CATEGORY) r)
          \<lparr>cleanupError := Some ''Worker lease expired before cleanup confirmation''\<rparr>) r
      else transition_data r INFRA_FAILED now (finished_data now None
        (Some ''Worker execution lease expired; run was not retried automatically'')
        (Some INTERNAL)) r)"

lemma orphan_statuses_iff:
  "st \<in> set orphan_statuses \<longleftrightarrow> \<not> is_terminal st \<and> st \<noteq> CREATED \<and> st \<noteq> QUEUED"
  by (cases st) (simp_all add: orphan_statuses_def)

lemma recover_orphan_quiet:
  assumes "runs s tid = Some r" "status r \<in> set orphan_statuses"
  shows "recover_orphan (tid, status r) (quiet s)
    = (Inr (), quiet (s\<lparr>runs := (runs s)(tid \<mapsto> closed_row (clock s) r)\<rparr>))"
proof -
  have nt: "\<not> is_terminal (status r)" using assms(2) by (simp add: orphan_statuses_iff)
  show ?thesis
  proof (cases "status r = CANCEL_REQUESTED")
    case True
    with assms(1) show ?thesis
      by (simp add: recover_orphan_def try_mark_cancelled_def unless_terminal_def is_terminal_run_def
          mark_cancelled_def io_defs run_simps assert_transition_allowed_def closed_row_def Let_def)
  next
    case False
    then have "can_transition (status r) INFRA_FAILED"
      using nt by (cases "status r") (simp_all add: can_transition_iff)
    then have "assert_transition_allowed r INFRA_FAILED = Inr ()"
      by (simp add: assert_transition_allowed_iff)
    with assms(1) nt False show ?thesis
      by (simp add: recover_orphan_def try_mark_infra_failed_def unless_terminal_def
          is_terminal_run_def mark_infra_failed_def io_defs run_simps closed_row_def Let_def)
  qed
qed

definition janitor_runs ::
    "int \<Rightarrow> string list \<Rightarrow> 'a run_store_scheme \<Rightarrow> (string \<rightharpoonup> test_run)" where
  "janitor_runs now ids s =
     (\<lambda>tid. case runs s tid of
        Some r \<Rightarrow> Some (if tid \<in> set ids \<and> orphaned now r then closed_row (clock s) r else r)
      | None \<Rightarrow> None)"

lemma recover_orphans_quiet:
  "distinct ids \<Longrightarrow>
   io_for (matching_runs ids (orphaned now) s) recover_orphan (quiet s)
     = (Inr (), quiet (s\<lparr>runs := janitor_runs now ids s\<rparr>))"
proof (induction ids arbitrary: s)
  case Nil
  have "janitor_runs now [] s = runs s"
    by (simp add: janitor_runs_def fun_eq_iff split: option.splits)
  then show ?case by (simp add: matching_runs_def List.map_filter_def run_simps)
next
  case (Cons tid ids)
  then have tid: "tid \<notin> set ids" and ids: "distinct ids" by simp_all
  show ?case
  proof (cases "\<exists>r. runs s tid = Some r \<and> orphaned now r")
    case True
    then obtain r where r: "runs s tid = Some r" and o: "orphaned now r" by blast
    let ?s1 = "s\<lparr>runs := (runs s)(tid \<mapsto> closed_row (clock s) r)\<rparr>"
    have m: "matching_runs (tid # ids) (orphaned now) s
        = (tid, status r) # matching_runs ids (orphaned now) s"
      using r o by (simp add: matching_runs_def List.map_filter_def)
    have same: "matching_runs ids (orphaned now) s = matching_runs ids (orphaned now) ?s1"
      using tid by (auto simp: matching_runs_def List.map_filter_def cong: map_cong filter_cong
          intro!: arg_cong2[where f = map] filter_cong map_cong)
    have "recover_orphan (tid, status r) (quiet s) = (Inr (), quiet ?s1)"
      using r o by (intro recover_orphan_quiet) (simp_all add: orphaned_def)
    then have "io_for (matching_runs (tid # ids) (orphaned now) s) recover_orphan (quiet s)
        = io_for (matching_runs ids (orphaned now) ?s1) recover_orphan (quiet ?s1)"
      by (simp add: m same io_then_def io_bind_def)
    also have "\<dots> = (Inr (), quiet (?s1\<lparr>runs := janitor_runs now ids ?s1\<rparr>))"
      using ids by (rule Cons.IH)
    also have "?s1\<lparr>runs := janitor_runs now ids ?s1\<rparr> = s\<lparr>runs := janitor_runs now (tid # ids) s\<rparr>"
      using tid r o by (auto simp: janitor_runs_def fun_eq_iff split: option.splits)
    finally show ?thesis .
  next
    case False
    then have "matching_runs (tid # ids) (orphaned now) s = matching_runs ids (orphaned now) s"
      "janitor_runs now (tid # ids) s = janitor_runs now ids s"
      by (auto simp: matching_runs_def List.map_filter_def janitor_runs_def fun_eq_iff
          split: option.splits)
    with Cons.IH[OF ids] show ?thesis by simp
  qed
qed

text \<open>
  C11: One pass of the janitor closes every run whose worker let its lease expire, as \<open>CANCELLED\<close> if
  cancellation was requested and as \<open>INFRA_FAILED\<close> otherwise, clears its lease and stamps its end,
  and leaves every other run alone.
\<close>
theorem janitor_closes_orphans:
  assumes "distinct ids" "dom (runs s) = set ids"
  shows "\<exists>s'. recover_expired_leases ids (quiet s) = (Inr (), quiet s')
    \<and> dom (runs s') = dom (runs s)
    \<and> (\<forall>tid r. runs s tid = Some r \<longrightarrow> \<not> orphaned (clock s) r \<longrightarrow> runs s' tid = Some r)
    \<and> (\<forall>tid r. runs s tid = Some r \<longrightarrow> orphaned (clock s) r \<longrightarrow>
         (\<exists>r'. runs s' tid = Some r'
            \<and> status r' = (if status r = CANCEL_REQUESTED then CANCELLED else INFRA_FAILED)
            \<and> cleared_lease r' = r' \<and> finishedAt r' = Some (clock s)))"
proof -
  let ?s' = "s\<lparr>runs := janitor_runs (clock s) ids s\<rparr>"
  have "recover_expired_leases ids (quiet s) = (Inr (), quiet ?s')"
    using recover_orphans_quiet[OF assms(1), of "clock s" s]
    by (simp add: recover_expired_leases_def io_defs run_simps)
  moreover have "dom (janitor_runs (clock s) ids s) = dom (runs s)"
    by (auto simp: janitor_runs_def split: option.splits)
  moreover have "tid \<in> set ids" if "runs s tid = Some r" for tid r
    using that assms(2) by blast
  ultimately show ?thesis
    by (intro exI[of _ ?s'])
      (auto simp: janitor_runs_def closed_row_def transition_data_def finished_data_def
        cleared_lease_def)
qed

definition lost_run :: test_run where
  "lost_run = sample_row\<lparr>status := EXECUTING_TESTS, runnerId := Some ''w'',
     leaseExpiresAt := Some 10\<rparr>"

theorem janitor_closes_orphans_witness:
  "orphaned 1000 lost_run
   \<and> (\<exists>s'. recover_expired_leases [''r1''] (quiet (sample_store lost_run)) = (Inr (), quiet s')
    \<and> dom (runs s') = dom (runs (sample_store lost_run))
    \<and> (\<forall>tid r. runs (sample_store lost_run) tid = Some r \<longrightarrow>
         \<not> orphaned (clock (sample_store lost_run)) r \<longrightarrow> runs s' tid = Some r)
    \<and> (\<forall>tid r. runs (sample_store lost_run) tid = Some r \<longrightarrow>
         orphaned (clock (sample_store lost_run)) r \<longrightarrow>
         (\<exists>r'. runs s' tid = Some r'
            \<and> status r' = (if status r = CANCEL_REQUESTED then CANCELLED else INFRA_FAILED)
            \<and> cleared_lease r' = r' \<and> finishedAt r' = Some (clock (sample_store lost_run)))))"
proof
  show "orphaned 1000 lost_run"
    by (simp add: orphaned_def lost_run_def orphan_statuses_def sample_row_def)
qed (rule janitor_closes_orphans; simp add: sample_store_def)

section \<open>Cancellation of a queued run\<close>

lemma find_project_run_quiet [run_simps]:
  "projectCompany s pid = Some company \<Longrightarrow> runs s tid = Some r \<Longrightarrow> projectId r = pid \<Longrightarrow>
   find_project_run pid tid company (quiet s) = (Inr r, quiet s)"
  by (simp add: find_project_run_def get_project_or_throw_def io_defs run_simps)

definition cancel_requested_row ::
    "int \<Rightarrow> string option \<Rightarrow> string option \<Rightarrow> test_run \<Rightarrow> test_run" where
  "cancel_requested_row now requestedBy reason r =
     transition_data r CANCEL_REQUESTED now (cancel_data now requestedBy reason) r"

lemma request_cancel_quiet [run_simps]:
  "runs s tid = Some r \<Longrightarrow> can_transition (status r) CANCEL_REQUESTED \<Longrightarrow>
   request_cancel tid requestedBy reason (quiet s)
     = (Inr (cancel_requested_row (clock s) requestedBy reason r),
        quiet (s\<lparr>runs := (runs s)(tid \<mapsto> cancel_requested_row (clock s) requestedBy reason r)\<rparr>))"
  using assert_transition_allowed_iff[of r CANCEL_REQUESTED]
  by (simp add: request_cancel_def io_defs run_simps cancel_requested_row_def Let_def)

lemma cancel_requested_row_sel [simp]:
  "status (cancel_requested_row now b c r) = CANCEL_REQUESTED"
  "projectId (cancel_requested_row now b c r) = projectId r"
  "leaseExpiresAt (cancel_requested_row now b c r) = leaseExpiresAt r"
  by (simp_all add: cancel_requested_row_def transition_data_def cancel_data_def)

text \<open>
  Cancelling a queued run whose job still waits removes the job and closes the run as
  \<open>CANCELLED\<close>; when a worker already holds the job, the run is left in \<open>CANCEL_REQUESTED\<close> for it and
  the queue is untouched.
\<close>
theorem cancel_queued:
  assumes "bull_queue api" "projectCompany s pid = Some company"
    and "runs s tid = Some r" "projectId r = pid" "status r = QUEUED"
    and "queue_state api (job_id tid) (queue s) = Some st"
  shows "\<exists>r' s'. cancel api pid tid company requestedBy reason (quiet s) = (Inr r', quiet s')
    \<and> runs s' = (runs s)(tid \<mapsto> r')
    \<and> status r' = (if st \<in> set pending_states then CANCELLED else CANCEL_REQUESTED)
    \<and> queue_state api (job_id tid) (queue s')
        = (if st \<in> set pending_states then None else Some st)
    \<and> (st \<notin> set pending_states \<longrightarrow> queue s' = queue s)"
proof (cases "st \<in> set pending_states")
  case True
  then obtain q where q: "queue_remove api (job_id tid) (queue s) = Inr q"
      "queue_state api (job_id tid) q = None"
    using bull_queue.remove_pending[OF assms(1,6)] by blast
  then show ?thesis
    using assms(2-6) True
    by (simp add: cancel_def io_defs run_simps status_group_defs can_transition_iff
        cancel_queued_run_def mark_cancelled_def assert_transition_allowed_def Let_def)
      (simp add: transition_data_def finished_data_def cleared_lease_def run_simps)
next
  case False
  then show ?thesis
    using assms(2-6)
    by (simp add: cancel_def io_defs run_simps status_group_defs can_transition_iff
        cancel_queued_run_def image_iff)
qed

text \<open>
  A run that is cancelled between the worker taking its job and claiming its lease is closed by
  nobody once that worker dies: the failure handler cannot move \<open>CANCEL_REQUESTED\<close> to \<open>INFRA_FAILED\<close>,
  the janitor only looks at rows with a lease, and the queue recovery skips it.
\<close>
theorem cancelled_run_without_lease_stuck:
  assumes "runs s tid = Some r" "status r = CANCEL_REQUESTED" "leaseExpiresAt r = None"
    and "attempts \<le> made"
  shows "on_failed tid made (Some attempts) e (quiet s) = (Inr (), quiet s)
    \<and> recover_expired_leases [tid] (quiet s) = (Inr (), quiet s)
    \<and> recover_queued_runs api [tid] (quiet s) = (Inr (), quiet s)"
  using assms
  by (simp add: on_failed_def try_mark_infra_failed_def unless_terminal_def is_terminal_run_def
      mark_infra_failed_def io_defs run_simps assert_transition_allowed_def
      recover_expired_leases_def matching_runs_def List.map_filter_def orphaned_def
      recover_queued_runs_def recoverable_def)

lemma sample_queued:
  "projectCompany (sample_queue_store r q) ''p1'' = Some ''c1''"
  "runs (sample_queue_store r q) ''r1'' = Some r" "queue (sample_queue_store r q) = q"
  by (simp_all add: sample_queue_store_def)

theorem cancel_queued_witness:
  "\<exists>r' s'. cancel map_queue ''p1'' ''r1'' ''c1'' None None
      (quiet (sample_queue_store (sample_row\<lparr>status := QUEUED\<rparr>) [job_id ''r1'' \<mapsto> ''active'']))
      = (Inr r', quiet s') \<and> status r' = CANCEL_REQUESTED"
  using cancel_queued[OF jobs.bull_queue_axioms,
      of "sample_queue_store (sample_row\<lparr>status := QUEUED\<rparr>) [job_id ''r1'' \<mapsto> ''active'']" "''p1''" "''c1''"
        "''r1''" "sample_row\<lparr>status := QUEUED\<rparr>" "''active''" None None]
  by (auto simp: sample_queued map_queue_def pending_states_def sample_row_def)

theorem cancelled_run_without_lease_stuck_witness:
  "on_failed ''r1'' 1 (Some 1) (PlainError ''stalled'')
      (quiet (sample_queue_store (sample_row\<lparr>status := CANCEL_REQUESTED\<rparr>) Map.empty))
    = (Inr (), quiet (sample_queue_store (sample_row\<lparr>status := CANCEL_REQUESTED\<rparr>) Map.empty))"
  using cancelled_run_without_lease_stuck
    [of "sample_queue_store (sample_row\<lparr>status := CANCEL_REQUESTED\<rparr>) Map.empty" "''r1''"
        "sample_row\<lparr>status := CANCEL_REQUESTED\<rparr>" 1 1]
  by (simp add: sample_queued sample_row_def)

end
