(* ===== verification/Topo_Sort.thy ===== *)
theory Topo_Sort
  imports Json
begin

text \<open>
  The ordering loop that both suite compilers run (\<open>sortNodes\<close>): counts of incoming edges, a work
  queue, and a result list.  The compilers differ in whether the queue is kept sorted and in
  whether the targets of a node are visited in sorted order, so the loop takes both as arguments.
  The main lemma says that the result is a topological order, and that it covers all nodes exactly
  when the graph has no cycle.
\<close>

section \<open>The loop\<close>

definition place :: "('n \<Rightarrow> 'n \<Rightarrow> int) option \<Rightarrow> 'n list \<Rightarrow> 'n list" where
  "place cmp q = (case cmp of None \<Rightarrow> q | Some c \<Rightarrow> sort_by c q)"

definition target_order :: "bool \<Rightarrow> string list \<Rightarrow> string list" where
  "target_order inOrder ts = (if inOrder then sort_by code_unit_cmp ts else ts)"

fun visit_targets ::
    "('n \<Rightarrow> 'n \<Rightarrow> int) option \<Rightarrow> (string \<times> 'n) list \<Rightarrow> string list \<Rightarrow> (string \<Rightarrow> int) \<Rightarrow> 'n list \<Rightarrow>
     (string \<Rightarrow> int) \<times> 'n list" where
  "visit_targets cmp nodeMap [] cnt q = (cnt, q)"
| "visit_targets cmp nodeMap (t # ts) cnt q =
     (let c = cnt t - 1 in
      visit_targets cmp nodeMap ts (cnt(t := c))
        (if c = 0
         then (case map_of nodeMap t of None \<Rightarrow> q | Some n \<Rightarrow> place cmp (q @ [n]))
         else q))"

lemma mset_place [simp]: "mset (place cmp q) = mset q"
  by (simp add: place_def split: option.splits)

lemma set_place [simp]: "set (place cmp q) = set q"
  by (metis mset_place set_mset_mset)

lemma length_place [simp]: "length (place cmp q) = length q"
  by (metis mset_place size_mset)

lemma mset_target_order [simp]: "mset (target_order b ts) = mset ts"
  by (simp add: target_order_def)

definition open_count :: "(string \<times> 'n) list \<Rightarrow> (string \<Rightarrow> int) \<Rightarrow> nat" where
  "open_count nodeMap cnt = length (filter (\<lambda>e. 0 < cnt (fst e)) nodeMap)"

lemma open_count_mono:
  "(\<And>k. 0 < cnt' k \<Longrightarrow> 0 < cnt k) \<Longrightarrow> open_count nm cnt' \<le> open_count nm cnt"
  unfolding open_count_def by (induction nm) auto

lemma open_count_less:
  "(\<And>k. 0 < cnt' k \<Longrightarrow> 0 < cnt k) \<Longrightarrow> (t, n) \<in> set nm \<Longrightarrow> 0 < cnt t \<Longrightarrow> \<not> 0 < cnt' t \<Longrightarrow>
   open_count nm cnt' < open_count nm cnt"
proof (induction nm)
  case Nil
  then show ?case by simp
next
  case (Cons e nm)
  have "open_count nm cnt' \<le> open_count nm cnt" by (rule open_count_mono) (rule Cons.prems(1))
  with Cons show ?case by (auto simp: open_count_def)
qed

lemma visit_targets_decreases:
  "visit_targets cmp nm ts cnt q = (cnt', q') \<Longrightarrow>
   length q' + open_count nm cnt' \<le> length q + open_count nm cnt"
proof (induction ts arbitrary: cnt q)
  case Nil
  then show ?case by simp
next
  case (Cons t ts)
  let ?cnt1 = "cnt(t := cnt t - 1)"
  let ?q1 = "if cnt t - 1 = 0
    then (case map_of nm t of None \<Rightarrow> q | Some n \<Rightarrow> place cmp (q @ [n])) else q"
  have "length q' + open_count nm cnt' \<le> length ?q1 + open_count nm ?cnt1"
    by (rule Cons.IH) (use Cons.prems in \<open>simp only: visit_targets.simps Let_def\<close>)
  also have "\<dots> \<le> length q + open_count nm cnt"
  proof (cases "cnt t = 1 \<and> map_of nm t \<noteq> None")
    case True
    then obtain n where n: "map_of nm t = Some n" by blast
    then have "open_count nm ?cnt1 < open_count nm cnt"
      using True by (intro open_count_less[of _ _ t n]) (auto dest: map_of_SomeD split: if_splits)
    with True n show ?thesis by simp
  next
    case False
    moreover have "open_count nm ?cnt1 \<le> open_count nm cnt"
      by (rule open_count_mono) (auto split: if_splits)
    ultimately show ?thesis by (auto split: option.splits)
  qed
  finally show ?case .
qed

function kahn ::
    "('n \<Rightarrow> 'n \<Rightarrow> int) option \<Rightarrow> bool \<Rightarrow> (string \<times> 'n) list \<Rightarrow> ('n \<Rightarrow> string) \<Rightarrow>
     (string \<Rightarrow> string list) \<Rightarrow> (string \<Rightarrow> int) \<Rightarrow> 'n list \<Rightarrow> 'n list \<Rightarrow> 'n list" where
  "kahn cmp inOrder nodeMap key outgoing cnt [] ordered = ordered"
| "kahn cmp inOrder nodeMap key outgoing cnt (n # q) ordered =
     kahn cmp inOrder nodeMap key outgoing
       (fst (visit_targets cmp nodeMap (target_order inOrder (outgoing (key n))) cnt q))
       (snd (visit_targets cmp nodeMap (target_order inOrder (outgoing (key n))) cnt q))
       (ordered @ [n])"
  by pat_completeness auto

termination
proof (relation "measure (\<lambda>(cmp, inOrder, nm, key, out, cnt, q, ordered). length q + open_count nm cnt)")
  fix cmp :: "('n \<Rightarrow> 'n \<Rightarrow> int) option" and inOrder nm key out cnt and n :: 'n and q ordered
  let ?v = "visit_targets cmp nm (target_order inOrder (out (key n))) cnt q"
  have "length (snd ?v) + open_count nm (fst ?v) \<le> length q + open_count nm cnt"
    by (rule visit_targets_decreases[of cmp nm "target_order inOrder (out (key n))"]) simp
  then show "((cmp, inOrder, nm, key, out, fst ?v, snd ?v, ordered @ [n]),
      cmp, inOrder, nm, key, out, cnt, n # q, ordered)
      \<in> measure (\<lambda>(cmp, inOrder, nm, key, out, cnt, q, ordered). length q + open_count nm cnt)"
    by simp
qed simp

type_synonym edge_list = "(string \<times> string) list"

definition incoming_count :: "edge_list \<Rightarrow> string \<Rightarrow> int" where
  "incoming_count es t = int (length (filter (\<lambda>e. snd e = t) es))"

definition outgoing_targets :: "edge_list \<Rightarrow> string \<Rightarrow> string list" where
  "outgoing_targets es s = map snd (filter (\<lambda>e. fst e = s) es)"

definition topo_order ::
    "('n \<Rightarrow> 'n \<Rightarrow> int) option \<Rightarrow> bool \<Rightarrow> ('n \<Rightarrow> string) \<Rightarrow> 'n list \<Rightarrow> edge_list \<Rightarrow> 'n list" where
  "topo_order cmp inOrder key nodes es =
     kahn cmp inOrder (rev (map (\<lambda>n. (key n, n)) nodes)) key (outgoing_targets es)
       (incoming_count es)
       (place cmp (filter (\<lambda>n. incoming_count es (key n) = 0) nodes)) []"

section \<open>Correctness\<close>

lemma visit_targets_result:
  assumes "\<And>t. t \<in> set ts \<Longrightarrow> int (count_list ts t) \<le> cnt t"
    and "\<And>t. t \<in> set ts \<Longrightarrow> map_of nm t \<noteq> None"
  shows "fst (visit_targets cmp nm ts cnt q) = (\<lambda>t. cnt t - int (count_list ts t))
    \<and> mset (snd (visit_targets cmp nm ts cnt q))
      = mset q + image_mset (\<lambda>t. the (map_of nm t))
          (mset_set {t \<in> set ts. cnt t = int (count_list ts t)})"
  using assms
proof (induction ts arbitrary: cnt q)
  case Nil
  then show ?case by simp
next
  case (Cons t ts)
  let ?cnt1 = "cnt(t := cnt t - 1)"
  let ?q1 = "if cnt t - 1 = 0
    then (case map_of nm t of None \<Rightarrow> q | Some n \<Rightarrow> place cmp (q @ [n])) else q"
  obtain n where n: "map_of nm t = Some n" using Cons.prems(2)[of t] by auto
  have pre: "int (count_list ts u) \<le> ?cnt1 u" if "u \<in> set ts" for u
    using Cons.prems(1)[of u] Cons.prems(1)[of t] that by (cases "u = t") auto
  have IH: "fst (visit_targets cmp nm ts ?cnt1 ?q1) = (\<lambda>u. ?cnt1 u - int (count_list ts u))
    \<and> mset (snd (visit_targets cmp nm ts ?cnt1 ?q1))
      = mset ?q1 + image_mset (\<lambda>u. the (map_of nm u))
          (mset_set {u \<in> set ts. ?cnt1 u = int (count_list ts u)})"
    by (rule Cons.IH) (use pre Cons.prems(2) in auto)
  show ?case
  proof (cases "cnt t = 1")
    case True
    then have "t \<notin> set ts"
      using Cons.prems(1)[of t] by (auto simp: count_list_0_iff)
    then have 1: "{u \<in> set (t # ts). cnt u = int (count_list (t # ts) u)}
        = insert t {u \<in> set ts. ?cnt1 u = int (count_list ts u)}"
      using True by (auto simp: count_notin)
    have "t \<notin> {u \<in> set ts. ?cnt1 u = int (count_list ts u)}" using \<open>t \<notin> set ts\<close> by simp
    then show ?thesis
      using IH True n unfolding 1 by (auto simp: Let_def fun_eq_iff)
  next
    case False
    have 1: "{u \<in> set (t # ts). cnt u = int (count_list (t # ts) u)}
        = {u \<in> set ts. ?cnt1 u = int (count_list ts u)}"
      using False by (cases "t \<in> set ts") (auto simp: count_notin)
    show ?thesis
      using IH False unfolding 1 by (auto simp: Let_def fun_eq_iff)
  qed
qed

text \<open>
  The loop invariant, over the nodes already ordered and those in the queue: counts are the edges
  from nodes not yet ordered, and a node is ordered or queued exactly when its count is zero.
\<close>

definition waiting_edges :: "edge_list \<Rightarrow> string set \<Rightarrow> string \<Rightarrow> nat" where
  "waiting_edges es done_ids t = length (filter (\<lambda>e. snd e = t \<and> fst e \<notin> done_ids) es)"

definition before_in :: "string list \<Rightarrow> string \<Rightarrow> string \<Rightarrow> bool" where
  "before_in xs a b = (\<exists>us vs. xs = us @ b # vs \<and> a \<in> set us)"

definition kahn_inv ::
    "'n list \<Rightarrow> ('n \<Rightarrow> string) \<Rightarrow> edge_list \<Rightarrow> (string \<Rightarrow> int) \<Rightarrow> 'n list \<Rightarrow> 'n list \<Rightarrow> bool" where
  "kahn_inv nodes key es cnt q ordered =
     (distinct (map key (ordered @ q)) \<and> set (ordered @ q) \<subseteq> set nodes
      \<and> (\<forall>t. cnt t = int (waiting_edges es (key ` set ordered) t))
      \<and> (\<forall>n\<in>set nodes. n \<in> set (ordered @ q) \<longleftrightarrow> cnt (key n) = 0)
      \<and> (\<forall>(a, b)\<in>set es. b \<in> key ` set ordered \<longrightarrow> before_in (map key ordered) a b))"

lemma before_in_append: "before_in xs a b \<Longrightarrow> before_in (xs @ ys) a b"
  by (fastforce simp: before_in_def)

lemma waiting_edges_insert:
  assumes "k \<notin> D"
  shows "waiting_edges es (insert k D) t + count_list (outgoing_targets es k) t
    = waiting_edges es D t"
  using assms by (induction es) (auto simp: waiting_edges_def outgoing_targets_def)

lemma waiting_edges_0_iff:
  "waiting_edges es D t = 0 \<longleftrightarrow> (\<forall>(a, b)\<in>set es. b = t \<longrightarrow> a \<in> D)"
  by (auto simp: waiting_edges_def filter_empty_conv)

lemma count_target_order [simp]: "count_list (target_order b ts) t = count_list ts t"
  by (metis count_mset mset_target_order)

lemma set_target_order [simp]: "set (target_order b ts) = set ts"
  by (metis mset_target_order set_mset_mset)

lemma kahn_inv_step:
  assumes inv: "kahn_inv nodes key es cnt (n # q) ordered"
    and keys: "distinct (map key nodes)"
    and closed: "\<forall>(a, b)\<in>set es. b \<in> key ` set nodes"
    and v: "v = visit_targets cmp (rev (map (\<lambda>n. (key n, n)) nodes))
              (target_order b (outgoing_targets es (key n))) cnt q"
  shows "kahn_inv nodes key es (fst v) (snd v) (ordered @ [n])"
proof -
  let ?ts = "target_order b (outgoing_targets es (key n))"
  let ?D = "key ` set ordered"
  let ?cnt' = "\<lambda>t. cnt t - int (count_list (outgoing_targets es (key n)) t)"
  have cnt: "\<And>t. cnt t = int (waiting_edges es ?D t)"
    and dist: "distinct (map key (ordered @ n # q))"
    and sub: "set (ordered @ n # q) \<subseteq> set nodes"
    and zero: "\<And>m. m \<in> set nodes \<Longrightarrow> m \<in> set (ordered @ n # q) \<longleftrightarrow> cnt (key m) = 0"
    and before: "\<And>a b. (a, b) \<in> set es \<Longrightarrow> b \<in> ?D \<Longrightarrow> before_in (map key ordered) a b"
    using inv unfolding kahn_inv_def by blast+
  have nD: "key n \<notin> ?D" using dist by auto
  have wait: "waiting_edges es (insert (key n) ?D) t + count_list (outgoing_targets es (key n)) t
      = waiting_edges es ?D t" for t
    using nD by (rule waiting_edges_insert)
  have nm: "map_of (rev (map (\<lambda>n. (key n, n)) nodes)) (key m) = Some m" if "m \<in> set nodes" for m
    using that keys by (intro map_of_is_SomeI) (auto simp: rev_map[symmetric] o_def)
  have tgt: "t \<in> key ` set nodes" if "t \<in> set ?ts" for t
    using that closed by (force simp: outgoing_targets_def)
  have res: "fst v = ?cnt'" "mset (snd v) = mset q + image_mset
        (\<lambda>t. the (map_of (rev (map (\<lambda>n. (key n, n)) nodes)) t))
        (mset_set {t \<in> set ?ts. cnt t = int (count_list ?ts t)})"
  proof -
    have "int (count_list ?ts t) \<le> cnt t" for t
      using wait[of t] by (simp add: cnt)
    moreover have "map_of (rev (map (\<lambda>n. (key n, n)) nodes)) t \<noteq> None" if "t \<in> set ?ts" for t
      using tgt[OF that] nm by auto
    ultimately show "fst v = ?cnt'" "mset (snd v) = mset q + image_mset
        (\<lambda>t. the (map_of (rev (map (\<lambda>n. (key n, n)) nodes)) t))
        (mset_set {t \<in> set ?ts. cnt t = int (count_list ?ts t)})"
      using visit_targets_result[of ?ts cnt "rev (map (\<lambda>n. (key n, n)) nodes)" cmp q] v by simp_all
  qed
  let ?new = "{m \<in> set nodes. key m \<in> set ?ts \<and> ?cnt' (key m) = 0}"
  have inj: "inj_on key (set nodes)" using keys by (simp add: distinct_map)
  have new: "image_mset (\<lambda>t. the (map_of (rev (map (\<lambda>n. (key n, n)) nodes)) t))
      (mset_set {t \<in> set ?ts. cnt t = int (count_list ?ts t)}) = mset_set ?new"
  proof -
    have "{t \<in> set ?ts. cnt t = int (count_list ?ts t)} = key ` ?new"
      using tgt by auto
    moreover have "inj_on key ?new" using inj by (rule inj_on_subset) auto
    ultimately have "image_mset (\<lambda>t. the (map_of (rev (map (\<lambda>n. (key n, n)) nodes)) t))
        (mset_set {t \<in> set ?ts. cnt t = int (count_list ?ts t)})
        = image_mset (\<lambda>m. the (map_of (rev (map (\<lambda>n. (key n, n)) nodes)) (key m))) (mset_set ?new)"
      by (simp add: image_mset_mset_set[symmetric] multiset.map_comp o_def)
    also have "\<dots> = image_mset (\<lambda>m. m) (mset_set ?new)"
      using nm by (intro image_mset_cong) auto
    finally show ?thesis by simp
  qed
  have q': "mset (snd v) = mset q + mset_set ?new" using res(2) new by simp
  have setq': "set (snd v) = set q \<union> ?new"
    using arg_cong[OF q', of set_mset] by simp
  have fresh: "m \<notin> set (ordered @ n # q)" if "m \<in> ?new" for m
  proof
    assume "m \<in> set (ordered @ n # q)"
    then have "cnt (key m) = 0" using that zero by blast
    moreover have "0 < count_list (outgoing_targets es (key n)) (key m)"
      using that count_list_0_iff[of "outgoing_targets es (key n)" "key m"] by auto
    ultimately show False using that by simp
  qed
  show ?thesis
    unfolding kahn_inv_def
  proof (intro conjI allI ballI)
    have "distinct (snd v)"
    proof -
      have dq: "distinct q" using dist by (simp add: distinct_map)
      have "set q \<inter> ?new = {}" using fresh by (force simp: disjoint_iff)
      then have "mset_set (set q \<union> ?new) = mset_set (set q) + mset_set ?new"
        by (intro mset_set_Union) auto
      moreover have "mset_set (set q) = mset q" using dq by (rule mset_set_set)
      ultimately have "mset (snd v) = mset_set (set (snd v))"
        using q' setq' by simp
      then show ?thesis
        by (metis count_mset_set(1) count_mset_set(3) distinct_count_atmost_1 finite_set)
    qed
    moreover have "distinct (ordered @ [n])" "set (ordered @ [n]) \<inter> set q = {}"
      using dist unfolding distinct_map by auto
    moreover have "set (ordered @ [n]) \<inter> ?new = {}" using fresh by (fastforce simp: disjoint_iff)
    ultimately have "distinct ((ordered @ [n]) @ snd v)"
      unfolding distinct_append[of _ "snd v"] setq' by (simp only: Int_Un_distrib Un_empty simp_thms)
    moreover have "inj_on key (set ((ordered @ [n]) @ snd v))"
      using inj by (rule inj_on_subset) (use sub setq' in auto)
    ultimately show "distinct (map key ((ordered @ [n]) @ snd v))"
      unfolding distinct_map by simp
    show "set ((ordered @ [n]) @ snd v) \<subseteq> set nodes" using sub setq' by auto
    show "fst v t = int (waiting_edges es (key ` set (ordered @ [n])) t)" for t
      using wait[of t] cnt[of t] res(1) by simp
    show "m \<in> set ((ordered @ [n]) @ snd v) \<longleftrightarrow> fst v (key m) = 0" if "m \<in> set nodes" for m
    proof -
      note m = that
      let ?c = "count_list (outgoing_targets es (key n)) (key m)"
      have c: "fst v (key m) = cnt (key m) - int ?c" using res(1) by simp
      have le: "int ?c \<le> cnt (key m)" using wait[of "key m"] cnt[of "key m"] by simp
      have "m \<in> set ((ordered @ [n]) @ snd v) \<longleftrightarrow> m \<in> set (ordered @ n # q) \<or> m \<in> ?new"
        unfolding set_append setq' by auto
      also have "\<dots> \<longleftrightarrow> cnt (key m) = 0 \<or> (?c \<noteq> 0 \<and> cnt (key m) = int ?c)"
        using zero[OF m] m by (simp add: count_list_0_iff)
      also have "\<dots> \<longleftrightarrow> fst v (key m) = 0" unfolding c using le by auto
      finally show ?thesis .
    qed
    show "case e of (a, b) \<Rightarrow> b \<in> key ` set (ordered @ [n]) \<longrightarrow> before_in (map key (ordered @ [n])) a b"
      if "e \<in> set es" for e
    proof -
      note es = that
      obtain a b where e: "e = (a, b)" by force
      have "before_in (map key (ordered @ [n])) a b" if b: "b \<in> key ` set (ordered @ [n])"
      proof (cases "b \<in> ?D")
        case True
        with before[of a b] es e show ?thesis by (simp add: before_in_append)
      next
        case False
        with b have bn: "b = key n" by simp
        have "cnt (key n) = 0" using zero[of n] sub by simp
        then have "a \<in> ?D"
          using cnt[of "key n"] waiting_edges_0_iff[of es ?D "key n"] es e bn by auto
        then show ?thesis by (auto simp: before_in_def bn)
      qed
      then show ?thesis unfolding e prod.case by (rule impI)
    qed
  qed
qed

lemma kahn_inv_kahn:
  assumes "distinct (map key nodes)" "\<forall>(a, b)\<in>set es. b \<in> key ` set nodes"
    and "kahn_inv nodes key es cnt q ordered"
  shows "\<exists>cnt'. kahn_inv nodes key es cnt' []
      (kahn cmp b (rev (map (\<lambda>n. (key n, n)) nodes)) key (outgoing_targets es) cnt q ordered)"
  using assms
proof (induction cmp b "rev (map (\<lambda>n. (key n, n)) nodes)" key "outgoing_targets es" cnt q ordered
    rule: kahn.induct)
  case (1 cmp b key cnt ordered)
  then show ?case by auto
next
  case (2 cmp b key cnt n q ordered)
  have "kahn_inv nodes key es
      (fst (visit_targets cmp (rev (map (\<lambda>n. (key n, n)) nodes))
        (target_order b (outgoing_targets es (key n))) cnt q))
      (snd (visit_targets cmp (rev (map (\<lambda>n. (key n, n)) nodes))
        (target_order b (outgoing_targets es (key n))) cnt q)) (ordered @ [n])"
    by (rule kahn_inv_step[OF 2(4) 2(2) 2(3) refl])
  from 2(1)[OF 2(2) 2(3) this] show ?case unfolding kahn.simps .
qed

lemma kahn_inv_initial:
  assumes "distinct (map key nodes)" "\<forall>(a, b)\<in>set es. b \<in> key ` set nodes"
  shows "kahn_inv nodes key es (incoming_count es)
    (place cmp (filter (\<lambda>n. incoming_count es (key n) = 0) nodes)) []"
proof -
  let ?q = "filter (\<lambda>n. incoming_count es (key n) = 0) nodes"
  have "distinct (map key (place cmp ?q)) \<longleftrightarrow> distinct (map key ?q)"
    by (rule mset_eq_imp_distinct_iff) simp
  then have "distinct (map key (place cmp ?q))"
    using assms(1) by (simp add: distinct_map_filter)
  then show ?thesis
    by (auto simp: kahn_inv_def incoming_count_def waiting_edges_def)
qed

text \<open>The order the loop returns: distinct nodes, every edge into an ordered node goes forward.\<close>

lemma topo_order_sound:
  assumes "distinct (map key nodes)" "\<forall>(a, b)\<in>set es. b \<in> key ` set nodes"
    and r: "r = topo_order cmp ord key nodes es"
  shows "distinct (map key r)" "set r \<subseteq> set nodes"
    and "\<And>a b. (a, b) \<in> set es \<Longrightarrow> b \<in> key ` set r \<Longrightarrow> before_in (map key r) a b"
    and "\<And>n. n \<in> set nodes \<Longrightarrow> n \<notin> set r \<Longrightarrow> \<exists>a. (a, key n) \<in> set es \<and> a \<notin> key ` set r"
proof -
  obtain cnt where inv: "kahn_inv nodes key es cnt [] r"
    using kahn_inv_kahn[OF assms(1,2) kahn_inv_initial[OF assms(1,2), of cmp], of cmp ord] r
    unfolding topo_order_def by auto
  show "distinct (map key r)" "set r \<subseteq> set nodes"
    using inv by (auto simp: kahn_inv_def)
  show "before_in (map key r) a b" if "(a, b) \<in> set es" "b \<in> key ` set r" for a b
    using inv that unfolding kahn_inv_def by blast
  fix n assume "n \<in> set nodes" "n \<notin> set r"
  then have "cnt (key n) \<noteq> 0" "cnt (key n) = int (waiting_edges es (key ` set r) (key n))"
    using inv by (auto simp: kahn_inv_def)
  then have "waiting_edges es (key ` set r) (key n) \<noteq> 0" by simp
  then show "\<exists>a. (a, key n) \<in> set es \<and> a \<notin> key ` set r"
    unfolding waiting_edges_0_iff by auto
qed

lemma before_in_trans:
  assumes "distinct xs" "before_in xs a b" "before_in xs b c"
  shows "before_in xs a c"
proof -
  obtain us vs where c: "xs = us @ c # vs" "b \<in> set us" using assms(3) by (auto simp: before_in_def)
  obtain us' vs' where b: "xs = us' @ b # vs'" "a \<in> set us'" using assms(2) by (auto simp: before_in_def)
  obtain p s where us: "us = p @ b # s" using c(2) by (meson split_list)
  have "us' @ b # vs' = p @ b # (s @ c # vs)" using b(1) c(1) us by simp
  moreover have "b \<notin> set us'" "b \<notin> set vs'" using assms(1) b(1) by auto
  ultimately have "us' = p" by (simp add: append_Cons_eq_iff)
  then have "xs = us @ c # vs" "a \<in> set us" using b(2) c(1) us by simp_all
  then show ?thesis unfolding before_in_def by blast
qed

lemma before_in_irrefl: "distinct xs \<Longrightarrow> \<not> before_in xs a a"
  by (auto simp: before_in_def)

lemma before_in_set: "before_in xs a b \<Longrightarrow> a \<in> set xs \<and> b \<in> set xs"
  by (auto simp: before_in_def)

lemma before_in_acyclic:
  assumes "distinct xs"
  shows "acyclic {(a, b). before_in xs a b}"
proof -
  have "trans {(a, b). before_in xs a b}"
    using before_in_trans[OF assms] by (auto simp: trans_def)
  then show ?thesis
    using before_in_irrefl[OF assms] by (auto simp: acyclic_def trancl_id)
qed

lemma no_source_cycle:
  assumes "finite R" "R \<noteq> {}" "\<And>a. a \<in> R \<Longrightarrow> \<exists>b\<in>R. (b, a) \<in> E"
  shows "\<not> acyclic E"
proof
  assume "acyclic E"
  then have "acyclic (E \<inter> R \<times> R)" by (rule acyclic_subset) auto
  moreover have "finite (E \<inter> R \<times> R)" using assms(1) by simp
  ultimately have wf: "wf (E \<inter> R \<times> R)" by (intro finite_acyclic_wf)
  obtain x where "x \<in> R" using assms(2) by blast
  with wf obtain z where z: "z \<in> R" "\<And>y. (y, z) \<in> E \<inter> R \<times> R \<Longrightarrow> y \<notin> R"
    by (rule wfE_min) blast
  obtain b where "b \<in> R" "(b, z) \<in> E" using assms(3)[OF z(1)] by blast
  with z show False by blast
qed

lemma topo_order_complete_iff:
  assumes keys: "distinct (map key nodes)"
    and closed: "\<forall>(a, b)\<in>set es. a \<in> key ` set nodes \<and> b \<in> key ` set nodes"
  shows "length (topo_order cmp ord key nodes es) = length nodes \<longleftrightarrow> acyclic (set es)"
proof -
  define r where "r = topo_order cmp ord key nodes es"
  have closed': "\<forall>(a, b)\<in>set es. b \<in> key ` set nodes" using closed by auto
  note sound = topo_order_sound[OF keys closed' r_def]
  have dr: "distinct r" and dn: "distinct nodes" using sound(1) keys by (auto simp: distinct_map)
  have len: "length r = length nodes \<longleftrightarrow> set r = set nodes"
    using dr dn sound(2) by (metis card_subset_eq distinct_card finite_set)
  have inj: "inj_on key (set nodes)" using keys by (simp add: distinct_map)
  show ?thesis
    unfolding r_def[symmetric] len
  proof
    assume all: "set r = set nodes"
    have "set es \<subseteq> {(a, b). before_in (map key r) a b}"
      using sound(3) closed all by auto
    with before_in_acyclic[OF sound(1)] show "acyclic (set es)" by (rule acyclic_subset)
  next
    assume ac: "acyclic (set es)"
    show "set r = set nodes"
    proof (rule ccontr)
      assume "set r \<noteq> set nodes"
      then have ne: "key ` (set nodes - set r) \<noteq> {}" using sound(2) by auto
      have "\<exists>b\<in>key ` (set nodes - set r). (b, a) \<in> set es" if "a \<in> key ` (set nodes - set r)" for a
        using that sound(4) closed by fastforce
      then show False
        using no_source_cycle[OF _ ne, of "set es"] ac by auto
    qed
  qed
qed

end
