(* ===== verification/Flow_Types.thy ===== *)
theory Flow_Types
  imports Topo_Sort
begin

text \<open>
  The data both suite compilers work on: the visual flow as the editor sends it, the execution plan
  the runner executes, and the migration of a flow to the current version of the visual language.
  A field of a flow either is missing (\<open>None\<close>) or has its declared type, and values the code only
  passes on (headers, bodies, operators, expected values) are arbitrary JSON; what the code checks
  at run time (blank strings, missing fields, values that are no arrays) is visible.  The position of
  a node on the canvas is left out: no compiler reads it.
\<close>

section \<open>Visual flows\<close>

type_synonym 'a obj = "(string \<times> 'a) list"

datatype 'a array_field = Absent | NotAnArray | Elements "'a list"

record retry_policy =
  maxAttempts :: jsnum
  backoffMs :: jsnum

record flow_assertion =
  faFieldPath :: "string option"
  faOperator :: "json option"
  faExpectedValue :: "json option"

text \<open>
  \<open>FlowNode\<close> is a union of five interfaces; a node carries the fields of its own interface, and the
  fields of the others are \<open>None\<close>.  \<open>nPath\<close> is the URL path of a request and the response path of
  a \<open>setVariable\<close> node, as in the source.
\<close>

record flow_node =
  nId :: "string option"
  nName :: "string option"
  nType :: "string option"
  nVersion :: "string option"
  nTimeoutMs :: "jsnum option"
  nRetryPolicy :: "retry_policy option"
  nContinueOnFailure :: "bool option"
  nMethod :: "string option"
  nPath :: "string option"
  nHeaders :: "json obj option"
  nQuery :: "json obj option"
  nJsonBody :: "json option"
  nExpectStatus :: "json option"
  nJsonContains :: "json option"
  nAssertions :: "flow_assertion list option"
  nSave :: "json obj option"
  nDurationMs :: "jsnum option"
  nTimeoutSeconds :: "jsnum option"
  nIntervalSeconds :: "jsnum option"
  nFailureMessage :: "string option"
  nVariableName :: "string option"
  nValue :: "json option"
  nFromStepId :: "string option"
  nSourceStepId :: "string option"
  nFieldPath :: "string option"
  nOperator :: "json option"
  nExpectedValue :: "json option"

record flow_edge =
  eId :: string
  eSource :: string
  eTarget :: string

record flow_suite =
  fVersion :: "string option"
  fSuiteName :: "string option"
  fNodes :: "flow_node array_field"
  fEdges :: "flow_edge array_field"

definition node_id :: "flow_node \<Rightarrow> string" where
  "node_id n = (case nId n of None \<Rightarrow> [] | Some s \<Rightarrow> s)"

definition node_name :: "flow_node \<Rightarrow> string" where
  "node_name n = (case nName n of None \<Rightarrow> ''undefined'' | Some s \<Rightarrow> s)"

definition edge_pair :: "flow_edge \<Rightarrow> string \<times> string" where
  "edge_pair e = (eSource e, eTarget e)"

section \<open>Execution plans\<close>

record exec_assertion =
  xaFieldPath :: string
  xaOperator :: json
  xaExpectedValue :: "json option"

record expectation =
  xpStatus :: "json option"
  xpJsonContains :: "json option"
  xpAssertions :: "exec_assertion list option"

record request_config =
  rqMethod :: string
  rqPath :: string
  rqHeaders :: "json obj option"
  rqQuery :: "json obj option"
  rqJson :: "json option"
  rqExpect :: "expectation option"
  rqSave :: "json obj option"

datatype step_config =
    SequenceConfig (stepIds: "string list")
  | ApiRequestConfig (requestConfig: request_config)
  | WaitConfig (durationMs: jsnum)
  | PollUntilConfig (pollRequest: request_config) (pollTimeoutMs: jsnum) (pollIntervalMs: jsnum)
      (pollFailureMessage: "string option")
  | SetVariableConfig (variableName: string) (variableValue: "json option")
      (variableFromStepId: "string option") (variablePath: "string option")
  | AssertConfig (assertSourceStepId: "string option") (assertFieldPath: string)
      (assertOperator: "json option") (assertExpectedValue: "json option")

record exec_step =
  sId :: string
  sVersion :: string
  sName :: string
  sConfig :: step_config
  sTimeoutMs :: jsnum
  sRetryPolicy :: retry_policy
  sContinueOnFailure :: bool

text \<open>The \<open>type\<close> tag of a step is the constructor of its configuration.\<close>

fun step_type :: "step_config \<Rightarrow> string" where
  "step_type (SequenceConfig ids) = ''sequence''"
| "step_type (ApiRequestConfig r) = ''apiRequest''"
| "step_type (WaitConfig d) = ''wait''"
| "step_type (PollUntilConfig r t i m) = ''pollUntil''"
| "step_type (SetVariableConfig n v f p) = ''setVariable''"
| "step_type (AssertConfig s f p e) = ''assert''"

definition is_sequence :: "exec_step \<Rightarrow> bool" where
  "is_sequence s = (step_type (sConfig s) = ''sequence'')"

record variable_def =
  vName :: string
  vSourceStepId :: string
  vPath :: json

record exec_plan =
  pSuiteRevisionId :: string
  pSuiteName :: string
  pSteps :: "exec_step list"
  pDependencies :: "string list obj"
  pVariables :: "variable_def list"
  pTimeoutMs :: jsnum

record compile_options =
  oSuiteRevisionId :: "string option"
  oTimeoutMs :: "jsnum option"

record compile_result =
  crPlan :: exec_plan
  crYaml :: string
  crTestsCount :: nat
  crWarnings :: "string list"

section \<open>Numbers with a fallback\<close>

definition positive_number :: "jsnum option \<Rightarrow> jsnum \<Rightarrow> jsnum" where
  "positive_number v fallback =
     (case v of None \<Rightarrow> fallback | Some n \<Rightarrow> if num_finite n \<and> num_less (Fin 0) n then n else fallback)"

definition non_negative_number :: "jsnum option \<Rightarrow> jsnum \<Rightarrow> jsnum" where
  "non_negative_number v fallback =
     (case v of None \<Rightarrow> fallback | Some n \<Rightarrow> if num_finite n \<and> num_leq (Fin 0) n then n else fallback)"

lemma positive_number_pos: "num_pos d \<Longrightarrow> num_pos (positive_number v d)"
  by (auto simp: positive_number_def num_pos_def split: option.splits)

lemma non_negative_number_nonneg: "num_nonneg d \<Longrightarrow> num_nonneg (non_negative_number v d)"
  by (auto simp: non_negative_number_def num_nonneg_def split: option.splits)

lemma positive_number_id: "num_pos n \<Longrightarrow> positive_number (Some n) d = n"
  by (auto simp: positive_number_def num_pos_def)

lemma non_negative_number_id: "num_nonneg n \<Longrightarrow> non_negative_number (Some n) d = n"
  by (auto simp: non_negative_number_def num_nonneg_def)

definition default_plan_timeout :: jsnum where
  "default_plan_timeout = Fin 300000"

definition default_step_timeout :: jsnum where
  "default_step_timeout = Fin 30000"

definition default_retry_policy :: retry_policy where
  "default_retry_policy = \<lparr>maxAttempts = Fin 1, backoffMs = Fin 0\<rparr>"

lemma default_timeouts_pos [simp]: "num_pos default_plan_timeout" "num_pos default_step_timeout"
  by (simp_all add: default_plan_timeout_def default_step_timeout_def num_pos_iff)

section \<open>\<open>cleanObject\<close>\<close>

text \<open>
  Entries that are \<open>undefined\<close>, the empty string or the empty array are dropped, and an object
  without entries becomes \<open>undefined\<close>.
\<close>

definition kept_json :: "json \<Rightarrow> bool" where
  "kept_json v = (v \<noteq> JStr [] \<and> v \<noteq> JArr [])"

definition none_if_empty :: "'a list \<Rightarrow> 'a list option" where
  "none_if_empty xs = (if xs = [] then None else Some xs)"

definition clean_json :: "json option \<Rightarrow> json option" where
  "clean_json v = (case v of None \<Rightarrow> None | Some j \<Rightarrow> if kept_json j then Some j else None)"

definition clean_jsons :: "json obj option \<Rightarrow> json obj option" where
  "clean_jsons o' = (case o' of None \<Rightarrow> None
     | Some es \<Rightarrow> none_if_empty (filter (\<lambda>(k, v). kept_json v) es))"

lemma clean_json_idem [simp]: "clean_json (clean_json v) = clean_json v"
  by (auto simp: clean_json_def split: option.splits)

lemma clean_jsons_idem [simp]: "clean_jsons (clean_jsons v) = clean_jsons v"
  by (auto simp: clean_jsons_def none_if_empty_def split: option.splits)

section \<open>Migration of a flow\<close>

definition current_dsl_version :: string where
  "current_dsl_version = ''1.1''"

definition default_timeout_ms :: "string \<Rightarrow> jsnum" where
  "default_timeout_ms t =
     (if t = ''wait'' then Fin 60000 else if t = ''pollUntil'' then Fin 30000 else Fin 30000)"

definition migrate_node :: "flow_node \<Rightarrow> flow_node" where
  "migrate_node n =
     (let t = (case nType n of None \<Rightarrow> ''apiRequest'' | Some t \<Rightarrow> t) in
      n\<lparr>nType := Some t,
        nVersion := Some (case nVersion n of None \<Rightarrow> t @ ''/v1'' | Some v \<Rightarrow> v),
        nTimeoutMs := Some (case nTimeoutMs n of None \<Rightarrow> default_timeout_ms t | Some m \<Rightarrow> m),
        nRetryPolicy := Some (case nRetryPolicy n of None \<Rightarrow> default_retry_policy | Some r \<Rightarrow> r),
        nContinueOnFailure := Some (nContinueOnFailure n = Some True)\<rparr>)"

definition migrate :: "flow_suite option \<Rightarrow> js_error + flow_suite" where
  "migrate flow =
     (case flow of
        None \<Rightarrow> Inl (BadRequestException ''Flow definition is required'')
      | Some f \<Rightarrow>
          if fVersion f \<noteq> Some ''1.0'' \<and> fVersion f \<noteq> Some current_dsl_version
          then Inl (BadRequestException ''Unsupported flow version'')
          else (case fNodes f of
              Absent \<Rightarrow> Inl (TypeError ''Cannot read properties of undefined (reading 'map')'')
            | NotAnArray \<Rightarrow> Inl (TypeError ''flow.nodes.map is not a function'')
            | Elements ns \<Rightarrow>
                Inr (f\<lparr>fVersion := Some current_dsl_version,
                       fNodes := Elements (map migrate_node ns),
                       fEdges := (case fEdges f of Absent \<Rightarrow> Elements [] | e \<Rightarrow> e)\<rparr>)))"

lemma migrate_node_simps [simp]:
  "nId (migrate_node n) = nId n" "nName (migrate_node n) = nName n"
  "node_id (migrate_node n) = node_id n" "node_name (migrate_node n) = node_name n"
  by (simp_all add: migrate_node_def Let_def node_id_def node_name_def)

lemma migrate_node_idem: "migrate_node (migrate_node n) = migrate_node n"
  by (simp add: migrate_node_def Let_def)

lemma migrate_idem: "migrate flow = Inr f \<Longrightarrow> migrate (Some f) = Inr f"
  by (auto simp: migrate_def migrate_node_idem current_dsl_version_def
      split: option.splits if_splits array_field.splits)

end
