(* ===== verification/Yaml_Adapter.thy ===== *)
theory Yaml_Adapter
  imports Flow_Types
begin

text \<open>
  \<open>yaml-suite-adapter.service.ts\<close>: reading a suite from a parsed YAML document, writing a plan back,
  and the normal form of plans.  The YAML library is a parameter (\<open>yaml_load\<close>, \<open>yaml_dump\<close>), and so
  is \<open>localeCompare\<close> (\<open>lc\<close>).  A document is a JSON tree: YAML timestamps and binary scalars, which
  the library turns into \<open>Date\<close>s and buffers, are outside the model.
\<close>

section \<open>Building objects\<close>

fun present :: "(string \<times> json option) list \<Rightarrow> (string \<times> json) list" where
  "present [] = []"
| "present ((k, None) # es) = present es"
| "present ((k, Some v) # es) = (k, v) # present es"

definition clean_object :: "(string \<times> json option) list \<Rightarrow> json option" where
  "clean_object es = map_option JObj (none_if_empty (present (map (\<lambda>(k, v). (k, clean_json v)) es)))"

definition obj_of :: "(string \<times> json option) list \<Rightarrow> json" where
  "obj_of es = JObj (present es)"

text \<open>\<open>cleanObject\<close> of a value of the document, which may be anything.\<close>

definition clean_value :: "json option \<Rightarrow> json obj option" where
  "clean_value v =
     (case v of
        None \<Rightarrow> None
      | Some j \<Rightarrow> if is_object j then clean_jsons (Some (entries_of j)) else None)"

primrec sort_keys :: "(string \<Rightarrow> string \<Rightarrow> int) \<Rightarrow> json \<Rightarrow> json" where
  "sort_keys lc JNull = JNull"
| "sort_keys lc (JBool b) = JBool b"
| "sort_keys lc (JNum n) = JNum n"
| "sort_keys lc (JStr s) = JStr s"
| "sort_keys lc (JArr xs) = JArr (map (sort_keys lc) xs)"
| "sort_keys lc (JObj es) =
     JObj (sort_by (\<lambda>a b. lc (fst a) (fst b)) (map (map_prod id (sort_keys lc)) es))"

section \<open>Reading a suite\<close>

definition stable_step_id :: "json \<Rightarrow> nat \<Rightarrow> js_error + string" where
  "stable_step_id test i =
     sbind (prop_of (Some test) ''id'') (\<lambda>v.
     sbind (opt_trim v) (\<lambda>t.
     Inr (case t of
            Some (c # s) \<Rightarrow> c # s
          | _ \<Rightarrow> ''step-'' @ pad_start 3 (CHR ''0'') (dec_nat (i + 1)))))"

definition to_retry_policy :: "json option \<Rightarrow> retry_policy" where
  "to_retry_policy policy =
     \<lparr>maxAttempts = positive_number
        (as_num (coalesce (opt_prop policy ''maxAttempts'') (opt_prop policy ''max_attempts''))) (Fin 1),
      backoffMs = non_negative_number
        (as_num (coalesce (opt_prop policy ''backoffMs'') (opt_prop policy ''backoff_ms''))) (Fin 0)\<rparr>"

text \<open>\<open>expected !== undefined && expected !== ''\<close>\<close>

definition given_value :: "json option \<Rightarrow> json option" where
  "given_value v = (if v = Some (JStr []) then None else v)"

definition assertion_kept :: "json \<Rightarrow> js_error + bool" where
  "assertion_kept a =
     sbind (prop_of (Some a) ''field_path'') (\<lambda>fp.
     sbind (opt_trim fp) (\<lambda>t.
     Inr (truthy_str t \<and> (case json_get a ''operator'' of None \<Rightarrow> False | Some v \<Rightarrow> json_truthy v))))"

definition raw_assertion :: "json \<Rightarrow> js_error + exec_assertion" where
  "raw_assertion a =
     sbind (prop_of (Some a) ''field_path'') (\<lambda>fp.
     sbind (opt_trim fp) (\<lambda>t.
     Inr \<lparr>xaFieldPath = (case t of Some s \<Rightarrow> s | None \<Rightarrow> []),
          xaOperator = (case json_get a ''operator'' of Some v \<Rightarrow> v | None \<Rightarrow> JNull),
          xaExpectedValue = given_value (json_get a ''expected_value'')\<rparr>))"

fun filter_sum :: "('a \<Rightarrow> 'e + bool) \<Rightarrow> 'a list \<Rightarrow> 'e + 'a list" where
  "filter_sum p [] = Inr []"
| "filter_sum p (x # xs) =
     sbind (p x) (\<lambda>b. sbind (filter_sum p xs) (\<lambda>ys. Inr (if b then x # ys else ys)))"

definition raw_assertions :: "json option \<Rightarrow> js_error + exec_assertion list option" where
  "raw_assertions v =
     (if nullish v then Inr None
      else (case v of
          Some (JArr xs) \<Rightarrow>
            sbind (filter_sum assertion_kept xs) (\<lambda>ys.
            sbind (traverse raw_assertion ys) (\<lambda>entries. Inr (none_if_empty entries)))
        | _ \<Rightarrow> Inl (TypeError ''filter is not a function'')))"

definition raw_expectation :: "json option \<Rightarrow> js_error + expectation option" where
  "raw_expectation v =
     sbind (raw_assertions (opt_prop v ''assertions'')) (\<lambda>as.
     Inr (let status = clean_json (coalesce (opt_prop v ''status'') (Some (JNum (Fin 200))));
              contains = clean_json (opt_prop v ''json_contains'')
          in if status = None \<and> contains = None \<and> as = None then None
             else Some \<lparr>xpStatus = status, xpJsonContains = contains, xpAssertions = as\<rparr>))"

definition raw_request :: "json option \<Rightarrow> string \<Rightarrow> js_error + request_config" where
  "raw_request request stepName =
     sbind (opt_trim (opt_prop request ''method'')) (\<lambda>method.
     if \<not> truthy_str method
     then Inl (BadRequestException (''API step \"'' @ stepName @ ''\" is missing a method''))
     else
     sbind (opt_trim (opt_prop request ''path'')) (\<lambda>path.
     if \<not> truthy_str path
     then Inl (BadRequestException (''API step \"'' @ stepName @ ''\" is missing a path''))
     else
     sbind (raw_expectation (opt_prop request ''expect'')) (\<lambda>expect.
     Inr \<lparr>rqMethod = to_upper (the method), rqPath = the path,
          rqHeaders = clean_value (opt_prop request ''headers''),
          rqQuery = clean_value (opt_prop request ''query''),
          rqJson = clean_json (opt_prop request ''json''),
          rqExpect = expect,
          rqSave = clean_value (opt_prop request ''save'')\<rparr>)))"

text \<open>\<open>toExecutionStep\<close>, one function for each kind of step; \<open>n\<close> is \<open>base.name\<close>.\<close>

definition raw_wait :: "json option \<Rightarrow> string \<Rightarrow> js_error + step_config" where
  "raw_wait wait n =
     sbind (prop_of wait ''duration_ms'') (\<lambda>d.
     case as_num d of
       Some d' \<Rightarrow> if num_pos d' then Inr (WaitConfig d')
         else Inl (BadRequestException (''Wait step \"'' @ n @ ''\" needs a duration greater than 0 ms''))
     | None \<Rightarrow> Inl (BadRequestException (''Wait step \"'' @ n @ ''\" needs a duration greater than 0 ms'')))"

text \<open>\<open>ms ?? (seconds === undefined ? undefined : seconds * 1000)\<close>\<close>

definition millis_or_seconds :: "json option \<Rightarrow> json option \<Rightarrow> json option" where
  "millis_or_seconds ms seconds =
     coalesce ms (map_option (\<lambda>s. JNum (num_scale 1000 (json_number s))) seconds)"

definition raw_poll :: "json option \<Rightarrow> string \<Rightarrow> js_error + step_config" where
  "raw_poll poll n =
     sbind (prop_of poll ''timeout_ms'') (\<lambda>_.
     let timeout = positive_number (as_num (millis_or_seconds
           (opt_prop poll ''timeout_ms'') (opt_prop poll ''timeout_seconds''))) default_step_timeout;
         interval = positive_number (as_num (millis_or_seconds
           (opt_prop poll ''interval_ms'') (opt_prop poll ''interval_seconds''))) (Fin 1000)
     in if num_less timeout interval
        then Inl (BadRequestException (''Poll step \"'' @ n @ ''\" interval cannot be greater than timeout''))
        else
        sbind (raw_request (opt_prop poll ''request'') n) (\<lambda>request.
        sbind (opt_trim (opt_prop poll ''failure_message'')) (\<lambda>msg.
        Inr (PollUntilConfig request timeout interval (if truthy_str msg then msg else None)))))"

definition raw_set_variable :: "json option \<Rightarrow> string \<Rightarrow> js_error + step_config" where
  "raw_set_variable v n =
     sbind (prop_of v ''name'') (\<lambda>name.
     sbind (opt_trim name) (\<lambda>t.
     if \<not> truthy_str t
     then Inl (BadRequestException (''Set variable step \"'' @ n @ ''\" needs a variable name''))
     else
     sbind (opt_trim (opt_prop v ''from_step_id'')) (\<lambda>src.
     sbind (opt_trim (opt_prop v ''path'')) (\<lambda>path.
     Inr (SetVariableConfig (the t) (opt_prop v ''value'')
            (if truthy_str src then src else None) (if truthy_str path then path else None))))))"

definition raw_assert :: "json option \<Rightarrow> string \<Rightarrow> js_error + step_config" where
  "raw_assert v n =
     sbind (prop_of v ''field_path'') (\<lambda>fp.
     sbind (opt_trim fp) (\<lambda>t.
     if \<not> truthy_str t
     then Inl (BadRequestException (''Assert step \"'' @ n @ ''\" needs a response field path''))
     else
     sbind (opt_trim (opt_prop v ''source_step_id'')) (\<lambda>src.
     Inr (AssertConfig (if truthy_str src then src else None) (the t)
            (opt_prop v ''operator'') (given_value (opt_prop v ''expected_value''))))))"

definition raw_config :: "json \<Rightarrow> string \<Rightarrow> js_error + step_config" where
  "raw_config test n =
     (if \<not> is_object test then Inl (TypeError ''Cannot use 'in' operator'')
      else if has_key test ''wait'' then raw_wait (json_get test ''wait'') n
      else if has_key test ''poll'' then raw_poll (json_get test ''poll'') n
      else if json_get test ''type'' = Some (JStr ''setVariable'') \<and> has_key test ''set_variable''
      then raw_set_variable (json_get test ''set_variable'') n
      else if json_get test ''type'' = Some (JStr ''assert'') \<and> has_key test ''assert''
      then raw_assert (json_get test ''assert'') n
      else if \<not> has_key test ''request''
      then Inl (BadRequestException (''Unsupported test step type: ''
        @ json_string (the (coalesce (json_get test ''type'') (Some (JStr ''unknown''))))))
      else sbind (raw_request (json_get test ''request'') n) (\<lambda>r. Inr (ApiRequestConfig r)))"

definition raw_step :: "json \<Rightarrow> nat \<Rightarrow> js_error + exec_step" where
  "raw_step test i =
     sbind (stable_step_id test i) (\<lambda>sid.
     sbind (opt_trim (json_get test ''name'')) (\<lambda>t.
     let n = (if truthy_str t then the t else sid) in
     sbind (raw_config test n) (\<lambda>cfg.
     Inr \<lparr>sId = sid, sVersion = step_type cfg @ ''/v1'', sName = n, sConfig = cfg,
          sTimeoutMs = (case cfg of
              PollUntilConfig r timeout interval msg \<Rightarrow> timeout
            | _ \<Rightarrow> positive_number (as_num (json_get test ''timeout_ms'')) default_step_timeout),
          sRetryPolicy = to_retry_policy (json_get test ''retry_policy''),
          sContinueOnFailure = (json_get test ''continue_on_failure'' = Some (JBool True))\<rparr>)))"

section \<open>Plans\<close>

definition linear_dependencies :: "exec_step list \<Rightarrow> string list obj" where
  "linear_dependencies steps = from_entries
     (map (\<lambda>i. (sId (steps ! i), if i = 0 then [] else [sId (steps ! (i - 1))])) [0..<length steps])"

fun saved_entries :: "string \<Rightarrow> json obj option \<Rightarrow> variable_def list" where
  "saved_entries sid None = []"
| "saved_entries sid (Some es) = map (\<lambda>(n, p). \<lparr>vName = n, vSourceStepId = sid, vPath = p\<rparr>) es"

definition step_variables :: "exec_step \<Rightarrow> variable_def list" where
  "step_variables step =
     (case sConfig step of
        ApiRequestConfig r \<Rightarrow> saved_entries (sId step) (rqSave r)
      | PollUntilConfig r t i m \<Rightarrow> saved_entries (sId step) (rqSave r)
      | SetVariableConfig n v f p \<Rightarrow>
          [\<lparr>vName = n, vSourceStepId = sId step,
            vPath = JStr (case p of None \<Rightarrow> ''$'' | Some s \<Rightarrow> s)\<rparr>]
      | _ \<Rightarrow> [])"

definition yaml_variables :: "(string \<Rightarrow> string \<Rightarrow> int) \<Rightarrow> exec_step list \<Rightarrow> variable_def list" where
  "yaml_variables lc steps =
     sort_by (\<lambda>l r. lc (vName l) (vName r))
       (filter (\<lambda>v. trim (vName v) \<noteq> []) (concat (map step_variables steps)))"

definition normalize_retry_policy :: "retry_policy \<Rightarrow> retry_policy" where
  "normalize_retry_policy r =
     \<lparr>maxAttempts = positive_number (Some (maxAttempts r)) (Fin 1),
      backoffMs = non_negative_number (Some (backoffMs r)) (Fin 0)\<rparr>"

definition normalize_step :: "exec_step \<Rightarrow> exec_step" where
  "normalize_step s =
     s\<lparr>sId := trim (sId s), sName := trim (sName s),
       sTimeoutMs := positive_number (Some (sTimeoutMs s)) default_step_timeout,
       sRetryPolicy := normalize_retry_policy (sRetryPolicy s)\<rparr>"

definition variable_key :: "variable_def \<Rightarrow> string" where
  "variable_key v = vName v @ '':'' @ vSourceStepId v @ '':'' @ json_string (vPath v)"

definition sort_dependencies ::
    "(string \<Rightarrow> string \<Rightarrow> int) \<Rightarrow> string list obj \<Rightarrow> string list obj" where
  "sort_dependencies lc deps = from_entries
     (map (\<lambda>(k, vs). (k, sort_by code_unit_cmp vs)) (sort_by (\<lambda>l r. lc (fst l) (fst r)) deps))"

definition normalize_plan :: "(string \<Rightarrow> string \<Rightarrow> int) \<Rightarrow> exec_plan \<Rightarrow> exec_plan" where
  "normalize_plan lc p =
     \<lparr>pSuiteRevisionId = (if pSuiteRevisionId p = [] then ''draft'' else pSuiteRevisionId p),
      pSuiteName = (if trim (pSuiteName p) = [] then ''Unnamed suite'' else trim (pSuiteName p)),
      pSteps = map normalize_step (pSteps p),
      pDependencies = sort_dependencies lc (pDependencies p),
      pVariables = sort_by (\<lambda>l r. lc (variable_key l) (variable_key r)) (pVariables p),
      pTimeoutMs = positive_number (Some (pTimeoutMs p)) default_plan_timeout\<rparr>"

fun indexed :: "nat \<Rightarrow> 'a list \<Rightarrow> ('a \<times> nat) list" where
  "indexed i [] = []"
| "indexed i (x # xs) = (x, i) # indexed (Suc i) xs"

text \<open>The timeout is the first of the two that is not nullish, then it has to be a positive number.\<close>

definition plan_timeout :: "compile_options \<Rightarrow> json option \<Rightarrow> jsnum" where
  "plan_timeout options raw =
     (case oTimeoutMs options of
        Some t \<Rightarrow> t
      | None \<Rightarrow> if nullish raw then default_plan_timeout
          else (case as_num raw of Some t \<Rightarrow> t | None \<Rightarrow> NaN))"

definition raw_suite ::
    "(string \<Rightarrow> string \<Rightarrow> int) \<Rightarrow> json \<Rightarrow> json list \<Rightarrow> compile_options \<Rightarrow> js_error + exec_plan" where
  "raw_suite lc doc tests options =
     sbind (traverse (\<lambda>(t, i). raw_step t i) (indexed 0 tests)) (\<lambda>steps.
     sbind (opt_trim (json_get doc ''suite'')) (\<lambda>suite.
     Inr (normalize_plan lc
       \<lparr>pSuiteRevisionId = (case oSuiteRevisionId options of None \<Rightarrow> ''draft'' | Some r \<Rightarrow> r),
        pSuiteName = (case suite of None \<Rightarrow> [] | Some s \<Rightarrow> s),
        pSteps = steps,
        pDependencies = linear_dependencies steps,
        pVariables = yaml_variables lc steps,
        pTimeoutMs = plan_timeout options (json_get doc ''timeout_ms'')\<rparr>)))"

definition import_raw_yaml ::
    "(string \<Rightarrow> string \<Rightarrow> int) \<Rightarrow> (string \<Rightarrow> js_error + json option) \<Rightarrow> string \<Rightarrow> compile_options \<Rightarrow>
     js_error + exec_plan" where
  "import_raw_yaml lc yaml_load content options =
     sbind (yaml_load content) (\<lambda>doc.
     case doc of
       None \<Rightarrow> Inl (BadRequestException ''Invalid test suite YAML'')
     | Some j \<Rightarrow>
         if \<not> is_object j \<or> \<not> (case json_get j ''suite'' of None \<Rightarrow> False | Some v \<Rightarrow> json_truthy v)
         then Inl (BadRequestException ''Invalid test suite YAML'')
         else (case json_get j ''tests'' of
             Some (JArr tests) \<Rightarrow> raw_suite lc j tests options
           | _ \<Rightarrow> Inl (BadRequestException ''Invalid test suite YAML'')))"

section \<open>Writing a plan\<close>

definition raw_retry_policy :: "retry_policy \<Rightarrow> json option" where
  "raw_retry_policy r =
     (if num_eq (maxAttempts r) (Fin 1) \<and> num_eq (backoffMs r) (Fin 0) then None
      else Some (JObj [(''max_attempts'', JNum (maxAttempts r)), (''backoff_ms'', JNum (backoffMs r))]))"

text \<open>\<open>cleanObject\<close> of an assertion is an element of an array: \<open>undefined\<close> there is written \<open>null\<close>.\<close>

definition yaml_assertion :: "exec_assertion \<Rightarrow> json" where
  "yaml_assertion a = (case clean_object
       [(''field_path'', Some (JStr (xaFieldPath a))), (''operator'', Some (xaOperator a)),
        (''expected_value'', xaExpectedValue a)] of None \<Rightarrow> JNull | Some j \<Rightarrow> j)"

definition yaml_expectation :: "expectation option \<Rightarrow> json option" where
  "yaml_expectation e = clean_object
     [(''status'', Option.bind e xpStatus),
      (''json_contains'', Option.bind e xpJsonContains),
      (''assertions'', map_option (\<lambda>as. JArr (map yaml_assertion as)) (Option.bind e xpAssertions))]"

definition clean_obj :: "json obj option \<Rightarrow> json option" where
  "clean_obj v = map_option JObj (clean_jsons v)"

definition yaml_request :: "request_config \<Rightarrow> json option" where
  "yaml_request r = clean_object
     [(''method'', Some (JStr (rqMethod r))), (''path'', Some (JStr (rqPath r))),
      (''headers'', clean_obj (rqHeaders r)), (''query'', clean_obj (rqQuery r)),
      (''json'', rqJson r), (''expect'', yaml_expectation (rqExpect r)),
      (''save'', clean_obj (rqSave r))]"

definition yaml_config :: "step_config \<Rightarrow> string \<times> json option" where
  "yaml_config cfg =
     (case cfg of
        WaitConfig d \<Rightarrow> (''wait'', Some (obj_of [(''duration_ms'', Some (JNum d))]))
      | PollUntilConfig r t i m \<Rightarrow> (''poll'', Some (obj_of
          [(''request'', yaml_request r), (''timeout_ms'', Some (JNum t)),
           (''interval_ms'', Some (JNum i)), (''failure_message'', map_option JStr m)]))
      | SetVariableConfig n v f p \<Rightarrow> (''set_variable'', Some (obj_of
          [(''name'', Some (JStr n)), (''value'', v), (''from_step_id'', map_option JStr f),
           (''path'', map_option JStr p)]))
      | AssertConfig s f op e \<Rightarrow> (''assert'', Some (obj_of
          [(''source_step_id'', map_option JStr s), (''field_path'', Some (JStr f)),
           (''operator'', op), (''expected_value'', e)]))
      | SequenceConfig ids \<Rightarrow> (''sequence'', Some (obj_of [(''step_ids'', Some (JArr (map JStr ids)))]))
      | ApiRequestConfig r \<Rightarrow> (''request'', yaml_request r))"

definition yaml_step :: "exec_step \<Rightarrow> json" where
  "yaml_step s = (case clean_object
       [(''id'', Some (JStr (sId s))), (''type'', Some (JStr (step_type (sConfig s)))),
        (''name'', Some (JStr (sName s))), (''timeout_ms'', Some (JNum (sTimeoutMs s))),
        (''retry_policy'', raw_retry_policy (sRetryPolicy s)),
        (''continue_on_failure'', if sContinueOnFailure s then Some (JBool True) else None),
        yaml_config (sConfig s)] of None \<Rightarrow> JNull | Some j \<Rightarrow> j)"

definition yaml_suite :: "exec_plan \<Rightarrow> json" where
  "yaml_suite p = obj_of
     [(''suite'', Some (JStr (pSuiteName p))),
      (''tests'', Some (JArr (map yaml_step (filter (\<lambda>s. \<not> is_sequence s) (pSteps p)))))]"

definition export_yaml :: "(string \<Rightarrow> string \<Rightarrow> int) \<Rightarrow> (json \<Rightarrow> string) \<Rightarrow> exec_plan \<Rightarrow> string" where
  "export_yaml lc yaml_dump p = yaml_dump (sort_keys lc (yaml_suite p))"

end
