(* ===== verification/Yaml_Round.thy ===== *)
theory Yaml_Round
  imports Yaml_Adapter
begin

text \<open>
  What a plan keeps when it is written and read back.  \<open>wf_step\<close> is the well-formedness of the steps
  the importer and the visual compiler produce; \<open>sort_step\<close> is the only change the round trip makes
  to them: the keys of the objects a step carries (headers, bodies, saved paths) come back in
  \<open>localeCompare\<close> order.
\<close>

section \<open>Objects with optional entries\<close>

lemma map_of_present:
  "distinct (map fst es) \<Longrightarrow> map_of (present es) k = Option.bind (map_of es k) id"
proof (induction es rule: present.induct)
  case (2 k' es)
  have "map_of es k' = None" using 2(2) by (simp add: map_of_eq_None_iff)
  with 2 show ?case by auto
qed auto

lemma present_keys: "set (map fst (present es)) \<subseteq> set (map fst es)"
  by (induction es rule: present.induct) auto

lemma present_distinct: "distinct (map fst es) \<Longrightarrow> distinct (map fst (present es))"
proof (induction es rule: present.induct)
  case (3 k v es)
  then show ?case using present_keys[of es] by auto
qed auto

lemma map_of_sort_by:
  assumes "distinct (map fst es)"
  shows "map_of (sort_by cmp es) = map_of es"
proof -
  have "distinct (map fst (sort_by cmp es))" using assms by (rule distinct_sort_by[THEN iffD2])
  then show ?thesis
    using assms by (subst map_of_inject_set) simp_all
qed

lemma map_of_map_prod: "map_of (map (map_prod id f) es) k = map_option f (map_of es k)"
  by (induction es) auto

lemma present_mem: "(k, Some v) \<in> set es \<Longrightarrow> (k, v) \<in> set (present es)"
  by (induction es rule: present.induct) auto

definition sort_entries :: "(string \<Rightarrow> string \<Rightarrow> int) \<Rightarrow> json obj \<Rightarrow> json obj" where
  "sort_entries lc es = sort_by (\<lambda>a b. lc (fst a) (fst b)) (map (map_prod id (sort_keys lc)) es)"

lemma length_sort_entries [simp]: "length (sort_entries lc es) = length es"
  by (simp add: sort_entries_def)

lemma sort_keys_obj: "sort_keys lc (JObj es) = JObj (sort_entries lc es)"
  by (simp add: sort_entries_def)

lemma map_of_sort_entries:
  assumes "distinct (map fst es)"
  shows "map_of (sort_entries lc es) k = map_option (sort_keys lc) (map_of es k)"
proof -
  have "map fst (map (map_prod id (sort_keys lc)) es) = map fst es" by simp
  with assms have "map_of (sort_entries lc es) = map_of (map (map_prod id (sort_keys lc)) es)"
    unfolding sort_entries_def by (intro map_of_sort_by) (simp only:)
  then show ?thesis by (simp add: map_of_map_prod)
qed

lemma get_sorted_present:
  "distinct (map fst es) \<Longrightarrow>
   json_get (sort_keys lc (JObj (present es))) k
     = map_option (sort_keys lc) (Option.bind (map_of es k) id)"
  unfolding sort_keys_obj json_get.simps
  by (simp add: map_of_sort_entries present_distinct map_of_present)

lemma kept_sort_keys [simp]: "kept_json (sort_keys lc v) = kept_json v"
  by (cases v) (auto simp: kept_json_def sort_by_def)

lemma truthy_sort_keys [simp]: "json_truthy (sort_keys lc v) = json_truthy v"
  by (cases v) auto

lemma sort_keys_JStr_iff [simp]: "sort_keys lc v = JStr s \<longleftrightarrow> v = JStr s"
  by (cases v) auto

lemma sort_keys_JNull_iff [simp]: "sort_keys lc v = JNull \<longleftrightarrow> v = JNull"
  by (cases v) auto

lemma is_object_sort_keys [simp]: "is_object (sort_keys lc v) = is_object v"
  by (cases v) auto

lemma clean_json_sort_keys [simp]:
  "clean_json (map_option (sort_keys lc) v) = map_option (sort_keys lc) (clean_json v)"
  by (auto simp: clean_json_def split: option.splits)

lemma fst_map_clean [simp]: "map fst (map (\<lambda>(k, v). (k, clean_json v)) es) = map fst es"
  by (induction es) auto

lemma get_clean_object:
  assumes "clean_object es = Some j" "distinct (map fst es)"
  shows "json_get (sort_keys lc j) k
    = map_option (sort_keys lc) (clean_json (Option.bind (map_of es k) id))"
proof -
  let ?es = "map (\<lambda>(k, v). (k, clean_json v)) es"
  have j: "j = JObj (present ?es)"
    using assms(1) by (auto simp: clean_object_def none_if_empty_def split: if_splits)
  have "map_of ?es k = map_option clean_json (map_of es k)"
    by (simp add: map_of_map)
  then have "Option.bind (map_of ?es k) id = clean_json (Option.bind (map_of es k) id)"
    by (cases "map_of es k") (simp_all add: clean_json_def)
  moreover have "distinct (map fst ?es)" using assms(2) by (simp only: fst_map_clean)
  ultimately show ?thesis
    unfolding j by (simp only: get_sorted_present)
qed

lemma clean_object_ne:
  assumes "(k, Some v) \<in> set es" "kept_json v"
  obtains fs where "clean_object es = Some (JObj fs)"
proof -
  have "(k, Some v) \<in> set (map (\<lambda>(k, v). (k, clean_json v)) es)"
    using assms by (force simp: clean_json_def)
  then have "present (map (\<lambda>(k, v). (k, clean_json v)) es) \<noteq> []"
    using present_mem by fastforce
  then show ?thesis
    using that by (auto simp: clean_object_def none_if_empty_def)
qed


declare sort_keys.simps(6) [simp del]

section \<open>Well-formed steps\<close>

definition clean_text :: "string \<Rightarrow> bool" where
  "clean_text s = (s \<noteq> [] \<and> trim s = s)"

definition wf_assertion :: "exec_assertion \<Rightarrow> bool" where
  "wf_assertion a = (clean_text (xaFieldPath a) \<and> json_truthy (xaOperator a)
     \<and> kept_json (xaOperator a) \<and> clean_json (xaExpectedValue a) = xaExpectedValue a)"

definition wf_expectation :: "expectation \<Rightarrow> bool" where
  "wf_expectation e =
     ((\<exists>v. xpStatus e = Some v \<and> kept_json v \<and> v \<noteq> JNull)
      \<and> clean_json (xpJsonContains e) = xpJsonContains e
      \<and> (\<forall>as. xpAssertions e = Some as \<longrightarrow> as \<noteq> [] \<and> list_all wf_assertion as))"

definition wf_obj :: "json obj option \<Rightarrow> bool" where
  "wf_obj v = (clean_jsons v = v)"

definition wf_request :: "request_config \<Rightarrow> bool" where
  "wf_request r =
     (clean_text (rqMethod r) \<and> to_upper (rqMethod r) = rqMethod r \<and> clean_text (rqPath r)
      \<and> wf_obj (rqHeaders r) \<and> wf_obj (rqQuery r) \<and> wf_obj (rqSave r)
      \<and> clean_json (rqJson r) = rqJson r
      \<and> (\<exists>e. rqExpect r = Some e \<and> wf_expectation e))"

definition clean_option :: "string option \<Rightarrow> bool" where
  "clean_option v = (\<forall>s. v = Some s \<longrightarrow> clean_text s)"

fun wf_config :: "step_config \<Rightarrow> bool" where
  "wf_config (SequenceConfig ids) = False"
| "wf_config (ApiRequestConfig r) = wf_request r"
| "wf_config (WaitConfig d) = num_pos d"
| "wf_config (PollUntilConfig r t i m) =
     (wf_request r \<and> num_pos t \<and> num_pos i \<and> \<not> num_less t i \<and> clean_option m)"
| "wf_config (SetVariableConfig n v f p) = (clean_text n \<and> clean_option f \<and> clean_option p)"
| "wf_config (AssertConfig s f op e) = (clean_option s \<and> clean_text f \<and> given_value e = e)"

definition wf_step :: "exec_step \<Rightarrow> bool" where
  "wf_step s =
     (clean_text (sId s) \<and> clean_text (sName s) \<and> wf_config (sConfig s) \<and> num_pos (sTimeoutMs s)
      \<and> (\<forall>r t i m. sConfig s = PollUntilConfig r t i m \<longrightarrow> sTimeoutMs s = t)
      \<and> num_pos (maxAttempts (sRetryPolicy s)) \<and> num_nonneg (backoffMs (sRetryPolicy s)))"

section \<open>Sorting the keys of a step\<close>

definition sort_assertion :: "(string \<Rightarrow> string \<Rightarrow> int) \<Rightarrow> exec_assertion \<Rightarrow> exec_assertion" where
  "sort_assertion lc a =
     \<lparr>xaFieldPath = xaFieldPath a, xaOperator = sort_keys lc (xaOperator a),
      xaExpectedValue = map_option (sort_keys lc) (xaExpectedValue a)\<rparr>"

definition sort_expectation :: "(string \<Rightarrow> string \<Rightarrow> int) \<Rightarrow> expectation \<Rightarrow> expectation" where
  "sort_expectation lc e =
     \<lparr>xpStatus = map_option (sort_keys lc) (xpStatus e),
      xpJsonContains = map_option (sort_keys lc) (xpJsonContains e),
      xpAssertions = map_option (map (sort_assertion lc)) (xpAssertions e)\<rparr>"

definition sort_request :: "(string \<Rightarrow> string \<Rightarrow> int) \<Rightarrow> request_config \<Rightarrow> request_config" where
  "sort_request lc r =
     \<lparr>rqMethod = rqMethod r, rqPath = rqPath r,
      rqHeaders = map_option (sort_entries lc) (rqHeaders r),
      rqQuery = map_option (sort_entries lc) (rqQuery r),
      rqJson = map_option (sort_keys lc) (rqJson r),
      rqExpect = map_option (sort_expectation lc) (rqExpect r),
      rqSave = map_option (sort_entries lc) (rqSave r)\<rparr>"

fun sort_config :: "(string \<Rightarrow> string \<Rightarrow> int) \<Rightarrow> step_config \<Rightarrow> step_config" where
  "sort_config lc (ApiRequestConfig r) = ApiRequestConfig (sort_request lc r)"
| "sort_config lc (PollUntilConfig r t i m) = PollUntilConfig (sort_request lc r) t i m"
| "sort_config lc (SetVariableConfig n v f p) =
     SetVariableConfig n (map_option (sort_keys lc) v) f p"
| "sort_config lc (AssertConfig s f op e) =
     AssertConfig s f (map_option (sort_keys lc) op) (map_option (sort_keys lc) e)"
| "sort_config lc c = c"

text \<open>The step that comes back: sorted keys, and the version the importer gives to its type.\<close>

definition reread_step :: "(string \<Rightarrow> string \<Rightarrow> int) \<Rightarrow> exec_step \<Rightarrow> exec_step" where
  "reread_step lc s =
     s\<lparr>sVersion := step_type (sConfig s) @ ''/v1'', sConfig := sort_config lc (sConfig s)\<rparr>"

section \<open>Reading back the parts of a step\<close>

lemma opt_trim_clean [simp]: "clean_text s \<Longrightarrow> opt_trim (Some (JStr s)) = Inr (Some s)"
  by (simp add: opt_trim_def clean_text_def)

lemma opt_trim_None [simp]: "opt_trim None = Inr None"
  by (simp add: opt_trim_def)

lemma truthy_clean [simp]: "clean_text s \<Longrightarrow> truthy_str (Some s)"
  by (simp add: clean_text_def)

lemma clean_json_simps [simp]:
  "clean_json None = None"
  "s \<noteq> [] \<Longrightarrow> clean_json (Some (JStr s)) = Some (JStr s)"
  "clean_json (Some (JNum n)) = Some (JNum n)"
  "clean_json (Some (JBool b)) = Some (JBool b)"
  "clean_json (Some (JObj es)) = Some (JObj es)"
  "kept_json v \<Longrightarrow> clean_json (Some v) = Some v"
  by (simp_all add: clean_json_def kept_json_def)

lemma clean_text_ne [simp]: "clean_text s \<Longrightarrow> s \<noteq> []"
  by (auto simp: clean_text_def)

lemma reread_assertion:
  assumes "wf_assertion a"
  shows "assertion_kept (sort_keys lc (yaml_assertion a)) = Inr True"
    and "raw_assertion (sort_keys lc (yaml_assertion a)) = Inr (sort_assertion lc a)"
proof -
  let ?es = "[(''field_path'', Some (JStr (xaFieldPath a))), (''operator'', Some (xaOperator a)),
        (''expected_value'', xaExpectedValue a)]"
  have wf: "clean_text (xaFieldPath a)" "json_truthy (xaOperator a)" "kept_json (xaOperator a)"
    "clean_json (xaExpectedValue a) = xaExpectedValue a"
    using assms by (auto simp: wf_assertion_def)
  obtain fs where "clean_object ?es = Some (JObj fs)"
    by (rule clean_object_ne[of "''operator''" "xaOperator a" ?es]) (use wf(3) in auto)
  then obtain j where j: "clean_object ?es = Some j" "j = JObj fs" by blast
  have ya: "yaml_assertion a = j" using j by (simp add: yaml_assertion_def)
  have get: "json_get (sort_keys lc j) ''field_path'' = Some (JStr (xaFieldPath a))"
    "json_get (sort_keys lc j) ''operator'' = Some (sort_keys lc (xaOperator a))"
    "json_get (sort_keys lc j) ''expected_value'' = map_option (sort_keys lc) (xaExpectedValue a)"
    using wf by (simp_all add: get_clean_object[OF j(1)])
  have nn: "sort_keys lc j \<noteq> JNull" using j(2) by auto
  then have pr: "prop_of (Some (sort_keys lc j)) k = Inr (json_get (sort_keys lc j) k)" for k
    by (simp add: prop_of_def split: json.splits)
  have "given_value (map_option (sort_keys lc) (xaExpectedValue a))
      = map_option (sort_keys lc) (xaExpectedValue a)"
    using wf(4) by (auto simp: given_value_def clean_json_def kept_json_def split: option.splits if_splits)
  then show "assertion_kept (sort_keys lc (yaml_assertion a)) = Inr True"
    and "raw_assertion (sort_keys lc (yaml_assertion a)) = Inr (sort_assertion lc a)"
    unfolding ya assertion_kept_def raw_assertion_def pr get
    using wf by (simp_all add: sort_assertion_def)
qed

lemma filter_sum_all: "\<forall>x\<in>set xs. p x = Inr True \<Longrightarrow> filter_sum p xs = Inr xs"
  by (induction xs) auto

lemma traverse_all: "\<forall>x\<in>set xs. f x = Inr (g x) \<Longrightarrow> traverse f xs = Inr (map g xs)"
  by (induction xs) auto

lemma reread_assertions:
  assumes "\<forall>as. v = Some as \<longrightarrow> as \<noteq> [] \<and> list_all wf_assertion as"
  shows "raw_assertions (map_option (sort_keys lc) (map_option (\<lambda>as. JArr (map yaml_assertion as)) v))
    = Inr (map_option (map (sort_assertion lc)) v)"
proof (cases v)
  case None
  then show ?thesis by (simp add: raw_assertions_def nullish_def)
next
  case (Some as)
  have wf: "wf_assertion a" if "a \<in> set as" for a
    using assms Some that by (auto simp: list_all_iff)
  let ?js = "map (\<lambda>a. sort_keys lc (yaml_assertion a)) as"
  have "filter_sum assertion_kept ?js = Inr ?js"
    by (rule filter_sum_all) (auto simp: reread_assertion(1) wf)
  moreover have "traverse raw_assertion ?js = Inr (map (sort_assertion lc) as)"
    using wf by (induction as) (auto simp: reread_assertion(2))
  ultimately show ?thesis
    using assms Some by (simp add: raw_assertions_def nullish_def o_def none_if_empty_def)
qed

lemma reread_expectation:
  assumes "wf_expectation e"
  shows "raw_expectation (map_option (sort_keys lc) (yaml_expectation (Some e)))
    = Inr (Some (sort_expectation lc e))"
    and "clean_json (yaml_expectation (Some e)) = yaml_expectation (Some e)"
proof -
  obtain v where st: "xpStatus e = Some v" "kept_json v" "v \<noteq> JNull"
    using assms by (auto simp: wf_expectation_def)
  let ?as = "map_option (\<lambda>as. JArr (map yaml_assertion as)) (xpAssertions e)"
  let ?es = "[(''status'', xpStatus e), (''json_contains'', xpJsonContains e), (''assertions'', ?as)]"
  obtain fs where "clean_object ?es = Some (JObj fs)"
    by (rule clean_object_ne[of "''status''" v ?es]) (use st in auto)
  then obtain j where j: "clean_object ?es = Some j" "j = JObj fs" by blast
  have ye: "yaml_expectation (Some e) = Some j" using j by (simp add: yaml_expectation_def)
  have asc: "clean_json ?as = ?as"
    using assms by (auto simp: wf_expectation_def clean_json_def kept_json_def split: option.splits)
  have get: "json_get (sort_keys lc j) ''status'' = Some (sort_keys lc v)"
    "json_get (sort_keys lc j) ''json_contains'' = map_option (sort_keys lc) (xpJsonContains e)"
    "json_get (sort_keys lc j) ''assertions'' = map_option (sort_keys lc) ?as"
    using st assms asc by (simp_all add: get_clean_object[OF j(1)] wf_expectation_def)
  have ra: "raw_assertions (map_option (sort_keys lc) ?as)
      = Inr (map_option (map (sort_assertion lc)) (xpAssertions e))"
    by (rule reread_assertions) (use assms in \<open>simp add: wf_expectation_def\<close>)
  have jc: "clean_json (xpJsonContains e) = xpJsonContains e"
    using assms by (simp add: wf_expectation_def)
  show "raw_expectation (map_option (sort_keys lc) (yaml_expectation (Some e)))
    = Inr (Some (sort_expectation lc e))"
    unfolding ye raw_expectation_def opt_prop_def option.map option.case get ra
    using st by (simp add: coalesce_def nullish_def sort_expectation_def jc Let_def)
  show "clean_json (yaml_expectation (Some e)) = yaml_expectation (Some e)"
    unfolding ye j(2) by simp
qed

lemma reread_obj:
  assumes "wf_obj v"
  shows "clean_value (map_option (sort_keys lc) (clean_obj v)) = map_option (sort_entries lc) v"
    and "clean_json (clean_obj v) = clean_obj v"
proof -
  show "clean_json (clean_obj v) = clean_obj v"
    by (auto simp: clean_obj_def clean_json_def kept_json_def split: option.splits)
  show "clean_value (map_option (sort_keys lc) (clean_obj v)) = map_option (sort_entries lc) v"
  proof (cases v)
    case None
    then show ?thesis by (simp add: clean_obj_def clean_jsons_def clean_value_def)
  next
    case (Some es)
    have fe: "filter (\<lambda>(k, j). kept_json j) es = es" and es1: "es \<noteq> []"
      using assms Some by (simp_all add: wf_obj_def clean_jsons_def none_if_empty_def split: if_splits)
    have es2: "kept_json (snd e)" if "e \<in> set es" for e
    proof -
      have "e \<in> set (filter (\<lambda>(k, j). kept_json j) es)" using fe that by simp
      then show ?thesis by auto
    qed
    have "kept_json (snd e)" if "e \<in> set (sort_entries lc es)" for e
      using es2 that by (auto simp: sort_entries_def)
    then have "filter (\<lambda>(k, j). kept_json j) (sort_entries lc es) = sort_entries lc es"
      by (intro filter_True) auto
    moreover have "sort_entries lc es \<noteq> []"
      using es1 length_sort_entries[of lc es] by (metis length_0_conv)
    moreover have "clean_obj v = Some (JObj es)"
      using assms unfolding Some clean_obj_def wf_obj_def by simp
    then have "map_option (sort_keys lc) (clean_obj v) = Some (JObj (sort_entries lc es))"
      by (simp only: option.map sort_keys_obj)
    ultimately show ?thesis
      unfolding Some clean_value_def clean_jsons_def none_if_empty_def
      by (simp only: option.case option.map is_object.simps entries_of.simps if_True if_False)
  qed
qed

lemma reread_request:
  assumes "wf_request r"
  shows "\<exists>fs. yaml_request r = Some (JObj fs)"
    and "raw_request (map_option (sort_keys lc) (yaml_request r)) n = Inr (sort_request lc r)"
proof -
  have wf: "clean_text (rqMethod r)" "to_upper (rqMethod r) = rqMethod r" "clean_text (rqPath r)"
    "wf_obj (rqHeaders r)" "wf_obj (rqQuery r)" "wf_obj (rqSave r)"
    "clean_json (rqJson r) = rqJson r"
    using assms by (auto simp: wf_request_def)
  obtain e where e: "rqExpect r = Some e" "wf_expectation e"
    using assms by (auto simp: wf_request_def)
  let ?es = "[(''method'', Some (JStr (rqMethod r))), (''path'', Some (JStr (rqPath r))),
      (''headers'', clean_obj (rqHeaders r)), (''query'', clean_obj (rqQuery r)),
      (''json'', rqJson r), (''expect'', yaml_expectation (rqExpect r)),
      (''save'', clean_obj (rqSave r))]"
  have "kept_json (JStr (rqMethod r))" using wf(1) by (simp add: kept_json_def)
  then obtain fs where fs: "clean_object ?es = Some (JObj fs)"
    by (rule clean_object_ne[rotated]) auto
  then have yr: "yaml_request r = Some (JObj fs)" by (simp add: yaml_request_def)
  then show "\<exists>fs. yaml_request r = Some (JObj fs)" by blast
  have d: "distinct (map fst ?es)" by simp
  note get = get_clean_object[OF fs d, of lc]
  have gets:
    "json_get (sort_keys lc (JObj fs)) ''method'' = Some (JStr (rqMethod r))"
    "json_get (sort_keys lc (JObj fs)) ''path'' = Some (JStr (rqPath r))"
    "json_get (sort_keys lc (JObj fs)) ''headers'' = map_option (sort_keys lc) (clean_obj (rqHeaders r))"
    "json_get (sort_keys lc (JObj fs)) ''query'' = map_option (sort_keys lc) (clean_obj (rqQuery r))"
    "json_get (sort_keys lc (JObj fs)) ''json'' = map_option (sort_keys lc) (rqJson r)"
    "json_get (sort_keys lc (JObj fs)) ''expect''
       = map_option (sort_keys lc) (yaml_expectation (Some e))"
    "json_get (sort_keys lc (JObj fs)) ''save'' = map_option (sort_keys lc) (clean_obj (rqSave r))"
    unfolding get using wf e by (simp_all add: reread_obj(2) reread_expectation(2))
  show "raw_request (map_option (sort_keys lc) (yaml_request r)) n = Inr (sort_request lc r)"
    unfolding yr raw_request_def opt_prop_def option.map option.case gets
    using wf e by (simp add: reread_obj(1) reread_expectation(1) sort_request_def)
qed

definition config_key :: "step_config \<Rightarrow> string" where
  "config_key cfg = fst (yaml_config cfg)"

lemma get_obj_of:
  "distinct (map fst es) \<Longrightarrow>
   opt_prop (Some (sort_keys lc (obj_of es))) k
     = map_option (sort_keys lc) (Option.bind (map_of es k) id)"
  unfolding opt_prop_def obj_of_def option.case by (rule get_sorted_present)

lemma prop_of_obj_of:
  "distinct (map fst es) \<Longrightarrow>
   prop_of (Some (sort_keys lc (obj_of es))) k
     = Inr (map_option (sort_keys lc) (Option.bind (map_of es k) id))"
  using get_sorted_present[of es lc k]
  by (simp add: prop_of_def obj_of_def sort_keys_obj)

lemma opt_trim_option:
  assumes "clean_option v"
  shows "opt_trim (map_option (sort_keys lc) (map_option JStr v)) = Inr v"
    and "(if truthy_str v then v else None) = v"
  using assms by (cases v; simp add: clean_option_def)+

lemma raw_wait_sorted:
  "num_pos d \<Longrightarrow> raw_wait (Some (sort_keys lc (obj_of [(''duration_ms'', Some (JNum d))]))) n
     = Inr (WaitConfig d)"
  unfolding raw_wait_def by (simp add: prop_of_obj_of as_num_def)

lemma raw_poll_sorted:
  assumes "wf_config (PollUntilConfig r t i m)"
  shows "raw_poll (Some (sort_keys lc (obj_of
      [(''request'', yaml_request r), (''timeout_ms'', Some (JNum t)),
       (''interval_ms'', Some (JNum i)), (''failure_message'', map_option JStr m)]))) n
     = Inr (PollUntilConfig (sort_request lc r) t i m)"
proof -
  have wf: "wf_request r" "num_pos t" "num_pos i" "\<not> num_less t i" "clean_option m"
    using assms by auto
  then show ?thesis
    using reread_request(2)[OF wf(1), of lc n] opt_trim_option[OF wf(5)]
    unfolding raw_poll_def
    by (simp add: prop_of_obj_of get_obj_of millis_or_seconds_def coalesce_def nullish_def as_num_def
        positive_number_id Let_def)
qed

lemma raw_set_variable_sorted:
  assumes "wf_config (SetVariableConfig v x f p)"
  shows "raw_set_variable (Some (sort_keys lc (obj_of
      [(''name'', Some (JStr v)), (''value'', x), (''from_step_id'', map_option JStr f),
       (''path'', map_option JStr p)]))) n
     = Inr (SetVariableConfig v (map_option (sort_keys lc) x) f p)"
proof -
  have wf: "clean_text v" "clean_option f" "clean_option p" using assms by auto
  then show ?thesis
    using opt_trim_option[OF wf(2)] opt_trim_option[OF wf(3)]
    unfolding raw_set_variable_def by (simp add: prop_of_obj_of get_obj_of)
qed

lemma raw_assert_sorted:
  assumes "wf_config (AssertConfig s f op e)"
  shows "raw_assert (Some (sort_keys lc (obj_of
      [(''source_step_id'', map_option JStr s), (''field_path'', Some (JStr f)),
       (''operator'', op), (''expected_value'', e)]))) n
     = Inr (AssertConfig s f (map_option (sort_keys lc) op) (map_option (sort_keys lc) e))"
proof -
  have wf: "clean_option s" "clean_text f" "given_value e = e" using assms by auto
  moreover have "given_value (map_option (sort_keys lc) e) = map_option (sort_keys lc) e"
    using wf(3) by (auto simp: given_value_def split: if_splits)
  ultimately show ?thesis
    using opt_trim_option[OF wf(1)]
    unfolding raw_assert_def by (simp add: prop_of_obj_of get_obj_of)
qed

lemma retry_policy_sorted:
  assumes "num_pos (maxAttempts r)" "num_nonneg (backoffMs r)"
  shows "to_retry_policy (map_option (sort_keys lc) (raw_retry_policy r)) = r"
    and "clean_json (raw_retry_policy r) = raw_retry_policy r"
proof -
  show "clean_json (raw_retry_policy r) = raw_retry_policy r"
    by (simp add: raw_retry_policy_def)
  show "to_retry_policy (map_option (sort_keys lc) (raw_retry_policy r)) = r"
  proof (cases "raw_retry_policy r")
    case None
    then have "num_eq (maxAttempts r) (Fin 1)" "num_eq (backoffMs r) (Fin 0)"
      by (auto simp: raw_retry_policy_def split: if_splits)
    then have "maxAttempts r = Fin 1" "backoffMs r = Fin 0"
      using assms by (auto simp: num_pos_iff num_nonneg_iff)
    then show ?thesis
      using None by (simp add: to_retry_policy_def opt_prop_def coalesce_def nullish_def as_num_def
          positive_number_def non_negative_number_def)
  next
    case (Some j)
    let ?es = "[(''max_attempts'', Some (JNum (maxAttempts r))),
      (''backoff_ms'', Some (JNum (backoffMs r)))]"
    have j: "j = obj_of ?es"
      using Some by (auto simp: raw_retry_policy_def obj_of_def split: if_splits)
    have "distinct (map fst ?es)" by simp
    note get = get_obj_of[OF this, of lc]
    show ?thesis
      unfolding Some option.map j to_retry_policy_def get
      using assms by (simp add: coalesce_def nullish_def as_num_def positive_number_id
          non_negative_number_id)
  qed
qed

lemma yaml_config_obj:
  assumes "wf_config cfg"
  shows "\<exists>k fs. yaml_config cfg = (k, Some (JObj fs))
    \<and> k \<in> {''wait'', ''poll'', ''set_variable'', ''assert'', ''request''}"
  using assms by (cases cfg) (auto simp: yaml_config_def obj_of_def reread_request(1))

lemma raw_config_sorted:
  assumes wf: "wf_config cfg" and cfg: "yaml_config cfg = (k, Some (JObj cfs))"
    and obj: "is_object j" and ty: "json_get j ''type'' = Some (JStr (step_type cfg))"
    and get: "json_get j ''wait'' = (if k = ''wait'' then Some (sort_keys lc (JObj cfs)) else None)"
    "json_get j ''poll'' = (if k = ''poll'' then Some (sort_keys lc (JObj cfs)) else None)"
    "json_get j ''set_variable''
       = (if k = ''set_variable'' then Some (sort_keys lc (JObj cfs)) else None)"
    "json_get j ''assert'' = (if k = ''assert'' then Some (sort_keys lc (JObj cfs)) else None)"
    "json_get j ''request'' = (if k = ''request'' then Some (sort_keys lc (JObj cfs)) else None)"
  shows "raw_config j n = Inr (sort_config lc cfg)"
proof (cases cfg)
  case (SequenceConfig ids)
  with wf show ?thesis by simp
next
  case (ApiRequestConfig r)
  have k: "k = ''request''" and r: "yaml_request r = Some (JObj cfs)"
    using cfg by (simp_all add: ApiRequestConfig yaml_config_def)
  have "raw_request (Some (sort_keys lc (JObj cfs))) n = Inr (sort_request lc r)"
    using reread_request(2)[of r lc n] wf r by (simp add: ApiRequestConfig)
  with obj show ?thesis
    unfolding raw_config_def has_key_def get ty k by (simp add: ApiRequestConfig)
next
  case (WaitConfig d)
  have k: "k = ''wait''" and r: "JObj cfs = obj_of [(''duration_ms'', Some (JNum d))]"
    using cfg by (simp_all add: WaitConfig yaml_config_def)
  show ?thesis
    unfolding raw_config_def has_key_def get k r
    using wf obj by (simp add: WaitConfig raw_wait_sorted)
next
  case (PollUntilConfig r t i m)
  have k: "k = ''poll''" and o': "obj_of [(''request'', yaml_request r),
       (''timeout_ms'', Some (JNum t)), (''interval_ms'', Some (JNum i)),
       (''failure_message'', map_option JStr m)] = JObj cfs"
    using cfg by (simp_all add: PollUntilConfig yaml_config_def)
  show ?thesis
    using obj raw_poll_sorted[of r t i m lc n] wf
    unfolding raw_config_def has_key_def get k PollUntilConfig o' by (simp)
next
  case (SetVariableConfig v x f p)
  have k: "k = ''set_variable''" and o': "obj_of [(''name'', Some (JStr v)), (''value'', x),
       (''from_step_id'', map_option JStr f), (''path'', map_option JStr p)] = JObj cfs"
    using cfg by (simp_all add: SetVariableConfig yaml_config_def)
  show ?thesis
    using obj raw_set_variable_sorted[of v x f p lc n] wf ty
    unfolding raw_config_def has_key_def get k SetVariableConfig o' by (simp)
next
  case (AssertConfig s f op e)
  have k: "k = ''assert''" and o': "obj_of [(''source_step_id'', map_option JStr s),
       (''field_path'', Some (JStr f)), (''operator'', op), (''expected_value'', e)] = JObj cfs"
    using cfg by (simp_all add: AssertConfig yaml_config_def)
  show ?thesis
    using obj raw_assert_sorted[of s f op e lc n] wf ty
    unfolding raw_config_def has_key_def get k AssertConfig o' by (simp)
qed

lemma reread_yaml_step:
  assumes wf: "wf_step s"
  shows "raw_step (sort_keys lc (yaml_step s)) i = Inr (reread_step lc s)"
proof -
  have wfs: "clean_text (sId s)" "clean_text (sName s)" "wf_config (sConfig s)"
    "num_pos (sTimeoutMs s)" "num_pos (maxAttempts (sRetryPolicy s))"
    "num_nonneg (backoffMs (sRetryPolicy s))"
    using wf by (auto simp: wf_step_def)
  obtain k cfs where cfg: "yaml_config (sConfig s) = (k, Some (JObj cfs))"
    and k: "k \<in> {''wait'', ''poll'', ''set_variable'', ''assert'', ''request''}"
    using yaml_config_obj[OF wfs(3)] by blast
  let ?es = "[(''id'', Some (JStr (sId s))), (''type'', Some (JStr (step_type (sConfig s)))),
        (''name'', Some (JStr (sName s))), (''timeout_ms'', Some (JNum (sTimeoutMs s))),
        (''retry_policy'', raw_retry_policy (sRetryPolicy s)),
        (''continue_on_failure'', if sContinueOnFailure s then Some (JBool True) else None),
        yaml_config (sConfig s)]"
  have "kept_json (JStr (sId s))" using wfs(1) by (simp add: kept_json_def)
  then obtain fs where fs: "clean_object ?es = Some (JObj fs)"
    by (rule clean_object_ne[rotated]) auto
  let ?j = "sort_keys lc (JObj fs)"
  have ys: "yaml_step s = JObj fs" using fs by (simp add: yaml_step_def)
  have d: "distinct (map fst ?es)" using k by (auto simp: cfg)
  note get = get_clean_object[OF fs d, of lc]
  have ty: "step_type (sConfig s) \<noteq> []" by (cases "sConfig s") auto
  have gets: "json_get ?j ''id'' = Some (JStr (sId s))"
    "json_get ?j ''name'' = Some (JStr (sName s))"
    "json_get ?j ''type'' = Some (JStr (step_type (sConfig s)))"
    "json_get ?j ''timeout_ms'' = Some (JNum (sTimeoutMs s))"
    "json_get ?j ''retry_policy'' = map_option (sort_keys lc) (raw_retry_policy (sRetryPolicy s))"
    "json_get ?j ''continue_on_failure'' = (if sContinueOnFailure s then Some (JBool True) else None)"
    unfolding get using wfs ty by (simp_all add: retry_policy_sorted(2))
  have getc: "json_get ?j ''wait'' = (if k = ''wait'' then Some (sort_keys lc (JObj cfs)) else None)"
    "json_get ?j ''poll'' = (if k = ''poll'' then Some (sort_keys lc (JObj cfs)) else None)"
    "json_get ?j ''set_variable''
       = (if k = ''set_variable'' then Some (sort_keys lc (JObj cfs)) else None)"
    "json_get ?j ''assert'' = (if k = ''assert'' then Some (sort_keys lc (JObj cfs)) else None)"
    "json_get ?j ''request'' = (if k = ''request'' then Some (sort_keys lc (JObj cfs)) else None)"
    unfolding get by (simp_all add: cfg)
  have pid: "prop_of (Some ?j) ''id'' = Inr (Some (JStr (sId s)))"
    using gets(1) by (simp add: prop_of_def sort_keys_obj)
  have obj: "is_object ?j" by simp
  have "raw_config ?j (sName s) = Inr (sort_config lc (sConfig s))"
    using wfs(3) cfg by (rule raw_config_sorted[OF _ _ obj gets(3) getc])
  moreover have "stable_step_id ?j i = Inr (sId s)"
    unfolding stable_step_id_def pid using wfs(1) by (auto split: list.splits)
  moreover have "step_type (sort_config lc (sConfig s)) = step_type (sConfig s)"
    by (cases "sConfig s") auto
  moreover have num: "as_num (json_get ?j ''timeout_ms'') = Some (sTimeoutMs s)"
    unfolding gets by (simp add: as_num_def)
  moreover have "(case sort_config lc (sConfig s) of PollUntilConfig r t i m \<Rightarrow> t
      | _ \<Rightarrow> positive_number (as_num (json_get ?j ''timeout_ms'')) default_step_timeout) = sTimeoutMs s"
    unfolding num using wf wfs(4) by (cases "sConfig s") (auto simp: wf_step_def positive_number_id)
  moreover have "opt_trim (json_get ?j ''name'') = Inr (Some (sName s))"
    unfolding gets using wfs(2) by simp
  ultimately show ?thesis
    unfolding ys raw_step_def using wfs
    by (simp add: gets(5,6) retry_policy_sorted(1))
       (auto simp: reread_step_def intro!: exec_step.equality)
qed

lemma normalize_reread_step:
  "wf_step s \<Longrightarrow> normalize_step (reread_step lc s) = reread_step lc s"
  by (simp add: normalize_step_def reread_step_def normalize_retry_policy_def wf_step_def
      clean_text_def positive_number_id non_negative_number_id)

lemma indexed_map: "indexed i (map f xs) = map (\<lambda>(x, j). (f x, j)) (indexed i xs)"
  by (induction xs arbitrary: i) auto

lemma reread_steps:
  "list_all wf_step ss \<Longrightarrow>
   traverse (\<lambda>(t, i). raw_step t i) (indexed i (map (\<lambda>s. sort_keys lc (yaml_step s)) ss))
     = Inr (map (reread_step lc) ss)"
  by (induction ss arbitrary: i) (auto simp: reread_yaml_step)

lemma wf_not_sequence: "wf_step s \<Longrightarrow> \<not> is_sequence s"
  by (cases "sConfig s") (auto simp: wf_step_def is_sequence_def)

lemma import_export:
  assumes law: "\<And>j. yaml_load (yaml_dump j) = Inr (Some j)"
    and wf: "list_all wf_step (pSteps p)" and name: "clean_text (pSuiteName p)"
  shows "import_raw_yaml lc yaml_load (export_yaml lc yaml_dump p) options
    = Inr (normalize_plan lc
        \<lparr>pSuiteRevisionId = (case oSuiteRevisionId options of None \<Rightarrow> ''draft'' | Some r \<Rightarrow> r),
         pSuiteName = pSuiteName p,
         pSteps = map (reread_step lc) (pSteps p),
         pDependencies = linear_dependencies (map (reread_step lc) (pSteps p)),
         pVariables = yaml_variables lc (map (reread_step lc) (pSteps p)),
         pTimeoutMs = plan_timeout options None\<rparr>)"
proof -
  have "filter (\<lambda>s. \<not> is_sequence s) (pSteps p) = pSteps p"
    using wf wf_not_sequence by (intro filter_True) (auto simp: list_all_iff)
  then have ys: "yaml_suite p = obj_of [(''suite'', Some (JStr (pSuiteName p))),
      (''tests'', Some (JArr (map yaml_step (pSteps p))))]"
    by (simp add: yaml_suite_def)
  let ?j = "sort_keys lc (yaml_suite p)"
  have get: "json_get ?j ''suite'' = Some (JStr (pSuiteName p))"
    "json_get ?j ''tests'' = Some (JArr (map (\<lambda>s. sort_keys lc (yaml_step s)) (pSteps p)))"
    "json_get ?j ''timeout_ms'' = None"
    unfolding ys obj_of_def by (subst get_sorted_present; simp add: o_def)+
  have "is_object ?j" by (simp add: ys obj_of_def)
  then show ?thesis
    using wf name reread_steps[OF wf, of 0 lc]
    unfolding import_raw_yaml_def export_yaml_def raw_suite_def
    by (simp add: law get)
qed

end
