(* ===== verification/Plan_Compiler.thy ===== *)
theory Plan_Compiler
  imports Yaml_Round
begin

text \<open>
  \<open>execution-plan-compiler.service.ts\<close>: validation of a visual flow, its order, the steps of the
  execution plan and the warnings, and compilation of a raw YAML suite.
\<close>

section \<open>Validation\<close>

definition bad :: "string \<Rightarrow> js_error + 'a" where
  "bad msg = Inl (BadRequestException msg)"

definition node_type :: "flow_node \<Rightarrow> string" where
  "node_type n = (case nType n of None \<Rightarrow> ''apiRequest'' | Some t \<Rightarrow> t)"

definition is_node_type :: "string \<Rightarrow> flow_node \<Rightarrow> bool" where
  "is_node_type t n = (nType n = Some t)"

definition is_supported_node :: "flow_node \<Rightarrow> bool" where
  "is_supported_node n =
     (node_type n \<in> {''apiRequest'', ''wait'', ''pollUntil'', ''setVariable'', ''assert''})"

definition is_positive :: "jsnum option \<Rightarrow> bool" where
  "is_positive v = (case v of None \<Rightarrow> False | Some d \<Rightarrow> num_pos d)"

definition has_operator :: "flow_assertion \<Rightarrow> bool" where
  "has_operator a = (case faOperator a of None \<Rightarrow> False | Some v \<Rightarrow> json_truthy v)"

fun validate_assertions :: "string \<Rightarrow> flow_assertion list \<Rightarrow> js_error + unit" where
  "validate_assertions name [] = Inr ()"
| "validate_assertions name (a # rest) =
     (if blank (faFieldPath a) then bad (''Assertion in \"'' @ name @ ''\" needs a response field path'')
      else if \<not> has_operator a then bad (''Assertion in \"'' @ name @ ''\" needs an operator'')
      else validate_assertions name rest)"

definition node_assertions :: "flow_node \<Rightarrow> flow_assertion list" where
  "node_assertions n = (case nAssertions n of None \<Rightarrow> [] | Some l \<Rightarrow> l)"

definition validate_request_node :: "flow_node \<Rightarrow> js_error + unit" where
  "validate_request_node n =
     (if blank (nMethod n) then bad (''API step \"'' @ node_name n @ ''\" is missing a method'')
      else if blank (nPath n) then bad (''API step \"'' @ node_name n @ ''\" is missing a path'')
      else validate_assertions (node_name n) (node_assertions n))"

definition validate_poll_times :: "flow_node \<Rightarrow> js_error + unit" where
  "validate_poll_times n =
     (if \<not> is_positive (nTimeoutSeconds n)
      then bad (''Poll step \"'' @ node_name n @ ''\" needs a timeout greater than 0 seconds'')
      else if \<not> is_positive (nIntervalSeconds n)
      then bad (''Poll step \"'' @ node_name n @ ''\" needs a retry interval greater than 0 seconds'')
      else if num_less (the (nTimeoutSeconds n)) (the (nIntervalSeconds n))
      then bad (''Poll step \"'' @ node_name n @ ''\" interval cannot be greater than timeout'')
      else Inr ())"

definition validate_node_config :: "flow_node \<Rightarrow> js_error + unit" where
  "validate_node_config n =
     (if is_node_type ''wait'' n then
        (if is_positive (nDurationMs n) then Inr ()
         else bad (''Wait step \"'' @ node_name n @ ''\" needs a duration greater than 0 ms''))
      else if is_node_type ''setVariable'' n then
        (if blank (nVariableName n)
         then bad (''Set variable step \"'' @ node_name n @ ''\" needs a variable name'')
         else Inr ())
      else if is_node_type ''assert'' n then
        (if blank (nFieldPath n)
         then bad (''Assert step \"'' @ node_name n @ ''\" needs a response field path'')
         else Inr ())
      else if is_node_type ''pollUntil'' n then
        sbind (validate_request_node n) (\<lambda>_. validate_poll_times n)
      else validate_request_node n)"

fun validate_nodes :: "string list \<Rightarrow> flow_node list \<Rightarrow> js_error + unit" where
  "validate_nodes ids [] = Inr ()"
| "validate_nodes ids (n # ns) =
     (if blank (nId n) then bad ''Every flow step must have an id''
      else if node_id n \<in> set ids then bad (''Duplicate flow step id: '' @ node_id n)
      else if blank (nName n) then bad (''Step '' @ node_id n @ '' is missing a name'')
      else if \<not> is_supported_node n then bad (''Unsupported flow node type: '' @ node_type n)
      else sbind (validate_node_config n) (\<lambda>_. validate_nodes (node_id n # ids) ns))"

definition edge_known :: "flow_node list \<Rightarrow> flow_edge \<Rightarrow> bool" where
  "edge_known ns e = (eSource e \<in> node_id ` set ns \<and> eTarget e \<in> node_id ` set ns)"

definition has_branching :: "flow_node list \<Rightarrow> edge_list \<Rightarrow> bool" where
  "has_branching ns es =
     list_ex (\<lambda>n. 1 < incoming_count es (node_id n) \<or> 1 < length (outgoing_targets es (node_id n))) ns"

definition validate_flow :: "flow_suite \<Rightarrow> js_error + flow_node list \<times> edge_list" where
  "validate_flow f =
     (if blank (fSuiteName f) then bad ''Suite name is required''
      else (case fNodes f of
          Elements (n # ns) \<Rightarrow>
            (case fEdges f of
               Elements es \<Rightarrow>
                 sbind (validate_nodes [] (n # ns)) (\<lambda>_.
                 if \<not> list_all (edge_known (n # ns)) es
                 then bad ''Flow contains an edge connected to a missing node''
                 else if has_branching (n # ns) (map edge_pair es)
                 then bad ''Branching flows are not supported yet''
                 else Inr (n # ns, map edge_pair es))
             | _ \<Rightarrow> bad ''Flow edges must be an array'')
        | _ \<Rightarrow> bad ''At least one test step is required''))"

section \<open>Order and dependencies\<close>

definition sort_nodes ::
    "(string \<Rightarrow> string \<Rightarrow> int) \<Rightarrow> flow_node list \<Rightarrow> edge_list \<Rightarrow> js_error + flow_node list" where
  "sort_nodes lc ns es =
     (let ordered = topo_order (Some (\<lambda>l r. lc (node_id l) (node_id r))) True node_id ns es in
      if length ordered \<noteq> length ns then bad ''Flow contains a cycle'' else Inr ordered)"

definition to_dependency_record :: "flow_node list \<Rightarrow> edge_list \<Rightarrow> string list obj" where
  "to_dependency_record ns es =
     fold (\<lambda>(src, tgt) deps. AList.update tgt
            (sort_by code_unit_cmp ((case map_of deps tgt of None \<Rightarrow> [] | Some l \<Rightarrow> l) @ [src])) deps)
       es (from_entries (map (\<lambda>n. (node_id n, [])) ns))"

section \<open>Steps\<close>

definition text_of :: "string option \<Rightarrow> string" where
  "text_of v = (case v of None \<Rightarrow> [] | Some s \<Rightarrow> s)"

definition to_assertion :: "flow_assertion \<Rightarrow> exec_assertion" where
  "to_assertion a =
     \<lparr>xaFieldPath = trim (text_of (faFieldPath a)),
      xaOperator = (case faOperator a of None \<Rightarrow> JNull | Some v \<Rightarrow> v),
      xaExpectedValue = given_value (faExpectedValue a)\<rparr>"

definition to_assertions :: "flow_assertion list \<Rightarrow> exec_assertion list option" where
  "to_assertions l = none_if_empty
     (map to_assertion (filter (\<lambda>a. \<not> blank (faFieldPath a) \<and> has_operator a) l))"

definition to_expectation :: "flow_node \<Rightarrow> expectation option" where
  "to_expectation n =
     (let status = clean_json (coalesce (nExpectStatus n) (Some (JNum (Fin 200))));
          contains = clean_json (nJsonContains n); asserts = to_assertions (node_assertions n)
      in if status = None \<and> contains = None \<and> asserts = None then None
         else Some \<lparr>xpStatus = status, xpJsonContains = contains, xpAssertions = asserts\<rparr>)"

definition to_request_config :: "flow_node \<Rightarrow> request_config" where
  "to_request_config n =
     \<lparr>rqMethod = to_upper (trim (text_of (nMethod n))), rqPath = trim (text_of (nPath n)),
      rqHeaders = clean_jsons (nHeaders n), rqQuery = clean_jsons (nQuery n),
      rqJson = clean_json (nJsonBody n), rqExpect = to_expectation n, rqSave = clean_jsons (nSave n)\<rparr>"

definition seconds_to_ms :: "jsnum option \<Rightarrow> jsnum" where
  "seconds_to_ms v = (case v of None \<Rightarrow> NaN | Some s \<Rightarrow> num_scale 1000 s)"

definition to_step_config :: "flow_node \<Rightarrow> step_config" where
  "to_step_config n =
     (if is_node_type ''wait'' n
      then WaitConfig (case nDurationMs n of None \<Rightarrow> NaN | Some d \<Rightarrow> d)
      else if is_node_type ''pollUntil'' n
      then PollUntilConfig (to_request_config n) (seconds_to_ms (nTimeoutSeconds n))
             (seconds_to_ms (nIntervalSeconds n)) (trimmed (nFailureMessage n))
      else if is_node_type ''setVariable'' n
      then SetVariableConfig (trim (text_of (nVariableName n))) (nValue n)
             (trimmed (nFromStepId n)) (trimmed (nPath n))
      else if is_node_type ''assert'' n
      then AssertConfig (trimmed (nSourceStepId n)) (trim (text_of (nFieldPath n)))
             (nOperator n) (given_value (nExpectedValue n))
      else ApiRequestConfig (to_request_config n))"

definition to_execution_step :: "flow_node \<Rightarrow> exec_step" where
  "to_execution_step n =
     (let cfg = to_step_config n in
      \<lparr>sId = node_id n,
       sVersion = (case nVersion n of None \<Rightarrow> step_type cfg @ ''/v1'' | Some v \<Rightarrow> v),
       sName = trim (text_of (nName n)),
       sConfig = cfg,
       sTimeoutMs = (case cfg of
           PollUntilConfig r t i m \<Rightarrow> t
         | _ \<Rightarrow> (case nTimeoutMs n of None \<Rightarrow> default_step_timeout | Some t \<Rightarrow> t)),
       sRetryPolicy = (case nRetryPolicy n of None \<Rightarrow> default_retry_policy | Some r \<Rightarrow> r),
       sContinueOnFailure = (nContinueOnFailure n = Some True)\<rparr>)"

definition collect_variables :: "(string \<Rightarrow> string \<Rightarrow> int) \<Rightarrow> exec_step list \<Rightarrow> variable_def list" where
  "collect_variables lc steps =
     sort_by (\<lambda>l r. lc (vName l) (vName r)) (concat (map step_variables steps))"

text \<open>The pairs are \<open>[name, sourceStepId]\<close>; \<open>saved\<close> is the map \<open>savedBy\<close>, latest entry first.\<close>

fun repeated_saves ::
    "(string \<Rightarrow> string \<Rightarrow> string \<Rightarrow> string) \<Rightarrow> (string \<times> string) list \<Rightarrow> (string \<times> string) list \<Rightarrow>
     string list" where
  "repeated_saves msg saved [] = []"
| "repeated_saves msg saved ((name, src) # vs) =
     (case map_of saved name of
        Some (c # cs) \<Rightarrow> msg name (c # cs) src # repeated_saves msg ((name, src) # saved) vs
      | _ \<Rightarrow> repeated_saves msg ((name, src) # saved) vs)"

definition saved_by_both :: "string \<Rightarrow> string \<Rightarrow> string \<Rightarrow> string" where
  "saved_by_both name owner src =
     ''Variable \"'' @ name @ ''\" is saved by both \"'' @ owner @ ''\" and \"'' @ src @ ''\".''"

definition build_warnings :: "(string \<Rightarrow> string \<Rightarrow> int) \<Rightarrow> exec_step list \<Rightarrow> string list" where
  "build_warnings lc steps =
     repeated_saves saved_by_both []
       (map (\<lambda>v. (vName v, vSourceStepId v)) (collect_variables lc steps))"

definition tests_count :: "exec_step list \<Rightarrow> nat" where
  "tests_count steps = length (filter (\<lambda>s. \<not> is_sequence s) steps)"

definition compile_visual ::
    "(string \<Rightarrow> string \<Rightarrow> int) \<Rightarrow> (json \<Rightarrow> string) \<Rightarrow> flow_suite option \<Rightarrow> compile_options \<Rightarrow>
     js_error + compile_result" where
  "compile_visual lc yaml_dump flow options =
     sbind (migrate flow) (\<lambda>f.
     sbind (validate_flow f) (\<lambda>(ns, es).
     sbind (sort_nodes lc ns es) (\<lambda>ordered.
     let steps = map to_execution_step ordered;
         plan = normalize_plan lc
           \<lparr>pSuiteRevisionId = (case oSuiteRevisionId options of None \<Rightarrow> ''draft'' | Some r \<Rightarrow> r),
            pSuiteName = trim (text_of (fSuiteName f)),
            pSteps = steps,
            pDependencies = to_dependency_record ordered es,
            pVariables = collect_variables lc steps,
            pTimeoutMs = (case oTimeoutMs options of None \<Rightarrow> default_plan_timeout | Some t \<Rightarrow> t)\<rparr>
     in Inr \<lparr>crPlan = plan, crYaml = export_yaml lc yaml_dump plan,
             crTestsCount = tests_count steps, crWarnings = build_warnings lc steps\<rparr>)))"

definition compile_raw_yaml ::
    "(string \<Rightarrow> string \<Rightarrow> int) \<Rightarrow> (string \<Rightarrow> js_error + json option) \<Rightarrow> (json \<Rightarrow> string) \<Rightarrow> string \<Rightarrow>
     compile_options \<Rightarrow> js_error + compile_result" where
  "compile_raw_yaml lc yaml_load yaml_dump content options =
     sbind (import_raw_yaml lc yaml_load content options) (\<lambda>plan.
     Inr \<lparr>crPlan = plan, crYaml = export_yaml lc yaml_dump plan,
          crTestsCount = tests_count (pSteps plan), crWarnings = build_warnings lc (pSteps plan)\<rparr>)"

end
