(* ===== verification/Plan_Props.thy ===== *)
theory Plan_Props
  imports Plan_Compiler "HOL-Library.Countable"
begin

text \<open>
  What the execution plan compiler guarantees: accepted flows are compiled exactly when they have
  no cycle, the steps of a plan are in dependency order, the dependency record is that of the
  edges, and the stored YAML reads back as the same steps.
\<close>

section \<open>Validated flows\<close>

lemma bad_not_Inr [simp]: "bad m \<noteq> Inr a" "Inr a \<noteq> bad m" "bad m = Inl e \<longleftrightarrow> e = BadRequestException m"
  by (auto simp: bad_def)

lemma validate_nodes_ok:
  "validate_nodes ids ns = Inr u \<Longrightarrow>
   distinct (map node_id ns) \<and> set (map node_id ns) \<inter> set ids = {}
   \<and> (\<forall>n\<in>set ns. \<not> blank (nId n) \<and> \<not> blank (nName n) \<and> is_supported_node n
        \<and> validate_node_config n = Inr ())"
  by (induction ids ns rule: validate_nodes.induct) (auto split: if_splits)

lemma validate_flow_ok:
  assumes "validate_flow f = Inr (ns, es)"
  shows "fNodes f = Elements ns" "fEdges f = Elements fe \<Longrightarrow> es = map edge_pair fe"
    "\<not> blank (fSuiteName f)" "ns \<noteq> []"
    "distinct (map node_id ns)" "\<forall>(a, b)\<in>set es. a \<in> node_id ` set ns \<and> b \<in> node_id ` set ns"
    "\<And>n. n \<in> set ns \<Longrightarrow> \<not> blank (nId n) \<and> \<not> blank (nName n) \<and> is_supported_node n
        \<and> validate_node_config n = Inr ()"
    "\<not> has_branching ns es"
proof -
  from assms obtain n ms fe' where f: "fNodes f = Elements (n # ms)" "fEdges f = Elements fe'"
    and v: "validate_nodes [] (n # ms) = Inr ()" and k: "list_all (edge_known (n # ms)) fe'"
    and b: "\<not> has_branching (n # ms) (map edge_pair fe')" and nm: "\<not> blank (fSuiteName f)"
    and r: "ns = n # ms" "es = map edge_pair fe'"
    unfolding validate_flow_def by (auto split: if_splits array_field.splits list.splits)
  show "fNodes f = Elements ns" "fEdges f = Elements fe \<Longrightarrow> es = map edge_pair fe"
    "\<not> blank (fSuiteName f)" "ns \<noteq> []" "\<not> has_branching ns es"
    using f r nm b by auto
  show "distinct (map node_id ns)" using validate_nodes_ok[OF v] r by auto
  show "\<forall>(a, b)\<in>set es. a \<in> node_id ` set ns \<and> b \<in> node_id ` set ns"
    using k unfolding r by (auto simp: list_all_iff edge_known_def edge_pair_def)
  show "\<not> blank (nId m) \<and> \<not> blank (nName m) \<and> is_supported_node m
        \<and> validate_node_config m = Inr ()" if "m \<in> set ns" for m
    using validate_nodes_ok[OF v] that r by auto
qed

lemma sort_nodes_ok:
  assumes "distinct (map node_id ns)"
    and "\<forall>(a, b)\<in>set es. a \<in> node_id ` set ns \<and> b \<in> node_id ` set ns"
  shows "sort_nodes lc ns es = (if acyclic (set es)
      then Inr (topo_order (Some (\<lambda>l r. lc (node_id l) (node_id r))) True node_id ns es)
      else bad ''Flow contains a cycle'')"
  using topo_order_complete_iff[OF assms, of "Some (\<lambda>l r. lc (node_id l) (node_id r))" True]
  by (simp add: sort_nodes_def Let_def)

lemma topo_order_full:
  assumes "distinct (map key ns)"
    and "\<forall>(a, b)\<in>set es. a \<in> key ` set ns \<and> b \<in> key ` set ns" and "acyclic (set es)"
  shows "mset (topo_order cmp ord key ns es) = mset ns"
    and "(a, b) \<in> set es \<Longrightarrow> before_in (map key (topo_order cmp ord key ns es)) a b"
proof -
  define r where "r = topo_order cmp ord key ns es"
  have closed: "\<forall>(a, b)\<in>set es. b \<in> key ` set ns" using assms(2) by auto
  note sound = topo_order_sound[OF assms(1) closed r_def]
  have "length r = length ns"
    using topo_order_complete_iff[OF assms(1,2), of cmp ord] assms(3) by (simp add: r_def)
  moreover have d: "distinct r" "distinct ns" using sound(1) assms(1) by (auto simp: distinct_map)
  ultimately have s: "set r = set ns"
    using sound(2) by (metis card_subset_eq distinct_card finite_set)
  then show "mset (topo_order cmp ord key ns es) = mset ns"
    using d by (simp add: r_def[symmetric] set_eq_iff_mset_eq_distinct)
  show "before_in (map key (topo_order cmp ord key ns es)) a b" if "(a, b) \<in> set es"
    using sound(3)[OF that] closed that s by (auto simp: r_def)
qed

lemma compile_visual_cases:
  assumes "migrate flow = Inr f" "validate_flow f = Inr (ns, es)"
  shows "compile_visual lc yaml_dump flow options = sbind (sort_nodes lc ns es) (\<lambda>ordered.
     let steps = map to_execution_step ordered;
         plan = normalize_plan lc
           \<lparr>pSuiteRevisionId = (case oSuiteRevisionId options of None \<Rightarrow> ''draft'' | Some r \<Rightarrow> r),
            pSuiteName = trim (text_of (fSuiteName f)),
            pSteps = steps,
            pDependencies = to_dependency_record ordered es,
            pVariables = collect_variables lc steps,
            pTimeoutMs = (case oTimeoutMs options of None \<Rightarrow> default_plan_timeout | Some t \<Rightarrow> t)\<rparr>
     in Inr \<lparr>crPlan = plan, crYaml = export_yaml lc yaml_dump plan,
             crTestsCount = tests_count steps, crWarnings = build_warnings lc steps\<rparr>)"
  by (simp add: compile_visual_def assms)

definition compiled_order ::
    "(string \<Rightarrow> string \<Rightarrow> int) \<Rightarrow> flow_node list \<Rightarrow> edge_list \<Rightarrow> flow_node list" where
  "compiled_order lc ns es = topo_order (Some (\<lambda>l r. lc (node_id l) (node_id r))) True node_id ns es"

lemma compile_visual_result:
  assumes "migrate flow = Inr f" "validate_flow f = Inr (ns, es)"
  shows "\<not> acyclic (set es) \<Longrightarrow> compile_visual lc yaml_dump flow options
      = Inl (BadRequestException ''Flow contains a cycle'')"
    and "acyclic (set es) \<Longrightarrow> \<exists>r. compile_visual lc yaml_dump flow options = Inr r
      \<and> pSteps (crPlan r) = map (\<lambda>n. normalize_step (to_execution_step n)) (compiled_order lc ns es)
      \<and> pDependencies (crPlan r)
          = sort_dependencies lc (to_dependency_record (compiled_order lc ns es) es)
      \<and> pSuiteName (crPlan r) = trim (text_of (fSuiteName f))
      \<and> crYaml r = export_yaml lc yaml_dump (crPlan r)"
proof -
  note ok = validate_flow_ok(5,6)[OF assms(2)]
  show "\<not> acyclic (set es) \<Longrightarrow> compile_visual lc yaml_dump flow options
      = Inl (BadRequestException ''Flow contains a cycle'')"
    by (simp add: compile_visual_cases[OF assms] sort_nodes_ok[OF ok] bad_def)
  have "trim (text_of (fSuiteName f)) \<noteq> []"
    using validate_flow_ok(3)[OF assms(2)] by (auto simp: blank_def text_of_def split: option.splits)
  then show "acyclic (set es) \<Longrightarrow> \<exists>r. compile_visual lc yaml_dump flow options = Inr r
      \<and> pSteps (crPlan r) = map (\<lambda>n. normalize_step (to_execution_step n)) (compiled_order lc ns es)
      \<and> pDependencies (crPlan r)
          = sort_dependencies lc (to_dependency_record (compiled_order lc ns es) es)
      \<and> pSuiteName (crPlan r) = trim (text_of (fSuiteName f))
      \<and> crYaml r = export_yaml lc yaml_dump (crPlan r)"
    by (simp add: compile_visual_cases[OF assms] sort_nodes_ok[OF ok] compiled_order_def Let_def
        normalize_plan_def o_def)
qed

lemma compiled_flow:
  assumes "compile_visual lc yaml_dump (Some f) options = Inr r"
    and "fNodes f = Elements ns" and "fEdges f = Elements es"
  obtains f' where "migrate (Some f) = Inr f'"
    "validate_flow f' = Inr (map migrate_node ns, map edge_pair es)"
    "acyclic (set (map edge_pair es))" "fSuiteName f' = fSuiteName f"
proof -
  obtain f' where m: "migrate (Some f) = Inr f'"
    using assms(1) by (cases "migrate (Some f)") (auto simp: compile_visual_def)
  then obtain ns' es' where v: "validate_flow f' = Inr (ns', es')"
    using assms(1) by (cases "validate_flow f'") (auto simp: compile_visual_def)
  have f': "fNodes f' = Elements (map migrate_node ns)" "fEdges f' = Elements es"
    "fSuiteName f' = fSuiteName f"
    using m assms(2,3) by (auto simp: migrate_def split: if_splits)
  have "ns' = map migrate_node ns" "es' = map edge_pair es"
    using validate_flow_ok(1,2)[OF v] f' by auto
  moreover have "acyclic (set es')"
    using compile_visual_result(1)[OF m v, of lc yaml_dump options] assms(1) by auto
  ultimately show ?thesis using that m v f'(3) by auto
qed

lemma mset_compiled_order:
  assumes "validate_flow f = Inr (ns, es)" "acyclic (set es)"
  shows "mset (compiled_order lc ns es) = mset ns"
    and "(a, b) \<in> set es \<Longrightarrow> before_in (map node_id (compiled_order lc ns es)) a b"
  unfolding compiled_order_def
  using topo_order_full[OF validate_flow_ok(5,6)[OF assms(1)] assms(2)] by auto

section \<open>Compilation\<close>

text \<open>A YAML library for the witnesses: documents are numbered, and written as so many characters.\<close>

instance jsnum :: countable
  by countable_datatype

instance json :: countable
  by countable_datatype

definition unary_dump :: "json \<Rightarrow> string" where
  "unary_dump j = replicate (to_nat j) (CHR ''|'')"

definition unary_load :: "string \<Rightarrow> js_error + json option" where
  "unary_load s = Inr (Some (from_nat (length s)))"

lemma unary_law: "unary_load (unary_dump j) = Inr (Some j)"
  by (simp add: unary_load_def unary_dump_def)


definition blank_node :: "string \<Rightarrow> string \<Rightarrow> flow_node" where
  "blank_node i t =
     \<lparr>nId = Some i, nName = Some (''Step '' @ i), nType = Some t, nVersion = None, nTimeoutMs = None,
      nRetryPolicy = None, nContinueOnFailure = None, nMethod = None, nPath = None, nHeaders = None,
      nQuery = None, nJsonBody = None, nExpectStatus = None, nJsonContains = None, nAssertions = None,
      nSave = None, nDurationMs = None, nTimeoutSeconds = None, nIntervalSeconds = None,
      nFailureMessage = None, nVariableName = None, nValue = None, nFromStepId = None,
      nSourceStepId = None, nFieldPath = None, nOperator = None, nExpectedValue = None\<rparr>"

definition get_node :: "string \<Rightarrow> flow_node" where
  "get_node i = (blank_node i ''apiRequest'')\<lparr>nMethod := Some ''get'', nPath := Some ('' /'' @ i)\<rparr>"

definition sample_flow :: "flow_edge list \<Rightarrow> flow_suite" where
  "sample_flow es =
     \<lparr>fVersion = Some ''1.0'', fSuiteName = Some ''Auth'',
      fNodes = Elements [get_node ''me'', get_node ''login'',
        (blank_node ''pause'' ''wait'')\<lparr>nDurationMs := Some (Fin 50)\<rparr>],
      fEdges = Elements es\<rparr>"

definition sample_edges :: "flow_edge list" where
  "sample_edges = [\<lparr>eId = ''e1'', eSource = ''login'', eTarget = ''me''\<rparr>,
     \<lparr>eId = ''e2'', eSource = ''me'', eTarget = ''pause''\<rparr>]"

definition no_options :: compile_options where
  "no_options = \<lparr>oSuiteRevisionId = None, oTimeoutMs = None\<rparr>"

lemma sample_flow_compiles:
  "\<exists>r. compile_visual code_unit_cmp (\<lambda>_. []) (Some (sample_flow sample_edges)) no_options = Inr r"
proof -
  have "(case compile_visual code_unit_cmp (\<lambda>_. []) (Some (sample_flow sample_edges)) no_options of
      Inr r \<Rightarrow> True | Inl e \<Rightarrow> False)"
    by code_simp
  then show ?thesis by (auto split: sum.splits)
qed

text \<open>
  C9: A flow that passes validation is compiled exactly when its edges have no cycle, and
  otherwise rejected as \<open>Flow contains a cycle\<close>.
\<close>

theorem compile_visual_rejects_cycles:
  assumes "migrate flow = Inr f" "validate_flow f = Inr (ns, es)"
  shows "(if acyclic (set es) then \<exists>r. compile_visual lc yaml_dump flow options = Inr r
          else compile_visual lc yaml_dump flow options
            = Inl (BadRequestException ''Flow contains a cycle''))"
  using compile_visual_result[OF assms, of lc yaml_dump options] by auto

text \<open>
  C8: The steps of a compiled plan are the steps of the flow's nodes, each exactly once, in an order
  in which the source of every edge comes before its target.
\<close>

theorem compile_visual_orders_steps:
  assumes "compile_visual lc yaml_dump (Some f) options = Inr r"
    and "fNodes f = Elements ns" and "fEdges f = Elements es"
  shows "\<exists>ordered. mset ordered = mset (map migrate_node ns)
    \<and> pSteps (crPlan r) = map (\<lambda>n. normalize_step (to_execution_step n)) ordered
    \<and> (\<forall>e\<in>set es. before_in (map node_id ordered) (eSource e) (eTarget e))"
proof -
  obtain f' where m: "migrate (Some f) = Inr f'"
    and v: "validate_flow f' = Inr (map migrate_node ns, map edge_pair es)"
    and ac: "acyclic (set (map edge_pair es))"
    using compiled_flow[OF assms] by blast
  let ?o = "compiled_order lc (map migrate_node ns) (map edge_pair es)"
  have "pSteps (crPlan r) = map (\<lambda>n. normalize_step (to_execution_step n)) ?o"
    using compile_visual_result(2)[OF m v ac, of lc yaml_dump options] assms(1) by auto
  moreover have "before_in (map node_id ?o) (eSource e) (eTarget e)" if "e \<in> set es" for e
    by (rule mset_compiled_order(2)[OF v ac]) (use that in \<open>auto simp: edge_pair_def\<close>)
  ultimately show ?thesis using mset_compiled_order(1)[OF v ac, of lc] by blast
qed

theorem compile_visual_orders_steps_witness:
  "\<exists>r ordered. compile_visual code_unit_cmp (\<lambda>_. []) (Some (sample_flow sample_edges)) no_options = Inr r
    \<and> pSteps (crPlan r) = map (\<lambda>n. normalize_step (to_execution_step n)) ordered
    \<and> before_in (map node_id ordered) ''login'' ''me''"
proof -
  obtain r where r: "compile_visual code_unit_cmp (\<lambda>_. []) (Some (sample_flow sample_edges)) no_options
      = Inr r"
    using sample_flow_compiles by blast
  obtain ordered where
    "pSteps (crPlan r) = map (\<lambda>n. normalize_step (to_execution_step n)) ordered"
    "\<forall>e\<in>set sample_edges. before_in (map node_id ordered) (eSource e) (eTarget e)"
    using compile_visual_orders_steps[OF r, of "[get_node ''me'', get_node ''login'',
        (blank_node ''pause'' ''wait'')\<lparr>nDurationMs := Some (Fin 50)\<rparr>]" sample_edges]
    by (auto simp: sample_flow_def)
  then show ?thesis using r by (auto simp: sample_edges_def)
qed

theorem compile_visual_rejects_cycles_witness:
  "compile_visual code_unit_cmp (\<lambda>_. [])
     (Some (sample_flow [\<lparr>eId = ''e1'', eSource = ''login'', eTarget = ''me''\<rparr>,
        \<lparr>eId = ''e2'', eSource = ''me'', eTarget = ''login''\<rparr>])) no_options
   = Inl (BadRequestException ''Flow contains a cycle'')"
proof -
  let ?es = "[(''login'', ''me''), (''me'', ''login'')]"
  let ?f = "sample_flow [\<lparr>eId = ''e1'', eSource = ''login'', eTarget = ''me''\<rparr>,
        \<lparr>eId = ''e2'', eSource = ''me'', eTarget = ''login''\<rparr>]"
  have "(case migrate (Some ?f) of Inl e \<Rightarrow> False
      | Inr f' \<Rightarrow> (case validate_flow f' of Inl e \<Rightarrow> False | Inr (ns, es) \<Rightarrow> es = ?es))"
    by code_simp
  then obtain f' ns where m: "migrate (Some ?f) = Inr f'" and v: "validate_flow f' = Inr (ns, ?es)"
    by (auto split: sum.splits)
  have "(''login'', ''login'') \<in> (set ?es)\<^sup>+"
    by (rule trancl_into_trancl[of _ "''me''"]) auto
  then have "\<not> acyclic (set ?es)" unfolding acyclic_def by blast
  then show ?thesis
    using compile_visual_rejects_cycles[OF m v, of code_unit_cmp "\<lambda>_. []" no_options]
    by (simp only: if_False)
qed

section \<open>Compiled steps are well-formed\<close>

text \<open>
  The operators, expected values and status of a node as the editor's types have them: a string, a
  string, a number.
\<close>

fun is_string :: "json \<Rightarrow> bool" where
  "is_string (JStr s) = True"
| "is_string _ = False"

definition typed_assertion :: "flow_assertion \<Rightarrow> bool" where
  "typed_assertion a =
     (pred_option is_string (faOperator a) \<and> pred_option is_string (faExpectedValue a))"

definition typed_node :: "flow_node \<Rightarrow> bool" where
  "typed_node n = (as_num (nExpectStatus n) \<noteq> None \<or> nExpectStatus n = None)"

definition typed_assertions :: "flow_node \<Rightarrow> bool" where
  "typed_assertions n = list_all typed_assertion (node_assertions n)"

lemma clean_text_trim: "\<not> blank v \<Longrightarrow> clean_text (trim (text_of v))"
  by (auto simp: blank_def text_of_def clean_text_def split: option.splits)

lemma clean_text_upper: "clean_text s \<Longrightarrow> clean_text (to_upper s)"
  by (auto simp: clean_text_def trim_to_upper)

lemma clean_option_trimmed: "clean_option (trimmed v)"
  by (auto simp: clean_option_def clean_text_def trimmed_def split: option.splits if_splits)

lemma wf_obj_clean: "wf_obj (clean_jsons v)"
  by (simp add: wf_obj_def)

lemma given_value_idem [simp]: "given_value (given_value v) = given_value v"
  by (simp add: given_value_def)

lemma wf_to_assertion:
  assumes "typed_assertion a" "\<not> blank (faFieldPath a)" "has_operator a"
  shows "wf_assertion (to_assertion a)"
proof -
  obtain op where "faOperator a = Some (JStr op)" "op \<noteq> []"
    using assms(1,3) by (cases "faOperator a")
      (auto simp: typed_assertion_def has_operator_def elim: is_string.elims)
  moreover have "clean_json (given_value (faExpectedValue a)) = given_value (faExpectedValue a)"
    using assms(1) by (cases "faExpectedValue a")
      (auto simp: typed_assertion_def given_value_def clean_json_def kept_json_def
        elim!: is_string.elims)
  ultimately show ?thesis
    using clean_text_trim[OF assms(2)]
    by (simp add: wf_assertion_def to_assertion_def kept_json_def)
qed

lemma wf_to_assertions:
  assumes "list_all typed_assertion l" "to_assertions l = Some xs"
  shows "xs \<noteq> [] \<and> list_all wf_assertion xs"
  using assms wf_to_assertion
  by (auto simp: to_assertions_def none_if_empty_def list_all_iff split: if_splits)

lemma wf_to_request:
  assumes "typed_node n" "typed_assertions n" "validate_request_node n = Inr ()"
  shows "wf_request (to_request_config n)"
proof -
  have req: "\<not> blank (nMethod n)" "\<not> blank (nPath n)"
    using assms(3) by (auto simp: validate_request_node_def split: if_splits)
  obtain st where st: "coalesce (nExpectStatus n) (Some (JNum (Fin 200))) = Some (JNum st)"
    using assms(1) by (auto simp: typed_node_def coalesce_def nullish_def as_num_def
        split: option.splits json.splits)
  have "\<exists>e. to_expectation n = Some e \<and> wf_expectation e"
    using assms(2) wf_to_assertions[of "node_assertions n"]
    by (auto simp: to_expectation_def st wf_expectation_def Let_def typed_assertions_def kept_json_def)
  then show ?thesis
    using clean_text_trim[OF req(1)] clean_text_trim[OF req(2)]
    by (simp add: wf_request_def to_request_config_def clean_text_upper wf_obj_clean)
qed

lemma num_scale_pos: "num_pos v \<Longrightarrow> num_pos (num_scale 1000 v)"
  by (auto simp: num_pos_iff)

lemma wf_to_config:
  assumes "typed_node n" "typed_assertions n" "is_supported_node n" "validate_node_config n = Inr ()"
  shows "wf_config (to_step_config n)"
proof -
  consider "is_node_type ''wait'' n" | "is_node_type ''setVariable'' n" | "is_node_type ''assert'' n"
    | "is_node_type ''pollUntil'' n" | "to_step_config n = ApiRequestConfig (to_request_config n)"
      "validate_request_node n = Inr ()"
    using assms(4) by (auto simp: validate_node_config_def to_step_config_def split: if_splits)
  then show ?thesis
  proof cases
    case 1
    then show ?thesis
      using assms(4) by (auto simp: validate_node_config_def to_step_config_def is_positive_def
          split: if_splits option.splits)
  next
    case 2
    then have "\<not> blank (nVariableName n)"
      using assms(4) by (auto simp: validate_node_config_def is_node_type_def split: if_splits)
    from clean_text_trim[OF this] 2 show ?thesis
      by (simp add: to_step_config_def is_node_type_def clean_option_trimmed)
  next
    case 3
    then have "\<not> blank (nFieldPath n)"
      using assms(4) by (auto simp: validate_node_config_def is_node_type_def split: if_splits)
    from clean_text_trim[OF this] 3 show ?thesis
      by (simp add: to_step_config_def is_node_type_def clean_option_trimmed)
  next
    case 4
    then have v: "validate_request_node n = Inr ()" "validate_poll_times n = Inr ()"
      using assms(4) by (auto simp: validate_node_config_def is_node_type_def split: if_splits)
    from v(2) obtain t i where ti: "nTimeoutSeconds n = Some t" "nIntervalSeconds n = Some i"
      "num_pos t" "num_pos i" "\<not> num_less t i"
      by (auto simp: validate_poll_times_def is_positive_def split: if_splits option.splits)
    then have "\<not> num_less (num_scale 1000 t) (num_scale 1000 i)"
      by (auto simp: num_pos_iff)
    with 4 ti wf_to_request[OF assms(1,2) v(1)] show ?thesis
      by (simp add: to_step_config_def is_node_type_def clean_option_trimmed seconds_to_ms_def
          num_scale_pos)
  next
    case 5
    then show ?thesis using wf_to_request[OF assms(1,2)] by simp
  qed
qed

lemma num_pos_one: "num_pos (Fin 1)"
  by (simp add: num_pos_iff)

lemma num_nonneg_zero: "num_nonneg (Fin 0)"
  by (simp add: num_nonneg_iff)

lemma wf_compiled_step:
  assumes "typed_node n" "typed_assertions n" "is_supported_node n" "validate_node_config n = Inr ()"
    and "\<not> blank (nId n)" "\<not> blank (nName n)"
  shows "wf_step (normalize_step (to_execution_step n))"
proof -
  let ?s = "to_execution_step n"
  have cfg: "wf_config (sConfig ?s)"
    using wf_to_config[OF assms(1-4)] by (simp add: to_execution_step_def Let_def)
  have "node_id n = text_of (nId n)" by (simp add: node_id_def text_of_def)
  then have "clean_text (trim (sId ?s))" "clean_text (trim (sName ?s))"
    using clean_text_trim[OF assms(5)] clean_text_trim[OF assms(6)]
    by (simp_all add: to_execution_step_def Let_def)
  moreover have "positive_number (Some (sTimeoutMs ?s)) default_step_timeout = t"
    if "sConfig ?s = PollUntilConfig r t i m" for r t i m
    using that cfg by (simp add: to_execution_step_def Let_def positive_number_id)
  ultimately show ?thesis
    using cfg default_timeouts_pos(2) num_pos_one num_nonneg_zero
    unfolding wf_step_def normalize_step_def normalize_retry_policy_def
    by (auto intro!: positive_number_pos non_negative_number_nonneg)
qed


lemma compiles_for_any_dump:
  assumes "compile_visual lc dump1 flow options = Inr r"
  shows "\<exists>r'. compile_visual lc dump2 flow options = Inr r'"
  using assms by (auto simp: compile_visual_def Let_def)


section \<open>Dependencies\<close>

lemma map_of_from_entries:
  "distinct (map fst es) \<Longrightarrow> map_of (from_entries es) = map_of es"
  by (simp add: from_entries_id)

definition add_dependency :: "string \<times> string \<Rightarrow> string list obj \<Rightarrow> string list obj" where
  "add_dependency e deps = AList.update (snd e)
     (sort_by code_unit_cmp ((case map_of deps (snd e) of None \<Rightarrow> [] | Some l \<Rightarrow> l) @ [fst e])) deps"

lemma to_dependency_record_fold:
  "to_dependency_record ns es
    = fold add_dependency es (from_entries (map (\<lambda>n. (node_id n, [])) ns))"
  unfolding to_dependency_record_def
  by (rule fold_cong) (auto simp: add_dependency_def fun_eq_iff)

lemma add_dependencies:
  assumes "distinct (map fst deps)" "\<forall>(a, b)\<in>set es. b \<in> fst ` set deps"
  shows "map fst (fold add_dependency es deps) = map fst deps"
    and "map_of deps k = Some l \<Longrightarrow> \<exists>l'. map_of (fold add_dependency es deps) k = Some l'
        \<and> mset l' = mset l + mset (map fst (filter (\<lambda>e. snd e = k) es))"
  using assms
proof (induction es arbitrary: deps l)
  case Nil
  { case 1 then show ?case by simp }
  { case 2 then show ?case by simp }
next
  case (Cons e es)
  have keys: "map fst (add_dependency e deps) = map fst deps"
    if "distinct (map fst deps)" "snd e \<in> fst ` set deps" for deps :: "string list obj"
    using that by (simp add: add_dependency_def update_keys)
  { case 1
    then show ?case using Cons.IH(1)[of "add_dependency e deps"] keys[of deps]
      by (cases e) (auto simp: keys set_map[symmetric] simp del: set_map) }
  { case 2
    then show ?case using Cons.IH(2)[of "add_dependency e deps"] keys[of deps]
      by (cases e) (auto simp: keys add_dependency_def update_conv' set_map[symmetric] simp del: set_map) }
qed

lemma map_of_sort_dependencies:
  assumes "distinct (map fst deps)"
  shows "map_of (sort_dependencies lc deps) k = map_option (sort_by code_unit_cmp) (map_of deps k)"
proof -
  let ?s = "sort_by (\<lambda>l r. lc (fst l) (fst r)) deps"
  have d: "distinct (map fst ?s)" using assms by (rule distinct_sort_by[THEN iffD2])
  have "map fst (map (\<lambda>(k, vs). (k, sort_by code_unit_cmp vs)) ?s) = map fst ?s"
    by (induction ?s) auto
  then have "map_of (sort_dependencies lc deps) k
      = map_of (map (\<lambda>(k, vs). (k, sort_by code_unit_cmp vs)) ?s) k"
    unfolding sort_dependencies_def using d by (simp only: map_of_from_entries)
  also have "\<dots> = map_option (sort_by code_unit_cmp) (map_of ?s k)"
    by (simp add: map_of_map)
  finally show ?thesis using assms by (simp add: map_of_sort_by)
qed

lemma short_mset_eq:
  assumes "mset xs = mset ys" "length ys \<le> 1"
  shows "xs = ys"
  using assms by (cases ys) (auto simp: single_is_union)

lemma no_branching_sources:
  assumes "\<not> has_branching ns es" "n \<in> set ns"
  shows "length (filter (\<lambda>e. snd e = node_id n) es) \<le> 1"
  using assms by (auto simp: has_branching_def incoming_count_def list_ex_iff not_less)

text \<open>
  The dependency record of a compiled plan says of every node which node has an edge to it: the
  entry of a node lists the sources of its incoming edges (at most one, as branching is rejected).
\<close>

theorem compiled_dependencies:
  assumes "compile_visual lc yaml_dump (Some f) options = Inr r"
    and "fNodes f = Elements ns" and "fEdges f = Elements es" and "n \<in> set ns"
  shows "map_of (pDependencies (crPlan r)) (node_id n)
    = Some (map eSource (filter (\<lambda>e. eTarget e = node_id n) es))"
proof -
  obtain f' where m: "migrate (Some f) = Inr f'"
    and v: "validate_flow f' = Inr (map migrate_node ns, map edge_pair es)"
    and ac: "acyclic (set (map edge_pair es))"
    using compiled_flow[OF assms(1-3)] by blast
  let ?es = "map edge_pair es"
  let ?o = "compiled_order lc (map migrate_node ns) ?es"
  let ?init = "map (\<lambda>n. (node_id n, [] :: string list)) ?o"
  let ?src = "map fst (filter (\<lambda>e. snd e = node_id n) ?es)"
  have ms: "mset ?o = mset (map migrate_node ns)" by (rule mset_compiled_order(1)[OF v ac])
  have "mset (map node_id ?o) = mset (map node_id (map migrate_node ns))"
    using ms unfolding mset_map by simp
  then have "distinct (map node_id ?o)"
    using validate_flow_ok(5)[OF v] mset_eq_imp_distinct_iff by blast
  then have d: "distinct (map fst ?init)" by (simp add: o_def)
  have "node_id n \<in> node_id ` set (map migrate_node ns)"
    using assms(4) by (simp add: image_image)
  then have "node_id n \<in> node_id ` set ?o" using ms by (metis set_mset_mset)
  then have init: "map_of ?init (node_id n) = Some []"
    using d by (intro map_of_is_SomeI) auto
  have tgt: "\<forall>(a, b)\<in>set ?es. b \<in> fst ` set ?init"
    using validate_flow_ok(6)[OF v] ms by (fastforce simp: image_image dest: mset_eq_setD)
  obtain l where l: "map_of (fold add_dependency ?es ?init) (node_id n) = Some l" "mset l = mset ?src"
    using add_dependencies(2)[OF d tgt init] by auto
  have "pDependencies (crPlan r) = sort_dependencies lc (to_dependency_record ?o ?es)"
    using compile_visual_result(2)[OF m v ac, of lc yaml_dump options] assms(1) by auto
  moreover have "to_dependency_record ?o ?es = fold add_dependency ?es ?init"
    using d by (simp only: to_dependency_record_fold from_entries_id)
  moreover have "distinct (map fst (fold add_dependency ?es ?init))"
    using add_dependencies(1)[OF d tgt] d by (simp only:)
  ultimately have "map_of (pDependencies (crPlan r)) (node_id n) = Some (sort_by code_unit_cmp l)"
    using l(1) by (simp add: map_of_sort_dependencies)
  moreover have "length ?src \<le> 1"
    using no_branching_sources[OF validate_flow_ok(8)[OF v], of "migrate_node n"] assms(4) by simp
  then have "sort_by code_unit_cmp l = ?src" using l(2) by (intro short_mset_eq) simp_all
  moreover have "?src = map eSource (filter (\<lambda>e. eTarget e = node_id n) es)"
    by (induction es) (auto simp: edge_pair_def)
  ultimately show ?thesis by simp
qed

theorem compiled_dependencies_witness:
  "\<exists>r. compile_visual code_unit_cmp (\<lambda>_. []) (Some (sample_flow sample_edges)) no_options = Inr r
    \<and> map_of (pDependencies (crPlan r)) ''me'' = Some [''login'']"
proof -
  obtain r where r: "compile_visual code_unit_cmp (\<lambda>_. []) (Some (sample_flow sample_edges)) no_options
      = Inr r"
    using sample_flow_compiles by blast
  have "map_of (pDependencies (crPlan r)) (node_id (get_node ''me''))
      = Some (map eSource (filter (\<lambda>e. eTarget e = node_id (get_node ''me'')) sample_edges))"
    by (rule compiled_dependencies[OF r]) (simp_all add: sample_flow_def del: list.set(2), simp)
  with r show ?thesis by (simp add: sample_edges_def get_node_def blank_node_def node_id_def)
qed

section \<open>Warnings\<close>

lemma repeated_saves_length:
  assumes "\<forall>(a, b)\<in>set vs. b \<noteq> []" "\<forall>(a, b)\<in>set saved. b \<noteq> []"
  shows "length (repeated_saves msg saved vs) + card (set (map fst vs) - fst ` set saved) = length vs"
  using assms
proof (induction msg saved vs rule: repeated_saves.induct)
  case (1 msg saved)
  then show ?case by simp
next
  case (2 msg saved name src vs)
  have src: "src \<noteq> []" using "2.prems" by auto
  show ?case
  proof (cases "map_of saved name")
    case None
    then have "name \<notin> fst ` set saved" by (simp add: map_of_eq_None_iff)
    then have "set (map fst ((name, src) # vs)) - fst ` set saved
        = insert name (set (map fst vs) - fst ` set ((name, src) # saved))" by auto
    then have "card (set (map fst ((name, src) # vs)) - fst ` set saved)
        = Suc (card (set (map fst vs) - fst ` set ((name, src) # saved)))" by simp
    moreover have "length (repeated_saves msg ((name, src) # saved) vs)
        + card (set (map fst vs) - fst ` set ((name, src) # saved)) = length vs"
      by (rule "2.IH"(1)) (use None "2.prems" src in auto)
    ultimately show ?thesis using None by simp
  next
    case (Some owner)
    then have "owner \<noteq> []" using "2.prems" by (auto dest: map_of_SomeD)
    then obtain c cs where owner: "owner = c # cs" by (cases owner) auto
    have "name \<in> fst ` set saved" using Some by (metis domI dom_map_of_conv_image_fst)
    then have "set (map fst ((name, src) # vs)) - fst ` set saved
        = set (map fst vs) - fst ` set ((name, src) # saved)" by auto
    moreover have "length (repeated_saves msg ((name, src) # saved) vs)
        + card (set (map fst vs) - fst ` set ((name, src) # saved)) = length vs"
      by (rule "2.IH"(3)) (use Some owner "2.prems" src in auto)
    ultimately show ?thesis using Some owner by simp
  qed
qed

lemma saved_entries_source: "v \<in> set (saved_entries sid es) \<Longrightarrow> vSourceStepId v = sid"
  by (cases es) auto

lemma step_variables_source: "v \<in> set (step_variables s) \<Longrightarrow> vSourceStepId v = sId s"
  by (auto simp: step_variables_def saved_entries_source split: step_config.splits)

text \<open>
  The compiler warns once for every save of a variable beyond the first one of that name.
\<close>

theorem warnings_count_repeated_saves:
  assumes "\<forall>s\<in>set steps. sId s \<noteq> []"
  shows "length (build_warnings lc steps)
      + card (vName ` set (collect_variables lc steps)) = length (collect_variables lc steps)"
proof -
  let ?vs = "map (\<lambda>v. (vName v, vSourceStepId v)) (collect_variables lc steps)"
  have "\<forall>(a, b)\<in>set ?vs. b \<noteq> []"
    using assms step_variables_source by (fastforce simp: collect_variables_def)
  from repeated_saves_length[OF this, of "[]" saved_by_both] show ?thesis
    by (simp add: build_warnings_def image_image)
qed

definition saving_step :: "string \<Rightarrow> string \<Rightarrow> exec_step" where
  "saving_step i v =
     \<lparr>sId = i, sVersion = ''setVariable/v1'', sName = i,
      sConfig = SetVariableConfig v None None None, sTimeoutMs = Fin 1,
      sRetryPolicy = default_retry_policy, sContinueOnFailure = False\<rparr>"

theorem warnings_count_repeated_saves_witness:
  "length (build_warnings code_unit_cmp
      [saving_step ''a'' ''x'', saving_step ''b'' ''x'', saving_step ''c'' ''y'']) = 1"
proof -
  let ?steps = "[saving_step ''a'' ''x'', saving_step ''b'' ''x'', saving_step ''c'' ''y'']"
  have "length (collect_variables code_unit_cmp ?steps) = 3"
    "vName ` set (collect_variables code_unit_cmp ?steps) = {''x'', ''y''}"
    by (auto simp: collect_variables_def step_variables_def saving_step_def)
  then show ?thesis
    using warnings_count_repeated_saves[of ?steps code_unit_cmp] by (simp add: saving_step_def)
qed

section \<open>Ids that differ only in white space\<close>

definition spaced_flow :: flow_suite where
  "spaced_flow = (sample_flow [])\<lparr>fNodes := Elements [get_node ''a'', get_node '' a'']\<rparr>"

text \<open>
  Uniqueness is checked on ids as they are, but steps carry the trimmed id: two nodes \<open>a\<close> and
  \<open> a\<close> are accepted and become two steps with the id \<open>a\<close>.
\<close>

theorem trimmed_ids_collide:
  "\<exists>r. compile_visual code_unit_cmp (\<lambda>_. []) (Some spaced_flow) no_options = Inr r
    \<and> map sId (pSteps (crPlan r)) = [''a'', ''a'']"
proof -
  have "(case compile_visual code_unit_cmp (\<lambda>_. []) (Some spaced_flow) no_options of
      Inr r \<Rightarrow> map sId (pSteps (crPlan r)) = [''a'', ''a''] | Inl e \<Rightarrow> False)"
    by code_simp
  then show ?thesis by (auto split: sum.splits)
qed

end
