(* ===== verification/Flow_Compiler.thy ===== *)
theory Flow_Compiler
  imports Plan_Props
begin

text \<open>
  \<open>flow-suite-compiler.service.ts\<close>, the first compiler of visual flows, from a flow straight to a
  YAML suite.  It allows branching, checks fewer things than the plan compiler, and its documents
  are read by the YAML adapter.
\<close>

section \<open>Validation\<close>

definition legacy_normalize_node :: "flow_node \<Rightarrow> flow_node" where
  "legacy_normalize_node n =
     (if \<not> truthy_str (nType n) then n\<lparr>nType := Some ''apiRequest''\<rparr> else n)"

definition legacy_validate_config :: "flow_node \<Rightarrow> js_error + unit" where
  "legacy_validate_config n =
     (if is_node_type ''wait'' n then
        (if is_positive (nDurationMs n) then Inr ()
         else bad (''Wait step \"'' @ node_name n @ ''\" needs a duration greater than 0 ms''))
      else if is_node_type ''pollUntil'' n then
        sbind (validate_request_node n) (\<lambda>_. validate_poll_times n)
      else if is_node_type ''setVariable'' n then
        (if blank (nVariableName n)
         then bad (''Set variable step \"'' @ node_name n @ ''\" needs a variable name'')
         else Inr ())
      else if is_node_type ''assert'' n then
        (if blank (nFieldPath n)
         then bad (''Assert step \"'' @ node_name n @ ''\" needs a response field path'')
         else Inr ())
      else validate_request_node n)"

fun legacy_validate_nodes :: "string list \<Rightarrow> flow_node list \<Rightarrow> js_error + unit" where
  "legacy_validate_nodes ids [] = Inr ()"
| "legacy_validate_nodes ids (raw # ns) =
     (let n = legacy_normalize_node raw in
      if blank (nId n) then bad ''Every flow step must have an id''
      else if node_id n \<in> set ids then bad (''Duplicate flow step id: '' @ node_id n)
      else if blank (nName n) then bad (''Step '' @ node_id n @ '' is missing a name'')
      else sbind (legacy_validate_config n) (\<lambda>_. legacy_validate_nodes (node_id n # ids) ns))"

definition validate_shape :: "flow_suite option \<Rightarrow> js_error + flow_suite \<times> flow_node list \<times> flow_edge list" where
  "validate_shape flow =
     (case flow of
        None \<Rightarrow> bad ''Flow definition is required''
      | Some f \<Rightarrow>
          if fVersion f \<noteq> Some ''1.0'' then bad ''Unsupported flow version''
          else if blank (fSuiteName f) then bad ''Suite name is required''
          else (case fNodes f of
              Elements (n # ns) \<Rightarrow>
                (case fEdges f of
                   Elements es \<Rightarrow>
                     sbind (legacy_validate_nodes [] (n # ns)) (\<lambda>_. Inr (f, n # ns, es))
                 | _ \<Rightarrow> bad ''Flow edges must be an array'')
            | _ \<Rightarrow> bad ''At least one API node is required''))"

definition legacy_sort_nodes :: "flow_node list \<Rightarrow> flow_edge list \<Rightarrow> js_error + flow_node list" where
  "legacy_sort_nodes ns es =
     (if \<not> list_all (edge_known ns) es
      then bad ''Flow contains an edge connected to a missing node''
      else (let ordered = topo_order None False node_id ns (map edge_pair es) in
            if length ordered \<noteq> length ns then bad ''Flow contains a cycle'' else Inr ordered))"

section \<open>The document\<close>

definition legacy_saves :: "flow_node \<Rightarrow> (string \<times> string) list" where
  "legacy_saves n =
     (if is_node_type ''wait'' n \<or> is_node_type ''assert'' n then []
      else if is_node_type ''setVariable'' n then [(text_of (nVariableName n), node_name n)]
      else map (\<lambda>k. (k, node_name n))
             (filter (\<lambda>k. k \<noteq> []) (map fst (case nSave n of None \<Rightarrow> [] | Some es \<Rightarrow> es))))"

definition legacy_warnings :: "flow_node list \<Rightarrow> string list" where
  "legacy_warnings ns = repeated_saves saved_by_both [] (concat (map legacy_saves ns))"

text \<open>\<open>cleanRecord\<close> drops missing and empty-string entries, but keeps empty arrays.\<close>

definition clean_record :: "json obj option \<Rightarrow> json option" where
  "clean_record o' = (case o' of None \<Rightarrow> None
     | Some es \<Rightarrow> map_option JObj (none_if_empty (filter (\<lambda>(k, v). v \<noteq> JStr []) es)))"

definition legacy_assertion :: "flow_assertion \<Rightarrow> json" where
  "legacy_assertion a = obj_of
     [(''field_path'', Some (JStr (trim (text_of (faFieldPath a))))), (''operator'', faOperator a),
      (''expected_value'', given_value (faExpectedValue a))]"

definition legacy_assertions :: "flow_assertion list \<Rightarrow> json option" where
  "legacy_assertions l = map_option JArr (none_if_empty
     (map legacy_assertion (filter (\<lambda>a. \<not> blank (faFieldPath a) \<and> has_operator a) l)))"

definition legacy_request :: "flow_node \<Rightarrow> json" where
  "legacy_request n = obj_of
     [(''method'', Some (JStr (to_upper (text_of (nMethod n))))),
      (''path'', Some (JStr (text_of (nPath n)))),
      (''headers'', clean_record (nHeaders n)), (''query'', clean_record (nQuery n)),
      (''json'', nJsonBody n),
      (''expect'', clean_record (Some (present
         [(''status'', coalesce (nExpectStatus n) (Some (JNum (Fin 200)))),
          (''json_contains'', nJsonContains n),
          (''assertions'', legacy_assertions (node_assertions n))]))),
      (''save'', clean_record (nSave n))]"

definition legacy_config :: "flow_node \<Rightarrow> string \<times> string \<times> json" where
  "legacy_config n =
     (if is_node_type ''wait'' n then
        (''wait'', ''wait'', obj_of [(''duration_ms'', map_option JNum (nDurationMs n))])
      else if is_node_type ''pollUntil'' n then
        (''pollUntil'', ''poll'', obj_of
          [(''request'', Some (legacy_request n)),
           (''timeout_seconds'', map_option JNum (nTimeoutSeconds n)),
           (''interval_seconds'', map_option JNum (nIntervalSeconds n)),
           (''failure_message'', map_option JStr (trimmed (nFailureMessage n)))])
      else if is_node_type ''setVariable'' n then
        (''setVariable'', ''set_variable'', obj_of
          [(''name'', map_option JStr (nVariableName n)), (''value'', nValue n),
           (''from_step_id'', map_option JStr (trimmed (nFromStepId n))),
           (''path'', map_option JStr (trimmed (nPath n)))])
      else if is_node_type ''assert'' n then
        (''assert'', ''assert'', obj_of
          [(''source_step_id'', map_option JStr (trimmed (nSourceStepId n))),
           (''field_path'', map_option JStr (nFieldPath n)), (''operator'', nOperator n),
           (''expected_value'', given_value (nExpectedValue n))])
      else (''apiRequest'', ''request'', legacy_request n))"

definition to_test_case :: "flow_node \<Rightarrow> json" where
  "to_test_case n = (case legacy_config n of (t, key, cfg) \<Rightarrow> obj_of
     [(''id'', map_option JStr (nId n)), (''type'', Some (JStr t)),
      (''name'', map_option JStr (nName n)), (key, Some cfg)])"

record flow_compile_result =
  fcYaml :: string
  fcTestsCount :: nat
  fcWarnings :: "string list"

definition compile_flow :: "(json \<Rightarrow> string) \<Rightarrow> flow_suite option \<Rightarrow> js_error + flow_compile_result" where
  "compile_flow yaml_dump flow =
     sbind (validate_shape flow) (\<lambda>(f, raw, es).
     sbind (legacy_sort_nodes (map legacy_normalize_node raw) es) (\<lambda>ordered.
     Inr \<lparr>fcYaml = yaml_dump (obj_of
            [(''suite'', Some (JStr (trim (text_of (fSuiteName f))))),
             (''tests'', Some (JArr (map to_test_case ordered)))]),
          fcTestsCount = length ordered, fcWarnings = legacy_warnings ordered\<rparr>))"

section \<open>Acceptance\<close>

lemma legacy_validate_nodes_ok:
  "legacy_validate_nodes ids ns = Inr u \<Longrightarrow>
   distinct (map node_id ns) \<and> set (map node_id ns) \<inter> set ids = {}
   \<and> (\<forall>n\<in>legacy_normalize_node ` set ns. \<not> blank (nId n) \<and> \<not> blank (nName n)
        \<and> legacy_validate_config n = Inr ())"
proof (induction ids ns rule: legacy_validate_nodes.induct)
  case (2 ids raw ns)
  have "node_id (legacy_normalize_node raw) = node_id raw"
    by (simp add: legacy_normalize_node_def node_id_def)
  with 2 show ?case by (auto simp: Let_def split: if_splits)
qed simp

lemma node_id_normalize [simp]: "node_id (legacy_normalize_node n) = node_id n"
  by (simp add: legacy_normalize_node_def node_id_def)

lemma validate_shape_ok:
  assumes "validate_shape flow = Inr (f, raw, es)"
  shows "flow = Some f" "fNodes f = Elements raw" "fEdges f = Elements es" "\<not> blank (fSuiteName f)"
    "distinct (map node_id (map legacy_normalize_node raw))"
    "\<And>n. n \<in> set (map legacy_normalize_node raw) \<Longrightarrow>
       \<not> blank (nId n) \<and> \<not> blank (nName n) \<and> legacy_validate_config n = Inr ()"
proof -
  from assms obtain n ns where f: "flow = Some f" "fNodes f = Elements (n # ns)"
    "fEdges f = Elements es" "\<not> blank (fSuiteName f)" "raw = n # ns"
    and v: "legacy_validate_nodes [] (n # ns) = Inr ()"
    unfolding validate_shape_def
    by (auto split: option.splits if_splits array_field.splits list.splits)
  then show "flow = Some f" "fNodes f = Elements raw" "fEdges f = Elements es"
    "\<not> blank (fSuiteName f)" by auto
  show "distinct (map node_id (map legacy_normalize_node raw))"
    using legacy_validate_nodes_ok[OF v] by (simp add: f(5) o_def)
  show "\<not> blank (nId m) \<and> \<not> blank (nName m) \<and> legacy_validate_config m = Inr ()"
    if "m \<in> set (map legacy_normalize_node raw)" for m
    using legacy_validate_nodes_ok[OF v] that unfolding f(5) by auto
qed

lemma legacy_sort_nodes_ok:
  assumes "distinct (map node_id ns)" "list_all (edge_known ns) es"
  shows "legacy_sort_nodes ns es = (if acyclic (set (map edge_pair es))
      then Inr (topo_order None False node_id ns (map edge_pair es))
      else bad ''Flow contains a cycle'')"
proof -
  have "\<forall>(a, b)\<in>set (map edge_pair es). a \<in> node_id ` set ns \<and> b \<in> node_id ` set ns"
    using assms(2) by (auto simp: list_all_iff edge_known_def edge_pair_def)
  from topo_order_complete_iff[OF assms(1) this, of None False] show ?thesis
    using assms(2) by (simp add: legacy_sort_nodes_def Let_def)
qed

lemma compile_flow_result:
  assumes "validate_shape flow = Inr (f, raw, es)"
  defines "ns \<equiv> map legacy_normalize_node raw"
  shows "compile_flow yaml_dump flow =
    (if \<not> list_all (edge_known ns) es
     then bad ''Flow contains an edge connected to a missing node''
     else if acyclic (set (map edge_pair es))
     then (let ordered = topo_order None False node_id ns (map edge_pair es) in
       Inr \<lparr>fcYaml = yaml_dump (obj_of
            [(''suite'', Some (JStr (trim (text_of (fSuiteName f))))),
             (''tests'', Some (JArr (map to_test_case ordered)))]),
          fcTestsCount = length ordered, fcWarnings = legacy_warnings ordered\<rparr>)
     else bad ''Flow contains a cycle'')"
proof (cases "list_all (edge_known ns) es")
  case True
  show ?thesis
    using legacy_sort_nodes_ok[OF validate_shape_ok(5)[OF assms(1)]] True
    by (simp add: compile_flow_def assms(1) ns_def Let_def bad_def)
next
  case False
  then show ?thesis
    by (simp add: compile_flow_def assms(1) ns_def legacy_sort_nodes_def bad_def)
qed

section \<open>Agreement with the plan compiler\<close>

lemma get_plain_obj:
  "distinct (map fst es) \<Longrightarrow> json_get (obj_of es) k = Option.bind (map_of es k) id"
  by (simp add: obj_of_def map_of_present)

lemma opt_prop_plain_obj:
  "distinct (map fst es) \<Longrightarrow> opt_prop (Some (obj_of es)) k = Option.bind (map_of es k) id"
  by (simp add: opt_prop_def get_plain_obj)

lemma prop_of_plain_obj:
  "distinct (map fst es) \<Longrightarrow> prop_of (Some (obj_of es)) k = Inr (Option.bind (map_of es k) id)"
  using get_plain_obj[of es k] by (simp add: prop_of_def obj_of_def)

lemma clean_value_record: "clean_value (clean_record v) = clean_jsons v"
proof (cases v)
  case None
  then show ?thesis by (simp add: clean_record_def clean_jsons_def clean_value_def)
next
  case (Some es)
  let ?f = "filter (\<lambda>(k, j). j \<noteq> JStr []) es"
  have f: "filter (\<lambda>(k, j). kept_json j) ?f = filter (\<lambda>(k, j). kept_json j) es"
    by (induction es) (auto simp: kept_json_def)
  show ?thesis
  proof (cases "?f = []")
    case True
    with f have "filter (\<lambda>(k, j). kept_json j) es = []" by simp
    with True show ?thesis
      by (simp add: Some clean_record_def clean_jsons_def clean_value_def none_if_empty_def)
  next
    case False
    then have "clean_value (clean_record v) = none_if_empty (filter (\<lambda>(k, j). kept_json j) ?f)"
      by (simp add: Some clean_record_def clean_jsons_def clean_value_def none_if_empty_def
          del: filter_filter)
    then show ?thesis unfolding f by (simp add: Some clean_jsons_def)
  qed
qed

lemma opt_trim_text: "\<not> blank v \<Longrightarrow> opt_trim (map_option JStr v) = Inr (Some (trim (text_of v)))"
  by (auto simp: opt_trim_def text_of_def blank_def split: option.splits)

lemma opt_trim_trimmed: "opt_trim (map_option JStr (trimmed v)) = Inr (trimmed v)"
  by (auto simp: opt_trim_def trimmed_def split: option.splits)

lemma trimmed_truthy: "(if truthy_str (trimmed v) then trimmed v else None) = trimmed v"
  by (auto simp: trimmed_def split: option.splits)

lemma legacy_assertion_read:
  assumes "\<not> blank (faFieldPath a)" "has_operator a"
  shows "assertion_kept (legacy_assertion a) = Inr True"
    and "raw_assertion (legacy_assertion a) = Inr (to_assertion a)"
proof -
  let ?es = "[(''field_path'', Some (JStr (trim (text_of (faFieldPath a))))),
     (''operator'', faOperator a), (''expected_value'', given_value (faExpectedValue a))]"
  have d: "distinct (map fst ?es)" by simp
  obtain op where op: "faOperator a = Some op" "json_truthy op"
    using assms(2) by (auto simp: has_operator_def split: option.splits)
  have t: "opt_trim (Some (JStr (trim (text_of (faFieldPath a)))))
      = Inr (Some (trim (text_of (faFieldPath a))))"
    using clean_text_trim[OF assms(1)] by (rule opt_trim_clean)
  show "assertion_kept (legacy_assertion a) = Inr True"
    unfolding assertion_kept_def legacy_assertion_def prop_of_plain_obj[OF d] get_plain_obj[OF d]
    using op t clean_text_trim[OF assms(1)] by (simp add: clean_text_def)
  show "raw_assertion (legacy_assertion a) = Inr (to_assertion a)"
    unfolding raw_assertion_def legacy_assertion_def prop_of_plain_obj[OF d] get_plain_obj[OF d]
    using op t by (simp add: to_assertion_def)
qed

lemma legacy_assertions_read: "raw_assertions (legacy_assertions l) = Inr (to_assertions l)"
proof -
  let ?l = "filter (\<lambda>a. \<not> blank (faFieldPath a) \<and> has_operator a) l"
  have "filter_sum assertion_kept (map legacy_assertion ?l) = Inr (map legacy_assertion ?l)"
    by (rule filter_sum_all) (auto simp: legacy_assertion_read)
  moreover have "traverse raw_assertion (map legacy_assertion ?l) = Inr (map to_assertion ?l)"
    by (induction l) (auto simp: legacy_assertion_read)
  ultimately show ?thesis
    by (auto simp: legacy_assertions_def to_assertions_def raw_assertions_def nullish_def
        none_if_empty_def)
qed

lemma legacy_expectation_read:
  assumes "typed_node n"
  shows "raw_expectation (clean_record (Some (present
         [(''status'', coalesce (nExpectStatus n) (Some (JNum (Fin 200)))),
          (''json_contains'', nJsonContains n),
          (''assertions'', legacy_assertions (node_assertions n))]))) = Inr (to_expectation n)"
proof -
  obtain st where st: "coalesce (nExpectStatus n) (Some (JNum (Fin 200))) = Some (JNum st)"
    using assms by (auto simp: typed_node_def coalesce_def nullish_def as_num_def
        split: option.splits json.splits)
  let ?es = "[(''status'', Some (JNum st)), (''json_contains'', given_value (nJsonContains n)),
      (''assertions'', legacy_assertions (node_assertions n))]"
  have "legacy_assertions (node_assertions n) \<noteq> Some (JStr [])"
    by (auto simp: legacy_assertions_def none_if_empty_def)
  then have "filter (\<lambda>(k, v). v \<noteq> JStr []) (present
         [(''status'', Some (JNum st)), (''json_contains'', nJsonContains n),
          (''assertions'', legacy_assertions (node_assertions n))]) = present ?es"
    by (cases "nJsonContains n"; cases "legacy_assertions (node_assertions n)")
       (auto simp: given_value_def)
  then have r: "clean_record (Some (present
         [(''status'', Some (JNum st)), (''json_contains'', nJsonContains n),
          (''assertions'', legacy_assertions (node_assertions n))])) = Some (obj_of ?es)"
    by (simp add: clean_record_def none_if_empty_def obj_of_def)
  have d: "distinct (map fst ?es)" by simp
  have "clean_json (given_value (nJsonContains n)) = clean_json (nJsonContains n)"
    by (auto simp: clean_json_def given_value_def kept_json_def split: option.splits)
  moreover have "to_expectation n = (let contains = clean_json (nJsonContains n);
      asserts = to_assertions (node_assertions n)
      in Some \<lparr>xpStatus = Some (JNum st), xpJsonContains = contains, xpAssertions = asserts\<rparr>)"
    unfolding to_expectation_def st by (simp add: Let_def)
  ultimately show ?thesis
    unfolding st r raw_expectation_def opt_prop_plain_obj[OF d]
    by (simp add: legacy_assertions_read coalesce_def nullish_def Let_def)
qed

lemma legacy_request_read:
  assumes "typed_node n" "validate_request_node n = Inr ()"
  shows "raw_request (Some (legacy_request n)) name = Inr (to_request_config n)"
proof -
  let ?es = "[(''method'', Some (JStr (to_upper (text_of (nMethod n))))),
      (''path'', Some (JStr (text_of (nPath n)))),
      (''headers'', clean_record (nHeaders n)), (''query'', clean_record (nQuery n)),
      (''json'', nJsonBody n),
      (''expect'', clean_record (Some (present
         [(''status'', coalesce (nExpectStatus n) (Some (JNum (Fin 200)))),
          (''json_contains'', nJsonContains n),
          (''assertions'', legacy_assertions (node_assertions n))]))),
      (''save'', clean_record (nSave n))]"
  have d: "distinct (map fst ?es)" by simp
  have req: "\<not> blank (nMethod n)" "\<not> blank (nPath n)"
    using assms(2) by (auto simp: validate_request_node_def split: if_splits)
  have m: "opt_trim (Some (JStr (to_upper (text_of (nMethod n)))))
      = Inr (Some (to_upper (trim (text_of (nMethod n)))))"
    by (simp add: opt_trim_def trim_to_upper)
  have p: "opt_trim (Some (JStr (text_of (nPath n)))) = Inr (Some (trim (text_of (nPath n))))"
    by (simp add: opt_trim_def)
  have ne: "trim (text_of (nMethod n)) \<noteq> []" "trim (text_of (nPath n)) \<noteq> []"
    using clean_text_trim req by (auto simp: clean_text_def)
  show ?thesis
    unfolding raw_request_def legacy_request_def opt_prop_plain_obj[OF d]
    using m p ne by (simp add: legacy_expectation_read[OF assms(1)] clean_value_record
        to_request_config_def)
qed

lemma legacy_config_read:
  assumes "typed_node n" "legacy_validate_config n = Inr ()"
    and d: "json_get j (fst (snd (legacy_config n))) = Some (snd (snd (legacy_config n)))"
    and ty: "json_get j ''type'' = Some (JStr (fst (legacy_config n)))" and obj: "is_object j"
    and other: "\<And>k. k \<in> {''wait'', ''poll'', ''set_variable'', ''assert'', ''request''}
      \<Longrightarrow> k \<noteq> fst (snd (legacy_config n)) \<Longrightarrow> json_get j k = None"
  shows "raw_config j name = Inr (to_step_config n)"
proof -
  consider (wait) "is_node_type ''wait'' n" | (poll) "is_node_type ''pollUntil'' n"
    | (var) "is_node_type ''setVariable'' n" | (asrt) "is_node_type ''assert'' n"
    | (req) "\<not> is_node_type ''wait'' n" "\<not> is_node_type ''pollUntil'' n"
        "\<not> is_node_type ''setVariable'' n" "\<not> is_node_type ''assert'' n" by blast
  then show ?thesis
  proof cases
    case wait
    then obtain dur where dur: "nDurationMs n = Some dur" "num_pos dur"
      using assms(2) by (auto simp: legacy_validate_config_def is_positive_def split: if_splits option.splits)
    with wait d obj show ?thesis
      by (simp add: raw_config_def has_key_def legacy_config_def raw_wait_def prop_of_plain_obj
          to_step_config_def as_num_def)
  next
    case poll
    then have v: "validate_request_node n = Inr ()" "validate_poll_times n = Inr ()"
      using assms(2) by (auto simp: legacy_validate_config_def is_node_type_def split: if_splits)
    from v(2) obtain t i where ti: "nTimeoutSeconds n = Some t" "nIntervalSeconds n = Some i"
      "num_pos t" "num_pos i" "\<not> num_less t i"
      by (auto simp: validate_poll_times_def is_positive_def split: if_splits option.splits)
    then have less: "\<not> num_less (num_scale 1000 t) (num_scale 1000 i)"
      by (auto simp: num_pos_iff)
    have get: "json_get j ''wait'' = None" "json_get j ''poll'' = Some (obj_of
          [(''request'', Some (legacy_request n)), (''timeout_seconds'', Some (JNum t)),
           (''interval_seconds'', Some (JNum i)),
           (''failure_message'', map_option JStr (trimmed (nFailureMessage n)))])"
      using other[of "''wait''"] d poll ti by (simp_all add: legacy_config_def is_node_type_def)
    show ?thesis
      using obj poll ti less legacy_request_read[OF assms(1) v(1), of name]
      by (simp add: raw_config_def has_key_def get raw_poll_def prop_of_plain_obj opt_prop_plain_obj
          millis_or_seconds_def coalesce_def nullish_def as_num_def positive_number_id num_scale_pos
          to_step_config_def is_node_type_def seconds_to_ms_def opt_trim_trimmed trimmed_truthy Let_def)
  next
    case var
    then have nb: "\<not> blank (nVariableName n)"
      using assms(2) by (auto simp: legacy_validate_config_def is_node_type_def split: if_splits)
    have get: "json_get j ''wait'' = None" "json_get j ''poll'' = None"
      "json_get j ''type'' = Some (JStr ''setVariable'')"
      "json_get j ''set_variable'' = Some (obj_of
          [(''name'', map_option JStr (nVariableName n)), (''value'', nValue n),
           (''from_step_id'', map_option JStr (trimmed (nFromStepId n))),
           (''path'', map_option JStr (trimmed (nPath n)))])"
      using other[of "''wait''"] other[of "''poll''"] d ty var
      by (simp_all add: legacy_config_def is_node_type_def)
    show ?thesis
      using obj var opt_trim_text[OF nb] clean_text_trim[OF nb]
      by (simp add: raw_config_def has_key_def get raw_set_variable_def prop_of_plain_obj
          opt_prop_plain_obj to_step_config_def is_node_type_def opt_trim_trimmed trimmed_truthy
          clean_text_def)
  next
    case asrt
    then have nb: "\<not> blank (nFieldPath n)"
      using assms(2) by (auto simp: legacy_validate_config_def is_node_type_def split: if_splits)
    have get: "json_get j ''wait'' = None" "json_get j ''poll'' = None"
      "json_get j ''type'' = Some (JStr ''assert'')"
      "json_get j ''assert'' = Some (obj_of
          [(''source_step_id'', map_option JStr (trimmed (nSourceStepId n))),
           (''field_path'', map_option JStr (nFieldPath n)), (''operator'', nOperator n),
           (''expected_value'', given_value (nExpectedValue n))])"
      using other[of "''wait''"] other[of "''poll''"] d ty asrt
      by (simp_all add: legacy_config_def is_node_type_def)
    show ?thesis
      using obj asrt opt_trim_text[OF nb] clean_text_trim[OF nb]
      by (simp add: raw_config_def has_key_def get raw_assert_def prop_of_plain_obj
          opt_prop_plain_obj to_step_config_def is_node_type_def opt_trim_trimmed trimmed_truthy
          clean_text_def)
  next
    case req
    then have v: "validate_request_node n = Inr ()"
      using assms(2) by (auto simp: legacy_validate_config_def)
    have get: "json_get j ''wait'' = None" "json_get j ''poll'' = None"
      "json_get j ''type'' = Some (JStr ''apiRequest'')"
      "json_get j ''request'' = Some (legacy_request n)"
      using other[of "''wait''"] other[of "''poll''"] d ty req by (simp_all add: legacy_config_def)
    show ?thesis
      using obj req legacy_request_read[OF assms(1) v, of name]
      by (simp add: raw_config_def has_key_def get to_step_config_def)
  qed
qed

text \<open>
  C10: Both compilers give a node the same meaning: the test case the first compiler writes for a
  node it accepts is read by the YAML adapter as a step with the id, the name and the
  configuration the plan compiler computes for that node.
\<close>

theorem compilers_agree_on_nodes:
  assumes "typed_node n" "legacy_validate_config n = Inr ()" "\<not> blank (nId n)" "\<not> blank (nName n)"
  shows "\<exists>s. raw_step (to_test_case n) i = Inr s \<and> sConfig s = to_step_config n
    \<and> sId s = trim (sId (to_execution_step n)) \<and> sName s = sName (to_execution_step n)"
proof -
  obtain t key cfg where c: "legacy_config n = (t, key, cfg)" by (cases "legacy_config n") auto
  let ?es = "[(''id'', map_option JStr (nId n)), (''type'', Some (JStr t)),
      (''name'', map_option JStr (nName n)), (key, Some cfg)]"
  have key: "key \<in> {''wait'', ''poll'', ''set_variable'', ''assert'', ''request''}"
    using c by (auto simp: legacy_config_def split: if_splits)
  then have d: "distinct (map fst ?es)" by auto
  have tc: "to_test_case n = obj_of ?es" by (simp add: to_test_case_def c)
  note get = get_plain_obj[OF d]
  have gets: "json_get (obj_of ?es) ''type'' = Some (JStr t)"
    "json_get (obj_of ?es) ''name'' = map_option JStr (nName n)"
    "json_get (obj_of ?es) key = Some cfg"
    unfolding get using key by auto
  have oth: "json_get (obj_of ?es) k = None"
    if "k \<in> {''wait'', ''poll'', ''set_variable'', ''assert'', ''request''}" "k \<noteq> key" for k
    unfolding get using that by auto
  have name: "opt_trim (json_get (obj_of ?es) ''name'') = Inr (Some (sName (to_execution_step n)))"
    using opt_trim_text[OF assms(4)] by (simp add: gets to_execution_step_def Let_def)
  have "sName (to_execution_step n) \<noteq> []"
    using clean_text_trim[OF assms(4)] by (simp add: to_execution_step_def Let_def)
  moreover have "stable_step_id (obj_of ?es) i = Inr (trim (sId (to_execution_step n)))"
    unfolding stable_step_id_def prop_of_plain_obj[OF d]
    using opt_trim_text[OF assms(3)] clean_text_trim[OF assms(3)]
    by (auto simp: to_execution_step_def Let_def node_id_def text_of_def split: option.splits list.splits)
  moreover have "raw_config (obj_of ?es) nm = Inr (to_step_config n)" for nm
    by (rule legacy_config_read[OF assms(1,2)])
       (use gets oth in \<open>simp_all add: c obj_of_def del: map_of.simps json_get.simps present.simps\<close>)
  ultimately show ?thesis
    unfolding tc raw_step_def using name by (simp add: Let_def)
qed

theorem compilers_agree_on_nodes_witness:
  "\<exists>s. raw_step (to_test_case (get_node ''login'')) 0 = Inr s
    \<and> sConfig s = to_step_config (get_node ''login'') \<and> sId s = ''login''"
proof -
  have "legacy_validate_config (get_node ''login'') = Inr ()" by code_simp
  moreover have "trim ''login'' = ''login''" "trim (''Step '' @ ''login'') \<noteq> []" by code_simp+
  ultimately show ?thesis
    using compilers_agree_on_nodes[of "get_node ''login''" 0]
    by (auto simp: typed_node_def get_node_def blank_node_def to_execution_step_def Let_def node_id_def)
qed

text \<open>
  The first compiler accepts a well-formed flow exactly when its edges join existing nodes and
  have no cycle (it lets a node have several edges), and it writes every node of the flow once.
\<close>

theorem compile_flow_outcomes:
  assumes "validate_shape flow = Inr (f, raw, es)"
  defines "ns \<equiv> map legacy_normalize_node raw"
  shows "if list_all (edge_known ns) es
    then (if acyclic (set (map edge_pair es))
          then \<exists>ordered. mset ordered = mset ns
            \<and> compile_flow yaml_dump flow = Inr \<lparr>fcYaml = yaml_dump (obj_of
                  [(''suite'', Some (JStr (trim (text_of (fSuiteName f))))),
                   (''tests'', Some (JArr (map to_test_case ordered)))]),
                fcTestsCount = length raw, fcWarnings = legacy_warnings ordered\<rparr>
            \<and> (\<forall>e\<in>set es. before_in (map node_id ordered) (eSource e) (eTarget e))
          else compile_flow yaml_dump flow = Inl (BadRequestException ''Flow contains a cycle''))
    else compile_flow yaml_dump flow
      = Inl (BadRequestException ''Flow contains an edge connected to a missing node'')"
proof (cases "list_all (edge_known ns) es \<and> acyclic (set (map edge_pair es))")
  case False
  then show ?thesis
    by (auto simp: compile_flow_result[OF assms(1)] ns_def bad_def)
next
  case True
  let ?o = "topo_order None False node_id ns (map edge_pair es)"
  have d: "distinct (map node_id ns)"
    unfolding ns_def by (rule validate_shape_ok(5)[OF assms(1)])
  have e: "\<forall>(a, b)\<in>set (map edge_pair es). a \<in> node_id ` set ns \<and> b \<in> node_id ` set ns"
    using True by (auto simp: list_all_iff edge_known_def edge_pair_def)
  note full = topo_order_full[OF d e, where cmp = None and ord = False]
  have ms: "mset ?o = mset ns" using full(1) True by blast
  then have "length ?o = length raw" by (metis length_map mset_eq_length ns_def)
  moreover have "before_in (map node_id ?o) (eSource e) (eTarget e)" if "e \<in> set es" for e
    by (rule full(2)) (use that True in \<open>auto simp: edge_pair_def\<close>)
  ultimately show ?thesis
    using True ms by (auto simp: compile_flow_result[OF assms(1)] ns_def Let_def intro!: exI[of _ ?o])
qed

theorem compile_flow_outcomes_witness:
  "compile_flow (\<lambda>_. []) (Some (sample_flow [\<lparr>eId = ''e1'', eSource = ''login'', eTarget = ''you''\<rparr>]))
   = Inl (BadRequestException ''Flow contains an edge connected to a missing node'')"
proof -
  let ?f = "sample_flow [\<lparr>eId = ''e1'', eSource = ''login'', eTarget = ''you''\<rparr>]"
  have "(case validate_shape (Some ?f) of Inl e \<Rightarrow> False
      | Inr (f, raw, es) \<Rightarrow> \<not> list_all (edge_known (map legacy_normalize_node raw)) es)"
    by code_simp
  then obtain f raw es where "validate_shape (Some ?f) = Inr (f, raw, es)"
    "\<not> list_all (edge_known (map legacy_normalize_node raw)) es"
    by (auto split: sum.splits)
  then show ?thesis
    using compile_flow_outcomes[of "Some ?f" f raw es "\<lambda>_. []"] by auto
qed

end
