(* ===== verification/Assertions.thy ===== *)
theory Assertions
  imports Flow_Types
begin

text \<open>
  \<open>assertion-engine.service.ts\<close>: structural containment of an expected body, reads of a response by a
  \<open>$.\<close> path, and the evaluation of field assertions.
\<close>

section \<open>Containment\<close>

text \<open>
  \<open>contains\<close> recurses over the expected value; \<open>contains_items\<close> is the \<open>every\<close> over an expected array
  (an index the actual array does not have reads \<open>undefined\<close>), \<open>contains_entries\<close> the one over the
  entries of an expected object.
\<close>

fun contains :: "json option \<Rightarrow> json \<Rightarrow> bool"
  and contains_items :: "json list \<Rightarrow> json list \<Rightarrow> bool"
  and contains_entries :: "json \<Rightarrow> (string \<times> json) list \<Rightarrow> bool" where
  "contains actual (JArr es) = (case actual of Some (JArr xs) \<Rightarrow> contains_items xs es | _ \<Rightarrow> False)"
| "contains actual (JObj es) =
     (case actual of None \<Rightarrow> False | Some a \<Rightarrow> is_object a \<and> contains_entries a es)"
| "contains actual JNull = (actual = Some JNull)"
| "contains actual (JBool b) = (actual = Some (JBool b))"
| "contains actual (JNum n) = (case actual of Some (JNum m) \<Rightarrow> num_eq m n | _ \<Rightarrow> False)"
| "contains actual (JStr s) = (actual = Some (JStr s))"
| "contains_items xs [] = True"
| "contains_items [] (e # es) = (contains None e \<and> contains_items [] es)"
| "contains_items (x # xs) (e # es) = (contains (Some x) e \<and> contains_items xs es)"
| "contains_entries a [] = True"
| "contains_entries a ((k, v) # es) = (contains (json_get a k) v \<and> contains_entries a es)"

definition contains_expected :: "json option \<Rightarrow> json option \<Rightarrow> bool" where
  "contains_expected actual expected =
     (case expected of None \<Rightarrow> True | Some e \<Rightarrow> contains actual e)"

section \<open>Paths\<close>

definition path_step :: "json option \<Rightarrow> string \<Rightarrow> json option" where
  "path_step current key =
     (case current of None \<Rightarrow> None | Some j \<Rightarrow> if is_object j then json_get j key else None)"

definition read_json_value :: "json option \<Rightarrow> string \<Rightarrow> json option" where
  "read_json_value payload path =
     (if \<not> starts_with path ''$.'' then None
      else foldl path_step payload (split_char (CHR ''.'') (drop 2 path)))"

definition read_json_path :: "json option \<Rightarrow> string \<Rightarrow> string option" where
  "read_json_path payload path =
     (case read_json_value payload path of
        None \<Rightarrow> None
      | Some v \<Rightarrow> if v = JNull then None else Some (json_string v))"

section \<open>Field assertions\<close>

record yaml_assertion =
  yaFieldPath :: string
  yaOperator :: "json option"
  yaExpectedValue :: "json option"

record evaluation =
  evFieldPath :: string
  evOperator :: "json option"
  evExpected :: "json option"
  evActual :: "json option"
  evPassed :: bool
  evMessage :: "string option"

definition option_string :: "json option \<Rightarrow> string" where
  "option_string v = (case v of None \<Rightarrow> ''undefined'' | Some j \<Rightarrow> json_string j)"

definition evaluate_assertion :: "json option \<Rightarrow> yaml_assertion \<Rightarrow> bool \<times> string option" where
  "evaluate_assertion payload a =
     (let actual = read_json_value payload (yaFieldPath a);
          missing = (False, Some (''Response field '' @ yaFieldPath a @ '' does not exist''));
          expected = the (coalesce (yaExpectedValue a) (Some (JStr [])))
      in if yaOperator a = Some (JStr ''exists'')
         then (if actual = None then missing else (True, None))
         else (case actual of
             None \<Rightarrow> missing
           | Some v \<Rightarrow>
               if yaOperator a = Some (JStr ''equals'') then
                 (if strict_eq (JStr (json_string v)) expected then (True, None)
                  else (False, Some (''Expected '' @ yaFieldPath a @ '' to equal \"''
                    @ json_string expected @ ''\", got \"'' @ json_string v @ ''\"'')))
               else if yaOperator a = Some (JStr ''contains'') then
                 (if str_includes (json_string v) (json_string expected) then (True, None)
                  else (False, Some (''Expected '' @ yaFieldPath a @ '' to contain \"''
                    @ json_string expected @ ''\", got \"'' @ json_string v @ ''\"'')))
               else (False, Some (''Unsupported assertion operator \"''
                 @ option_string (yaOperator a) @ ''\"''))))"

definition evaluate_all_assertions :: "json option \<Rightarrow> yaml_assertion list \<Rightarrow> evaluation list" where
  "evaluate_all_assertions payload as' =
     map (\<lambda>a. case evaluate_assertion payload a of (passed, message) \<Rightarrow>
        \<lparr>evFieldPath = yaFieldPath a, evOperator = yaOperator a, evExpected = yaExpectedValue a,
         evActual = read_json_value payload (yaFieldPath a), evPassed = passed, evMessage = message\<rparr>) as'"

definition evaluate_assertions :: "json option \<Rightarrow> yaml_assertion list \<Rightarrow> bool \<times> string option" where
  "evaluate_assertions payload as' =
     (case find (\<lambda>e. \<not> evPassed e) (evaluate_all_assertions payload as') of
        Some failed \<Rightarrow> (False, evMessage failed)
      | None \<Rightarrow> (True, None))"

section \<open>Properties\<close>

text \<open>A failed assertion always has a message, and a passed one never has.\<close>

lemma evaluate_assertion_message:
  "evaluate_assertion payload a = (passed, message) \<Longrightarrow> passed \<longleftrightarrow> message = None"
  by (auto simp: evaluate_assertion_def Let_def split: if_splits option.splits)

text \<open>
  Field assertions pass together exactly when each passes on its own, and a failure is reported
  with a message, that of the first assertion in the list that fails.
\<close>

theorem assertions_report_first_failure:
  "case evaluate_assertions payload as' of
     (passed, message) \<Rightarrow>
       passed = list_all (\<lambda>a. fst (evaluate_assertion payload a)) as'
       \<and> (if passed then message = None
          else (\<exists>before a after. as' = before @ a # after
            \<and> list_all (\<lambda>b. fst (evaluate_assertion payload b)) before
            \<and> \<not> fst (evaluate_assertion payload a)
            \<and> message = snd (evaluate_assertion payload a) \<and> message \<noteq> None))"
proof (induction as')
  case Nil
  then show ?case by (simp add: evaluate_assertions_def evaluate_all_assertions_def)
next
  case (Cons a as')
  obtain p m where a: "evaluate_assertion payload a = (p, m)" by force
  show ?case
  proof (cases p)
    case True
    then have step: "evaluate_assertions payload (a # as') = evaluate_assertions payload as'"
      by (simp add: evaluate_assertions_def evaluate_all_assertions_def a)
    obtain q n where r: "evaluate_assertions payload as' = (q, n)" by force
    show ?thesis
    proof (cases q)
      case True
      with Cons r step a \<open>p\<close> show ?thesis by simp
    next
      case False
      with Cons r obtain before b after where b: "as' = before @ b # after"
        "list_all (\<lambda>x. fst (evaluate_assertion payload x)) before" "\<not> fst (evaluate_assertion payload b)"
        "n = snd (evaluate_assertion payload b)" "n \<noteq> None" by auto
      have "\<exists>before b after. a # as' = before @ b # after
          \<and> (list_all (\<lambda>x. fst (evaluate_assertion payload x)) before)
          \<and> \<not> fst (evaluate_assertion payload b)
          \<and> n = snd (evaluate_assertion payload b) \<and> n \<noteq> None"
        using b a \<open>p\<close> by (intro exI[of _ "a # before"] exI[of _ b] exI[of _ after]) simp
      moreover have "\<not> list_all (\<lambda>x. fst (evaluate_assertion payload x)) (a # as')" using b by auto
      ultimately show ?thesis using False r step by simp
    qed
  next
    case False
    then have step: "evaluate_assertions payload (a # as') = (False, m)"
      by (simp add: evaluate_assertions_def evaluate_all_assertions_def a)
    have "\<exists>before b after. a # as' = before @ b # after
          \<and> (list_all (\<lambda>x. fst (evaluate_assertion payload x)) before)
          \<and> \<not> fst (evaluate_assertion payload b)
          \<and> m = snd (evaluate_assertion payload b) \<and> m \<noteq> None"
      using a False evaluate_assertion_message[OF a]
      by (intro exI[of _ "[]"] exI[of _ a] exI[of _ as']) simp
    then show ?thesis using step a False by simp
  qed
qed

text \<open>Bodies as \<open>JSON.parse\<close> returns them: finite numbers, one entry per key.\<close>

fun parsed_json :: "json \<Rightarrow> bool" where
  "parsed_json (JNum n) = num_finite n"
| "parsed_json (JArr xs) = list_all parsed_json xs"
| "parsed_json (JObj es) = (distinct (map fst es) \<and> list_all (\<lambda>e. parsed_json (snd e)) es)"
| "parsed_json _ = True"

lemma contains_entries_lookup:
  "contains_entries a es \<longleftrightarrow> (\<forall>(k, v)\<in>set es. contains (json_get a k) v)"
  by (induction es) auto

lemma contains_self: "parsed_json j \<Longrightarrow> contains (Some j) j"
proof (induction j)
  case (JNum n)
  then show ?case by (cases n) auto
next
  case (JArr xs)
  have "contains_items xs xs"
    using JArr by (induction xs) auto
  then show ?case by simp
next
  case (JObj es)
  have "contains (map_of es k) v" if "(k, v) \<in> set es" for k v
  proof -
    have "map_of es k = Some v" using JObj.prems that by simp
    moreover have "parsed_json v" using JObj.prems that by (auto simp: list_all_iff)
    ultimately show ?thesis using JObj.IH[of "(k, v)" v] that by auto
  qed
  then show ?case by (auto simp: contains_entries_lookup)
qed auto

text \<open>
  A response that equals the expected body contains it, and goes on containing it when the
  response gains fields with new names.
\<close>

theorem contains_extended_response:
  assumes "parsed_json (JObj es)" and "fst ` set extra \<inter> fst ` set es = {}"
  shows "contains (Some (JObj (extra @ es))) (JObj es)"
proof -
  have "contains (map_of (extra @ es) k) v" if "(k, v) \<in> set es" for k v
  proof -
    have "map_of es k = Some v" using assms(1) that by simp
    moreover have "map_of extra k = None"
      using assms(2) that by (force simp: map_of_eq_None_iff)
    moreover have "parsed_json v" using assms(1) that by (auto simp: list_all_iff)
    ultimately show ?thesis using contains_self by (simp add: map_add_def)
  qed
  then show ?thesis by (auto simp: contains_entries_lookup)
qed

theorem contains_extended_response_witness:
  "contains (Some (JObj ([(''trace'', JNull)] @ [(''user'', JArr [JNum (Fin 1)])])))
     (JObj [(''user'', JArr [JNum (Fin 1)])])"
  by (rule contains_extended_response) simp_all

end
