(* ===== verification/Regex.thy ===== *)
theory Regex
  imports Json
begin

text \<open>
  JavaScript regular expressions as the services use them: a backtracking matcher in continuation
  style (greedy repetition, ordered alternatives, numbered groups, word boundaries), with \<open>test\<close>,
  the first match and global replacement.
\<close>

datatype rx =
    Eps
  | Ch "char \<Rightarrow> bool"
  | Seq rx rx
  | Alt rx rx
  | Star rx
  | Group nat rx
  | Bound
  | AtStart
  | AtEnd

text \<open>A position: the character before it, the rest of the input, the groups captured so far.\<close>

type_synonym rx_state = "char option \<times> string \<times> (nat \<times> string) list"

definition is_word :: "char \<Rightarrow> bool" where
  "is_word c = (let n = (of_char c :: nat) in
     (48 \<le> n \<and> n \<le> 57) \<or> (65 \<le> n \<and> n \<le> 90) \<or> (97 \<le> n \<and> n \<le> 122) \<or> n = 95)"

definition word_before :: "rx_state \<Rightarrow> bool" where
  "word_before st = (case fst st of None \<Rightarrow> False | Some c \<Rightarrow> is_word c)"

definition word_after :: "rx_state \<Rightarrow> bool" where
  "word_after st = (case fst (snd st) of [] \<Rightarrow> False | c # s \<Rightarrow> is_word c)"

definition rest_of :: "rx_state \<Rightarrow> string" where
  "rest_of st = fst (snd st)"

fun or_else :: "'r option \<Rightarrow> 'r option \<Rightarrow> 'r option" where
  "or_else None b = b"
| "or_else (Some a) b = Some a"

primrec run :: "rx \<Rightarrow> (rx_state \<Rightarrow> rx_state option) \<Rightarrow> rx_state \<Rightarrow> rx_state option" where
  "run Eps k st = k st"
| "run (Ch p) k st =
     (case st of (prev, c # s, caps) \<Rightarrow> if p c then k (Some c, s, caps) else None | _ \<Rightarrow> None)"
| "run (Seq a b) k st = run a (run b k) st"
| "run (Alt a b) k st = or_else (run a k st) (run b k st)"
| "run (Star a) k st =
     rec_nat k
       (\<lambda>n loop s0. or_else
          (run a (\<lambda>s1. if length (rest_of s1) < length (rest_of s0) then loop s1 else None) s0)
          (k s0))
       (Suc (length (rest_of st))) st"
| "run (Group i a) k st =
     run a (\<lambda>(prev, s, caps).
       k (prev, s, (i, take (length (rest_of st) - length s) (rest_of st)) # caps)) st"
| "run Bound k st = (if word_before st \<noteq> word_after st then k st else None)"
| "run AtStart k st = (if fst st = None then k st else None)"
| "run AtEnd k st = (if rest_of st = [] then k st else None)"

section \<open>Derived patterns\<close>

definition Plus :: "rx \<Rightarrow> rx" where
  "Plus a = Seq a (Star a)"

definition Opt :: "rx \<Rightarrow> rx" where
  "Opt a = Alt a Eps"

definition lit :: "string \<Rightarrow> rx" where
  "lit s = foldr (\<lambda>c r. Seq (Ch (\<lambda>d. d = c)) r) s Eps"

text \<open>A literal under the flag \<open>i\<close>.\<close>

definition ilit :: "string \<Rightarrow> rx" where
  "ilit s = foldr (\<lambda>c r. Seq (Ch (\<lambda>d. lower_char d = lower_char c)) r) s Eps"

definition any_of :: "rx list \<Rightarrow> rx" where
  "any_of rs = (case rs of [] \<Rightarrow> Ch (\<lambda>_. False) | r # rs' \<Rightarrow> foldl Alt r rs')"

definition seqs :: "rx list \<Rightarrow> rx" where
  "seqs rs = foldr Seq rs Eps"

definition one_of :: "string \<Rightarrow> rx" where
  "one_of cs = Ch (\<lambda>c. c \<in> set cs)"

definition none_of :: "string \<Rightarrow> rx" where
  "none_of cs = Ch (\<lambda>c. c \<notin> set cs \<and> \<not> is_ws c)"

definition at_least :: "nat \<Rightarrow> rx \<Rightarrow> rx" where
  "at_least n a = seqs (replicate n a @ [Star a])"

definition spaces :: rx where
  "spaces = Star (Ch is_ws)"

definition some_space :: rx where
  "some_space = Plus (Ch is_ws)"

text \<open>The character class \<open>.\<close>: anything but a line terminator.\<close>

definition dot :: rx where
  "dot = Ch (\<lambda>c. c \<noteq> CHR 0x0A \<and> c \<noteq> CHR 0x0D)"

section \<open>Use\<close>

definition match_front :: "rx \<Rightarrow> char option \<Rightarrow> string \<Rightarrow> rx_state option" where
  "match_front r prev s = run r Some (prev, s, [])"

fun first_match :: "rx \<Rightarrow> char option \<Rightarrow> string \<Rightarrow> (string \<times> rx_state) option" where
  "first_match r prev [] = map_option (Pair []) (match_front r prev [])"
| "first_match r prev (c # s) =
     (case match_front r prev (c # s) of
        Some st \<Rightarrow> Some (c # s, st)
      | None \<Rightarrow> first_match r (Some c) s)"

definition rx_test :: "rx \<Rightarrow> string \<Rightarrow> bool" where
  "rx_test r s = (first_match r None s \<noteq> None)"

text \<open>Group \<open>i\<close> of the first match; group 0 is the whole match.\<close>

definition group_of :: "nat \<Rightarrow> string \<times> rx_state \<Rightarrow> string option" where
  "group_of i m = (case m of (s, prev, rest, caps) \<Rightarrow>
     if i = 0 then Some (take (length s - length rest) s) else map_of caps i)"

definition rx_group :: "rx \<Rightarrow> nat \<Rightarrow> string \<Rightarrow> string option" where
  "rx_group r i s = Option.bind (first_match r None s) (group_of i)"

definition cap :: "(nat \<times> string) list \<Rightarrow> nat \<Rightarrow> string" where
  "cap caps i = (case map_of caps i of None \<Rightarrow> [] | Some s \<Rightarrow> s)"

function rx_replace ::
    "rx \<Rightarrow> ((nat \<times> string) list \<Rightarrow> string) \<Rightarrow> char option \<Rightarrow> string \<Rightarrow> string" where
  "rx_replace r f prev [] = []"
| "rx_replace r f prev (c # s) =
     (case match_front r prev (c # s) of
        None \<Rightarrow> c # rx_replace r f (Some c) s
      | Some (prev', rest, caps) \<Rightarrow>
          if length rest \<le> length s then f caps @ rx_replace r f prev' rest
          else c # rx_replace r f (Some c) s)"
  by pat_completeness auto

termination
  by (relation "measure (\<lambda>(r, f, prev, s). length s)") auto

lemma rx_replace_no_match:
  "(\<And>p t. match_front r p t = None) \<Longrightarrow> rx_replace r f prev s = s"
  by (induction s arbitrary: prev) auto

end
