(* ===== verification/Json_Text.thy ===== *)
theory Json_Text
  imports Json
begin

text \<open>
  \<open>JSON.stringify\<close> and \<open>JSON.parse\<close>.  The parser takes fuel, one unit for each nested call;
  \<open>json_parse\<close> gives it two for each character and one more, as every second call consumes one.  An escape \<open>\uXXXX\<close> above 255 is reduced to its low byte, as strings have 8-bit characters.
\<close>

section \<open>\<open>JSON.stringify\<close>\<close>

definition hex_digit :: "nat \<Rightarrow> char" where
  "hex_digit n = (if n < 10 then char_of (48 + n) else char_of (87 + n))"

definition escape_char :: "char \<Rightarrow> string" where
  "escape_char c = (let n = (of_char c :: nat) in
     if n = 34 then [CHR 0x5C, CHR 0x22] else if n = 92 then [CHR 0x5C, CHR 0x5C]
     else if n = 8 then CHR 0x5C # ''b'' else if n = 12 then CHR 0x5C # ''f''
     else if n = 10 then CHR 0x5C # ''n'' else if n = 13 then CHR 0x5C # ''r''
     else if n = 9 then CHR 0x5C # ''t''
     else if n < 32 then CHR 0x5C # ''u00'' @ [hex_digit (n div 16), hex_digit (n mod 16)]
     else [c])"

definition quote_string :: "string \<Rightarrow> string" where
  "quote_string s = CHR 0x22 # concat (map escape_char s) @ [CHR 0x22]"

fun stringify :: "json \<Rightarrow> string" where
  "stringify JNull = ''null''"
| "stringify (JBool b) = (if b then ''true'' else ''false'')"
| "stringify (JNum n) = (if num_finite n then num_string n else ''null'')"
| "stringify (JStr s) = quote_string s"
| "stringify (JArr xs) = ''['' @ join_with '','' (map stringify xs) @ '']''"
| "stringify (JObj es) =
     ''{'' @ join_with '','' (map (\<lambda>(k, v). quote_string k @ '':'' @ stringify v) es) @ ''}''"

section \<open>\<open>JSON.parse\<close>\<close>

definition is_json_ws :: "char \<Rightarrow> bool" where
  "is_json_ws c = (of_char c \<in> {9, 10, 13, 32 :: nat})"

definition skip_ws :: "string \<Rightarrow> string" where
  "skip_ws s = dropWhile is_json_ws s"

definition hex_value :: "char \<Rightarrow> nat option" where
  "hex_value c = (let n = (of_char c :: nat) in
     if 48 \<le> n \<and> n \<le> 57 then Some (n - 48)
     else if 65 \<le> n \<and> n \<le> 70 then Some (n - 55)
     else if 97 \<le> n \<and> n \<le> 102 then Some (n - 87) else None)"

definition hex4 :: "string \<Rightarrow> nat option" where
  "hex4 s = (case map hex_value (take 4 s) of
     [Some a, Some b, Some c, Some d] \<Rightarrow> Some (a * 4096 + b * 256 + c * 16 + d) | _ \<Rightarrow> None)"

text \<open>The body of a string literal, after the opening quote.\<close>

fun parse_string :: "nat \<Rightarrow> string \<Rightarrow> (string \<times> string) option" where
  "parse_string 0 s = None"
| "parse_string (Suc f) [] = None"
| "parse_string (Suc f) (c # s) =
     (let n = (of_char c :: nat); add = (\<lambda>x. map_option (map_prod (Cons x) id)) in
      if n = 34 then Some ([], s)
      else if n < 32 then None
      else if n \<noteq> 92 then add c (parse_string f s)
      else (case s of
          [] \<Rightarrow> None
        | e # t \<Rightarrow>
            (let k = (of_char e :: nat) in
             if k \<in> {34, 47, 92} then add e (parse_string f t)
             else if e = CHR ''b'' then add (char_of (8 :: nat)) (parse_string f t)
             else if e = CHR ''f'' then add (char_of (12 :: nat)) (parse_string f t)
             else if e = CHR ''n'' then add (char_of (10 :: nat)) (parse_string f t)
             else if e = CHR ''r'' then add (char_of (13 :: nat)) (parse_string f t)
             else if e = CHR ''t'' then add (char_of (9 :: nat)) (parse_string f t)
             else if e = CHR ''u'' then
               (case hex4 t of
                  None \<Rightarrow> None
                | Some v \<Rightarrow> add (char_of v) (parse_string f (drop 4 t)))
             else None)))"

definition parse_number :: "string \<Rightarrow> (jsnum \<times> string) option" where
  "parse_number s =
     (let neg = (take 1 s = ''-''); t = (if neg then drop 1 s else s);
          ip = takeWhile is_digit t; r = dropWhile is_digit t;
          fp = (case r of CHR ''.'' # u \<Rightarrow> takeWhile is_digit u | _ \<Rightarrow> []);
          r2 = (case r of CHR ''.'' # u \<Rightarrow> dropWhile is_digit u | _ \<Rightarrow> r);
          dotted = (take 1 r = ''.'');
          expo = (take 1 r2 \<in> {''e'', ''E''});
          r3 = (if expo then drop 1 r2 else r2);
          eneg = (expo \<and> take 1 r3 = ''-'');
          r4 = (if expo \<and> take 1 r3 \<in> {''-'', ''+''} then drop 1 r3 else r3);
          ds = (if expo then takeWhile is_digit r4 else []);
          q = of_nat (digits_value (ip @ fp)) / 10 ^ length fp;
          v = (if eneg then q / 10 ^ digits_value ds else q * 10 ^ digits_value ds)
      in if ip = [] \<or> (take 1 ip = ''0'' \<and> 1 < length ip) \<or> (dotted \<and> fp = []) \<or> (expo \<and> ds = [])
         then None
         else Some (Fin (if neg then - v else v), if expo then dropWhile is_digit r4 else r2))"

fun parse_value :: "nat \<Rightarrow> string \<Rightarrow> (json \<times> string) option"
  and parse_items :: "nat \<Rightarrow> string \<Rightarrow> (json list \<times> string) option"
  and parse_members :: "nat \<Rightarrow> string \<Rightarrow> ((string \<times> json) list \<times> string) option" where
  "parse_value 0 s = None"
| "parse_value (Suc f) s =
     (let t = skip_ws s in
      if starts_with t ''null'' then Some (JNull, drop 4 t)
      else if starts_with t ''true'' then Some (JBool True, drop 4 t)
      else if starts_with t ''false'' then Some (JBool False, drop 5 t)
      else if take 1 t = [CHR 0x22] then
        map_option (map_prod JStr id) (parse_string (length t) (drop 1 t))
      else if take 1 t = ''['' then
        (if take 1 (skip_ws (drop 1 t)) = '']'' then Some (JArr [], drop 1 (skip_ws (drop 1 t)))
         else map_option (map_prod JArr id) (parse_items f (drop 1 t)))
      else if take 1 t = ''{'' then
        (if take 1 (skip_ws (drop 1 t)) = ''}'' then Some (JObj [], drop 1 (skip_ws (drop 1 t)))
         else map_option (map_prod (\<lambda>es. JObj (from_entries es)) id) (parse_members f (drop 1 t)))
      else map_option (map_prod JNum id) (parse_number t))"
| "parse_items 0 s = None"
| "parse_items (Suc f) s =
     (case parse_value f s of
        None \<Rightarrow> None
      | Some (v, r) \<Rightarrow>
          (let t = skip_ws r in
           if take 1 t = '','' then map_option (map_prod (Cons v) id) (parse_items f (drop 1 t))
           else if take 1 t = '']'' then Some ([v], drop 1 t) else None))"
| "parse_members 0 s = None"
| "parse_members (Suc f) s =
     (let k = skip_ws s in
      if take 1 k \<noteq> [CHR 0x22] then None
      else (case parse_string (length k) (drop 1 k) of
          None \<Rightarrow> None
        | Some (key, r) \<Rightarrow>
            if take 1 (skip_ws r) \<noteq> '':'' then None
            else (case parse_value f (drop 1 (skip_ws r)) of
                None \<Rightarrow> None
              | Some (v, r2) \<Rightarrow>
                  (let t = skip_ws r2 in
                   if take 1 t = '','' then
                     map_option (map_prod (Cons (key, v)) id) (parse_members f (drop 1 t))
                   else if take 1 t = ''}'' then Some ([(key, v)], drop 1 t) else None))))"

definition json_parse :: "string \<Rightarrow> json option" where
  "json_parse s =
     (case parse_value (2 * length s + 1) s of
        Some (v, r) \<Rightarrow> if skip_ws r = [] then Some v else None
      | None \<Rightarrow> None)"

end
