(* ===== verification/Templates.thy ===== *)
theory Templates
  imports Yaml_Adapter Json_Text
begin

text \<open>
  The two template languages of a run: \<open>{{ name }}\<close> and \<open>{{ secret.NAME }}\<close> of
  \<open>variable-store.service.ts\<close>, resolved step by step with the variables saved so far, and the
  secret references of \<open>secret-reference-resolver.service.ts\<close>, resolved once before the run.
  \<open>String.replace\<close> with a global pattern scans from left to right and does not look at what it put
  in; a pattern is a function that matches at the front of a string and returns the captured parts
  and the rest.
\<close>

section \<open>Global replacement\<close>

function replace_all :: "(string \<Rightarrow> (string \<times> string) option) \<Rightarrow> string \<Rightarrow> string" where
  "replace_all m [] = []"
| "replace_all m (c # s) =
     (case m (c # s) of
        None \<Rightarrow> c # replace_all m s
      | Some (r, rest) \<Rightarrow>
          if length rest \<le> length s then r @ replace_all m rest else c # replace_all m s)"
  by pat_completeness auto

termination
  by (relation "measure (\<lambda>(m, s). length s)") auto

text \<open>\<open>matchAll\<close>: the first captured part of every match.\<close>

function match_all :: "(string \<Rightarrow> (string \<times> string) option) \<Rightarrow> string \<Rightarrow> string list" where
  "match_all m [] = []"
| "match_all m (c # s) =
     (case m (c # s) of
        None \<Rightarrow> match_all m s
      | Some (r, rest) \<Rightarrow> if length rest \<le> length s then r # match_all m rest else match_all m s)"
  by pat_completeness auto

termination
  by (relation "measure (\<lambda>(m, s). length s)") auto

lemma replace_all_cong:
  assumes "\<And>key. key \<in> set (match_all m s) \<Longrightarrow> f key = g key"
  shows "replace_all (\<lambda>t. map_option (map_prod f id) (m t)) s
    = replace_all (\<lambda>t. map_option (map_prod g id) (m t)) s"
  using assms
proof (induction m s rule: match_all.induct)
  case (1 m)
  then show ?case by simp
next
  case (2 m c s)
  then show ?case by (auto split: option.splits)
qed

lemma replace_all_no_match: "(\<And>t. m t = None) \<Longrightarrow> replace_all m s = s"
  by (induction s) auto

section \<open>The variable store\<close>

definition is_key_char :: "char \<Rightarrow> bool" where
  "is_key_char c = (let n = (of_char c :: nat) in
     (48 \<le> n \<and> n \<le> 57) \<or> (65 \<le> n \<and> n \<le> 90) \<or> (97 \<le> n \<and> n \<le> 122) \<or> n = 95)"

text \<open>
  \<open>/\{\{\s*(secret\.)?([A-Za-z0-9_]+)\s*\}\}/\<close> at the front of a string: whether the prefix is there,
  the key, and the rest.  No other way to match is left when the greedy one fails.
\<close>

definition match_variable :: "string \<Rightarrow> ((bool \<times> string) \<times> string) option" where
  "match_variable s =
     (if \<not> starts_with s ''{{'' then None
      else (let t = dropWhile is_ws (drop 2 s);
                secret = starts_with t ''secret.'';
                u = (if secret then drop 7 t else t);
                key = takeWhile is_key_char u;
                rest = dropWhile is_ws (dropWhile is_key_char u)
            in if key = [] \<or> \<not> starts_with rest ''}}'' then None
               else Some ((secret, key), drop 2 rest)))"

type_synonym variables = "json obj"
type_synonym secrets = "string obj"

definition variable_value :: "variables \<Rightarrow> secrets \<Rightarrow> bool \<times> string \<Rightarrow> string" where
  "variable_value vars secs ref =
     (case ref of
        (True, key) \<Rightarrow> (case map_of secs key of None \<Rightarrow> [] | Some v \<Rightarrow> v)
      | (False, key) \<Rightarrow> (case map_of vars key of None \<Rightarrow> [] | Some v \<Rightarrow> json_string v))"

definition interpolate_string :: "variables \<Rightarrow> secrets \<Rightarrow> string \<Rightarrow> string" where
  "interpolate_string vars secs s =
     replace_all (\<lambda>t. map_option (map_prod (variable_value vars secs) id) (match_variable t)) s"

primrec interpolate :: "variables \<Rightarrow> secrets \<Rightarrow> json \<Rightarrow> json" where
  "interpolate vars secs JNull = JNull"
| "interpolate vars secs (JBool b) = JBool b"
| "interpolate vars secs (JNum n) = JNum n"
| "interpolate vars secs (JStr s) = JStr (interpolate_string vars secs s)"
| "interpolate vars secs (JArr xs) = JArr (map (interpolate vars secs) xs)"
| "interpolate vars secs (JObj es) = JObj (map (map_prod id (interpolate vars secs)) es)"

text \<open>
  \<open>interpolate\<close> and \<open>replaceReferences\<close> of a typed object go through all its strings: \<open>f\<close> is what
  happens to a string, \<open>g\<close> to a value.  Keys of objects stay.
\<close>

definition map_entries :: "(json \<Rightarrow> json) \<Rightarrow> json obj option \<Rightarrow> json obj option" where
  "map_entries g = map_option (map (map_prod id g))"

definition map_assertion :: "(string \<Rightarrow> string) \<Rightarrow> (json \<Rightarrow> json) \<Rightarrow> exec_assertion \<Rightarrow> exec_assertion" where
  "map_assertion f g a =
     \<lparr>xaFieldPath = f (xaFieldPath a), xaOperator = g (xaOperator a),
      xaExpectedValue = map_option g (xaExpectedValue a)\<rparr>"

definition map_expectation :: "(string \<Rightarrow> string) \<Rightarrow> (json \<Rightarrow> json) \<Rightarrow> expectation \<Rightarrow> expectation" where
  "map_expectation f g e =
     \<lparr>xpStatus = map_option g (xpStatus e), xpJsonContains = map_option g (xpJsonContains e),
      xpAssertions = map_option (map (map_assertion f g)) (xpAssertions e)\<rparr>"

definition map_request :: "(string \<Rightarrow> string) \<Rightarrow> (json \<Rightarrow> json) \<Rightarrow> request_config \<Rightarrow> request_config" where
  "map_request f g r =
     \<lparr>rqMethod = f (rqMethod r), rqPath = f (rqPath r), rqHeaders = map_entries g (rqHeaders r),
      rqQuery = map_entries g (rqQuery r), rqJson = map_option g (rqJson r),
      rqExpect = map_option (map_expectation f g) (rqExpect r), rqSave = map_entries g (rqSave r)\<rparr>"

fun map_config :: "(string \<Rightarrow> string) \<Rightarrow> (json \<Rightarrow> json) \<Rightarrow> step_config \<Rightarrow> step_config" where
  "map_config f g (SequenceConfig ids) = SequenceConfig (map f ids)"
| "map_config f g (ApiRequestConfig r) = ApiRequestConfig (map_request f g r)"
| "map_config f g (WaitConfig d) = WaitConfig d"
| "map_config f g (PollUntilConfig r t i m) = PollUntilConfig (map_request f g r) t i (map_option f m)"
| "map_config f g (SetVariableConfig n v s p) =
     SetVariableConfig (f n) (map_option g v) (map_option f s) (map_option f p)"
| "map_config f g (AssertConfig s p op e) =
     AssertConfig (map_option f s) (f p) (map_option g op) (map_option g e)"

definition map_step :: "(string \<Rightarrow> string) \<Rightarrow> (json \<Rightarrow> json) \<Rightarrow> exec_step \<Rightarrow> exec_step" where
  "map_step f g s =
     s\<lparr>sId := f (sId s), sVersion := f (sVersion s), sName := f (sName s),
       sConfig := map_config f g (sConfig s)\<rparr>"

definition interpolate_request :: "variables \<Rightarrow> secrets \<Rightarrow> request_config \<Rightarrow> request_config" where
  "interpolate_request vars secs r =
     map_request (interpolate_string vars secs) (interpolate vars secs) r"

section \<open>Secret references\<close>

definition is_secret_char :: "char \<Rightarrow> bool" where
  "is_secret_char c = (let n = (of_char c :: nat) in
     (48 \<le> n \<and> n \<le> 57) \<or> (65 \<le> n \<and> n \<le> 90) \<or> n = 95)"

text \<open>\<open>/\{\{\s*secret\.([A-Z0-9_]{2,80})\s*\}\}/\<close>\<close>

definition match_secret :: "string \<Rightarrow> (string \<times> string) option" where
  "match_secret s =
     (if \<not> starts_with s ''{{'' then None
      else (let t = dropWhile is_ws (drop 2 s); u = drop 7 t;
                key = takeWhile is_secret_char u;
                rest = dropWhile is_ws (dropWhile is_secret_char u)
            in if \<not> starts_with t ''secret.'' \<or> length key < 2 \<or> 80 < length key
                  \<or> \<not> starts_with rest ''}}'' then None
               else Some (key, drop 2 rest)))"

definition secret_value :: "secrets \<Rightarrow> string \<Rightarrow> string" where
  "secret_value secs key = (case map_of secs key of None \<Rightarrow> [] | Some v \<Rightarrow> v)"

definition replace_string_references :: "secrets \<Rightarrow> string \<Rightarrow> string" where
  "replace_string_references secs s =
     replace_all (\<lambda>t. map_option (map_prod (secret_value secs) id) (match_secret t)) s"

primrec replace_references :: "secrets \<Rightarrow> json \<Rightarrow> json" where
  "replace_references secs JNull = JNull"
| "replace_references secs (JBool b) = JBool b"
| "replace_references secs (JNum n) = JNum n"
| "replace_references secs (JStr s) = JStr (replace_string_references secs s)"
| "replace_references secs (JArr xs) = JArr (map (replace_references secs) xs)"
| "replace_references secs (JObj es) = JObj (map (map_prod id (replace_references secs)) es)"

definition replace_in_plan :: "secrets \<Rightarrow> exec_plan \<Rightarrow> exec_plan" where
  "replace_in_plan secs p =
     (let f = replace_string_references secs; g = replace_references secs in
      p\<lparr>pSuiteRevisionId := f (pSuiteRevisionId p), pSuiteName := f (pSuiteName p),
        pSteps := map (map_step f g) (pSteps p),
        pDependencies := map (map_prod id (map f)) (pDependencies p),
        pVariables := map (\<lambda>v. v\<lparr>vName := f (vName v), vSourceStepId := f (vSourceStepId v),
          vPath := g (vPath v)\<rparr>) (pVariables p)\<rparr>)"

section \<open>The keys a run needs\<close>

text \<open>A value is a string, or is searched in its JSON text; a missing one is \<open>{}\<close>.\<close>

definition searched_text :: "json option \<Rightarrow> string" where
  "searched_text v =
     (case v of
        Some (JStr s) \<Rightarrow> s
      | _ \<Rightarrow> stringify (the (coalesce v (Some (JObj [])))))"

definition find_referenced_keys :: "json option list \<Rightarrow> string list" where
  "find_referenced_keys vs =
     sort_by code_unit_cmp (remdups (concat (map (\<lambda>v. match_all match_secret (searched_text v)) vs)))"

text \<open>
  The part of \<open>resolveForRun\<close> that fixes the result: \<open>table\<close> are the project's secrets in key order,
  \<open>decrypt\<close> the vault's cipher.  The audit entries and \<open>lastUsedAt\<close> are left out.
\<close>

record secret_row =
  srKey :: string
  srEncryptedValue :: string
  srKeyVersion :: int

definition resolve_secrets ::
    "(string \<Rightarrow> int \<Rightarrow> string) \<Rightarrow> secret_row list \<Rightarrow> json option list \<Rightarrow> js_error + secrets" where
  "resolve_secrets decrypt table vs =
     (let keys = find_referenced_keys vs in
      if keys = [] then Inr []
      else (let found = filter (\<lambda>r. srKey r \<in> set keys) table;
                missing = filter (\<lambda>k. k \<notin> srKey ` set found) keys
            in if missing \<noteq> []
               then Inl (BadRequestException (''Missing project secret(s): '' @ join_with '', '' missing))
               else Inr (from_entries
                 (map (\<lambda>r. (srKey r, decrypt (srEncryptedValue r) (srKeyVersion r))) found))))"

section \<open>Properties\<close>

lemma interpolate_string_plain:
  assumes "CHR ''{'' \<notin> set s"
  shows "interpolate_string vars secs s = s"
  using assms
proof (induction s)
  case (Cons c s)
  then have "c \<noteq> CHR ''{''" by auto
  then have "match_variable (c # s) = None" by (auto simp: match_variable_def)
  with Cons show ?case by (simp add: interpolate_string_def)
qed (simp add: interpolate_string_def)

text \<open>
  The secrets loaded for a run are enough: replacing the references of a text with all of a
  project's secrets gives the same as replacing them with the secrets that were resolved for it.
\<close>

theorem resolved_secrets_suffice:
  assumes "resolve_secrets decrypt table vs = Inr secs" and "Some (JStr text) \<in> set vs"
    and "distinct (map srKey table)"
  shows "replace_string_references secs text
    = replace_string_references
        (map (\<lambda>r. (srKey r, decrypt (srEncryptedValue r) (srKeyVersion r))) table) text"
proof -
  let ?all = "map (\<lambda>r. (srKey r, decrypt (srEncryptedValue r) (srKeyVersion r))) table"
  let ?keys = "find_referenced_keys vs"
  have "secret_value secs key = secret_value ?all key"
    if "key \<in> set (match_all match_secret text)" for key
  proof -
    have k: "key \<in> set ?keys"
      using that assms(2) by (force simp: find_referenced_keys_def searched_text_def)
    let ?found = "filter (\<lambda>r. srKey r \<in> set ?keys) table"
    have secs: "secs = from_entries
        (map (\<lambda>r. (srKey r, decrypt (srEncryptedValue r) (srKeyVersion r))) ?found)"
      using assms(1) k by (auto simp: resolve_secrets_def Let_def split: if_splits)
    have "distinct (map fst (map (\<lambda>r. (srKey r, decrypt (srEncryptedValue r) (srKeyVersion r))) ?found))"
      using assms(3) by (simp add: o_def distinct_map_filter)
    then have "secs = map (\<lambda>r. (srKey r, decrypt (srEncryptedValue r) (srKeyVersion r))) ?found"
      unfolding secs by (rule from_entries_id)
    moreover have "map_of (map (\<lambda>r. (srKey r, decrypt (srEncryptedValue r) (srKeyVersion r))) ?found) key
        = map_of ?all key"
      using k by (induction table) auto
    ultimately show ?thesis by (simp add: secret_value_def)
  qed
  then show ?thesis
    unfolding replace_string_references_def by (rule replace_all_cong)
qed

definition sample_secret :: secret_row where
  "sample_secret = \<lparr>srKey = ''API_KEY'', srEncryptedValue = ''cipher'', srKeyVersion = 1\<rparr>"

theorem resolved_secrets_suffice_witness:
  "\<exists>secs. resolve_secrets (\<lambda>c v. ''s3cret'') [sample_secret] [Some (JStr ''k={{ secret.API_KEY }}'')]
      = Inr secs
    \<and> replace_string_references secs ''k={{ secret.API_KEY }}'' = ''k=s3cret''"
proof -
  let ?v = "[Some (JStr ''k={{ secret.API_KEY }}'')]"
  have "resolve_secrets (\<lambda>c v. ''s3cret'') [sample_secret] ?v = Inr [(''API_KEY'', ''s3cret'')]"
    by code_simp
  moreover from this have "replace_string_references [(''API_KEY'', ''s3cret'')] ''k={{ secret.API_KEY }}''
      = replace_string_references (map (\<lambda>r. (srKey r, ''s3cret'')) [sample_secret])
          ''k={{ secret.API_KEY }}''"
    by (rule resolved_secrets_suffice) simp_all
  moreover have "replace_string_references (map (\<lambda>r. (srKey r, ''s3cret'')) [sample_secret])
      ''k={{ secret.API_KEY }}'' = ''k=s3cret''"
    by code_simp
  ultimately show ?thesis by auto
qed

text \<open>
  A reference with a line break inside the braces is not found in the JSON text of a plan, where
  the break is escaped, but it is replaced in the plan's strings: the step then runs with an empty
  value instead of failing as a missing secret does.
\<close>

theorem reference_with_line_break_is_lost:
  "find_referenced_keys [Some (JObj [(''h'', JStr (''{{'' @ [CHR 0x0A] @ ''secret.API_KEY}}''))])] = []
   \<and> replace_references [] (JObj [(''h'', JStr (''{{'' @ [CHR 0x0A] @ ''secret.API_KEY}}''))])
     = JObj [(''h'', JStr [])]"
  by code_simp

text \<open>
  Interpolation is one pass, but a request is interpolated twice, once before the call to the
  HTTP executor and once in it: a response value saved as a variable can name a secret, and the
  second pass puts the secret in.
\<close>

theorem second_interpolation_resolves_saved_text:
  "interpolate_string [(''token'', JStr ''{{ secret.API_KEY }}'')] [(''API_KEY'', ''s3cret'')]
     ''Bearer {{ token }}'' = ''Bearer {{ secret.API_KEY }}''
   \<and> interpolate_string [(''token'', JStr ''{{ secret.API_KEY }}'')] [(''API_KEY'', ''s3cret'')]
     (interpolate_string [(''token'', JStr ''{{ secret.API_KEY }}'')] [(''API_KEY'', ''s3cret'')]
       ''Bearer {{ token }}'') = ''Bearer s3cret''"
  by code_simp

end
