(* ===== verification/Masking.thy ===== *)
theory Masking
  imports Regex Templates
begin

text \<open>
  \<open>secret-masking.service.ts\<close>: the values of a run's secrets, and what looks like a credential, are
  blanked out of everything that is logged or stored.
\<close>

section \<open>Splitting at a string\<close>

function split_str :: "string \<Rightarrow> string \<Rightarrow> string list" where
  "split_str sep [] = [[]]"
| "split_str sep (c # s) =
     (if sep \<noteq> [] \<and> starts_with (c # s) sep then [] # split_str sep (drop (length sep) (c # s))
      else (case split_str sep s of [] \<Rightarrow> [[c]] | w # ws \<Rightarrow> (c # w) # ws))"
  by pat_completeness auto

termination
  by (relation "measure (\<lambda>(sep, s). length s)") (auto simp: neq_Nil_conv)

section \<open>\<open>encodeURIComponent\<close>\<close>

definition uri_unreserved :: "char \<Rightarrow> bool" where
  "uri_unreserved c = (is_word c \<or> c \<in> set ''-.!~*()'' \<or> (of_char c :: nat) = 39)"

definition upper_hex :: "nat \<Rightarrow> char" where
  "upper_hex n = (if n < 10 then char_of (48 + n) else char_of (55 + n))"

definition percent_byte :: "nat \<Rightarrow> string" where
  "percent_byte n = [CHR ''%'', upper_hex (n div 16), upper_hex (n mod 16)]"

definition encode_char :: "char \<Rightarrow> string" where
  "encode_char c = (let n = (of_char c :: nat) in
     if uri_unreserved c then [c]
     else if n < 128 then percent_byte n
     else percent_byte (192 + n div 64) @ percent_byte (128 + n mod 64))"

definition encode_uri_component :: "string \<Rightarrow> string" where
  "encode_uri_component s = concat (map encode_char s)"

section \<open>The service\<close>

definition mask :: string where
  "mask = ''[SECRET]''"

definition create_context :: "string list \<Rightarrow> string list" where
  "create_context values = rev (remdups (rev (filter (\<lambda>v. 3 \<le> length v) values)))"

definition mask_value_in :: "string \<Rightarrow> string \<Rightarrow> string" where
  "mask_value_in secret s = join_with mask (split_str secret s)"

fun mask_secrets :: "string list \<Rightarrow> string \<Rightarrow> string" where
  "mask_secrets [] s = s"
| "mask_secrets (v # vs) s =
     mask_secrets vs (mask_value_in (encode_uri_component v) (mask_value_in v s))"

definition credential_name :: rx where
  "credential_name = any_of
     [seqs [ilit ''api'', Opt (one_of ''_-''), ilit ''key''],
      seqs [ilit ''access'', Opt (one_of ''_-''), ilit ''token''],
      seqs [ilit ''refresh'', Opt (one_of ''_-''), ilit ''token''],
      ilit ''token'', ilit ''secret'', ilit ''password'']"

definition quotes :: string where
  "quotes = [CHR 0x27, CHR 0x22]"

definition auth_header :: rx where
  "auth_header = seqs
     [Bound, Group 1 (seqs [ilit ''Authorization'', spaces, one_of '':='', spaces]),
      Group 2 (Alt (ilit ''Bearer'') (ilit ''Basic'')), some_space, Plus (none_of (quotes @ '',}''))]"

definition bearer_token :: rx where
  "bearer_token = seqs
     [Bound, Group 1 (Alt (ilit ''Bearer'') (ilit ''Basic'')), some_space,
      at_least 8 (Ch (\<lambda>c. is_word c \<or> c \<in> set ''.~+/=-''))]"

definition credential_field :: rx where
  "credential_field = seqs
     [Bound, Group 1 credential_name, Group 2 (seqs [spaces, one_of '':='', spaces]),
      Plus (none_of (quotes @ '',}&''))]"

definition credential_query :: rx where
  "credential_query = seqs
     [Group 1 (seqs [one_of ''?&'', credential_name, lit ''='']), Plus (none_of (quotes @ ''&#''))]"

definition mask_string :: "string list \<Rightarrow> string \<Rightarrow> string" where
  "mask_string values s =
     (let s0 = mask_secrets values s;
          s1 = rx_replace auth_header (\<lambda>g. cap g 1 @ cap g 2 @ '' '' @ mask) None s0;
          s2 = rx_replace bearer_token (\<lambda>g. cap g 1 @ '' '' @ mask) None s1;
          s3 = rx_replace credential_field (\<lambda>g. cap g 1 @ cap g 2 @ mask) None s2
      in rx_replace credential_query (\<lambda>g. cap g 1 @ mask) None s3)"

definition sensitive_key :: "string \<Rightarrow> bool" where
  "sensitive_key k = rx_test (Alt (ilit ''authorization'') credential_name) k"

fun mask_json :: "string list \<Rightarrow> json \<Rightarrow> json" where
  "mask_json values (JStr s) = JStr (mask_string values s)"
| "mask_json values (JArr xs) = JArr (map (mask_json values) xs)"
| "mask_json values (JObj es) =
     JObj (map (\<lambda>(k, v). (k, if sensitive_key k then JStr mask else mask_json values v)) es)"
| "mask_json values v = v"

section \<open>Properties\<close>

lemma split_str_ne: "split_str sep s \<noteq> []"
  by (induction sep s rule: split_str.induct) (auto split: list.splits)

lemma split_str_join: "join_with sep (split_str sep s) = s"
proof (induction sep s rule: split_str.induct)
  case (1 sep)
  then show ?case by simp
next
  case (2 sep c s)
  show ?case
  proof (cases "sep \<noteq> [] \<and> starts_with (c # s) sep")
    case True
    then obtain r where r: "c # s = sep @ r" by (auto simp: starts_with_iff)
    have d: "drop (length sep) (c # s) = r" using r by simp
    have "join_with sep (split_str sep r) = r"
      using 2(1)[OF True] unfolding d .
    moreover obtain w ws where w: "split_str sep r = w # ws" using split_str_ne by (cases "split_str sep r") auto
    moreover have "split_str sep (c # s) = [] # split_str sep r"
      using True d by (simp del: starts_with.simps drop_Cons)
    ultimately show ?thesis using r by simp
  next
    case False
    obtain w ws where "split_str sep s = w # ws" using split_str_ne by (cases "split_str sep s") auto
    with 2(2)[OF False] False show ?thesis
      by (cases ws) auto
  qed
qed

lemma str_includes_append: "str_includes s t \<Longrightarrow> str_includes (a @ s @ b) t"
  unfolding str_includes_iff by (metis append.assoc)

lemma join_piece: "w \<in> set ws \<Longrightarrow> \<exists>a b. join_with sep ws = a @ w @ b"
proof (induction sep ws rule: join_with.induct)
  case (3 sep x y ys)
  show ?case
  proof (cases "w = x")
    case True
    have "join_with sep (x # y # ys) = [] @ w @ (sep @ join_with sep (y # ys))"
      using True by simp
    then show ?thesis by blast
  next
    case False
    then obtain a b where "join_with sep (y # ys) = a @ w @ b" using 3 by auto
    then have "join_with sep (x # y # ys) = (x @ sep @ a) @ w @ b" by simp
    then show ?thesis by blast
  qed
qed (auto intro: exI[of _ "[]"])

lemma split_piece_includes:
  "w \<in> set (split_str sep s) \<Longrightarrow> str_includes w t \<Longrightarrow> str_includes s t"
  using join_piece[of w "split_str sep s" sep] split_str_join[of sep s] str_includes_append
  by metis

text \<open>The first piece, and all later ones, have no occurrence of the separator.\<close>

lemma starts_with_split:
  assumes "split_str sep s = w # ws" "starts_with w sep" "sep \<noteq> []"
  shows "starts_with s sep"
proof -
  have "\<exists>r. s = w @ r"
    using split_str_join[of sep s] assms(1) by (cases ws) auto
  then show ?thesis using assms(2) by (auto simp: starts_with_iff)
qed

lemma split_str_pieces:
  assumes "sep \<noteq> []" "w \<in> set (split_str sep s)"
  shows "\<not> str_includes w sep"
  using assms
proof (induction sep s arbitrary: w rule: split_str.induct)
  case (1 sep)
  then show ?case by simp
next
  case (2 sep c s)
  show ?case
  proof (cases "starts_with (c # s) sep")
    case True
    with 2 show ?thesis by auto
  next
    case False
    obtain v vs where v: "split_str sep s = v # vs" using split_str_ne by (cases "split_str sep s") auto
    have pieces: "\<not> str_includes x sep" if "x \<in> set (v # vs)" for x
      using "2.IH"(2)[of x] False "2.prems"(1) that v by auto
    have "w = c # v \<or> w \<in> set vs" using 2(4) False "2.prems"(1) v by auto
    moreover have "\<not> str_includes (c # v) sep"
    proof
      assume "str_includes (c # v) sep"
      then have "starts_with (c # v) sep" using pieces[of v] by auto
      moreover have "\<exists>r. c # s = (c # v) @ r"
        using split_str_join[of sep s] v by (cases vs) auto
      ultimately have "starts_with (c # s) sep"
        unfolding starts_with_iff by (metis append.assoc)
      with False show False by blast
    qed
    ultimately show ?thesis using pieces by auto
  qed
qed

text \<open>An occurrence of a text that shares no character with the separator lies in one piece.\<close>

lemma occurrence_in_piece:
  assumes "w @ m @ r = a @ t @ b" "set t \<inter> set m = {}" "m \<noteq> []" "t \<noteq> []"
  shows "str_includes w t \<or> str_includes r t"
proof -
  consider us where "w = a @ us" "us @ m @ r = t @ b" | us where "w @ us = a" "m @ r = us @ t @ b"
    using iffD1[OF append_eq_append_conv2 assms(1)] by blast
  then show ?thesis
  proof cases
    case 1
    then consider vs where "us = t @ vs" | vs where "us @ vs = t" "m @ r = vs @ b"
      using iffD1[OF append_eq_append_conv2 1(2)] by blast
    then show ?thesis
    proof cases
      case (1 vs)
      with \<open>w = a @ us\<close> show ?thesis by (auto simp: str_includes_iff)
    next
      case (2 vs)
      show ?thesis
      proof (cases vs)
        case Nil
        with 2 \<open>w = a @ us\<close> have "w = a @ t @ []" by simp
        then show ?thesis unfolding str_includes_iff by blast
      next
        case (Cons v vs')
        with 2(2) assms(3) have "v \<in> set m" by (cases m) auto
        with 2(1) Cons assms(2) show ?thesis by auto
      qed
    qed
  next
    case (2 us)
    consider vs where "m = us @ vs" "vs @ r = t @ b" | vs where "us = m @ vs" "r = vs @ t @ b"
      using iffD1[OF append_eq_append_conv2 2(2)] by blast
    then show ?thesis
    proof cases
      case (1 vs)
      show ?thesis
      proof (cases vs)
        case Nil
        with 1 have "r = [] @ t @ b" by simp
        then show ?thesis unfolding str_includes_iff by blast
      next
        case (Cons v vs')
        with 1(2) assms(4) have "v \<in> set t" by (cases t) auto
        with 1(1) Cons assms(2) show ?thesis by auto
      qed
    next
      case (2 vs)
      then show ?thesis by (auto simp: str_includes_iff)
    qed
  qed
qed

lemma join_includes:
  assumes "str_includes (join_with m ws) t" "set t \<inter> set m = {}" "m \<noteq> []" "t \<noteq> []"
  shows "\<exists>w\<in>set ws. str_includes w t"
  using assms
proof (induction m ws rule: join_with.induct)
  case (1 m)
  then show ?case by (cases t) auto
next
  case (2 m x)
  then show ?case by simp
next
  case (3 m x y ys)
  from 3(2) obtain a b where "x @ m @ join_with m (y # ys) = a @ t @ b"
    by (auto simp: str_includes_iff)
  from occurrence_in_piece[OF this 3(3-5)] 3(1)[OF _ 3(3-5)] show ?case by auto
qed

lemma mask_ne [simp]: "mask \<noteq> []"
  by (simp add: mask_def)

lemma mask_value_in_removes:
  assumes "v \<noteq> []" "set v \<inter> set mask = {}"
  shows "\<not> str_includes (mask_value_in v s) v"
  using join_includes[of mask "split_str v s" v] split_str_pieces[of v _ s] assms
  by (auto simp: mask_value_in_def)

lemma mask_value_in_keeps_out:
  assumes "v \<noteq> []" "set v \<inter> set mask = {}" "\<not> str_includes s v"
  shows "\<not> str_includes (mask_value_in u s) v"
  using join_includes[of mask "split_str u s" v] split_piece_includes[of _ u s v] assms
  by (auto simp: mask_value_in_def)

lemma mask_secrets_keeps_out:
  "v \<noteq> [] \<Longrightarrow> set v \<inter> set mask = {} \<Longrightarrow> \<not> str_includes s v \<Longrightarrow> \<not> str_includes (mask_secrets vs s) v"
  by (induction vs arbitrary: s) (simp_all add: mask_value_in_keeps_out)



text \<open>
  The values are blanked out one after the other, in the order of the secrets' keys: when a
  secret is a prefix of a later one, the rest of the longer secret stays readable.
\<close>

theorem masking_leaks_longer_secret:
  "mask_secrets (create_context [''hunt'', ''hunter-42'']) ''pw hunter-42''
   = ''pw '' @ mask @ ''er-42''"
  by code_simp

end
