(* ===== verification/Step_Exec.thy ===== *)
theory Step_Exec
  imports Run_Safety Assertions Masking
begin

text \<open>
  The steps of a run (\<open>http-test-executor.service.ts\<close> and the step methods of
  \<open>runner-orchestrator.service.ts\<close>): the requests, the poll and wait loops, variables and assertions.
  The runner's own state (variables, saved responses, the abort signal) extends the run table; the
  world outside (network, Docker, files, logs) is a type parameter that only services change, each of
  which takes at least a millisecond.
\<close>

section \<open>The runner's store\<close>

record result_row =
  rrStepId :: string
  rrStepType :: string
  rrSuiteName :: string
  rrTestName :: string
  rrPassed :: bool
  rrMethod :: string
  rrPath :: string
  rrExpectedStatus :: json
  rrActualStatus :: "int option"
  rrAttempts :: nat
  rrDurationMs :: int
  rrRequestBody :: "json option"
  rrResponse :: "json option"
  rrErrorMessage :: "string option"
  rrAssertions :: "evaluation list option"
  rrVariables :: json
  rrRequestHeaders :: "json option"
  rrResponseHeaders :: "json option"

record 'x runner_store = run_store +
  rsVariables :: variables
  rsResponses :: "json obj"
  rsAborted :: "js_error option"
  rsStopped :: bool
  rsResults :: "(string \<times> result_row) list"
  rsWorkspace :: string
  rsUsesDocker :: bool
  rsSecrets :: secrets
  rsMaskValues :: "string list"
  rsOutside :: 'x

type_synonym ('x, 'a) service = "'x \<Rightarrow> (js_error + 'a) \<times> nat \<times> 'x"
type_synonym ('x, 'a) runner = "('x runner_store, 'a) io"

definition call_service :: "('x, 'a) service \<Rightarrow> ('x, 'a) runner" where
  "call_service f = io_call (\<lambda>s. case f (rsOutside s) of (r, ms, x) \<Rightarrow>
     (r, s\<lparr>rsOutside := x, clock := clock s + 1 + int ms\<rparr>))"

text \<open>
  \<open>await new Promise((resolve) => setTimeout(resolve, ms))\<close>: others act, then at least one
  millisecond has passed; a timer is never rejected.
\<close>

definition timer :: "rat \<Rightarrow> ('x, unit) runner" where
  "timer ms w =
     (let pass = (\<lambda>s. s\<lparr>clock := clock s + max 1 \<lfloor>ms\<rfloor>\<rparr>) in
      case pending w of
        [] \<Rightarrow> (Inr (), w\<lparr>store := pass (store w)\<rparr>)
      | c # cs \<Rightarrow> (Inr (), \<lparr>store = pass (others c (store w)), pending = cs\<rparr>))"

definition io_modify :: "('s \<Rightarrow> 's) \<Rightarrow> ('s, unit) io" where
  "io_modify f w = (Inr (), w\<lparr>store := f (store w)\<rparr>)"

definition ensure_not_cancelled :: "string \<Rightarrow> ('x, unit) runner" where
  "ensure_not_cancelled tid =
     io_bind (io_peek rsAborted) (\<lambda>reason. case reason of
       Some e \<Rightarrow> io_throw e
     | None \<Rightarrow> io_bind (is_cancellation_requested tid) (\<lambda>b.
         if b then io_throw TestRunCancellationError else io_return ()))"

section \<open>HTTP\<close>

record fetch_args =
  ftBaseUrl :: string
  ftPath :: string
  ftQuery :: "string obj"
  ftMethod :: string
  ftHeaders :: "json obj"
  ftBody :: "string option"

datatype fetch_reply = Fetched (replyStatus: int) (replyHeaders: "json obj") (replyText: string)

record http_result =
  hrActualStatus :: "int option"
  hrResponseBody :: "json option"
  hrDurationMs :: int
  hrErrorMessage :: "string option"
  hrRequestHeaders :: "json obj option"
  hrResponseHeaders :: "json obj option"

definition merge_entries :: "'a obj \<Rightarrow> 'a obj \<Rightarrow> 'a obj" where
  "merge_entries a b = fold (\<lambda>(k, v) o'. AList.update k v o') b a"

definition request_headers :: "request_config \<Rightarrow> json obj" where
  "request_headers r = merge_entries [(''content-type'', JStr ''application/json'')]
     (case rqHeaders r of None \<Rightarrow> [] | Some h \<Rightarrow> h)"

definition fetch_args_of :: "string \<Rightarrow> request_config \<Rightarrow> fetch_args" where
  "fetch_args_of baseUrl r =
     \<lparr>ftBaseUrl = baseUrl, ftPath = rqPath r,
      ftQuery = map (\<lambda>(k, v). (k, json_string v)) (case rqQuery r of None \<Rightarrow> [] | Some q \<Rightarrow> q),
      ftMethod = to_upper (rqMethod r), ftHeaders = request_headers r,
      ftBody = map_option stringify (rqJson r)\<rparr>"

definition parse_body :: "string \<Rightarrow> json" where
  "parse_body text =
     (if text = [] then JNull else (case json_parse text of Some v \<Rightarrow> v | None \<Rightarrow> JStr text))"

text \<open>
  The services of the outside world: the network (the host builds the URL from the base, path and
  query), the artifact store with its log writer and report generator, Docker Compose (arguments and
  working directory), the file system, the project's secrets (the rows of some keys in key order, and
  the note that they were used), and the onboarding record.
\<close>

record 'x services =
  srvFetch :: "fetch_args \<Rightarrow> ('x, fetch_reply) service"
  srvProbe :: "string \<Rightarrow> ('x, int) service"
  srvPutArtifact :: "string \<Rightarrow> json \<Rightarrow> ('x, unit) service"
  srvAppendLog :: "string \<Rightarrow> string \<Rightarrow> string \<Rightarrow> ('x, unit) service"
  srvReport :: "string \<Rightarrow> ('x, unit) service"
  srvDocker :: "string list \<Rightarrow> string \<Rightarrow> ('x, string) service"
  srvMakeDir :: "string \<Rightarrow> ('x, unit) service"
  srvWriteFile :: "string \<Rightarrow> string \<Rightarrow> ('x, unit) service"
  srvRemoveDir :: "string \<Rightarrow> ('x, unit) service"
  srvSecretRows :: "string list \<Rightarrow> ('x, secret_row list) service"
  srvSecretsUsed :: "string list \<Rightarrow> ('x, unit) service"
  srvFirstSuccess :: "string \<Rightarrow> int \<Rightarrow> ('x, unit) service"

definition http_execute :: "'x services \<Rightarrow> secrets \<Rightarrow> string \<Rightarrow> request_config \<Rightarrow> ('x, http_result) runner" where
  "http_execute api secs baseUrl req =
     io_bind (io_peek clock) (\<lambda>started.
     io_bind (io_peek rsVariables) (\<lambda>vars.
     let r = interpolate_request vars secs req in
     io_catch
       (io_bind (call_service (srvFetch api (fetch_args_of baseUrl r))) (\<lambda>reply.
        io_bind (io_peek clock) (\<lambda>now.
        io_return \<lparr>hrActualStatus = Some (replyStatus reply),
          hrResponseBody = Some (parse_body (replyText reply)), hrDurationMs = now - started,
          hrErrorMessage = None, hrRequestHeaders = Some (request_headers r),
          hrResponseHeaders = Some (replyHeaders reply)\<rparr>)))
       (\<lambda>e. io_bind (io_peek clock) (\<lambda>now.
        io_return \<lparr>hrActualStatus = None, hrResponseBody = None, hrDurationMs = now - started,
          hrErrorMessage = Some (error_message e), hrRequestHeaders = None,
          hrResponseHeaders = None\<rparr>))))"

section \<open>The verdict on a response\<close>

record step_result = http_result +
  srPassed :: bool
  srAttempts :: nat
  srAssertions :: "evaluation list"

definition expected_status :: "request_config \<Rightarrow> json" where
  "expected_status r =
     the (coalesce (Option.bind (rqExpect r) xpStatus) (Some (JNum (Fin 200))))"

definition yaml_assertions_of :: "request_config \<Rightarrow> yaml_assertion list" where
  "yaml_assertions_of r =
     map (\<lambda>a. \<lparr>yaFieldPath = xaFieldPath a, yaOperator = Some (xaOperator a),
               yaExpectedValue = xaExpectedValue a\<rparr>)
       (case Option.bind (rqExpect r) xpAssertions of None \<Rightarrow> [] | Some l \<Rightarrow> l)"

definition status_json :: "int option \<Rightarrow> json option" where
  "status_json st = map_option (\<lambda>i. JNum (Fin (of_int i))) st"

definition status_assertion :: "http_result \<Rightarrow> request_config \<Rightarrow> evaluation" where
  "status_assertion res r =
     (let actual = status_json (hrActualStatus res); expected = expected_status r;
          ok = (case actual of None \<Rightarrow> False | Some a \<Rightarrow> strict_eq a expected) in
      \<lparr>evFieldPath = ''$.status'', evOperator = Some (JStr ''equals''), evExpected = Some expected,
       evActual = actual, evPassed = ok,
       evMessage = (if ok then None else Some (''Expected status '' @ json_string expected @ '', got ''
         @ option_string actual))\<rparr>)"

definition body_assertion :: "http_result \<Rightarrow> request_config \<Rightarrow> evaluation list" where
  "body_assertion res r =
     (let contains = Option.bind (rqExpect r) xpJsonContains;
          ok = contains_expected (hrResponseBody res) contains in
      case contains of
        None \<Rightarrow> []
      | Some e \<Rightarrow> if \<not> json_truthy e then []
          else [\<lparr>evFieldPath = ''$.body'', evOperator = Some (JStr ''contains''), evExpected = Some e,
                 evActual = hrResponseBody res, evPassed = ok,
                 evMessage = (if ok then None
                   else Some ''Response body does not contain expected JSON'')\<rparr>])"

definition request_passed :: "http_result \<Rightarrow> request_config \<Rightarrow> bool" where
  "request_passed res r =
     (\<not> truthy_str (hrErrorMessage res) \<and> evPassed (status_assertion res r)
      \<and> contains_expected (hrResponseBody res) (Option.bind (rqExpect r) xpJsonContains)
      \<and> fst (evaluate_assertions (hrResponseBody res) (yaml_assertions_of r)))"

fun first_some :: "'a option list \<Rightarrow> 'a option" where
  "first_some [] = None"
| "first_some (None # xs) = first_some xs"
| "first_some (Some a # xs) = Some a"

fun save_values :: "json option \<Rightarrow> json obj \<Rightarrow> variables \<Rightarrow> js_error + variables" where
  "save_values body [] vars = Inr vars"
| "save_values body ((key, path) # rest) vars =
     (case path of
        JStr p \<Rightarrow> save_values body rest
          (case read_json_path body p of None \<Rightarrow> vars | Some v \<Rightarrow> AList.update key (JStr v) vars)
      | _ \<Rightarrow> Inl (TypeError ''path.startsWith is not a function''))"

definition evaluate_request_result ::
    "http_result \<Rightarrow> request_config \<Rightarrow> nat \<Rightarrow> step_result" where
  "evaluate_request_result res r attempts =
     \<lparr>hrActualStatus = hrActualStatus res, hrResponseBody = hrResponseBody res,
      hrDurationMs = hrDurationMs res,
      hrErrorMessage = first_some
        ([hrErrorMessage res, evMessage (status_assertion res r)]
          @ map evMessage (body_assertion res r)
          @ [snd (evaluate_assertions (hrResponseBody res) (yaml_assertions_of r))]),
      hrRequestHeaders = hrRequestHeaders res, hrResponseHeaders = hrResponseHeaders res,
      srPassed = request_passed res r, srAttempts = attempts,
      srAssertions = [status_assertion res r] @ body_assertion res r
        @ evaluate_all_assertions (hrResponseBody res) (yaml_assertions_of r)\<rparr>"

definition saved_variables ::
    "http_result \<Rightarrow> request_config \<Rightarrow> variables \<Rightarrow> js_error + variables" where
  "saved_variables res r vars =
     (case rqSave r of
        Some entries \<Rightarrow> if request_passed res r then save_values (hrResponseBody res) entries vars
                       else Inr vars
      | None \<Rightarrow> Inr vars)"

text \<open>\<open>evaluateRequestResult\<close>: the verdict, after the values of a passed request have been saved.\<close>

definition judge_response ::
    "http_result \<Rightarrow> request_config \<Rightarrow> nat \<Rightarrow> ('x, step_result) runner" where
  "judge_response res r attempts =
     io_bind (io_peek rsVariables) (\<lambda>vars.
     io_bind (io_lift (saved_variables res r vars)) (\<lambda>vars'.
     io_then (io_modify (\<lambda>s. s\<lparr>rsVariables := vars'\<rparr>))
       (io_return (evaluate_request_result res r attempts))))"

definition execute_request ::
    "'x services \<Rightarrow> secrets \<Rightarrow> string \<Rightarrow> string \<Rightarrow> request_config \<Rightarrow> ('x, step_result) runner" where
  "execute_request api secs tid baseUrl req =
     io_bind (io_peek rsVariables) (\<lambda>vars.
     let r = interpolate_request vars secs req in
     io_bind (http_execute api secs baseUrl r) (\<lambda>res.
     io_then (ensure_not_cancelled tid) (judge_response res r 1)))"

section \<open>Loops end\<close>

text \<open>
  Every awaited call uses up one entry of \<open>pending\<close>; once nobody interferes any more, the clock only
  moves forward, and services and timers move it.  \<open>settles\<close> holds of all the calls a loop makes,
  \<open>advances\<close> of those that wait.
\<close>

definition settles :: "'x runner_store world \<Rightarrow> 'x runner_store world \<Rightarrow> bool" where
  "settles w w' =
     (length (pending w') \<le> length (pending w) \<and> (pending w = [] \<longrightarrow> clock (store w) \<le> clock (store w')))"

definition advances :: "'x runner_store world \<Rightarrow> 'x runner_store world \<Rightarrow> bool" where
  "advances w w' =
     (length (pending w') \<le> length (pending w)
      \<and> (length (pending w') = length (pending w) \<longrightarrow> pending w = [] \<and> clock (store w) < clock (store w')))"

definition io_settles :: "('x, 'a) runner \<Rightarrow> bool" where
  "io_settles m = (\<forall>w. settles w (snd (m w)))"

definition io_advances :: "('x, 'a) runner \<Rightarrow> bool" where
  "io_advances m = (\<forall>w. advances w (snd (m w)))"

lemma settles_refl: "settles w w"
  by (simp add: settles_def)

lemma settles_trans: "settles u v \<Longrightarrow> settles v w \<Longrightarrow> settles u w"
  by (auto simp: settles_def)

lemma advances_settles: "advances u v \<Longrightarrow> settles u v"
  by (auto simp: settles_def advances_def)

lemma advances_trans1: "advances u v \<Longrightarrow> settles v w \<Longrightarrow> advances u w"
  by (auto simp: settles_def advances_def)

lemma advances_trans2: "settles u v \<Longrightarrow> advances v w \<Longrightarrow> advances u w"
  by (auto simp: settles_def advances_def)

named_theorems settle_rules "what keeps a loop ending"

lemma io_settles_basic [settle_rules]:
  "io_settles (io_return a)" "io_settles (io_throw e)" "io_settles (io_lift r)" "io_settles (io_peek f)"
  by (simp_all add: io_settles_def io_return_def io_throw_def io_lift_def io_peek_def settles_refl)

lemma io_settles_modify [settle_rules]:
  "(\<And>s. clock s \<le> clock (f s)) \<Longrightarrow> io_settles (io_modify f)"
  by (simp add: io_settles_def io_modify_def settles_def)

lemma io_settles_bind [settle_rules]:
  assumes "io_settles m" "\<And>a. io_settles (f a)"
  shows "io_settles (io_bind m f)"
  unfolding io_settles_def
proof
  fix w
  obtain r w' where m: "m w = (r, w')" by force
  have "settles w w'" using assms(1) m by (metis io_settles_def snd_conv)
  moreover have "settles w' (snd (f a w'))" for a using assms(2) by (simp add: io_settles_def)
  ultimately show "settles w (snd (io_bind m f w))"
    by (cases r) (auto simp: io_bind_def m intro: settles_trans)
qed

lemma io_settles_then [settle_rules]: "io_settles m \<Longrightarrow> io_settles k \<Longrightarrow> io_settles (io_then m k)"
  by (simp add: io_then_def io_settles_bind)

lemma io_settles_catch [settle_rules]:
  assumes "io_settles m" "\<And>e. io_settles (h e)"
  shows "io_settles (io_catch m h)"
  unfolding io_settles_def
proof
  fix w
  obtain r w' where m: "m w = (r, w')" by force
  have "settles w w'" using assms(1) m by (metis io_settles_def snd_conv)
  moreover have "settles w' (snd (h e w'))" for e using assms(2) by (simp add: io_settles_def)
  ultimately show "settles w (snd (io_catch m h w))"
    by (cases r) (auto simp: io_catch_def m intro: settles_trans)
qed

lemma io_settles_call [settle_rules]:
  assumes "\<And>s. clock s \<le> clock (snd (f s))"
  shows "io_settles (io_call f)"
  unfolding io_settles_def
proof
  fix w :: "'a runner_store world"
  show "settles w (snd (io_call f w))"
  proof (cases "pending w")
    case Nil
    then show ?thesis
      using assms[of "store w"] by (cases "f (store w)") (simp add: io_call_def settles_def)
  next
    case (Cons c cs)
    then show ?thesis
      by (cases "f (others c (store w))"; cases "reply c") (simp_all add: io_call_def settles_def Let_def)
  qed
qed

lemma io_settles_option [settle_rules]:
  "io_settles a \<Longrightarrow> (\<And>x. io_settles (b x)) \<Longrightarrow> io_settles (case v of None \<Rightarrow> a | Some x \<Rightarrow> b x)"
  by (simp split: option.split)

lemma io_settles_if [settle_rules]:
  "io_settles a \<Longrightarrow> io_settles b \<Longrightarrow> io_settles (if c then a else b)"
  by simp

lemma io_advances_bind1: "io_advances m \<Longrightarrow> (\<And>a. io_settles (f a)) \<Longrightarrow> io_advances (io_bind m f)"
  unfolding io_advances_def io_settles_def io_bind_def
  by (auto split: prod.split sum.split intro: advances_trans1) (metis advances_trans1 snd_conv)+

lemma io_advances_bind_peek: "(\<And>a. io_advances (f a)) \<Longrightarrow> io_advances (io_bind (io_peek g) f)"
  by (simp add: io_advances_def io_bind_def io_peek_def)

lemma io_advances_catch: "io_advances m \<Longrightarrow> (\<And>e. io_settles (h e)) \<Longrightarrow> io_advances (io_catch m h)"
  unfolding io_advances_def io_settles_def io_catch_def
  by (auto split: prod.split sum.split intro: advances_trans1) (metis advances_trans1 snd_conv)+

lemma io_advances_service: "io_advances (call_service f)"
  unfolding io_advances_def
proof
  fix w :: "'a runner_store world"
  show "advances w (snd (call_service f w))"
  proof (cases "pending w")
    case Nil
    then show ?thesis
      by (cases "f (rsOutside (store w))") (simp add: call_service_def io_call_def advances_def)
  next
    case (Cons c cs)
    then show ?thesis
      by (cases "f (rsOutside (others c (store w)))"; cases "reply c")
         (simp_all add: call_service_def io_call_def advances_def Let_def)
  qed
qed

lemma io_advances_settles: "io_advances m \<Longrightarrow> io_settles m"
  by (simp add: io_advances_def io_settles_def advances_settles)

lemma advances_timer: "advances w (snd (timer ms w))"
  by (cases "pending w") (simp_all add: timer_def advances_def Let_def)

lemma io_settles_read [settle_rules]: "io_settles (io_read f)"
  unfolding io_read_def by (rule io_settles_call) simp

lemma io_settles_ensure [settle_rules]: "io_settles (ensure_not_cancelled tid)"
  unfolding ensure_not_cancelled_def is_cancellation_requested_def find_run_def
  by (intro settle_rules)

section \<open>Waiting and polling\<close>

text \<open>\<open>sleep\<close>: naps of at most 250 ms, a check for cancellation before each.\<close>

function sleep_until ::
    "string \<Rightarrow> rat \<Rightarrow> 'x runner_store world \<Rightarrow> (js_error + unit) \<times> 'x runner_store world" where
  "sleep_until tid deadline w =
     (if \<not> of_int (clock (store w)) < deadline then (Inr (), w)
      else (case ensure_not_cancelled tid w of
          (Inl e, w1) \<Rightarrow> (Inl e, w1)
        | (Inr _, w1) \<Rightarrow>
            sleep_until tid deadline
              (snd (timer (min 250 (deadline - of_int (clock (store w1)))) w1))))"
  by pat_completeness auto

lemma loop_measure:
  assumes "advances w w'" "of_int (clock (store w)) < (deadline :: rat)"
  shows "length (pending w') < length (pending w)
    \<or> length (pending w') = length (pending w)
      \<and> nat (\<lceil>deadline\<rceil> - clock (store w')) < nat (\<lceil>deadline\<rceil> - clock (store w))"
proof -
  have "clock (store w) < \<lceil>deadline\<rceil>" using assms(2) by (simp add: less_ceiling_iff)
  then show ?thesis using assms(1) by (auto simp: advances_def)
qed

lemma ensure_then_timer_advances:
  "ensure_not_cancelled tid w = (r, w1) \<Longrightarrow> advances w (snd (timer ms w1))"
  using io_settles_ensure[of tid] advances_timer[of w1 ms] advances_trans2
  unfolding io_settles_def by (metis snd_conv)

termination sleep_until
proof (relation "measures [\<lambda>(tid, d, w). length (pending w),
    \<lambda>(tid, d, w). nat (\<lceil>d\<rceil> - clock (store w))]", goal_cases)
  case 1
  show ?case by (rule wf_measures)
next
  case (2 tid d w r w1 u)
  have "ensure_not_cancelled tid w = (r, w1)" using 2 by simp
  from loop_measure[OF ensure_then_timer_advances[OF this], of d] 2 show ?case by auto
qed

declare sleep_until.simps [simp del]

definition num_limit :: "rat \<Rightarrow> jsnum \<Rightarrow> rat" where
  "num_limit d n = (case n of Fin q \<Rightarrow> q | _ \<Rightarrow> d)"

definition sleep_ms :: "string \<Rightarrow> rat \<Rightarrow> ('x, unit) runner" where
  "sleep_ms tid ms w = sleep_until tid (of_int (clock (store w)) + ms) w"

lemma settles_sleep_until: "settles w (snd (sleep_until tid d w))"
proof (induction tid d w rule: sleep_until.induct)
  case (1 tid d w)
  show ?case
  proof (cases "of_int (clock (store w)) < d")
    case False
    then show ?thesis by (subst sleep_until.simps) (simp add: settles_refl)
  next
    case True
    obtain r w1 where e: "ensure_not_cancelled tid w = (r, w1)" by force
    have s1: "settles w w1"
      using io_settles_ensure[of tid] e unfolding io_settles_def by (metis snd_conv)
    show ?thesis
    proof (cases r)
      case (Inl err)
      with True e s1 show ?thesis by (subst sleep_until.simps) simp
    next
      case (Inr u)
      let ?w2 = "snd (timer (min 250 (d - of_int (clock (store w1)))) w1)"
      have "settles ?w2 (snd (sleep_until tid d ?w2))"
        using 1[of r w1 u] True e Inr by simp
      moreover have "settles w ?w2"
        using ensure_then_timer_advances[OF e] by (rule advances_settles)
      ultimately show ?thesis
        using True e Inr by (subst sleep_until.simps) (auto intro: settles_trans)
    qed
  qed
qed

lemma io_settles_sleep [settle_rules]: "io_settles (sleep_ms tid ms)"
  by (simp add: io_settles_def sleep_ms_def settles_sleep_until)

lemma io_advances_http: "io_advances (http_execute api secs baseUrl r)"
  unfolding http_execute_def Let_def
  by (intro io_advances_bind_peek io_advances_catch io_advances_bind1 io_advances_service settle_rules)

lemma io_settles_judge [settle_rules]: "io_settles (judge_response res r n)"
  unfolding judge_response_def by (intro settle_rules) simp

text \<open>One round of the poll loop, up to the verdict.\<close>

definition poll_attempt ::
    "'x services \<Rightarrow> secrets \<Rightarrow> string \<Rightarrow> string \<Rightarrow> request_config \<Rightarrow> nat \<Rightarrow> ('x, step_result) runner" where
  "poll_attempt api secs tid baseUrl req attempts =
     io_then (ensure_not_cancelled tid)
     (io_bind (io_peek rsVariables) (\<lambda>vars.
      let r = interpolate_request vars secs req in
      io_bind (http_execute api secs baseUrl r) (\<lambda>res.
      io_then (ensure_not_cancelled tid) (judge_response res r attempts))))"

lemma io_then_Inr_iff:
  "io_then m k w = (Inr b, w') \<longleftrightarrow> (\<exists>a w0. m w = (Inr a, w0) \<and> k w0 = (Inr b, w'))"
  by (auto simp: io_then_def io_bind_def split: prod.splits sum.splits)

lemma advances_then:
  assumes "io_settles m" "io_advances k" "io_then m k w = (Inr b, w')"
  shows "advances w w'"
proof -
  obtain a w0 where m: "m w = (Inr a, w0)" and k: "k w0 = (Inr b, w')"
    using assms(3) by (auto simp: io_then_Inr_iff)
  have "settles w w0" using assms(1) m unfolding io_settles_def by (metis snd_conv)
  moreover have "advances w0 w'" using assms(2) k unfolding io_advances_def by (metis snd_conv)
  ultimately show ?thesis by (rule advances_trans2)
qed

lemma poll_attempt_advances:
  assumes "poll_attempt api secs tid baseUrl req n w = (Inr res, w1)"
  shows "advances w w1"
proof (rule advances_then)
  show "io_then (ensure_not_cancelled tid) (io_bind (io_peek rsVariables) (\<lambda>vars.
      let r = interpolate_request vars secs req in
      io_bind (http_execute api secs baseUrl r) (\<lambda>res.
      io_then (ensure_not_cancelled tid) (judge_response res r n)))) w = (Inr res, w1)"
    using assms unfolding poll_attempt_def .
  show "io_settles (ensure_not_cancelled tid)" by (rule io_settles_ensure)
  show "io_advances (io_bind (io_peek rsVariables) (\<lambda>vars.
      let r = interpolate_request vars secs req in
      io_bind (http_execute api secs baseUrl r) (\<lambda>res.
      io_then (ensure_not_cancelled tid) (judge_response res r n))))"
    unfolding Let_def
    by (intro io_advances_bind_peek io_advances_bind1 io_advances_http settle_rules)
qed

text \<open>
  The \<open>while\<close> loop of \<open>executePoll\<close>: the verdict that passed, or the last one and the number of
  attempts when time is up.
\<close>

function poll_loop ::
    "'x services \<Rightarrow> secrets \<Rightarrow> string \<Rightarrow> string \<Rightarrow> request_config \<Rightarrow> rat \<Rightarrow> rat \<Rightarrow> int \<Rightarrow> nat \<Rightarrow>
     step_result option \<Rightarrow> 'x runner_store world \<Rightarrow>
     (js_error + bool \<times> step_result option \<times> nat) \<times> 'x runner_store world" where
  "poll_loop api secs tid baseUrl req limit interval started attempts latest w =
     (if \<not> of_int (clock (store w) - started) \<le> limit then (Inr (False, latest, attempts), w)
      else (case poll_attempt api secs tid baseUrl req (attempts + 1) w of
          (Inl e, w1) \<Rightarrow> (Inl e, w1)
        | (Inr res, w1) \<Rightarrow>
            if srPassed res then (Inr (True, Some res, attempts + 1), w1)
            else (case sleep_ms tid
                    (min interval (max (limit - of_int (clock (store w1) - started)) 0)) w1 of
                (Inl e, w2) \<Rightarrow> (Inl e, w2)
              | (Inr _, w2) \<Rightarrow>
                  poll_loop api secs tid baseUrl req limit interval started (attempts + 1) (Some res) w2)))"
  by pat_completeness auto

termination poll_loop
proof (relation "measures [\<lambda>(api, secs, tid, b, req, limit, i, st, n, l, w). length (pending w),
    \<lambda>(api, secs, tid, b, req, limit, i, st, n, l, w). nat (\<lfloor>limit\<rfloor> + st + 1 - clock (store w))]",
    goal_cases)
  case 1
  show ?case by (rule wf_measures)
next
  case (2 api secs tid b req limit i st n l w r w1 res r2 w2 u)
  have "advances w w1"
    by (rule poll_attempt_advances[of api secs tid b req "n + 1" w res]) (use 2 in simp)
  moreover have "settles w1 w2"
    using io_settles_sleep[of tid "min i (max (limit - of_int (clock (store w1) - st)) 0)"] 2
    unfolding io_settles_def by (metis snd_conv)
  ultimately have adv: "advances w w2" by (rule advances_trans1)
  have "clock (store w) - st \<le> \<lfloor>limit\<rfloor>" using 2 by (simp add: le_floor_iff)
  with adv show ?case by (auto simp: advances_def)
qed

declare poll_loop.simps [simp del]

end
