(* ===== verification/Suite_Exec.thy ===== *)
theory Suite_Exec
  imports Step_Exec Plan_Compiler
begin

text \<open>
  One step of each kind and the loop over the suites of a run (\<open>executeStep\<close>, \<open>executeSuites\<close> and the
  methods they call in \<open>runner-orchestrator.service.ts\<close>).  Progress events, metrics and traces are
  left out; of the response preview only the masked response is kept.
\<close>

section \<open>Steps\<close>

definition step_outcome :: "bool \<Rightarrow> json option \<Rightarrow> step_result" where
  "step_outcome passed response =
     \<lparr>hrActualStatus = None, hrResponseBody = response, hrDurationMs = 0, hrErrorMessage = None,
      hrRequestHeaders = None, hrResponseHeaders = None, srPassed = passed, srAttempts = 1,
      srAssertions = []\<rparr>"

definition poll_timeout_message :: "string option \<Rightarrow> jsnum \<Rightarrow> string" where
  "poll_timeout_message msg timeout =
     (case msg of
        Some m \<Rightarrow> m
      | None \<Rightarrow> ''Poll timed out after ''
          @ (case timeout of Fin q \<Rightarrow> dec_int \<lfloor>q / 1000 + 1 / 2\<rfloor> | n \<Rightarrow> num_string n) @ '' seconds'')"

definition poll_result ::
    "string option \<Rightarrow> jsnum \<Rightarrow> int \<Rightarrow> bool \<times> step_result option \<times> nat \<Rightarrow> step_result" where
  "poll_result msg timeout duration r =
     (case r of (passed, latest, attempts) \<Rightarrow>
       (if passed then (the latest)\<lparr>hrDurationMs := duration, srAttempts := attempts\<rparr>
        else (case latest of None \<Rightarrow> step_outcome False None | Some l \<Rightarrow> l)
          \<lparr>srPassed := False, srAttempts := attempts, hrDurationMs := duration,
           hrErrorMessage := Some (poll_timeout_message msg timeout)\<rparr>))"

definition execute_poll ::
    "'x services \<Rightarrow> secrets \<Rightarrow> string \<Rightarrow> string \<Rightarrow> request_config \<Rightarrow> jsnum \<Rightarrow> jsnum \<Rightarrow> string option \<Rightarrow>
     ('x, step_result) runner" where
  "execute_poll api secs tid baseUrl req timeout interval msg =
     io_bind (io_peek clock) (\<lambda>started.
     io_bind (poll_loop api secs tid baseUrl req (num_limit (- 1) timeout) (num_limit 0 interval)
                started 0 None) (\<lambda>r.
     io_bind (io_peek clock) (\<lambda>now. io_return (poll_result msg timeout (now - started) r))))"

definition execute_wait :: "string \<Rightarrow> jsnum \<Rightarrow> ('x, step_result) runner" where
  "execute_wait tid duration =
     io_bind (io_peek clock) (\<lambda>started.
     io_then (sleep_ms tid (num_limit 0 duration))
     (io_bind (io_peek clock) (\<lambda>now.
      io_return ((step_outcome True (Some (JObj [(''waitedMs'', JNum duration)])))
        \<lparr>hrDurationMs := now - started\<rparr>))))"

definition execute_set_variable :: "string \<Rightarrow> json option \<Rightarrow> ('x, step_result) runner" where
  "execute_set_variable name v =
     (let val = the (coalesce v (Some (JStr []))) in
      io_then (io_modify (\<lambda>s. s\<lparr>rsVariables := AList.update name val (rsVariables s)\<rparr>))
        (io_return (step_outcome True (Some (JObj [(''name'', JStr name), (''value'', val)])))))"

definition resolve_assert_payload :: "string option \<Rightarrow> json obj \<Rightarrow> json option" where
  "resolve_assert_payload src responses =
     (if truthy_str src then map_of responses (the src)
      else if responses = [] then None else Some (snd (last responses)))"

definition execute_assert ::
    "string option \<Rightarrow> string \<Rightarrow> json option \<Rightarrow> json option \<Rightarrow> ('x, step_result) runner" where
  "execute_assert src fieldPath operator expected =
     io_bind (io_peek rsResponses) (\<lambda>responses.
     let payload = resolve_assert_payload src responses;
         evs = evaluate_all_assertions payload
           [\<lparr>yaFieldPath = fieldPath, yaOperator = operator, yaExpectedValue = expected\<rparr>]
     in io_return ((step_outcome (evPassed (hd evs)) payload)
          \<lparr>hrErrorMessage := evMessage (hd evs), srAssertions := evs\<rparr>))"

definition execute_step ::
    "'x services \<Rightarrow> secrets \<Rightarrow> string \<Rightarrow> string \<Rightarrow> exec_step \<Rightarrow> ('x, step_result) runner" where
  "execute_step api secs tid baseUrl test =
     (case sConfig test of
        SequenceConfig ids \<Rightarrow>
          io_return (step_outcome True (Some (JObj [(''stepIds'', JArr (map JStr ids))])))
      | WaitConfig d \<Rightarrow> execute_wait tid d
      | PollUntilConfig r t i m \<Rightarrow> execute_poll api secs tid baseUrl r t i m
      | SetVariableConfig n v f p \<Rightarrow> execute_set_variable n v
      | AssertConfig s f op e \<Rightarrow> execute_assert s f op e
      | ApiRequestConfig r \<Rightarrow> execute_request api secs tid baseUrl r)"

section \<open>What is recorded of a step\<close>

record step_meta =
  smMethod :: string
  smPath :: string
  smExpectedStatus :: json
  smRequestBody :: "json option"

definition get_step_meta :: "exec_step \<Rightarrow> step_meta" where
  "get_step_meta test =
     (case sConfig test of
        SequenceConfig ids \<Rightarrow> \<lparr>smMethod = ''SEQUENCE'', smPath = sId test,
          smExpectedStatus = JNum (Fin 0),
          smRequestBody = Some (JObj [(''stepIds'', JArr (map JStr ids))])\<rparr>
      | WaitConfig d \<Rightarrow> \<lparr>smMethod = ''WAIT'', smPath = ''delay'', smExpectedStatus = JNum (Fin 0),
          smRequestBody = Some (JObj [(''durationMs'', JNum d)])\<rparr>
      | PollUntilConfig r t i m \<Rightarrow> \<lparr>smMethod = to_upper (rqMethod r), smPath = rqPath r,
          smExpectedStatus = expected_status r, smRequestBody = rqJson r\<rparr>
      | SetVariableConfig n v f p \<Rightarrow> \<lparr>smMethod = ''SET'', smPath = n, smExpectedStatus = JNum (Fin 0),
          smRequestBody = Some (obj_of [(''name'', Some (JStr n)), (''value'', v),
            (''fromStepId'', map_option JStr f), (''path'', map_option JStr p)])\<rparr>
      | AssertConfig s f op e \<Rightarrow> \<lparr>smMethod = ''ASSERT'', smPath = f, smExpectedStatus = JNum (Fin 0),
          smRequestBody = Some (obj_of [(''sourceStepId'', map_option JStr s),
            (''fieldPath'', Some (JStr f)), (''operator'', op), (''expectedValue'', e)])\<rparr>
      | ApiRequestConfig r \<Rightarrow> \<lparr>smMethod = to_upper (rqMethod r), smPath = rqPath r,
          smExpectedStatus = expected_status r, smRequestBody = rqJson r\<rparr>)"

text \<open>\<open>sanitizeArtifactKeySegment\<close>: other characters become underscores, runs of them one, none at the ends.\<close>

fun squeeze :: "char \<Rightarrow> string \<Rightarrow> string" where
  "squeeze c (x # y # s) = (if x = c \<and> y = c then squeeze c (y # s) else x # squeeze c (y # s))"
| "squeeze c s = s"

definition sanitize_segment :: "string option \<Rightarrow> string \<Rightarrow> string" where
  "sanitize_segment v fallback =
     (let u = CHR ''_'';
          s = squeeze u (map (\<lambda>c. if is_word c \<or> c \<in> set ''.-'' then c else u)
                (case v of None \<Rightarrow> [] | Some s \<Rightarrow> s));
          t = rev (dropWhile (\<lambda>c. c = u) (rev (dropWhile (\<lambda>c. c = u) s)))
      in if t = [] then fallback else t)"

definition persist_response ::
    "'x services \<Rightarrow> string \<Rightarrow> string \<Rightarrow> json option \<Rightarrow> ('x, unit) runner" where
  "persist_response api tid stepId body =
     (case body of
        None \<Rightarrow> io_return ()
      | Some b \<Rightarrow> call_service (srvPutArtifact api
          (''runs/'' @ tid @ ''/responses/'' @ sanitize_segment (Some stepId) ''unknown-step'' @ ''.json.gz'') b))"

definition result_row_of ::
    "string list \<Rightarrow> exec_plan \<Rightarrow> exec_step \<Rightarrow> step_result \<Rightarrow> variables \<Rightarrow> result_row" where
  "result_row_of values plan test res vars =
     (let meta = get_step_meta test in
      \<lparr>rrStepId = sId test, rrStepType = step_type (sConfig test), rrSuiteName = pSuiteName plan,
       rrTestName = sName test, rrPassed = srPassed res, rrMethod = smMethod meta, rrPath = smPath meta,
       rrExpectedStatus = smExpectedStatus meta, rrActualStatus = hrActualStatus res,
       rrAttempts = srAttempts res, rrDurationMs = hrDurationMs res,
       rrRequestBody = map_option (mask_json values) (smRequestBody meta),
       rrResponse = map_option (mask_json values) (hrResponseBody res),
       rrErrorMessage = (if truthy_str (hrErrorMessage res)
         then map_option (mask_string values) (hrErrorMessage res) else None),
       rrAssertions = (if srAssertions res = [] then None else Some (srAssertions res)),
       rrVariables = mask_json values (JObj vars),
       rrRequestHeaders = map_option (\<lambda>h. mask_json values (JObj h)) (hrRequestHeaders res),
       rrResponseHeaders = map_option (\<lambda>h. mask_json values (JObj h)) (hrResponseHeaders res)\<rparr>)"

definition store_response :: "string \<Rightarrow> json option \<Rightarrow> 'x runner_store \<Rightarrow> 'x runner_store" where
  "store_response stepId body s =
     (case body of None \<Rightarrow> s | Some b \<Rightarrow> s\<lparr>rsResponses := AList.update stepId b (rsResponses s)\<rparr>)"

definition add_result :: "string \<Rightarrow> result_row \<Rightarrow> ('x, unit) runner" where
  "add_result tid row = io_call (\<lambda>s. (Inr (), s\<lparr>rsResults := rsResults s @ [(tid, row)]\<rparr>))"

text \<open>The body of the inner loop: one step of a plan, run, recorded and counted.\<close>

definition count_step :: "bool \<Rightarrow> run_stats \<Rightarrow> run_stats" where
  "count_step passed st =
     \<lparr>statTotal = statTotal st + 1, statPassed = statPassed st + (if passed then 1 else 0),
      statFailed = statFailed st + (if passed then 0 else 1)\<rparr>"

definition run_step ::
    "'x services \<Rightarrow> secrets \<Rightarrow> string list \<Rightarrow> string \<Rightarrow> string \<Rightarrow> exec_plan \<Rightarrow> exec_step \<Rightarrow> run_stats \<Rightarrow>
     ('x, run_stats) runner" where
  "run_step api secs values tid baseUrl plan test st =
     io_then (ensure_not_cancelled tid)
     (io_bind (execute_step api secs tid baseUrl test) (\<lambda>res.
      io_then (io_modify (store_response (sId test) (hrResponseBody res)))
      (io_then (persist_response api tid (sId test) (map_option (mask_json values) (hrResponseBody res)))
      (io_bind (io_peek rsVariables) (\<lambda>vars.
      io_then (add_result tid (result_row_of values plan test res vars))
        (io_return (count_step (srPassed res) st)))))))"

fun run_steps ::
    "'x services \<Rightarrow> secrets \<Rightarrow> string list \<Rightarrow> string \<Rightarrow> string \<Rightarrow> exec_plan \<Rightarrow> exec_step list \<Rightarrow> run_stats \<Rightarrow>
     ('x, run_stats) runner" where
  "run_steps api secs values tid baseUrl plan [] st = io_return st"
| "run_steps api secs values tid baseUrl plan (test # tests) st =
     io_bind (run_step api secs values tid baseUrl plan test st)
       (\<lambda>st'. run_steps api secs values tid baseUrl plan tests st')"

text \<open>
  A suite of the run; \<open>ruPlan\<close> is its stored plan when \<open>isExecutionPlan\<close> accepts the JSON, with the
  secrets' references replaced, and otherwise its YAML is compiled again.
\<close>

record run_suite =
  ruId :: string
  ruYaml :: string
  ruPlan :: "exec_plan option"

record yaml_library =
  localeCompare :: "string \<Rightarrow> string \<Rightarrow> int"
  yamlLoad :: "string \<Rightarrow> js_error + json option"
  yamlDump :: "json \<Rightarrow> string"

definition resolve_execution_plan :: "yaml_library \<Rightarrow> run_suite \<Rightarrow> js_error + exec_plan" where
  "resolve_execution_plan lib suite =
     (case ruPlan suite of
        Some p \<Rightarrow> Inr p
      | None \<Rightarrow> sbind (compile_raw_yaml (localeCompare lib) (yamlLoad lib) (yamlDump lib) (ruYaml suite)
            \<lparr>oSuiteRevisionId = Some (ruId suite), oTimeoutMs = None\<rparr>) (\<lambda>r. Inr (crPlan r)))"

fun run_suites ::
    "'x services \<Rightarrow> yaml_library \<Rightarrow> secrets \<Rightarrow> string list \<Rightarrow> string \<Rightarrow> string \<Rightarrow> run_suite list \<Rightarrow> run_stats \<Rightarrow>
     ('x, run_stats) runner" where
  "run_suites api lib secs values tid baseUrl [] st = io_return st"
| "run_suites api lib secs values tid baseUrl (suite # suites) st =
     io_bind (io_lift (resolve_execution_plan lib suite)) (\<lambda>plan.
     io_bind (run_steps api secs values tid baseUrl plan
                (filter (\<lambda>s. \<not> is_sequence s) (pSteps plan)) st) (\<lambda>st'.
     run_suites api lib secs values tid baseUrl suites st'))"

definition execute_suites ::
    "'x services \<Rightarrow> yaml_library \<Rightarrow> secrets \<Rightarrow> string list \<Rightarrow> string \<Rightarrow> string \<Rightarrow> run_suite list \<Rightarrow>
     ('x, run_stats) runner" where
  "execute_suites api lib secs values tid baseUrl suites =
     io_then (io_modify (\<lambda>s. s\<lparr>rsVariables := [], rsResponses := []\<rparr>))
       (run_suites api lib secs values tid baseUrl suites
          \<lparr>statTotal = 0, statPassed = 0, statFailed = 0\<rparr>)"

end
