(* ===== verification/Environment.thy ===== *)
theory Environment
  imports Step_Exec
begin

text \<open>
  The environment of a run: the guardrails on its Compose file (\<open>docker-compose-manager.service.ts\<close>),
  the images it names, and the wait for its health check (\<open>healthcheck.service.ts\<close>).
\<close>

section \<open>Guardrails\<close>

definition volume_source :: "json \<Rightarrow> json option" where
  "volume_source v = (case v of JStr s \<Rightarrow> Some v | _ \<Rightarrow> opt_prop (Some v) ''source'')"

definition forbidden_volume :: "json \<Rightarrow> bool" where
  "forbidden_volume v =
     (let s = option_string (volume_source v) in
      str_includes s ''/var/run/docker.sock'' \<or> s = ''/'')"

text \<open>What \<open>for (const volume of volumes)\<close> goes through: the elements of an array, the characters of a string.\<close>

definition iterated :: "json option \<Rightarrow> js_error + json list" where
  "iterated v =
     (if nullish v then Inr []
      else (case v of
          Some (JArr xs) \<Rightarrow> Inr xs
        | Some (JStr s) \<Rightarrow> Inr (map (\<lambda>c. JStr [c]) s)
        | _ \<Rightarrow> Inl (TypeError ''volumes is not iterable'')))"

definition validate_service :: "string \<times> json \<Rightarrow> js_error + unit" where
  "validate_service e =
     (case e of (name, service) \<Rightarrow>
       sbind (prop_of (Some service) ''privileged'') (\<lambda>privileged.
       if privileged = Some (JBool True)
       then Inl (BadRequestException (''Service '' @ name @ '' cannot use privileged mode''))
       else if json_get service ''network_mode'' = Some (JStr ''host'')
       then Inl (BadRequestException (''Service '' @ name @ '' cannot use host network mode''))
       else sbind (iterated (json_get service ''volumes'')) (\<lambda>volumes.
         if list_ex forbidden_volume volumes
         then Inl (BadRequestException (''Service '' @ name @ '' uses a forbidden volume mount''))
         else Inr ())))"

definition validate_compose :: "(string \<Rightarrow> js_error + json option) \<Rightarrow> string \<Rightarrow> js_error + unit" where
  "validate_compose yaml_load content =
     sbind (yaml_load content) (\<lambda>doc.
     case opt_prop doc ''services'' of
       None \<Rightarrow> Inl (BadRequestException ''Compose YAML must define services'')
     | Some services \<Rightarrow>
         if \<not> is_object services
         then Inl (BadRequestException ''Compose YAML must define services'')
         else sbind (traverse validate_service (entries_of services)) (\<lambda>_. Inr ()))"

text \<open>\<open>extractImageReferences\<close>: services with a non-empty image string; errors of the library give none.\<close>

definition service_image :: "string \<times> json \<Rightarrow> (string \<times> string) option" where
  "service_image e =
     (case e of (name, service) \<Rightarrow>
       (case opt_prop (Some service) ''image'' of
          Some (JStr s) \<Rightarrow> if s = [] then None else Some (name, s)
        | _ \<Rightarrow> None))"

definition extract_image_references ::
    "(string \<Rightarrow> js_error + json option) \<Rightarrow> string \<Rightarrow> (string \<times> string) list" where
  "extract_image_references yaml_load content =
     (case yaml_load content of
        Inl e \<Rightarrow> []
      | Inr doc \<Rightarrow>
          (case opt_prop doc ''services'' of
             None \<Rightarrow> []
           | Some services \<Rightarrow> List.map_filter service_image (entries_of services)))"

section \<open>Health check\<close>

record health_target =
  htUrl :: string
  htExpected :: int
  htTimeoutSeconds :: rat

record health_result =
  hlExpected :: int
  hlActual :: "int option"
  hlDurationMs :: int
  hlUrl :: string

text \<open>The body of the loop: a probe that answers as expected ends it; otherwise the new \<open>lastActualStatus\<close>
  and \<open>lastError\<close>.  An abort is thrown, whatever else went wrong.\<close>

definition probe ::
    "'x services \<Rightarrow> health_target \<Rightarrow> int \<Rightarrow> int option \<Rightarrow> ('x, health_result + int option \<times> string) runner" where
  "probe api t started lastActual =
     io_bind (io_peek rsAborted) (\<lambda>ab. case ab of
       Some e \<Rightarrow> io_throw e
     | None \<Rightarrow>
         io_catch
           (io_bind (call_service (srvProbe api (htUrl t))) (\<lambda>actual.
            io_bind (io_peek clock) (\<lambda>now.
            io_return (if actual = htExpected t
              then Inl \<lparr>hlExpected = htExpected t, hlActual = Some actual, hlDurationMs = now - started,
                        hlUrl = htUrl t\<rparr>
              else Inr (Some actual, ''Healthcheck '' @ htUrl t @ '' expected ''
                @ dec_int (htExpected t) @ '', got '' @ dec_int actual)))))
           (\<lambda>e. io_bind (io_peek rsAborted) (\<lambda>ab'. case ab' of
              Some r \<Rightarrow> io_throw r
            | None \<Rightarrow> io_return
                (Inr (lastActual, ''Healthcheck '' @ htUrl t @ '' failed: '' @ error_message e)))))"

text \<open>\<open>sleep\<close>: rejected when the signal is aborted before or while it waits.\<close>

definition abortable_sleep :: "rat \<Rightarrow> ('x, unit) runner" where
  "abortable_sleep ms =
     io_bind (io_peek rsAborted) (\<lambda>ab. case ab of
       Some e \<Rightarrow> io_throw e
     | None \<Rightarrow> io_then (timer ms) (io_bind (io_peek rsAborted) (\<lambda>ab'. case ab' of
         Some e \<Rightarrow> io_throw e | None \<Rightarrow> io_return ())))"

lemma io_settles_timer: "io_settles (timer ms)"
  by (simp add: io_settles_def advances_settles advances_timer)

lemma io_settles_probe [settle_rules]: "io_settles (probe api t st l)"
  unfolding probe_def
  by (intro settle_rules io_advances_settles[OF io_advances_service])

lemma abortable_sleep_advances:
  "abortable_sleep ms w = (Inr u, w') \<Longrightarrow> advances w w'"
  using advances_timer[of w ms]
  by (auto simp: abortable_sleep_def io_bind_def io_then_def io_peek_def io_throw_def io_return_def
      split: option.splits prod.splits sum.splits)

function wait_for ::
    "'x services \<Rightarrow> health_target \<Rightarrow> int \<Rightarrow> rat \<Rightarrow> int option \<Rightarrow> string \<Rightarrow> 'x runner_store world \<Rightarrow>
     (js_error + health_result) \<times> 'x runner_store world" where
  "wait_for api t started deadline lastActual lastError w =
     (if \<not> of_int (clock (store w)) < deadline
      then (Inl (HealthcheckError lastError (htUrl t) (htExpected t) lastActual
              (clock (store w) - started)), w)
      else (case probe api t started lastActual w of
          (Inl e, w1) \<Rightarrow> (Inl e, w1)
        | (Inr (Inl ok), w1) \<Rightarrow> (Inr ok, w1)
        | (Inr (Inr (actual, err)), w1) \<Rightarrow>
            (case abortable_sleep 1000 w1 of
               (Inl e, w2) \<Rightarrow> (Inl e, w2)
             | (Inr _, w2) \<Rightarrow> wait_for api t started deadline actual err w2)))"
  by pat_completeness auto

termination wait_for
proof (relation "measures [\<lambda>(api, t, st, d, a, e, w). length (pending w),
    \<lambda>(api, t, st, d, a, e, w). nat (\<lceil>d\<rceil> - clock (store w))]", goal_cases)
  case 1
  show ?case by (rule wf_measures)
next
  case (2 api t st d a e w r w1 r1 r2 actual err r3 w2 u)
  have "settles w w1"
    using io_settles_probe[of api t st a] 2 unfolding io_settles_def by (metis snd_conv)
  moreover have "advances w1 w2"
    by (rule abortable_sleep_advances[of 1000 w1 u]) (use 2 in simp)
  ultimately have "advances w w2" by (rule advances_trans2)
  from loop_measure[OF this, of d] 2 show ?case by auto
qed

declare wait_for.simps [simp del]

definition wait_for_health :: "'x services \<Rightarrow> health_target \<Rightarrow> ('x, health_result) runner" where
  "wait_for_health api t w =
     (let started = clock (store w) in
      wait_for api t started (of_int started + htTimeoutSeconds t * 1000) None
        ''Healthcheck did not complete'' w)"

section \<open>Properties\<close>

lemma probe_result:
  "probe api t st a w = (r, w') \<Longrightarrow>
   (case r of
      Inl e \<Rightarrow> rsAborted (store w') = Some e
    | Inr (Inl ok) \<Rightarrow> hlActual ok = Some (htExpected t) \<and> hlUrl ok = htUrl t
    | Inr (Inr (a', m)) \<Rightarrow> a \<noteq> Some (htExpected t) \<longrightarrow> a' \<noteq> Some (htExpected t))"
  by (auto simp: probe_def io_bind_def io_catch_def io_peek_def io_return_def io_throw_def
      split: option.splits prod.splits sum.splits if_splits)

lemma abortable_sleep_fails:
  "abortable_sleep ms w = (Inl e, w') \<Longrightarrow> rsAborted (store w') = Some e"
  by (auto simp: abortable_sleep_def io_bind_def io_then_def io_peek_def io_return_def io_throw_def
      timer_def Let_def split: option.splits prod.splits sum.splits list.splits)

lemma wait_for_result:
  "wait_for api t st d a m w = (r, w') \<Longrightarrow> a \<noteq> Some (htExpected t) \<Longrightarrow>
   (case r of
      Inr ok \<Rightarrow> hlActual ok = Some (htExpected t) \<and> hlUrl ok = htUrl t
    | Inl e \<Rightarrow> rsAborted (store w') = Some e
        \<or> (\<exists>m' a'. e = HealthcheckError m' (htUrl t) (htExpected t) a' (clock (store w') - st)
            \<and> a' \<noteq> Some (htExpected t) \<and> d \<le> of_int (clock (store w'))))"
proof (induction api t st d a m w rule: wait_for.induct)
  case (1 api t st d a m w)
  show ?case
  proof (cases "of_int (clock (store w)) < d")
    case False
    with "1.prems" show ?thesis by (subst (asm) wait_for.simps) (auto simp: not_less)
  next
    case True
    obtain q w1 where p: "probe api t st a w = (q, w1)" by force
    note pr = probe_result[OF p]
    show ?thesis
    proof (cases q)
      case (Inl e)
      with pr p True "1.prems" show ?thesis by (subst (asm) wait_for.simps) auto
    next
      case q: (Inr x)
      show ?thesis
      proof (cases x)
        case (Inl ok)
        with pr p q True "1.prems" show ?thesis by (subst (asm) wait_for.simps) auto
      next
        case (Inr y)
        obtain a' m' where y: "y = (a', m')" by force
        obtain z w2 where s: "abortable_sleep 1000 w1 = (z, w2)" by force
        have a': "a' \<noteq> Some (htExpected t)" using pr q Inr y "1.prems" by simp
        show ?thesis
        proof (cases z)
          case (Inl e)
          with p q Inr y s True "1.prems" abortable_sleep_fails[of 1000 w1 e w2] \<open>x = Inr y\<close>
          show ?thesis by (subst (asm) wait_for.simps) auto
        next
          case (Inr u)
          have "wait_for api t st d a' m' w2 = (r, w')"
            using p q \<open>x = Inr y\<close> y s Inr True "1.prems" by (subst (asm) wait_for.simps) auto
          then show ?thesis
            using "1.IH"[OF _ p[symmetric] q \<open>x = Inr y\<close> y[symmetric] s[symmetric] Inr] True a' by simp
        qed
      qed
    qed
  qed
qed

text \<open>
  A health check that passes has seen the expected status; one that fails was aborted (and throws
  the abort's reason), or has waited its whole timeout without the expected status as its last answer,
  and reports how long.  It always ends, whatever other clients do meanwhile.
\<close>

theorem health_check_outcome:
  "case wait_for_health api t w of (r, w') \<Rightarrow>
   (case r of
      Inr ok \<Rightarrow> hlActual ok = Some (htExpected t) \<and> hlUrl ok = htUrl t
    | Inl e \<Rightarrow> rsAborted (store w') = Some e
        \<or> (\<exists>m a ms. e = HealthcheckError m (htUrl t) (htExpected t) a ms \<and> a \<noteq> Some (htExpected t)
            \<and> ms = clock (store w') - clock (store w) \<and> htTimeoutSeconds t * 1000 \<le> of_int ms))"
proof -
  obtain r w' where "wait_for_health api t w = (r, w')" by force
  then show ?thesis
    using wait_for_result[of api t "clock (store w)" "of_int (clock (store w)) + htTimeoutSeconds t * 1000"
        None "''Healthcheck did not complete''" w r w']
    by (cases r) (auto simp: wait_for_health_def Let_def)
qed

lemma validate_service_accepts:
  "validate_service (name, s) = Inr u \<longleftrightarrow>
   s \<noteq> JNull \<and> json_get s ''privileged'' \<noteq> Some (JBool True)
   \<and> json_get s ''network_mode'' \<noteq> Some (JStr ''host'')
   \<and> (\<exists>vs. iterated (json_get s ''volumes'') = Inr vs \<and> (\<forall>v\<in>set vs. \<not> forbidden_volume v))"
  by (cases s) (auto simp: validate_service_def prop_of_def list_ex_iff split: if_splits)

lemma all_validated:
  "(\<forall>e\<in>set es. \<exists>u. validate_service e = Inr u) \<longleftrightarrow>
   list_all (\<lambda>(name, s). s \<noteq> JNull \<and> json_get s ''privileged'' \<noteq> Some (JBool True)
     \<and> json_get s ''network_mode'' \<noteq> Some (JStr ''host'')
     \<and> (\<exists>vs. iterated (json_get s ''volumes'') = Inr vs \<and> list_all (\<lambda>v. \<not> forbidden_volume v) vs)) es"
  unfolding list_all_iff
  by (rule ball_cong[OF refl]) (auto simp: validate_service_accepts)

lemma traverse_unit_iff: "(\<exists>us. traverse f xs = Inr us) \<longleftrightarrow> (\<forall>x\<in>set xs. \<exists>u. f x = Inr u)"
  by (induction xs) auto

text \<open>
  The guardrail accepts exactly the Compose files whose \<open>services\<close> is an object in which no service
  is privileged, is on the host network, or mounts the Docker socket or the root as its source.
\<close>

theorem compose_guardrail:
  "(\<exists>u. validate_compose yaml_load content = Inr u) =
   (\<exists>doc services. yaml_load content = Inr doc \<and> opt_prop doc ''services'' = Some services
      \<and> is_object services
      \<and> list_all (\<lambda>(name, s). s \<noteq> JNull \<and> json_get s ''privileged'' \<noteq> Some (JBool True)
          \<and> json_get s ''network_mode'' \<noteq> Some (JStr ''host'')
          \<and> (\<exists>vs. iterated (json_get s ''volumes'') = Inr vs \<and> list_all (\<lambda>v. \<not> forbidden_volume v) vs))
          (entries_of services))"
proof (cases "yaml_load content")
  case (Inl e)
  then show ?thesis by (simp add: validate_compose_def)
next
  case (Inr doc)
  show ?thesis
  proof (cases "opt_prop doc ''services''")
    case None
    with Inr show ?thesis by (simp add: validate_compose_def)
  next
    case (Some services)
    have "(\<exists>us. traverse validate_service (entries_of services) = Inr us) \<longleftrightarrow>
        (\<forall>e\<in>set (entries_of services). \<exists>u. validate_service e = Inr u)"
      by (rule traverse_unit_iff)
    with Inr Some show ?thesis
      unfolding all_validated by (simp add: validate_compose_def)
  qed
qed

definition root_mount_compose :: "json" where
  "root_mount_compose = JObj [(''services'', JObj [(''app'', JObj
     [(''image'', JStr ''app''), (''volumes'', JArr [JStr ''/:/host''])])])]"

text \<open>
  The short form \<open>/:/host\<close> mounts the root of the host and passes the guardrail, which compares the
  whole entry, target included, with the root; the long form with the same source is refused.
\<close>

theorem root_mount_passes_guardrail:
  "validate_compose (\<lambda>_. Inr (Some root_mount_compose)) content = Inr ()
   \<and> forbidden_volume (JObj [(''type'', JStr ''bind''), (''source'', JStr ''/''), (''target'', JStr ''/host'')])"
  by code_simp

end
