(* ===== verification/Orchestrator.thy ===== *)
theory Orchestrator
  imports Suite_Exec Environment
begin

text \<open>
  \<open>RunnerOrchestratorService.executeInternal\<close>: a worker's whole treatment of one run, with the timers
  that watch for cancellation and renew the lease.  The local variables of the method that its
  \<open>catch\<close> and \<open>finally\<close> clauses read (workspace, Docker flag, secrets, abort signal) are fields of the
  runner's store.  Progress events, metrics, traces and the ambient logging context are left out.
\<close>

section \<open>What the run refers to\<close>

text \<open>
  The immutable rows the run includes.  \<open>sqPlan\<close> is \<open>sqPlanJson\<close> read as a plan; it is used only when
  \<open>isExecutionPlan\<close> accepts the JSON.
\<close>

record environment_revision =
  erDocker :: bool
  erCompose :: string
  erRuntime :: string
  erVisual :: "json option"

record suite_revision =
  sqId :: string
  sqYaml :: string
  sqPlanJson :: "json option"
  sqPlan :: exec_plan
  sqVisual :: "json option"

record run_inputs =
  riBaseUrl :: string
  riHealthPath :: string
  riHealthStatus :: int
  riHealthTimeout :: rat
  riEnvironment :: "environment_revision option"
  riSuites :: "suite_revision list"

record runner_config =
  rcRunner :: string
  rcLease :: int
  rcRoot :: string
  rcUrl :: "string \<Rightarrow> string \<Rightarrow> js_error + string"
  rcDecrypt :: "string \<Rightarrow> int \<Rightarrow> string"
  rcYaml :: yaml_library

definition is_execution_plan :: "json option \<Rightarrow> bool" where
  "is_execution_plan v =
     (case v of
        None \<Rightarrow> False
      | Some j \<Rightarrow> is_object j \<and> json_get j ''schemaVersion'' = Some (JStr ''execution-plan/v1'')
          \<and> (case json_get j ''suiteName'' of Some (JStr _) \<Rightarrow> True | _ \<Rightarrow> False)
          \<and> (case json_get j ''steps'' of Some (JArr _) \<Rightarrow> True | _ \<Rightarrow> False)
          \<and> (case json_get j ''dependencies'' of Some d \<Rightarrow> is_object d | None \<Rightarrow> False))"

section \<open>Helpers\<close>

definition log_plain :: "'x services \<Rightarrow> string \<Rightarrow> string \<Rightarrow> string \<Rightarrow> ('x, unit) runner" where
  "log_plain api tid source message = call_service (srvAppendLog api tid source message)"

definition log_masked :: "'x services \<Rightarrow> string \<Rightarrow> string \<Rightarrow> string \<Rightarrow> ('x, unit) runner" where
  "log_masked api tid source message =
     io_bind (io_peek rsMaskValues) (\<lambda>values. log_plain api tid source (mask_string values message))"

definition safe_docker_logs :: "'x services \<Rightarrow> string \<Rightarrow> ('x, string) runner" where
  "safe_docker_logs api workspace =
     io_catch (call_service (srvDocker api [''logs'', ''--no-color''] workspace))
       (\<lambda>e. io_return (error_message e))"

definition docker_up :: "'x services \<Rightarrow> string \<Rightarrow> ('x, string) runner" where
  "docker_up api workspace = call_service (srvDocker api [''up'', ''-d'', ''--build''] workspace)"

definition docker_down :: "'x services \<Rightarrow> string \<Rightarrow> ('x, string) runner" where
  "docker_down api workspace = call_service (srvDocker api [''down'', ''-v''] workspace)"

definition generate_report :: "'x services \<Rightarrow> string \<Rightarrow> ('x, unit) runner" where
  "generate_report api tid = io_ignore (call_service (srvReport api tid))"

definition create_workspace :: "'x services \<Rightarrow> runner_config \<Rightarrow> string \<Rightarrow> ('x, string) runner" where
  "create_workspace api cfg tid =
     (let workspace = rcRoot cfg @ ''/'' @ tid in
      io_then (call_service (srvMakeDir api workspace)) (io_return workspace))"

definition cleanup_workspace :: "'x services \<Rightarrow> string \<Rightarrow> string \<Rightarrow> ('x, string option) runner" where
  "cleanup_workspace api tid workspace =
     io_bind
       (io_catch (io_then (docker_down api workspace) (io_return None))
          (\<lambda>e. io_then (io_ignore (log_masked api tid ''ERROR'' (error_message e)))
                 (io_return (Some (error_message e))))) (\<lambda>cleanup.
     io_catch (io_then (call_service (srvRemoveDir api workspace)) (io_return cleanup))
       (\<lambda>e. io_bind (io_peek rsMaskValues) (\<lambda>values.
          io_return (Some (mask_string values (error_message e))))))"

definition merge_execution_metadata ::
    "string \<Rightarrow> json obj \<Rightarrow> ('a run_store_scheme, unit) io" where
  "merge_execution_metadata tid patch =
     io_bind (find_run tid) (\<lambda>found.
     let existing = (case found of None \<Rightarrow> [] | Some r \<Rightarrow> executionMetadata r) in
     io_bind (update_many tid (\<lambda>_. True)
        (\<lambda>r. r\<lparr>executionMetadata := merge_entries existing patch\<rparr>)) (\<lambda>count.
     if count = 0 then io_throw (PlainError ''No record was found for an update'') else io_return ()))"

definition failure_category_for ::
    "string \<Rightarrow> string \<Rightarrow> ('a run_store_scheme, failure_category) io" where
  "failure_category_for tid message =
     io_bind (find_run tid) (\<lambda>found.
     let st = map_option status found in io_return
      (if st = Some VALIDATING_ENVIRONMENT then ENVIRONMENT_VALIDATION
       else if st = Some PULLING_IMAGES \<or> includes_ci message ''pull'' \<or> includes_ci message ''image''
       then IMAGE_PULL
       else if st = Some STARTING_ENVIRONMENT then CONTAINER_START
       else if st = Some WAITING_FOR_HEALTHCHECK
       then (if includes_ci message ''timeout'' \<or> includes_ci message ''timed out'' then TIMEOUT else HEALTHCHECK)
       else if includes_ci message ''network'' \<or> includes_ci message ''ECONN''
         \<or> includes_ci message ''ENOTFOUND'' \<or> includes_ci message ''EAI_AGAIN''
       then NETWORK else INTERNAL))"

section \<open>The timers\<close>

text \<open>
  \<open>createExecutionContext\<close> starts two timers, which act between the awaited calls of the worker: they
  are part of the interference.  A tick does nothing once the context is stopped or aborted.
\<close>

definition create_execution_context :: "('x, unit) runner" where
  "create_execution_context = io_modify (\<lambda>s. s\<lparr>rsStopped := False, rsAborted := None\<rparr>)"

definition stop_context :: "('x, unit) runner" where
  "stop_context = io_modify (\<lambda>s. s\<lparr>rsStopped := True\<rparr>)"

definition abort_with :: "js_error \<Rightarrow> ('x, unit) runner" where
  "abort_with e = io_modify (\<lambda>s. if rsAborted s = None then s\<lparr>rsAborted := Some e\<rparr> else s)"

definition abort_if_cancellation_requested :: "string \<Rightarrow> ('x, unit) runner" where
  "abort_if_cancellation_requested tid =
     io_bind (io_peek (\<lambda>s. rsStopped s \<or> rsAborted s \<noteq> None)) (\<lambda>idle.
     if idle then io_return ()
     else io_ignore (io_bind (is_cancellation_requested tid) (\<lambda>b.
       if b then abort_with TestRunCancellationError else io_return ())))"

definition lease_lost :: js_error where
  "lease_lost = PlainError ''Test run execution lease was lost''"

definition renew_lease_tick :: "runner_config \<Rightarrow> string \<Rightarrow> ('x, unit) runner" where
  "renew_lease_tick cfg tid =
     io_bind (io_peek (\<lambda>s. rsStopped s \<or> rsAborted s \<noteq> None)) (\<lambda>idle.
     if idle then io_return ()
     else io_catch (io_bind (renew_lease tid (rcRunner cfg) (rcLease cfg)) (\<lambda>renewed.
         if renewed then io_return () else abort_with lease_lost))
       (\<lambda>_. abort_with lease_lost))"

section \<open>The phases of a run\<close>

definition claim_or_skip :: "runner_config \<Rightarrow> string \<Rightarrow> ('x, bool) runner" where
  "claim_or_skip cfg tid =
     io_catch
       (io_then (claim tid (Some \<lparr>leaseRunner = rcRunner cfg, leaseDuration = rcLease cfg\<rparr>)) (io_return True))
       (\<lambda>e. if includes_ci (error_message e) ''active execution lease''
             then io_bind (is_cancellation_requested tid) (\<lambda>b.
               if b then io_throw TestRunCancellationError else io_return False)
             else io_throw e)"

text \<open>\<open>resolveForRun\<close> and its result in the runner's store.\<close>

definition referenced_keys :: "run_inputs \<Rightarrow> environment_revision \<Rightarrow> string list" where
  "referenced_keys inp er = find_referenced_keys
     ([Some (JStr (erCompose er)), Some (JStr (erRuntime er)), erVisual er]
      @ concat (map (\<lambda>q. [Some (JStr (sqYaml q)), sqPlanJson q, sqVisual q]) (riSuites inp)))"

definition resolve_for_run ::
    "'x services \<Rightarrow> runner_config \<Rightarrow> run_inputs \<Rightarrow> environment_revision \<Rightarrow> ('x, secrets) runner" where
  "resolve_for_run api cfg inp er =
     (let keys = referenced_keys inp er in
      if keys = [] then io_return []
      else io_bind (call_service (srvSecretRows api keys)) (\<lambda>rows.
        let missing = filter (\<lambda>k. k \<notin> srKey ` set rows) keys in
        if missing \<noteq> []
        then io_throw (BadRequestException (''Missing project secret(s): '' @ join_with '', '' missing))
        else io_then (call_service (srvSecretsUsed api keys))
          (io_return (from_entries
             (map (\<lambda>r. (srKey r, rcDecrypt cfg (srEncryptedValue r) (srKeyVersion r))) rows)))))"

definition materialize_suite :: "secrets \<Rightarrow> suite_revision \<Rightarrow> run_suite" where
  "materialize_suite secs q =
     \<lparr>ruId = sqId q, ruYaml = replace_string_references secs (sqYaml q),
      ruPlan = (if is_execution_plan (map_option (replace_references secs) (sqPlanJson q))
                then Some (replace_in_plan secs (sqPlan q)) else None)\<rparr>"

definition prepare_phase ::
    "'x services \<Rightarrow> runner_config \<Rightarrow> string \<Rightarrow> run_inputs \<Rightarrow> environment_revision \<Rightarrow>
     ('x, run_suite list) runner" where
  "prepare_phase api cfg tid inp er =
     io_then (enter_phase tid PREPARING_WORKSPACE)
     (io_bind (create_workspace api cfg tid) (\<lambda>workspace.
      io_then (io_modify (\<lambda>s. s\<lparr>rsWorkspace := workspace\<rparr>))
      (io_then (log_plain api tid ''SYSTEM'' ''Preparing isolated local workspace'')
      (io_then (io_modify (\<lambda>s. s\<lparr>rsUsesDocker := erDocker er\<rparr>))
      (io_bind (resolve_for_run api cfg inp er) (\<lambda>secs.
       io_then (io_modify (\<lambda>s. s\<lparr>rsSecrets := secs, rsMaskValues := create_context (map snd secs)\<rparr>))
         (io_return (map (materialize_suite secs) (riSuites inp)))))))))"

definition image_json :: "string \<times> string \<Rightarrow> json" where
  "image_json e = JObj [(''serviceName'', JStr (fst e)), (''image'', JStr (snd e))]"

definition validate_phase ::
    "'x services \<Rightarrow> runner_config \<Rightarrow> string \<Rightarrow> environment_revision \<Rightarrow> run_suite list \<Rightarrow> ('x, unit) runner" where
  "validate_phase api cfg tid er suites =
     io_then (enter_phase tid VALIDATING_ENVIRONMENT)
     (io_bind (io_peek rsSecrets) (\<lambda>secs.
      io_bind (io_peek rsWorkspace) (\<lambda>workspace.
      let compose = replace_string_references secs (erCompose er);
          runtime = replace_string_references secs (erRuntime er) in
      io_then
        (if erDocker er
         then io_then (io_lift (validate_compose (yamlLoad (rcYaml cfg)) compose))
           (io_then (merge_execution_metadata tid
              [(''usesDockerCompose'', JBool True),
               (''environmentResult'', JObj [(''status'', JStr ''passed''), (''validationPassed'', JBool True)]),
               (''imageReferences'', JArr (map image_json (extract_image_references (yamlLoad (rcYaml cfg)) compose)))])
              (call_service (srvWriteFile api (workspace @ ''/docker-compose.test.yml'') compose)))
         else merge_execution_metadata tid
           [(''usesDockerCompose'', JBool False),
            (''environmentResult'', JObj [(''status'', JStr ''skipped''), (''validationPassed'', JBool True)]),
            (''imageReferences'', JArr [])])
      (io_then (call_service (srvWriteFile api (workspace @ ''/backend-test.yml'') runtime))
      (io_then (call_service (srvMakeDir api (workspace @ ''/tests'')))
        (io_for suites (\<lambda>q. call_service
           (srvWriteFile api (workspace @ ''/tests/'' @ ruId q @ ''.yml'') (ruYaml q)))))))))"

definition start_phase :: "'x services \<Rightarrow> string \<Rightarrow> environment_revision \<Rightarrow> ('x, unit) runner" where
  "start_phase api tid er =
     io_bind (io_peek rsWorkspace) (\<lambda>workspace.
     if erDocker er
     then io_then (enter_phase tid PULLING_IMAGES)
       (io_then (log_plain api tid ''SYSTEM'' ''Preparing docker images'')
       (io_then (enter_phase tid STARTING_ENVIRONMENT)
       (io_then (log_plain api tid ''SYSTEM'' ''Starting docker compose environment'')
       (io_then (docker_up api workspace) (io_return ())))))
     else io_then (enter_phase tid PULLING_IMAGES)
       (io_then (log_plain api tid ''SYSTEM'' ''Skipping docker image preparation'')
       (io_then (enter_phase tid STARTING_ENVIRONMENT)
         (log_plain api tid ''SYSTEM'' ''Using already running environment''))))"

definition health_json :: "string \<Rightarrow> health_result \<Rightarrow> string option \<Rightarrow> json obj" where
  "health_json verdict h message =
     [(''healthcheckResult'', JObj (present
        [(''status'', Some (JStr verdict)),
         (''expectedStatus'', Some (JNum (Fin (of_int (hlExpected h))))),
         (''actualStatus'', status_json (hlActual h)),
         (''durationMs'', Some (JNum (Fin (of_int (hlDurationMs h))))),
         (''url'', Some (JStr (hlUrl h))),
         (''message'', map_option JStr message)]))]"

definition read_healthcheck_failure :: "js_error \<Rightarrow> (health_result \<times> string) option" where
  "read_healthcheck_failure e =
     (case e of
        HealthcheckError m u x a ms \<Rightarrow>
          Some (\<lparr>hlExpected = x, hlActual = a, hlDurationMs = ms, hlUrl = u\<rparr>, m)
      | _ \<Rightarrow> None)"

definition health_phase ::
    "'x services \<Rightarrow> runner_config \<Rightarrow> string \<Rightarrow> run_inputs \<Rightarrow> ('x, unit) runner" where
  "health_phase api cfg tid inp =
     io_then (enter_phase tid WAITING_FOR_HEALTHCHECK)
     (io_bind
        (io_catch
          (io_bind (io_lift (rcUrl cfg (riHealthPath inp) (riBaseUrl inp))) (\<lambda>url.
           wait_for_health api \<lparr>htUrl = url, htExpected = riHealthStatus inp,
             htTimeoutSeconds = riHealthTimeout inp\<rparr>))
          (\<lambda>e. case read_healthcheck_failure e of
             None \<Rightarrow> io_throw e
           | Some (h, m) \<Rightarrow>
               io_then (merge_execution_metadata tid (health_json ''failed'' h (Some m))) (io_throw e)))
        (\<lambda>h. merge_execution_metadata tid (health_json ''passed'' h None)))"

definition execute_phase ::
    "'x services \<Rightarrow> runner_config \<Rightarrow> string \<Rightarrow> run_inputs \<Rightarrow> run_suite list \<Rightarrow> ('x, run_stats) runner" where
  "execute_phase api cfg tid inp suites =
     io_then (enter_phase tid EXECUTING_TESTS)
     (io_bind (io_peek rsSecrets) (\<lambda>secs.
      io_bind (io_peek rsMaskValues) (\<lambda>values.
        execute_suites api (rcYaml cfg) secs values tid (riBaseUrl inp) suites)))"

definition collect_phase :: "'x services \<Rightarrow> string \<Rightarrow> ('x, unit) runner" where
  "collect_phase api tid =
     io_then (enter_phase tid COLLECTING_ARTIFACTS)
     (io_bind (io_peek rsWorkspace) (\<lambda>workspace.
      io_bind (io_peek rsUsesDocker) (\<lambda>uses.
      io_bind (if uses then safe_docker_logs api workspace else io_return []) (\<lambda>logs.
      if logs \<noteq> [] then log_masked api tid ''DOCKER'' logs else io_return ()))))"

definition final_cleanup :: "'x services \<Rightarrow> string \<Rightarrow> ('x, string option) runner" where
  "final_cleanup api tid =
     io_bind (io_peek rsWorkspace) (\<lambda>workspace.
     if workspace \<noteq> []
     then io_bind (cleanup_workspace api tid workspace) (\<lambda>c.
       io_then (io_modify (\<lambda>s. s\<lparr>rsWorkspace := []\<rparr>)) (io_return c))
     else io_return None)"

definition record_verdict ::
    "'x services \<Rightarrow> string \<Rightarrow> run_stats \<Rightarrow> int \<Rightarrow> string option \<Rightarrow> bool \<Rightarrow> ('x, unit) runner" where
  "record_verdict api tid st duration cleanup cancelled =
     (if cancelled then io_then (mark_cancelled tid (Some duration) cleanup) (io_return ())
      else if statFailed st > 0
      then io_then (mark_test_failed tid st duration
             (dec_nat (statFailed st) @ '' test assertion(s) failed'')) (io_return ())
      else io_bind (mark_passed tid st duration) (\<lambda>final.
        io_bind (io_peek clock) (\<lambda>now.
        call_service (srvFirstSuccess api (projectId final)
          (case finishedAt final of Some t \<Rightarrow> t | None \<Rightarrow> now)))))"

definition finish_phase :: "'x services \<Rightarrow> string \<Rightarrow> int \<Rightarrow> run_stats \<Rightarrow> ('x, unit) runner" where
  "finish_phase api tid started st =
     io_then (enter_phase tid CLEANING_UP)
     (io_bind (final_cleanup api tid) (\<lambda>cleanup.
      io_bind (is_cancellation_requested tid) (\<lambda>cancelled.
      io_bind (io_peek (\<lambda>s. clock s - started)) (\<lambda>duration.
      io_then (record_verdict api tid st duration cleanup cancelled) (generate_report api tid)))))"

section \<open>The whole run\<close>

definition execute_claimed ::
    "'x services \<Rightarrow> runner_config \<Rightarrow> string \<Rightarrow> run_inputs \<Rightarrow> environment_revision \<Rightarrow> int \<Rightarrow>
     ('x, unit) runner" where
  "execute_claimed api cfg tid inp er started =
     io_then create_execution_context
     (io_then (ensure_not_cancelled tid)
     (io_bind (prepare_phase api cfg tid inp er) (\<lambda>suites.
      io_then (validate_phase api cfg tid er suites)
      (io_then (ensure_not_cancelled tid)
      (io_then (start_phase api tid er)
      (io_then (ensure_not_cancelled tid)
      (io_then (health_phase api cfg tid inp)
      (io_bind (execute_phase api cfg tid inp suites) (\<lambda>st.
       io_then (collect_phase api tid)
         (finish_phase api tid started st))))))))))"

definition run_body ::
    "'x services \<Rightarrow> runner_config \<Rightarrow> string \<Rightarrow> run_inputs \<Rightarrow> int \<Rightarrow> ('x, unit) runner" where
  "run_body api cfg tid inp started =
     io_bind (find_run tid) (\<lambda>found. case found of
       None \<Rightarrow> io_throw (NotFoundException ''Test run not found'')
     | Some row \<Rightarrow>
         io_bind (is_cancellation_requested tid) (\<lambda>cancelled.
         if cancelled
         then io_then (io_ignore (request_cancel tid None None))
           (io_bind (io_peek (\<lambda>s. clock s - started)) (\<lambda>duration.
            io_then (mark_cancelled tid (Some duration) None) (generate_report api tid)))
         else if status row \<noteq> QUEUED then io_return ()
         else (case riEnvironment inp of
             None \<Rightarrow> io_throw (PlainError ''Environment config revision is required before running tests'')
           | Some er \<Rightarrow>
               if riSuites inp = []
               then io_throw (PlainError ''At least one test suite revision is required'')
               else io_bind (claim_or_skip cfg tid) (\<lambda>claimed.
                 if claimed then execute_claimed api cfg tid inp er started else io_return ()))))"

text \<open>The \<open>catch\<close> clause.\<close>

definition cleanup_after_error :: "'x services \<Rightarrow> string \<Rightarrow> ('x, string option) runner" where
  "cleanup_after_error api tid =
     io_bind (io_peek rsWorkspace) (\<lambda>workspace.
     if workspace \<noteq> []
     then io_catch (cleanup_workspace api tid workspace)
       (\<lambda>e. io_bind (io_peek rsMaskValues) (\<lambda>values.
          io_return (Some (mask_string values (''Error: '' @ error_message e)))))
     else io_return None)"

definition cancel_after_error :: "'x services \<Rightarrow> string \<Rightarrow> int \<Rightarrow> ('x, unit) runner" where
  "cancel_after_error api tid started =
     io_then (io_ignore (request_cancel tid None None))
     (io_bind (cleanup_after_error api tid) (\<lambda>cleanup.
      io_then (io_modify (\<lambda>s. s\<lparr>rsWorkspace := []\<rparr>))
      (io_bind (io_peek (\<lambda>s. clock s - started)) (\<lambda>duration.
       io_ignore (mark_cancelled tid (Some duration) cleanup)))))"

definition is_timeout_error :: "js_error \<Rightarrow> bool" where
  "is_timeout_error e = (case e of TestRunTimeoutError m \<Rightarrow> True | _ \<Rightarrow> False)"

definition fail_after_error :: "string \<Rightarrow> int \<Rightarrow> js_error \<Rightarrow> string \<Rightarrow> ('x, unit) runner" where
  "fail_after_error tid started e message =
     (if is_timeout_error e
      then io_bind (io_peek (\<lambda>s. clock s - started)) (\<lambda>duration.
        io_ignore (mark_timed_out tid message (Some duration)))
      else io_bind (failure_category_for tid message) (\<lambda>category.
        io_bind (io_peek (\<lambda>s. clock s - started)) (\<lambda>duration.
        if category = TIMEOUT then io_ignore (mark_timed_out tid message (Some duration))
        else io_ignore (mark_infra_failed tid category message (Some duration)))))"

definition note_validation_failure :: "string \<Rightarrow> string \<Rightarrow> ('x, unit) runner" where
  "note_validation_failure tid message =
     io_bind (find_run tid) (\<lambda>current.
     if map_option status current = Some VALIDATING_ENVIRONMENT
     then io_ignore (merge_execution_metadata tid
       [(''environmentResult'', JObj [(''status'', JStr ''failed''), (''validationPassed'', JBool False),
          (''message'', JStr message)])])
     else io_return ())"

definition cancelled_by :: "string \<Rightarrow> js_error \<Rightarrow> ('x, bool) runner" where
  "cancelled_by tid e =
     (if e = TestRunCancellationError then io_return True else is_cancellation_requested tid)"

definition on_error :: "'x services \<Rightarrow> string \<Rightarrow> int \<Rightarrow> js_error \<Rightarrow> ('x, unit) runner" where
  "on_error api tid started e =
     io_bind (io_peek rsMaskValues) (\<lambda>values.
     let message = mask_string values (error_message e) in
     io_then (note_validation_failure tid message)
     (io_then (io_ignore (log_masked api tid ''ERROR'' message))
     (io_bind (cancelled_by tid e) (\<lambda>cancelled.
      io_then
        (if cancelled then cancel_after_error api tid started
         else fail_after_error tid started e message)
        (generate_report api tid)))))"

text \<open>The \<open>finally\<close> clause.\<close>

definition release :: "'x services \<Rightarrow> string \<Rightarrow> ('x, unit) runner" where
  "release api tid =
     io_then stop_context
     (io_bind (io_peek rsWorkspace) (\<lambda>workspace.
      io_bind (io_peek rsUsesDocker) (\<lambda>uses.
      if workspace = [] then io_return ()
      else io_then
        (if uses
         then io_catch (io_then (docker_down api workspace) (io_return ()))
           (\<lambda>e. log_masked api tid ''ERROR'' (''Error: '' @ error_message e))
         else io_return ())
        (io_ignore (call_service (srvRemoveDir api workspace))))))"

definition execute_internal ::
    "'x services \<Rightarrow> runner_config \<Rightarrow> string \<Rightarrow> run_inputs \<Rightarrow> ('x, unit) runner" where
  "execute_internal api cfg tid inp =
     io_bind (io_peek clock) (\<lambda>started.
     io_then (io_modify (\<lambda>s. s\<lparr>rsWorkspace := [], rsUsesDocker := False, rsSecrets := [],
       rsMaskValues := [], rsStopped := True, rsAborted := None\<rparr>))
     (io_finally
        (io_catch (run_body api cfg tid inp started) (on_error api tid started))
        (release api tid)))"

end
