(* ===== verification/Worker_Table.thy ===== *)
theory Worker_Table
  imports Suite_Exec Environment
begin

text \<open>
  What a worker's steps and loops do to the run table: nothing but what the state service does for
  them.  The locale \<open>table_observer\<close> proves it once for every step relation that allows changes
  outside the table; it is interpreted on the safety relation of the table and on the preservation
  of any predicate of the table.
\<close>

locale table_observer = step_relation R for R :: "'x runner_store \<Rightarrow> 'x runner_store \<Rightarrow> bool" +
  assumes same_runs: "runs s = runs t \<Longrightarrow> R s t"
begin

lemma upholds_find: "upholds R (find_run tid)"
  unfolding find_run_def by (rule upholds_read)

lemma upholds_cancellation_read: "upholds R (is_cancellation_requested tid)"
  unfolding is_cancellation_requested_def by (intro upholds_rules upholds_find)

lemma upholds_service: "upholds R (call_service f)"
  unfolding call_service_def
  by (rule upholds_call) (auto intro: same_runs split: prod.split)

lemma upholds_modify: "(\<And>s. runs (f s) = runs s) \<Longrightarrow> upholds R (io_modify f)"
  by (simp add: upholds_def io_modify_def same_runs)

lemma upholds_timer: "upholds R (timer ms)"
  unfolding upholds_def
proof (intro allI impI)
  fix w :: "'x runner_store world" assume w: "rely R (pending w)"
  show "R (store w) (store (snd (timer ms w))) \<and> rely R (pending (snd (timer ms w)))"
  proof (cases "pending w")
    case Nil
    then show ?thesis by (simp add: timer_def same_runs)
  next
    case (Cons c cs)
    have "R (store w) (others c (store w))" using w Cons by simp
    then have "R (store w)
        ((others c (store w))\<lparr>clock := clock (others c (store w)) + max 1 \<lfloor>ms\<rfloor>\<rparr>)"
      by (rule step_trans) (simp add: same_runs)
    with w Cons show ?thesis by (simp add: timer_def Let_def)
  qed
qed

lemma upholds_ensure: "upholds R (ensure_not_cancelled tid)"
  unfolding ensure_not_cancelled_def
  by (intro upholds_rules upholds_option upholds_if upholds_cancellation_read)

lemma upholds_sleep_until:
  "rely R (pending w) \<Longrightarrow>
   R (store w) (store (snd (sleep_until tid d w))) \<and> rely R (pending (snd (sleep_until tid d w)))"
proof (induction tid d w rule: sleep_until.induct)
  case (1 tid d w)
  show ?case
  proof (cases "of_int (clock (store w)) < d")
    case False
    with 1 show ?thesis by (subst (1 2) sleep_until.simps) (simp add: same_runs)
  next
    case True
    obtain r w1 where e: "ensure_not_cancelled tid w = (r, w1)" by force
    have s1: "R (store w) (store w1)" "rely R (pending w1)"
      using upholds_run[OF upholds_ensure 1(2) e] .
    show ?thesis
    proof (cases r)
      case (Inl err)
      with True e s1 show ?thesis by (subst (1 2) sleep_until.simps) simp
    next
      case (Inr u)
      let ?t = "timer (min 250 (d - of_int (clock (store w1)))) "
      obtain r2 w2 where t: "?t w1 = (r2, w2)" by force
      have s2: "R (store w1) (store w2)" "rely R (pending w2)"
        using upholds_run[OF upholds_timer s1(2) t] .
      have "R (store w2) (store (snd (sleep_until tid d w2)))
          \<and> rely R (pending (snd (sleep_until tid d w2)))"
        using 1(1)[of r w1 u] True e Inr t s2 by simp
      with True e Inr t s1 s2 show ?thesis
        by (subst (1 2) sleep_until.simps) (auto intro: step_trans)
    qed
  qed
qed

lemma upholds_sleep: "upholds R (sleep_ms tid ms)"
  unfolding upholds_def sleep_ms_def using upholds_sleep_until by blast

lemma upholds_http: "upholds R (http_execute api secs baseUrl r)"
  unfolding http_execute_def Let_def
  by (intro upholds_rules upholds_service)

lemma upholds_judge: "upholds R (judge_response res r n)"
  unfolding judge_response_def
  by (intro upholds_rules upholds_modify) simp

lemma upholds_poll_attempt: "upholds R (poll_attempt api secs tid baseUrl req n)"
  unfolding poll_attempt_def Let_def
  by (intro upholds_rules upholds_ensure upholds_http upholds_judge)

lemma upholds_poll_loop_run:
  "rely R (pending w) \<Longrightarrow>
   R (store w) (store (snd (poll_loop api secs tid b req limit i st n l w)))
   \<and> rely R (pending (snd (poll_loop api secs tid b req limit i st n l w)))"
proof (induction api secs tid b req limit i st n l w rule: poll_loop.induct)
  case (1 api secs tid b req limit i st n l w)
  show ?case
  proof (cases "of_int (clock (store w) - st) \<le> limit")
    case False
    then show ?thesis using 1(2) by (subst (1 2) poll_loop.simps) (simp add: same_runs)
  next
    case True
    obtain r w1 where a: "poll_attempt api secs tid b req (n + 1) w = (r, w1)" by force
    have s1: "R (store w) (store w1)" "rely R (pending w1)"
      using upholds_run[OF upholds_poll_attempt 1(2) a] .
    show ?thesis
    proof (cases "\<exists>res. r = Inr res \<and> \<not> srPassed res")
      case False
      with True a s1 show ?thesis
        by (subst (1 2) poll_loop.simps) (auto split: sum.split)
    next
      case go: True
      then obtain res where r: "r = Inr res" "\<not> srPassed res" by blast
      let ?ms = "min i (max (limit - of_int (clock (store w1) - st)) 0)"
      obtain r2 w2 where t: "sleep_ms tid ?ms w1 = (r2, w2)" by force
      have s2: "R (store w1) (store w2)" "rely R (pending w2)"
        using upholds_run[OF upholds_sleep s1(2) t] .
      show ?thesis
      proof (cases r2)
        case (Inl e)
        with True a r t s1 s2 show ?thesis
          by (subst (1 2) poll_loop.simps) (auto intro: step_trans)
      next
        case (Inr u)
        have "R (store w2) (store (snd (poll_loop api secs tid b req limit i st (n + 1) (Some res) w2)))
          \<and> rely R (pending (snd (poll_loop api secs tid b req limit i st (n + 1) (Some res) w2)))"
          using 1(1)[of r w1 res r2 w2 u] True a r t Inr s2(2) by simp
        with True a r t Inr s1 s2 show ?thesis
          by (subst (1 2) poll_loop.simps) (auto intro: step_trans)
      qed
    qed
  qed
qed

lemma upholds_poll_loop: "upholds R (poll_loop api secs tid b req limit i st n l)"
  unfolding upholds_def using upholds_poll_loop_run by blast

lemmas step_rules =
  upholds_rules upholds_service upholds_modify upholds_ensure upholds_sleep upholds_http
  upholds_judge upholds_poll_loop upholds_option upholds_if

lemma upholds_execute_step: "upholds R (execute_step api secs tid baseUrl test)"
  by (cases "sConfig test")
     (auto simp: execute_step_def execute_wait_def execute_poll_def execute_set_variable_def
        execute_assert_def execute_request_def Let_def intro!: step_rules)

lemma upholds_run_step: "upholds R (run_step api secs values tid baseUrl plan test st)"
  unfolding run_step_def persist_response_def add_result_def
  by (intro step_rules upholds_execute_step upholds_call)
     (auto simp: store_response_def same_runs split: option.split)

lemma upholds_run_steps: "upholds R (run_steps api secs values tid baseUrl plan tests st)"
  by (induction tests arbitrary: st) (auto intro: step_rules upholds_run_step)

lemma upholds_execute_suites: "upholds R (execute_suites api lib secs values tid baseUrl suites)"
proof -
  have "upholds R (run_suites api lib secs values tid baseUrl suites st)" for st
    by (induction suites arbitrary: st) (auto intro!: step_rules upholds_run_steps)
  then show ?thesis
    unfolding execute_suites_def by (intro step_rules) auto
qed

lemma upholds_probe: "upholds R (probe api t st l)"
  unfolding probe_def by (intro step_rules)

lemma upholds_abortable_sleep: "upholds R (abortable_sleep ms)"
  unfolding abortable_sleep_def by (intro step_rules upholds_timer)

lemma upholds_wait_for_run:
  "rely R (pending w) \<Longrightarrow>
   R (store w) (store (snd (wait_for api t st d a m w))) \<and> rely R (pending (snd (wait_for api t st d a m w)))"
proof (induction api t st d a m w rule: wait_for.induct)
  case (1 api t st d a m w)
  show ?case
  proof (cases "of_int (clock (store w)) < d")
    case False
    then show ?thesis using 1(2) by (subst (1 2) wait_for.simps) (simp add: same_runs)
  next
    case True
    obtain q w1 where p: "probe api t st a w = (q, w1)" by force
    have s1: "R (store w) (store w1)" "rely R (pending w1)"
      using upholds_run[OF upholds_probe 1(2) p] .
    show ?thesis
    proof (cases "\<exists>a' m'. q = Inr (Inr (a', m'))")
      case False
      with True p s1 show ?thesis
        by (subst (1 2) wait_for.simps) (auto split: sum.split)
    next
      case go: True
      then obtain a' m' where q: "q = Inr (Inr (a', m'))" by blast
      obtain z w2 where t: "abortable_sleep 1000 w1 = (z, w2)" by force
      have s2: "R (store w1) (store w2)" "rely R (pending w2)"
        using upholds_run[OF upholds_abortable_sleep s1(2) t] .
      show ?thesis
      proof (cases z)
        case (Inl e)
        with True p q t s1 s2 show ?thesis
          by (subst (1 2) wait_for.simps) (auto intro: step_trans)
      next
        case (Inr u)
        have "R (store w2) (store (snd (wait_for api t st d a' m' w2)))
          \<and> rely R (pending (snd (wait_for api t st d a' m' w2)))"
          using 1(1)[of q w1 "Inr (a', m')" "(a', m')" a' m' z w2 u] True p q t Inr s2(2) by simp
        with True p q t Inr s1 s2 show ?thesis
          by (subst (1 2) wait_for.simps) (auto intro: step_trans)
      qed
    qed
  qed
qed

lemma upholds_wait_for_health: "upholds R (wait_for_health api t)"
  unfolding upholds_def wait_for_health_def Let_def using upholds_wait_for_run by blast

end

lemma runs_step_same: "runs s = runs t \<Longrightarrow> runs_step s t"
  by (auto simp: runs_step_def row_step_refl)

interpretation safe: table_observer runs_step
  by unfold_locales (rule runs_step_same)

interpretation kept: table_observer "\<lambda>s t. P (runs s) \<longrightarrow> P (runs t)" for P
  by unfold_locales auto

end
