(* ===== verification/Worker_Safety.thy ===== *)
theory Worker_Safety
  imports Orchestrator Worker_Table
begin

text \<open>
  What a whole worker does to the run table, for every step relation its database operations keep
  (locales \<open>phase_relation\<close> and \<open>worker_relation\<close>), and that every part of it ends without adding
  interference.  The interpretations are the safety relation of the table, and the preservation of
  \<open>in_hand\<close>: the run exists, is past \<open>CREATED\<close>, and is not waiting for its cancellation.
\<close>

section \<open>The worker under interference\<close>

context table_observer
begin

lemma upholds_log: "upholds R (log_plain api tid src m)" "upholds R (log_masked api tid src m)"
  unfolding log_masked_def log_plain_def by (intro step_rules)+

lemma upholds_docker: "upholds R (docker_up api wd)" "upholds R (docker_down api wd)"
  "upholds R (safe_docker_logs api wd)" "upholds R (generate_report api tid)"
  unfolding docker_up_def docker_down_def safe_docker_logs_def generate_report_def
  by (intro step_rules)+

lemma upholds_cleanup: "upholds R (cleanup_workspace api tid wd)"
  unfolding cleanup_workspace_def by (intro step_rules upholds_log upholds_docker)

lemma upholds_final_cleanup: "upholds R (final_cleanup api tid)" "upholds R (cleanup_after_error api tid)"
  unfolding final_cleanup_def cleanup_after_error_def by (intro step_rules upholds_cleanup; simp)+

lemma upholds_cancelled_by: "upholds R (cancelled_by tid e)"
  unfolding cancelled_by_def by (intro step_rules upholds_cancellation_read)

lemma upholds_resolve: "upholds R (resolve_for_run api cfg inp er)"
  unfolding resolve_for_run_def Let_def by (intro step_rules)

end

locale phase_relation = table_observer R for R :: "'x runner_store \<Rightarrow> 'x runner_store \<Rightarrow> bool" +
  assumes keeps_phase: "upholds R (enter_phase tid phase)"
    and keeps_passed: "upholds R (mark_passed tid st duration)"
    and keeps_test_failed: "upholds R (mark_test_failed tid st duration reason)"
    and keeps_cancelled: "upholds R (mark_cancelled tid d cleanup)"
    and keeps_metadata: "upholds R (merge_execution_metadata tid patch)"
begin

lemmas phase_rules =
  step_rules keeps_phase keeps_passed keeps_test_failed keeps_cancelled keeps_metadata
  upholds_cancellation_read upholds_wait_for_health upholds_execute_suites

lemma upholds_prepare: "upholds R (prepare_phase api cfg tid inp er)"
  unfolding prepare_phase_def create_workspace_def Let_def
  by (intro phase_rules upholds_log upholds_resolve) simp_all

lemma upholds_validate: "upholds R (validate_phase api cfg tid er suites)"
  unfolding validate_phase_def Let_def by (intro phase_rules)

lemma upholds_start: "upholds R (start_phase api tid er)"
  unfolding start_phase_def by (intro phase_rules upholds_log upholds_docker)

lemma upholds_health: "upholds R (health_phase api cfg tid inp)"
  unfolding health_phase_def
  by (intro phase_rules) (auto intro: phase_rules split: option.splits prod.splits)

lemma upholds_execute_phase: "upholds R (execute_phase api cfg tid inp suites)"
  unfolding execute_phase_def by (intro phase_rules)

lemma upholds_collect: "upholds R (collect_phase api tid)"
  unfolding collect_phase_def by (intro phase_rules upholds_log upholds_docker)

lemma upholds_finish_phase: "upholds R (finish_phase api tid started st)"
  unfolding finish_phase_def record_verdict_def
  by (intro phase_rules upholds_final_cleanup upholds_docker)

lemma upholds_note_failure: "upholds R (note_validation_failure tid message)"
  unfolding note_validation_failure_def by (intro phase_rules upholds_find)

lemma upholds_execute_claimed: "upholds R (execute_claimed api cfg tid inp er started)"
  unfolding execute_claimed_def create_execution_context_def
  by (intro phase_rules upholds_prepare upholds_validate upholds_start upholds_health
      upholds_execute_phase upholds_collect upholds_finish_phase) simp_all

end

locale worker_relation = phase_relation R for R :: "'x runner_store \<Rightarrow> 'x runner_store \<Rightarrow> bool" +
  assumes keeps_claim: "upholds R (claim tid lease)"
    and keeps_request_cancel: "upholds R (request_cancel tid by_whom reason)"
    and keeps_infra_failed: "upholds R (mark_infra_failed tid category message d)"
    and keeps_timed_out: "upholds R (mark_timed_out tid message d)"
begin

lemmas worker_rules = phase_rules keeps_claim keeps_request_cancel keeps_infra_failed keeps_timed_out

lemma upholds_claim_or_skip: "upholds R (claim_or_skip cfg tid)"
  unfolding claim_or_skip_def by (intro worker_rules)

lemma upholds_run_body: "upholds R (run_body api cfg tid inp started)"
  unfolding run_body_def
  by (intro worker_rules upholds_find upholds_docker upholds_claim_or_skip upholds_execute_claimed)

lemma upholds_on_error: "upholds R (on_error api tid started e)"
  unfolding on_error_def cancel_after_error_def fail_after_error_def failure_category_for_def Let_def
  by (intro worker_rules upholds_find upholds_log upholds_docker upholds_final_cleanup
      upholds_note_failure upholds_cancelled_by) simp_all

lemma upholds_release: "upholds R (release api tid)"
  unfolding release_def stop_context_def
  by (intro worker_rules upholds_log upholds_docker) simp_all

lemma upholds_execute_internal: "upholds R (execute_internal api cfg tid inp)"
  unfolding execute_internal_def
  by (intro worker_rules upholds_run_body upholds_on_error upholds_release) simp_all

lemma upholds_timers:
  "upholds R (abort_if_cancellation_requested tid)"
  "(\<And>r d. upholds R (renew_lease tid r d)) \<Longrightarrow> upholds R (renew_lease_tick cfg tid)"
  unfolding abort_if_cancellation_requested_def renew_lease_tick_def abort_with_def
  by (intro worker_rules; simp)+

end

lemma upholds_merge_metadata: "upholds runs_step (merge_execution_metadata tid patch)"
proof -
  have "row_inv (r\<lparr>executionMetadata := m\<rparr>) = row_inv r" for r m
    by (cases "status r") (simp_all add: row_inv_def cleared_lease_iff outcome_category_def)
  then have "row_step r (r\<lparr>executionMetadata := m\<rparr>)" for r m
    by (simp add: row_step_def frozen_part_def)
  then show ?thesis
    unfolding merge_execution_metadata_def Let_def
    by (intro table_rules upholds_option upholds_if upholds_update_many) auto
qed

interpretation safe_worker: worker_relation runs_step
  by unfold_locales (rule state_rules upholds_merge_metadata)+

text \<open>The run a worker has in hand.\<close>

definition in_hand :: "string \<Rightarrow> (string \<rightharpoonup> test_run) \<Rightarrow> bool" where
  "in_hand tid m =
     (case m tid of None \<Rightarrow> False | Some r \<Rightarrow> status r \<noteq> CREATED \<and> status r \<noteq> CANCEL_REQUESTED)"

abbreviation keeps_in_hand :: "string \<Rightarrow> 'x runner_store \<Rightarrow> 'x runner_store \<Rightarrow> bool" where
  "keeps_in_hand tid s t \<equiv> in_hand tid (runs s) \<longrightarrow> in_hand tid (runs t)"

lemma in_hand_update:
  assumes "\<And>r. cond r \<Longrightarrow> status r \<noteq> CREATED \<and> status r \<noteq> CANCEL_REQUESTED \<Longrightarrow>
      status (upd r) \<noteq> CREATED \<and> status (upd r) \<noteq> CANCEL_REQUESTED"
  shows "upholds (keeps_in_hand tid) (update_many i cond upd)"
  unfolding update_many_def
  by (rule kept.upholds_call)
    (use assms in \<open>auto simp: update_row_def in_hand_def split: option.splits prod.splits if_splits\<close>)

lemma in_hand_find_or_throw: "upholds (keeps_in_hand tid) (find_run_or_throw i)"
  unfolding find_run_or_throw_def by (rule kept.upholds_call) simp

lemma in_hand_transition:
  assumes "target \<noteq> CREATED" "target \<noteq> CANCEL_REQUESTED"
  shows "upholds (keeps_in_hand tid) (transition i target data)"
  unfolding transition_def
  by (intro kept.step_rules in_hand_update in_hand_find_or_throw kept.upholds_find)
    (simp_all add: transition_data_def assms)

interpretation held: phase_relation "keeps_in_hand tid" for tid
proof unfold_locales
  show "upholds (keeps_in_hand tid) (enter_phase i phase)" for i phase
    unfolding enter_phase_def
    by (cases "is_phase phase")
      (auto intro!: in_hand_transition kept.upholds_throw simp: status_group_defs)
  show "upholds (keeps_in_hand tid) (merge_execution_metadata i patch)" for i patch
    unfolding merge_execution_metadata_def Let_def
    by (intro kept.step_rules in_hand_update kept.upholds_find) simp_all
qed (auto simp: mark_passed_def mark_test_failed_def mark_cancelled_def
    intro!: kept.step_rules in_hand_transition)

section \<open>Every part of the worker ends\<close>

lemma io_settles_ignore [settle_rules]: "io_settles m \<Longrightarrow> io_settles (io_ignore m)"
  unfolding io_ignore_def by (intro settle_rules)

lemma io_settles_finally [settle_rules]:
  assumes "io_settles m" "io_settles f"
  shows "io_settles (io_finally m f)"
  unfolding io_settles_def
proof
  fix w :: "'a runner_store world"
  have "settles w (snd (m w))" "settles (snd (m w)) (snd (f (snd (m w))))"
    using assms by (simp_all add: io_settles_def)
  then show "settles w (snd (io_finally m f w))"
    by (auto simp: io_finally_def split: prod.split sum.split intro: settles_trans)
qed

lemma io_settles_for [settle_rules]: "(\<And>x. io_settles (f x)) \<Longrightarrow> io_settles (io_for xs f)"
  by (induction xs) (auto intro: settle_rules)

lemma io_settles_case_sum [settle_rules]:
  "(\<And>e. io_settles (f e)) \<Longrightarrow> (\<And>a. io_settles (g a)) \<Longrightarrow> io_settles (case v of Inl e \<Rightarrow> f e | Inr a \<Rightarrow> g a)"
  by (simp split: sum.split)

lemma settles_service [settle_rules]: "io_settles (call_service f)"
  by (rule io_advances_settles[OF io_advances_service])

lemma settles_http [settle_rules]: "io_settles (http_execute api secs b r)"
  by (rule io_advances_settles[OF io_advances_http])

lemma settles_table [settle_rules]:
  "io_settles (find_run tid)" "io_settles (find_run_or_throw tid)" "io_settles (update_many tid cond upd)"
  unfolding find_run_def find_run_or_throw_def update_many_def
  by (intro settle_rules; simp add: update_row_def split: option.split prod.split)+

lemma settles_transition [settle_rules]: "io_settles (transition tid target data)"
  unfolding transition_def by (intro settle_rules)

lemma settles_state [settle_rules]:
  "io_settles (enter_phase tid phase)" "io_settles (claim tid lease)"
  "io_settles (request_cancel tid b reason)" "io_settles (mark_cancelled tid d c)"
  "io_settles (mark_passed tid st d')" "io_settles (mark_test_failed tid st d' reason')"
  "io_settles (mark_infra_failed tid cat reason' d)" "io_settles (mark_timed_out tid reason' d)"
  "io_settles (is_cancellation_requested tid)" "io_settles (merge_execution_metadata tid patch)"
  unfolding enter_phase_def claim_def request_cancel_def mark_cancelled_def mark_passed_def
    mark_test_failed_def mark_infra_failed_def mark_timed_out_def is_cancellation_requested_def
    merge_execution_metadata_def Let_def
  by (intro settle_rules)+

lemma settles_poll_loop: "settles w (snd (poll_loop api secs tid b req limit i st n l w))"
proof (induction api secs tid b req limit i st n l w rule: poll_loop.induct)
  case (1 api secs tid b req limit i st n l w)
  have a: "settles w (snd (poll_attempt api secs tid b req (n + 1) w))" for w
  proof -
    have "io_settles (poll_attempt api secs tid b req (n + 1))"
      unfolding poll_attempt_def Let_def by (intro settle_rules)
    then show ?thesis by (simp add: io_settles_def)
  qed
  have sl: "settles w (snd (sleep_ms tid ms w))" for ms and w :: "'a runner_store world"
    using io_settles_sleep[where 'a = 'a and tid = tid and ms = ms] by (simp add: io_settles_def)
  show ?case
  proof (cases "of_int (clock (store w) - st) \<le> limit")
    case False
    then show ?thesis by (subst poll_loop.simps) (simp add: settles_refl)
  next
    case True
    obtain r w1 where p: "poll_attempt api secs tid b req (n + 1) w = (r, w1)" by force
    have s1: "settles w w1" using a[of w] p by simp
    show ?thesis
    proof (cases "\<exists>res. r = Inr res \<and> \<not> srPassed res")
      case False
      with True p s1 show ?thesis by (subst poll_loop.simps) (auto split: sum.split)
    next
      case go: True
      then obtain res where r: "r = Inr res" "\<not> srPassed res" by blast
      let ?ms = "min i (max (limit - of_int (clock (store w1) - st)) 0)"
      obtain r2 w2 where t: "sleep_ms tid ?ms w1 = (r2, w2)" by force
      have s2: "settles w1 w2" using sl[of w1 ?ms] t by simp
      show ?thesis
      proof (cases r2)
        case (Inl e)
        with True p r t s1 s2 show ?thesis by (subst poll_loop.simps) (auto intro: settles_trans)
      next
        case (Inr u)
        have "settles w2 (snd (poll_loop api secs tid b req limit i st (n + 1) (Some res) w2))"
          using 1[of r w1 res r2 w2 u] True p r t Inr by simp
        with True p r t Inr s1 s2 show ?thesis
          by (subst poll_loop.simps) (auto intro: settles_trans)
      qed
    qed
  qed
qed

lemma io_settles_poll [settle_rules]: "io_settles (poll_loop api secs tid b req limit i st n l)"
  unfolding io_settles_def using settles_poll_loop by blast

lemma settles_abortable_sleep [settle_rules]: "io_settles (abortable_sleep ms)"
  unfolding abortable_sleep_def by (intro settle_rules io_settles_timer)

lemma settles_wait_for: "settles w (snd (wait_for api t st d a m w))"
proof (induction api t st d a m w rule: wait_for.induct)
  case (1 api t st d a m w)
  have pr: "settles w (snd (probe api t st a w))" for w
    using io_settles_probe[of api t st a] by (simp add: io_settles_def)
  have sl: "settles w (snd (abortable_sleep 1000 w))" for w :: "'a runner_store world"
    using settles_abortable_sleep[where 'a = 'a and ms = 1000] by (simp add: io_settles_def)
  show ?case
  proof (cases "of_int (clock (store w)) < d")
    case False
    then show ?thesis by (subst wait_for.simps) (simp add: settles_refl)
  next
    case True
    obtain q w1 where p: "probe api t st a w = (q, w1)" by force
    have s1: "settles w w1" using pr[of w] p by simp
    show ?thesis
    proof (cases "\<exists>a' m'. q = Inr (Inr (a', m'))")
      case False
      with True p s1 show ?thesis by (subst wait_for.simps) (auto split: sum.split)
    next
      case go: True
      then obtain a' m' where q: "q = Inr (Inr (a', m'))" by blast
      obtain z w2 where t: "abortable_sleep 1000 w1 = (z, w2)" by force
      have s2: "settles w1 w2" using sl[of w1] t by simp
      show ?thesis
      proof (cases z)
        case (Inl e)
        with True p q t s1 s2 show ?thesis by (subst wait_for.simps) (auto intro: settles_trans)
      next
        case (Inr u)
        have "settles w2 (snd (wait_for api t st d a' m' w2))"
          using 1[of q w1 "Inr (a', m')" "(a', m')" a' m' z w2 u] True p q t Inr by simp
        with True p q t Inr s1 s2 show ?thesis
          by (subst wait_for.simps) (auto intro: settles_trans)
      qed
    qed
  qed
qed

lemma io_settles_wait_for_health [settle_rules]: "io_settles (wait_for_health api t)"
  unfolding io_settles_def wait_for_health_def Let_def using settles_wait_for by blast

lemma settles_execute_step [settle_rules]: "io_settles (execute_step api secs tid b test)"
  by (cases "sConfig test")
     (auto simp: execute_step_def execute_wait_def execute_poll_def execute_set_variable_def
        execute_assert_def execute_request_def Let_def intro!: settle_rules)

lemma settles_run_step [settle_rules]: "io_settles (run_step api secs values tid b plan test st)"
  unfolding run_step_def persist_response_def add_result_def
  by (intro settle_rules) (simp_all add: store_response_def split: option.split)

lemma settles_run_steps [settle_rules]: "io_settles (run_steps api secs values tid b plan tests st)"
  by (induction tests arbitrary: st) (auto intro: settle_rules)

lemma settles_run_suites [settle_rules]: "io_settles (run_suites api lib secs values tid b suites st)"
  by (induction suites arbitrary: st) (auto intro!: settle_rules)

lemma settles_execute_suites [settle_rules]: "io_settles (execute_suites api lib secs values tid b suites)"
  unfolding execute_suites_def by (intro settle_rules) simp

lemma settles_helpers [settle_rules]:
  "io_settles (log_plain api tid src m)" "io_settles (log_masked api tid src m)"
  "io_settles (docker_up api wd)" "io_settles (docker_down api wd)"
  "io_settles (safe_docker_logs api wd)" "io_settles (generate_report api tid)"
  unfolding log_masked_def log_plain_def docker_up_def docker_down_def safe_docker_logs_def
    generate_report_def
  by (intro settle_rules)+

lemma settles_cleanup [settle_rules]: "io_settles (cleanup_workspace api tid wd)"
  unfolding cleanup_workspace_def by (intro settle_rules)

lemma settles_final_cleanup [settle_rules]:
  "io_settles (final_cleanup api tid)" "io_settles (cleanup_after_error api tid)"
  unfolding final_cleanup_def cleanup_after_error_def by (intro settle_rules; simp)+

lemma settles_phases [settle_rules]:
  "io_settles (prepare_phase api cfg tid inp er)" "io_settles (validate_phase api cfg tid er suites)"
  "io_settles (start_phase api tid er)" "io_settles (execute_phase api cfg tid inp suites)"
  "io_settles (collect_phase api tid)" "io_settles (finish_phase api tid started st)"
  unfolding prepare_phase_def create_workspace_def resolve_for_run_def validate_phase_def start_phase_def
    execute_phase_def collect_phase_def finish_phase_def record_verdict_def Let_def
  by (intro settle_rules; simp)+

lemma settles_health_phase [settle_rules]: "io_settles (health_phase api cfg tid inp)"
  unfolding health_phase_def
  by (intro settle_rules) (auto intro: settle_rules split: option.splits prod.splits)

lemma settles_execute_claimed [settle_rules]: "io_settles (execute_claimed api cfg tid inp er started)"
  unfolding execute_claimed_def create_execution_context_def by (intro settle_rules) simp_all

lemma settles_run_body [settle_rules]: "io_settles (run_body api cfg tid inp started)"
  unfolding run_body_def claim_or_skip_def by (intro settle_rules)

lemma settles_note_failure [settle_rules]:
  "io_settles (note_validation_failure tid message)" "io_settles (cancelled_by tid e)"
  unfolding note_validation_failure_def cancelled_by_def by (intro settle_rules)+

lemma settles_on_error [settle_rules]: "io_settles (on_error api tid started e)"
  unfolding on_error_def cancel_after_error_def fail_after_error_def failure_category_for_def Let_def
  by (intro settle_rules) simp_all

lemma settles_release [settle_rules]: "io_settles (release api tid)"
  unfolding release_def stop_context_def by (intro settle_rules) simp_all

end
