(* ===== verification/Step_Props.thy ===== *)
theory Step_Props
  imports Suite_Exec
begin

text \<open>
  Properties of step execution: what a verdict says, when waits and polls end, which variables a
  request changes, and the counts of a run.
\<close>

section \<open>Verdicts\<close>

lemma first_some_None_iff: "first_some xs = None \<longleftrightarrow> (\<forall>x\<in>set xs. x = None)"
  by (induction xs rule: first_some.induct) auto

lemma status_assertion_message:
  "evMessage (status_assertion res r) = None \<longleftrightarrow> evPassed (status_assertion res r)"
  by (simp add: status_assertion_def Let_def)

lemma evaluate_assertions_message:
  "\<not> fst (evaluate_assertions body as') \<Longrightarrow> snd (evaluate_assertions body as') \<noteq> None"
proof -
  assume "\<not> fst (evaluate_assertions body as')"
  then obtain e where e: "find (\<lambda>e. \<not> evPassed e) (evaluate_all_assertions body as') = Some e"
    by (auto simp: evaluate_assertions_def split: option.splits)
  then have "e \<in> set (evaluate_all_assertions body as')" "\<not> evPassed e"
    by (auto simp: find_Some_iff)
  then have "evMessage e \<noteq> None"
    using evaluate_assertion_message by (fastforce simp: evaluate_all_assertions_def split: prod.splits)
  then show ?thesis by (simp add: evaluate_assertions_def e)
qed

text \<open>
  A request step that fails says why: it has an error message, unless the only thing that
  failed is an expected body \<open>false\<close>, \<open>0\<close>, \<open>null\<close> or the like.
\<close>

theorem failed_request_is_explained:
  assumes "\<not> srPassed (evaluate_request_result res r n)"
  shows "hrErrorMessage (evaluate_request_result res r n) \<noteq> None
    \<or> (\<exists>e. Option.bind (rqExpect r) xpJsonContains = Some e \<and> \<not> json_truthy e
          \<and> \<not> contains (hrResponseBody res) e)"
proof (rule ccontr)
  assume no: "\<not> ?thesis"
  then have msgs: "hrErrorMessage res = None" "evMessage (status_assertion res r) = None"
    "\<forall>b\<in>set (body_assertion res r). evMessage b = None"
    "snd (evaluate_assertions (hrResponseBody res) (yaml_assertions_of r)) = None"
    by (auto simp: evaluate_request_result_def first_some_None_iff)
  have "contains_expected (hrResponseBody res) (Option.bind (rqExpect r) xpJsonContains)"
    using msgs(3) no by (auto simp: body_assertion_def contains_expected_def Let_def
        split: option.splits if_splits)
  moreover have "fst (evaluate_assertions (hrResponseBody res) (yaml_assertions_of r))"
    using evaluate_assertions_message msgs(4) by blast
  ultimately have "request_passed res r"
    using msgs by (auto simp: request_passed_def status_assertion_message)
  with assms show False by (simp add: evaluate_request_result_def)
qed

definition plain_request :: "json option \<Rightarrow> request_config" where
  "plain_request expected =
     \<lparr>rqMethod = ''GET'', rqPath = ''/flag'', rqHeaders = None, rqQuery = None, rqJson = None,
      rqExpect = Some \<lparr>xpStatus = Some (JNum (Fin 200)), xpJsonContains = expected, xpAssertions = None\<rparr>,
      rqSave = Some [(''flag'', JStr ''$.flag'')]\<rparr>"

definition ok_response :: "int \<Rightarrow> json \<Rightarrow> http_result" where
  "ok_response st body =
     \<lparr>hrActualStatus = Some st, hrResponseBody = Some body, hrDurationMs = 3, hrErrorMessage = None,
      hrRequestHeaders = Some [], hrResponseHeaders = Some []\<rparr>"

theorem failed_request_is_explained_witness:
  "hrErrorMessage (evaluate_request_result (ok_response 500 JNull) (plain_request None) 1) \<noteq> None"
proof -
  have "\<not> srPassed (evaluate_request_result (ok_response 500 JNull) (plain_request None) 1)"
    by code_simp
  from failed_request_is_explained[OF this] show ?thesis by (simp add: plain_request_def)
qed

text \<open>
  The exception is real: a response \<open>true\<close> where the body \<open>false\<close> is expected fails the step
  without an error message, and every assertion recorded for it has passed.
\<close>

theorem falsy_expected_body_fails_silently:
  "let r = evaluate_request_result (ok_response 200 (JBool True)) (plain_request (Some (JBool False))) 1
   in \<not> srPassed r \<and> hrErrorMessage r = None \<and> list_all evPassed (srAssertions r)"
  by code_simp

section \<open>Saved values\<close>

lemma save_values_other:
  "save_values body es vars = Inr vars' \<Longrightarrow> k \<notin> fst ` set es \<Longrightarrow> map_of vars' k = map_of vars k"
proof (induction body es vars rule: save_values.induct)
  case (2 body key path rest vars)
  then show ?case
    by (auto simp: update_conv' split: json.splits option.splits)
qed simp

text \<open>
  A request changes a variable only when it passed, and then only variables its \<open>save\<close> names.
\<close>

theorem variables_saved_on_success:
  assumes "judge_response res r n w = (Inr out, w')"
  shows "(\<not> srPassed out \<longrightarrow> rsVariables (store w') = rsVariables (store w))
    \<and> (\<forall>k. (case rqSave r of None \<Rightarrow> True | Some es \<Rightarrow> k \<notin> fst ` set es)
        \<longrightarrow> map_of (rsVariables (store w')) k = map_of (rsVariables (store w)) k)"
proof -
  obtain vars where v: "saved_variables res r (rsVariables (store w)) = Inr vars"
    and w': "rsVariables (store w') = vars" and out: "out = evaluate_request_result res r n"
    using assms by (auto simp: judge_response_def io_bind_def io_then_def io_peek_def io_lift_def
        io_modify_def io_return_def split: sum.splits prod.splits)
  show ?thesis
    using v save_values_other
    by (auto simp: w' out saved_variables_def evaluate_request_result_def split: option.splits if_splits)
qed

definition idle_store :: "unit runner_store" where
  "idle_store = \<lparr>clock = 0, runs = (\<lambda>_. None), rsVariables = [], rsResponses = [], rsAborted = None,
     rsStopped = True, rsResults = [], rsWorkspace = [], rsUsesDocker = False, rsSecrets = [], rsMaskValues = [],
     rsOutside = ()\<rparr>"

theorem variables_saved_on_success_witness:
  "\<exists>out w'. judge_response (ok_response 500 JNull) (plain_request None) 1 (quiet idle_store) = (Inr out, w')
    \<and> rsVariables (store w') = []"
proof -
  let ?w = "quiet idle_store"
  have f: "\<not> request_passed (ok_response 500 JNull) (plain_request None)" by code_simp
  then have v: "saved_variables (ok_response 500 JNull) (plain_request None) vars = Inr vars" for vars
    by (simp add: saved_variables_def split: option.split)
  obtain out w' where o': "judge_response (ok_response 500 JNull) (plain_request None) 1 ?w = (Inr out, w')"
    "out = evaluate_request_result (ok_response 500 JNull) (plain_request None) 1"
    using v by (simp add: judge_response_def io_bind_def io_then_def io_peek_def io_lift_def
        io_modify_def io_return_def)
  have "\<not> srPassed out" using f o'(2) by (simp add: evaluate_request_result_def)
  with variables_saved_on_success[OF o'(1)] have "rsVariables (store w') = rsVariables (store ?w)" by blast
  with o'(1) show ?thesis by (auto simp: idle_store_def)
qed

section \<open>Waits and polls\<close>

lemma sleep_until_reached:
  "sleep_until tid d w = (Inr u, w') \<Longrightarrow> d \<le> of_int (clock (store w'))"
proof (induction tid d w rule: sleep_until.induct)
  case (1 tid d w)
  show ?case
  proof (cases "of_int (clock (store w)) < d")
    case False
    with 1(2) show ?thesis by (subst (asm) sleep_until.simps) auto
  next
    case True
    obtain r w1 where e: "ensure_not_cancelled tid w = (r, w1)" by force
    with 1(2) True obtain v where r: "r = Inr v"
      by (subst (asm) sleep_until.simps) (cases r, auto)
    show ?thesis
      using 1(1)[of r w1 v] 1(2) True e r by (subst (asm) (2) sleep_until.simps) simp
  qed
qed

text \<open>
  A wait step that passes has lasted at least the configured time.
\<close>

theorem wait_lasts:
  assumes "execute_wait tid (Fin q) w = (Inr r, w')"
  shows "srPassed r \<and> of_int (clock (store w)) + q \<le> of_int (clock (store w'))"
  using assms sleep_until_reached[of tid "of_int (clock (store w)) + q" w]
  by (auto simp: execute_wait_def io_bind_def io_then_def io_peek_def io_return_def sleep_ms_def
      num_limit_def step_outcome_def split: prod.splits sum.splits)

lemma sleep_until_done: "d \<le> of_int (clock (store w)) \<Longrightarrow> sleep_until tid d w = (Inr (), w)"
  by (subst sleep_until.simps) simp

lemma ensure_quiet:
  "rsAborted s = None \<Longrightarrow> runs s tid = None \<Longrightarrow> ensure_not_cancelled tid (quiet s) = (Inr (), quiet s)"
  by (simp add: ensure_not_cancelled_def is_cancellation_requested_def find_run_def io_bind_def run_simps)

lemma timer_quiet: "timer ms (quiet s) = (Inr (), quiet (s\<lparr>clock := clock s + max 1 \<lfloor>ms\<rfloor>\<rparr>))"
  by (simp add: timer_def quiet_def)

theorem wait_lasts_witness:
  "\<exists>r w'. execute_wait ''run'' (Fin 100) (quiet idle_store) = (Inr r, w') \<and> 100 \<le> clock (store w')"
proof -
  let ?s = "idle_store\<lparr>clock := 100\<rparr>"
  have "sleep_until ''run'' 100 (quiet idle_store) = sleep_until ''run'' 100 (quiet ?s)"
    by (subst sleep_until.simps) (simp add: ensure_quiet timer_quiet idle_store_def)
  also have "\<dots> = (Inr (), quiet ?s)" by (rule sleep_until_done) simp
  finally have s: "sleep_until ''run'' 100 (quiet idle_store) = (Inr (), quiet ?s)" .
  then obtain r w' where "execute_wait ''run'' (Fin 100) (quiet idle_store) = (Inr r, w')"
    by (simp add: execute_wait_def io_bind_def io_then_def io_peek_def io_return_def sleep_ms_def
        num_limit_def idle_store_def)
  moreover from wait_lasts[OF this] have "100 \<le> clock (store w')" by (simp add: idle_store_def)
  ultimately show ?thesis by blast
qed

lemma poll_loop_outcome:
  "poll_loop api secs tid b req limit i st n l w = (Inr (passed, latest, attempts), w') \<Longrightarrow>
   (if passed then \<exists>res w0. latest = Some res \<and> srPassed res
        \<and> poll_attempt api secs tid b req attempts w0 = (Inr res, w')
    else limit < of_int (clock (store w') - st))
   \<and> n \<le> attempts"
proof (induction api secs tid b req limit i st n l w rule: poll_loop.induct)
  case (1 api secs tid b req limit i st n l w)
  show ?case
  proof (cases "of_int (clock (store w) - st) \<le> limit")
    case False
    with 1(2) show ?thesis by (subst (asm) poll_loop.simps) auto
  next
    case True
    obtain r w1 where a: "poll_attempt api secs tid b req (n + 1) w = (r, w1)" by force
    with 1(2) True obtain res where r: "r = Inr res"
      by (subst (asm) poll_loop.simps) (cases r, auto)
    show ?thesis
    proof (cases "srPassed res")
      case p: True
      with 1(2) True a r show ?thesis by (subst (asm) poll_loop.simps) auto
    next
      case f: False
      let ?ms = "min i (max (limit - of_int (clock (store w1) - st)) 0)"
      obtain r2 w2 where t: "sleep_ms tid ?ms w1 = (r2, w2)" by force
      with 1(2) True a r f obtain u where r2: "r2 = Inr u"
        by (subst (asm) poll_loop.simps) (cases r2, auto)
      have "poll_loop api secs tid b req limit i st (n + 1) (Some res) w2
          = (Inr (passed, latest, attempts), w')"
        using 1(2) True a r f t r2 by (subst (asm) poll_loop.simps) simp
      from 1(1)[OF _ _ r f t[symmetric] r2 this] True a r show ?thesis by auto
    qed
  qed
qed


lemma service_quiet:
  "call_service f (quiet s) = (case f (rsOutside s) of (r, ms, x) \<Rightarrow>
     (r, quiet (s\<lparr>rsOutside := x, clock := clock s + 1 + int ms\<rparr>)))"
  by (simp add: call_service_def run_simps split: prod.split)

lemma modify_quiet: "io_modify f (quiet s) = (Inr (), quiet (f s))"
  by (simp add: io_modify_def quiet_def)

definition quiet_services :: "unit services" where
  "quiet_services =
     \<lparr>srvFetch = (\<lambda>_ x. (Inl (PlainError ''fetch failed''), 0, x)),
      srvProbe = (\<lambda>_ x. (Inr 200, 0, x)), srvPutArtifact = (\<lambda>_ _ x. (Inr (), 0, x)),
      srvAppendLog = (\<lambda>_ _ _ x. (Inr (), 0, x)), srvReport = (\<lambda>_ x. (Inr (), 0, x)),
      srvDocker = (\<lambda>_ _ x. (Inr [], 0, x)), srvMakeDir = (\<lambda>_ x. (Inr (), 0, x)),
      srvWriteFile = (\<lambda>_ _ x. (Inr (), 0, x)), srvRemoveDir = (\<lambda>_ x. (Inr (), 0, x)),
      srvSecretRows = (\<lambda>_ x. (Inr [], 0, x)), srvSecretsUsed = (\<lambda>_ x. (Inr (), 0, x)),
      srvFirstSuccess = (\<lambda>_ _ x. (Inr (), 0, x))\<rparr>"

definition answering_services :: "unit services" where
  "answering_services = quiet_services\<lparr>srvFetch := (\<lambda>_ x. (Inr (Fetched 200 [] []), 0, x))\<rparr>"

lemma passing_poll:
  "\<exists>r s'. execute_poll answering_services [] ''run'' ''http://b'' (plain_request None) (Fin 100) (Fin 10) None
      (quiet idle_store) = (Inr r, quiet s') \<and> srPassed r"
proof -
  let ?r = "interpolate_request [] [] (plain_request None)"
  have r: "?r = plain_request None" by code_simp
  let ?res = "\<lparr>hrActualStatus = Some 200, hrResponseBody = Some (parse_body []), hrDurationMs = 1,
    hrErrorMessage = None, hrRequestHeaders = Some (request_headers (plain_request None)),
    hrResponseHeaders = Some []\<rparr> :: http_result"
  let ?s = "idle_store\<lparr>clock := 1\<rparr>"
  have http: "http_execute answering_services [] ''http://b'' (plain_request None) (quiet idle_store)
      = (Inr ?res, quiet ?s)"
    by (simp add: http_execute_def io_bind_def io_peek_def io_catch_def r service_quiet Let_def
        answering_services_def io_return_def idle_store_def)
  have sv: "saved_variables ?res (plain_request None) [] = Inr []" by code_simp
  have judge: "judge_response ?res (plain_request None) n (quiet ?s)
      = (Inr (evaluate_request_result ?res (plain_request None) n), quiet ?s)" for n
    using sv by (simp add: judge_response_def io_bind_def io_then_def io_peek_def io_lift_def
        modify_quiet io_return_def idle_store_def)
  have pass: "request_passed ?res (plain_request None)" by code_simp
  have attempt: "poll_attempt answering_services [] ''run'' ''http://b'' (plain_request None) 1 (quiet idle_store)
      = (Inr (evaluate_request_result ?res (plain_request None) 1), quiet ?s)"
    using http judge
    by (simp add: poll_attempt_def io_then_def io_bind_def ensure_quiet io_peek_def Let_def r idle_store_def)
  have "srPassed (evaluate_request_result ?res (plain_request None) 1)"
    using pass by (simp add: evaluate_request_result_def)
  with attempt show ?thesis
    by (auto simp: execute_poll_def io_bind_def io_peek_def io_return_def num_limit_def
        poll_loop.simps[of _ _ _ _ _ _ _ _ 0] poll_result_def idle_store_def)
qed


section \<open>Counts\<close>

lemma run_step_count:
  "run_step api secs values tid b plan test st w = (Inr st', w') \<Longrightarrow>
   \<exists>p. st' = count_step p st"
  by (auto simp: run_step_def io_bind_def io_then_def io_return_def split: prod.splits sum.splits)

lemma run_steps_count:
  "run_steps api secs values tid b plan tests st w = (Inr st', w') \<Longrightarrow>
   statPassed st + statFailed st = statTotal st \<Longrightarrow>
   statTotal st' = statTotal st + length tests \<and> statPassed st' + statFailed st' = statTotal st'"
proof (induction tests arbitrary: st w)
  case Nil
  then show ?case by (auto simp: io_return_def)
next
  case (Cons t ts)
  obtain st1 w1 where 1: "run_step api secs values tid b plan t st w = (Inr st1, w1)"
    and 2: "run_steps api secs values tid b plan ts st1 w1 = (Inr st', w')"
    using Cons.prems(1) by (auto simp: io_bind_def split: prod.splits sum.splits)
  obtain p where "st1 = count_step p st" using run_step_count[OF 1] by blast
  with Cons.IH[OF 2] Cons.prems(2) show ?case by (auto simp: count_step_def)
qed

text \<open>
  When all the suites of a run have been executed, every step of every plan was counted once,
  either as passed or as failed.
\<close>

theorem suites_count_every_step:
  assumes "execute_suites api lib secs values tid b suites w = (Inr st, w')"
  shows "\<exists>plans. traverse (resolve_execution_plan lib) suites = Inr plans
    \<and> statTotal st = sum_list (map (\<lambda>p. tests_count (pSteps p)) plans)
    \<and> statPassed st + statFailed st = statTotal st"
proof -
  have "run_suites api lib secs values tid b suites st0 w = (Inr st, w') \<Longrightarrow>
      statPassed st0 + statFailed st0 = statTotal st0 \<Longrightarrow>
      \<exists>plans. traverse (resolve_execution_plan lib) suites = Inr plans
        \<and> statTotal st = statTotal st0 + sum_list (map (\<lambda>p. tests_count (pSteps p)) plans)
        \<and> statPassed st + statFailed st = statTotal st" for st0 w
  proof (induction suites arbitrary: st0 w)
    case Nil
    then show ?case by (auto simp: io_return_def)
  next
    case (Cons s ss)
    obtain plan st1 w1 where p: "resolve_execution_plan lib s = Inr plan"
      and 1: "run_steps api secs values tid b plan (filter (\<lambda>s. \<not> is_sequence s) (pSteps plan)) st0 w
        = (Inr st1, w1)"
      and 2: "run_suites api lib secs values tid b ss st1 w1 = (Inr st, w')"
      using Cons.prems(1) by (auto simp: io_bind_def io_lift_def split: prod.splits sum.splits)
    note c = run_steps_count[OF 1 Cons.prems(2)]
    obtain plans where "traverse (resolve_execution_plan lib) ss = Inr plans"
      "statTotal st = statTotal st1 + sum_list (map (\<lambda>p. tests_count (pSteps p)) plans)"
      "statPassed st + statFailed st = statTotal st"
      using Cons.IH[OF 2] c by auto
    with p c show ?case by (auto simp: tests_count_def)
  qed
  with assms show ?thesis
    by (fastforce simp: execute_suites_def io_then_def io_bind_def io_modify_def)
qed

definition setting_step :: "string \<Rightarrow> exec_step" where
  "setting_step i =
     \<lparr>sId = i, sVersion = ''setVariable/v1'', sName = i,
      sConfig = SetVariableConfig ''x'' (Some (JStr ''1'')) None None, sTimeoutMs = Fin 1,
      sRetryPolicy = default_retry_policy, sContinueOnFailure = False\<rparr>"

definition setting_suite :: run_suite where
  "setting_suite =
     \<lparr>ruId = ''s1'', ruYaml = [], ruPlan = Some
       \<lparr>pSuiteRevisionId = ''r1'', pSuiteName = ''S'', pSteps = [setting_step ''a'', setting_step ''b''],
        pDependencies = [], pVariables = [], pTimeoutMs = Fin 1\<rparr>\<rparr>"

definition no_yaml :: yaml_library where
  "no_yaml = \<lparr>localeCompare = code_unit_cmp, yamlLoad = (\<lambda>_. Inr None), yamlDump = (\<lambda>_. [])\<rparr>"

lemma run_setting_step:
  assumes "rsAborted s = None" "runs s ''run'' = None"
  shows "\<exists>s'. run_step quiet_services [] [] ''run'' ''http://b'' plan (setting_step i) st (quiet s)
      = (Inr (count_step True st), quiet s') \<and> rsAborted s' = None \<and> runs s' ''run'' = None"
  using assms
  by (simp add: run_step_def io_bind_def io_then_def ensure_quiet execute_step_def setting_step_def
      execute_set_variable_def persist_response_def service_quiet modify_quiet quiet_services_def
      store_response_def step_outcome_def io_peek_def io_return_def add_result_def run_simps
      coalesce_def nullish_def Let_def)

theorem suites_count_every_step_witness:
  "\<exists>st w'. execute_suites quiet_services no_yaml [] [] ''run'' ''http://b'' [setting_suite] (quiet idle_store)
      = (Inr st, w') \<and> statTotal st = 2 \<and> statPassed st + statFailed st = 2"
proof -
  let ?s0 = "idle_store\<lparr>rsVariables := [], rsResponses := []\<rparr>"
  let ?st0 = "\<lparr>statTotal = 0, statPassed = 0, statFailed = 0\<rparr>"
  obtain p where p: "ruPlan setting_suite = Some p" "pSteps p = [setting_step ''a'', setting_step ''b'']"
    by (simp add: setting_suite_def)
  obtain s1 where 1: "run_step quiet_services [] [] ''run'' ''http://b'' p (setting_step ''a'') ?st0 (quiet ?s0)
      = (Inr (count_step True ?st0), quiet s1)" "rsAborted s1 = None" "runs s1 ''run'' = None"
    using run_setting_step[of ?s0 p "''a''" ?st0] by (auto simp: idle_store_def)
  obtain s2 where 2: "run_step quiet_services [] [] ''run'' ''http://b'' p (setting_step ''b'')
      (count_step True ?st0) (quiet s1) = (Inr (count_step True (count_step True ?st0)), quiet s2)"
    using run_setting_step[OF 1(2,3)] by blast
  have seq: "\<not> is_sequence (setting_step i)" for i by (simp add: is_sequence_def setting_step_def)
  have "execute_suites quiet_services no_yaml [] [] ''run'' ''http://b'' [setting_suite] (quiet idle_store)
      = (Inr (count_step True (count_step True ?st0)), quiet s2)"
    using 1(1) 2 p seq
    by (simp add: execute_suites_def io_then_def io_bind_def modify_quiet io_lift_def io_return_def
        resolve_execution_plan_def)
  moreover from suites_count_every_step[OF this] have
    "statTotal (count_step True (count_step True ?st0)) = 2
      \<and> statPassed (count_step True (count_step True ?st0)) + statFailed (count_step True (count_step True ?st0)) = 2"
    using p seq by (simp add: resolve_execution_plan_def tests_count_def)
  ultimately show ?thesis by blast
qed

text \<open>
  Artifacts are named after the cleaned-up step id, so two steps of a run whose ids differ only
  in characters that are not kept write the same object, and the later response replaces the earlier.
\<close>

theorem response_artifact_names_collide:
  "sanitize_segment (Some ''get user'') ''unknown-step'' = sanitize_segment (Some ''get/user'') ''unknown-step''"
  by code_simp

section \<open>What the result row shows of a secret\<close>

definition key_step :: exec_step where
  "key_step = \<lparr>sId = ''a'', sVersion = ''apiRequest/v1'', sName = ''a'',
     sConfig = ApiRequestConfig \<lparr>rqMethod = ''GET'', rqPath = ''/me?k=hunter22'', rqHeaders = None,
       rqQuery = None, rqJson = None, rqExpect = None, rqSave = None\<rparr>,
     sTimeoutMs = Fin 1, sRetryPolicy = default_retry_policy, sContinueOnFailure = False\<rparr>"

definition key_assertion :: evaluation where
  "key_assertion = \<lparr>evFieldPath = ''$.key'', evOperator = Some (JStr ''equals''),
     evExpected = Some (JStr ''hunter22''), evActual = Some (JStr ''hunter22''), evPassed = True,
     evMessage = None\<rparr>"

text \<open>
  A row masks the body, the error message, the headers and the variables, but not the assertion
  results and the path: a secret compared with a field, or put in the path of a request (where
  \<open>replaceReferences\<close> has already placed it), is stored in the clear.
\<close>

theorem row_shows_secret:
  "(let row = result_row_of [''hunter22''] \<lparr>pSuiteRevisionId = ''r'', pSuiteName = ''S'',
        pSteps = [key_step], pDependencies = [], pVariables = [], pTimeoutMs = Fin 1\<rparr> key_step
        ((step_outcome True (Some (JStr ''hunter22'')))\<lparr>srAssertions := [key_assertion]\<rparr>) []
    in rrResponse row = Some (JStr ''[SECRET]'') \<and> rrPath row = ''/me?k=hunter22''
      \<and> map_option (map evActual) (rrAssertions row) = Some [Some (JStr ''hunter22'')])"
  by code_simp

end
