(* ===== verification/Worker_Props.thy ===== *)
theory Worker_Props
  imports Worker_Safety Step_Props Run_Props
begin

text \<open>
  Properties of a whole worker: it respects the run table under any interference that does; working
  alone it always closes the run it was given; the verdict follows the results; and the error path
  closes a run that another worker is executing.
\<close>

section \<open>Safety\<close>


section \<open>A worker alone\<close>

definition run_closed :: "string \<Rightarrow> 'x runner_store \<Rightarrow> bool" where
  "run_closed tid s = (\<exists>r. runs s tid = Some r \<and> is_terminal (status r))"

lemma quiet_after:
  assumes "io_settles m"
  shows "\<exists>t. snd (m (quiet s)) = quiet t"
proof -
  have "settles (quiet s) (snd (m (quiet s)))" using assms by (simp add: io_settles_def)
  then have "pending (snd (m (quiet s))) = []" by (simp add: settles_def)
  then have "snd (m (quiet s)) = quiet (store (snd (m (quiet s))))" by (simp add: quiet_def)
  then show ?thesis by blast
qed

lemma bind_quiet:
  assumes "io_bind m f (quiet s) = (r, w')" "io_settles m"
  obtains t where "m (quiet s) = (Inl (projl r), quiet t)" "r = Inl (projl r)" "w' = quiet t"
  | a t where "m (quiet s) = (Inr a, quiet t)" "f a (quiet t) = (r, w')"
proof -
  obtain q t where "m (quiet s) = (q, quiet t)" using quiet_after[OF assms(2), of s] by (metis prod.collapse)
  with assms(1) that show thesis by (cases q) (auto simp: io_bind_def)
qed

lemma closed_stays:
  assumes "upholds runs_step m" "io_settles m" "run_closed tid s"
  shows "\<exists>t. snd (m (quiet s)) = quiet t \<and> run_closed tid t"
proof -
  obtain t where t: "snd (m (quiet s)) = quiet t" using quiet_after[OF assms(2)] by blast
  have "runs_step s t" using upholdsD[OF assms(1), of "quiet s"] t by simp
  with assms(3) obtain r r' where "runs s tid = Some r" "is_terminal (status r)"
    "runs t tid = Some r'" "row_step r r'"
    unfolding run_closed_def runs_step_def by blast
  then have "run_closed tid t" unfolding run_closed_def row_step_def by (metis frozen_status)
  with t show ?thesis by blast
qed

lemma held_stays:
  assumes "upholds (keeps_in_hand tid) m" "io_settles m" "in_hand tid (runs s)"
  shows "\<exists>t. snd (m (quiet s)) = quiet t \<and> in_hand tid (runs t)"
proof -
  obtain t where t: "snd (m (quiet s)) = quiet t" using quiet_after[OF assms(2)] by blast
  then show ?thesis using upholdsD[OF assms(1), of "quiet s"] assms(3) by auto
qed

lemma io_ignore_snd: "io_ignore m w = (Inr (), snd (m w))"
  by (auto simp: io_ignore_def io_catch_def io_then_def io_bind_def io_return_def
      split: prod.split sum.split)

lemma transition_closes:
  assumes "transition tid target data (quiet s) = (Inr a, w)" "is_terminal target"
  shows "\<exists>t. w = quiet t \<and> run_closed tid t"
  using assms
  by (auto simp: run_simps run_closed_def transition_data_def Let_def split: option.splits sum.splits)

lemma assert_allowed_cases:
  "assert_transition_allowed r target
     = (if can_transition (status r) target then Inr ()
        else Inl (projl (assert_transition_allowed r target)))"
  using assert_transition_allowed_iff[of r target]
  by (cases "assert_transition_allowed r target") auto

lemma transition_closes_or_closed:
  assumes "runs s tid = Some r" "is_terminal target" "is_terminal (status r) \<or> can_transition (status r) target"
  shows "\<exists>t. snd (transition tid target data (quiet s)) = quiet t \<and> run_closed tid t"
  using assms
  by (subst transition_quiet, subst assert_allowed_cases)
    (auto simp: run_closed_def transition_data_def Let_def)

lemma fail_after_error_closes:
  assumes "in_hand tid (runs s)" "\<not> is_timeout_error e"
  shows "\<exists>t. fail_after_error tid st e message (quiet s) = (Inr (), quiet t) \<and> run_closed tid t"
proof -
  obtain r where r: "runs s tid = Some r" "status r \<noteq> CREATED" "status r \<noteq> CANCEL_REQUESTED"
    using assms(1) by (auto simp: in_hand_def split: option.splits)
  have infra: "is_terminal (status r) \<or> can_transition (status r) INFRA_FAILED"
    using r by (cases "status r") (simp_all add: can_transition_iff)
  have "\<exists>cat. failure_category_for tid message (quiet s) = (Inr cat, quiet s)
      \<and> (cat = TIMEOUT \<longrightarrow> status r = WAITING_FOR_HEALTHCHECK)"
    using r(1) by (auto simp: failure_category_for_def io_bind_def run_simps Let_def)
  then obtain cat where f: "failure_category_for tid message (quiet s) = (Inr cat, quiet s)"
    and cat: "cat = TIMEOUT \<Longrightarrow> status r = WAITING_FOR_HEALTHCHECK" by blast
  have timed: "is_terminal (status r) \<or> can_transition (status r) TIMED_OUT" if "cat = TIMEOUT"
    using cat[OF that] by (simp add: can_transition_iff)
  show ?thesis
  proof (cases "cat = TIMEOUT")
    case True
    then show ?thesis
      using f assms(2) transition_closes_or_closed[OF r(1) _ timed[OF True]]
      by (auto simp: fail_after_error_def io_bind_def io_peek_def io_ignore_snd mark_timed_out_def)
  next
    case False
    then show ?thesis
      using f assms(2) transition_closes_or_closed[OF r(1) _ infra]
      by (auto simp: fail_after_error_def io_bind_def io_peek_def io_ignore_snd mark_infra_failed_def)
  qed
qed

lemma cleanup_quiet:
  "\<exists>c t. cleanup_workspace api tid wd (quiet s) = (c, quiet t) \<and> runs t = runs s"
proof -
  have st: "io_settles (cleanup_workspace api tid wd)" by (rule settles_cleanup)
  obtain t where t: "snd (cleanup_workspace api tid wd (quiet s)) = quiet t"
    using quiet_after[OF st] by blast
  have "upholds (\<lambda>a b. runs a = runs s \<longrightarrow> runs b = runs s) (cleanup_workspace api tid wd)"
    by (rule kept.upholds_cleanup)
  from upholdsD[OF this, of "quiet s"] t have "runs t = runs s" by simp
  with t show ?thesis by (metis prod.collapse)
qed

lemma cleanup_after_error_quiet:
  "\<exists>c t. cleanup_after_error api tid (quiet s) = (Inr c, quiet t) \<and> runs t = runs s"
proof (cases "rsWorkspace s = []")
  case True
  then show ?thesis by (auto simp: cleanup_after_error_def io_bind_def io_peek_def io_return_def)
next
  case False
  obtain q u where "cleanup_workspace api tid (rsWorkspace s) (quiet s) = (q, quiet u)" "runs u = runs s"
    using cleanup_quiet by blast
  with False show ?thesis
    by (cases q) (auto simp: cleanup_after_error_def io_bind_def io_peek_def io_return_def io_catch_def)
qed

lemma cancel_after_error_closes:
  assumes "in_hand tid (runs s)"
  shows "\<exists>t. cancel_after_error api tid st (quiet s) = (Inr (), quiet t) \<and> run_closed tid t"
proof -
  obtain r where r: "runs s tid = Some r" "status r \<noteq> CREATED" "status r \<noteq> CANCEL_REQUESTED"
    using assms by (auto simp: in_hand_def split: option.splits)
  obtain s1 r1 where 1: "io_ignore (request_cancel tid None None) (quiet s) = (Inr (), quiet s1)"
    "runs s1 tid = Some r1" "is_terminal (status r1) \<or> can_transition (status r1) CANCELLED"
  proof (cases "can_transition (status r) CANCEL_REQUESTED")
    case True
    then show ?thesis
      using that r assert_transition_allowed_iff[of r CANCEL_REQUESTED]
      by (auto simp: io_ignore_snd request_cancel_def io_bind_def io_peek_def run_simps Let_def
          transition_data_def can_transition_iff)
  next
    case False
    then have "is_terminal (status r) \<or> can_transition (status r) CANCELLED"
      using r by (cases "status r") (simp_all add: can_transition_iff)
    moreover obtain err where "assert_transition_allowed r CANCEL_REQUESTED = Inl err"
      using False assert_transition_allowed_iff[of r CANCEL_REQUESTED]
      by (cases "assert_transition_allowed r CANCEL_REQUESTED") auto
    ultimately show ?thesis
      using that[of s r] r(1)
      by (simp add: io_ignore_snd request_cancel_def io_bind_def io_peek_def run_simps)
  qed
  obtain c s2 where 2: "cleanup_after_error api tid (quiet s1) = (Inr c, quiet s2)" "runs s2 = runs s1"
    using cleanup_after_error_quiet by blast
  let ?s3 = "s2\<lparr>rsWorkspace := []\<rparr>"
  have "runs ?s3 tid = Some r1" using 1 2 by simp
  from transition_closes_or_closed[OF this _ 1(3)] obtain t where
    "snd (mark_cancelled tid (Some (clock s2 - st)) c (quiet ?s3)) = quiet t" "run_closed tid t"
    by (auto simp: mark_cancelled_def io_bind_def io_peek_def)
  with 1(1) 2(1) show ?thesis
    by (simp add: cancel_after_error_def io_then_def io_bind_def io_peek_def modify_quiet io_ignore_snd)
qed

lemma report_quiet: "\<exists>t. generate_report api tid (quiet s) = (Inr (), quiet t) \<and> runs t = runs s"
  by (auto simp: generate_report_def io_ignore_snd service_quiet split: prod.split)

lemma note_failure_returns: "fst (note_validation_failure tid m (quiet s)) = Inr ()"
  by (simp add: note_validation_failure_def io_bind_def find_run_quiet io_ignore_snd io_return_def)

lemma on_error_closes:
  assumes "in_hand tid (runs s)" "\<not> is_timeout_error e"
  shows "\<exists>t. on_error api tid st e (quiet s) = (Inr (), quiet t) \<and> run_closed tid t"
proof -
  let ?m = "mask_string (rsMaskValues s) (error_message e)"
  obtain s1 where 1: "note_validation_failure tid ?m (quiet s) = (Inr (), quiet s1)" "in_hand tid (runs s1)"
    using held_stays[OF held.upholds_note_failure settles_note_failure(1) assms(1), where message1 = ?m]
      note_failure_returns[of tid ?m s] by (metis prod.collapse)
  obtain s2 where 2: "io_ignore (log_masked api tid ''ERROR'' ?m) (quiet s1) = (Inr (), quiet s2)"
    "in_hand tid (runs s2)"
    using held_stays[OF kept.upholds_log(2) settles_helpers(2) 1(2), of api tid "''ERROR''" ?m]
    by (auto simp: io_ignore_snd)
  have "\<exists>b. cancelled_by tid e (quiet s2) = (Inr b, quiet s2)"
    by (auto simp: cancelled_by_def is_cancellation_requested_def io_bind_def io_return_def run_simps)
  then obtain b where 3: "cancelled_by tid e (quiet s2) = (Inr b, quiet s2)" by blast
  have "\<exists>s3. (if b then cancel_after_error api tid st else fail_after_error tid st e ?m) (quiet s2)
      = (Inr (), quiet s3) \<and> run_closed tid s3"
    using cancel_after_error_closes[OF 2(2), of api st] fail_after_error_closes[OF 2(2) assms(2), of st ?m]
    by (cases b) simp_all
  then obtain s3 where 4: "(if b then cancel_after_error api tid st else fail_after_error tid st e ?m) (quiet s2)
      = (Inr (), quiet s3)" "run_closed tid s3" by blast
  obtain s4 where 5: "generate_report api tid (quiet s3) = (Inr (), quiet s4)" "runs s4 = runs s3"
    using report_quiet by blast
  have "on_error api tid st e (quiet s) = (Inr (), quiet s4)"
    using 1(1) 2(1) 3 4(1) 5(1) by (simp add: on_error_def io_then_def io_bind_def io_peek_def Let_def)
  with 4(2) 5(2) show ?thesis by (auto simp: run_closed_def)
qed

lemma io_bind_quiet_Inr:
  assumes "io_bind m f (quiet s) = (Inr b, w')" "io_settles m"
  obtains a t where "m (quiet s) = (Inr a, quiet t)" "f a (quiet t) = (Inr b, w')"
  using assms by (rule bind_quiet) auto

lemma io_then_quiet_Inr:
  assumes "io_then m k (quiet s) = (Inr b, w')" "io_settles m"
  obtains a t where "m (quiet s) = (Inr a, quiet t)" "k (quiet t) = (Inr b, w')"
  using assms unfolding io_then_def by (rule io_bind_quiet_Inr)

lemma record_verdict_closes:
  assumes "record_verdict api tid st duration c cancelled (quiet s) = (Inr (), w)"
  shows "\<exists>t. w = quiet t \<and> run_closed tid t"
proof -
  have "\<exists>t. w = quiet t \<and> run_closed tid t" if cancelled
    using assms that
    by (auto simp: record_verdict_def io_then_Inr_iff io_return_def mark_cancelled_def io_bind_def io_peek_def
        dest: transition_closes)
  moreover have "\<exists>t. w = quiet t \<and> run_closed tid t" if "\<not> cancelled" "statFailed st > 0"
    using assms that
    by (auto simp: record_verdict_def io_then_Inr_iff io_return_def mark_test_failed_def io_bind_def io_peek_def
        dest: transition_closes)
  moreover have "\<exists>t. w = quiet t \<and> run_closed tid t" if n: "\<not> cancelled" "\<not> statFailed st > 0"
  proof -
    from assms n obtain r t where p: "mark_passed tid st duration (quiet s) = (Inr r, quiet t)"
      and w: "io_bind (io_peek clock) (\<lambda>now. call_service (srvFirstSuccess api (projectId r)
          (case finishedAt r of Some t \<Rightarrow> t | None \<Rightarrow> now))) (quiet t) = (Inr (), w)"
      by (auto simp: record_verdict_def elim: io_bind_quiet_Inr[OF _ settles_state(5)])
    from p have "run_closed tid t"
      by (auto simp: mark_passed_def io_bind_def io_peek_def dest: transition_closes)
    with w show ?thesis
      by (auto simp: io_bind_def io_peek_def service_quiet run_closed_def split: prod.splits)
  qed
  ultimately show ?thesis by blast
qed

lemma finish_phase_closes:
  assumes "finish_phase api tid started st (quiet s) = (Inr (), w)"
  shows "\<exists>t. w = quiet t \<and> run_closed tid t"
proof -
  obtain s1 where "io_bind (final_cleanup api tid) (\<lambda>cleanup.
      io_bind (is_cancellation_requested tid) (\<lambda>cancelled.
      io_bind (io_peek (\<lambda>s. clock s - started)) (\<lambda>duration.
      io_then (record_verdict api tid st duration cleanup cancelled) (generate_report api tid)))) (quiet s1)
      = (Inr (), w)"
    using assms unfolding finish_phase_def by (rule io_then_quiet_Inr) (rule settles_state)
  then obtain c s2 where "io_bind (is_cancellation_requested tid) (\<lambda>cancelled.
      io_bind (io_peek (\<lambda>s. clock s - started)) (\<lambda>duration.
      io_then (record_verdict api tid st duration c cancelled) (generate_report api tid))) (quiet s2)
      = (Inr (), w)"
    by (rule io_bind_quiet_Inr) (rule settles_final_cleanup)
  then obtain b s3 where "io_bind (io_peek (\<lambda>s. clock s - started)) (\<lambda>duration.
      io_then (record_verdict api tid st duration c b) (generate_report api tid)) (quiet s3) = (Inr (), w)"
    by (rule io_bind_quiet_Inr) (rule settles_state)
  then obtain w1 where v: "record_verdict api tid st (clock s3 - started) c b (quiet s3) = (Inr (), w1)"
    and g: "generate_report api tid w1 = (Inr (), w)"
    by (auto simp: io_bind_def io_peek_def io_then_Inr_iff split: prod.splits sum.splits)
  obtain t where "w1 = quiet t" "run_closed tid t" using record_verdict_closes[OF v] by blast
  with g report_quiet[of api tid t] show ?thesis by (auto simp: run_closed_def)
qed

lemma execute_claimed_ends:
  assumes "in_hand tid (runs s)"
  shows "\<exists>res t. execute_claimed api cfg tid inp er started (quiet s) = (res, quiet t)
    \<and> in_hand tid (runs t) \<and> (res = Inr () \<longrightarrow> run_closed tid t)"
proof -
  obtain res t where t: "execute_claimed api cfg tid inp er started (quiet s) = (res, quiet t)"
      "in_hand tid (runs t)"
    using held_stays[OF held.upholds_execute_claimed settles_execute_claimed assms,
        of api cfg tid inp er started] by (metis prod.collapse)
  have "run_closed tid t" if "res = Inr ()"
  proof -
    let ?finish = "\<lambda>st. finish_phase api tid started st"
    from t(1) that obtain st u where "?finish st (quiet u) = (Inr (), quiet t)"
      unfolding execute_claimed_def create_execution_context_def
      by (auto elim!: io_then_quiet_Inr io_bind_quiet_Inr intro!: settle_rules)
    from finish_phase_closes[OF this] show ?thesis by auto
  qed
  with t show ?thesis by blast
qed

lemma run_body_ends:
  assumes "runs s tid = Some r" "status r = QUEUED" "leaseExpiresAt r = None"
  shows "\<exists>res t. run_body api cfg tid inp started (quiet s) = (res, quiet t)
    \<and> (if res = Inr () then run_closed tid t else in_hand tid (runs t))"
proof (cases "cancelRequestedAt r = None \<and> cancellationRequestedAt r = None")
  case False
  have c: "is_cancellation_requested tid (quiet s) = (Inr True, quiet s)"
    using assms False by (auto simp: is_cancellation_requested_def io_bind_def io_return_def run_simps)
  obtain s1 r1 where 1: "io_ignore (request_cancel tid None None) (quiet s) = (Inr (), quiet s1)"
      "runs s1 tid = Some r1" "status r1 = CANCEL_REQUESTED"
    using assms assert_transition_allowed_iff[of r CANCEL_REQUESTED]
    by (auto simp: io_ignore_snd request_cancel_def io_bind_def io_peek_def run_simps Let_def
        transition_data_def can_transition_iff)
  have "assert_transition_allowed r1 CANCELLED = Inr ()"
    using 1(3) by (simp add: assert_transition_allowed_iff can_transition_iff)
  then obtain a s2 where 2: "mark_cancelled tid (Some (clock s1 - started)) None (quiet s1) = (Inr a, quiet s2)"
      "run_closed tid s2"
    using 1(2) by (auto simp: mark_cancelled_def io_bind_def io_peek_def run_simps Let_def run_closed_def
        transition_data_def)
  obtain s3 where 3: "generate_report api tid (quiet s2) = (Inr (), quiet s3)" "runs s3 = runs s2"
    using report_quiet by blast
  have "run_body api cfg tid inp started (quiet s) = (Inr (), quiet s3)"
    using assms c 1(1) 2(1) 3(1)
    by (simp add: run_body_def io_bind_def io_then_def io_peek_def find_run_quiet)
  with 2(2) 3(2) show ?thesis by (auto simp: run_closed_def)
next
  case True
  have h: "in_hand tid (runs s)" using assms by (simp add: in_hand_def)
  have c: "is_cancellation_requested tid (quiet s) = (Inr False, quiet s)"
    using assms True by (auto simp: is_cancellation_requested_def io_bind_def io_return_def run_simps)
  let ?l = "\<lparr>leaseRunner = rcRunner cfg, leaseDuration = rcLease cfg\<rparr>"
  let ?s1 = "s\<lparr>runs := (runs s)(tid \<mapsto> claim_data ?l (clock s) r)\<rparr>"
  have "claim tid (Some ?l) (quiet s) = (Inr (claim_data ?l (clock s) r), quiet ?s1)"
    using assms by (intro claim_quiet) (simp_all add: can_transition_iff lease_free_def)
  then have cl: "claim_or_skip cfg tid (quiet s) = (Inr True, quiet ?s1)"
    by (simp add: claim_or_skip_def io_catch_def io_then_def io_bind_def io_return_def)
  have h1: "in_hand tid (runs ?s1)" by (simp add: in_hand_def claim_data_def)
  show ?thesis
  proof (cases "riEnvironment inp")
    case None
    with assms c h show ?thesis by (simp add: run_body_def io_bind_def io_throw_def find_run_quiet)
  next
    case (Some er)
    obtain res t where "execute_claimed api cfg tid inp er started (quiet ?s1) = (res, quiet t)"
        "in_hand tid (runs t)" "res = Inr () \<longrightarrow> run_closed tid t"
      using execute_claimed_ends[OF h1] by blast
    with assms c cl h Some show ?thesis
      by (auto simp: run_body_def io_bind_def io_throw_def find_run_quiet)
  qed
qed

text \<open>
  C3: A worker that works alone closes its run.  Whatever the environment, the network, Docker, the
  file system and the plans do, when nobody else touches the database, a queued run without a lease is
  in a terminal status once the worker has returned.  (\<open>TestRunTimeoutError\<close>, which the body is
  assumed not to throw, is a private class of the file that nothing constructs.)
\<close>

theorem worker_closes_its_run:
  assumes "runs s tid = Some r" "status r = QUEUED" "leaseExpiresAt r = None"
    and "\<And>t m w'. runs t = runs s \<Longrightarrow>
      run_body api cfg tid inp (clock s) (quiet t) \<noteq> (Inl (TestRunTimeoutError m), w')"
  shows "\<exists>t r'. snd (execute_internal api cfg tid inp (quiet s)) = quiet t
    \<and> runs t tid = Some r' \<and> is_terminal (status r')"
proof -
  let ?s = "s\<lparr>rsWorkspace := [], rsUsesDocker := False, rsSecrets := [],
       rsMaskValues := [], rsStopped := True, rsAborted := None\<rparr>"
  obtain res t where b: "run_body api cfg tid inp (clock s) (quiet ?s) = (res, quiet t)"
      "if res = Inr () then run_closed tid t else in_hand tid (runs t)"
    using run_body_ends[of ?s tid r api cfg inp "clock s"] assms by auto
  have "\<exists>res' t'. io_catch (run_body api cfg tid inp (clock s)) (on_error api tid (clock s)) (quiet ?s)
      = (res', quiet t') \<and> run_closed tid t'"
  proof (cases res)
    case (Inr u)
    with b show ?thesis by (auto simp: io_catch_def)
  next
    case (Inl e)
    have "\<not> is_timeout_error e"
      using assms(4)[of ?s] b(1) Inl by (cases e) (auto simp: is_timeout_error_def)
    with on_error_closes[of tid t e api "clock s"] b Inl show ?thesis by (auto simp: io_catch_def)
  qed
  then obtain res' t' where c: "io_catch (run_body api cfg tid inp (clock s)) (on_error api tid (clock s))
      (quiet ?s) = (res', quiet t')" "run_closed tid t'" by blast
  obtain q t2 where r: "release api tid (quiet t') = (q, quiet t2)" "run_closed tid t2"
    using closed_stays[OF safe_worker.upholds_release settles_release c(2), of api tid]
    by (metis prod.collapse)
  have "snd (execute_internal api cfg tid inp (quiet s)) = quiet t2"
    using c(1) r(1)
    by (cases q) (simp_all add: execute_internal_def io_bind_def io_then_def io_peek_def modify_quiet
        io_finally_def)
  with r(2) show ?thesis by (auto simp: run_closed_def)
qed

definition worker_store :: "test_run \<Rightarrow> unit runner_store" where
  "worker_store r = idle_store\<lparr>clock := 100, runs := [''r1'' \<mapsto> r]\<rparr>"

definition queued_run :: test_run where
  "queued_run = sample_row\<lparr>status := QUEUED\<rparr>"

definition sample_config :: runner_config where
  "sample_config = \<lparr>rcRunner = ''w'', rcLease = 60000, rcRoot = ''/tmp'', rcUrl = (\<lambda>p b. Inr (b @ p)),
     rcDecrypt = (\<lambda>v k. v), rcYaml = no_yaml\<rparr>"

definition bare_inputs :: run_inputs where
  "bare_inputs = \<lparr>riBaseUrl = ''http://b'', riHealthPath = ''/h'', riHealthStatus = 200,
     riHealthTimeout = 60, riEnvironment = None, riSuites = []\<rparr>"


theorem worker_closes_its_run_witness:
  "\<exists>t r'. snd (execute_internal quiet_services sample_config ''r1'' bare_inputs (quiet (worker_store queued_run)))
      = quiet t \<and> runs t ''r1'' = Some r' \<and> is_terminal (status r')"
proof (rule worker_closes_its_run)
  show "runs (worker_store queued_run) ''r1'' = Some queued_run" by (simp add: worker_store_def)
  show "status queued_run = QUEUED" "leaseExpiresAt queued_run = None"
    by (simp_all add: queued_run_def sample_row_def)
  fix t :: "unit runner_store" and m w' assume "runs t = runs (worker_store queued_run)"
  then have "runs t ''r1'' = Some queued_run" by (simp add: worker_store_def)
  then show "run_body quiet_services sample_config ''r1'' bare_inputs (clock (worker_store queued_run)) (quiet t)
      \<noteq> (Inl (TestRunTimeoutError m), w')"
    by (simp add: run_body_def io_bind_def find_run_quiet is_cancellation_requested_def io_return_def
        queued_run_def sample_row_def bare_inputs_def io_throw_def)
qed

section \<open>The verdict\<close>

lemma mark_quiet:
  assumes "runs s tid = Some r" "can_transition (status r) target"
  shows "transition tid target data (quiet s)
    = (Inr (transition_data r target (clock s) data r),
       quiet (s\<lparr>runs := (runs s)(tid \<mapsto> transition_data r target (clock s) data r)\<rparr>))"
  using assms assert_transition_allowed_iff[of r target] by (simp add: run_simps Let_def)

definition is_cancelling :: "test_run \<Rightarrow> bool" where
  "is_cancelling r = (status r = CANCEL_REQUESTED \<or> status r = CANCELLED
     \<or> cancelRequestedAt r \<noteq> None \<or> cancellationRequestedAt r \<noteq> None)"

lemma record_verdict_quiet:
  assumes "runs s tid = Some r" "status r = CLEANING_UP"
  shows "\<exists>res t r'. record_verdict api tid st d c cancelled (quiet s) = (res, quiet t) \<and> runs t tid = Some r'
    \<and> status r' = (if cancelled then CANCELLED else if 0 < statFailed st then TEST_FAILED else PASSED)
    \<and> totalTests r' = (if cancelled then totalTests r else statTotal st)
    \<and> failedTests r' = (if cancelled then failedTests r else statFailed st)
    \<and> (res = Inr () \<or> status r' = PASSED)"
proof -
  have can: "can_transition (status r) CANCELLED" "can_transition (status r) TEST_FAILED"
    "can_transition (status r) PASSED"
    using assms(2) by (simp_all add: can_transition_iff)
  note marks = mark_cancelled_def mark_test_failed_def mark_passed_def io_bind_def io_peek_def io_then_def
    io_return_def transition_data_def finished_data_def cleared_lease_def stats_data_def
  show ?thesis
  proof (cases cancelled)
    case True
    then show ?thesis
      using mark_quiet[OF assms(1) can(1)] by (simp add: record_verdict_def marks)
  next
    case no: False
    show ?thesis
    proof (cases "0 < statFailed st")
      case True
      with no show ?thesis
        using mark_quiet[OF assms(1) can(2)] by (simp add: record_verdict_def marks)
    next
      case False
      with no show ?thesis
        using mark_quiet[OF assms(1) can(3)]
        by (simp add: record_verdict_def marks service_quiet split: prod.split)
    qed
  qed
qed

lemma log_quiet:
  "\<exists>t. io_ignore (log_masked api tid src m) (quiet s) = (Inr (), quiet t) \<and> runs t = runs s
     \<and> rsWorkspace t = rsWorkspace s"
  by (auto simp: io_ignore_snd log_masked_def log_plain_def io_bind_def io_peek_def service_quiet
      split: prod.split)

lemma cleanup_returns: "\<exists>c t. cleanup_workspace api tid wd (quiet s) = (Inr c, quiet t)"
proof -
  have "\<exists>c u. io_catch (io_then (docker_down api wd) (io_return None))
      (\<lambda>e. io_then (io_ignore (log_masked api tid ''ERROR'' (error_message e)))
        (io_return (Some (error_message e)))) (quiet s) = (Inr c, quiet u)"
  proof (cases "docker_down api wd (quiet s)")
    case (Pair q w)
    obtain v where v: "w = quiet v"
      using quiet_after[OF settles_helpers(4), of api wd s] Pair by auto
    show ?thesis
    proof (cases q)
      case (Inl e)
      obtain t where "io_ignore (log_masked api tid ''ERROR'' (error_message e)) (quiet v) = (Inr (), quiet t)"
        using log_quiet by blast
      with Pair Inl v show ?thesis by (auto simp: io_catch_def io_then_def io_bind_def io_return_def)
    next
      case (Inr x)
      with Pair v show ?thesis by (auto simp: io_catch_def io_then_def io_bind_def io_return_def)
    qed
  qed
  then obtain c u where 1: "io_catch (io_then (docker_down api wd) (io_return None))
      (\<lambda>e. io_then (io_ignore (log_masked api tid ''ERROR'' (error_message e)))
        (io_return (Some (error_message e)))) (quiet s) = (Inr c, quiet u)" by blast
  obtain q ms x where "srvRemoveDir api wd (rsOutside u) = (q, ms, x)" by (metis prod_cases3)
  with 1 show ?thesis
    by (cases q) (simp_all add: cleanup_workspace_def io_bind_def[of "io_catch _ _"]
        io_catch_def[of "io_bind (call_service _) _"] io_then_def[of "call_service _"]
        io_bind_def[of "call_service _"] io_bind_def[of "io_peek _"] io_return_def io_peek_def service_quiet)
qed

lemma final_cleanup_quiet: "\<exists>c t. final_cleanup api tid (quiet s) = (Inr c, quiet t) \<and> runs t = runs s"
proof (cases "rsWorkspace s = []")
  case True
  then show ?thesis by (auto simp: final_cleanup_def io_bind_def io_peek_def io_return_def)
next
  case False
  obtain c t where "cleanup_workspace api tid (rsWorkspace s) (quiet s) = (Inr c, quiet t)" "runs t = runs s"
    using cleanup_returns[of api tid "rsWorkspace s" s] cleanup_quiet[of api tid "rsWorkspace s" s]
    by (metis Pair_inject quiet_inject)
  with False show ?thesis
    by (auto simp: final_cleanup_def io_bind_def io_peek_def io_return_def io_then_def modify_quiet)
qed



section \<open>Two workers\<close>

lemma fail_after_error_infra:
  assumes "runs s tid = Some r" "can_transition (status r) INFRA_FAILED"
    "status r \<noteq> WAITING_FOR_HEALTHCHECK" "\<not> is_timeout_error e"
  shows "\<exists>t r'. fail_after_error tid st e message (quiet s) = (Inr (), quiet t)
    \<and> runs t tid = Some r' \<and> status r' = INFRA_FAILED \<and> runnerId r' = None \<and> rsWorkspace t = rsWorkspace s"
proof -
  have "\<exists>cat. failure_category_for tid message (quiet s) = (Inr cat, quiet s) \<and> cat \<noteq> TIMEOUT"
    using assms(1,3) by (auto simp: failure_category_for_def io_bind_def run_simps Let_def)
  then obtain cat where "failure_category_for tid message (quiet s) = (Inr cat, quiet s)" "cat \<noteq> TIMEOUT"
    by blast
  then show ?thesis
    using assms(4) mark_quiet[OF assms(1,2)]
    by (simp add: fail_after_error_def io_bind_def io_peek_def io_ignore_snd mark_infra_failed_def
        transition_data_def finished_data_def cleared_lease_def)
qed

text \<open>
  C6: A worker that loses a race ends the winner's run.  It reads the run as queued; before its claim
  reads the row again, the first worker has claimed the run and entered \<open>PREPARING_WORKSPACE\<close>.  The
  claim then fails with an invalid transition, not with an active lease, so the worker does not step
  back but takes its error path, and marks the run \<open>INFRA_FAILED\<close> under the first worker's feet.
\<close>

theorem losing_worker_fails_the_run:
  assumes "runs s tid = Some r" "status r = QUEUED" "\<not> is_cancelling r"
    and "riEnvironment inp = Some er" "riSuites inp \<noteq> []"
    and "\<And>u. runs u = runs s \<Longrightarrow> runs (f u) tid = Some ra \<and> rsWorkspace (f u) = rsWorkspace u"
    and "status ra = PREPARING_WORKSPACE" "\<not> is_cancelling ra"
  shows "\<exists>t r'. snd (execute_internal api cfg tid inp
      \<lparr>store = s, pending = [CallEnv id Done, CallEnv id Done, CallEnv f Done]\<rparr>) = quiet t
    \<and> runs t tid = Some r' \<and> status r' = INFRA_FAILED \<and> runnerId r' = None"
proof -
  let ?s = "s\<lparr>rsWorkspace := [], rsUsesDocker := False, rsSecrets := [],
       rsMaskValues := [], rsStopped := True, rsAborted := None\<rparr>"
  let ?e = "ConflictException (''Invalid test run status transition: '' @ status_name PREPARING_WORKSPACE
    @ '' -> '' @ status_name CLAIMED)"
  have f: "runs (f ?s) tid = Some ra" "rsWorkspace (f ?s) = []" using assms(6)[of ?s] by simp_all
  have msg: "\<not> includes_ci (error_message ?e) ''active execution lease''" by code_simp
  have "assert_transition_allowed ra CLAIMED = Inl ?e"
    using assms(7) by (simp add: assert_transition_allowed_def)
  then have body: "run_body api cfg tid inp (clock s)
      \<lparr>store = ?s, pending = [CallEnv id Done, CallEnv id Done, CallEnv f Done]\<rparr> = (Inl ?e, quiet (f ?s))"
    using assms(1-5) f(1) msg
    by (simp add: run_body_def claim_or_skip_def claim_def io_bind_def io_catch_def io_then_def io_peek_def
        io_lift_def io_throw_def io_return_def find_run_def io_read_def io_call_def quiet_def
        is_cancellation_requested_def is_cancelling_def Let_def)
  let ?m = "mask_string (rsMaskValues (f ?s)) (error_message ?e)"
  have nt: "note_validation_failure tid ?m (quiet (f ?s)) = (Inr (), quiet (f ?s))"
    using f assms(7) by (simp add: note_validation_failure_def io_bind_def find_run_quiet io_return_def)
  obtain s1 where 1: "io_ignore (log_masked api tid ''ERROR'' ?m) (quiet (f ?s)) = (Inr (), quiet s1)"
    "runs s1 = runs (f ?s)" "rsWorkspace s1 = rsWorkspace (f ?s)" using log_quiet by blast
  have c: "cancelled_by tid ?e (quiet s1) = (Inr False, quiet s1)"
    using 1(2) f assms(8)
    by (simp add: cancelled_by_def is_cancellation_requested_def io_bind_def io_return_def find_run_quiet
        is_cancelling_def)
  obtain s2 r' where 2: "fail_after_error tid (clock s) ?e ?m (quiet s1) = (Inr (), quiet s2)"
    "runs s2 tid = Some r'" "status r' = INFRA_FAILED" "runnerId r' = None" "rsWorkspace s2 = rsWorkspace s1"
    using fail_after_error_infra[of s1 tid ra ?e "clock s" ?m] 1(2) f assms(7)
    by (auto simp: can_transition_iff is_timeout_error_def)
  obtain s3 where 3: "generate_report api tid (quiet s2) = (Inr (), quiet s3)" "runs s3 = runs s2"
    "rsWorkspace s3 = rsWorkspace s2"
    using report_quiet[of api tid s2]
    by (auto simp: generate_report_def io_ignore_snd service_quiet split: prod.splits)
  have err: "on_error api tid (clock s) ?e (quiet (f ?s)) = (Inr (), quiet s3)"
    using nt 1(1) c 2(1) 3(1) by (simp add: on_error_def io_then_def io_bind_def io_peek_def Let_def)
  have "release api tid (quiet s3) = (Inr (), quiet (s3\<lparr>rsStopped := True\<rparr>))"
    using 3(3) 2(5) 1(3) f(2)
    by (simp add: release_def stop_context_def io_then_def io_bind_def io_peek_def modify_quiet io_return_def)
  with body err have "snd (execute_internal api cfg tid inp
      \<lparr>store = s, pending = [CallEnv id Done, CallEnv id Done, CallEnv f Done]\<rparr>)
      = quiet (s3\<lparr>rsStopped := True\<rparr>)"
    by (simp add: execute_internal_def io_then_def io_bind_def io_peek_def io_modify_def io_finally_def
        io_catch_def)
  with 2 3 show ?thesis by auto
qed

definition winning_run :: test_run where
  "winning_run = sample_row\<lparr>status := PREPARING_WORKSPACE, currentPhase := Some PREPARING_WORKSPACE,
     runnerId := Some ''first'', leaseExpiresAt := Some 99999\<rparr>"

definition one_suite :: run_inputs where
  "one_suite = bare_inputs\<lparr>riEnvironment := Some \<lparr>erDocker = False, erCompose = [], erRuntime = [], erVisual = None\<rparr>,
     riSuites := [\<lparr>sqId = ''q'', sqYaml = [], sqPlanJson = None, sqPlan = the (ruPlan setting_suite), sqVisual = None\<rparr>]\<rparr>"

theorem losing_worker_fails_the_run_witness:
  "\<exists>t r'. snd (execute_internal quiet_services sample_config ''r1'' one_suite
      \<lparr>store = worker_store queued_run, pending = [CallEnv id Done, CallEnv id Done,
        CallEnv (\<lambda>s. s\<lparr>runs := [''r1'' \<mapsto> winning_run]\<rparr>) Done]\<rparr>) = quiet t
    \<and> runs t ''r1'' = Some r' \<and> status r' = INFRA_FAILED \<and> runnerId r' = None"
  by (rule losing_worker_fails_the_run[where ra = winning_run and r = queued_run])
    (simp_all add: worker_store_def queued_run_def sample_row_def is_cancelling_def one_suite_def winning_run_def)

end
