(* ===== verification/Access.thy ===== *)
theory Access
  imports Async
begin

text \<open>
  Who may do what: \<open>authorization/\<close> (the guard, the resource resolver, the permission service, API token
  authentication) and the scopes of new tokens (\<open>api-tokens/\<close>).  The lookups of one request read
  immutable links (a run's project, a project's company), so they are made on one snapshot of the
  database; the hash of a token is a parameter.
\<close>

section \<open>Roles and actions\<close>

datatype user_role = OWNER | ADMIN | DEVELOPER | VIEWER
datatype project_role = PROJECT_ADMIN | PROJECT_DEVELOPER | PROJECT_VIEWER
datatype principal_type = USER | SERVICE_ACCOUNT | API_TOKEN

datatype permission_action =
    Audit_Read | Billing_Manage | Company_Read | Company_Update | Environment_Read | Environment_Write
  | Project_Create | Project_Delete | Project_Read | Project_Update | Run_Read | Run_Write
  | Secret_Read | Secret_Write | Suite_Read | Suite_Write | Team_Manage | Token_Manage

fun action_name :: "permission_action \<Rightarrow> string" where
  "action_name Audit_Read = ''audit:read''"
| "action_name Billing_Manage = ''billing:manage''"
| "action_name Company_Read = ''company:read''"
| "action_name Company_Update = ''company:update''"
| "action_name Environment_Read = ''environment:read''"
| "action_name Environment_Write = ''environment:write''"
| "action_name Project_Create = ''project:create''"
| "action_name Project_Delete = ''project:delete''"
| "action_name Project_Read = ''project:read''"
| "action_name Project_Update = ''project:update''"
| "action_name Run_Read = ''run:read''"
| "action_name Run_Write = ''run:write''"
| "action_name Secret_Read = ''secret:read''"
| "action_name Secret_Write = ''secret:write''"
| "action_name Suite_Read = ''suite:read''"
| "action_name Suite_Write = ''suite:write''"
| "action_name Team_Manage = ''team:manage''"
| "action_name Token_Manage = ''token:manage''"

definition api_token_allowed_actions :: "permission_action list" where
  "api_token_allowed_actions =
     [Audit_Read, Company_Read, Environment_Read, Environment_Write, Project_Read, Run_Read, Run_Write,
      Secret_Read, Secret_Write, Suite_Read, Suite_Write]"

fun role_permissions :: "user_role \<Rightarrow> permission_action list" where
  "role_permissions OWNER =
     [Audit_Read, Billing_Manage, Company_Read, Company_Update, Environment_Read, Environment_Write,
      Project_Create, Project_Delete, Project_Read, Project_Update, Run_Read, Run_Write, Secret_Read,
      Secret_Write, Suite_Read, Suite_Write, Team_Manage, Token_Manage]"
| "role_permissions ADMIN =
     [Audit_Read, Company_Read, Company_Update, Environment_Read, Environment_Write, Project_Create,
      Project_Delete, Project_Read, Project_Update, Run_Read, Run_Write, Secret_Read, Secret_Write,
      Suite_Read, Suite_Write, Team_Manage, Token_Manage]"
| "role_permissions DEVELOPER =
     [Company_Read, Environment_Read, Environment_Write, Project_Read, Run_Read, Run_Write, Secret_Read,
      Suite_Read, Suite_Write]"
| "role_permissions VIEWER =
     [Company_Read, Environment_Read, Project_Read, Run_Read, Secret_Read, Suite_Read]"

definition can_role :: "user_role \<Rightarrow> permission_action \<Rightarrow> bool" where
  "can_role role action = (action \<in> set (role_permissions role))"

text \<open>The caller; the fields only audit records and sockets use (ids, e-mail) are left out.\<close>

record principal =
  prType :: principal_type
  prCompany :: string
  prRole :: user_role
  prUser :: "string option"
  prScopes :: "string list option"
  prProject :: "string option"

section \<open>Resources\<close>

datatype resource_type =
  AuditEvent | Company | Environment | Project | Run | Secret | Suite | Revision | Team | Token

record resolved_resource =
  reType :: resource_type
  reId :: "string option"
  reCompany :: "string option"
  reProject :: "string option"

record request_params =
  rpRunId :: "string option"
  rpSecretId :: "string option"
  rpSuiteId :: "string option"
  rpRevisionId :: "string option"
  rpProjectId :: "string option"
  rpId :: "string option"

text \<open>Each row with its project and that project's company.\<close>

record access_db =
  adRuns :: "string \<rightharpoonup> string \<times> string"
  adSecrets :: "string \<rightharpoonup> string \<times> string"
  adSuites :: "string \<rightharpoonup> string \<times> string"
  adSuiteRevisions :: "string \<rightharpoonup> string"
  adEnvRevisions :: "string \<rightharpoonup> string \<times> string"
  adProjects :: "string \<rightharpoonup> string"
  adMembers :: "string \<times> string \<rightharpoonup> project_role"

definition find_scoped ::
    "(string \<rightharpoonup> string \<times> string) \<Rightarrow> string option \<Rightarrow> string option \<Rightarrow> string \<Rightarrow>
     js_error + (string \<times> string \<times> string)" where
  "find_scoped rows key scope message =
     (case rows (the key) of
        None \<Rightarrow> Inl (NotFoundException message)
      | Some (pid, company) \<Rightarrow>
          if truthy_str scope \<and> scope \<noteq> Some pid then Inl (NotFoundException message)
          else Inr (the key, pid, company))"

definition resource_of :: "resource_type \<Rightarrow> string \<times> string \<times> string \<Rightarrow> resolved_resource" where
  "resource_of t r = (case r of (i, pid, company) \<Rightarrow>
     \<lparr>reType = t, reId = Some i, reCompany = Some company, reProject = Some pid\<rparr>)"

definition project_bound_types :: "resource_type list" where
  "project_bound_types = [Environment, Project, Run, Secret, Suite, Revision]"

definition is_project_bound :: "resource_type option \<Rightarrow> bool" where
  "is_project_bound t = (case t of None \<Rightarrow> False | Some r \<Rightarrow> r \<in> set project_bound_types)"

definition assert_suite_revision :: "access_db \<Rightarrow> string \<Rightarrow> string \<Rightarrow> js_error + unit" where
  "assert_suite_revision db revision suite =
     (if adSuiteRevisions db revision = Some suite then Inr ()
      else Inl (NotFoundException ''Revision not found''))"

definition resolve ::
    "access_db \<Rightarrow> request_params \<Rightarrow> resource_type option \<Rightarrow> js_error + resolved_resource" where
  "resolve db ps rtype =
     (if truthy_str (rpRunId ps)
      then sbind (find_scoped (adRuns db) (rpRunId ps) (rpProjectId ps) ''Test run not found'')
        (\<lambda>r. Inr (resource_of Run r))
      else if truthy_str (rpSecretId ps)
      then sbind (find_scoped (adSecrets db) (rpSecretId ps) (rpProjectId ps) ''Secret not found'')
        (\<lambda>r. Inr (resource_of Secret r))
      else if truthy_str (rpSuiteId ps)
      then sbind (find_scoped (adSuites db) (rpSuiteId ps) (rpProjectId ps) ''Test suite not found'')
        (\<lambda>r. if truthy_str (rpRevisionId ps)
              then sbind (assert_suite_revision db (the (rpRevisionId ps)) (fst r))
                (\<lambda>_. Inr ((resource_of Revision r)\<lparr>reId := rpRevisionId ps\<rparr>))
              else Inr (resource_of Suite r))
      else if truthy_str (rpRevisionId ps) \<and> truthy_str (rpProjectId ps)
      then sbind (find_scoped (adEnvRevisions db) (rpRevisionId ps) (rpProjectId ps) ''Revision not found'')
        (\<lambda>r. Inr (resource_of Revision r))
      else (let pid = (case rpProjectId ps of None \<Rightarrow> rpId ps | Some p \<Rightarrow> Some p) in
        if truthy_str pid \<and> is_project_bound rtype
        then (case adProjects db (the pid) of
            None \<Rightarrow> Inl (NotFoundException ''Project not found'')
          | Some company \<Rightarrow> Inr (resource_of (if rtype = Some Environment then Environment else Project)
              (the pid, the pid, company)))
        else Inr \<lparr>reType = (case rtype of None \<Rightarrow> Company | Some t \<Rightarrow> t), reId = None, reCompany = None,
               reProject = None\<rparr>))"

section \<open>PermissionService and the guard\<close>

fun project_role_to_user_role :: "project_role \<Rightarrow> user_role" where
  "project_role_to_user_role PROJECT_ADMIN = ADMIN"
| "project_role_to_user_role PROJECT_DEVELOPER = DEVELOPER"
| "project_role_to_user_role PROJECT_VIEWER = VIEWER"

definition resolve_effective_role :: "access_db \<Rightarrow> principal \<Rightarrow> string option \<Rightarrow> user_role" where
  "resolve_effective_role db p pid =
     (if prType p \<noteq> USER \<or> \<not> truthy_str (prUser p) \<or> \<not> truthy_str pid then prRole p
      else (case adMembers db (the pid, the (prUser p)) of
          None \<Rightarrow> prRole p | Some r \<Rightarrow> project_role_to_user_role r))"

definition assert_token_scope :: "principal \<Rightarrow> permission_action \<Rightarrow> js_error + unit" where
  "assert_token_scope p action =
     (if prType p \<noteq> API_TOKEN then Inr ()
      else if action \<notin> set api_token_allowed_actions
      then Inl (ForbiddenException ''API token cannot perform this action'')
      else if action_name action \<in> set (case prScopes p of None \<Rightarrow> [] | Some s \<Rightarrow> s) then Inr ()
      else Inl (ForbiddenException ''API token scope denied''))"

definition assert_can ::
    "access_db \<Rightarrow> principal option \<Rightarrow> permission_action \<Rightarrow> resolved_resource \<Rightarrow> js_error + unit" where
  "assert_can db who action res =
     (case who of
        None \<Rightarrow> Inl UnauthorizedException
      | Some p \<Rightarrow>
          if truthy_str (reCompany res) \<and> Some (prCompany p) \<noteq> reCompany res
          then Inl (ForbiddenException ''Resource belongs to another company'')
          else if truthy_str (prProject p) \<and> truthy_str (reProject res) \<and> prProject p \<noteq> reProject res
          then Inl (ForbiddenException ''API token is not allowed for this project'')
          else if truthy_str (prProject p) \<and> \<not> truthy_str (reProject res) \<and> action \<noteq> Company_Read
          then Inl (ForbiddenException ''Project-scoped API token cannot access company-wide resources'')
          else if action \<notin> set (role_permissions (resolve_effective_role db p (reProject res)))
          then Inl (ForbiddenException ''Permission denied'')
          else assert_token_scope p action)"

definition can_activate ::
    "access_db \<Rightarrow> principal option \<Rightarrow> request_params \<Rightarrow> (permission_action \<times> resource_type option) option \<Rightarrow>
     js_error + bool" where
  "can_activate db who ps permission =
     (case permission of
        None \<Rightarrow> Inr True
      | Some (action, rtype) \<Rightarrow>
          sbind (resolve db ps rtype) (\<lambda>res.
          sbind (assert_can db who action res) (\<lambda>_. Inr True)))"

section \<open>API tokens\<close>

text \<open>
  The table of tokens, in the order of their creation.  Every hash and every id occurs once: the unique
  constraints are checked by \<open>create_token\<close>.  Selections of returned fields and audit records are left
  out.
\<close>

record api_token =
  atId :: string
  atCompany :: string
  atName :: string
  atHash :: string
  atScopes :: "string list"
  atProject :: "string option"
  atExpiresAt :: "int option"
  atRevokedAt :: "int option"
  atLastUsedAt :: "int option"
  atServiceAccountRevoked :: bool

definition token_principal :: "api_token \<Rightarrow> principal" where
  "token_principal t =
     \<lparr>prType = API_TOKEN, prCompany = atCompany t, prRole = OWNER, prUser = None,
      prScopes = Some (atScopes t), prProject = atProject t\<rparr>"

definition update_token :: "string \<Rightarrow> (api_token \<Rightarrow> api_token) \<Rightarrow> api_token list \<Rightarrow> api_token list" where
  "update_token ident f tokens = map (\<lambda>t. if atId t = ident then f t else t) tokens"

definition validate_token ::
    "(string \<Rightarrow> string) \<Rightarrow> int \<Rightarrow> api_token list \<Rightarrow> string \<Rightarrow> js_error + principal \<times> api_token list" where
  "validate_token hash now tokens raw =
     (case find (\<lambda>t. atHash t = hash raw) tokens of
        None \<Rightarrow> Inl UnauthorizedException
      | Some t \<Rightarrow>
          if atRevokedAt t \<noteq> None \<or> (case atExpiresAt t of None \<Rightarrow> False | Some x \<Rightarrow> x \<le> now)
          then Inl UnauthorizedException
          else if atServiceAccountRevoked t then Inl UnauthorizedException
          else Inr (token_principal t, update_token (atId t) (\<lambda>t. t\<lparr>atLastUsedAt := Some now\<rparr>) tokens))"

definition allowed_scopes :: "string list" where
  "allowed_scopes = map action_name
     [Audit_Read, Company_Read, Environment_Read, Environment_Write, Project_Read, Run_Read, Run_Write,
      Secret_Read, Secret_Write, Suite_Read, Suite_Write]"

definition normalize_scopes :: "string list \<Rightarrow> js_error + string list" where
  "normalize_scopes scopes =
     (let unique = rev (remdups (rev scopes)) in
      if unique = [] \<or> list_ex (\<lambda>s. s \<notin> set allowed_scopes) unique
      then Inl (BadRequestException ''API token scope is not allowed'')
      else Inr unique)"

text \<open>\<open>create\<close>: the raw token comes from the random source, the id from the database.\<close>

definition create_token ::
    "(string \<Rightarrow> string) \<Rightarrow> access_db \<Rightarrow> string \<Rightarrow> string \<Rightarrow> string list \<Rightarrow> string option \<Rightarrow> int option \<Rightarrow> string \<Rightarrow>
     string \<Rightarrow> api_token list \<Rightarrow> js_error + api_token \<times> api_token list" where
  "create_token hash db company name scopes pid expires raw ident tokens =
     sbind (normalize_scopes scopes) (\<lambda>unique.
     if truthy_str pid \<and> adProjects db (the pid) \<noteq> Some company
     then Inl (NotFoundException ''Project not found'')
     else (let t = \<lparr>atId = ident, atCompany = company, atName = name, atHash = hash raw, atScopes = unique,
                    atProject = pid, atExpiresAt = expires, atRevokedAt = None, atLastUsedAt = None,
                    atServiceAccountRevoked = False\<rparr> in
       if list_ex (\<lambda>t. atHash t = hash raw \<or> atId t = ident) tokens
       then Inl (PlainError ''Unique constraint failed'')
       else Inr (t, tokens @ [t])))"

definition revoke_token ::
    "int \<Rightarrow> string \<Rightarrow> string \<Rightarrow> api_token list \<Rightarrow> js_error + api_token list" where
  "revoke_token now company ident tokens =
     (case find (\<lambda>t. atId t = ident \<and> atCompany t = company \<and> atRevokedAt t = None) tokens of
        None \<Rightarrow> Inl (NotFoundException ''API token not found'')
      | Some t \<Rightarrow> Inr (update_token ident (\<lambda>t. t\<lparr>atRevokedAt := Some now\<rparr>) tokens))"

section \<open>Properties\<close>

lemma find_scoped_iff:
  "find_scoped rows key scope m = Inr (i, pid, c) \<longleftrightarrow>
   i = the key \<and> rows (the key) = Some (pid, c) \<and> (truthy_str scope \<longrightarrow> scope = Some pid)"
  by (auto simp: find_scoped_def split: option.splits if_splits)

lemma assert_can_iff:
  "assert_can db (Some p) action res = Inr u \<longleftrightarrow>
   (truthy_str (reCompany res) \<longrightarrow> reCompany res = Some (prCompany p))
   \<and> (truthy_str (prProject p) \<longrightarrow>
        (if truthy_str (reProject res) then prProject p = reProject res else action = Company_Read))
   \<and> action \<in> set (role_permissions (resolve_effective_role db p (reProject res)))
   \<and> (prType p = API_TOKEN \<longrightarrow> action \<in> set api_token_allowed_actions
        \<and> action_name action \<in> set (case prScopes p of None \<Rightarrow> [] | Some s \<Rightarrow> s))"
  by (auto simp: assert_can_def assert_token_scope_def)

text \<open>The foreign keys of the tables: the project of a row exists and is its company's.\<close>

definition links_ok :: "access_db \<Rightarrow> bool" where
  "links_ok db =
     ((\<forall>pid c. adProjects db pid = Some c \<longrightarrow> pid \<noteq> [] \<and> c \<noteq> [])
      \<and> (\<forall>i pid c. Some (pid, c) \<in> {adRuns db i, adSecrets db i, adSuites db i, adEnvRevisions db i}
           \<longrightarrow> adProjects db pid = Some c))"

lemma truthy_str_iff: "truthy_str v \<longleftrightarrow> (\<exists>s. v = Some s \<and> s \<noteq> [])"
  by (auto simp: truthy_str_def split: option.splits)

lemma links_okD:
  assumes "links_ok db"
  shows "adProjects db pid = Some c \<Longrightarrow> pid \<noteq> [] \<and> c \<noteq> []"
    and "adRuns db i = Some (pid, c) \<Longrightarrow> adProjects db pid = Some c"
    and "adSecrets db i = Some (pid, c) \<Longrightarrow> adProjects db pid = Some c"
    and "adSuites db i = Some (pid, c) \<Longrightarrow> adProjects db pid = Some c"
    and "adEnvRevisions db i = Some (pid, c) \<Longrightarrow> adProjects db pid = Some c"
proof -
  have rows: "Some (pid, c) \<in> {adRuns db i, adSecrets db i, adSuites db i, adEnvRevisions db i} \<Longrightarrow>
      adProjects db pid = Some c" for i
    using assms unfolding links_ok_def by blast
  show "adProjects db pid = Some c \<Longrightarrow> pid \<noteq> [] \<and> c \<noteq> []"
    using assms unfolding links_ok_def by blast
  show "adRuns db i = Some (pid, c) \<Longrightarrow> adProjects db pid = Some c"
    "adSecrets db i = Some (pid, c) \<Longrightarrow> adProjects db pid = Some c"
    "adSuites db i = Some (pid, c) \<Longrightarrow> adProjects db pid = Some c"
    "adEnvRevisions db i = Some (pid, c) \<Longrightarrow> adProjects db pid = Some c"
    by (rule rows[of i]; simp)+
qed

text \<open>A resource belongs to no project, or to one that a row names, or is the project of the route.\<close>

lemma resolve_cases:
  assumes "resolve db ps rtype = Inr res"
  shows "reCompany res = None \<and> reProject res = None
    \<or> (\<exists>i pid c. reProject res = Some pid \<and> reCompany res = Some c
        \<and> (adRuns db i = Some (pid, c) \<or> adSecrets db i = Some (pid, c) \<or> adSuites db i = Some (pid, c)
            \<or> adEnvRevisions db i = Some (pid, c) \<or> adProjects db pid = Some c)
        \<and> (truthy_str (rpProjectId ps) \<longrightarrow> rpProjectId ps = Some pid))"
proof -
  consider "truthy_str (rpRunId ps)" | "\<not> truthy_str (rpRunId ps)" "truthy_str (rpSecretId ps)"
    | "\<not> truthy_str (rpRunId ps)" "\<not> truthy_str (rpSecretId ps)" "truthy_str (rpSuiteId ps)"
    | "\<not> truthy_str (rpRunId ps)" "\<not> truthy_str (rpSecretId ps)" "\<not> truthy_str (rpSuiteId ps)"
    by blast
  then show ?thesis
  proof cases
    case 4
    with assms show ?thesis
      by (cases "truthy_str (rpRevisionId ps) \<and> truthy_str (rpProjectId ps)")
        (auto simp: resolve_def resource_of_def find_scoped_iff Let_def split: if_splits option.splits)
  qed (use assms in \<open>auto simp: resolve_def resource_of_def find_scoped_iff split: if_splits\<close>)
qed

lemma resolve_links:
  assumes "resolve db ps rtype = Inr res"
  shows "reCompany res = None \<and> reProject res = None
    \<or> (\<exists>pid c. reProject res = Some pid \<and> reCompany res = Some c
        \<and> (links_ok db \<longrightarrow> adProjects db pid = Some c \<and> c \<noteq> [] \<and> pid \<noteq> [])
        \<and> (truthy_str (rpProjectId ps) \<longrightarrow> rpProjectId ps = Some pid))"
  using resolve_cases[OF assms] links_okD[of db] by metis

lemma roles_nested:
  "set (role_permissions VIEWER) \<subseteq> set (role_permissions DEVELOPER)"
  "set (role_permissions DEVELOPER) \<subseteq> set (role_permissions ADMIN)"
  "set (role_permissions ADMIN) \<subseteq> set (role_permissions OWNER)"
  by simp_all

text \<open>
  C13: The guard keeps tenants apart.  A request it lets through acts on no project, or on a project of
  the principal's own company, and on the principal's own project if it is confined to one; outside any
  project such a principal can only read its company.  The action is one of the effective role's, and
  for a token also one of its scopes.
\<close>

theorem guard_keeps_tenants_apart:
  assumes "can_activate db (Some p) ps (Some (action, rtype)) = Inr True" "links_ok db"
  shows "\<exists>res. resolve db ps rtype = Inr res
    \<and> (case reProject res of
         None \<Rightarrow> truthy_str (prProject p) \<longrightarrow> action = Company_Read
       | Some pid \<Rightarrow> adProjects db pid = Some (prCompany p)
           \<and> (truthy_str (rpProjectId ps) \<longrightarrow> rpProjectId ps = Some pid)
           \<and> (truthy_str (prProject p) \<longrightarrow> prProject p = Some pid))
    \<and> action \<in> set (role_permissions (resolve_effective_role db p (reProject res)))
    \<and> (prType p = API_TOKEN \<longrightarrow> action_name action \<in> set (case prScopes p of None \<Rightarrow> [] | Some s \<Rightarrow> s))"
proof -
  obtain res where r: "resolve db ps rtype = Inr res" and a: "assert_can db (Some p) action res = Inr ()"
    using assms(1) by (auto simp: can_activate_def)
  note can = a[unfolded assert_can_iff]
  show ?thesis
  proof (cases "reProject res")
    case None
    with can r show ?thesis by (auto simp: truthy_str_iff)
  next
    case (Some pid)
    then obtain c where c: "reCompany res = Some c" "adProjects db pid = Some c" "c \<noteq> []" "pid \<noteq> []"
      "truthy_str (rpProjectId ps) \<longrightarrow> rpProjectId ps = Some pid"
      using resolve_links[OF r] assms(2) by auto
    then have t: "truthy_str (reCompany res)" "truthy_str (reProject res)" using Some by (auto simp: truthy_str_iff)
    with can Some c show ?thesis using r by auto
  qed
qed

definition sample_db :: access_db where
  "sample_db = \<lparr>adRuns = [''r1'' \<mapsto> (''p1'', ''c1'')], adSecrets = (\<lambda>_. None), adSuites = (\<lambda>_. None),
     adSuiteRevisions = (\<lambda>_. None), adEnvRevisions = (\<lambda>_. None), adProjects = [''p1'' \<mapsto> ''c1''],
     adMembers = [(''p1'', ''u1'') \<mapsto> PROJECT_DEVELOPER]\<rparr>"

definition sample_principal :: principal where
  "sample_principal = \<lparr>prType = USER, prCompany = ''c1'', prRole = VIEWER, prUser = Some ''u1'',
     prScopes = None, prProject = None\<rparr>"

definition run_request :: request_params where
  "run_request = \<lparr>rpRunId = Some ''r1'', rpSecretId = None, rpSuiteId = None, rpRevisionId = None,
     rpProjectId = Some ''p1'', rpId = None\<rparr>"

theorem guard_keeps_tenants_apart_witness:
  "\<exists>res. resolve sample_db run_request (Some Run) = Inr res
    \<and> (case reProject res of None \<Rightarrow> False | Some pid \<Rightarrow> adProjects sample_db pid = Some ''c1'')
    \<and> Run_Write \<in> set (role_permissions (resolve_effective_role sample_db sample_principal (reProject res)))"
proof -
  have l: "links_ok sample_db" by (auto simp: links_ok_def sample_db_def split: if_splits)
  have a: "can_activate sample_db (Some sample_principal) run_request (Some (Run_Write, Some Run)) = Inr True"
    by code_simp
  have "resolve sample_db run_request (Some Run) = Inr (resource_of Run (''r1'', ''p1'', ''c1''))"
    by code_simp
  with guard_keeps_tenants_apart[OF a l] show ?thesis
    by (auto simp: resource_of_def sample_principal_def)
qed

lemma normalize_scopes_Inr:
  "normalize_scopes scopes = Inr unique \<Longrightarrow> set unique = set scopes \<and> set scopes \<subseteq> set allowed_scopes"
  by (auto simp: normalize_scopes_def Let_def list_ex_iff split: if_splits)

lemma find_append: "find P (xs @ ys) = (case find P xs of None \<Rightarrow> find P ys | Some x \<Rightarrow> Some x)"
  by (induction xs) auto

lemma find_NoneI: "list_all (\<lambda>x. \<not> P x) xs \<Longrightarrow> find P xs = None"
  by (simp add: find_None_iff list_all_iff)

lemma update_token_append_new:
  assumes "list_all (\<lambda>t. atId t \<noteq> ident) tokens" "atId t = ident"
  shows "update_token ident f (tokens @ [t]) = tokens @ [f t]"
proof -
  have "map (\<lambda>t. if atId t = ident then f t else t) tokens = tokens"
    using assms(1) by (intro map_idI) (auto simp: list_all_iff)
  then show ?thesis using assms(2) by (simp add: update_token_def)
qed

text \<open>
  The life of an API token.  A new token authenticates as a principal of the company that created
  it until it expires; whatever it is asked to do, it is allowed only actions of its scopes, never one
  that manages projects, teams, billing or tokens, only within its company and, if it is confined to a
  project, on that project or to read the company; once revoked it no longer authenticates.
\<close>

theorem token_life_cycle:
  assumes "create_token hash db company name scopes pid expires raw ident tokens = Inr (t, tokens1)"
    and "case expires of None \<Rightarrow> True | Some x \<Rightarrow> now < x"
  shows "\<exists>p tokens2. validate_token hash now tokens1 raw = Inr (p, tokens2)
    \<and> (case assert_can db2 (Some p) action res of
         Inl e \<Rightarrow> True
       | Inr u \<Rightarrow> action_name action \<in> set scopes
           \<and> action \<notin> {Billing_Manage, Company_Update, Project_Create, Project_Delete, Project_Update,
               Team_Manage, Token_Manage}
           \<and> (truthy_str (reCompany res) \<longrightarrow> reCompany res = Some company)
           \<and> (truthy_str pid \<longrightarrow> (if truthy_str (reProject res) then reProject res = pid
                else action = Company_Read)))
    \<and> (\<exists>tokens3. revoke_token now company ident tokens2 = Inr tokens3
         \<and> validate_token hash later tokens3 raw = Inl UnauthorizedException)"
proof -
  obtain unique where u: "normalize_scopes scopes = Inr unique"
    and t: "t = \<lparr>atId = ident, atCompany = company, atName = name, atHash = hash raw, atScopes = unique,
      atProject = pid, atExpiresAt = expires, atRevokedAt = None, atLastUsedAt = None,
      atServiceAccountRevoked = False\<rparr>"
    and t1: "tokens1 = tokens @ [t]"
    and new: "\<not> list_ex (\<lambda>t. atHash t = hash raw \<or> atId t = ident) tokens"
    using assms(1) by (auto simp: create_token_def Let_def split: if_splits)
  have hash: "find (\<lambda>t. atHash t = hash raw) tokens = None"
    and ident: "find (\<lambda>t. atId t = ident \<and> atCompany t = company \<and> atRevokedAt t = None) tokens = None"
    and ids: "list_all (\<lambda>t. atId t \<noteq> ident) tokens"
    using new by (auto simp: list_ex_iff list_all_iff find_None_iff)
  let ?used = "t\<lparr>atLastUsedAt := Some now\<rparr>"
  have v: "validate_token hash now tokens1 raw = Inr (token_principal t, tokens @ [?used])"
    using assms(2) hash update_token_append_new[OF ids, of t]
    by (auto simp: validate_token_def t1 t find_append split: option.splits)
  have r: "revoke_token now company ident (tokens @ [?used])
      = Inr (tokens @ [?used\<lparr>atRevokedAt := Some now\<rparr>])"
    using ident update_token_append_new[OF ids, of ?used]
    by (simp add: revoke_token_def find_append t)
  have e: "validate_token hash later (tokens @ [?used\<lparr>atRevokedAt := Some now\<rparr>]) raw
      = Inl UnauthorizedException"
    using hash by (simp add: validate_token_def find_append t)
  have "case assert_can db2 (Some (token_principal t)) action res of
         Inl e \<Rightarrow> True
       | Inr u \<Rightarrow> action_name action \<in> set scopes
           \<and> action \<notin> {Billing_Manage, Company_Update, Project_Create, Project_Delete, Project_Update,
               Team_Manage, Token_Manage}
           \<and> (truthy_str (reCompany res) \<longrightarrow> reCompany res = Some company)
           \<and> (truthy_str pid \<longrightarrow> (if truthy_str (reProject res) then reProject res = pid
                else action = Company_Read))"
  proof (cases "assert_can db2 (Some (token_principal t)) action res")
    case (Inr x)
    note can = Inr[unfolded assert_can_iff]
    have "action \<in> set api_token_allowed_actions" "action_name action \<in> set scopes"
      using can normalize_scopes_Inr[OF u] by (auto simp: token_principal_def t)
    with can Inr show ?thesis
      by (auto simp: token_principal_def t api_token_allowed_actions_def)
  qed simp
  with v r e show ?thesis by blast
qed

definition sample_token :: "js_error + api_token \<times> api_token list" where
  "sample_token = create_token id sample_db ''c1'' ''ci'' [''run:read''] (Some ''p1'') (Some 100) ''tep_x'' ''t1'' []"

theorem token_life_cycle_witness:
  "\<exists>t tokens1 p tokens2 tokens3. sample_token = Inr (t, tokens1)
     \<and> validate_token id 5 tokens1 ''tep_x'' = Inr (p, tokens2)
     \<and> revoke_token 5 ''c1'' ''t1'' tokens2 = Inr tokens3
     \<and> validate_token id 6 tokens3 ''tep_x'' = Inl UnauthorizedException"
proof -
  obtain t tokens1 where c: "create_token id sample_db ''c1'' ''ci'' [''run:read''] (Some ''p1'') (Some 100) ''tep_x''
      ''t1'' [] = Inr (t, tokens1)"
    by (auto simp: create_token_def normalize_scopes_def sample_db_def Let_def allowed_scopes_def)
  from token_life_cycle[OF c, where now = 5 and ?db2.0 = sample_db and action = Run_Read and later = 6
    and res = "resource_of Run (''r1'', ''p1'', ''c1'')"]
  show ?thesis using c unfolding sample_token_def by fastforce
qed

end
