(* ===== verification/Team.thy ===== *)
theory Team
  imports Access
begin

text \<open>
  \<open>TeamService\<close> (\<open>team/team.service.ts\<close>): the members of companies, changed by awaited database calls
  between which other requests act.  Audit records and socket disconnections are left out.
\<close>

record member =
  mbId :: string
  mbCompany :: string
  mbUser :: string
  mbRole :: user_role
  mbActive :: bool
  mbRemovedAt :: "int option"

record team_store =
  tsNow :: int
  tsMembers :: "member list"
  tsUserRoles :: "string \<rightharpoonup> user_role"

definition active_owner :: "string \<Rightarrow> member \<Rightarrow> bool" where
  "active_owner company m = (mbCompany m = company \<and> mbRole m = OWNER \<and> mbActive m)"

definition find_member :: "string \<Rightarrow> string \<Rightarrow> (team_store, member) io" where
  "find_member company mid =
     io_call (\<lambda>s. (case find (\<lambda>m. mbId m = mid \<and> mbCompany m = company \<and> mbActive m) (tsMembers s) of
        None \<Rightarrow> Inl (NotFoundException ''Company member not found'') | Some m \<Rightarrow> Inr m, s))"

definition assert_another_owner_exists :: "string \<Rightarrow> string \<Rightarrow> (team_store, unit) io" where
  "assert_another_owner_exists company user =
     io_bind (io_read (\<lambda>s. length (filter (\<lambda>m. active_owner company m \<and> mbUser m \<noteq> user) (tsMembers s))))
       (\<lambda>owners. if owners < 1
          then io_throw (ConflictException ''Company must keep at least one active owner'')
          else io_return ())"

definition update_member :: "string \<Rightarrow> (member \<Rightarrow> member) \<Rightarrow> (team_store, member) io" where
  "update_member mid f =
     io_call (\<lambda>s. (case find (\<lambda>m. mbId m = mid) (tsMembers s) of
        None \<Rightarrow> (Inl (PlainError ''No record was found for an update''), s)
      | Some m \<Rightarrow> (Inr (f m),
          s\<lparr>tsMembers := map (\<lambda>m. if mbId m = mid then f m else m) (tsMembers s)\<rparr>)))"

definition set_user_role :: "string \<Rightarrow> user_role \<Rightarrow> (team_store, unit) io" where
  "set_user_role user role = io_call (\<lambda>s. (Inr (), s\<lparr>tsUserRoles := (tsUserRoles s)(user \<mapsto> role)\<rparr>))"

definition update_role :: "string \<Rightarrow> string \<Rightarrow> user_role \<Rightarrow> (team_store, member) io" where
  "update_role company mid role =
     io_bind (find_member company mid) (\<lambda>m.
     io_then (if mbRole m = OWNER \<and> role \<noteq> OWNER
              then assert_another_owner_exists company (mbUser m) else io_return ())
     (io_bind (update_member mid (\<lambda>m. m\<lparr>mbRole := role\<rparr>)) (\<lambda>updated.
      io_then (set_user_role (mbUser m) role) (io_return updated))))"

definition remove_member :: "string \<Rightarrow> string \<Rightarrow> (team_store, member) io" where
  "remove_member company mid =
     io_bind (find_member company mid) (\<lambda>m.
     io_then (if mbRole m = OWNER then assert_another_owner_exists company (mbUser m) else io_return ())
     (io_bind (io_peek tsNow) (\<lambda>now.
      update_member mid (\<lambda>m. m\<lparr>mbActive := False, mbRemovedAt := Some now\<rparr>))))"

definition has_owner :: "string \<Rightarrow> team_store \<Rightarrow> bool" where
  "has_owner company s = list_ex (active_owner company) (tsMembers s)"

section \<open>Properties\<close>

text \<open>The shape both operations share on a store nobody else touches.\<close>

lemma guarded_update_keeps_owner:
  assumes m: "find (\<lambda>m. mbId m = mid \<and> mbCompany m = company \<and> mbActive m) (tsMembers s) = Some m"
    and distinct: "distinct (map mbId (tsMembers s))"
    and safe: "active_owner company (f m) \<or> mbRole m \<noteq> OWNER
      \<or> filter (\<lambda>m'. active_owner company m' \<and> mbUser m' \<noteq> mbUser m) (tsMembers s) \<noteq> []"
    and owner: "has_owner company s"
  shows "list_ex (active_owner company) (map (\<lambda>m. if mbId m = mid then f m else m) (tsMembers s))"
proof -
  have mm: "m \<in> set (tsMembers s)" "mbId m = mid" "mbCompany m = company" "mbActive m"
    using m by (auto simp: find_Some_iff)
  have same: "m' = m" if "m' \<in> set (tsMembers s)" "mbId m' = mid" for m'
    using distinct mm that by (metis inj_on_def distinct_map)
  show ?thesis
  proof (cases "\<exists>m'\<in>set (tsMembers s). active_owner company m' \<and> mbId m' \<noteq> mid")
    case True
    then obtain m' where m': "m' \<in> set (tsMembers s)" "active_owner company m'" "mbId m' \<noteq> mid" by blast
    then have "m' \<in> set (map (\<lambda>m. if mbId m = mid then f m else m) (tsMembers s))" by force
    with m'(2) show ?thesis unfolding list_ex_iff by blast
  next
    case False
    then have only: "m' = m" if "m' \<in> set (tsMembers s)" "active_owner company m'" for m'
      using same that by blast
    obtain m' where "m' \<in> set (tsMembers s)" "active_owner company m'"
      using owner unfolding has_owner_def list_ex_iff by blast
    then have "active_owner company m" using only by blast
    moreover have "filter (\<lambda>m'. active_owner company m' \<and> mbUser m' \<noteq> mbUser m) (tsMembers s) = []"
      unfolding filter_empty_conv using only by blast
    ultimately have "active_owner company (f m)" using safe by (simp add: active_owner_def)
    moreover have "f m \<in> set (map (\<lambda>m. if mbId m = mid then f m else m) (tsMembers s))"
      using mm by force
    ultimately show ?thesis unfolding list_ex_iff by blast
  qed
qed

text \<open>
  C14: One request at a time never takes a company its last active owner: whatever role change or removal
  is asked for, a company that had an active owner has one afterwards.
\<close>

theorem team_keeps_an_owner:
  assumes "has_owner company s" "distinct (map mbId (tsMembers s))"
  shows "(case update_role company mid role (quiet s) of (r, w) \<Rightarrow> has_owner company (store w))
    \<and> (case remove_member company mid (quiet s) of (r, w) \<Rightarrow> has_owner company (store w))"
proof (cases "find (\<lambda>m. mbId m = mid \<and> mbCompany m = company \<and> mbActive m) (tsMembers s)")
  case None
  with assms show ?thesis
    by (simp add: update_role_def remove_member_def find_member_def io_bind_def run_simps)
next
  case (Some m)
  have mm: "m \<in> set (tsMembers s)" "mbId m = mid" "mbCompany m = company" "mbActive m"
    using Some by (auto simp: find_Some_iff)
  have other: "\<exists>m'. find (\<lambda>m. mbId m = mid) (tsMembers s) = Some m'"
    using mm by (cases "find (\<lambda>m. mbId m = mid) (tsMembers s)") (auto simp: find_None_iff)
  let ?others = "filter (\<lambda>m'. active_owner company m' \<and> mbUser m' \<noteq> mbUser m) (tsMembers s)"
  have role: "active_owner company (m\<lparr>mbRole := role\<rparr>)" if "role = OWNER"
    using mm that by (simp add: active_owner_def)
  note keep = guarded_update_keeps_owner[OF Some assms(2) _ assms(1)]
  let ?demote = "\<lambda>m. m\<lparr>mbRole := role\<rparr>"
  let ?drop = "\<lambda>m. m\<lparr>mbActive := False, mbRemovedAt := Some (tsNow s)\<rparr>"
  have 1: "case update_role company mid role (quiet s) of (r, w) \<Rightarrow> has_owner company (store w)"
  proof (cases "mbRole m = OWNER \<and> role \<noteq> OWNER \<and> ?others = []")
    case True
    with Some assms(1) show ?thesis
      by (simp add: update_role_def find_member_def assert_another_owner_exists_def io_bind_def io_then_def
          io_throw_def run_simps)
  next
    case False
    then have "active_owner company (m\<lparr>mbRole := role\<rparr>) \<or> mbRole m \<noteq> OWNER \<or> ?others \<noteq> []"
      using role by blast
    note k = keep[where f = ?demote, OF this]
    from Some other False k show ?thesis
      by (auto simp: update_role_def find_member_def assert_another_owner_exists_def io_bind_def io_then_def
          io_return_def run_simps update_member_def set_user_role_def has_owner_def)
  qed
  have 2: "case remove_member company mid (quiet s) of (r, w) \<Rightarrow> has_owner company (store w)"
  proof (cases "mbRole m = OWNER \<and> ?others = []")
    case True
    with Some assms(1) show ?thesis
      by (simp add: remove_member_def find_member_def assert_another_owner_exists_def io_bind_def io_then_def
          io_throw_def run_simps)
  next
    case False
    then have "active_owner company (m\<lparr>mbActive := False, mbRemovedAt := Some (tsNow s)\<rparr>)
        \<or> mbRole m \<noteq> OWNER \<or> ?others \<noteq> []" by blast
    note k = keep[where f = ?drop, OF this]
    from Some other False k show ?thesis
      by (auto simp: remove_member_def find_member_def assert_another_owner_exists_def io_bind_def io_then_def
          io_return_def run_simps update_member_def has_owner_def cong: if_cong)
  qed
  from 1 2 show ?thesis by blast
qed

definition owner_member :: "string \<Rightarrow> string \<Rightarrow> member" where
  "owner_member i u = \<lparr>mbId = i, mbCompany = ''c1'', mbUser = u, mbRole = OWNER, mbActive = True,
     mbRemovedAt = None\<rparr>"

definition two_owners :: team_store where
  "two_owners = \<lparr>tsNow = 7, tsMembers = [owner_member ''m1'' ''u1'', owner_member ''m2'' ''u2''],
     tsUserRoles = Map.empty\<rparr>"

theorem team_keeps_an_owner_witness:
  "(case update_role ''c1'' ''m1'' VIEWER (quiet two_owners) of (r, w) \<Rightarrow> has_owner ''c1'' (store w))
   \<and> (case remove_member ''c1'' ''m1'' (quiet two_owners) of (r, w) \<Rightarrow> has_owner ''c1'' (store w))"
  by (rule team_keeps_an_owner)
    (simp_all add: two_owners_def has_owner_def owner_member_def active_owner_def)

text \<open>
  Two requests at the same time can: when two owners remove each other and the second request runs
  between the owner count of the first and its update, both pass the check, and the company is left
  without an owner.
\<close>

theorem simultaneous_removals_leave_no_owner:
  "\<exists>m w. remove_member ''c1'' ''m1''
      \<lparr>store = two_owners, pending = [CallEnv id Done, CallEnv id Done,
         CallEnv (\<lambda>s. store (snd (remove_member ''c1'' ''m2'' (quiet s)))) Done]\<rparr> = (Inr m, w)
    \<and> has_owner ''c1'' two_owners \<and> \<not> has_owner ''c1'' (store w)"
  by (simp add: remove_member_def find_member_def assert_another_owner_exists_def io_bind_def io_then_def
      io_return_def io_read_def io_call_def io_peek_def update_member_def has_owner_def two_owners_def
      owner_member_def active_owner_def quiet_def)

end
