(* ===== verification/Env_Config.thy ===== *)
theory Env_Config
  imports Environment Templates Plan_Props
begin

text \<open>
  Environment configurations drawn in the editor and their compilation to a Compose file and a
  backend-test file (\<open>environment-configs/environment-config-compiler.service.ts\<close>), with the guardrail
  and the image list of the runner applied to the result.  A missing field and a \<open>null\<close> one are both
  \<open>None\<close>.  js-yaml writes a mapping without its undefined values.
\<close>

section \<open>Configurations\<close>

datatype env_value_type = Literal_Value | Secret_Value | Runtime_Value

record port_mapping =
  pmHost :: "string option"
  pmContainer :: "string option"

record env_variable =
  evKey :: "string option"
  evValue :: "string option"
  evType :: "env_value_type option"
  evSecretKey :: "string option"
  evVariable :: "string option"

record env_service =
  esName :: "string option"
  esImage :: "string option"
  esBuildContext :: "string option"
  esBuildDockerfile :: "string option"
  esPorts :: "port_mapping list option"
  esEnvironment :: "env_variable list option"
  esDependsOn :: "string list option"
  esCommand :: "string option"

record env_app =
  eaMainService :: "string option"
  eaBaseUrl :: "string option"
  eaHealthPath :: "string option"
  eaExpectedStatus :: "jsnum option"
  eaTimeoutSeconds :: "jsnum option"

record env_run =
  enTimeoutMinutes :: "jsnum option"
  enCleanup :: "bool option"

record env_config =
  ecVersion :: "string option"
  ecServices :: "env_service list option"
  ecApp :: "env_app option"
  ecRun :: "env_run option"

record env_compile_result =
  ccCompose :: string
  ccBackendTest :: string
  ccWarnings :: "string list"

text \<open>A template literal writes \<open>undefined\<close> for a missing value.\<close>

definition shown :: "string option \<Rightarrow> string" where
  "shown v = (case v of None \<Rightarrow> ''undefined'' | Some s \<Rightarrow> s)"

section \<open>Validation\<close>

fun validate_env_services :: "string list \<Rightarrow> env_service list \<Rightarrow> js_error + string list" where
  "validate_env_services seen [] = Inr seen"
| "validate_env_services seen (s # ss) =
     (if blank (esName s) then Inl (BadRequestException ''Every service must have a name'')
      else if shown (esName s) \<in> set seen
      then Inl (BadRequestException (''Duplicate service name: '' @ shown (esName s)))
      else if blank (esImage s) \<and> blank (esBuildContext s)
      then Inl (BadRequestException
        (''Service \"'' @ shown (esName s) @ ''\" must define image or build context''))
      else validate_env_services (seen @ [shown (esName s)]) ss)"

definition services_of :: "env_config \<Rightarrow> env_service list" where
  "services_of c = (case ecServices c of None \<Rightarrow> [] | Some ss \<Rightarrow> ss)"

definition validate_env :: "env_config option \<Rightarrow> js_error + unit" where
  "validate_env config =
     (case config of
        None \<Rightarrow> Inl (BadRequestException ''Environment visual config is required'')
      | Some c \<Rightarrow>
          if ecVersion c \<noteq> Some ''1.0''
          then Inl (BadRequestException ''Unsupported environment config version'')
          else if services_of c = []
          then Inl (BadRequestException ''At least one service is required'')
          else sbind (validate_env_services [] (services_of c)) (\<lambda>names.
            case Option.bind (ecApp c) eaMainService of
              None \<Rightarrow> Inl (BadRequestException ''Main API service must match one of the configured services'')
            | Some main \<Rightarrow>
                if main \<notin> set names
                then Inl (BadRequestException ''Main API service must match one of the configured services'')
                else if blank (Option.bind (ecApp c) eaBaseUrl)
                then Inl (BadRequestException ''Base URL is required'')
                else if blank (Option.bind (ecApp c) eaHealthPath)
                then Inl (BadRequestException ''Healthcheck path is required'')
                else Inr ()))"

definition env_warnings :: "env_config \<Rightarrow> string list" where
  "env_warnings c =
     (let names = map (\<lambda>s. shown (esName s)) (services_of c) in
      concat (map (\<lambda>s. List.map_filter
         (\<lambda>d. if d \<in> set names then None
              else Some (''Service \"'' @ shown (esName s) @ ''\" depends on unknown service \"'' @ d @ ''\".''))
         (case esDependsOn s of None \<Rightarrow> [] | Some ds \<Rightarrow> ds)) (services_of c)))"

section \<open>Compilation\<close>

definition environment_value :: "env_variable \<Rightarrow> string" where
  "environment_value e =
     (if evType e = Some Secret_Value
      then (if truthy_str (evSecretKey e) then ''{{ secret.'' @ the (evSecretKey e) @ '' }}'' else [])
      else if evType e = Some Runtime_Value
      then (if truthy_str (evVariable e) then ''{{ '' @ the (evVariable e) @ '' }}'' else [])
      else (case evValue e of None \<Rightarrow> [] | Some v \<Rightarrow> v))"

definition compose_ports :: "port_mapping list option \<Rightarrow> json option" where
  "compose_ports ports =
     (case ports of
        None \<Rightarrow> None
      | Some ps \<Rightarrow> if ps = [] then None else Some (JArr (List.map_filter
          (\<lambda>p. if truthy_str (pmHost p) \<and> truthy_str (pmContainer p)
                then Some (JStr (the (pmHost p) @ '':'' @ the (pmContainer p))) else None) ps)))"

definition compose_environment :: "env_variable list option \<Rightarrow> json option" where
  "compose_environment env =
     (case env of
        None \<Rightarrow> None
      | Some es \<Rightarrow> if es = [] then None else Some (JObj (from_entries (List.map_filter
          (\<lambda>e. if truthy_str (evKey e) then Some (the (evKey e), JStr (environment_value e)) else None) es))))"

definition compose_build :: "env_service \<Rightarrow> json option" where
  "compose_build s =
     map_option (\<lambda>ctx. JObj (present
        [(''context'', Some (JStr ctx)), (''dockerfile'', map_option JStr (trimmed (esBuildDockerfile s)))]))
       (trimmed (esBuildContext s))"

definition to_compose_service :: "env_service \<Rightarrow> json" where
  "to_compose_service s = JObj (present
     [(''image'', map_option JStr (trimmed (esImage s))),
      (''build'', compose_build s),
      (''ports'', compose_ports (esPorts s)),
      (''environment'', compose_environment (esEnvironment s)),
      (''depends_on'', (case esDependsOn s of None \<Rightarrow> None
         | Some ds \<Rightarrow> if ds = [] then None else Some (JArr (map JStr ds)))),
      (''command'', map_option JStr (trimmed (esCommand s)))])"

definition to_compose_file :: "env_config \<Rightarrow> json" where
  "to_compose_file c = JObj [(''services'', JObj (from_entries
     (map (\<lambda>s. (shown (esName s), to_compose_service s)) (services_of c))))]"

text \<open>Reads of a missing \<open>app\<close> or \<open>run\<close> throw; \<open>validate\<close> has made sure of the former.\<close>

definition to_backend_test_file :: "env_config \<Rightarrow> js_error + json" where
  "to_backend_test_file c =
     (case (ecApp c, ecRun c) of
        (Some a, Some r) \<Rightarrow> Inr (JObj
          [(''version'', JStr ''1.0''),
           (''environment'', JObj [(''type'', JStr ''docker_compose''),
              (''compose_file'', JStr ''./docker-compose.test.yml'')]),
           (''app'', JObj (present
             [(''service'', map_option JStr (eaMainService a)),
              (''base_url'', map_option JStr (eaBaseUrl a)),
              (''healthcheck'', Some (JObj (present
                [(''path'', map_option JStr (eaHealthPath a)),
                 (''expected_status'', map_option JNum (eaExpectedStatus a)),
                 (''timeout_seconds'', map_option JNum (eaTimeoutSeconds a))])))])),
           (''tests'', JArr [JStr ''./tests/*.yml'']),
           (''run'', JObj (present
             [(''timeout_minutes'', map_option JNum (enTimeoutMinutes r)),
              (''cleanup'', map_option JBool (enCleanup r))]))])
      | (None, _) \<Rightarrow> Inl (TypeError ''Cannot read properties of undefined (reading mainServiceName)'')
      | (_, None) \<Rightarrow> Inl (TypeError ''Cannot read properties of undefined (reading timeoutMinutes)''))"

definition compile_env :: "(json \<Rightarrow> string) \<Rightarrow> env_config option \<Rightarrow> js_error + env_compile_result" where
  "compile_env yaml_dump config =
     sbind (validate_env config) (\<lambda>_.
     sbind (to_backend_test_file (the config)) (\<lambda>backend.
     Inr \<lparr>ccCompose = yaml_dump (to_compose_file (the config)), ccBackendTest = yaml_dump backend,
          ccWarnings = env_warnings (the config)\<rparr>))"

section \<open>Properties\<close>

lemma validate_env_services_iff:
  "validate_env_services seen ss = Inr names \<longleftrightarrow>
   names = seen @ map (\<lambda>s. shown (esName s)) ss
   \<and> list_all (\<lambda>s. \<not> blank (esName s) \<and> \<not> (blank (esImage s) \<and> blank (esBuildContext s))) ss
   \<and> distinct (map (\<lambda>s. shown (esName s)) ss)
   \<and> set seen \<inter> set (map (\<lambda>s. shown (esName s)) ss) = {}"
  by (induction ss arbitrary: seen) auto

definition names_of :: "env_config \<Rightarrow> string list" where
  "names_of c = map (\<lambda>s. shown (esName s)) (services_of c)"

definition well_formed :: "env_config \<Rightarrow> bool" where
  "well_formed c =
     (ecVersion c = Some ''1.0'' \<and> services_of c \<noteq> []
      \<and> list_all (\<lambda>s. \<not> blank (esName s) \<and> \<not> (blank (esImage s) \<and> blank (esBuildContext s))) (services_of c)
      \<and> distinct (names_of c)
      \<and> Option.bind (ecApp c) eaMainService \<in> Some ` set (names_of c)
      \<and> \<not> blank (Option.bind (ecApp c) eaBaseUrl) \<and> \<not> blank (Option.bind (ecApp c) eaHealthPath))"

lemma validate_env_iff: "validate_env (Some c) = Inr u \<longleftrightarrow> well_formed c"
  by (auto simp: validate_env_def well_formed_def validate_env_services_iff names_of_def
      split: option.splits if_splits)


lemma compile_env_total:
  assumes "well_formed c" "ecRun c \<noteq> None"
  shows "\<exists>r. compile_env yaml_dump (Some c) = Inr r"
proof -
  have "ecApp c \<noteq> None"
    using assms(1) unfolding well_formed_def by (cases "ecApp c") auto
  then show ?thesis
    using assms by (auto simp: compile_env_def iffD2[OF validate_env_iff] to_backend_test_file_def)
qed

lemma compile_env_Inr:
  assumes "compile_env yaml_dump (Some c) = Inr r"
  shows "well_formed c" "ccCompose r = yaml_dump (to_compose_file c)"
  using assms by (auto simp: compile_env_def validate_env_iff)

definition compose_entries :: "env_config \<Rightarrow> (string \<times> json) list" where
  "compose_entries c = map (\<lambda>s. (shown (esName s), to_compose_service s)) (services_of c)"

lemma compose_file_services:
  assumes "well_formed c"
  shows "to_compose_file c = JObj [(''services'', JObj (compose_entries c))]"
proof -
  have "distinct (map fst (compose_entries c))"
    using assms by (simp add: well_formed_def names_of_def compose_entries_def o_def)
  then show ?thesis by (simp add: to_compose_file_def compose_entries_def from_entries_id)
qed

lemma json_get_compose_service:
  "json_get (to_compose_service s) ''privileged'' = None"
  "json_get (to_compose_service s) ''network_mode'' = None"
  "json_get (to_compose_service s) ''volumes'' = None"
  "json_get (to_compose_service s) ''healthcheck'' = None"
  "json_get (to_compose_service s) ''image'' = map_option JStr (trimmed (esImage s))"
  "json_get (to_compose_service s) ''build'' = compose_build s"
  "json_get (to_compose_service s) ''ports'' = compose_ports (esPorts s)"
  "json_get (to_compose_service s) ''environment'' = compose_environment (esEnvironment s)"
  "json_get (to_compose_service s) ''depends_on'' = (case esDependsOn s of None \<Rightarrow> None
     | Some ds \<Rightarrow> if ds = [] then None else Some (JArr (map JStr ds)))"
  by (simp_all add: to_compose_service_def map_of_present)

lemma validate_compiled_service: "validate_service (n, to_compose_service s) = Inr ()"
proof -
  have "prop_of (Some (to_compose_service s)) k = Inr (json_get (to_compose_service s) k)" for k
    by (simp add: prop_of_def to_compose_service_def)
  then show ?thesis
    by (simp add: validate_service_def json_get_compose_service iterated_def nullish_def)
qed

lemma trimmed_nonempty: "trimmed v = Some s \<Longrightarrow> s \<noteq> []"
  by (auto simp: trimmed_def split: option.splits if_splits)

lemma service_image_compiled:
  "service_image (n, to_compose_service s) = map_option (Pair n) (trimmed (esImage s))"
  using trimmed_nonempty[of "esImage s"]
  by (cases "trimmed (esImage s)") (auto simp: service_image_def opt_prop_def json_get_compose_service)

lemma compiled_document:
  assumes "compile_env yaml_dump (Some c) = Inr r" "\<And>j. yaml_load (yaml_dump j) = Inr (Some j)"
  shows "yaml_load (ccCompose r) = Inr (Some (JObj [(''services'', JObj (compose_entries c))]))"
  using compile_env_Inr[OF assms(1)] assms(2) by (simp add: compose_file_services)

lemma compiled_compose_validates:
  assumes "compile_env yaml_dump (Some c) = Inr r" "\<And>j. yaml_load (yaml_dump j) = Inr (Some j)"
  shows "validate_compose yaml_load (ccCompose r) = Inr ()"
proof -
  have "traverse validate_service (compose_entries c) = Inr (map (\<lambda>_. ()) (compose_entries c))"
    by (simp add: traverse_Inr_iff list_all2_map2 list_all2_same compose_entries_def validate_compiled_service
        list_all2_map1)
  then show ?thesis by (simp add: validate_compose_def compiled_document[OF assms] opt_prop_def)
qed

text \<open>
  What the editor's compiler writes, the runner accepts: a configuration compiles only if it is
  well formed, the Compose file it compiles to passes the runner's guardrail, and the images the runner
  lists are the trimmed images of the services that name one, in their order.
\<close>

theorem compiled_environment_is_accepted:
  assumes "compile_env yaml_dump (Some c) = Inr r"
    and law: "\<And>j. yaml_load (yaml_dump j) = Inr (Some j)"
  shows "well_formed c
    \<and> validate_compose yaml_load (ccCompose r) = Inr ()
    \<and> extract_image_references yaml_load (ccCompose r)
        = List.map_filter (\<lambda>s. map_option (Pair (shown (esName s))) (trimmed (esImage s))) (services_of c)"
proof -
  have "List.map_filter service_image (compose_entries c)
      = List.map_filter (\<lambda>s. map_option (Pair (shown (esName s))) (trimmed (esImage s))) (services_of c)"
    by (simp add: compose_entries_def map_filter_def filter_map o_def service_image_compiled)
  then show ?thesis
    using compile_env_Inr(1)[OF assms(1)] compiled_compose_validates[OF assms]
    by (simp add: extract_image_references_def compiled_document[OF assms] opt_prop_def)
qed

definition sample_env_service :: "string \<Rightarrow> string \<Rightarrow> env_service" where
  "sample_env_service n img =
     \<lparr>esName = Some n, esImage = Some img, esBuildContext = None, esBuildDockerfile = None,
      esPorts = Some [\<lparr>pmHost = Some ''8000'', pmContainer = Some ''80''\<rparr>], esEnvironment = None,
      esDependsOn = None, esCommand = Some ''serve''\<rparr>"

definition sample_env :: env_config where
  "sample_env =
     \<lparr>ecVersion = Some ''1.0'', ecServices = Some [sample_env_service ''api'' ''nginx'', sample_env_service ''db'' ''pg''],
      ecApp = Some \<lparr>eaMainService = Some ''api'', eaBaseUrl = Some ''http://localhost:8000'',
         eaHealthPath = Some ''/health'', eaExpectedStatus = Some (Fin 200), eaTimeoutSeconds = Some (Fin 60)\<rparr>,
      ecRun = Some \<lparr>enTimeoutMinutes = Some (Fin 10), enCleanup = Some True\<rparr>\<rparr>"

lemma sample_env_compiles: "\<exists>r. compile_env unary_dump (Some sample_env) = Inr r"
proof -
  have "well_formed sample_env" by code_simp
  then show ?thesis
    by (simp add: compile_env_def iffD2[OF validate_env_iff] to_backend_test_file_def sample_env_def)
qed

theorem compiled_environment_is_accepted_witness:
  "\<exists>r. compile_env unary_dump (Some sample_env) = Inr r
    \<and> validate_compose unary_load (ccCompose r) = Inr ()
    \<and> extract_image_references unary_load (ccCompose r) = [(''api'', ''nginx''), (''db'', ''pg'')]"
proof -
  obtain r where r: "compile_env unary_dump (Some sample_env) = Inr r" using sample_env_compiles by blast
  have "List.map_filter (\<lambda>s. map_option (Pair (shown (esName s))) (trimmed (esImage s))) (services_of sample_env)
      = [(''api'', ''nginx''), (''db'', ''pg'')]" by code_simp
  with compiled_environment_is_accepted[OF r unary_law] r show ?thesis by auto
qed

end
