(* ===== verification/Compose_Import.thy ===== *)
theory Compose_Import
  imports Env_Config
begin

text \<open>
  The analysis of an imported Compose file (\<open>environment-import/environment-import-analyzer.service.ts\<close>)
  and its conversion to an editor configuration (\<open>environment-configs/compose-to-visual-converter.service.ts\<close>).
  The file's values are untyped JSON: a method the value's type does not have throws.
\<close>

section \<open>Results\<close>

record compose_port =
  cpHost :: "string option"
  cpContainer :: string
  cpProtocol :: "json option"

record compose_variable =
  cvKey :: string
  cvValue :: "string option"
  cvSensitive :: bool

datatype volume_type = Bind_Mount | Named_Volume | Unknown_Volume

record compose_volume =
  vlSource :: "json option"
  vlTarget :: json
  vlType :: volume_type

record service_analysis =
  saName :: string
  saImage :: "json option"
  saBuildContext :: "json option"
  saBuildDockerfile :: "json option"
  saPorts :: "compose_port list"
  saDependencies :: "json list"
  saEnvironment :: "compose_variable list"
  saVolumes :: "compose_volume list"
  saHealthcheck :: "json option"

datatype severity = Sev_Info | Sev_Warning | Sev_Critical

record security_warning =
  swCode :: string
  swService :: string
  swSeverity :: severity
  swMessage :: string

record main_service =
  msName :: string
  msConfidence :: rat
  msReasons :: "string list"

record compose_analysis =
  caSource :: string
  caServices :: "service_analysis list"
  caMain :: "main_service option"
  caBaseUrl :: "string option"
  caWarnings :: "security_warning list"

section \<open>Reading a service\<close>

text \<open>\<open>Object.entries\<close>, of strings too.\<close>

definition object_entries :: "json \<Rightarrow> (string \<times> json) list" where
  "object_entries v = (case v of
     JStr s \<Rightarrow> zip (map dec_nat [0..<length s]) (map (\<lambda>c. JStr [c]) s) | _ \<Rightarrow> entries_of v)"

definition json_truthy_opt :: "json option \<Rightarrow> bool" where
  "json_truthy_opt v = (case v of None \<Rightarrow> False | Some j \<Rightarrow> json_truthy j)"

definition build_context :: "json option \<Rightarrow> json option" where
  "build_context b = (case b of Some (JStr s) \<Rightarrow> Some (JStr s) | _ \<Rightarrow> opt_prop b ''context'')"

definition build_dockerfile :: "json option \<Rightarrow> js_error + json option" where
  "build_dockerfile b =
     (case b of
        None \<Rightarrow> Inr None
      | Some JNull \<Rightarrow> Inl (TypeError ''Cannot read properties of null (reading dockerfile)'')
      | Some j \<Rightarrow> Inr (if is_object j then json_get j ''dockerfile'' else None))"

text \<open>\<open>(v ?? []).flatMap(f)\<close>\<close>

definition flat_map_items :: "json option \<Rightarrow> (json \<Rightarrow> js_error + 'a list) \<Rightarrow> js_error + 'a list" where
  "flat_map_items v f =
     (if nullish v then Inr []
      else (case v of
          Some (JArr xs) \<Rightarrow> sbind (traverse f xs) (\<lambda>ys. Inr (concat ys))
        | _ \<Rightarrow> Inl (TypeError ''flatMap is not a function'')))"

definition port_text :: "string \<Rightarrow> compose_port" where
  "port_text s =
     (let pieces = split_char (CHR ''/'') s; parts = split_char (CHR '':'') (hd pieces);
          protocol = (if length pieces = 1 then None else Some (JStr (pieces ! 1))) in
      if length parts = 1
      then \<lparr>cpHost = None, cpContainer = hd parts, cpProtocol = protocol\<rparr>
      else \<lparr>cpHost = Some (parts ! (length parts - 2)), cpContainer = parts ! (length parts - 1),
             cpProtocol = protocol\<rparr>)"

definition port_item :: "json \<Rightarrow> js_error + compose_port list" where
  "port_item p =
     (case p of
        JNull \<Rightarrow> Inl (TypeError ''Cannot read properties of null (reading target)'')
      | JStr s \<Rightarrow> Inr [port_text s]
      | _ \<Rightarrow>
          if \<not> is_object p then Inl (TypeError ''port.split is not a function'')
          else (let container = (if json_truthy_opt (json_get p ''target'')
                                 then json_string (the (json_get p ''target'')) else []) in
            Inr (if container = [] then []
                 else [\<lparr>cpHost = (if json_truthy_opt (json_get p ''published'')
                          then Some (json_string (the (json_get p ''published''))) else None),
                        cpContainer = container, cpProtocol = json_get p ''protocol''\<rparr>])))"

definition dependency_names :: "json option \<Rightarrow> json list" where
  "dependency_names d =
     (case d of
        Some (JArr xs) \<Rightarrow> xs
      | _ \<Rightarrow> if json_truthy_opt d then map (JStr \<circ> fst) (object_entries (the d)) else [])"

definition sensitive_words :: "string list" where
  "sensitive_words = [''password'', ''secret'', ''token'', ''key'', ''credential'']"

definition is_sensitive_env :: "string \<Rightarrow> string option \<Rightarrow> bool" where
  "is_sensitive_env key value = (truthy_str value \<and> list_ex (includes_ci key) sensitive_words)"

definition variable_of :: "string \<Rightarrow> string option \<Rightarrow> compose_variable" where
  "variable_of key value = \<lparr>cvKey = key, cvValue = value, cvSensitive = is_sensitive_env key value\<rparr>"

definition variable_text :: "json \<Rightarrow> js_error + compose_variable" where
  "variable_text e =
     (case e of
        JStr s \<Rightarrow> (let parts = split_char (CHR ''='') s in
          Inr (variable_of (hd parts) (if tl parts = [] then None else Some (join_with ''='' (tl parts)))))
      | _ \<Rightarrow> Inl (TypeError ''entry.split is not a function''))"

definition environment_of :: "json option \<Rightarrow> js_error + compose_variable list" where
  "environment_of env =
     (case env of
        Some (JArr xs) \<Rightarrow> traverse variable_text xs
      | _ \<Rightarrow> Inr (map (\<lambda>(k, v). variable_of k (if v = JNull then None else Some (json_string v)))
               (if nullish env then [] else object_entries (the env))))"

text \<open>The source of a volume is compared only when it is truthy; then it has to be a string.\<close>

definition volume_type_of :: "json option \<Rightarrow> json option \<Rightarrow> js_error + volume_type" where
  "volume_type_of t source =
     (if t = Some (JStr ''bind'') then Inr Bind_Mount
      else if \<not> json_truthy_opt source
      then Inr (if t = Some (JStr ''volume'') then Named_Volume else Unknown_Volume)
      else (case the source of
          JStr s \<Rightarrow> Inr (if hd s \<in> {CHR ''.'', CHR ''/''} then Bind_Mount else Named_Volume)
        | _ \<Rightarrow> Inl (TypeError ''source.startsWith is not a function'')))"

definition volume_item :: "json \<Rightarrow> js_error + compose_volume list" where
  "volume_item v =
     (case v of
        JNull \<Rightarrow> Inl (TypeError ''Cannot read properties of null (reading target)'')
      | JStr s \<Rightarrow> (let parts = split_char (CHR '':'') s in
          if length parts = 1
          then Inr [\<lparr>vlSource = None, vlTarget = JStr (hd parts), vlType = Unknown_Volume\<rparr>]
          else sbind (volume_type_of None (Some (JStr (hd parts)))) (\<lambda>t.
            Inr [\<lparr>vlSource = Some (JStr (hd parts)), vlTarget = JStr (parts ! 1), vlType = t\<rparr>]))
      | _ \<Rightarrow>
          if \<not> is_object v then Inl (TypeError ''volume.split is not a function'')
          else if \<not> json_truthy_opt (json_get v ''target'') then Inr []
          else sbind (volume_type_of (json_get v ''type'') (json_get v ''source'')) (\<lambda>t.
            Inr [\<lparr>vlSource = json_get v ''source'', vlTarget = the (json_get v ''target''), vlType = t\<rparr>]))"

definition analyze_service :: "string \<Rightarrow> json \<Rightarrow> js_error + service_analysis" where
  "analyze_service name raw =
     (let s = (if raw = JNull then JObj [] else raw) in
      sbind (build_dockerfile (json_get s ''build'')) (\<lambda>dockerfile.
      sbind (flat_map_items (json_get s ''ports'') port_item) (\<lambda>ports.
      sbind (environment_of (json_get s ''environment'')) (\<lambda>env.
      sbind (flat_map_items (json_get s ''volumes'') volume_item) (\<lambda>volumes.
      Inr \<lparr>saName = name, saImage = json_get s ''image'', saBuildContext = build_context (json_get s ''build''),
           saBuildDockerfile = dockerfile, saPorts = ports,
           saDependencies = dependency_names (json_get s ''depends_on''), saEnvironment = env,
           saVolumes = volumes, saHealthcheck = json_get s ''healthcheck''\<rparr>)))))"

section \<open>The main service\<close>

definition http_ports :: "string list" where
  "http_ports = [''80'', ''3000'', ''3333'', ''4000'', ''5000'', ''8000'', ''8080'', ''8081'']"

definition is_http_port :: "string option \<Rightarrow> bool" where
  "is_http_port p = (case p of None \<Rightarrow> False | Some s \<Rightarrow> s \<in> set http_ports)"

definition application_words :: "string list" where
  "application_words = [''api'', ''app'', ''web'', ''backend'', ''server'']"

definition infrastructure_words :: "string list" where
  "infrastructure_words = [''postgres'', ''mysql'', ''mariadb'', ''redis'', ''mongo'', ''rabbitmq'', ''kafka'',
     ''memcached'']"

record service_score =
  ssService :: service_analysis
  ssScore :: int
  ssReasons :: "string list"

definition image_text :: "json option \<Rightarrow> js_error + string" where
  "image_text v =
     (if nullish v then Inr []
      else (case v of Some (JStr s) \<Rightarrow> Inr (to_lower s)
        | _ \<Rightarrow> Inl (TypeError ''service.image?.toLowerCase is not a function'')))"

definition score_service :: "service_analysis \<Rightarrow> js_error + service_score" where
  "score_service s =
     sbind (image_text (saImage s)) (\<lambda>image.
     let name = to_lower (saName s);
         marks = [(list_ex (str_includes name) application_words, 30,
                    ''Service name looks like an application entrypoint''),
                  (list_ex (\<lambda>p. is_http_port (Some (cpContainer p)) \<or> is_http_port (cpHost p)) (saPorts s), 35,
                    ''Service exposes a probable HTTP port''),
                  (json_truthy_opt (saHealthcheck s), 15, ''Service already has a healthcheck''),
                  (json_truthy_opt (saBuildContext s), 10, ''Service is built from local source''),
                  (list_ex (str_includes (name @ '' '' @ image)) infrastructure_words, - 35,
                    ''Service looks like infrastructure, not the main API'')];
         hits = filter fst marks;
         reasons = map (\<lambda>(_, _, r). r) hits
     in Inr \<lparr>ssService = s, ssScore = 20 + sum_list (map (\<lambda>(_, n, _). n) hits),
          ssReasons = (if reasons = [] then [''Best available candidate''] else reasons)\<rparr>)"

definition detect_main_service :: "service_analysis list \<Rightarrow> js_error + main_service option" where
  "detect_main_service services =
     sbind (traverse score_service services) (\<lambda>scores.
     Inr (case sort_by (\<lambda>l r. descending (ssScore l) (ssScore r)) scores of
        [] \<Rightarrow> None
      | best # _ \<Rightarrow> Some \<lparr>msName = saName (ssService best),
          msConfidence = max (1 / 10) (min 1 (of_int (ssScore best) / 100)), msReasons = ssReasons best\<rparr>))"

definition detect_base_url :: "service_analysis list \<Rightarrow> string \<Rightarrow> string option" where
  "detect_base_url services name =
     (case find (\<lambda>s. saName s = name) services of
        None \<Rightarrow> None
      | Some s \<Rightarrow>
          (case find (\<lambda>p. truthy_str (cpHost p) \<or> cpContainer p \<noteq> []) (saPorts s) of
             None \<Rightarrow> None
           | Some p \<Rightarrow> Some (''http://localhost:'' @ (case cpHost p of None \<Rightarrow> cpContainer p | Some h \<Rightarrow> h))))"

section \<open>Warnings\<close>

definition infrastructure_ports :: "string list" where
  "infrastructure_ports = [''5432'', ''3306'', ''6379'', ''27017'', ''5672'', ''9092'', ''11211'']"

definition docker_sock :: json where
  "docker_sock = JStr ''/var/run/docker.sock''"

definition volume_warnings :: "(string \<Rightarrow> severity \<Rightarrow> string \<Rightarrow> security_warning) \<Rightarrow> compose_volume \<Rightarrow> security_warning list" where
  "volume_warnings warning v =
     (if vlSource v = Some docker_sock \<or> vlTarget v = docker_sock
      then [warning ''DOCKER_SOCKET'' Sev_Critical ''Service mounts the Docker socket.''] else [])
     @ (if vlSource v = Some (JStr ''/'')
        then [warning ''ROOT_MOUNT'' Sev_Critical ''Service mounts the host root filesystem.''] else [])
     @ (if vlType v = Bind_Mount
        then [warning ''HOST_BIND_MOUNT'' Sev_Warning
          (''Service bind-mounts '' @ json_string (if nullish (vlSource v) then vlTarget v else the (vlSource v))
             @ ''.'')] else [])"

text \<open>The image of a service that came this far is a string or nullish.\<close>

definition ends_with :: "string \<Rightarrow> string \<Rightarrow> bool" where
  "ends_with s t = starts_with (rev s) (rev t)"

definition service_warnings :: "json \<Rightarrow> service_analysis \<Rightarrow> security_warning list" where
  "service_warnings raw_services s =
     (let raw = (case json_get raw_services (saName s) of None \<Rightarrow> JObj [] | Some j \<Rightarrow> if j = JNull then JObj [] else j);
          warning = (\<lambda>code sev message. \<lparr>swCode = code, swService = saName s, swSeverity = sev,
             swMessage = message\<rparr>) in
      (if json_get raw ''privileged'' = Some (JBool True)
       then [warning ''PRIVILEGED'' Sev_Critical ''Service uses privileged mode.''] else [])
      @ (if json_get raw ''network_mode'' = Some (JStr ''host'')
         then [warning ''HOST_NETWORK'' Sev_Critical ''Service uses host network mode.''] else [])
      @ (if \<not> json_truthy_opt (saHealthcheck s)
         then [warning ''MISSING_HEALTHCHECK'' Sev_Info ''Service does not define a healthcheck.''] else [])
      @ (case saImage s of
           Some (JStr i) \<Rightarrow> if ends_with i '':latest''
             then [warning ''FLOATING_LATEST_TAG'' Sev_Warning ''Service image uses the floating latest tag.'']
             else []
         | _ \<Rightarrow> [])
      @ concat (map (volume_warnings warning) (saVolumes s))
      @ List.map_filter (\<lambda>e. if cvSensitive e \<and> truthy_str (cvValue e) \<and> \<not> starts_with (the (cvValue e)) ''${''
          then Some (warning ''PLAINTEXT_SECRET'' Sev_Warning
            (''Environment variable '' @ cvKey e @ '' looks sensitive and has an inline value.''))
          else None) (saEnvironment s)
      @ List.map_filter (\<lambda>p. if truthy_str (cpHost p) \<and> cpContainer p \<in> set infrastructure_ports
          then Some (warning ''PUBLISHED_INFRA_PORT'' Sev_Warning
            (''Infrastructure port '' @ cpContainer p @ '' is published on the host.''))
          else None) (saPorts s))"

section \<open>Analysis and conversion\<close>

definition parse_compose :: "(string \<Rightarrow> js_error + json option) \<Rightarrow> string \<Rightarrow> js_error + json" where
  "parse_compose yaml_load text =
     (case yaml_load text of
        Inl (BadRequestException m) \<Rightarrow> Inl (BadRequestException m)
      | Inl e \<Rightarrow> Inl (BadRequestException (''Invalid Docker Compose YAML: '' @ error_message e))
      | Inr (Some (JObj es)) \<Rightarrow> Inr (JObj es)
      | Inr _ \<Rightarrow> Inl (BadRequestException ''Docker Compose YAML must be an object''))"

definition analyze_compose ::
    "(string \<Rightarrow> js_error + json option) \<Rightarrow> string \<Rightarrow> string \<Rightarrow> js_error + compose_analysis" where
  "analyze_compose yaml_load text source =
     sbind (parse_compose yaml_load text) (\<lambda>doc.
     case json_get doc ''services'' of
       Some (JObj es) \<Rightarrow>
         sbind (traverse (\<lambda>(name, raw). analyze_service name raw) es) (\<lambda>services.
         sbind (detect_main_service services) (\<lambda>main.
         Inr \<lparr>caSource = source, caServices = services, caMain = main,
              caBaseUrl = (case main of None \<Rightarrow> None | Some m \<Rightarrow> detect_base_url services (msName m)),
              caWarnings = concat (map (service_warnings (JObj es)) services)\<rparr>))
     | _ \<Rightarrow> Inl (BadRequestException ''Docker Compose YAML must define services''))"

text \<open>
  The configuration's types promise strings where the file may have any value; such a value, which the
  code hands on as it is, appears here as its text.
\<close>

definition text_value :: "json option \<Rightarrow> string option" where
  "text_value v = (if nullish v then None else Some (json_string (the v)))"

definition visual_variable :: "compose_variable \<Rightarrow> env_variable" where
  "visual_variable e =
     \<lparr>evKey = Some (cvKey e), evValue = (if cvSensitive e then None else cvValue e),
      evType = Some (if cvSensitive e then Secret_Value else Literal_Value),
      evSecretKey = (if cvSensitive e then Some (cvKey e) else None), evVariable = None\<rparr>"

definition visual_service :: "service_analysis \<Rightarrow> env_service" where
  "visual_service s =
     \<lparr>esName = Some (saName s), esImage = text_value (saImage s),
      esBuildContext = text_value (saBuildContext s), esBuildDockerfile = text_value (saBuildDockerfile s),
      esPorts = Some (map (\<lambda>p. \<lparr>pmHost = Some (case cpHost p of None \<Rightarrow> cpContainer p | Some h \<Rightarrow> h),
         pmContainer = Some (cpContainer p)\<rparr>) (saPorts s)),
      esEnvironment = Some (map visual_variable (saEnvironment s)),
      esDependsOn = Some (map json_string (saDependencies s)), esCommand = None\<rparr>"

record compose_import =
  ciVisual :: env_config
  ciAnalysis :: compose_analysis
  ciWarnings :: "string list"
  ciUnsupported :: "string list"

definition convert_compose ::
    "(string \<Rightarrow> js_error + json option) \<Rightarrow> string \<Rightarrow> bool \<Rightarrow> js_error + compose_import" where
  "convert_compose yaml_load text upload =
     sbind (analyze_compose yaml_load text (if upload then ''UPLOAD'' else ''PASTE'')) (\<lambda>a.
     Inr \<lparr>ciVisual = \<lparr>ecVersion = Some ''1.0'', ecServices = Some (map visual_service (caServices a)),
            ecApp = Some \<lparr>eaMainService = Some (case caMain a of
                 Some m \<Rightarrow> msName m
               | None \<Rightarrow> (case caServices a of [] \<Rightarrow> ''api'' | s # _ \<Rightarrow> saName s)),
               eaBaseUrl = Some (case caBaseUrl a of None \<Rightarrow> ''http://localhost:8000'' | Some u \<Rightarrow> u),
               eaHealthPath = Some ''/health'', eaExpectedStatus = Some (Fin 200),
               eaTimeoutSeconds = Some (Fin 60)\<rparr>,
            ecRun = Some \<lparr>enTimeoutMinutes = Some (Fin 10), enCleanup = Some True\<rparr>\<rparr>,
          ciAnalysis = a,
          ciWarnings = List.map_filter (\<lambda>s. if json_truthy_opt (saHealthcheck s)
              then Some (''Service \"'' @ saName s
                @ ''\" healthcheck was detected but app healthcheck uses editor settings'') else None) (caServices a)
            @ map swMessage (caWarnings a),
          ciUnsupported = List.map_filter (\<lambda>s. if saVolumes s \<noteq> []
              then Some (''Service \"'' @ saName s @ ''\" volumes are not editable in visual mode'') else None)
            (caServices a)\<rparr>)"

section \<open>A compiled configuration read back\<close>

lemma split_char_absent: "c \<notin> set s \<Longrightarrow> split_char c s = [s]"
  by (induction s) auto

lemma split_char_first: "c \<notin> set a \<Longrightarrow> split_char c (a @ c # b) = a # split_char c b"
  by (induction a) auto

lemma port_text_plain:
  assumes "CHR '':'' \<notin> set h" "CHR ''/'' \<notin> set h" "CHR '':'' \<notin> set c" "CHR ''/'' \<notin> set c"
  shows "port_text (h @ '':'' @ c) = \<lparr>cpHost = Some h, cpContainer = c, cpProtocol = None\<rparr>"
  using assms by (simp add: port_text_def split_char_absent split_char_first Let_def)

definition given_ports :: "env_service \<Rightarrow> port_mapping list" where
  "given_ports s = filter (\<lambda>p. truthy_str (pmHost p) \<and> truthy_str (pmContainer p))
     (case esPorts s of None \<Rightarrow> [] | Some ps \<Rightarrow> ps)"

definition given_environment :: "env_service \<Rightarrow> (string \<times> json) list" where
  "given_environment s = from_entries (List.map_filter
     (\<lambda>e. if truthy_str (evKey e) then Some (the (evKey e), JStr (environment_value e)) else None)
     (case esEnvironment s of None \<Rightarrow> [] | Some es \<Rightarrow> es))"

definition given_dependencies :: "env_service \<Rightarrow> string list" where
  "given_dependencies s = (case esDependsOn s of None \<Rightarrow> [] | Some ds \<Rightarrow> ds)"

text \<open>Ports without the separators of the Compose short syntax.\<close>

definition plain_port :: "port_mapping \<Rightarrow> bool" where
  "plain_port p = (list_all (\<lambda>c. c \<noteq> CHR '':'' \<and> c \<noteq> CHR ''/'') (the (pmHost p))
     \<and> list_all (\<lambda>c. c \<noteq> CHR '':'' \<and> c \<noteq> CHR ''/'') (the (pmContainer p)))"

definition plain_ports :: "env_service \<Rightarrow> bool" where
  "plain_ports s = list_all plain_port (given_ports s)"

lemma map_filter_if: "List.map_filter (\<lambda>x. if P x then Some (f x) else None) xs = map f (filter P xs)"
  by (induction xs) (simp_all add: map_filter_simps)

lemma traverse_total: "list_all (\<lambda>x. f x = Inr (g x)) xs \<Longrightarrow> traverse f xs = Inr (map g xs)"
  by (induction xs) auto

lemma compiled_ports:
  assumes "plain_ports s"
  shows "flat_map_items (compose_ports (esPorts s)) port_item
    = Inr (map (\<lambda>p. \<lparr>cpHost = pmHost p, cpContainer = the (pmContainer p), cpProtocol = None\<rparr>) (given_ports s))"
proof (cases "esPorts s")
  case None
  then show ?thesis by (simp add: compose_ports_def flat_map_items_def nullish_def given_ports_def)
next
  case (Some ps)
  let ?ok = "\<lambda>p. truthy_str (pmHost p) \<and> truthy_str (pmContainer p)"
  let ?text = "\<lambda>p. JStr (the (pmHost p) @ '':'' @ the (pmContainer p))"
  have item: "port_item (?text p) = Inr [\<lparr>cpHost = pmHost p, cpContainer = the (pmContainer p), cpProtocol = None\<rparr>]"
    if "p \<in> set (given_ports s)" for p
  proof -
    have "plain_port p" "?ok p"
      using that assms by (auto simp: plain_ports_def list_all_iff given_ports_def)
    then obtain h c where "pmHost p = Some h" "pmContainer p = Some c" "CHR '':'' \<notin> set h" "CHR ''/'' \<notin> set h"
      "CHR '':'' \<notin> set c" "CHR ''/'' \<notin> set c"
      unfolding plain_port_def list_all_iff truthy_str_def by (metis option.collapse option.sel)
    then show ?thesis using port_text_plain[of h c] by (simp add: port_item_def)
  qed
  have "List.map_filter (\<lambda>p. if ?ok p then Some (?text p) else None) ps = map ?text (given_ports s)"
    by (simp add: map_filter_if given_ports_def Some)
  moreover have "traverse port_item (map ?text (given_ports s))
      = Inr (map (\<lambda>p. [\<lparr>cpHost = pmHost p, cpContainer = the (pmContainer p), cpProtocol = None\<rparr>]) (given_ports s))"
    using item by (auto simp: traverse_Inr_iff list_all2_map1 list_all2_map2 list_all2_same)
  ultimately show ?thesis
    by (cases "ps = []") (auto simp: Some compose_ports_def flat_map_items_def nullish_def given_ports_def
        concat_map_singleton)
qed

lemma compiled_variables:
  "environment_of (compose_environment (esEnvironment s))
    = Inr (map (\<lambda>(k, v). variable_of k (Some (json_string v))) (given_environment s))"
proof (cases "esEnvironment s")
  case None
  then show ?thesis
    by (simp add: compose_environment_def environment_of_def nullish_def given_environment_def map_filter_def)
next
  case (Some es)
  have not_null: "v \<noteq> JNull" if "(k, v) \<in> set (given_environment s)" for k v
  proof -
    have "set (fold (\<lambda>(k, v) o'. AList.update k v o') xs acc) \<subseteq> set xs \<union> set acc" for xs acc :: "(string \<times> json) list"
    proof (induction xs arbitrary: acc)
      case (Cons x xs)
      have "set (AList.update (fst x) (snd x) acc) \<subseteq> insert x (set acc)"
        by (induction acc) auto
      with Cons[of "AList.update (fst x) (snd x) acc"] show ?case by (auto simp: case_prod_beta)
    qed simp
    then have "set (from_entries xs) \<subseteq> set xs" for xs :: "(string \<times> json) list"
      unfolding from_entries_def by (metis Un_empty_right list.set(1))
    then show ?thesis
      using that unfolding given_environment_def by (fastforce simp: map_filter_def split: if_splits)
  qed
  have "map (\<lambda>(k, v). variable_of k (if v = JNull then None else Some (json_string v))) (given_environment s)
      = map (\<lambda>(k, v). variable_of k (Some (json_string v))) (given_environment s)"
    using not_null by auto
  then show ?thesis
    by (cases "es = []") (auto simp: Some compose_environment_def environment_of_def nullish_def
        given_environment_def object_entries_def map_filter_def)
qed

definition compiled_analysis :: "env_service \<Rightarrow> service_analysis" where
  "compiled_analysis s =
    \<lparr>saName = shown (esName s), saImage = map_option JStr (trimmed (esImage s)),
     saBuildContext = map_option JStr (trimmed (esBuildContext s)),
     saBuildDockerfile = (if blank (esBuildContext s) then None
        else map_option JStr (trimmed (esBuildDockerfile s))),
     saPorts = map (\<lambda>p. \<lparr>cpHost = pmHost p, cpContainer = the (pmContainer p), cpProtocol = None\<rparr>) (given_ports s),
     saDependencies = map JStr (given_dependencies s),
     saEnvironment = map (\<lambda>(k, v). variable_of k (Some (json_string v))) (given_environment s),
     saVolumes = [], saHealthcheck = None\<rparr>"

lemma analyze_compiled_service:
  assumes "plain_ports s"
  shows "analyze_service (shown (esName s)) (to_compose_service s) = Inr (compiled_analysis s)"
proof -
  have obj: "to_compose_service s \<noteq> JNull" by (simp add: to_compose_service_def)
  have df: "build_dockerfile (compose_build s) = Inr (if blank (esBuildContext s) then None
        else map_option JStr (trimmed (esBuildDockerfile s)))"
    by (cases "trimmed (esBuildContext s)")
      (auto simp: compose_build_def build_dockerfile_def map_of_present simp flip: trimmed_None_iff)
  have ctx: "build_context (compose_build s) = map_option JStr (trimmed (esBuildContext s))"
    by (cases "trimmed (esBuildContext s)")
      (auto simp: compose_build_def build_context_def opt_prop_def map_of_present)
  have dep: "dependency_names (case esDependsOn s of None \<Rightarrow> None
      | Some ds \<Rightarrow> if ds = [] then None else Some (JArr (map JStr ds))) = map JStr (given_dependencies s)"
    by (auto simp: dependency_names_def given_dependencies_def json_truthy_opt_def split: option.splits)
  show ?thesis
    using obj by (simp add: analyze_service_def json_get_compose_service df ctx dep compiled_ports[OF assms]
        compiled_variables flat_map_items_def[of None] nullish_def compiled_analysis_def)
qed

section \<open>The choice of the main service\<close>

lemma score_service_of: "score_service s = Inr x \<Longrightarrow> ssService x = s"
  by (auto simp: score_service_def Let_def)

lemma scores_of:
  assumes "traverse score_service ss = Inr scores"
  shows "length scores = length ss" "i < length ss \<Longrightarrow> ssService (scores ! i) = ss ! i"
  using assms by (auto simp: traverse_Inr_iff list_all2_conv_all_nth intro: score_service_of)

lemma detect_main_service_best:
  assumes "detect_main_service ss = Inr main" "ss \<noteq> []"
  shows "\<exists>scores i m. traverse score_service ss = Inr scores \<and> i < length ss
    \<and> main = Some m \<and> msName m = saName (ss ! i) \<and> 1 / 10 \<le> msConfidence m \<and> msConfidence m \<le> 1
    \<and> (\<forall>j<length ss. ssScore (scores ! j) \<le> ssScore (scores ! i))
    \<and> (\<forall>j<i. ssScore (scores ! j) < ssScore (scores ! i))"
proof -
  obtain scores where sc: "traverse score_service ss = Inr scores"
    using assms(1) by (auto simp: detect_main_service_def)
  note len = scores_of[OF sc]
  have "sort_by (\<lambda>l r. descending (ssScore l) (ssScore r)) scores \<noteq> []"
    using assms(2) len(1) by (metis length_0_conv length_sort_by)
  then obtain b r where br: "sort_by (\<lambda>l r. descending (ssScore l) (ssScore r)) scores = b # r"
    by (cases "sort_by (\<lambda>l r. descending (ssScore l) (ssScore r)) scores") auto
  from down.sort_by_first[OF this] obtain i where i: "i < length scores" "scores ! i = b"
    "\<forall>j<length scores. ssScore (scores ! j) \<le> ssScore b" "\<forall>j<i. ssScore (scores ! j) < ssScore b"
    by (auto simp: descending_def not_le)
  let ?m = "\<lparr>msName = saName (ssService b), msConfidence = max (1 / 10) (min 1 (of_int (ssScore b) / 100)),
    msReasons = ssReasons b\<rparr>"
  have "main = Some ?m" using assms(1) sc br by (simp add: detect_main_service_def)
  then show ?thesis using sc i len by (intro exI[of _ scores] exI[of _ i] exI[of _ ?m]) auto
qed

lemma analyze_compose_Inr:
  assumes "analyze_compose yaml_load txt source = Inr a"
  shows "\<exists>doc es main. parse_compose yaml_load txt = Inr doc \<and> json_get doc ''services'' = Some (JObj es)
    \<and> traverse (\<lambda>(name, raw). analyze_service name raw) es = Inr (caServices a)
    \<and> detect_main_service (caServices a) = Inr main \<and> caMain a = main
    \<and> caWarnings a = concat (map (service_warnings (JObj es)) (caServices a))"
proof -
  obtain doc where doc: "parse_compose yaml_load txt = Inr doc"
    using assms by (auto simp: analyze_compose_def)
  obtain es where es: "json_get doc ''services'' = Some (JObj es)"
  proof (cases "json_get doc ''services''")
    case (Some v)
    with that assms doc show ?thesis by (cases v) (auto simp: analyze_compose_def)
  qed (use assms doc in \<open>simp add: analyze_compose_def\<close>)
  from assms show ?thesis by (auto simp: analyze_compose_def doc es)
qed

text \<open>
  The analysis of a Compose file with services proposes a main service: the first one, in the file's
  order, of those with the highest score, with a confidence between a tenth and one.
\<close>

theorem main_service_is_first_best:
  assumes "analyze_compose yaml_load txt source = Inr a" "caServices a \<noteq> []"
  shows "\<exists>scores i m. traverse score_service (caServices a) = Inr scores \<and> i < length (caServices a)
    \<and> caMain a = Some m \<and> msName m = saName (caServices a ! i)
    \<and> 1 / 10 \<le> msConfidence m \<and> msConfidence m \<le> 1
    \<and> (\<forall>j<length (caServices a). ssScore (scores ! j) \<le> ssScore (scores ! i))
    \<and> (\<forall>j<i. ssScore (scores ! j) < ssScore (scores ! i))"
proof -
  have "detect_main_service (caServices a) = Inr (caMain a)"
    using analyze_compose_Inr[OF assms(1)] by blast
  from detect_main_service_best[OF this assms(2)] show ?thesis .
qed

section \<open>Importing what was compiled\<close>

definition reimported :: "env_service \<Rightarrow> env_service" where
  "reimported s =
     \<lparr>esName = esName s, esImage = trimmed (esImage s), esBuildContext = trimmed (esBuildContext s),
      esBuildDockerfile = (if blank (esBuildContext s) then None else trimmed (esBuildDockerfile s)),
      esPorts = Some (given_ports s),
      esEnvironment = Some (map (\<lambda>(k, v). visual_variable (variable_of k (Some (json_string v))))
        (given_environment s)),
      esDependsOn = Some (given_dependencies s), esCommand = None\<rparr>"

lemma text_value_text: "text_value (map_option JStr v) = v"
  by (cases v) (simp_all add: text_value_def nullish_def)

lemma visual_compiled_service:
  assumes "\<not> blank (esName s)"
  shows "visual_service (compiled_analysis s) = reimported s"
proof -
  have name: "Some (shown (esName s)) = esName s"
    using assms by (cases "esName s") (simp_all add: shown_def)
  have given: "pmHost p = Some (the (pmHost p)) \<and> pmContainer p = Some (the (pmContainer p))"
    if "p \<in> set (given_ports s)" for p
    using that by (auto simp: given_ports_def truthy_str_def)
  have ports: "map (\<lambda>p. \<lparr>pmHost = Some (case pmHost p of None \<Rightarrow> the (pmContainer p) | Some h \<Rightarrow> h),
      pmContainer = Some (the (pmContainer p))\<rparr>) (given_ports s) = given_ports s"
    by (intro map_idI port_mapping.equality; use given in \<open>force split: option.splits\<close>)
  have vars: "map (visual_variable \<circ> (\<lambda>(k, v). variable_of k (Some (json_string v)))) (given_environment s)
      = map (\<lambda>(k, v). visual_variable (variable_of k (Some (json_string v)))) (given_environment s)"
    by auto
  show ?thesis
    unfolding compiled_analysis_def visual_service_def reimported_def
    using name ports vars text_value_text[of None] by (simp add: text_value_text o_def cong: option.case_cong)
qed

lemma trim_Nil_iff: "trim s = [] \<longleftrightarrow> list_all is_ws s"
proof -
  have "trim s = [] \<longleftrightarrow> dropWhile is_ws s = []"
    using dropWhile_nonempty_hd[of is_ws s]
    by (cases "dropWhile is_ws s") (auto simp: trim_def dropWhile_eq_Nil_conv dest: set_dropWhileD)
  then show ?thesis by (simp add: dropWhile_eq_Nil_conv list_all_iff)
qed

lemma base_url_not_blank: "detect_base_url ss n = Some u \<Longrightarrow> \<not> blank (Some u)"
  by (auto simp: detect_base_url_def trim_Nil_iff is_ws_def split: option.splits)

lemma blank_trimmed: "blank (trimmed v) \<longleftrightarrow> blank v"
  by (simp flip: trimmed_None_iff)

lemma scored: "\<exists>scores. traverse score_service (map compiled_analysis ss) = Inr scores"
proof -
  have "\<exists>x. score_service (compiled_analysis s) = Inr x" for s
    by (cases "trimmed (esImage s)")
      (simp_all add: score_service_def compiled_analysis_def image_text_def nullish_def Let_def)
  then obtain g where "score_service (compiled_analysis s) = Inr (g s)" for s by metis
  then have "traverse score_service (map compiled_analysis ss) = Inr (map g ss)"
    by (simp add: traverse_Inr_iff list_all2_map1 list_all2_map2 list_all2_same)
  then show ?thesis by blast
qed

lemma compiled_service_warnings:
  assumes "map_of es (shown (esName s)) = Some (to_compose_service s)"
  shows "list_all (\<lambda>w. swSeverity w \<noteq> Sev_Critical) (service_warnings (JObj es) (compiled_analysis s))"
proof -
  have "to_compose_service s \<noteq> JNull" by (simp add: to_compose_service_def)
  then show ?thesis
    using assms by (auto simp: service_warnings_def compiled_analysis_def json_get_compose_service Let_def
        list_all_iff map_filter_def split: option.splits json.splits if_splits)
qed


lemma map_of_compose_entries:
  assumes "well_formed c" "s \<in> set (services_of c)"
  shows "map_of (compose_entries c) (shown (esName s)) = Some (to_compose_service s)"
  using assms by (intro map_of_is_SomeI)
    (auto simp: well_formed_def names_of_def compose_entries_def o_def)

text \<open>The analysis of a compiled configuration.\<close>

lemma compiled_analysis_run:
  assumes "compile_env yaml_dump (Some c) = Inr r"
    and "list_all plain_ports (services_of c)"
    and law: "\<And>j. yaml_load (yaml_dump j) = Inr (Some j)"
  shows "\<exists>a m. analyze_compose yaml_load (ccCompose r) source = Inr a
    \<and> caServices a = map compiled_analysis (services_of c)
    \<and> caMain a = Some m \<and> msName m \<in> set (names_of c)
    \<and> caBaseUrl a = detect_base_url (caServices a) (msName m)
    \<and> list_all (\<lambda>w. swSeverity w \<noteq> Sev_Critical) (caWarnings a)"
proof -
  note w = compile_env_Inr(1)[OF assms(1)]
  let ?as = "map compiled_analysis (services_of c)"
  have doc: "parse_compose yaml_load (ccCompose r) = Inr (JObj [(''services'', JObj (compose_entries c))])"
    by (simp add: parse_compose_def compiled_document[OF assms(1) law])
  have as: "traverse (\<lambda>(name, raw). analyze_service name raw) (compose_entries c) = Inr ?as"
    using assms(2) by (auto simp: traverse_Inr_iff compose_entries_def list_all2_map1 list_all2_map2
        list_all2_same list_all_iff analyze_compiled_service)
  obtain scores where "traverse score_service ?as = Inr scores" using scored by blast
  then obtain main where main: "detect_main_service ?as = Inr main" by (simp add: detect_main_service_def)
  have ne: "?as \<noteq> []" using w by (simp add: well_formed_def)
  obtain j m where m: "j < length ?as" "main = Some m" "msName m = saName (?as ! j)"
    using detect_main_service_best[OF main ne] by blast
  then have "msName m \<in> set (names_of c)" by (simp add: names_of_def compiled_analysis_def)
  moreover have "list_all (\<lambda>w. swSeverity w \<noteq> Sev_Critical)
      (concat (map (service_warnings (JObj (compose_entries c))) ?as))"
    using compiled_service_warnings[OF map_of_compose_entries[OF w]] by (simp add: list_all_iff)
  ultimately show ?thesis
    by (simp add: analyze_compose_def doc as main m(2))
qed



definition sample_document :: "string \<Rightarrow> js_error + json option" where
  "sample_document _ = Inr (Some (JObj [(''services'', JObj
     [(''db'', JObj [(''image'', JStr ''postgres:16'')]),
      (''gateway'', JObj [(''ports'', JArr [JStr ''8080:80''])])])]))"

theorem main_service_is_first_best_witness:
  "\<exists>a. analyze_compose sample_document [] ''PASTE'' = Inr a \<and> map_option msName (caMain a) = Some ''gateway''"
proof -
  have "case analyze_compose sample_document [] ''PASTE'' of Inl e \<Rightarrow> False
      | Inr a \<Rightarrow> map saName (caServices a) = [''db'', ''gateway'']
          \<and> (case traverse score_service (caServices a) of Inl e \<Rightarrow> False
             | Inr scores \<Rightarrow> map ssScore scores = [- 15, 55])" by code_simp
  then obtain a scores where a: "analyze_compose sample_document [] ''PASTE'' = Inr a"
    and n: "map saName (caServices a) = [''db'', ''gateway'']"
    and s: "traverse score_service (caServices a) = Inr scores" "map ssScore scores = [- 15, 55]"
    by (auto split: sum.splits)
  obtain s1 s2 where s12: "caServices a = [s1, s2]" "saName s1 = ''db''" "saName s2 = ''gateway''" using n by auto
  obtain x1 x2 where x12: "scores = [x1, x2]" "ssScore x1 = - 15" "ssScore x2 = 55" using s(2) by auto
  obtain i m where "i < Suc (Suc 0)" "caMain a = Some m" "msName m = saName ([s1, s2] ! i)"
    "\<forall>j<Suc (Suc 0). ssScore ([x1, x2] ! j) \<le> ssScore ([x1, x2] ! i)"
    using main_service_is_first_best[OF a] s(1) by (auto simp: s12(1) x12(1))
  moreover from this have "i = Suc 0" using x12 by (auto simp: less_Suc_eq)
  ultimately show ?thesis using a s12 by auto
qed

text \<open>A port written as a number, which Compose allows, stops the analysis.\<close>

lemma integer_port_stops_analysis:
  assumes "yaml_load txt = Inr (Some (JObj [(''services'', JObj [(name, JObj [(''ports'', JArr [JNum n])])])]))"
  shows "analyze_compose yaml_load txt source = Inl (TypeError ''port.split is not a function'')"
  by (simp add: analyze_compose_def parse_compose_def assms analyze_service_def build_dockerfile_def
      flat_map_items_def nullish_def port_item_def)

text \<open>A secret kept under a key that looks sensitive comes back as a reference to the secret of that name.\<close>

lemma imported_secret_is_renamed:
  "reimported ((sample_env_service ''api'' ''x'')\<lparr>esEnvironment :=
      Some [\<lparr>evKey = Some ''DB_PASSWORD'', evValue = None, evType = Some Secret_Value,
        evSecretKey = Some ''PG'', evVariable = None\<rparr>]\<rparr>)
   = (sample_env_service ''api'' ''x'')\<lparr>esEnvironment :=
      Some [\<lparr>evKey = Some ''DB_PASSWORD'', evValue = None, evType = Some Secret_Value,
        evSecretKey = Some ''DB_PASSWORD'', evVariable = None\<rparr>], esDependsOn := Some [], esCommand := None\<rparr>"
  by code_simp

end
