(* ===== verification/Env_Preflight.thy ===== *)
theory Env_Preflight
  imports Compose_Import
begin

text \<open>
  The preflight of an environment (\<open>environment-configs/environment-preflight.service.ts\<close>): the checks
  a configuration, a stored revision or raw YAML goes through before it is used, and its estimate of
  resources.  The stored revisions of the project are a parameter.
\<close>

datatype check_status = Check_Pass | Check_Warn | Check_Fail

record preflight_check =
  pcId :: string
  pcStatus :: check_status
  pcMessage :: string

datatype resource_tier = Low_Tier | Medium_Tier | High_Tier

record resource_estimation =
  reTier :: resource_tier
  reCount :: nat
  reNotes :: "string list"

record preflight_result =
  pfOk :: bool
  pfChecks :: "preflight_check list"
  pfSecurityErrors :: "string list"
  pfDependencyWarnings :: "string list"
  pfEstimation :: resource_estimation

record preflight_payload =
  ppVisual :: "env_config option"
  ppCompose :: "string option"
  ppBackendTest :: "string option"

definition check :: "string \<Rightarrow> check_status \<Rightarrow> string \<Rightarrow> preflight_check" where
  "check i st m = \<lparr>pcId = i, pcStatus = st, pcMessage = m\<rparr>"

section \<open>Ports\<close>

definition is_valid_port :: "string option \<Rightarrow> bool" where
  "is_valid_port v =
     (case (case v of None \<Rightarrow> NaN | Some s \<Rightarrow> string_number s) of
        Fin q \<Rightarrow> q = of_int \<lfloor>q\<rfloor> \<and> 0 < q \<and> q \<le> 65535
      | _ \<Rightarrow> False)"

fun port_issues :: "string \<Rightarrow> port_mapping list \<Rightarrow> string list \<Rightarrow> string list \<times> string list" where
  "port_issues name [] seen = ([], seen)"
| "port_issues name (p # ps) seen =
     (let key = shown (pmHost p) @ '':'' @ shown (pmContainer p);
          rest = port_issues name ps (key # seen) in
      ((if is_valid_port (pmHost p) \<and> is_valid_port (pmContainer p) then []
        else [''Service \"'' @ name @ ''\" has invalid port mapping '' @ key])
       @ (if key \<in> set seen then [''Duplicate port mapping '' @ key] else []) @ fst rest, snd rest))"

fun service_port_issues :: "env_service list \<Rightarrow> string list \<Rightarrow> string list" where
  "service_port_issues [] seen = []"
| "service_port_issues (s # ss) seen =
     (case port_issues (shown (esName s)) (case esPorts s of None \<Rightarrow> [] | Some ps \<Rightarrow> ps) seen of
        (issues, seen') \<Rightarrow> issues @ service_port_issues ss seen')"

definition validate_port_mappings :: "env_config \<Rightarrow> string list" where
  "validate_port_mappings c = service_port_issues (services_of c) []"

section \<open>The checks\<close>

definition pass_if :: "bool \<Rightarrow> check_status \<Rightarrow> check_status" where
  "pass_if b otherwise = (if b then Check_Pass else otherwise)"

text \<open>\<open>runVisualChecks\<close>: the checks and the dependency warnings it adds.\<close>

definition run_visual_checks ::
    "(json \<Rightarrow> string) \<Rightarrow> env_config \<Rightarrow> preflight_check list \<times> string list" where
  "run_visual_checks yaml_dump c =
     (case compile_env yaml_dump (Some c) of
        Inl e \<Rightarrow> ([check ''visual_validation'' Check_Fail (error_message e)], [])
      | Inr r \<Rightarrow>
          (let main = Option.bind (ecApp c) eaMainService; path = Option.bind (ecApp c) eaHealthPath;
               expected = Option.bind (ecApp c) eaExpectedStatus; count = length (services_of c);
               issues = validate_port_mappings c in
           ([check ''services_configured'' (pass_if (count > 0) Check_Fail)
               (if count > 0 then dec_nat count @ '' service(s) configured'' else ''At least one service is required''),
             check ''main_service_selected''
               (pass_if (list_ex (\<lambda>s. esName s = main) (services_of c)) Check_Fail)
               (''Main service: '' @ (if truthy_str main then the main else ''not selected'')),
             check ''healthcheck_configured''
               (pass_if (\<not> blank path \<and> (case expected of None \<Rightarrow> False | Some n \<Rightarrow> num_less (Fin 0) n)) Check_Fail)
               (''Healthcheck '' @ (if truthy_str path then the path else ''not configured'')),
             check ''port_mapping_valid'' (pass_if (issues = []) Check_Fail)
               (if issues = [] then ''Port mappings are valid'' else join_with ''; '' issues)]
            @ map (check ''dependency'' Check_Warn) (ccWarnings r), ccWarnings r)))"

definition backend_test_checks ::
    "(string \<Rightarrow> js_error + json option) \<Rightarrow> string \<Rightarrow> preflight_check list" where
  "backend_test_checks yaml_load txt =
     (case yaml_load txt of
        Inl e \<Rightarrow> [check ''backend_test_yaml'' Check_Fail (error_message e)]
      | Inr parsed \<Rightarrow>
          (let app = opt_prop parsed ''app''; service = opt_prop app ''service'';
               path = opt_prop (opt_prop app ''healthcheck'') ''path'' in
           [(case service of
               Some (JStr s) \<Rightarrow> check ''main_service_selected'' (pass_if (s \<noteq> []) Check_Warn) (''Main service: '' @ s)
             | _ \<Rightarrow> check ''main_service_selected'' Check_Warn ''Main service not found in backend-test YAML''),
            (case path of
               Some (JStr s) \<Rightarrow> check ''healthcheck_details'' Check_Pass (''Healthcheck path: '' @ s)
             | _ \<Rightarrow> check ''healthcheck_details'' Check_Warn ''Healthcheck path missing in backend-test YAML'')]))"

definition run_raw_yaml_checks ::
    "(string \<Rightarrow> js_error + json option) \<Rightarrow> string option \<Rightarrow> string option \<Rightarrow> preflight_check list" where
  "run_raw_yaml_checks yaml_load compose backend =
     [check ''services_configured'' (pass_if (\<not> blank compose) Check_Fail)
        (if blank compose then ''Compose YAML is required'' else ''Compose YAML provided''),
      check ''healthcheck_configured'' (pass_if (\<not> blank backend) Check_Fail)
        (if blank backend then ''Backend-test YAML is required'' else ''Backend-test YAML provided'')]
     @ (if blank backend then [] else backend_test_checks yaml_load (the backend))
     @ [check ''port_mapping_valid'' Check_Warn ''Port mapping validation is limited in raw YAML mode'']"

text \<open>The security checks of a Compose file: the checks and the security errors.\<close>

definition warning_check :: "security_warning \<Rightarrow> preflight_check" where
  "warning_check w = check (''security-'' @ swCode w)
     (case swSeverity w of Sev_Critical \<Rightarrow> Check_Fail | Sev_Warning \<Rightarrow> Check_Warn | Sev_Info \<Rightarrow> Check_Pass)
     (swMessage w)"

definition security_checks ::
    "(string \<Rightarrow> js_error + json option) \<Rightarrow> string option \<Rightarrow> js_error + preflight_check list \<times> string list" where
  "security_checks yaml_load compose =
     (if blank compose then Inr ([], [])
      else (let guard = (case validate_compose yaml_load (the compose) of
                Inr u \<Rightarrow> ([check ''security'' Check_Pass ''Compose security validation passed''], [])
              | Inl e \<Rightarrow> ([check ''security'' Check_Fail (error_message e)], [error_message e])) in
        sbind (analyze_compose yaml_load (the compose) ''PASTE'') (\<lambda>a.
        Inr (fst guard @ map warning_check (caWarnings a),
             snd guard @ map swMessage (filter (\<lambda>w. swSeverity w = Sev_Critical) (caWarnings a))))))"

section \<open>Resources\<close>

definition count_compose_services :: "(string \<Rightarrow> js_error + json option) \<Rightarrow> string option \<Rightarrow> js_error + nat" where
  "count_compose_services yaml_load compose =
     (if blank compose then Inr 0
      else (case yaml_load (the compose) of
          Inr (Some j) \<Rightarrow>
            if j = JNull then Inl (BadRequestException ''Invalid compose YAML'')
            else Inr (if nullish (json_get j ''services'') then 0
                      else length (object_entries (the (json_get j ''services''))))
        | _ \<Rightarrow> Inl (BadRequestException ''Invalid compose YAML'')))"

definition estimate_resources ::
    "(string \<Rightarrow> js_error + json option) \<Rightarrow> env_config option \<Rightarrow> string option \<Rightarrow> js_error + resource_estimation" where
  "estimate_resources yaml_load visual compose =
     sbind (case visual of Some c \<Rightarrow> Inr (length (services_of c)) | None \<Rightarrow> count_compose_services yaml_load compose)
       (\<lambda>count.
     let builds = (case visual of
            Some c \<Rightarrow> list_ex (\<lambda>s. \<not> blank (esBuildContext s)) (services_of c)
          | None \<Rightarrow> (case compose of None \<Rightarrow> False | Some txt \<Rightarrow> str_includes txt ''build:''));
         ports = (case visual of
            Some c \<Rightarrow> sum_list (map (\<lambda>s. case esPorts s of None \<Rightarrow> 0 | Some ps \<Rightarrow> length ps) (services_of c))
          | None \<Rightarrow> 0)
     in Inr \<lparr>reTier = (if count \<ge> 6 \<or> builds then High_Tier
                         else if count \<ge> 3 \<or> ports \<ge> 4 then Medium_Tier else Low_Tier),
             reCount = count,
             reNotes = [''Estimated from '' @ dec_nat count @ '' service(s)'',
               if builds then ''Build contexts increase startup time'' else ''No build contexts detected'']\<rparr>)"

section \<open>The preflight\<close>

definition resolve_payload ::
    "(string \<rightharpoonup> preflight_payload) \<Rightarrow> string option \<Rightarrow> preflight_payload \<Rightarrow> js_error + preflight_payload" where
  "resolve_payload revisions revision_id dto =
     (if truthy_str revision_id
      then (case revisions (the revision_id) of
          None \<Rightarrow> Inl (NotFoundException ''Environment config revision not found'')
        | Some p \<Rightarrow> Inr p)
      else Inr dto)"

definition run_preflight ::
    "(string \<Rightarrow> js_error + json option) \<Rightarrow> (json \<Rightarrow> string) \<Rightarrow> (string \<rightharpoonup> preflight_payload) \<Rightarrow> string option \<Rightarrow>
     preflight_payload \<Rightarrow> js_error + preflight_result" where
  "run_preflight yaml_load yaml_dump revisions revision_id dto =
     sbind (resolve_payload revisions revision_id dto) (\<lambda>p.
     sbind (case ppVisual p of
         Some c \<Rightarrow> sbind (compile_env yaml_dump (Some c)) (\<lambda>r.
           case run_visual_checks yaml_dump c of (checks, warnings) \<Rightarrow>
             Inr (checks, warnings @ ccWarnings r, Some (ccCompose r)))
       | None \<Rightarrow> Inr (run_raw_yaml_checks yaml_load (ppCompose p) (ppBackendTest p), [], ppCompose p))
       (\<lambda>(checks, warnings, compose).
     sbind (security_checks yaml_load compose) (\<lambda>(security, errors).
     sbind (estimate_resources yaml_load (ppVisual p) compose) (\<lambda>estimation.
     let all = checks @ security in
     Inr \<lparr>pfOk = (\<not> list_ex (\<lambda>c. pcStatus c = Check_Fail) all \<and> errors = []), pfChecks = all,
          pfSecurityErrors = errors, pfDependencyWarnings = warnings, pfEstimation = estimation\<rparr>))))"

text \<open>\<open>preflight\<close>: the project has to be the company's.\<close>

definition preflight ::
    "(string \<rightharpoonup> string) \<Rightarrow> (string \<Rightarrow> js_error + json option) \<Rightarrow> (json \<Rightarrow> string) \<Rightarrow> (string \<rightharpoonup> preflight_payload) \<Rightarrow>
     string \<Rightarrow> string \<Rightarrow> string option \<Rightarrow> preflight_payload \<Rightarrow> js_error + preflight_result" where
  "preflight projects yaml_load yaml_dump revisions pid company revision_id dto =
     (if projects pid = None then Inl (NotFoundException ''Project not found'')
      else if projects pid \<noteq> Some company then Inl (ForbiddenException ''Project belongs to another company'')
      else run_preflight yaml_load yaml_dump revisions revision_id dto)"

section \<open>Properties\<close>

text \<open>The Compose text the preflight is about.\<close>

definition checked_compose :: "(json \<Rightarrow> string) \<Rightarrow> preflight_payload \<Rightarrow> string option" where
  "checked_compose yaml_dump p =
     (case ppVisual p of Some c \<Rightarrow> Some (yaml_dump (to_compose_file c)) | None \<Rightarrow> ppCompose p)"

lemma compile_env_compose:
  "compile_env yaml_dump (Some c) = Inr r \<Longrightarrow> ccCompose r = yaml_dump (to_compose_file c)"
  by (rule compile_env_Inr(2))

lemma security_checks_clear:
  assumes "security_checks yaml_load compose = Inr (checks, [])" "\<not> blank compose"
  shows "validate_compose yaml_load (the compose) = Inr ()
    \<and> (\<exists>a. analyze_compose yaml_load (the compose) ''PASTE'' = Inr a
         \<and> list_all (\<lambda>w. swSeverity w \<noteq> Sev_Critical) (caWarnings a))"
  using assms by (auto simp: security_checks_def list_all_iff filter_empty_conv Let_def split: sum.splits)

lemma run_preflight_ok:
  assumes "run_preflight yaml_load yaml_dump revisions revision_id dto = Inr r" "pfOk r"
  shows "\<exists>p checks security. resolve_payload revisions revision_id dto = Inr p
    \<and> security_checks yaml_load (checked_compose yaml_dump p) = Inr (security, [])
    \<and> pfChecks r = checks @ security \<and> \<not> list_ex (\<lambda>c. pcStatus c = Check_Fail) checks
    \<and> (case ppVisual p of
         Some c \<Rightarrow> well_formed c \<and> checks = fst (run_visual_checks yaml_dump c)
       | None \<Rightarrow> checks = run_raw_yaml_checks yaml_load (ppCompose p) (ppBackendTest p))"
proof -
  obtain p where p: "resolve_payload revisions revision_id dto = Inr p"
    using assms(1) by (auto simp: run_preflight_def)
  show ?thesis
  proof (cases "ppVisual p")
    case None
    with assms p show ?thesis
      by (auto simp: run_preflight_def checked_compose_def Let_def)
  next
    case (Some c)
    obtain cr where cr: "compile_env yaml_dump (Some c) = Inr cr"
      using assms(1) p Some by (auto simp: run_preflight_def)
    from compile_env_Inr[OF cr] assms p Some cr show ?thesis
      by (auto simp: run_preflight_def checked_compose_def Let_def split: prod.splits)
  qed
qed

text \<open>
  C15: A preflight that says ok has looked at a Compose file which the runner's guardrail accepts and in
  which the analysis finds nothing critical; the configuration, if one was drawn, is well formed, its
  ports are valid and its health check expects a positive status; otherwise both YAML texts are there.
\<close>

theorem preflight_ok_is_safe:
  assumes "preflight projects yaml_load yaml_dump revisions pid company revision_id dto = Inr r" "pfOk r"
    and nonblank: "\<And>j. \<not> blank (Some (yaml_dump j))"
  shows "projects pid = Some company
    \<and> (\<exists>p txt a. resolve_payload revisions revision_id dto = Inr p \<and> checked_compose yaml_dump p = Some txt
      \<and> validate_compose yaml_load txt = Inr ()
      \<and> analyze_compose yaml_load txt ''PASTE'' = Inr a
      \<and> list_all (\<lambda>w. swSeverity w \<noteq> Sev_Critical) (caWarnings a)
      \<and> (case ppVisual p of
           Some c \<Rightarrow> well_formed c \<and> validate_port_mappings c = []
             \<and> (\<exists>n. Option.bind (ecApp c) eaExpectedStatus = Some n \<and> num_less (Fin 0) n)
         | None \<Rightarrow> \<not> blank (ppCompose p) \<and> \<not> blank (ppBackendTest p)))"
proof -
  have run: "run_preflight yaml_load yaml_dump revisions revision_id dto = Inr r" "projects pid = Some company"
    using assms(1) by (auto simp: preflight_def split: if_splits)
  obtain p checks security where p: "resolve_payload revisions revision_id dto = Inr p"
    and sec: "security_checks yaml_load (checked_compose yaml_dump p) = Inr (security, [])"
    and nofail: "\<not> list_ex (\<lambda>c. pcStatus c = Check_Fail) checks"
    and by_kind: "case ppVisual p of
         Some c \<Rightarrow> well_formed c \<and> checks = fst (run_visual_checks yaml_dump c)
       | None \<Rightarrow> checks = run_raw_yaml_checks yaml_load (ppCompose p) (ppBackendTest p)"
    using run_preflight_ok[OF run(1) assms(2)] by blast
  have shape: "case ppVisual p of
      Some c \<Rightarrow> well_formed c \<and> validate_port_mappings c = []
        \<and> (\<exists>n. Option.bind (ecApp c) eaExpectedStatus = Some n \<and> num_less (Fin 0) n)
    | None \<Rightarrow> \<not> blank (ppCompose p) \<and> \<not> blank (ppBackendTest p)"
  proof (cases "ppVisual p")
    case None
    with by_kind nofail show ?thesis
      by (auto simp: run_raw_yaml_checks_def pass_if_def check_def split: if_splits)
  next
    case (Some c)
    then have c: "well_formed c" "checks = fst (run_visual_checks yaml_dump c)" using by_kind by auto
    show ?thesis
    proof (cases "compile_env yaml_dump (Some c)")
      case (Inl e)
      with c(2) nofail show ?thesis by (simp add: run_visual_checks_def check_def)
    next
      case (Inr cr)
      with c nofail Some show ?thesis
        by (auto simp: run_visual_checks_def pass_if_def check_def Let_def split: if_splits option.splits)
    qed
  qed
  have "\<exists>txt. checked_compose yaml_dump p = Some txt \<and> \<not> blank (Some txt)"
    using shape nonblank by (cases "ppVisual p"; cases "ppCompose p") (auto simp: checked_compose_def)
  then obtain body where body: "checked_compose yaml_dump p = Some body" "\<not> blank (checked_compose yaml_dump p)"
    by auto
  from security_checks_clear[OF sec body(2)] show ?thesis
    using run(2) p body(1) shape by auto
qed

text \<open>
  A drawn configuration that is not well formed is compiled a second time outside the \<open>try\<close>: the
  preflight throws, and the failed check it has recorded is never returned.
\<close>

lemma preflight_throws_on_invalid_config:
  assumes "ppVisual dto = Some c" "\<not> well_formed c"
  shows "\<exists>e. run_preflight yaml_load yaml_dump revisions None dto = Inl e
    \<and> fst (run_visual_checks yaml_dump c) = [check ''visual_validation'' Check_Fail (error_message e)]"
proof -
  obtain e where "validate_env (Some c) = Inl e"
    using validate_env_iff[of c "()"] assms(2) by (cases "validate_env (Some c)") auto
  then show ?thesis
    using assms(1) by (simp add: run_preflight_def resolve_payload_def run_visual_checks_def compile_env_def)
qed

text \<open>Two services may claim the same host port: only equal pairs of ports count as duplicates.\<close>

definition one_port :: "string \<Rightarrow> string \<Rightarrow> env_service" where
  "one_port n port = (sample_env_service n ''x'')\<lparr>esPorts := Some [\<lparr>pmHost = Some ''80'', pmContainer = Some port\<rparr>]\<rparr>"

lemma sample_ports_valid:
  "is_valid_port (Some ''80'')" "is_valid_port (Some ''3000'')" "is_valid_port (Some ''4000'')"
  by (simp_all add: is_valid_port_def string_number_def decimal_part_def exponent_part_def digits_value_def
      trim_def is_ws_def is_digit_def Let_def)

lemma host_port_conflict_unnoticed:
  "validate_port_mappings (sample_env\<lparr>ecServices := Some [one_port ''a'' ''3000'', one_port ''b'' ''4000'']\<rparr>) = []"
  by (simp add: validate_port_mappings_def services_of_def one_port_def sample_env_service_def shown_def
      sample_ports_valid)


lemma compiled_security_checks:
  assumes "compile_env yaml_dump (Some c) = Inr r" "list_all plain_ports (services_of c)"
    and law: "\<And>j. yaml_load (yaml_dump j) = Inr (Some j)"
    and nonblank: "\<And>j. \<not> blank (Some (yaml_dump j))"
  shows "\<exists>security. security_checks yaml_load (Some (ccCompose r)) = Inr (security, [])
    \<and> \<not> list_ex (\<lambda>c. pcStatus c = Check_Fail) security"
proof -
  have "validate_compose yaml_load (ccCompose r) = Inr ()"
    by (rule compiled_compose_validates[OF assms(1) law])
  moreover obtain a where "analyze_compose yaml_load (ccCompose r) ''PASTE'' = Inr a"
    "list_all (\<lambda>w. swSeverity w \<noteq> Sev_Critical) (caWarnings a)"
    using compiled_analysis_run[OF assms(1,2) law] by blast
  moreover have "\<not> blank (Some (ccCompose r))"
    using compile_env_Inr(2)[OF assms(1)] nonblank by simp
  ultimately show ?thesis
    by (auto simp: security_checks_def Let_def list_all_iff list_ex_iff filter_empty_conv warning_check_def check_def
        split: severity.splits)
qed

lemma drawn_main_service:
  assumes "well_formed c"
  shows "list_ex (\<lambda>s. esName s = Option.bind (ecApp c) eaMainService) (services_of c)"
proof -
  obtain s where s: "s \<in> set (services_of c)" "Option.bind (ecApp c) eaMainService = Some (shown (esName s))"
    "\<not> blank (esName s)"
    using assms by (fastforce simp: well_formed_def names_of_def list_all_iff)
  then have "esName s = Some (shown (esName s))" by (cases "esName s") (auto simp: shown_def)
  with s show ?thesis unfolding list_ex_iff by metis
qed

lemma visual_checks_fail_iff:
  assumes "well_formed c" "compile_env yaml_dump (Some c) = Inr cr"
  shows "list_ex (\<lambda>c. pcStatus c = Check_Fail) (fst (run_visual_checks yaml_dump c)) \<longleftrightarrow>
      \<not> (validate_port_mappings c = []
         \<and> (case Option.bind (ecApp c) eaExpectedStatus of None \<Rightarrow> False | Some n \<Rightarrow> num_less (Fin 0) n))"
  using assms(1) drawn_main_service[OF assms(1)]
  by (simp add: run_visual_checks_def assms(2) check_def pass_if_def Let_def well_formed_def list_ex_iff)

lemma run_preflight_drawn:
  assumes "ppVisual dto = Some c" "compile_env yaml_dump (Some c) = Inr cr"
    and "security_checks yaml_load (Some (ccCompose cr)) = Inr (security, [])"
    and "\<not> list_ex (\<lambda>c. pcStatus c = Check_Fail) security"
  shows "\<exists>r. run_preflight yaml_load yaml_dump revisions None dto = Inr r
    \<and> (pfOk r \<longleftrightarrow> \<not> list_ex (\<lambda>c. pcStatus c = Check_Fail) (fst (run_visual_checks yaml_dump c)))"
  using assms by (cases "run_visual_checks yaml_dump c")
    (simp add: run_preflight_def resolve_payload_def estimate_resources_def Let_def)

text \<open>
  The preflight of a well-formed drawn configuration returns a result, and says ok exactly when its
  port mappings are valid and its health check expects a positive status.
\<close>

theorem drawn_preflight_verdict:
  assumes "ppVisual dto = Some c" "well_formed c" "ecRun c \<noteq> None" "list_all plain_ports (services_of c)"
    and law: "\<And>j. yaml_load (yaml_dump j) = Inr (Some j)"
    and nonblank: "\<And>j. \<not> blank (Some (yaml_dump j))"
  shows "\<exists>r. run_preflight yaml_load yaml_dump revisions None dto = Inr r
    \<and> (pfOk r \<longleftrightarrow> validate_port_mappings c = []
         \<and> (case Option.bind (ecApp c) eaExpectedStatus of None \<Rightarrow> False | Some n \<Rightarrow> num_less (Fin 0) n))"
proof -
  obtain cr where cr: "compile_env yaml_dump (Some c) = Inr cr" using compile_env_total[OF assms(2,3)] by blast
  obtain security where "security_checks yaml_load (Some (ccCompose cr)) = Inr (security, [])"
    "\<not> list_ex (\<lambda>c. pcStatus c = Check_Fail) security"
    using compiled_security_checks[OF cr assms(4) law nonblank] by blast
  from run_preflight_drawn[OF assms(1) cr this, of revisions] visual_checks_fail_iff[OF assms(2) cr]
  show ?thesis by auto
qed

definition marked_dump :: "json \<Rightarrow> string" where
  "marked_dump j = CHR ''y'' # unary_dump j"

definition marked_load :: "string \<Rightarrow> js_error + json option" where
  "marked_load s = unary_load (tl s)"

lemma marked_law: "marked_load (marked_dump j) = Inr (Some j)" "\<not> blank (Some (marked_dump j))"
  by (simp_all add: marked_load_def marked_dump_def unary_law trim_Nil_iff is_ws_def)

definition sample_payload :: preflight_payload where
  "sample_payload = \<lparr>ppVisual = Some (sample_env\<lparr>ecServices := Some [one_port ''api'' ''3000'']\<rparr>),
     ppCompose = None, ppBackendTest = None\<rparr>"

lemma sample_payload_config:
  "ppVisual sample_payload = Some (sample_env\<lparr>ecServices := Some [one_port ''api'' ''3000'']\<rparr>)"
  "well_formed (sample_env\<lparr>ecServices := Some [one_port ''api'' ''3000'']\<rparr>)"
  "ecRun (sample_env\<lparr>ecServices := Some [one_port ''api'' ''3000'']\<rparr>) \<noteq> None"
  "list_all plain_ports (services_of (sample_env\<lparr>ecServices := Some [one_port ''api'' ''3000'']\<rparr>))"
  by code_simp+

lemma sample_payload_ports:
  "validate_port_mappings (sample_env\<lparr>ecServices := Some [one_port ''api'' ''3000'']\<rparr>) = []"
  by (simp add: validate_port_mappings_def services_of_def one_port_def sample_env_service_def shown_def
      sample_ports_valid)

theorem drawn_preflight_verdict_witness:
  "\<exists>r. run_preflight marked_load marked_dump Map.empty None sample_payload = Inr r \<and> pfOk r"
  using drawn_preflight_verdict[OF sample_payload_config marked_law, of Map.empty] sample_payload_ports
  by (auto simp: sample_env_def)

theorem preflight_ok_is_safe_witness:
  "\<exists>r txt. preflight [''p1'' \<mapsto> ''c1''] marked_load marked_dump Map.empty ''p1'' ''c1'' None sample_payload = Inr r
    \<and> checked_compose marked_dump sample_payload = Some txt \<and> validate_compose marked_load txt = Inr ()"
proof -
  let ?c = "sample_env\<lparr>ecServices := Some [one_port ''api'' ''3000'']\<rparr>"
  obtain cr where cr: "compile_env marked_dump (Some ?c) = Inr cr"
    using compile_env_total[OF sample_payload_config(2,3)] by blast
  obtain security where "security_checks marked_load (Some (ccCompose cr)) = Inr (security, [])"
    "\<not> list_ex (\<lambda>c. pcStatus c = Check_Fail) security"
    using compiled_security_checks[OF cr sample_payload_config(4) marked_law] by blast
  from run_preflight_drawn[OF sample_payload_config(1) cr this, of Map.empty]
    visual_checks_fail_iff[OF sample_payload_config(2) cr] sample_payload_ports
  obtain r where r: "run_preflight marked_load marked_dump Map.empty None sample_payload = Inr r" "pfOk r"
    by (auto simp: sample_env_def)
  then have "preflight [''p1'' \<mapsto> ''c1''] marked_load marked_dump Map.empty ''p1'' ''c1'' None sample_payload = Inr r"
    by (simp add: preflight_def)
  from preflight_ok_is_safe[OF this r(2) marked_law(2)] this show ?thesis
    by (auto simp: resolve_payload_def)
qed

end
