(* ===== verification/Transactions.thy ===== *)
theory Transactions
  imports Async
begin

text \<open>
  Interactive database transactions (\<open>prisma.$transaction(async (tx) => ...)\<close>) at the isolation level
  READ COMMITTED.  A statement sees what others have committed, with the transaction's own writes on top;
  the own writes are a patch of the store that fails when it violates a unique constraint.  They reach
  the store at the commit, all or none.
\<close>

type_synonym 's patch = "'s \<Rightarrow> js_error + 's"
type_synonym ('s, 'a) tx = "'s patch \<Rightarrow> 's world \<Rightarrow> (js_error + 'a \<times> 's patch) \<times> 's world"

text \<open>Prisma's errors for a violated unique constraint and for a row that is gone.\<close>

definition p2002 :: js_error where
  "p2002 = PlainError ''Unique constraint failed''"

definition p2025 :: js_error where
  "p2025 = PlainError ''An operation failed because it depends on one or more records that were required but not found''"

definition tx_return :: "'a \<Rightarrow> ('s, 'a) tx" where
  "tx_return a own w = (Inr (a, own), w)"

definition tx_lift :: "js_error + 'a \<Rightarrow> ('s, 'a) tx" where
  "tx_lift r own w = (sbind r (\<lambda>a. Inr (a, own)), w)"

definition tx_bind :: "('s, 'a) tx \<Rightarrow> ('a \<Rightarrow> ('s, 'b) tx) \<Rightarrow> ('s, 'b) tx" where
  "tx_bind m f own w = (case m own w of (Inl e, w') \<Rightarrow> (Inl e, w') | (Inr (a, own'), w') \<Rightarrow> f a own' w')"

definition tx_statement :: "('s \<Rightarrow> js_error + 'a \<times> 's patch) \<Rightarrow> ('s, 'a) tx" where
  "tx_statement f own =
     io_call (\<lambda>s. (sbind (own s) (\<lambda>seen. sbind (f seen) (\<lambda>(a, patch).
        Inr (a, \<lambda>s. sbind (own s) patch))), s))"

definition tx_read :: "('s \<Rightarrow> 'a) \<Rightarrow> ('s, 'a) tx" where
  "tx_read g = tx_statement (\<lambda>s. Inr (g s, Inr))"

definition transaction :: "('s, 'a) tx \<Rightarrow> ('s, 'a) io" where
  "transaction m w =
     (case m Inr w of
        (Inl e, w') \<Rightarrow> (Inl e, w')
      | (Inr (a, own), w') \<Rightarrow>
          io_call (\<lambda>s. case own s of Inl e \<Rightarrow> (Inl e, s) | Inr s' \<Rightarrow> (Inr a, s')) w')"

text \<open>
  Alone, a transaction is a function of the store it finds: \<open>tx_eval\<close> runs its statements on a private
  copy, and the copy replaces the store at the end.
\<close>

definition tx_quiet :: "('s, 'a) tx \<Rightarrow> ('s \<Rightarrow> js_error + 'a \<times> 's) \<Rightarrow> bool" where
  "tx_quiet m f =
     (\<forall>own s s0. own s0 = Inr s \<longrightarrow>
        (case f s of
           Inl e \<Rightarrow> m own (quiet s0) = (Inl e, quiet s0)
         | Inr (a, s') \<Rightarrow> \<exists>own'. m own (quiet s0) = (Inr (a, own'), quiet s0) \<and> own' s0 = Inr s'))"

lemma tx_quiet_return: "tx_quiet (tx_return a) (\<lambda>s. Inr (a, s))"
  by (simp add: tx_quiet_def tx_return_def)

lemma tx_quiet_lift: "tx_quiet (tx_lift r) (\<lambda>s. sbind r (\<lambda>a. Inr (a, s)))"
  by (cases r) (simp_all add: tx_quiet_def tx_lift_def)

lemma tx_quiet_statement:
  assumes "\<And>s a patch. f s = Inr (a, patch) \<Longrightarrow> \<exists>s'. patch s = Inr s'"
  shows "tx_quiet (tx_statement f) (\<lambda>s. sbind (f s) (\<lambda>(a, patch). sbind (patch s) (\<lambda>s'. Inr (a, s'))))"
  unfolding tx_quiet_def
proof (intro allI impI)
  fix own :: "'a patch" and s s0 assume own: "own s0 = Inr s"
  show "case sbind (f s) (\<lambda>(a, patch). sbind (patch s) (\<lambda>s'. Inr (a, s'))) of
      Inl e \<Rightarrow> tx_statement f own (quiet s0) = (Inl e, quiet s0)
    | Inr (a, s') \<Rightarrow> \<exists>own'. tx_statement f own (quiet s0) = (Inr (a, own'), quiet s0) \<and> own' s0 = Inr s'"
  proof (cases "f s")
    case (Inl e)
    then show ?thesis by (simp add: tx_statement_def io_call_quiet own)
  next
    case (Inr r)
    obtain a patch where r: "r = (a, patch)" by force
    obtain s' where "patch s = Inr s'" using assms[of s a patch] Inr r by blast
    then show ?thesis by (simp add: tx_statement_def io_call_quiet own Inr r)
  qed
qed

lemma tx_quiet_read: "tx_quiet (tx_read g) (\<lambda>s. Inr (g s, s))"
  using tx_quiet_statement[of "\<lambda>s. Inr (g s, Inr)"] by (simp add: tx_read_def)

lemma tx_quiet_bind:
  assumes "tx_quiet m f" "\<And>a. tx_quiet (k a) (g a)"
  shows "tx_quiet (tx_bind m k) (\<lambda>s. sbind (f s) (\<lambda>(a, s'). g a s'))"
  unfolding tx_quiet_def
proof (intro allI impI)
  fix own :: "'a patch" and s s0 assume own: "own s0 = Inr s"
  show "case sbind (f s) (\<lambda>(a, s'). g a s') of
      Inl e \<Rightarrow> tx_bind m k own (quiet s0) = (Inl e, quiet s0)
    | Inr (a, s') \<Rightarrow> \<exists>own'. tx_bind m k own (quiet s0) = (Inr (a, own'), quiet s0) \<and> own' s0 = Inr s'"
  proof (cases "f s")
    case (Inl e)
    have "m own (quiet s0) = (Inl e, quiet s0)"
      using assms(1)[unfolded tx_quiet_def, rule_format, of own s0 s] own by (simp add: Inl)
    then show ?thesis by (simp add: Inl tx_bind_def)
  next
    case (Inr r)
    obtain a s1 where r: "r = (a, s1)" by force
    then obtain own1 where 1: "m own (quiet s0) = (Inr (a, own1), quiet s0)" "own1 s0 = Inr s1"
      using assms(1) own Inr unfolding tx_quiet_def by fastforce
    have "case g a s1 of Inl e \<Rightarrow> k a own1 (quiet s0) = (Inl e, quiet s0)
      | Inr (b, s') \<Rightarrow> \<exists>own'. k a own1 (quiet s0) = (Inr (b, own'), quiet s0) \<and> own' s0 = Inr s'"
      using assms(2)[of a] 1(2) by (simp add: tx_quiet_def)
    then show ?thesis by (cases "g a s1") (auto simp: Inr r tx_bind_def 1(1))
  qed
qed

lemma transaction_quiet:
  assumes "tx_quiet m f"
  shows "transaction m (quiet s)
    = (case f s of Inl e \<Rightarrow> (Inl e, quiet s) | Inr (a, s') \<Rightarrow> (Inr a, quiet s'))"
proof -
  have "case f s of Inl e \<Rightarrow> m Inr (quiet s) = (Inl e, quiet s)
    | Inr (a, s') \<Rightarrow> \<exists>own'. m Inr (quiet s) = (Inr (a, own'), quiet s) \<and> own' s = Inr s'"
    using assms by (simp add: tx_quiet_def)
  then show ?thesis
    by (cases "f s") (auto simp: transaction_def io_call_quiet)
qed

section \<open>Rely and guarantee\<close>

text \<open>A transaction keeps a step relation when every patch it builds does.\<close>

definition patch_upholds :: "('s \<Rightarrow> 's \<Rightarrow> bool) \<Rightarrow> 's patch \<Rightarrow> bool" where
  "patch_upholds R p = (\<forall>s t. p s = Inr t \<longrightarrow> R s t)"

definition tx_upholds :: "('s \<Rightarrow> 's \<Rightarrow> bool) \<Rightarrow> ('s, 'a) tx \<Rightarrow> bool" where
  "tx_upholds R m =
     (\<forall>own. patch_upholds R own \<longrightarrow> upholds R (m own)
        \<and> (\<forall>w a own'. fst (m own w) = Inr (a, own') \<longrightarrow> patch_upholds R own'))"

context step_relation
begin

lemma tx_upholds_return: "tx_upholds R (tx_return a)"
  by (auto simp: tx_upholds_def tx_return_def upholds_def step_refl)

lemma tx_upholds_lift: "tx_upholds R (tx_lift r)"
  by (cases r) (auto simp: tx_upholds_def tx_lift_def upholds_def step_refl)

lemma tx_upholds_bind:
  assumes "tx_upholds R m" "\<And>a. tx_upholds R (k a)"
  shows "tx_upholds R (tx_bind m k)"
  unfolding tx_upholds_def
proof (intro allI impI conjI)
  fix own assume own: "patch_upholds R own"
  note m = assms(1)[unfolded tx_upholds_def, rule_format, OF own]
  have patch: "patch_upholds R own1" if "m own w = (Inr (a, own1), w1)" for w w1 a own1
    using m that by (metis fst_conv)
  show "upholds R (tx_bind m k own)"
    unfolding upholds_def
  proof (intro allI impI)
    fix w :: "'s world" assume w: "rely R (pending w)"
    obtain q w1 where q: "m own w = (q, w1)" by force
    have 1: "R (store w) (store w1)" "rely R (pending w1)"
      using upholds_run[OF conjunct1[OF m] w q] .
    show "R (store w) (store (snd (tx_bind m k own w))) \<and> rely R (pending (snd (tx_bind m k own w)))"
    proof (cases q)
      case (Inl e)
      with q 1 show ?thesis by (simp add: tx_bind_def)
    next
      case (Inr p)
      obtain a own1 where p: "p = (a, own1)" by force
      have "upholds R (k a own1)"
        using assms(2)[of a] patch q Inr p by (auto simp: tx_upholds_def)
      with 1 have "R (store w1) (store (snd (k a own1 w1)))" "rely R (pending (snd (k a own1 w1)))"
        by (simp_all add: upholds_def)
      with 1 q Inr p show ?thesis by (auto simp: tx_bind_def intro: step_trans)
    qed
  qed
  fix w a own' assume "fst (tx_bind m k own w) = Inr (a, own')"
  then obtain b own1 w1 where "m own w = (Inr (b, own1), w1)" "fst (k b own1 w1) = Inr (a, own')"
    by (auto simp: tx_bind_def split: prod.splits sum.splits)
  with assms(2)[of b, unfolded tx_upholds_def] patch show "patch_upholds R own'" by blast
qed

lemma tx_upholds_statement:
  assumes "\<And>s a p. f s = Inr (a, p) \<Longrightarrow> patch_upholds R p"
  shows "tx_upholds R (tx_statement f)"
  unfolding tx_upholds_def
proof (intro allI impI conjI)
  fix own assume own: "patch_upholds R own"
  show "upholds R (tx_statement f own)"
    unfolding tx_statement_def by (rule upholds_call) (simp add: step_refl)
  have step: "patch_upholds R (\<lambda>s. sbind (own s) p)" if "f s = Inr (a, p)" for s a p
    using own assms[OF that] step_trans unfolding patch_upholds_def sbind_Inr_iff by blast
  fix w a own' assume "fst (tx_statement f own w) = Inr (a, own')"
  then obtain s p where "f s = Inr (a, p)" "own' = (\<lambda>s. sbind (own s) p)"
    by (auto simp: tx_statement_def io_call_def Let_def sbind_Inr_iff split: list.splits prod.splits outcome.splits)
  with step show "patch_upholds R own'" by simp
qed

lemma tx_upholds_read: "tx_upholds R (tx_read g)"
  unfolding tx_read_def by (rule tx_upholds_statement) (auto simp: patch_upholds_def step_refl)

lemma upholds_transaction:
  assumes "tx_upholds R m"
  shows "upholds R (transaction m)"
  unfolding upholds_def
proof (intro allI impI)
  fix w :: "'s world" assume w: "rely R (pending w)"
  have inr: "patch_upholds R Inr" by (simp add: patch_upholds_def step_refl)
  note m = assms[unfolded tx_upholds_def, rule_format, OF inr]
  obtain q w1 where q: "m Inr w = (q, w1)" by force
  have 1: "R (store w) (store w1)" "rely R (pending w1)"
    using upholds_run[OF conjunct1[OF m] w q] .
  show "R (store w) (store (snd (transaction m w))) \<and> rely R (pending (snd (transaction m w)))"
  proof (cases q)
    case (Inl e)
    with q 1 show ?thesis by (simp add: transaction_def)
  next
    case (Inr p)
    obtain a own where p: "p = (a, own)" by force
    have own: "patch_upholds R own" using m q Inr p by (metis fst_conv)
    let ?c = "io_call (\<lambda>s. case own s of Inl e \<Rightarrow> (Inl e, s) | Inr s' \<Rightarrow> (Inr a, s'))"
    have "upholds R ?c"
      by (rule upholds_call) (use own in \<open>auto simp: patch_upholds_def step_refl split: sum.splits\<close>)
    with 1(2) have "R (store w1) (store (snd (?c w1)))" "rely R (pending (snd (?c w1)))"
      by (simp_all add: upholds_def)
    with 1 q Inr p show ?thesis by (auto simp: transaction_def intro: step_trans)
  qed
qed

lemmas tx_upholds_rules =
  tx_upholds_return tx_upholds_lift tx_upholds_bind tx_upholds_statement tx_upholds_read

end

text \<open>
  A transaction that first reads: \<open>tx_reads R pre m post\<close> says that \<open>m\<close>, begun before any own write, writes
  nothing and ends with \<open>post\<close> true of its result and of the store.
\<close>

definition tx_reads ::
    "('s \<Rightarrow> 's \<Rightarrow> bool) \<Rightarrow> ('s \<Rightarrow> bool) \<Rightarrow> ('s, 'a) tx \<Rightarrow> ('a \<Rightarrow> 's \<Rightarrow> bool) \<Rightarrow> bool" where
  "tx_reads R pre m post =
     (\<forall>w. rely R (pending w) \<and> pre (store w) \<longrightarrow>
        R (store w) (store (snd (m Inr w))) \<and> rely R (pending (snd (m Inr w)))
        \<and> (\<forall>a own. fst (m Inr w) = Inr (a, own) \<longrightarrow> own = Inr \<and> post a (store (snd (m Inr w)))))"

context step_relation
begin

lemma tx_reads_read: "tx_reads R pre (tx_read g) (\<lambda>a s. a = g s)"
proof -
  have own: "(\<lambda>s. sbind (Inr s) Inr) = (Inr :: 's patch)" by (rule ext) simp
  have "upholds R (tx_read g Inr)"
    using tx_upholds_read[of g] by (simp add: tx_upholds_def patch_upholds_def step_refl)
  moreover have "own = Inr \<and> a = g (store (snd (tx_read g Inr w)))"
    if "fst (tx_read g Inr w) = Inr (a, own)" for w a own
    using that
    by (auto simp: tx_read_def tx_statement_def io_call_def Let_def own split: list.splits outcome.splits)
  ultimately show ?thesis by (simp add: tx_reads_def upholds_def)
qed

lemma tx_reads_lift: "(\<And>s a. pre s \<Longrightarrow> r = Inr a \<Longrightarrow> post a s) \<Longrightarrow> tx_reads R pre (tx_lift r) post"
  by (cases r) (auto simp: tx_reads_def tx_lift_def step_refl)

lemma tx_reads_return: "(\<And>s. pre s \<Longrightarrow> post a s) \<Longrightarrow> tx_reads R pre (tx_return a) post"
  by (auto simp: tx_reads_def tx_return_def step_refl)

lemma tx_reads_weaken:
  "tx_reads R pre m post \<Longrightarrow> (\<And>s. pre' s \<Longrightarrow> pre s) \<Longrightarrow> (\<And>a s. post a s \<Longrightarrow> post' a s) \<Longrightarrow> tx_reads R pre' m post'"
  unfolding tx_reads_def by blast

lemma tx_reads_bind:
  assumes "tx_reads R pre m mid" "\<And>a. tx_reads R (mid a) (k a) post"
  shows "tx_reads R pre (tx_bind m k) post"
  unfolding tx_reads_def
proof (intro allI impI, elim conjE)
  fix w :: "'s world" assume w: "rely R (pending w)" "pre (store w)"
  obtain q w1 where q: "m Inr w = (q, w1)" by force
  note 1 = assms(1)[unfolded tx_reads_def, rule_format, of w, unfolded q, simplified, OF conjI[OF w]]
  show "R (store w) (store (snd (tx_bind m k Inr w))) \<and> rely R (pending (snd (tx_bind m k Inr w)))
      \<and> (\<forall>a own. fst (tx_bind m k Inr w) = Inr (a, own) \<longrightarrow> own = Inr \<and> post a (store (snd (tx_bind m k Inr w))))"
  proof (cases q)
    case (Inl e)
    with q 1 show ?thesis by (simp add: tx_bind_def)
  next
    case (Inr p)
    obtain a own where p: "p = (a, own)" by force
    with 1 Inr have own: "own = Inr" "mid a (store w1)" "rely R (pending w1)" "R (store w) (store w1)" by auto
    have "tx_bind m k Inr w = k a Inr w1" by (simp add: tx_bind_def q Inr p own)
    then show ?thesis
      using assms(2)[of a, unfolded tx_reads_def, rule_format, of w1] own step_trans by metis
  qed
qed

text \<open>What was read is still true at the commit when no step of the others can make it false.\<close>

lemma upholds_read_then_write:
  assumes "tx_reads R (\<lambda>_. True) m post"
    and stable: "\<And>a s t. post a s \<Longrightarrow> R s t \<Longrightarrow> post a t"
    and upd: "\<And>a x s. post a s \<Longrightarrow> R s (f a x s)"
  shows "upholds R (transaction (tx_bind m (\<lambda>a. tx_statement (\<lambda>s. Inr ((), \<lambda>t. Inr (f a (c s) t))))))"
    (is "upholds R (transaction (tx_bind m ?k))")
  unfolding upholds_def
proof (intro allI impI)
  fix w :: "'s world" assume w: "rely R (pending w)"
  obtain q w1 where q: "m Inr w = (q, w1)" by force
  have 1: "R (store w) (store w1)" "rely R (pending w1)" "\<And>a own. q = Inr (a, own) \<Longrightarrow> own = Inr \<and> post a (store w1)"
    using assms(1)[unfolded tx_reads_def, rule_format, of w] w by (auto simp: q)
  show "R (store w) (store (snd (transaction (tx_bind m ?k) w))) \<and> rely R (pending (snd (transaction (tx_bind m ?k) w)))"
  proof (cases q)
    case (Inl e)
    with q 1 show ?thesis by (simp add: transaction_def tx_bind_def)
  next
    case (Inr p)
    obtain a own where p: "p = (a, own)" by force
    have a: "own = Inr" "post a (store w1)" using 1(3) Inr p by auto
    have "upholds R (?k a Inr)" unfolding tx_statement_def by (rule upholds_call) (simp add: step_refl)
    obtain q2 w2 where q2: "?k a Inr w1 = (q2, w2)" by force
    have 2: "R (store w1) (store w2)" "rely R (pending w2)"
      using upholds_run[OF \<open>upholds R (?k a Inr)\<close> 1(2) q2] .
    have bind: "tx_bind m ?k Inr w = (q2, w2)" by (simp add: tx_bind_def q Inr p a(1) q2)
    show ?thesis
    proof (cases q2)
      case (Inl e)
      with bind 1 2 step_trans show ?thesis by (auto simp: transaction_def)
    next
      case (Inr p2)
      then obtain x where p2: "p2 = ((), \<lambda>t. Inr (f a x t))"
        using q2 by (auto simp: tx_statement_def io_call_def Let_def fun_eq_iff split: list.splits outcome.splits)
      let ?commit = "\<lambda>s. (Inr (), f a x s)"
      have run: "transaction (tx_bind m ?k) w = io_call ?commit w2"
        by (simp add: transaction_def bind Inr p2)
      have here: "post a (store w2)" using stable a(2) 2(1) by blast
      have "R (store w2) (store (snd (io_call ?commit w2))) \<and> rely R (pending (snd (io_call ?commit w2)))"
      proof (cases "pending w2")
        case Nil
        then show ?thesis using upd[OF here] by (simp add: io_call_def)
      next
        case (Cons e es)
        have o: "R (store w2) (others e (store w2))" using 2(2) Cons by simp
        have "R (store w2) (f a x (others e (store w2)))"
          using step_trans[OF o upd[OF stable[OF here o]]] .
        with o 2(2) Cons show ?thesis by (cases "reply e") (simp_all add: io_call_def Let_def)
      qed
      with 1 2 step_trans show ?thesis unfolding run by metis
    qed
  qed
qed

end

end
