(* ===== verification/Env_Revisions.thy ===== *)
theory Env_Revisions
  imports Compose_Import Transactions
begin

text \<open>
  The stored environment configurations and their revisions
  (\<open>environment-configs/environment-configs.service.ts\<close>): drafts written in retried transactions,
  publication, comparison.  Ids come from the database (\<open>new_id\<close>).
\<close>

section \<open>Tables\<close>

record env_revision =
  rvId :: string
  rvConfig :: string
  rvNumber :: nat
  rvPublished :: bool
  rvSourceMode :: string
  rvVisual :: "env_config option"
  rvCompose :: string
  rvRuntime :: string
  rvCreatedBy :: string
  rvPublishedBy :: "string option"
  rvPublishedAt :: "int option"

record config_row =
  cgId :: string
  cgProject :: string
  cgExternal :: bool

record revision_store =
  vsNow :: int
  vsProjects :: "string \<rightharpoonup> string"
  vsConfigs :: "config_row list"
  vsRevisions :: "env_revision list"

record upsert_dto =
  udExternal :: bool
  udVisual :: "env_config option"
  udCompose :: "string option"
  udBackendTest :: "string option"
  udBaseRevision :: "string option"

definition insert_config :: "config_row \<Rightarrow> revision_store patch" where
  "insert_config row s =
     (if list_ex (\<lambda>c. cgProject c = cgProject row) (vsConfigs s) then Inl p2002
      else Inr (s\<lparr>vsConfigs := vsConfigs s @ [row]\<rparr>))"

definition insert_revision :: "env_revision \<Rightarrow> revision_store patch" where
  "insert_revision row s =
     (if list_ex (\<lambda>r. rvConfig r = rvConfig row \<and> rvNumber r = rvNumber row) (vsRevisions s)
      then Inl p2002
      else Inr (s\<lparr>vsRevisions := vsRevisions s @ [row]\<rparr>))"

definition update_revisions :: "(env_revision \<Rightarrow> bool) \<Rightarrow> (env_revision \<Rightarrow> env_revision) \<Rightarrow> revision_store \<Rightarrow> revision_store" where
  "update_revisions P f s = s\<lparr>vsRevisions := map (\<lambda>r. if P r then f r else r) (vsRevisions s)\<rparr>"

definition revisions_of :: "string \<Rightarrow> revision_store \<Rightarrow> env_revision list" where
  "revisions_of cid s = filter (\<lambda>r. rvConfig r = cid) (vsRevisions s)"

text \<open>\<open>orderBy: { revisionNumber: 'desc' }\<close>\<close>

definition newest_first :: "env_revision list \<Rightarrow> env_revision list" where
  "newest_first rs = sort_by (\<lambda>l r. descending (int (rvNumber l)) (int (rvNumber r))) rs"

definition find_config :: "string \<Rightarrow> revision_store \<Rightarrow> config_row option" where
  "find_config pid s = find (\<lambda>c. cgProject c = pid) (vsConfigs s)"

definition max_number :: "env_revision list \<Rightarrow> nat" where
  "max_number rs = foldr (\<lambda>r n. max (rvNumber r) n) rs 0"

section \<open>Writing a draft\<close>

definition to_revision_data ::
    "(json \<Rightarrow> string) \<Rightarrow> upsert_dto \<Rightarrow> js_error + string \<times> string \<times> string \<times> env_config option" where
  "to_revision_data yaml_dump dto =
     (case udVisual dto of
        Some c \<Rightarrow> sbind (compile_env yaml_dump (Some c)) (\<lambda>r.
          Inr (''VISUAL'', ccCompose r, ccBackendTest r, Some c))
      | None \<Rightarrow>
          if udExternal dto
          then (if blank (udBackendTest dto) then Inl (BadRequestException ''backend-test YAML is required'')
                else Inr (''EXTERNAL_URL'', [], the (udBackendTest dto), None))
          else if blank (udCompose dto) \<or> blank (udBackendTest dto)
          then Inl (BadRequestException ''Docker Compose YAML and backend-test YAML are required'')
          else Inr (''RAW_YAML'', the (udCompose dto), the (udBackendTest dto), None))"

definition draft_row ::
    "string \<Rightarrow> string \<Rightarrow> nat \<Rightarrow> string \<Rightarrow> string \<times> string \<times> string \<times> env_config option \<Rightarrow> env_revision" where
  "draft_row ident cid n user data =
     (case data of (mode, compose, runtime, visual) \<Rightarrow>
       \<lparr>rvId = ident, rvConfig = cid, rvNumber = n, rvPublished = False, rvSourceMode = mode, rvVisual = visual,
        rvCompose = compose, rvRuntime = runtime, rvCreatedBy = user, rvPublishedBy = None,
        rvPublishedAt = None\<rparr>)"

definition create_revision ::
    "(revision_store \<Rightarrow> string) \<Rightarrow> (json \<Rightarrow> string) \<Rightarrow> string \<Rightarrow> string \<Rightarrow> upsert_dto \<Rightarrow> (revision_store, env_revision) tx" where
  "create_revision new_id yaml_dump cid user dto =
     tx_bind (tx_read (\<lambda>s. max_number (revisions_of cid s))) (\<lambda>latest.
     tx_bind (tx_lift (to_revision_data yaml_dump dto)) (\<lambda>data.
     tx_statement (\<lambda>s. let row = draft_row (new_id s) cid (latest + 1) user data in
       sbind (insert_revision row s) (\<lambda>_. Inr (row, insert_revision row)))))"

definition write_draft_revision :: "(revision_store, 'a) tx \<Rightarrow> (revision_store, 'a) io" where
  "write_draft_revision callback =
     io_catch (transaction callback)
       (\<lambda>e. if e = p2002 then transaction callback else io_throw e)"

definition get_project :: "string \<Rightarrow> string \<Rightarrow> (revision_store, unit) io" where
  "get_project pid company =
     io_bind (io_read (\<lambda>s. vsProjects s pid)) (\<lambda>found. case found of
       None \<Rightarrow> io_throw (NotFoundException ''Project not found'')
     | Some c \<Rightarrow> if c \<noteq> company then io_throw (ForbiddenException ''Project belongs to another company'')
         else io_return ())"

text \<open>\<open>toResponse\<close>: the row with its current and its published revision.\<close>

definition normalize_revision :: "env_revision \<Rightarrow> env_revision" where
  "normalize_revision r = r\<lparr>rvSourceMode := (if rvSourceMode r = ''YAML'' then ''RAW_YAML'' else rvSourceMode r)\<rparr>"

record env_response =
  epConfig :: config_row
  epCurrent :: env_revision
  epPublished :: "env_revision option"

definition to_response :: "config_row \<Rightarrow> env_revision list \<Rightarrow> js_error + env_response" where
  "to_response c revisions =
     (case revisions of
        [] \<Rightarrow> Inl (NotFoundException ''Environment config revision not found'')
      | current # _ \<Rightarrow> Inr \<lparr>epConfig = c, epCurrent = normalize_revision current,
          epPublished = (case newest_first (filter rvPublished revisions) of
             [] \<Rightarrow> None | p # _ \<Rightarrow> Some (normalize_revision p))\<rparr>)"

definition find_response :: "string \<Rightarrow> string \<Rightarrow> (revision_store, env_response) io" where
  "find_response pid company =
     io_then (get_project pid company)
     (io_bind (io_read (\<lambda>s. map_option (\<lambda>c. (c, newest_first (revisions_of (cgId c) s))) (find_config pid s)))
       (\<lambda>found. case found of
          None \<Rightarrow> io_throw (NotFoundException ''Environment config not found'')
        | Some (c, revisions) \<Rightarrow> io_lift (to_response c revisions)))"

definition create_config ::
    "(revision_store \<Rightarrow> string) \<Rightarrow> (json \<Rightarrow> string) \<Rightarrow> string \<Rightarrow> string \<Rightarrow> string \<Rightarrow> upsert_dto \<Rightarrow>
     (revision_store, env_response) io" where
  "create_config new_id yaml_dump pid company user dto =
     io_then (get_project pid company)
     (io_then (write_draft_revision
        (tx_bind (tx_statement (\<lambda>s. let row = \<lparr>cgId = new_id s, cgProject = pid, cgExternal = udExternal dto\<rparr> in
            sbind (insert_config row s) (\<lambda>_. Inr (row, insert_config row)))) (\<lambda>c.
         create_revision new_id yaml_dump (cgId c) user dto)))
      (find_response pid company))"

text \<open>The \<open>upsert\<close> and the check of the revision the client edited.\<close>

definition upsert_config :: "(revision_store \<Rightarrow> string) \<Rightarrow> string \<Rightarrow> bool \<Rightarrow> (revision_store, config_row) tx" where
  "upsert_config new_id pid external =
     tx_statement (\<lambda>s. case find_config pid s of
       None \<Rightarrow> (let row = \<lparr>cgId = new_id s, cgProject = pid, cgExternal = external\<rparr> in
         sbind (insert_config row s) (\<lambda>_. Inr (row, insert_config row)))
     | Some c \<Rightarrow> Inr (c\<lparr>cgExternal := external\<rparr>, \<lambda>s. Inr (s\<lparr>vsConfigs :=
         map (\<lambda>c. if cgProject c = pid then c\<lparr>cgExternal := external\<rparr> else c) (vsConfigs s)\<rparr>)))"

definition stale_base :: "string option \<Rightarrow> env_revision list \<Rightarrow> bool" where
  "stale_base base revisions =
     (truthy_str base \<and> (case newest_first revisions of [] \<Rightarrow> False | r # _ \<Rightarrow> Some (rvId r) \<noteq> base))"

definition update_draft ::
    "(revision_store \<Rightarrow> string) \<Rightarrow> (json \<Rightarrow> string) \<Rightarrow> string \<Rightarrow> string \<Rightarrow> upsert_dto \<Rightarrow> (revision_store, env_revision) tx" where
  "update_draft new_id yaml_dump pid user dto =
     tx_bind (tx_read (\<lambda>s. map_option (\<lambda>c. revisions_of (cgId c) s) (find_config pid s))) (\<lambda>existing.
     tx_bind (tx_lift (case existing of
         Some rs \<Rightarrow> if stale_base (udBaseRevision dto) rs
           then Inl (ConflictException ''Environment config was updated elsewhere'') else Inr ()
       | None \<Rightarrow> Inr ())) (\<lambda>_.
     tx_bind (upsert_config new_id pid (udExternal dto)) (\<lambda>c.
     create_revision new_id yaml_dump (cgId c) user dto)))"

definition update_config ::
    "(revision_store \<Rightarrow> string) \<Rightarrow> (json \<Rightarrow> string) \<Rightarrow> string \<Rightarrow> string \<Rightarrow> string \<Rightarrow> upsert_dto \<Rightarrow>
     (revision_store, env_response) io" where
  "update_config new_id yaml_dump pid company user dto =
     io_then (get_project pid company)
     (io_then (write_draft_revision (update_draft new_id yaml_dump pid user dto))
      (find_response pid company))"

section \<open>Reading and publishing\<close>

definition get_config_for_project :: "string \<Rightarrow> string \<Rightarrow> (revision_store, config_row) io" where
  "get_config_for_project pid company =
     io_then (get_project pid company)
     (io_bind (io_read (find_config pid)) (\<lambda>found. case found of
        None \<Rightarrow> io_throw (NotFoundException ''Environment config not found'')
      | Some c \<Rightarrow> io_return c))"

definition compile_for_project ::
    "(json \<Rightarrow> string) \<Rightarrow> string \<Rightarrow> string \<Rightarrow> env_config \<Rightarrow> (revision_store, env_compile_result) io" where
  "compile_for_project yaml_dump pid company c =
     io_then (get_project pid company) (io_lift (compile_env yaml_dump (Some c)))"

definition import_compose ::
    "(string \<Rightarrow> js_error + json option) \<Rightarrow> string \<Rightarrow> string \<Rightarrow> string \<Rightarrow> bool \<Rightarrow>
     (revision_store, compose_import) io" where
  "import_compose yaml_load pid company body upload =
     io_then (get_project pid company) (io_lift (convert_compose yaml_load body upload))"

definition list_revisions :: "string \<Rightarrow> string \<Rightarrow> (revision_store, env_revision list) io" where
  "list_revisions pid company =
     io_bind (get_config_for_project pid company) (\<lambda>c.
     io_bind (io_read (\<lambda>s. newest_first (revisions_of (cgId c) s))) (\<lambda>rs.
     io_return (map normalize_revision rs)))"

definition find_revision :: "config_row \<Rightarrow> string \<Rightarrow> (revision_store, env_revision) io" where
  "find_revision c rid =
     io_bind (io_read (\<lambda>s. find (\<lambda>r. rvId r = rid) (revisions_of (cgId c) s))) (\<lambda>found. case found of
       None \<Rightarrow> io_throw (NotFoundException ''Environment config revision not found'')
     | Some r \<Rightarrow> io_return r)"

definition get_revision :: "string \<Rightarrow> string \<Rightarrow> string \<Rightarrow> (revision_store, env_revision) io" where
  "get_revision pid company rid =
     io_bind (get_config_for_project pid company) (\<lambda>c.
     io_bind (find_revision c rid) (\<lambda>r. io_return (normalize_revision r)))"

text \<open>
  \<open>updateMany\<close> in a transaction: the rows are chosen on what the statement sees; a row that another
  transaction has changed by the commit is matched again.
\<close>

definition tx_update_many ::
    "(env_revision \<Rightarrow> bool) \<Rightarrow> (env_revision \<Rightarrow> env_revision) \<Rightarrow> (revision_store, nat) tx" where
  "tx_update_many P f =
     tx_statement (\<lambda>s. let ids = map rvId (filter P (vsRevisions s)) in
       Inr (length ids, \<lambda>s. Inr (update_revisions (\<lambda>r. rvId r \<in> set ids \<and> P r) f s)))"

definition publish_tx :: "string \<Rightarrow> string \<Rightarrow> string \<Rightarrow> int \<Rightarrow> (revision_store, unit) tx" where
  "publish_tx cid rid user now =
     tx_bind (tx_update_many (\<lambda>r. rvConfig r = cid \<and> rvPublished r \<and> rvId r \<noteq> rid)
        (\<lambda>r. r\<lparr>rvPublished := False, rvPublishedAt := None, rvPublishedBy := None\<rparr>)) (\<lambda>_.
     tx_bind (tx_update_many (\<lambda>r. rvId r = rid \<and> \<not> rvPublished r)
        (\<lambda>r. r\<lparr>rvPublished := True, rvPublishedBy := Some user, rvPublishedAt := Some now\<rparr>)) (\<lambda>count.
     tx_lift (if count = 0
       then Inl (ConflictException ''Environment config revision is already published'') else Inr ())))"

definition publish_revision ::
    "string \<Rightarrow> string \<Rightarrow> string \<Rightarrow> string \<Rightarrow> (revision_store, env_response) io" where
  "publish_revision pid company user rid =
     io_bind (get_config_for_project pid company) (\<lambda>c.
     io_bind (find_revision c rid) (\<lambda>r.
     if rvPublished r
     then io_throw (ConflictException ''Environment config revision is already published'')
     else io_bind (io_peek vsNow) (\<lambda>now.
       io_then (transaction (publish_tx (cgId c) (rvId r) user now)) (find_response pid company))))"

text \<open>Lines are compared by position.\<close>

definition line_at :: "string list \<Rightarrow> nat \<Rightarrow> string option" where
  "line_at ls i = (if i < length ls then Some (ls ! i) else None)"

definition diff_lines :: "string \<Rightarrow> string \<Rightarrow> (nat \<times> string option \<times> string option) list" where
  "diff_lines old new =
     (let a = split_char (CHR 0x0A) old; b = split_char (CHR 0x0A) new in
      filter (\<lambda>(_, x, y). x \<noteq> y)
        (map (\<lambda>i. (i + 1, line_at a i, line_at b i)) [0..<max (length a) (length b)]))"

definition compare_revisions ::
    "string \<Rightarrow> string \<Rightarrow> string \<Rightarrow> string \<Rightarrow>
     (revision_store, env_revision \<times> env_revision \<times> (nat \<times> string option \<times> string option) list
        \<times> (nat \<times> string option \<times> string option) list) io" where
  "compare_revisions pid company from_id to_id =
     (if from_id = [] \<or> to_id = []
      then io_throw (BadRequestException ''Both from and to revision IDs are required'')
      else io_bind (get_config_for_project pid company) (\<lambda>c.
       io_bind (io_read (\<lambda>s. filter (\<lambda>r. rvId r \<in> {from_id, to_id}) (revisions_of (cgId c) s))) (\<lambda>rs.
       case (find (\<lambda>r. rvId r = from_id) rs, find (\<lambda>r. rvId r = to_id) rs) of
         (Some a, Some b) \<Rightarrow> io_return (normalize_revision a, normalize_revision b,
            diff_lines (rvCompose a) (rvCompose b), diff_lines (rvRuntime a) (rvRuntime b))
       | _ \<Rightarrow> io_throw (NotFoundException ''Environment config revision not found''))))"

section \<open>Properties\<close>

lemma max_number_ge: "r \<in> set rs \<Longrightarrow> rvNumber r \<le> max_number rs"
  by (induction rs) (auto simp: max_number_def)

lemma draft_row_sel:
  "rvId (draft_row i cid n user data) = i" "rvConfig (draft_row i cid n user data) = cid"
  "rvNumber (draft_row i cid n user data) = n" "\<not> rvPublished (draft_row i cid n user data)"
  by (cases data; simp add: draft_row_def)+

lemma insert_next_revision:
  assumes "rvNumber row = max_number (revisions_of (rvConfig row) s) + 1"
  shows "insert_revision row s = Inr (s\<lparr>vsRevisions := vsRevisions s @ [row]\<rparr>)"
proof -
  have "rvNumber r \<noteq> rvNumber row" if "r \<in> set (vsRevisions s)" "rvConfig r = rvConfig row" for r
    using max_number_ge[of r "revisions_of (rvConfig row) s"] that assms by (auto simp: revisions_of_def)
  then show ?thesis by (auto simp: insert_revision_def list_ex_iff)
qed

lemma validate_env_services_error:
  "validate_env_services seen ss = Inl e \<Longrightarrow> e \<noteq> PlainError m \<and> e \<noteq> ConflictException m"
  by (induction seen ss rule: validate_env_services.induct) (auto split: if_splits)

lemma validate_env_error: "validate_env c = Inl e \<Longrightarrow> e \<noteq> PlainError m \<and> e \<noteq> ConflictException m"
  by (cases c) (auto simp: validate_env_def sbind_Inl_iff dest: validate_env_services_error
    split: option.splits if_splits)

lemma to_revision_data_error:
  assumes "to_revision_data yaml_dump dto = Inl e"
  shows "e \<noteq> PlainError m \<and> e \<noteq> ConflictException m"
proof -
  have "compile_env yaml_dump c = Inl e \<Longrightarrow> e \<noteq> PlainError m \<and> e \<noteq> ConflictException m" for c
    using validate_env_error[of c e m]
    by (auto simp: compile_env_def sbind_Inl_iff to_backend_test_file_def split: option.splits prod.splits)
  with assms show ?thesis
    by (auto simp: to_revision_data_def sbind_Inl_iff split: option.splits if_splits)
qed

text \<open>Alone, the two transactions are these functions of the tables.\<close>

definition with_draft ::
    "(revision_store \<Rightarrow> string) \<Rightarrow> (json \<Rightarrow> string) \<Rightarrow> string \<Rightarrow> string \<Rightarrow> upsert_dto \<Rightarrow> revision_store \<Rightarrow>
     js_error + env_revision \<times> revision_store" where
  "with_draft new_id yaml_dump cid user dto s =
     sbind (to_revision_data yaml_dump dto) (\<lambda>data.
       let row = draft_row (new_id s) cid (max_number (revisions_of cid s) + 1) user data in
       Inr (row, s\<lparr>vsRevisions := vsRevisions s @ [row]\<rparr>))"

lemma quiet_create_revision:
  "tx_quiet (create_revision new_id yaml_dump cid user dto) (with_draft new_id yaml_dump cid user dto)"
proof -
  let ?row = "\<lambda>s n data. draft_row (new_id s) cid (n + 1) user data"
  let ?insert = "\<lambda>n data s. sbind (insert_revision (?row s n data) s)
    (\<lambda>_. Inr (?row s n data, insert_revision (?row s n data)))"
  have "tx_quiet (tx_statement (?insert n data))
      (\<lambda>s. sbind (?insert n data s) (\<lambda>(a, patch). sbind (patch s) (\<lambda>s'. Inr (a, s'))))" for n data
    by (rule tx_quiet_statement) auto
  then have "tx_quiet (create_revision new_id yaml_dump cid user dto)
    (\<lambda>s. sbind (Inr (max_number (revisions_of cid s), s)) (\<lambda>(n, s).
      sbind (sbind (to_revision_data yaml_dump dto) (\<lambda>data. Inr (data, s))) (\<lambda>(data, s).
      sbind (?insert n data s) (\<lambda>(a, patch). sbind (patch s) (\<lambda>s'. Inr (a, s'))))))"
    unfolding create_revision_def Let_def
    by (intro tx_quiet_bind tx_quiet_read tx_quiet_lift)
  moreover have "(\<lambda>s. sbind (Inr (max_number (revisions_of cid s), s)) (\<lambda>(n, s).
      sbind (sbind (to_revision_data yaml_dump dto) (\<lambda>data. Inr (data, s))) (\<lambda>(data, s).
      sbind (?insert n data s) (\<lambda>(a, patch). sbind (patch s) (\<lambda>s'. Inr (a, s'))))))
    = with_draft new_id yaml_dump cid user dto"
    by (rule ext; cases "to_revision_data yaml_dump dto")
      (simp_all add: with_draft_def insert_next_revision draft_row_sel Let_def)
  ultimately show ?thesis by simp
qed

definition set_type :: "string \<Rightarrow> bool \<Rightarrow> revision_store \<Rightarrow> revision_store" where
  "set_type pid external s = s\<lparr>vsConfigs :=
     map (\<lambda>c. if cgProject c = pid then c\<lparr>cgExternal := external\<rparr> else c) (vsConfigs s)\<rparr>"

lemma write_draft_quiet:
  assumes "find_config pid s = Some c"
  shows "write_draft_revision (update_draft new_id yaml_dump pid user dto) (quiet s)
    = (if stale_base (udBaseRevision dto) (revisions_of (cgId c) s)
       then (Inl (ConflictException ''Environment config was updated elsewhere''), quiet s)
       else (case with_draft new_id yaml_dump (cgId c) user dto (set_type pid (udExternal dto) s) of
           Inl e \<Rightarrow> (Inl e, quiet s) | Inr (a, s') \<Rightarrow> (Inr a, quiet s')))"
proof -
  let ?upsert = "\<lambda>s. case find_config pid s of
       None \<Rightarrow> (let row = \<lparr>cgId = new_id s, cgProject = pid, cgExternal = udExternal dto\<rparr> in
         sbind (insert_config row s) (\<lambda>_. Inr (row, insert_config row)))
     | Some c \<Rightarrow> Inr (c\<lparr>cgExternal := udExternal dto\<rparr>, \<lambda>s. Inr (set_type pid (udExternal dto) s))"
  have up: "tx_quiet (upsert_config new_id pid (udExternal dto))
      (\<lambda>s. sbind (?upsert s) (\<lambda>(a, patch). sbind (patch s) (\<lambda>s'. Inr (a, s'))))"
    unfolding upsert_config_def set_type_def
    by (rule tx_quiet_statement) (auto simp: Let_def split: option.splits)
  have "tx_quiet (update_draft new_id yaml_dump pid user dto)
    (\<lambda>s. sbind (Inr (map_option (\<lambda>c. revisions_of (cgId c) s) (find_config pid s), s)) (\<lambda>(existing, s).
      sbind (sbind (case existing of
         Some rs \<Rightarrow> if stale_base (udBaseRevision dto) rs
           then Inl (ConflictException ''Environment config was updated elsewhere'') else Inr ()
       | None \<Rightarrow> Inr ()) (\<lambda>u. Inr (u, s))) (\<lambda>(_, s).
      sbind (sbind (?upsert s) (\<lambda>(a, patch). sbind (patch s) (\<lambda>s'. Inr (a, s')))) (\<lambda>(c, s).
      with_draft new_id yaml_dump (cgId c) user dto s))))"
    unfolding update_draft_def
    by (intro tx_quiet_bind tx_quiet_read tx_quiet_lift up quiet_create_revision)
  note run = transaction_quiet[OF this, of s]
  have err: "e \<noteq> p2002" if "to_revision_data yaml_dump dto = Inl e" for e
    using to_revision_data_error[OF that] by (simp add: p2002_def)
  show ?thesis
    unfolding write_draft_revision_def io_catch_def run
    using err by (cases "to_revision_data yaml_dump dto")
      (auto simp: assms with_draft_def Let_def p2002_def io_throw_def)
qed


lemma newest_first_max:
  assumes "new \<in> set rs" "\<And>r. r \<in> set rs \<Longrightarrow> r \<noteq> new \<Longrightarrow> rvNumber r < rvNumber new"
  shows "\<exists>rest. newest_first rs = new # rest"
proof (cases "newest_first rs")
  case Nil
  then have "rs = []" by (metis newest_first_def length_0_conv length_sort_by)
  with assms(1) show ?thesis by simp
next
  case (Cons b rest)
  obtain i where i: "i < length rs" "rs ! i = b" "\<forall>j<length rs. rvNumber (rs ! j) \<le> rvNumber b"
    using down.sort_by_first[OF Cons[unfolded newest_first_def]] by (auto simp: descending_def)
  obtain j where "j < length rs" "rs ! j = new" using assms(1) by (auto simp: in_set_conv_nth)
  with i assms(2)[of b] have "b = new" by (metis leD nth_mem)
  with Cons show ?thesis by simp
qed

lemma get_project_quiet:
  "vsProjects s pid = Some company \<Longrightarrow> get_project pid company (quiet s) = (Inr (), quiet s)"
  by (simp add: get_project_def io_bind_def run_simps)

lemma find_response_quiet:
  assumes "vsProjects s pid = Some company" "find_config pid s = Some c"
  shows "find_response pid company (quiet s)
    = (to_response c (newest_first (revisions_of (cgId c) s)), quiet s)"
  using assms by (simp add: find_response_def io_then_def io_bind_def get_project_quiet run_simps)

lemma find_config_set_type:
  "find_config pid s = Some c \<Longrightarrow> find_config pid (set_type pid external s) = Some (c\<lparr>cgExternal := external\<rparr>)"
proof -
  have "find (\<lambda>c. cgProject c = pid) cs = Some c \<Longrightarrow>
      find (\<lambda>c. cgProject c = pid) (map (\<lambda>c. if cgProject c = pid then c\<lparr>cgExternal := external\<rparr> else c) cs)
        = Some (c\<lparr>cgExternal := external\<rparr>)" for cs
    by (induction cs) (auto split: if_splits)
  then show "find_config pid s = Some c \<Longrightarrow> find_config pid (set_type pid external s) = Some (c\<lparr>cgExternal := external\<rparr>)"
    by (simp add: find_config_def set_type_def)
qed

text \<open>
  An update of a stored configuration that nobody interferes with is all or nothing.  It is refused
  with a conflict exactly when the client names a base that is not the newest revision; any refusal leaves
  the tables alone.  Otherwise one draft is added with the next number, which is then the current
  revision, and every older revision, the published one too, stays as it is.
\<close>

theorem update_adds_one_draft:
  assumes "vsProjects s pid = Some company" "find_config pid s = Some c"
  shows "case update_config new_id yaml_dump pid company user dto (quiet s) of
      (Inl e, w) \<Rightarrow> store w = s
        \<and> (stale_base (udBaseRevision dto) (revisions_of (cgId c) s) \<longleftrightarrow>
            e = ConflictException ''Environment config was updated elsewhere'')
    | (Inr res, w) \<Rightarrow> \<not> stale_base (udBaseRevision dto) (revisions_of (cgId c) s)
        \<and> (\<exists>new. vsRevisions (store w) = vsRevisions s @ [new]
            \<and> rvConfig new = cgId c \<and> rvNumber new = max_number (revisions_of (cgId c) s) + 1
            \<and> \<not> rvPublished new \<and> epCurrent res = normalize_revision new)"
proof -
  have run: "update_config new_id yaml_dump pid company user dto (quiet s) =
      io_then (write_draft_revision (update_draft new_id yaml_dump pid user dto)) (find_response pid company) (quiet s)"
    by (simp add: update_config_def io_then_def io_bind_def get_project_quiet[OF assms(1)])
  show ?thesis
  proof (cases "stale_base (udBaseRevision dto) (revisions_of (cgId c) s)")
    case True
    then show ?thesis by (simp add: run io_then_def io_bind_def write_draft_quiet[OF assms(2)])
  next
    case False
    let ?s = "set_type pid (udExternal dto) s"
    have same: "revisions_of (cgId c) ?s = revisions_of (cgId c) s" "vsRevisions ?s = vsRevisions s"
      "vsProjects ?s = vsProjects s"
      by (simp_all add: revisions_of_def set_type_def)
    show ?thesis
    proof (cases "to_revision_data yaml_dump dto")
      case (Inl e)
      have "e \<noteq> ConflictException m" for m
        using to_revision_data_error[OF Inl] by blast
      with False Inl show ?thesis
        by (simp add: run io_then_def io_bind_def write_draft_quiet[OF assms(2)] with_draft_def)
    next
      case (Inr data)
      define new where "new = draft_row (new_id ?s) (cgId c) (max_number (revisions_of (cgId c) s) + 1) user data"
      let ?s' = "?s\<lparr>vsRevisions := vsRevisions s @ [new]\<rparr>"
      have draft: "with_draft new_id yaml_dump (cgId c) user dto ?s = Inr (new, ?s')"
        by (simp add: with_draft_def Inr Let_def new_def same)
      have revs: "revisions_of (cgId c) ?s' = revisions_of (cgId c) s @ [new]"
        by (simp add: revisions_of_def new_def draft_row_sel)
      have "rvNumber r < rvNumber new" if "r \<in> set (revisions_of (cgId c) s)" for r
        using max_number_ge[OF that] by (simp add: new_def draft_row_sel)
      then obtain rest where top: "newest_first (revisions_of (cgId c) ?s') = new # rest"
        using newest_first_max[of new "revisions_of (cgId c) ?s'"] by (auto simp: revs)
      have cfg: "find_config pid ?s' = Some (c\<lparr>cgExternal := udExternal dto\<rparr>)"
        using find_config_set_type[OF assms(2), of "udExternal dto"] by (simp add: find_config_def)
      have proj: "vsProjects ?s' pid = Some company" using assms(1) same by simp
      show ?thesis
        using False find_response_quiet[OF proj cfg] top
        by (simp add: run io_then_def io_bind_def write_draft_quiet[OF assms(2)] draft to_response_def)
          (simp add: new_def draft_row_sel)
    qed
  qed
qed


lemma quiet_update_many:
  "tx_quiet (tx_update_many P f) (\<lambda>s. Inr (length (filter P (vsRevisions s)), update_revisions P f s))"
proof -
  let ?ids = "\<lambda>s. map rvId (filter P (vsRevisions s))"
  have "tx_quiet (tx_update_many P f)
    (\<lambda>s. sbind (Inr (length (?ids s), \<lambda>s'. Inr (update_revisions (\<lambda>r. rvId r \<in> set (?ids s) \<and> P r) f s')))
      (\<lambda>(a, patch). sbind (patch s) (\<lambda>s'. Inr (a, s'))))"
    unfolding tx_update_many_def Let_def by (rule tx_quiet_statement) auto
  moreover have "update_revisions (\<lambda>r. rvId r \<in> set (?ids s) \<and> P r) f s = update_revisions P f s" for s
    by (simp add: update_revisions_def)
  ultimately show ?thesis by simp
qed

definition published :: "string \<Rightarrow> string \<Rightarrow> string \<Rightarrow> int \<Rightarrow> revision_store \<Rightarrow> revision_store" where
  "published cid rid user now s =
     update_revisions (\<lambda>r. rvId r = rid \<and> \<not> rvPublished r)
       (\<lambda>r. r\<lparr>rvPublished := True, rvPublishedBy := Some user, rvPublishedAt := Some now\<rparr>)
       (update_revisions (\<lambda>r. rvConfig r = cid \<and> rvPublished r \<and> rvId r \<noteq> rid)
         (\<lambda>r. r\<lparr>rvPublished := False, rvPublishedAt := None, rvPublishedBy := None\<rparr>) s)"

lemma quiet_publish_tx:
  assumes "r \<in> set (vsRevisions s)" "rvId r = rid" "\<not> rvPublished r"
  shows "transaction (publish_tx cid rid user now) (quiet s) = (Inr (), quiet (published cid rid user now s))"
proof -
  let ?P = "\<lambda>r. rvConfig r = cid \<and> rvPublished r \<and> rvId r \<noteq> rid"
  let ?drop = "\<lambda>r. r\<lparr>rvPublished := False, rvPublishedAt := None, rvPublishedBy := None\<rparr>"
  let ?Q = "\<lambda>r. rvId r = rid \<and> \<not> rvPublished r"
  let ?put = "\<lambda>r. r\<lparr>rvPublished := True, rvPublishedBy := Some user, rvPublishedAt := Some now\<rparr>"
  have "tx_quiet (publish_tx cid rid user now)
    (\<lambda>s. sbind (Inr (length (filter ?P (vsRevisions s)), update_revisions ?P ?drop s)) (\<lambda>(_, s).
      sbind (Inr (length (filter ?Q (vsRevisions s)), update_revisions ?Q ?put s)) (\<lambda>(count, s).
      sbind (if count = 0 then Inl (ConflictException ''Environment config revision is already published'')
        else Inr ()) (\<lambda>u. Inr (u, s)))))"
    unfolding publish_tx_def by (intro tx_quiet_bind quiet_update_many tx_quiet_lift)
  note run = transaction_quiet[OF this, of s]
  have "r \<in> set (filter ?Q (vsRevisions (update_revisions ?P ?drop s)))"
    using assms by (force simp: update_revisions_def)
  from length_pos_if_in_set[OF this]
  have nonzero: "length (filter ?Q (vsRevisions (update_revisions ?P ?drop s))) \<noteq> 0" by (rule gr_implies_not0)
  show ?thesis
    unfolding run published_def by (simp only: sbind.simps prod.case sum.case nonzero if_False)
qed

lemma published_row:
  assumes "r \<in> set (vsRevisions (published cid rid user now s))"
  shows "\<exists>r0\<in>set (vsRevisions s). rvId r = rvId r0 \<and> rvConfig r = rvConfig r0
    \<and> (rvPublished r \<longleftrightarrow> rvId r0 = rid \<or> rvPublished r0 \<and> rvConfig r0 \<noteq> cid)
    \<and> (rvConfig r0 \<noteq> cid \<and> rvId r0 \<noteq> rid \<longrightarrow> r = r0)"
proof -
  obtain r0 where r0: "r0 \<in> set (vsRevisions s)"
    and r: "r = (let r1 = (if rvConfig r0 = cid \<and> rvPublished r0 \<and> rvId r0 \<noteq> rid
          then r0\<lparr>rvPublished := False, rvPublishedAt := None, rvPublishedBy := None\<rparr> else r0) in
        if rvId r1 = rid \<and> \<not> rvPublished r1
        then r1\<lparr>rvPublished := True, rvPublishedBy := Some user, rvPublishedAt := Some now\<rparr> else r1)"
    using assms unfolding published_def update_revisions_def Let_def by auto
  have "rvId r = rvId r0 \<and> rvConfig r = rvConfig r0
    \<and> (rvPublished r \<longleftrightarrow> rvId r0 = rid \<or> rvPublished r0 \<and> rvConfig r0 \<noteq> cid)
    \<and> (rvConfig r0 \<noteq> cid \<and> rvId r0 \<noteq> rid \<longrightarrow> r = r0)"
    by (cases "rvConfig r0 = cid"; cases "rvPublished r0"; cases "rvId r0 = rid") (simp_all add: r)
  with r0 show ?thesis by blast
qed

lemma published_ids: "map rvId (vsRevisions (published cid rid user now s)) = map rvId (vsRevisions s)"
  by (simp add: published_def update_revisions_def)

text \<open>
  C17: Publication, when nobody interferes, leaves one published revision: if it succeeds, the revision
  that was asked for is published and no other one of the configuration is; the response names it, no
  revision has come or gone, and those of other configurations are untouched.  If it fails, nothing has
  changed.
\<close>

theorem publication_is_exclusive:
  assumes "vsProjects s pid = Some company" "find_config pid s = Some c" "distinct (map rvId (vsRevisions s))"
  shows "case publish_revision pid company user rid (quiet s) of
      (Inl e, w) \<Rightarrow> store w = s
    | (Inr res, w) \<Rightarrow>
        list_all (\<lambda>r. rvConfig r = cgId c \<longrightarrow> (rvPublished r \<longleftrightarrow> rvId r = rid)) (vsRevisions (store w))
        \<and> map_option rvId (epPublished res) = Some rid
        \<and> map rvId (vsRevisions (store w)) = map rvId (vsRevisions s)
        \<and> list_all (\<lambda>r. rvConfig r \<noteq> cgId c \<longrightarrow> r \<in> set (vsRevisions s)) (vsRevisions (store w))"
proof (cases "find (\<lambda>r. rvId r = rid) (revisions_of (cgId c) s)")
  case None
  then show ?thesis
    by (simp add: publish_revision_def get_config_for_project_def find_revision_def io_then_def io_bind_def
        get_project_quiet[OF assms(1)] run_simps assms(2))
next
  case (Some r)
  then have r: "r \<in> set (vsRevisions s)" "rvId r = rid" "rvConfig r = cgId c"
    by (auto simp: find_Some_iff revisions_of_def dest: nth_mem)
  show ?thesis
  proof (cases "rvPublished r")
    case True
    with Some show ?thesis
      by (simp add: publish_revision_def get_config_for_project_def find_revision_def io_then_def io_bind_def
          get_project_quiet[OF assms(1)] run_simps assms(2))
  next
    case False
    let ?s = "published (cgId c) rid user (vsNow s) s"
    have same: "vsProjects ?s pid = Some company" "find_config pid ?s = Some c"
      using assms(1,2) by (simp_all add: published_def update_revisions_def find_config_def)
    have only: "r1 = r" if "r1 \<in> set (vsRevisions s)" "rvId r1 = rid" for r1
      using assms(3) r that by (metis distinct_map inj_on_def)
    have flags: "rvConfig r1 = cgId c \<Longrightarrow> (rvPublished r1 \<longleftrightarrow> rvId r1 = rid)"
      "rvConfig r1 \<noteq> cgId c \<Longrightarrow> r1 \<in> set (vsRevisions s)" if "r1 \<in> set (vsRevisions ?s)" for r1
      using published_row[OF that] only r(3) by metis+
    obtain r' where r': "r' \<in> set (vsRevisions ?s)" "rvId r' = rid"
      using r(1,2) published_ids[of "cgId c" rid user "vsNow s" s] by (metis image_eqI list.set_map imageE)
    have cfg: "rvConfig r' = cgId c" using published_row[OF r'(1)] only r(3) r'(2) by metis
    let ?rs = "newest_first (revisions_of (cgId c) ?s)"
    let ?pub = "newest_first (filter rvPublished ?rs)"
    have "r' \<in> set ?pub"
      using r' cfg flags(1)[OF r'(1)] by (simp add: newest_first_def revisions_of_def)
    then obtain p rest where p: "?pub = p # rest" by (cases ?pub) auto
    then have "p \<in> set ?pub" by simp
    then have "rvId p = rid" using flags(1)[of p] by (auto simp: newest_first_def revisions_of_def)
    moreover have "?rs \<noteq> []"
      using \<open>r' \<in> set ?pub\<close> by (metis filter.simps(1) newest_first_def set_sort_by list.set(1) empty_iff)
    ultimately have "\<exists>res. to_response c ?rs = Inr res \<and> map_option rvId (epPublished res) = Some rid"
      using p by (cases ?rs) (auto simp: to_response_def normalize_revision_def)
    then obtain res where res: "to_response c ?rs = Inr res" "map_option rvId (epPublished res) = Some rid"
      by blast
    have "publish_revision pid company user rid (quiet s) = (Inr res, quiet ?s)"
      using False Some res(1) quiet_publish_tx[OF r(1,2) False, of "cgId c" user "vsNow s"] r(2)
      by (simp add: publish_revision_def get_config_for_project_def find_revision_def io_then_def io_bind_def
          get_project_quiet[OF assms(1)] run_simps assms(2) find_response_quiet[OF same])
    then show ?thesis
      using res(2) flags published_ids by (simp add: list_all_iff)
  qed
qed

section \<open>Against other clients\<close>

definition stored_revision :: "string \<Rightarrow> nat \<Rightarrow> bool \<Rightarrow> env_revision" where
  "stored_revision i n pub = \<lparr>rvId = i, rvConfig = ''e1'', rvNumber = n, rvPublished = pub, rvSourceMode = ''RAW_YAML'',
     rvVisual = None, rvCompose = ''a'', rvRuntime = ''b'', rvCreatedBy = ''u1'', rvPublishedBy = None,
     rvPublishedAt = None\<rparr>"

definition stored :: "env_revision list \<Rightarrow> revision_store" where
  "stored rs = \<lparr>vsNow = 5, vsProjects = [''p1'' \<mapsto> ''c1''],
     vsConfigs = [\<lparr>cgId = ''e1'', cgProject = ''p1'', cgExternal = False\<rparr>], vsRevisions = rs\<rparr>"

definition edit_of :: "string \<Rightarrow> string \<Rightarrow> upsert_dto" where
  "edit_of base compose = \<lparr>udExternal = False, udVisual = None, udCompose = Some compose, udBackendTest = Some ''b'',
     udBaseRevision = Some base\<rparr>"

definition numbered :: "revision_store \<Rightarrow> string" where
  "numbered s = CHR ''r'' # dec_nat (length (vsRevisions s) + 1)"

definition edit :: "string \<Rightarrow> (revision_store, env_response) io" where
  "edit compose = update_config numbered (\<lambda>_. []) ''p1'' ''c1'' ''u1'' (edit_of ''r1'' compose)"

lemma edit_quiet:
  assumes "find_config ''p1'' s = Some c" "vsProjects s ''p1'' = Some ''c1''"
    and "\<not> stale_base (Some ''r1'') (revisions_of (cgId c) s)" "\<not> blank (Some compose)"
  shows "store (snd (edit compose (quiet s))) = (set_type ''p1'' False s)\<lparr>vsRevisions := vsRevisions s @
     [draft_row (numbered (set_type ''p1'' False s)) (cgId c) (max_number (revisions_of (cgId c) s) + 1) ''u1''
        (''RAW_YAML'', compose, ''b'', None)]\<rparr>"
proof -
  let ?s = "set_type ''p1'' False s"
  have b: "\<not> blank (Some ''b'')" by (simp add: trim_Nil_iff is_ws_def)
  have "write_draft_revision (update_draft numbered (\<lambda>_. []) ''p1'' ''u1'' (edit_of ''r1'' compose)) (quiet s)
      = (Inr (draft_row (numbered ?s) (cgId c) (max_number (revisions_of (cgId c) s) + 1) ''u1''
          (''RAW_YAML'', compose, ''b'', None)),
         quiet (?s\<lparr>vsRevisions := vsRevisions s @ [draft_row (numbered ?s) (cgId c)
          (max_number (revisions_of (cgId c) s) + 1) ''u1'' (''RAW_YAML'', compose, ''b'', None)]\<rparr>))"
    using assms(3,4) b unfolding write_draft_quiet[OF assms(1)]
    by (simp add: with_draft_def to_revision_data_def edit_of_def Let_def revisions_of_def set_type_def)
  moreover have "snd (find_response ''p1'' ''c1'' (quiet t)) = quiet t" for t
    by (simp add: find_response_def get_project_def io_then_def io_bind_def run_simps split: option.splits)
  ultimately show ?thesis
    by (simp add: edit_def update_config_def io_then_def io_bind_def get_project_quiet[OF assms(2)]
        split: prod.splits)
qed


lemma edit_of_sel: "udBaseRevision (edit_of b c) = Some b" "udExternal (edit_of b c) = False"
  by (simp_all add: edit_of_def)

definition their_row :: env_revision where
  "their_row = draft_row ''r2'' ''e1'' 2 ''u1'' (''RAW_YAML'', ''theirs'', ''b'', None)"

lemma edit_meets_edit:
  assumes act: "act (stored [stored_revision ''r1'' 1 False]) = stored [stored_revision ''r1'' 1 False, their_row]"
  shows "\<exists>res w. edit ''mine'' \<lparr>store = stored [stored_revision ''r1'' 1 False],
      pending = [CallEnv id Done, CallEnv id Done, CallEnv act Done]\<rparr> = (Inr res, w)
    \<and> map (\<lambda>r. (rvNumber r, rvCompose r)) (vsRevisions (store w)) = [(1, ''a''), (2, ''theirs''), (3, ''mine'')]"
proof -
  let ?r1 = "stored_revision ''r1'' (Suc 0) False"
  have nb: "\<not> blank (Some ''mine'')" "\<not> blank (Some ''b'')" by (simp_all add: trim_Nil_iff is_ws_def)
  have base: "\<not> stale_base (Some ''r1'') [?r1]"
    by (simp add: stale_base_def newest_first_def sort_by_def stored_revision_def)
  have cfg: "find_config ''p1'' (stored rs) = Some \<lparr>cgId = ''e1'', cgProject = ''p1'', cgExternal = False\<rparr>"
    "vsProjects (stored rs) ''p1'' = Some ''c1''" "set_type ''p1'' False (stored rs) = stored rs"
    "vsRevisions (stored rs) = rs" "stored rs\<lparr>vsRevisions := rs'\<rparr> = stored rs'" for rs rs'
    by (simp_all add: find_config_def stored_def set_type_def)
  have revs: "revisions_of ''e1'' (stored [?r1]) = [?r1]" "revisions_of ''e1'' (stored [?r1, their_row]) = [?r1, their_row]"
    by (simp_all add: revisions_of_def cfg stored_revision_def their_row_def draft_row_sel)
  have top: "max_number [?r1, their_row] = 2"
    by (simp add: max_number_def stored_revision_def their_row_def draft_row_sel)
  let ?mine = "\<lambda>s. draft_row (numbered s) ''e1'' 3 ''u1'' (''RAW_YAML'', ''mine'', ''b'', None)"
  have ins: "insert_revision (?mine s) (stored [?r1, their_row]) = Inr (stored [?r1, their_row, ?mine s])" for s
    by (simp add: insert_revision_def cfg stored_revision_def their_row_def draft_row_sel)
  let ?w0 = "\<lparr>store = stored [?r1], pending = [CallEnv id Done, CallEnv act Done]\<rparr>"
  let ?w1 = "quiet (stored [?r1, their_row])" and ?w2 = "quiet (stored [?r1, their_row, ?mine (stored [?r1, their_row])])"
  have up: "upsert_config numbered ''p1'' False Inr \<lparr>store = stored [?r1], pending = [CallEnv act Done]\<rparr>
      = (Inr (\<lparr>cgId = ''e1'', cgProject = ''p1'', cgExternal = False\<rparr>,
         \<lambda>s. Inr (set_type ''p1'' False s)), ?w1)"
    by (simp add: upsert_config_def tx_statement_def io_call_def Let_def act[simplified] cfg quiet_def set_type_def)
  have cr: "case create_revision numbered (\<lambda>_. []) ''e1'' ''u1'' (edit_of ''r1'' ''mine'')
      (\<lambda>s. Inr (set_type ''p1'' False s)) ?w1 of
      (Inl e, w) \<Rightarrow> False
    | (Inr (row, own), w) \<Rightarrow> w = ?w1 \<and> own (stored [?r1, their_row])
        = Inr (stored [?r1, their_row, ?mine (stored [?r1, their_row])])"
    using nb by (simp add: create_revision_def tx_bind_def tx_read_def tx_statement_def tx_lift_def io_call_quiet cfg
        revs top to_revision_data_def edit_of_def Let_def ins)
  then obtain row own where cr': "create_revision numbered (\<lambda>_. []) ''e1'' ''u1'' (edit_of ''r1'' ''mine'')
      (\<lambda>s. Inr (set_type ''p1'' False s)) ?w1 = (Inr (row, own), ?w1)"
    "own (stored [?r1, their_row]) = Inr (stored [?r1, their_row, ?mine (stored [?r1, their_row])])"
    by (auto split: prod.splits sum.splits)
  have tx: "update_draft numbered (\<lambda>_. []) ''p1'' ''u1'' (edit_of ''r1'' ''mine'') Inr ?w0 = (Inr (row, own), ?w1)"
    using base by (simp add: update_draft_def tx_bind_def tx_read_def tx_statement_def tx_lift_def io_call_def cfg revs
        up[simplified tx_statement_def] cr'(1) edit_of_sel)
  have "write_draft_revision (update_draft numbered (\<lambda>_. []) ''p1'' ''u1'' (edit_of ''r1'' ''mine'')) ?w0 = (Inr row, ?w2)"
    by (simp add: write_draft_revision_def io_catch_def transaction_def tx io_call_quiet cr'(2))
  moreover have "\<exists>res. find_response ''p1'' ''c1'' ?w2 = (Inr res, ?w2)"
    by (simp add: find_response_quiet[OF cfg(2,1)] to_response_def newest_first_def sort_by_def revisions_of_def cfg
        stored_revision_def their_row_def draft_row_sel descending_def)
  moreover have "get_project ''p1'' ''c1'' \<lparr>store = stored [?r1],
      pending = [CallEnv id Done, CallEnv id Done, CallEnv act Done]\<rparr> = (Inr (), ?w0)"
    by (simp add: get_project_def io_bind_def io_read_def io_call_def cfg io_return_def)
  ultimately show ?thesis
    by (auto simp: edit_def update_config_def io_then_def io_bind_def cfg stored_revision_def their_row_def
        draft_row_def)
qed

text \<open>
  The conflict check misses an edit that is saved at the same time: two clients edit the same base
  revision, one saves between the other's check and the other's insertion, and both succeed; the later
  revision does not contain the earlier edit, and nobody is told.
\<close>

theorem simultaneous_edits_both_succeed:
  "\<exists>res w. edit ''mine'' \<lparr>store = stored [stored_revision ''r1'' 1 False],
      pending = [CallEnv id Done, CallEnv id Done, CallEnv (\<lambda>s. store (snd (edit ''theirs'' (quiet s)))) Done]\<rparr>
      = (Inr res, w)
    \<and> map (\<lambda>r. (rvNumber r, rvCompose r)) (vsRevisions (store w)) = [(1, ''a''), (2, ''theirs''), (3, ''mine'')]"
proof (rule edit_meets_edit)
  let ?s = "stored [stored_revision ''r1'' 1 False]"
  have nb: "\<not> blank (Some ''theirs'')" by (simp add: trim_Nil_iff is_ws_def)
  have base: "\<not> stale_base (Some ''r1'') [stored_revision ''r1'' 1 False]"
    by (simp add: stale_base_def newest_first_def sort_by_def stored_revision_def)
  have cfg: "find_config ''p1'' ?s = Some \<lparr>cgId = ''e1'', cgProject = ''p1'', cgExternal = False\<rparr>"
    "vsProjects ?s ''p1'' = Some ''c1''" "revisions_of ''e1'' ?s = [stored_revision ''r1'' 1 False]"
    by (simp_all add: find_config_def stored_def revisions_of_def stored_revision_def)
  have two: "char_of (50 :: nat) = CHR ''2''" by code_simp
  show "store (snd (edit ''theirs'' (quiet ?s))) = stored [stored_revision ''r1'' 1 False, their_row]"
    using edit_quiet[OF cfg(1,2) _ nb] base cfg(3)
    by (simp add: set_type_def stored_def numbered_def dec_nat.simps digit_char_def max_number_def
        stored_revision_def their_row_def two numeral_2_eq_2)
qed


text \<open>
  Two publications at the same time leave two published revisions: neither sees the row the other is
  about to publish.
\<close>

lemma publication_meets_publication:
  assumes act: "act (stored [stored_revision ''r1'' 1 False, stored_revision ''r2'' 2 False])
    = published ''e1'' ''r2'' ''u2'' 5 (stored [stored_revision ''r1'' 1 False, stored_revision ''r2'' 2 False])"
  shows "\<exists>w. transaction (publish_tx ''e1'' ''r1'' ''u1'' 5)
      \<lparr>store = stored [stored_revision ''r1'' 1 False, stored_revision ''r2'' 2 False],
       pending = [CallEnv id Done, CallEnv id Done, CallEnv act Done]\<rparr> = (Inr (), w)
    \<and> map rvPublished (vsRevisions (store w)) = [True, True]"
  by (simp add: transaction_def publish_tx_def tx_bind_def tx_update_many_def tx_statement_def tx_lift_def io_call_def
      Let_def stored_def stored_revision_def published_def update_revisions_def
      act[simplified stored_def stored_revision_def published_def update_revisions_def, simplified]
      del: list.set_map set_filter)

lemma simultaneous_publications:
  "\<exists>w. transaction (publish_tx ''e1'' ''r1'' ''u1'' 5)
      \<lparr>store = stored [stored_revision ''r1'' 1 False, stored_revision ''r2'' 2 False],
       pending = [CallEnv id Done, CallEnv id Done,
         CallEnv (\<lambda>s. store (snd (transaction (publish_tx ''e1'' ''r2'' ''u2'' 5) (quiet s)))) Done]\<rparr> = (Inr (), w)
    \<and> map rvPublished (vsRevisions (store w)) = [True, True]"
proof (rule publication_meets_publication)
  let ?s = "stored [stored_revision ''r1'' 1 False, stored_revision ''r2'' 2 False]"
  have "stored_revision ''r2'' 2 False \<in> set (vsRevisions ?s)" "rvId (stored_revision ''r2'' 2 False) = ''r2''"
    "\<not> rvPublished (stored_revision ''r2'' 2 False)"
    by (simp_all add: stored_def stored_revision_def)
  from quiet_publish_tx[OF this, of "''e1''" "''u2''" 5]
  show "store (snd (transaction (publish_tx ''e1'' ''r2'' ''u2'' 5) (quiet ?s))) = published ''e1'' ''r2'' ''u2'' 5 ?s"
    by simp
qed

theorem update_adds_one_draft_witness:
  "\<exists>res w new. update_config numbered (\<lambda>_. []) ''p1'' ''c1'' ''u1'' (edit_of ''r1'' ''mine'')
      (quiet (stored [stored_revision ''r1'' 1 True])) = (Inr res, w)
    \<and> vsRevisions (store w) = [stored_revision ''r1'' 1 True, new] \<and> rvNumber new = 2 \<and> \<not> rvPublished new"
proof -
  let ?s = "stored [stored_revision ''r1'' (Suc 0) True]"
  have cfg: "vsProjects ?s ''p1'' = Some ''c1''"
    "find_config ''p1'' ?s = Some \<lparr>cgId = ''e1'', cgProject = ''p1'', cgExternal = False\<rparr>"
    "revisions_of ''e1'' ?s = [stored_revision ''r1'' (Suc 0) True]"
    "vsRevisions ?s = [stored_revision ''r1'' (Suc 0) True]"
    by (simp_all add: find_config_def stored_def revisions_of_def stored_revision_def)
  have base: "\<not> stale_base (Some ''r1'') [stored_revision ''r1'' (Suc 0) True]"
    by (simp add: stale_base_def newest_first_def sort_by_def stored_revision_def)
  have "\<not> blank (Some ''mine'')" "\<not> blank (Some ''b'')" by (simp_all add: trim_Nil_iff is_ws_def)
  then have "\<exists>a w. write_draft_revision (update_draft numbered (\<lambda>_. []) ''p1'' ''u1'' (edit_of ''r1'' ''mine'')) (quiet ?s)
      = (Inr a, quiet w) \<and> vsProjects w ''p1'' = Some ''c1'' \<and> (\<exists>c. find_config ''p1'' w = Some c \<and> revisions_of (cgId c) w \<noteq> [])"
    using base unfolding write_draft_quiet[OF cfg(2)]
    by (simp add: with_draft_def to_revision_data_def edit_of_def Let_def cfg(3))
      (simp add: set_type_def stored_def find_config_def revisions_of_def stored_revision_def)
  then obtain a t c where w: "write_draft_revision (update_draft numbered (\<lambda>_. []) ''p1'' ''u1'' (edit_of ''r1'' ''mine''))
      (quiet ?s) = (Inr a, quiet t)" "vsProjects t ''p1'' = Some ''c1''" "find_config ''p1'' t = Some c"
    "revisions_of (cgId c) t \<noteq> []" by blast
  have "newest_first (revisions_of (cgId c) t) \<noteq> []"
    using w(4) by (metis newest_first_def length_0_conv length_sort_by)
  then have "\<exists>res. update_config numbered (\<lambda>_. []) ''p1'' ''c1'' ''u1'' (edit_of ''r1'' ''mine'') (quiet ?s) = (Inr res, quiet t)"
    by (cases "newest_first (revisions_of (cgId c) t)")
      (auto simp: update_config_def io_then_def io_bind_def get_project_quiet[OF cfg(1)] w(1)
        find_response_quiet[OF w(2,3)] to_response_def)
  then obtain res where r: "update_config numbered (\<lambda>_. []) ''p1'' ''c1'' ''u1'' (edit_of ''r1'' ''mine'') (quiet ?s)
      = (Inr res, quiet t)" by blast
  obtain new where "vsRevisions t = vsRevisions ?s @ [new]" "rvNumber new = max_number (revisions_of ''e1'' ?s) + 1"
    "\<not> rvPublished new"
    using update_adds_one_draft[OF cfg(1,2), where new_id = numbered and yaml_dump = "\<lambda>_. []" and user = "''u1''"
      and dto = "edit_of ''r1'' ''mine''", unfolded r] by auto
  moreover have "max_number [stored_revision ''r1'' (Suc 0) True] = 1"
    by (simp add: max_number_def stored_revision_def)
  ultimately have "vsRevisions t = [stored_revision ''r1'' 1 True, new]" "rvNumber new = 2" "\<not> rvPublished new"
    by (simp_all add: cfg(3,4))
  then show ?thesis using r by auto
qed

theorem publication_is_exclusive_witness:
  "\<exists>res w. publish_revision ''p1'' ''c1'' ''u1'' ''r2''
      (quiet (stored [stored_revision ''r1'' 1 True, stored_revision ''r2'' 2 False])) = (Inr res, w)
    \<and> map (\<lambda>r. (rvId r, rvPublished r)) (vsRevisions (store w)) = [(''r1'', False), (''r2'', True)]"
proof -
  let ?s = "stored [stored_revision ''r1'' (Suc 0) True, stored_revision ''r2'' 2 False]"
  have cfg: "vsProjects ?s ''p1'' = Some ''c1''"
    "find_config ''p1'' ?s = Some \<lparr>cgId = ''e1'', cgProject = ''p1'', cgExternal = False\<rparr>"
    "distinct (map rvId (vsRevisions ?s))"
    by (simp_all add: find_config_def stored_def stored_revision_def)
  note claim = publication_is_exclusive[OF cfg, of "''u1''" "''r2''"]
  let ?r2 = "stored_revision ''r2'' 2 False"
  have r2: "?r2 \<in> set (vsRevisions ?s)" "rvId ?r2 = ''r2''" "\<not> rvPublished ?r2"
    by (simp_all add: stored_def stored_revision_def)
  let ?t = "published ''e1'' ''r2'' ''u1'' (vsNow ?s) ?s"
  have t: "vsProjects ?t ''p1'' = Some ''c1''"
    "find_config ''p1'' ?t = Some \<lparr>cgId = ''e1'', cgProject = ''p1'', cgExternal = False\<rparr>"
    using cfg(1,2) by (simp_all add: published_def update_revisions_def find_config_def)
  have "newest_first (revisions_of ''e1'' ?t) \<noteq> []"
    by (simp add: newest_first_def sort_by_def revisions_of_def published_def update_revisions_def stored_def
        stored_revision_def descending_def)
  then have "\<exists>res. to_response \<lparr>cgId = ''e1'', cgProject = ''p1'', cgExternal = False\<rparr>
      (newest_first (revisions_of ''e1'' ?t)) = Inr res"
    by (cases "newest_first (revisions_of ''e1'' ?t)") (auto simp: to_response_def)
  moreover have "find (\<lambda>r. rvId r = ''r2'') (revisions_of ''e1'' ?s) = Some ?r2"
    by (simp add: revisions_of_def stored_def stored_revision_def)
  ultimately obtain res where r: "publish_revision ''p1'' ''c1'' ''u1'' ''r2'' (quiet ?s) = (Inr res, quiet ?t)"
    using quiet_publish_tx[OF r2, of "''e1''" "''u1''" "vsNow ?s"] r2
    by (auto simp: publish_revision_def get_config_for_project_def find_revision_def io_then_def io_bind_def
        get_project_quiet[OF cfg(1)] run_simps cfg(2) find_response_quiet[OF t])
  note claim = publication_is_exclusive[OF cfg, where user = "''u1''" and rid = "''r2''", unfolded r]
  have "map rvId (vsRevisions ?t) = [''r1'', ''r2'']"
    using published_ids by (simp add: stored_def stored_revision_def)
  then obtain x y where xy: "vsRevisions ?t = [x, y]" "rvId x = ''r1''" "rvId y = ''r2''" by auto
  have "rvConfig x = ''e1''" "rvConfig y = ''e1''"
    using claim xy by (auto simp: stored_def stored_revision_def)
  then show ?thesis using claim r xy by auto
qed

end
