(* ===== verification/Diagnosis.thy ===== *)
theory Diagnosis
  imports Suite_Exec
begin

text \<open>
  The failure diagnosis of a finished run (\<open>test-runs/failure-diagnosis/\<close>): a decision over the run's
  row, its failed result and the texts of errors and logs.  Metadata fields the code declares as strings
  are read as strings.  The ellipsis of a shortened text, which is not an 8-bit character, is the
  character 133.
\<close>

section \<open>What is read and what is reported\<close>

record stored_result =
  svId :: string
  svStepId :: "string option"
  svStepType :: string
  svSuiteName :: string
  svTestName :: string
  svFailed :: bool
  svMethod :: string
  svPath :: string
  svExpectedStatus :: int
  svActualStatus :: "int option"
  svErrorMessage :: "string option"
  svAssertions :: "json option"

record log_preview =
  lpSequence :: int
  lpSource :: string
  lpText :: string

datatype diagnosis_category =
    Compose_Validation_Failed | Image_Pull_Failed | Container_Exited | Port_Conflict | Healthcheck_Timeout
  | Dns_Network_Failure | Http_Timeout | Unexpected_Status | Assertion_Mismatch | Variable_Extraction_Failed
  | Diagnosed_Cancelled | Cleanup_Failed | Internal_Runner_Error

datatype evidence_type =
  Test_Result_Evidence | Phase_Evidence | Log_Evidence | Healthcheck_Evidence | Environment_Evidence | Field_Evidence

datatype evidence_ref = Ref_Result string | Ref_Phase string | Ref_Log int | Ref_Field string

record evidence =
  deType :: evidence_type
  deLabel :: string
  deDetail :: string
  deRef :: evidence_ref

datatype priority = High_Priority | Medium_Priority | Low_Priority

record suggested_action =
  acId :: string
  acLabel :: string
  acDescription :: string
  acPriority :: priority

record run_diagnosis =
  dgCategory :: diagnosis_category
  dgTitle :: string
  dgSummary :: string
  dgPrimary :: "evidence list"
  dgRelated :: "evidence list"
  dgActions :: "suggested_action list"
  dgConfidence :: rat

record diagnosis_context =
  dcRun :: test_run
  dcMetadata :: "json obj"
  dcTimestamps :: "(string \<times> string) list"
  dcLogs :: "log_preview list"
  dcFailedResult :: "stored_result option"
  dcMessage :: string

definition evidence_of :: "evidence_type \<Rightarrow> string \<Rightarrow> string \<Rightarrow> evidence_ref \<Rightarrow> evidence" where
  "evidence_of t l d r = \<lparr>deType = t, deLabel = l, deDetail = d, deRef = r\<rparr>"

definition action :: "string \<Rightarrow> string \<Rightarrow> string \<Rightarrow> priority \<Rightarrow> suggested_action" where
  "action i l d p = \<lparr>acId = i, acLabel = l, acDescription = d, acPriority = p\<rparr>"

definition diagnosis ::
    "diagnosis_category \<Rightarrow> string \<Rightarrow> string \<Rightarrow> evidence list \<Rightarrow> evidence list \<Rightarrow> suggested_action list \<Rightarrow> rat \<Rightarrow>
     run_diagnosis" where
  "diagnosis c t s prim rel acts conf =
     \<lparr>dgCategory = c, dgTitle = t, dgSummary = s, dgPrimary = prim, dgRelated = rel, dgActions = acts,
      dgConfidence = conf\<rparr>"

text \<open>\<open>a ?? b\<close> and \<open>a || b\<close> of strings.\<close>

definition else_text :: "string option \<Rightarrow> string \<Rightarrow> string" where
  "else_text v d = (case v of None \<Rightarrow> d | Some s \<Rightarrow> s)"

definition or_text :: "string \<Rightarrow> string \<Rightarrow> string" where
  "or_text s d = (if s = [] then d else s)"

section \<open>Patterns\<close>

definition digits :: rx where
  "digits = Plus (Ch is_digit)"

definition port_conflict_pattern :: rx where
  "port_conflict_pattern = any_of [ilit ''port is already allocated'', ilit ''address already in use'',
     ilit ''Bind for'', ilit ''ports are not available'']"

definition container_exit_pattern :: rx where
  "container_exit_pattern = any_of [Seq (ilit ''failed with code '') digits,
     seqs [ilit ''exited '', Opt (lit ''(''), digits, Opt (lit '')'')],
     seqs [ilit ''container '', Star dot, ilit '' exited''], ilit ''non-zero exit'']"

definition image_pull_pattern :: rx where
  "image_pull_pattern = any_of [ilit ''pull'', ilit ''image pull'', ilit ''manifest unknown'',
     ilit ''repository does not exist'']"

definition network_pattern :: rx where
  "network_pattern = any_of [ilit ''network'', ilit ''ECONNREFUSED'', ilit ''ENOTFOUND'', ilit ''EAI_AGAIN'',
     ilit ''getaddrinfo'', ilit ''ECONNRESET'', ilit ''fetch failed'']"

definition timeout_pattern :: rx where
  "timeout_pattern = any_of [ilit ''timeout'', ilit ''timed out'', ilit ''aborted'', ilit ''AbortError'']"

definition variable_extraction_pattern :: rx where
  "variable_extraction_pattern = any_of [ilit ''variable'', ilit ''jsonpath'', ilit ''path not found'',
     ilit ''undefined variable'', ilit ''failed to extract'']"

definition extract_port_from_message :: "string \<Rightarrow> string option" where
  "extract_port_from_message message =
     or_else (rx_group (seqs [ilit ''Bind for '', Plus (Ch (\<lambda>c. is_digit c \<or> c = CHR ''.'')), lit '':'', Group 1 digits])
        1 message)
       (rx_group (Seq (ilit ''port '') (Group 1 digits)) 1 message)"

definition extract_exit_code :: "string \<Rightarrow> string option" where
  "extract_exit_code message =
     or_else (or_else (rx_group (seqs [ilit ''exited ('', Group 1 digits, lit '')'']) 1 message)
        (rx_group (Seq (ilit ''exited with code '') (Group 1 digits)) 1 message))
       (rx_group (Seq (ilit ''failed with code '') (Group 1 digits)) 1 message)"

definition secret_word :: rx where
  "secret_word = any_of [ilit ''password'', ilit ''secret'', ilit ''token'',
     seqs [ilit ''api'', Opt (one_of ''_-''), ilit ''key''], ilit ''authorization'']"

definition quoted_secret :: rx where
  "quoted_secret = seqs
     [Group 1 (seqs [Opt (one_of [CHR 0x22]), secret_word, Opt (one_of [CHR 0x22]), spaces, one_of '':='', spaces]),
      one_of [CHR 0x22], Star (Ch (\<lambda>c. c \<noteq> CHR 0x22)), one_of [CHR 0x22]]"

definition assigned_secret :: rx where
  "assigned_secret = Seq (Group 1 (Seq secret_word (lit ''=''))) (Plus (none_of ''&''))"

definition max_detail_length :: nat where
  "max_detail_length = 240"

definition sanitize_detail :: "string \<Rightarrow> string" where
  "sanitize_detail value =
     (let s1 = rx_replace quoted_secret (\<lambda>g. cap g 1 @ [CHR 0x22] @ ''***'' @ [CHR 0x22]) None value;
          s2 = rx_replace assigned_secret (\<lambda>g. cap g 1 @ ''***'') None s1
      in if length s2 > max_detail_length then take max_detail_length s2 @ [char_of (133 :: nat)] else s2)"

section \<open>Dates\<close>

definition days_of_civil :: "int \<Rightarrow> int \<Rightarrow> int \<Rightarrow> int" where
  "days_of_civil y m d =
     (let y' = (if m \<le> 2 then y - 1 else y); era = y' div 400; yoe = y' - era * 400;
          doy = (153 * (if m > 2 then m - 3 else m + 9) + 2) div 5 + d - 1;
          doe = yoe * 365 + yoe div 4 - yoe div 100 + doy
      in era * 146097 + doe - 719468)"

definition field_value :: "string \<Rightarrow> nat \<Rightarrow> nat \<Rightarrow> int" where
  "field_value s i n = int (digits_value (take n (drop i s)))"

text \<open>\<open>new Date(s)\<close> of a text in the form \<open>toISOString\<close> writes; other texts are invalid dates here.\<close>

definition parse_date :: "string \<Rightarrow> int option" where
  "parse_date s =
     (if length s = 24 \<and> [s ! 4, s ! 7, s ! 10, s ! 13, s ! 16, s ! 19, s ! 23] = ''--T::.Z''
         \<and> list_all (\<lambda>i. is_digit (s ! i)) [0, 1, 2, 3, 5, 6, 8, 9, 11, 12, 14, 15, 17, 18, 20, 21, 22]
      then Some (days_of_civil (field_value s 0 4) (field_value s 5 2) (field_value s 8 2) * 86400000
        + field_value s 11 2 * 3600000 + field_value s 14 2 * 60000 + field_value s 17 2 * 1000 + field_value s 20 3)
      else None)"

definition invalid_time :: js_error where
  "invalid_time = PlainError ''Invalid time value''"

text \<open>\<open>new Date(s).toISOString()\<close>\<close>

definition date_text :: "string \<Rightarrow> js_error + string" where
  "date_text s = (case parse_date s of None \<Rightarrow> Inl invalid_time | Some ms \<Rightarrow> Inr (iso_string ms))"

section \<open>The context\<close>

definition read_phase_timestamps :: "json option \<Rightarrow> (string \<times> string) list" where
  "read_phase_timestamps v =
     (case v of
        Some (JObj es) \<Rightarrow> from_entries (List.map_filter
          (\<lambda>(k, t). case t of JStr s \<Rightarrow> Some (k, s) | _ \<Rightarrow> None) es)
      | _ \<Rightarrow> [])"

definition phase_time :: "(string \<times> string) list \<Rightarrow> test_run_status \<Rightarrow> string option" where
  "phase_time ts st = map_of ts (status_name st)"

definition build_context :: "test_run \<Rightarrow> stored_result list \<Rightarrow> log_preview list \<Rightarrow> diagnosis_context" where
  "build_context r results logs =
     (let failed = find svFailed results in
      \<lparr>dcRun = r, dcMetadata = executionMetadata r, dcTimestamps = read_phase_timestamps (phaseTimestamps r),
       dcLogs = map (\<lambda>l. l\<lparr>lpText := sanitize_detail (lpText l)\<rparr>) logs, dcFailedResult = failed,
       dcMessage = sanitize_detail (else_text (errorMessage r) (else_text (statusReason r)
         (else_text (Option.bind failed svErrorMessage) [])))\<rparr>)"

definition meta_text :: "json option \<Rightarrow> string option" where
  "meta_text v = (case v of Some (JStr s) \<Rightarrow> Some s | _ \<Rightarrow> None)"

definition meta_field :: "diagnosis_context \<Rightarrow> string \<Rightarrow> string \<Rightarrow> json option" where
  "meta_field c part field = opt_prop (map_of (dcMetadata c) part) field"

section \<open>Assertions of a stored result\<close>

record stored_assertion =
  sxFieldPath :: string
  sxOperator :: string
  sxExpected :: "json option"
  sxActual :: "json option"
  sxPassed :: bool
  sxMessage :: "string option"

definition read_assertion :: "json \<Rightarrow> stored_assertion option" where
  "read_assertion entry =
     (case entry of
        JObj es \<Rightarrow>
          (case (map_of es ''fieldPath'', map_of es ''operator'') of
             (Some (JStr path), Some (JStr op)) \<Rightarrow> Some
               \<lparr>sxFieldPath = path, sxOperator = op, sxExpected = map_of es ''expected'',
                sxActual = map_of es ''actual'',
                sxPassed = (case map_of es ''passed'' of None \<Rightarrow> False | Some v \<Rightarrow> json_truthy v),
                sxMessage = meta_text (map_of es ''message'')\<rparr>
           | _ \<Rightarrow> None)
      | _ \<Rightarrow> None)"

definition read_assertions :: "json option \<Rightarrow> stored_assertion list" where
  "read_assertions v = (case v of Some (JArr xs) \<Rightarrow> List.map_filter read_assertion xs | _ \<Rightarrow> [])"

definition has_failed_json_assertion :: "stored_result \<Rightarrow> bool" where
  "has_failed_json_assertion r =
     list_ex (\<lambda>a. \<not> sxPassed a \<and> sxFieldPath a \<noteq> ''$.status'') (read_assertions (svAssertions r))"

text \<open>The column holds \<open>null\<close> for a missing status, which is not \<open>undefined\<close>.\<close>

definition is_unexpected_status :: "stored_result \<Rightarrow> bool" where
  "is_unexpected_status r =
     (svStepType r \<in> {''apiRequest'', ''pollUntil''} \<and> \<not> has_failed_json_assertion r
      \<and> svActualStatus r \<noteq> Some (svExpectedStatus r)
      \<and> \<not> (case svErrorMessage r of None \<Rightarrow> False | Some m \<Rightarrow> str_includes m ''contains''))"

definition is_http_timeout :: "stored_result \<Rightarrow> diagnosis_context \<Rightarrow> bool" where
  "is_http_timeout r c =
     (svStepType r = ''pollUntil'' \<and> rx_test timeout_pattern (else_text (svErrorMessage r) [])
      \<or> rx_test timeout_pattern (else_text (svErrorMessage r) (dcMessage c)))"

definition is_variable_extraction_failure :: "stored_result \<Rightarrow> diagnosis_context \<Rightarrow> bool" where
  "is_variable_extraction_failure r c =
     rx_test variable_extraction_pattern (else_text (svErrorMessage r) (dcMessage c))"

definition is_cleanup_only_failure :: "diagnosis_context \<Rightarrow> bool" where
  "is_cleanup_only_failure c =
     (truthy_str (cleanupError (dcRun c)) \<and> dcFailedResult c = None \<and> \<not> truthy_str (errorMessage (dcRun c))
      \<and> failureCategory (dcRun c) = None \<and> status (dcRun c) \<noteq> CANCELLED)"

section \<open>Evidence\<close>

definition run_field_evidence :: "string \<Rightarrow> string \<Rightarrow> string \<Rightarrow> evidence" where
  "run_field_evidence label detail field = evidence_of Field_Evidence label (sanitize_detail detail) (Ref_Field field)"

definition test_result_evidence :: "string \<Rightarrow> stored_result \<Rightarrow> string \<Rightarrow> evidence" where
  "test_result_evidence label r detail =
     evidence_of Test_Result_Evidence label (sanitize_detail detail) (Ref_Result (svId r))"

definition phase_evidence :: "diagnosis_context \<Rightarrow> test_run_status \<Rightarrow> js_error + evidence list" where
  "phase_evidence c st =
     (case phase_time (dcTimestamps c) st of
        None \<Rightarrow> Inr []
      | Some t \<Rightarrow> sbind (date_text t) (\<lambda>shown_time.
          Inr [evidence_of Phase_Evidence (''Phase '' @ status_name st) (''Entered at '' @ shown_time)
                 (Ref_Phase (status_name st))]))"

definition docker_log_evidence :: "diagnosis_context \<Rightarrow> evidence list" where
  "docker_log_evidence c =
     map (\<lambda>l. evidence_of Log_Evidence (lpSource l @ '' log'') (lpText l) (Ref_Log (lpSequence l)))
       (take 3 (filter (\<lambda>l. lpSource l \<in> {''DOCKER'', ''ERROR''}) (dcLogs c)))"

definition image_reference_evidence :: "diagnosis_context \<Rightarrow> evidence list" where
  "image_reference_evidence c =
     map (\<lambda>r. evidence_of Environment_Evidence (''Image '' @ option_string (opt_prop (Some r) ''serviceName''))
            (option_string (opt_prop (Some r) ''image'')) (Ref_Phase ''image_preparation''))
       (take 5 (case map_of (dcMetadata c) ''imageReferences'' of Some (JArr xs) \<Rightarrow> xs | _ \<Rightarrow> []))"

section \<open>Diagnoses of the run\<close>

definition diagnose_cancelled :: "diagnosis_context \<Rightarrow> run_diagnosis" where
  "diagnose_cancelled c =
     (let reason = sanitize_detail (else_text (cancellationReason (dcRun c))
            (else_text (statusReason (dcRun c)) ''Run was cancelled''));
          cleanup = truthy_str (cleanupError (dcRun c)) in
      diagnosis Diagnosed_Cancelled ''Test run was cancelled''
        (or_text reason ''The run was cancelled before completion.'')
        [run_field_evidence ''Cancellation reason'' (or_text reason ''No reason provided'') ''cancellationReason'']
        (if cleanup then [run_field_evidence ''Cleanup error'' (the (cleanupError (dcRun c))) ''cleanupError''] else [])
        (action ''review-cancel-reason'' ''Review cancellation reason''
           ''Check who requested cancellation and whether the environment was left running.'' Medium_Priority
         # (if cleanup then [action ''manual-cleanup'' ''Run manual cleanup''
              ''Docker compose down failed during cancellation. Stop leftover containers on the runner host.''
              High_Priority] else []))
        (95 / 100))"

definition diagnose_cleanup_failed :: "diagnosis_context \<Rightarrow> run_diagnosis" where
  "diagnose_cleanup_failed c =
     (let err = sanitize_detail (else_text (cleanupError (dcRun c)) ''Cleanup failed'') in
      diagnosis Cleanup_Failed ''Environment cleanup failed'' err
        [run_field_evidence ''Cleanup error'' err ''cleanupError''] (docker_log_evidence c)
        [action ''manual-compose-down'' ''Run docker compose down manually''
           ''On the runner host, stop and remove containers for this test workspace.'' High_Priority,
         action ''check-runner-logs'' ''Inspect runner Docker logs''
           ''Review DOCKER log chunks for the exact compose down failure.'' Medium_Priority]
        (95 / 100))"

definition diagnose_internal :: "diagnosis_context \<Rightarrow> string option \<Rightarrow> run_diagnosis" where
  "diagnose_internal c summary =
     (let message = sanitize_detail (else_text summary (dcMessage c)) in
      diagnosis Internal_Runner_Error ''Internal runner error'' message
        [run_field_evidence ''Runner error'' message ''errorMessage'']
        (docker_log_evidence c
         @ (if truthy_str (runnerId (dcRun c))
            then [evidence_of Field_Evidence ''Runner ID'' (the (runnerId (dcRun c))) (Ref_Field ''runnerId'')] else []))
        [action ''check-runner-logs'' ''Inspect runner logs''
           ''Review SYSTEM and ERROR log chunks around the failure time.'' High_Priority,
         action ''retry-run'' ''Retry the run''
           ''If transient, re-run with the same immutable revisions.'' Low_Priority]
        (1 / 2))"

definition diagnose_compose_validation :: "diagnosis_context \<Rightarrow> js_error + run_diagnosis" where
  "diagnose_compose_validation c =
     (let message = sanitize_detail (else_text (meta_text (meta_field c ''environmentResult'' ''message''))
            (else_text (errorMessage (dcRun c))
              (else_text (statusReason (dcRun c)) ''Compose validation failed''))) in
      sbind (phase_evidence c VALIDATING_ENVIRONMENT) (\<lambda>phase.
      Inr (diagnosis Compose_Validation_Failed ''Docker Compose validation failed'' message
        [evidence_of Environment_Evidence ''Environment validation'' message (Ref_Phase ''validation'')] phase
        [action ''run-preflight'' ''Run environment preflight''
           ''Open Environment Config and run preflight to see security and compose checks.'' High_Priority,
         action ''fix-compose-security'' ''Fix compose security violations''
           ''Remove privileged mode, host network, or forbidden volume mounts.'' High_Priority]
        (95 / 100))))"

definition diagnose_image_pull :: "diagnosis_context \<Rightarrow> run_diagnosis" where
  "diagnose_image_pull c =
     (let message = sanitize_detail (or_text (dcMessage c) ''Docker image pull failed'') in
      diagnosis Image_Pull_Failed ''Docker image pull failed'' message
        (run_field_evidence ''Runner error'' message ''errorMessage'' # docker_log_evidence c)
        (image_reference_evidence c)
        [action ''verify-image-name'' ''Verify image name and tag''
           ''Check image references in the environment config match a reachable registry.'' High_Priority,
         action ''check-registry-auth'' ''Check registry authentication''
           ''Ensure the runner can authenticate to private image registries.'' Medium_Priority]
        (if failureCategory (dcRun c) = Some IMAGE_PULL then 95 / 100 else 75 / 100))"

definition diagnose_container_exited :: "diagnosis_context \<Rightarrow> js_error + run_diagnosis" where
  "diagnose_container_exited c =
     (let message = sanitize_detail (or_text (dcMessage c) ''Container exited unexpectedly'');
          code = extract_exit_code (dcMessage c) in
      sbind (phase_evidence c STARTING_ENVIRONMENT) (\<lambda>phase.
      Inr (diagnosis Container_Exited ''Container exited before becoming healthy''
        (if truthy_str code then ''A service container exited with code '' @ the code @ ''.'' else message)
        (run_field_evidence ''Runner error'' message ''errorMessage'' # docker_log_evidence c) phase
        [action ''inspect-container-logs'' ''Inspect container logs''
           ''Review DOCKER log chunks for the service that exited.'' High_Priority,
         action ''check-start-command'' ''Check service start command''
           ''Verify the container entrypoint and environment variables in compose.'' Medium_Priority]
        (if truthy_str code then 95 / 100 else 75 / 100))))"

definition diagnose_port_conflict :: "diagnosis_context \<Rightarrow> js_error + run_diagnosis" where
  "diagnose_port_conflict c =
     (let message = sanitize_detail (dcMessage c); port = extract_port_from_message (dcMessage c) in
      sbind (phase_evidence c STARTING_ENVIRONMENT) (\<lambda>phase.
      Inr (diagnosis Port_Conflict ''Host port conflict detected''
        (if truthy_str port then ''Port '' @ the port @ '' is already in use on the runner host.''
         else ''A required host port is already allocated.'')
        (run_field_evidence ''Runner error'' message ''errorMessage'' # docker_log_evidence c) phase
        [action ''free-port''
           (if truthy_str port then ''Free port '' @ the port else ''Free the conflicting host port'')
           ''Stop the process or container currently bound to the host port.'' High_Priority,
         action ''change-port-mapping'' ''Change host port mapping''
           ''Update the environment config to use a different host port.'' Medium_Priority]
        (95 / 100))))"

definition health_number :: "diagnosis_context \<Rightarrow> string \<Rightarrow> string \<Rightarrow> string" where
  "health_number c field d =
     (let v = meta_field c ''healthcheckResult'' field in if nullish v then d else json_string (the v))"

definition diagnose_healthcheck_timeout :: "diagnosis_context \<Rightarrow> js_error + run_diagnosis" where
  "diagnose_healthcheck_timeout c =
     (let url = else_text (meta_text (meta_field c ''healthcheckResult'' ''url'')) ''health endpoint'';
          message = sanitize_detail (else_text (meta_text (meta_field c ''healthcheckResult'' ''message'')) (dcMessage c));
          duration = meta_field c ''healthcheckResult'' ''durationMs'' in
      sbind (phase_evidence c WAITING_FOR_HEALTHCHECK) (\<lambda>phase.
      Inr (diagnosis Healthcheck_Timeout ''Healthcheck timed out'' message
        [evidence_of Healthcheck_Evidence ''Healthcheck''
           (url @ '': expected '' @ health_number c ''expectedStatus'' ''200'' @ '', last status ''
              @ health_number c ''actualStatus'' ''unknown'') (Ref_Phase ''healthcheck'')]
        (phase @ (if (case duration of None \<Rightarrow> False | Some v \<Rightarrow> json_truthy v)
           then [evidence_of Healthcheck_Evidence ''Healthcheck duration'' (json_string (the duration) @ '' ms'')
                   (Ref_Phase ''healthcheck'')] else []))
        [action ''increase-timeout'' ''Increase healthcheck timeout''
           ''Raise healthcheckTimeoutSeconds in project settings if the service starts slowly.'' High_Priority,
         action ''verify-health-url'' ''Verify healthcheck URL''
           (''Confirm '' @ url @ '' is reachable once containers are up.'') High_Priority]
        (95 / 100))))"

definition diagnose_healthcheck_failure :: "diagnosis_context \<Rightarrow> js_error + run_diagnosis" where
  "diagnose_healthcheck_failure c =
     (let message = sanitize_detail (else_text (meta_text (meta_field c ''healthcheckResult'' ''message'')) (dcMessage c)) in
      sbind (phase_evidence c WAITING_FOR_HEALTHCHECK) (\<lambda>phase.
      Inr (diagnosis Healthcheck_Timeout ''Healthcheck failed'' message
        [evidence_of Healthcheck_Evidence ''Healthcheck response''
           (''Expected '' @ health_number c ''expectedStatus'' ''200'' @ '', got ''
              @ health_number c ''actualStatus'' ''unknown'') (Ref_Phase ''healthcheck'')] phase
        [action ''check-service-readiness'' ''Check service readiness''
           ''Ensure the application responds on the healthcheck path after startup.'' High_Priority]
        (95 / 100))))"

definition diagnose_network_failure :: "diagnosis_context \<Rightarrow> run_diagnosis" where
  "diagnose_network_failure c =
     (let message = sanitize_detail (or_text (dcMessage c) ''Network connection failed'') in
      diagnosis Dns_Network_Failure ''DNS or network failure'' message
        [run_field_evidence ''Runner error'' message ''errorMessage''] (docker_log_evidence c)
        [action ''verify-dns'' ''Verify DNS resolution''
           ''Check that service hostnames resolve inside the test environment.'' High_Priority,
         action ''check-network-connectivity'' ''Check network connectivity''
           ''Ensure containers can reach each other and external dependencies.'' Medium_Priority]
        (if failureCategory (dcRun c) = Some NETWORK then 95 / 100 else 75 / 100))"

section \<open>Diagnoses of a failed step\<close>

definition step_summary :: "stored_result \<Rightarrow> string \<Rightarrow> string" where
  "step_summary r message = svSuiteName r @ '' / '' @ svTestName r @ '': '' @ message"

definition request_line :: "stored_result \<Rightarrow> string" where
  "request_line r = svMethod r @ '' '' @ svPath r"

definition status_text :: "string \<Rightarrow> stored_result \<Rightarrow> string" where
  "status_text missing r = (case svActualStatus r of None \<Rightarrow> missing | Some n \<Rightarrow> dec_int n)"

definition diagnose_http_timeout :: "stored_result \<Rightarrow> run_diagnosis" where
  "diagnose_http_timeout r =
     (let message = sanitize_detail (else_text (svErrorMessage r) ''HTTP request timed out'') in
      diagnosis Http_Timeout ''HTTP request timed out'' (step_summary r message)
        [test_result_evidence ''Failed step'' r message,
         evidence_of Test_Result_Evidence ''Request'' (request_line r) (Ref_Result (svId r))] []
        [action ''increase-request-timeout'' ''Increase request timeout''
           ''Check RUNNER_REQUEST_TIMEOUT_MS or reduce service response latency.'' High_Priority,
         action ''verify-endpoint'' ''Verify endpoint availability''
           (''Confirm '' @ request_line r @ '' responds within the timeout.'') Medium_Priority]
        (95 / 100))"

definition diagnose_unexpected_status :: "stored_result \<Rightarrow> run_diagnosis" where
  "diagnose_unexpected_status r =
     (let message = sanitize_detail (else_text (svErrorMessage r)
            (''Expected status '' @ dec_int (svExpectedStatus r) @ '', got '' @ status_text ''null'' r)) in
      diagnosis Unexpected_Status ''Unexpected HTTP status code'' (step_summary r message)
        [test_result_evidence ''Failed step'' r message,
         evidence_of Test_Result_Evidence ''Status code''
           (''Expected '' @ dec_int (svExpectedStatus r) @ '', actual '' @ status_text ''none'' r)
           (Ref_Result (svId r))] []
        [action ''compare-response'' ''Compare response with baseline''
           ''Open the failed step response preview and compare with a passing run.'' High_Priority,
         action ''fix-expected-status'' ''Update expected status''
           (''If '' @ status_text ''null'' r @ '' is correct, update the step expected status.'') Medium_Priority]
        (95 / 100))"

definition json_text_of :: "json option \<Rightarrow> string" where
  "json_text_of v = (case v of None \<Rightarrow> ''undefined'' | Some j \<Rightarrow> stringify j)"

definition diagnose_assertion_mismatch :: "stored_result \<Rightarrow> run_diagnosis" where
  "diagnose_assertion_mismatch r =
     (let failed = find (\<lambda>a. \<not> sxPassed a) (read_assertions (svAssertions r));
          message = sanitize_detail (else_text (Option.bind failed sxMessage)
            (else_text (svErrorMessage r) ''Assertion did not match expected value'')) in
      diagnosis Assertion_Mismatch ''Assertion mismatch'' (step_summary r message)
        (test_result_evidence ''Failed step'' r message
         # (case failed of
              None \<Rightarrow> []
            | Some a \<Rightarrow> [evidence_of Test_Result_Evidence (''Assertion '' @ sxFieldPath a)
                (''Expected '' @ json_text_of (sxExpected a) @ '', actual '' @ json_text_of (sxActual a))
                (Ref_Result (svId r))])) []
        [action ''review-assertion'' ''Review failing assertion''
           (case failed of
              None \<Rightarrow> ''Open assertion results for the failed step.''
            | Some a \<Rightarrow> ''Check fieldPath '' @ sxFieldPath a @ '' ('' @ sxOperator a @ '').'') High_Priority,
         action ''compare-with-baseline'' ''Compare with last passing run''
           ''Use run comparison to see if the response shape changed.'' Medium_Priority]
        (95 / 100))"

definition diagnose_variable_extraction :: "stored_result \<Rightarrow> run_diagnosis" where
  "diagnose_variable_extraction r =
     (let message = sanitize_detail (else_text (svErrorMessage r) ''Variable extraction or assignment failed'') in
      diagnosis Variable_Extraction_Failed ''Variable extraction failed'' (step_summary r message)
        [test_result_evidence ''Failed step'' r message] []
        [action ''verify-json-path'' ''Verify JSON path''
           ''Ensure the save/extract path exists in the source step response.'' High_Priority,
         action ''check-source-step'' ''Check source step output''
           ''Confirm the upstream step returned the expected response body.'' Medium_Priority]
        (95 / 100))"

section \<open>The decision\<close>

definition diagnose_test_failure :: "diagnosis_context \<Rightarrow> run_diagnosis" where
  "diagnose_test_failure c =
     (case dcFailedResult c of
        None \<Rightarrow> diagnose_internal c None
      | Some r \<Rightarrow>
          if svStepType r = ''setVariable'' \<or> is_variable_extraction_failure r c then diagnose_variable_extraction r
          else if svStepType r = ''assert'' \<or> has_failed_json_assertion r then diagnose_assertion_mismatch r
          else if is_http_timeout r c then diagnose_http_timeout r
          else if is_unexpected_status r then diagnose_unexpected_status r
          else diagnose_assertion_mismatch r)"

definition diagnose_timeout :: "diagnosis_context \<Rightarrow> js_error + run_diagnosis" where
  "diagnose_timeout c =
     (if failureCategory (dcRun c) = Some HEALTHCHECK
         \<or> phase_time (dcTimestamps c) WAITING_FOR_HEALTHCHECK \<noteq> None \<or> rx_test timeout_pattern (dcMessage c)
      then diagnose_healthcheck_timeout c
      else Inr (diagnose_internal c (Some ''Run timed out before completing all phases.'')))"

definition diagnose_infra_failure :: "diagnosis_context \<Rightarrow> js_error + run_diagnosis" where
  "diagnose_infra_failure c =
     (let category = failureCategory (dcRun c); message = dcMessage c in
      if category = Some ENVIRONMENT_VALIDATION then diagnose_compose_validation c
      else if category = Some IMAGE_PULL \<or> rx_test image_pull_pattern message then Inr (diagnose_image_pull c)
      else if category = Some CONTAINER_START
      then (if rx_test port_conflict_pattern message then diagnose_port_conflict c
            else if rx_test container_exit_pattern message then diagnose_container_exited c
            else diagnose_container_exited c)
      else if category = Some HEALTHCHECK
      then (if rx_test timeout_pattern message then diagnose_healthcheck_timeout c
            else diagnose_healthcheck_failure c)
      else if category = Some NETWORK \<or> rx_test network_pattern message then Inr (diagnose_network_failure c)
      else if category = Some TIMEOUT then diagnose_timeout c
      else Inr (diagnose_internal c None))"

definition is_terminal_failure_status :: "test_run_status \<Rightarrow> bool" where
  "is_terminal_failure_status st = (st \<in> {TEST_FAILED, INFRA_FAILED, TIMED_OUT, CANCELLED})"

definition diagnose ::
    "test_run \<Rightarrow> stored_result list \<Rightarrow> log_preview list \<Rightarrow> js_error + run_diagnosis option" where
  "diagnose r results logs =
     (if status r = PASSED \<or> \<not> is_terminal_failure_status (status r) then Inr None
      else (let c = build_context r results logs in
        if status r = CANCELLED then Inr (Some (diagnose_cancelled c))
        else if is_cleanup_only_failure c then Inr (Some (diagnose_cleanup_failed c))
        else sbind
          (if status r = TEST_FAILED then Inr (diagnose_test_failure c)
           else if status r = TIMED_OUT then diagnose_timeout c
           else if status r = INFRA_FAILED then diagnose_infra_failure c
           else Inr (diagnose_internal c None)) (\<lambda>d. Inr (Some d))))"

end
