(* ===== verification/Diagnosis_Props.thy ===== *)
theory Diagnosis_Props
  imports Diagnosis
begin

text \<open>
  What a diagnosis says: every failed run has one, whose category fits the run's status and failure
  category, and a wrong status of a response is diagnosed as such.
\<close>

section \<open>Patterns of words\<close>

lemma run_ilit_chars:
  "run (ilit w) k st = Some x \<Longrightarrow> lower_char ` set w \<subseteq> lower_char ` set (rest_of st)"
proof (induction w arbitrary: st)
  case Nil
  then show ?case by simp
next
  case (Cons c w)
  obtain prev s caps where st: "st = (prev, s, caps)" by (cases st)
  with Cons.prems obtain d t where s: "s = d # t" "lower_char d = lower_char c"
    "run (ilit w) k (Some d, t, caps) = Some x"
    by (cases s) (auto simp: ilit_def split: if_splits)
  from Cons.IH[OF s(3)] s(1,2) show ?case by (auto simp: st rest_of_def)
qed

lemma run_alternatives:
  "run (foldl Alt r (map ilit ws)) k st = Some x \<Longrightarrow>
     run r k st = Some x \<or> (\<exists>w\<in>set ws. run (ilit w) k st = Some x)"
proof (induction ws arbitrary: r)
  case (Cons w ws)
  from Cons.IH[of "Alt r (ilit w)"] Cons.prems show ?case
    by (cases "run r k st") auto
qed simp

lemma first_match_chars:
  "first_match r prev s = Some x \<Longrightarrow> \<exists>p t y. match_front r p t = Some y \<and> set t \<subseteq> set s"
proof (induction r prev s rule: first_match.induct)
  case (2 r prev c s)
  show ?case
  proof (cases "match_front r prev (c # s)")
    case None
    with 2 show ?thesis by (auto dest: subsetD) blast
  next
    case (Some y)
    then show ?thesis by blast
  qed
qed auto

lemma word_pattern_chars:
  assumes "rx_test (any_of (map ilit ws)) s"
  shows "\<exists>w\<in>set ws. lower_char ` set w \<subseteq> lower_char ` set s"
proof -
  obtain p t y where m: "match_front (any_of (map ilit ws)) p t = Some y" "set t \<subseteq> set s"
    using assms first_match_chars unfolding rx_test_def by blast
  then obtain w where "w \<in> set ws" "run (ilit w) Some (p, t, []) = Some y"
    by (cases ws) (auto simp: match_front_def any_of_def dest: run_alternatives split: list.splits)
  from run_ilit_chars[OF this(2)] this(1) m(2) show ?thesis by (force simp: rest_of_def)
qed

lemma no_word_matches:
  assumes "\<And>w. w \<in> set ws \<Longrightarrow> \<exists>c\<in>set w. lower_char c \<notin> lower_char ` set s"
  shows "\<not> rx_test (any_of (map ilit ws)) s"
  using word_pattern_chars[of ws s] assms by fast

lemma dec_int_digits: "c \<in> set (dec_int i) \<Longrightarrow> is_digit c \<or> c = CHR ''-''"
  using dec_nat_digits by (auto simp: dec_int_def list_all_iff split: if_splits)

lemma lower_digit: "is_digit c \<Longrightarrow> lower_char c = c"
  by (simp add: is_digit_def lower_char_def Let_def)

section \<open>Timestamps\<close>

text \<open>Every timestamp the state service writes is one the diagnosis can read.\<close>

fun dated_entry :: "string \<times> json \<Rightarrow> bool" where
  "dated_entry (k, JStr s) = (parse_date s \<noteq> None)"
| "dated_entry _ = True"

definition dated :: "json option \<Rightarrow> bool" where
  "dated v = (case v of Some (JObj es) \<Rightarrow> distinct (map fst es) \<and> list_all dated_entry es | _ \<Rightarrow> True)"

lemma dated_timestamps:
  assumes "dated v" "(k, t) \<in> set (read_phase_timestamps v)"
  shows "parse_date t \<noteq> None"
proof -
  let ?f = "\<lambda>(k, t). case t of JStr s \<Rightarrow> Some (k, s) | _ \<Rightarrow> (None :: (string \<times> string) option)"
  obtain es where v: "v = Some (JObj es)" "distinct (map fst es)" "list_all dated_entry es"
    using assms by (auto simp: dated_def read_phase_timestamps_def split: option.splits json.splits)
  have "List.map_filter ?f es = map (\<lambda>(k, t). (k, case t of JStr s \<Rightarrow> s | _ \<Rightarrow> [])) (filter is_string_entry es)"
    for es by (induction es) (auto simp: List.map_filter_simps split: json.splits prod.splits)
  then have "map fst (List.map_filter ?f es) = map fst (filter is_string_entry es)"
    by (simp add: comp_def split_beta)
  then have "distinct (map fst (List.map_filter ?f es))" using v(2) by (simp add: distinct_map_filter)
  then have "(k, JStr t) \<in> set es"
    using assms(2) by (auto simp: v(1) read_phase_timestamps_def from_entries_id map_filter_def split: json.splits)
  then show ?thesis using v(3) by (auto simp: list_all_iff dest: bspec)
qed

lemma pad_int_digits:
  assumes "i < 10 ^ n" "0 < n"
  shows "length (pad_int n i) = n" "list_all is_digit (pad_int n i)"
proof -
  have "nat i < 10 ^ n" using assms(1) by (simp add: nat_less_iff)
  then show "length (pad_int n i) = n"
    using length_dec_nat[of "nat i" n] assms(2) by (simp add: pad_int_def pad_start_def)
  show "list_all is_digit (pad_int n i)"
    using dec_nat_digits[of "nat i"] by (auto simp: pad_int_def pad_start_def is_digit_def list_all_iff)
qed

lemma length_split:
  "length s = 2 \<Longrightarrow> \<exists>a b. s = [a, b]" "length s = 3 \<Longrightarrow> \<exists>a b c. s = [a, b, c]"
  "length s = 4 \<Longrightarrow> \<exists>a b c d. s = [a, b, c, d]"
  by (auto simp: numeral_eq_Suc length_Suc_conv)

lemma parse_date_form:
  assumes "length y = 4" "length mo = 2" "length d = 2" "length h = 2" "length mi = 2" "length s = 2" "length f = 3"
    and "list_all (list_all is_digit) [y, mo, d, h, mi, s, f]"
  shows "parse_date (y @ ''-'' @ mo @ ''-'' @ d @ ''T'' @ h @ '':'' @ mi @ '':'' @ s @ ''.'' @ f @ ''Z'') \<noteq> None"
  using length_split(3)[OF assms(1)] length_split(1)[OF assms(2)] length_split(1)[OF assms(3)]
    length_split(1)[OF assms(4)] length_split(1)[OF assms(5)] length_split(1)[OF assms(6)]
    length_split(2)[OF assms(7)] assms(8)
  by (elim exE) (simp add: parse_date_def)

lemma quotient_bounds:
  "numeral k * (x div numeral k) \<le> (x :: int) \<and> x < numeral k * (x div numeral k) + numeral k"
  using pos_mod_sign[of "numeral k" x, OF zero_less_numeral] pos_mod_bound[of "numeral k" x, OF zero_less_numeral] mult_div_mod_eq[of "numeral k" x]
  by linarith

lemma civil_bounds:
  assumes "civil_of_days days = (y, m, d)" "days + 719468 < 24 * 146097"
  shows "y < 10000" "m < 100" "d < 100"
proof -
  define era where "era = (days + 719468) div 146097"
  define doe where "doe = days + 719468 - era * 146097"
  define a b c where "a = doe div 1460" and "b = doe div 36524" and "c = doe div 146096"
  define yoe where "yoe = (doe - a + b - c) div 365"
  define e f where "e = yoe div 4" and "f = yoe div 100"
  define doy where "doy = doe - (365 * yoe + e - f)"
  define mp where "mp = (5 * doy + 2) div 153"
  define g where "g = (153 * mp + 2) div 5"
  have "civil_of_days days = (yoe + era * 400 + (if (if mp < 10 then mp + 3 else mp - 9) \<le> 2 then 1 else 0),
      if mp < 10 then mp + 3 else mp - 9, doy - g + 1)"
    unfolding civil_of_days_def Let_def era_def doe_def a_def b_def c_def yoe_def e_def f_def doy_def mp_def g_def
    by (rule refl)
  then have ymd: "y \<le> yoe + era * 400 + 1" "m \<le> mp + 3" "d = doy - g + 1"
    using assms(1) by (auto split: if_splits)
  have q: "146097 * era \<le> days + 719468 \<and> days + 719468 < 146097 * era + 146097"
    "1460 * a \<le> doe \<and> doe < 1460 * a + 1460" "36524 * b \<le> doe \<and> doe < 36524 * b + 36524"
    "146096 * c \<le> doe \<and> doe < 146096 * c + 146096"
    "365 * yoe \<le> doe - a + b - c \<and> doe - a + b - c < 365 * yoe + 365"
    "4 * e \<le> yoe \<and> yoe < 4 * e + 4" "100 * f \<le> yoe \<and> yoe < 100 * f + 100"
    "153 * mp \<le> 5 * doy + 2 \<and> 5 * doy + 2 < 153 * mp + 153"
    "5 * g \<le> 153 * mp + 2 \<and> 153 * mp + 2 < 5 * g + 5"
    unfolding era_def a_def b_def c_def yoe_def e_def f_def mp_def g_def by (rule quotient_bounds)+
  have era: "era < 24" using q(1) assms(2) by linarith
  have doe: "0 \<le> doe" "doe < 146097" unfolding doe_def using q(1) by linarith+
  have y: "yoe \<le> 400" using q(2-5) doe by linarith
  have doy: "doy \<le> 380" unfolding doy_def using q(2-7) doe by linarith
  show "y < 10000" using ymd(1) era y by linarith
  show "m < 100" using ymd(2) doy q(8) by linarith
  show "d < 100" unfolding ymd(3) using doy q(8,9) by linarith
qed

lemma parse_iso_string:
  assumes "ms < (24 * 146097 - 719468) * 86400000"
  shows "parse_date (iso_string ms) \<noteq> None"
proof -
  obtain y m d where c: "civil_of_days (ms div 86400000) = (y, m, d)" by (cases "civil_of_days (ms div 86400000)")
  have "ms div 86400000 < 24 * 146097 - 719468"
    using assms by (simp add: div_less_iff_less_mult)
  then have b: "y < 10 ^ 4" "m < 10 ^ 2" "d < 10 ^ 2" using civil_bounds[OF c] by simp_all
  have small: "x mod numeral k < n" if "numeral k \<le> n" for x n :: int and k
    using pos_mod_bound[of "numeral k" x, OF zero_less_numeral] that by (rule order_less_le_trans)
  have t: "ms mod 86400000 div 3600000 < 10 ^ 2" "ms mod 86400000 div 60000 mod 60 < 10 ^ 2"
    "ms mod 86400000 div 1000 mod 60 < 10 ^ 2" "ms mod 86400000 mod 1000 < 10 ^ 3"
  proof -
    have "ms mod 86400000 < 100 * 3600000" by (rule small) simp
    then show "ms mod 86400000 div 3600000 < 10 ^ 2" by (simp add: div_less_iff_less_mult)
  qed (rule small, simp)+
  show ?thesis
    unfolding iso_string_def c Let_def prod.case
    by (rule parse_date_form) (simp_all add: pad_int_digits b[simplified] t)
qed

text \<open>A transition keeps timestamps readable, and adds a readable one.\<close>

lemma dated_update:
  "dated (Some (JObj es)) \<Longrightarrow> dated_entry (k, t) \<Longrightarrow> dated (Some (JObj (AList.update k t es)))"
proof -
  assume "dated (Some (JObj es))" "dated_entry (k, t)"
  moreover have "list_all dated_entry es \<Longrightarrow> dated_entry (k, t) \<Longrightarrow> list_all dated_entry (AList.update k t es)"
    by (induction es) auto
  ultimately show ?thesis by (simp add: dated_def distinct_update)
qed

lemma transition_keeps_dated:
  assumes "dated (phaseTimestamps r)" "now < (24 * 146097 - 719468) * 86400000"
  shows "dated (next_phase_timestamps r target now)"
proof (cases "is_phase target")
  case True
  have "dated (Some (JObj (existing_timestamps (phaseTimestamps r))))"
    using assms(1)
    by (auto simp: dated_def existing_timestamps_def list_all_iff distinct_map_filter split: option.splits json.splits)
  moreover have "dated_entry (status_name target, t)"
    if "map_of (existing_timestamps (phaseTimestamps r)) (status_name target) = Some t" for t
    using map_of_SomeD[OF that] calculation by (auto simp: dated_def list_all_iff dest: bspec)
  ultimately show ?thesis
    using True parse_iso_string[OF assms(2)]
    by (auto simp: next_phase_timestamps_def Let_def split: option.split intro!: dated_update)
qed (simp add: next_phase_timestamps_def dated_def)

lemma phase_evidence_total:
  assumes "dated v" "dcTimestamps c = read_phase_timestamps v"
  shows "\<exists>es. phase_evidence c st = Inr es"
proof (cases "phase_time (dcTimestamps c) st")
  case (Some t)
  then have "parse_date t \<noteq> None"
    using assms dated_timestamps by (auto simp: phase_time_def dest: map_of_SomeD)
  with Some show ?thesis by (auto simp: phase_evidence_def date_text_def)
qed (simp add: phase_evidence_def)

section \<open>Every failure has a diagnosis\<close>

lemma diagnosis_sel [simp]:
  "dgCategory (diagnosis c t s p r a f) = c" "dgSummary (diagnosis c t s p r a f) = s"
  "dgPrimary (diagnosis c t s p r a f) = p" "dgActions (diagnosis c t s p r a f) = a"
  by (simp_all add: diagnosis_def)

definition supported :: "diagnosis_category set \<Rightarrow> run_diagnosis \<Rightarrow> bool" where
  "supported cats d = (dgCategory d \<in> cats \<and> dgPrimary d \<noteq> [] \<and> dgActions d \<noteq> [])"

lemma supported_mono: "supported {k} d \<Longrightarrow> k \<in> cats \<Longrightarrow> supported cats d"
  by (simp add: supported_def)

lemma supported_plain:
  "supported {Diagnosed_Cancelled} (diagnose_cancelled c)"
  "supported {Cleanup_Failed} (diagnose_cleanup_failed c)"
  "supported {Internal_Runner_Error} (diagnose_internal c summary)"
  "supported {Image_Pull_Failed} (diagnose_image_pull c)"
  "supported {Dns_Network_Failure} (diagnose_network_failure c)"
  "supported {Http_Timeout} (diagnose_http_timeout f)"
  "supported {Unexpected_Status} (diagnose_unexpected_status f)"
  "supported {Assertion_Mismatch} (diagnose_assertion_mismatch f)"
  "supported {Variable_Extraction_Failed} (diagnose_variable_extraction f)"
  by (simp_all add: supported_def diagnose_cancelled_def diagnose_cleanup_failed_def diagnose_internal_def
      diagnose_image_pull_def diagnose_network_failure_def diagnose_http_timeout_def
      diagnose_unexpected_status_def diagnose_assertion_mismatch_def diagnose_variable_extraction_def Let_def)

definition yields :: "diagnosis_category set \<Rightarrow> js_error + run_diagnosis \<Rightarrow> bool" where
  "yields cats out = (\<exists>d. out = Inr d \<and> supported cats d)"

lemma yields_phased:
  assumes "dated v" "dcTimestamps c = read_phase_timestamps v"
  shows "yields {Compose_Validation_Failed} (diagnose_compose_validation c)"
    "yields {Container_Exited} (diagnose_container_exited c)"
    "yields {Port_Conflict} (diagnose_port_conflict c)"
    "yields {Healthcheck_Timeout} (diagnose_healthcheck_timeout c)"
    "yields {Healthcheck_Timeout} (diagnose_healthcheck_failure c)"
proof -
  note total = phase_evidence_total[OF assms]
  obtain e1 e2 e3 where e: "phase_evidence c VALIDATING_ENVIRONMENT = Inr e1"
    "phase_evidence c STARTING_ENVIRONMENT = Inr e2" "phase_evidence c WAITING_FOR_HEALTHCHECK = Inr e3"
    using total by blast
  show "yields {Compose_Validation_Failed} (diagnose_compose_validation c)"
    "yields {Container_Exited} (diagnose_container_exited c)"
    "yields {Port_Conflict} (diagnose_port_conflict c)"
    "yields {Healthcheck_Timeout} (diagnose_healthcheck_timeout c)"
    "yields {Healthcheck_Timeout} (diagnose_healthcheck_failure c)"
    by (simp_all add: yields_def supported_def e diagnose_compose_validation_def diagnose_container_exited_def
        diagnose_port_conflict_def diagnose_healthcheck_timeout_def diagnose_healthcheck_failure_def Let_def)
qed

lemma yields_mono: "yields {k} out \<Longrightarrow> k \<in> cats \<Longrightarrow> yields cats out"
  by (auto simp: yields_def supported_def)

lemma yields_Inr: "supported {k} d \<Longrightarrow> k \<in> cats \<Longrightarrow> yields cats (Inr d)"
  by (simp add: yields_def supported_def)

lemmas plain_supported = supported_plain[THEN supported_mono]
lemmas plain_yields = supported_plain[THEN yields_Inr]

text \<open>The categories a run of a status and a failure category can be diagnosed with.\<close>

definition possible_categories :: "test_run \<Rightarrow> bool \<Rightarrow> diagnosis_category set" where
  "possible_categories r has_failed =
     (case status r of
        CANCELLED \<Rightarrow> {Diagnosed_Cancelled}
      | TEST_FAILED \<Rightarrow>
          if has_failed then {Variable_Extraction_Failed, Assertion_Mismatch, Http_Timeout, Unexpected_Status}
          else {Internal_Runner_Error, Cleanup_Failed}
      | TIMED_OUT \<Rightarrow> {Healthcheck_Timeout, Internal_Runner_Error, Cleanup_Failed}
      | INFRA_FAILED \<Rightarrow> (case failureCategory r of
            Some ENVIRONMENT_VALIDATION \<Rightarrow> {Compose_Validation_Failed}
          | Some IMAGE_PULL \<Rightarrow> {Image_Pull_Failed}
          | Some CONTAINER_START \<Rightarrow> {Image_Pull_Failed, Port_Conflict, Container_Exited}
          | Some HEALTHCHECK \<Rightarrow> {Image_Pull_Failed, Healthcheck_Timeout}
          | Some NETWORK \<Rightarrow> {Image_Pull_Failed, Dns_Network_Failure}
          | Some TIMEOUT \<Rightarrow>
              {Image_Pull_Failed, Dns_Network_Failure, Healthcheck_Timeout, Internal_Runner_Error}
          | Some _ \<Rightarrow> {Image_Pull_Failed, Dns_Network_Failure, Internal_Runner_Error}
          | None \<Rightarrow> {Image_Pull_Failed, Dns_Network_Failure, Internal_Runner_Error, Cleanup_Failed})
      | _ \<Rightarrow> {})"

lemma yields_timeout:
  assumes "dated v" "dcTimestamps c = read_phase_timestamps v" "{Healthcheck_Timeout, Internal_Runner_Error} \<subseteq> cats"
  shows "yields cats (diagnose_timeout c)"
  using assms(3)
  by (auto simp: diagnose_timeout_def intro: yields_phased(4)[OF assms(1,2), THEN yields_mono] plain_yields)

lemma supported_test_failure:
  "supported (if dcFailedResult c \<noteq> None
      then {Variable_Extraction_Failed, Assertion_Mismatch, Http_Timeout, Unexpected_Status}
      else {Internal_Runner_Error}) (diagnose_test_failure c)"
  by (auto simp: diagnose_test_failure_def intro: plain_supported split: option.splits)

lemma yields_infra:
  assumes "dated v" "dcTimestamps c = read_phase_timestamps v" "status (dcRun c) = INFRA_FAILED"
  shows "yields (possible_categories (dcRun c) b) (diagnose_infra_failure c)"
proof (cases "failureCategory (dcRun c)")
  case None
  then show ?thesis
    using assms(3)
    by (auto simp: diagnose_infra_failure_def possible_categories_def Let_def intro: plain_yields)
next
  case (Some k)
  then show ?thesis
    using assms(3) yields_phased[OF assms(1,2)]
    by (cases k) (auto simp: diagnose_infra_failure_def possible_categories_def Let_def
        intro: plain_yields yields_phased[OF assms(1,2), THEN yields_mono] yields_timeout[OF assms(1,2)])
qed

lemma build_context_sel [simp]:
  "dcRun (build_context r results logs) = r"
  "dcTimestamps (build_context r results logs) = read_phase_timestamps (phaseTimestamps r)"
  "dcFailedResult (build_context r results logs) = find svFailed results"
  by (simp_all add: build_context_def Let_def)

text \<open>
  C18: Exactly the runs that ended in a failure have a diagnosis: if the timestamps of the run can be
  read, the engine answers, with a category that the status and the failure category of the run allow,
  and with at least one piece of evidence and one suggested action.
\<close>

theorem every_failure_is_diagnosed:
  assumes "dated (phaseTimestamps r)"
  shows "\<exists>out. diagnose r results logs = Inr out
    \<and> (out = None \<longleftrightarrow> status r \<notin> {TEST_FAILED, INFRA_FAILED, TIMED_OUT, CANCELLED})
    \<and> (\<forall>d. out = Some d \<longrightarrow> dgCategory d \<in> possible_categories r (find svFailed results \<noteq> None)
          \<and> dgPrimary d \<noteq> [] \<and> dgActions d \<noteq> [])"
proof -
  let ?c = "build_context r results logs" and ?cats = "possible_categories r (find svFailed results \<noteq> None)"
  have ts: "dcTimestamps ?c = read_phase_timestamps (phaseTimestamps r)" by simp
  have "diagnose r results logs = Inr None" if "status r \<notin> {TEST_FAILED, INFRA_FAILED, TIMED_OUT, CANCELLED}"
    using that by (auto simp: diagnose_def is_terminal_failure_status_def)
  moreover have "\<exists>d. diagnose r results logs = Inr (Some d) \<and> supported ?cats d"
    if st: "status r \<in> {TEST_FAILED, INFRA_FAILED, TIMED_OUT, CANCELLED}"
  proof (cases "is_cleanup_only_failure ?c")
    case True
    then have "status r \<noteq> CANCELLED" "failureCategory r = None" "find svFailed results = None"
      by (auto simp: is_cleanup_only_failure_def)
    with st have "Cleanup_Failed \<in> ?cats" by (auto simp: possible_categories_def)
    with st True \<open>status r \<noteq> CANCELLED\<close> supported_mono[OF supported_plain(2)] show ?thesis
      by (auto simp: diagnose_def is_terminal_failure_status_def Let_def)
  next
    case False
    have tf: "supported ?cats (diagnose_test_failure ?c)" if "status r = TEST_FAILED"
      using supported_test_failure[of ?c] that by (auto simp: possible_categories_def supported_def)
    have to: "yields ?cats (diagnose_timeout ?c)" if "status r = TIMED_OUT"
      using that by (intro yields_timeout[OF assms ts]) (auto simp: possible_categories_def)
    have inf: "yields ?cats (diagnose_infra_failure ?c)" if "status r = INFRA_FAILED"
      using yields_infra[OF assms ts, of "find svFailed results \<noteq> None"] that by simp
    have ca: "supported ?cats (diagnose_cancelled ?c)" if "status r = CANCELLED"
      using that by (intro supported_mono[OF supported_plain(1)]) (simp add: possible_categories_def)
    from st False tf to inf ca show ?thesis
      by (auto simp: diagnose_def is_terminal_failure_status_def Let_def yields_def)
  qed
  ultimately show ?thesis by (auto simp: supported_def)
qed

section \<open>A wrong status\<close>

lemma integer_text: "json_string (JNum (Fin (of_int e))) = dec_int e"
  by (simp add: dec_int_def)

lemma status_message:
  assumes "expected_status req = JNum (Fin (of_int e))" "hrActualStatus res = Some k" "k \<noteq> e"
  shows "evMessage (status_assertion res req) = Some (''Expected status '' @ dec_int e @ '', got '' @ dec_int k)"
  using assms by (simp add: status_assertion_def Let_def status_json_def option_string_def dec_int_def)

definition status_letters :: string where
  "status_letters = ''Expected status , got -''"

lemma status_message_chars:
  "c \<in> set (''Expected status '' @ dec_int e @ '', got '' @ dec_int k) \<Longrightarrow> c \<in> set status_letters \<or> is_digit c"
  using dec_int_digits[of c e] dec_int_digits[of c k] by (auto simp: status_letters_def)

lemma letter_missing:
  assumes "lower_char c \<notin> lower_char ` set status_letters" "\<not> is_digit (lower_char c)"
  shows "lower_char c \<notin> lower_char ` set (''Expected status '' @ dec_int e @ '', got '' @ dec_int k)"
proof
  assume "lower_char c \<in> lower_char ` set (''Expected status '' @ dec_int e @ '', got '' @ dec_int k)"
  then obtain d where d: "lower_char c = lower_char d"
    "d \<in> set (''Expected status '' @ dec_int e @ '', got '' @ dec_int k)" by blast
  from status_message_chars[OF d(2)] show False
  proof
    assume "d \<in> set status_letters"
    with assms(1) d(1) show False by blast
  next
    assume "is_digit d"
    with assms(2) d(1) show False by (simp add: lower_digit)
  qed
qed

lemma missing_letters:
  "list_all (\<lambda>c. lower_char c \<notin> lower_char ` set status_letters \<and> \<not> is_digit (lower_char c)) ''vjnfmbh''"
  by code_simp

lemma status_message_is_plain:
  fixes e k :: int
  defines "m \<equiv> ''Expected status '' @ dec_int e @ '', got '' @ dec_int k"
  shows "\<not> rx_test variable_extraction_pattern m" "\<not> rx_test timeout_pattern m" "\<not> str_includes m ''contains''"
proof -
  have miss: "lower_char c \<notin> lower_char ` set m" if "c \<in> set ''vjnfmbh''" for c
    unfolding m_def by (rule letter_missing) (use that missing_letters in \<open>auto simp: list_all_iff\<close>)
  have no: "\<not> rx_test (any_of (map ilit ws)) m" if "list_all (list_ex (\<lambda>c. c \<in> set ''vjnfmbh'')) ws" for ws
    using that miss by (intro no_word_matches) (fastforce simp: list_all_iff list_ex_iff simp del: list.set)
  have v: "variable_extraction_pattern = any_of (map ilit [''variable'', ''jsonpath'', ''path not found'',
      ''undefined variable'', ''failed to extract''])"
    by (simp add: variable_extraction_pattern_def)
  show "\<not> rx_test variable_extraction_pattern m" unfolding v by (rule no) code_simp
  have t: "timeout_pattern = any_of (map ilit [''timeout'', ''timed out'', ''aborted'', ''AbortError''])"
    by (simp add: timeout_pattern_def)
  show "\<not> rx_test timeout_pattern m" unfolding t by (rule no) code_simp
  have "CHR ''n'' \<notin> set m" using miss[of "CHR ''n''"] by auto
  then show "\<not> str_includes m ''contains''" by (auto simp: str_includes_iff)
qed

text \<open>
  A request that is answered with another status than expected is diagnosed as that: whatever the
  run's own message says, the diagnosis of a failed run whose first failed step is such a request, with
  no other failed assertion, is an unexpected status and its evidence names both statuses.
\<close>

theorem wrong_status_is_diagnosed:
  assumes run: "status r = TEST_FAILED" and failed: "find svFailed results = Some f"
    and step: "svStepType f = ''apiRequest''" "\<not> has_failed_json_assertion f"
    and said: "svErrorMessage f = evMessage (status_assertion res req)"
      "expected_status req = JNum (Fin (of_int (svExpectedStatus f)))"
    and got: "hrActualStatus res = Some k" "svActualStatus f = Some k" "k \<noteq> svExpectedStatus f"
  shows "\<exists>d. diagnose r results logs = Inr (Some d) \<and> dgCategory d = Unexpected_Status
    \<and> evidence_of Test_Result_Evidence ''Status code''
        (''Expected '' @ dec_int (svExpectedStatus f) @ '', actual '' @ dec_int k) (Ref_Result (svId f))
      \<in> set (dgPrimary d)"
proof -
  let ?c = "build_context r results logs"
  let ?m = "''Expected status '' @ dec_int (svExpectedStatus f) @ '', got '' @ dec_int k"
  have m: "svErrorMessage f = Some ?m" unfolding said(1) by (rule status_message) (use said got in simp_all)
  note plain = status_message_is_plain[of "svExpectedStatus f" k]
  have "\<not> is_variable_extraction_failure f ?c" "\<not> is_http_timeout f ?c" "is_unexpected_status f"
    using m plain step got
    by (simp_all add: is_variable_extraction_failure_def is_http_timeout_def is_unexpected_status_def else_text_def)
  then have "diagnose_test_failure ?c = diagnose_unexpected_status f"
    using step failed by (simp add: diagnose_test_failure_def)
  moreover have "\<not> is_cleanup_only_failure ?c" by (simp add: is_cleanup_only_failure_def failed)
  ultimately have "diagnose r results logs = Inr (Some (diagnose_unexpected_status f))"
    using run by (simp add: diagnose_def is_terminal_failure_status_def Let_def)
  then show ?thesis by (simp add: diagnose_unexpected_status_def Let_def status_text_def got)
qed

definition ended_run :: "test_run_status \<Rightarrow> failure_category option \<Rightarrow> string option \<Rightarrow> test_run" where
  "ended_run st k m =
     \<lparr>runId = ''r1'', projectId = ''p1'', status = st, statusReason = None, failureCategory = k, currentPhase = None,
      phaseTimestamps = None, queueJobId = None, queuedAt = Some 0, enqueuedAt = None, claimedAt = None,
      cancellationRequestedAt = None, cancelRequestedAt = None, cancelRequestedBy = None, cancellationReason = None,
      runnerId = None, leaseAcquiredAt = None, leaseExpiresAt = None, heartbeatAt = None, attempt = 1,
      cleanupError = None, startedAt = None, finishedAt = None, totalTests = 1, passedTests = 0, failedTests = 1,
      durationMs = None, errorMessage = m, executionMetadata = []\<rparr>"

theorem every_failure_is_diagnosed_witness:
  "\<exists>d. diagnose (ended_run INFRA_FAILED (Some CONTAINER_START) (Some ''exited (1)'')) [] [] = Inr (Some d)
    \<and> dgCategory d \<in> {Image_Pull_Failed, Port_Conflict, Container_Exited} \<and> dgPrimary d \<noteq> []"
  using every_failure_is_diagnosed[of "ended_run INFRA_FAILED (Some CONTAINER_START) (Some ''exited (1)'')" "[]" "[]"]
  by (auto simp: ended_run_def dated_def possible_categories_def)

definition wrong_status_result :: stored_result where
  "wrong_status_result =
     \<lparr>svId = ''t1'', svStepId = Some ''s1'', svStepType = ''apiRequest'', svSuiteName = ''Users'', svTestName = ''list'',
      svFailed = True, svMethod = ''GET'', svPath = ''/users'', svExpectedStatus = 200, svActualStatus = Some 500,
      svErrorMessage = Some (''Expected status '' @ dec_int 200 @ '', got '' @ dec_int 500), svAssertions = None\<rparr>"

definition plain_get :: request_config where
  "plain_get =
     \<lparr>rqMethod = ''GET'', rqPath = ''/users'', rqHeaders = None, rqQuery = None, rqJson = None, rqExpect = None,
      rqSave = None\<rparr>"

definition answered :: "int \<Rightarrow> http_result" where
  "answered st =
     \<lparr>hrActualStatus = Some st, hrResponseBody = None, hrDurationMs = 3, hrErrorMessage = None,
      hrRequestHeaders = None, hrResponseHeaders = None\<rparr>"

theorem wrong_status_is_diagnosed_witness:
  "\<exists>d. diagnose (ended_run TEST_FAILED (Some TEST_ASSERTION) (Some ''undefined variable'')) [wrong_status_result] []
      = Inr (Some d) \<and> dgCategory d = Unexpected_Status"
proof -
  have e: "expected_status plain_get = JNum (Fin (of_int 200))"
    by (simp add: expected_status_def plain_get_def coalesce_def nullish_def)
  have "evMessage (status_assertion (answered 500) plain_get) = svErrorMessage wrong_status_result"
    using status_message[OF e, of "answered 500" 500] by (simp add: answered_def wrong_status_result_def)
  then show ?thesis
    using wrong_status_is_diagnosed[of "ended_run TEST_FAILED (Some TEST_ASSERTION) (Some ''undefined variable'')"
        "[wrong_status_result]" wrong_status_result "answered 500" plain_get 500 "[]"] e
    by (auto simp: ended_run_def wrong_status_result_def has_failed_json_assertion_def read_assertions_def answered_def)
qed

section \<open>Misleading diagnoses\<close>

text \<open>
  The word \<open>pull\<close> anywhere in the message of an infrastructure failure, for instance in the address of
  a health check, makes it a failed image pull, whatever its failure category says.
\<close>

lemma pull_in_message_is_image_pull:
  assumes "status r = INFRA_FAILED" "failureCategory r = Some k" "k \<noteq> ENVIRONMENT_VALIDATION"
    and "rx_test image_pull_pattern (dcMessage (build_context r results logs))"
  shows "\<exists>d. diagnose r results logs = Inr (Some d) \<and> dgCategory d = Image_Pull_Failed"
  using assms supported_plain(4)[of "build_context r results logs"]
  by (auto simp: diagnose_def is_terminal_failure_status_def is_cleanup_only_failure_def diagnose_infra_failure_def
      supported_def Let_def)

text \<open>A request that got no response at all is diagnosed as an unexpected status.\<close>

lemma missing_response_is_unexpected_status:
  assumes "status r = TEST_FAILED" "find svFailed results = Some f" "svStepType f = ''apiRequest''"
    and "\<not> has_failed_json_assertion f" "svErrorMessage f = Some ''fetch failed''" "svActualStatus f = None"
  shows "\<exists>d. diagnose r results logs = Inr (Some d) \<and> dgCategory d = Unexpected_Status"
proof -
  let ?c = "build_context r results logs"
  have "\<not> rx_test variable_extraction_pattern ''fetch failed''" "\<not> rx_test timeout_pattern ''fetch failed''"
    "\<not> str_includes ''fetch failed'' ''contains''"
    by code_simp+
  then have "\<not> is_variable_extraction_failure f ?c" "\<not> is_http_timeout f ?c" "is_unexpected_status f"
    using assms by (simp_all add: is_variable_extraction_failure_def is_http_timeout_def is_unexpected_status_def else_text_def)
  then have "diagnose r results logs = Inr (Some (diagnose_unexpected_status f))"
    using assms by (simp add: diagnose_test_failure_def diagnose_def is_terminal_failure_status_def
        is_cleanup_only_failure_def Let_def)
  then show ?thesis using supported_plain(7)[of f] by (simp add: supported_def)
qed

end
