(* ===== verification/Run_Report.thy ===== *)
theory Run_Report
  imports Diagnosis_Props
begin

text \<open>
  The report of a run (\<open>test-runs/test-run-diagnosis.service.ts\<close>): its headline and primary failure, the
  results of the environment and of the health check, and the timeline of its phases.
\<close>

section \<open>Phases\<close>

record phase_definition =
  pdId :: string
  pdLabel :: string
  pdStatuses :: "test_run_status list"

definition phase_definitions :: "phase_definition list" where
  "phase_definitions =
     [\<lparr>pdId = ''queued'', pdLabel = ''Queued'', pdStatuses = [QUEUED, CLAIMED]\<rparr>,
      \<lparr>pdId = ''workspace'', pdLabel = ''Workspace'', pdStatuses = [PREPARING_WORKSPACE]\<rparr>,
      \<lparr>pdId = ''validation'', pdLabel = ''Validation'', pdStatuses = [VALIDATING_ENVIRONMENT]\<rparr>,
      \<lparr>pdId = ''image_preparation'', pdLabel = ''Image preparation'', pdStatuses = [PULLING_IMAGES]\<rparr>,
      \<lparr>pdId = ''environment_startup'', pdLabel = ''Environment startup'', pdStatuses = [STARTING_ENVIRONMENT]\<rparr>,
      \<lparr>pdId = ''healthcheck'', pdLabel = ''Healthcheck'', pdStatuses = [WAITING_FOR_HEALTHCHECK]\<rparr>,
      \<lparr>pdId = ''tests'', pdLabel = ''Tests'', pdStatuses = [EXECUTING_TESTS]\<rparr>,
      \<lparr>pdId = ''artifact_collection'', pdLabel = ''Artifact collection'', pdStatuses = [COLLECTING_ARTIFACTS]\<rparr>,
      \<lparr>pdId = ''cleanup'', pdLabel = ''Cleanup'', pdStatuses = [CLEANING_UP]\<rparr>]"

definition terminal_failures :: "test_run_status list" where
  "terminal_failures = [TEST_FAILED, INFRA_FAILED, TIMED_OUT, CANCELLED]"

definition is_terminal :: "test_run_status \<Rightarrow> bool" where
  "is_terminal st = (st = PASSED \<or> st \<in> set terminal_failures)"

definition phase_index :: "test_run_status \<Rightarrow> nat" where
  "phase_index st = length (takeWhile (\<lambda>p. p \<noteq> st) phase_statuses)"

definition has_reached_phase :: "test_run \<Rightarrow> test_run_status \<Rightarrow> bool" where
  "has_reached_phase r st =
     (if phase_time (read_phase_timestamps (phaseTimestamps r)) st \<noteq> None then True
      else if is_phase (status r) \<and> is_phase st
      then phase_index (status r) > phase_index st
      else status r = PASSED \<or> status r \<in> set terminal_failures \<and> is_phase st)"

definition failed_phase_id :: "test_run \<Rightarrow> string option" where
  "failed_phase_id r =
     (if status r \<notin> set terminal_failures then None
      else if failureCategory r = Some ENVIRONMENT_VALIDATION then Some ''validation''
      else if failureCategory r = Some IMAGE_PULL then Some ''image_preparation''
      else if failureCategory r = Some CONTAINER_START then Some ''environment_startup''
      else if failureCategory r = Some HEALTHCHECK then Some ''healthcheck''
      else if failureCategory r = Some TEST_ASSERTION then Some ''tests''
      else (let ts = read_phase_timestamps (phaseTimestamps r) in
        map_option pdId (find (\<lambda>d. list_ex (\<lambda>st. phase_time ts st \<noteq> None) (pdStatuses d))
          (rev phase_definitions))))"

definition active_phase_id :: "test_run \<Rightarrow> string option" where
  "active_phase_id r =
     (if is_terminal (status r) then None
      else (case status r of
          QUEUED \<Rightarrow> Some ''queued'' | CLAIMED \<Rightarrow> Some ''queued''
        | PREPARING_WORKSPACE \<Rightarrow> Some ''workspace'' | VALIDATING_ENVIRONMENT \<Rightarrow> Some ''validation''
        | PULLING_IMAGES \<Rightarrow> Some ''image_preparation'' | STARTING_ENVIRONMENT \<Rightarrow> Some ''environment_startup''
        | WAITING_FOR_HEALTHCHECK \<Rightarrow> Some ''healthcheck'' | EXECUTING_TESTS \<Rightarrow> Some ''tests''
        | COLLECTING_ARTIFACTS \<Rightarrow> Some ''artifact_collection'' | CLEANING_UP \<Rightarrow> Some ''cleanup''
        | _ \<Rightarrow> None))"

section \<open>The timeline\<close>

datatype phase_state = Phase_Pending | Phase_Skipped | Phase_Failed | Phase_Active | Phase_Completed

record timeline_entry =
  tlId :: string
  tlLabel :: string
  tlState :: phase_state
  tlStartedAt :: "string option"
  tlFinishedAt :: "string option"
  tlDurationMs :: "int option"

text \<open>A date; \<open>None\<close> is an invalid one, which is a date nevertheless.\<close>

type_synonym js_date = "int option"

definition phase_start :: "test_run \<Rightarrow> phase_definition \<Rightarrow> js_date option" where
  "phase_start r d =
     (let ts = read_phase_timestamps (phaseTimestamps r) in
      if pdId d = ''queued''
      then (case queuedAt r of
          Some t \<Rightarrow> Some (Some t)
        | None \<Rightarrow> map_option parse_date (phase_time ts (hd (pdStatuses d))))
      else map_option parse_date
        (case find (\<lambda>st. phase_time ts st \<noteq> None) (pdStatuses d) of None \<Rightarrow> None | Some st \<Rightarrow> phase_time ts st))"

definition next_start :: "js_date option list \<Rightarrow> js_date option" where
  "next_start starts = (case find (\<lambda>s. s \<noteq> None) starts of None \<Rightarrow> None | Some s \<Rightarrow> s)"

definition uses_docker_compose :: "test_run \<Rightarrow> bool" where
  "uses_docker_compose r = (map_of (executionMetadata r) ''usesDockerCompose'' \<noteq> Some (JBool False))"

definition phase_state_of ::
    "test_run \<Rightarrow> phase_definition \<Rightarrow> js_date option \<Rightarrow> js_date option \<Rightarrow> phase_state" where
  "phase_state_of r d started finished =
     (if \<not> uses_docker_compose r \<and> pdId d \<in> {''image_preparation'', ''environment_startup''} \<and> started = None
      then Phase_Skipped
      else if Some (pdId d) = failed_phase_id r then Phase_Failed
      else if Some (pdId d) = active_phase_id r then Phase_Active
      else if started \<noteq> None \<and> (finished \<noteq> None \<or> is_terminal (status r)) then Phase_Completed
      else Phase_Pending)"

definition date_string :: "js_date option \<Rightarrow> js_error + string option" where
  "date_string d =
     (case d of None \<Rightarrow> Inr None | Some None \<Rightarrow> Inl invalid_time | Some (Some ms) \<Rightarrow> Inr (Some (iso_string ms)))"

definition duration_between :: "js_date option \<Rightarrow> js_date option \<Rightarrow> int option" where
  "duration_between started finished =
     (case (started, finished) of (Some (Some s), Some (Some f)) \<Rightarrow> Some (max (f - s) 0) | _ \<Rightarrow> None)"

definition entry_of_phase ::
    "test_run \<Rightarrow> phase_definition \<Rightarrow> js_date option \<Rightarrow> js_date option list \<Rightarrow> js_error + timeline_entry" where
  "entry_of_phase r d started later =
     (let finished = (case next_start later of
          Some f \<Rightarrow> Some f
        | None \<Rightarrow> if pdId d = ''cleanup'' then map_option Some (finishedAt r) else None) in
      sbind (date_string started) (\<lambda>s.
      sbind (date_string finished) (\<lambda>f.
      Inr \<lparr>tlId = pdId d, tlLabel = pdLabel d, tlState = phase_state_of r d started finished,
           tlStartedAt = s, tlFinishedAt = f, tlDurationMs = duration_between started finished\<rparr>)))"

fun timeline_from :: "test_run \<Rightarrow> phase_definition list \<Rightarrow> js_error + timeline_entry list" where
  "timeline_from r [] = Inr []"
| "timeline_from r (d # ds) =
     sbind (entry_of_phase r d (phase_start r d) (map (phase_start r) ds)) (\<lambda>e.
     sbind (timeline_from r ds) (\<lambda>es. Inr (e # es)))"

definition build_phase_timeline :: "test_run \<Rightarrow> js_error + timeline_entry list" where
  "build_phase_timeline r = timeline_from r phase_definitions"

section \<open>Environment and health check\<close>

definition reported :: "json option \<Rightarrow> bool" where
  "reported v = (case v of None \<Rightarrow> False | Some j \<Rightarrow> json_truthy j)"

definition own_message :: "test_run \<Rightarrow> string option" where
  "own_message r = (case errorMessage r of None \<Rightarrow> statusReason r | m \<Rightarrow> m)"

definition build_environment_result :: "test_run \<Rightarrow> json" where
  "build_environment_result r =
     (let stored = map_of (executionMetadata r) ''environmentResult'' in
      if reported stored then the stored
      else if failureCategory r = Some ENVIRONMENT_VALIDATION
      then obj_of [(''status'', Some (JStr ''failed'')), (''validationPassed'', Some (JBool False)),
        (''message'', map_option JStr (own_message r))]
      else if has_reached_phase r VALIDATING_ENVIRONMENT
      then obj_of [(''status'', Some (JStr ''passed'')), (''validationPassed'', Some (JBool True))]
      else if \<not> uses_docker_compose r
      then obj_of [(''status'', Some (JStr ''skipped'')), (''validationPassed'', Some (JBool True))]
      else obj_of [(''status'', Some (JStr ''not_reached''))])"

definition build_healthcheck_result :: "test_run \<Rightarrow> json" where
  "build_healthcheck_result r =
     (let stored = map_of (executionMetadata r) ''healthcheckResult'' in
      if reported stored then the stored
      else if failureCategory r = Some HEALTHCHECK
      then obj_of [(''status'', Some (JStr ''failed'')), (''message'', map_option JStr (own_message r))]
      else if has_reached_phase r EXECUTING_TESTS \<or> status r = PASSED
      then obj_of [(''status'', Some (JStr ''passed''))]
      else obj_of [(''status'', Some (JStr ''not_reached''))])"

section \<open>The primary failure\<close>

datatype failure_kind =
  Failed_Step | Failed_Environment | Failed_Healthcheck | Failed_Infrastructure | Failed_By_Cancellation

record primary_failure =
  pyKind :: failure_kind
  pyPhase :: string
  pyResult :: "string option"
  pyStep :: "string option"
  pySuite :: "string option"
  pyTest :: "string option"
  pyMessage :: string
  pyExpected :: "json option"
  pyActual :: "json option"
  pyAssertions :: "stored_assertion list"

definition primary :: "failure_kind \<Rightarrow> string \<Rightarrow> string \<Rightarrow> primary_failure" where
  "primary kind phase message =
     \<lparr>pyKind = kind, pyPhase = phase, pyResult = None, pyStep = None, pySuite = None, pyTest = None,
      pyMessage = message, pyExpected = None, pyActual = None, pyAssertions = []\<rparr>"

definition primary_failure_from :: "stored_result \<Rightarrow> primary_failure" where
  "primary_failure_from f =
     (let assertions = read_assertions (svAssertions f);
          failed = find (\<lambda>a. \<not> sxPassed a) assertions;
          number = (\<lambda>n :: int. JNum (Fin (of_int n))) in
      \<lparr>pyKind = Failed_Step, pyPhase = ''tests'', pyResult = Some (svId f), pyStep = svStepId f,
       pySuite = Some (svSuiteName f), pyTest = Some (svTestName f),
       pyMessage = else_text (svErrorMessage f) (else_text (Option.bind failed sxMessage) ''Test step failed''),
       pyExpected = coalesce (Option.bind failed sxExpected) (Some (number (svExpectedStatus f))),
       pyActual = coalesce (Option.bind failed sxActual)
         (Some (case svActualStatus f of None \<Rightarrow> JNull | Some n \<Rightarrow> number n)),
       pyAssertions = assertions\<rparr>)"

definition failed_status :: "json \<Rightarrow> bool" where
  "failed_status j = (opt_prop (Some j) ''status'' = Some (JStr ''failed''))"

definition build_primary_failure ::
    "test_run \<Rightarrow> stored_result list \<Rightarrow> json \<Rightarrow> json \<Rightarrow> primary_failure option" where
  "build_primary_failure r results environment health =
     (let failed = find svFailed results;
          told = (\<lambda>j d. else_text (meta_text (opt_prop (Some j) ''message'')) (else_text (own_message r) d)) in
      if \<not> is_terminal (status r) \<or> status r = PASSED then None
      else if status r = CANCELLED
      then Some (primary Failed_By_Cancellation ''cancelled''
        (else_text (cancellationReason r) (else_text (statusReason r) ''Run was cancelled'')))
      else if failureCategory r = Some TEST_ASSERTION \<and> failed \<noteq> None
      then Some (primary_failure_from (the failed))
      else if failureCategory r = Some ENVIRONMENT_VALIDATION \<or> failed_status environment
      then Some (primary Failed_Environment ''validation'' (told environment ''Environment validation failed''))
      else if failureCategory r = Some HEALTHCHECK \<or> failed_status health
      then Some ((primary Failed_Healthcheck ''healthcheck'' (told health ''Healthcheck failed''))
        \<lparr>pyExpected := opt_prop (Some health) ''expectedStatus'', pyActual := opt_prop (Some health) ''actualStatus''\<rparr>)
      else (case failed of
          Some f \<Rightarrow> Some (primary_failure_from f)
        | None \<Rightarrow> Some (primary Failed_Infrastructure
            (case currentPhase r of None \<Rightarrow> ''infrastructure'' | Some st \<Rightarrow> status_name st)
            (else_text (own_message r) ''Run failed before tests completed''))))"

definition build_headline :: "test_run \<Rightarrow> primary_failure option \<Rightarrow> string" where
  "build_headline r failure =
     (if status r = PASSED then ''All tests passed''
      else if truthy_str (map_option pyMessage failure) then pyMessage (the failure)
      else if truthy_str (statusReason r) then the (statusReason r)
      else if truthy_str (errorMessage r) then the (errorMessage r)
      else ''Run finished with status '' @ status_name (status r))"

record run_report =
  rpCategory :: "failure_category option"
  rpHeadline :: string
  rpPrimary :: "primary_failure option"
  rpEnvironment :: json
  rpHealthcheck :: json
  rpCleanupError :: "string option"
  rpRunnerId :: "string option"
  rpErrorMessage :: "string option"
  rpDiagnosis :: "run_diagnosis option"

definition build_report :: "test_run \<Rightarrow> stored_result list \<Rightarrow> log_preview list \<Rightarrow> js_error + run_report" where
  "build_report r results logs =
     (let environment = build_environment_result r; health = build_healthcheck_result r;
          failure = build_primary_failure r results environment health in
      sbind (diagnose r results logs) (\<lambda>d.
      Inr \<lparr>rpCategory = failureCategory r, rpHeadline = build_headline r failure, rpPrimary = failure,
           rpEnvironment = environment, rpHealthcheck = health, rpCleanupError = cleanupError r,
           rpRunnerId = runnerId r, rpErrorMessage = errorMessage r, rpDiagnosis = d\<rparr>))"

section \<open>Properties\<close>

lemma dated_phase_time: "dated (phaseTimestamps r) \<Longrightarrow>
    phase_time (read_phase_timestamps (phaseTimestamps r)) st = Some t \<Longrightarrow> parse_date t \<noteq> None"
  using dated_timestamps by (auto simp: phase_time_def dest: map_of_SomeD)

lemma dated_start: "dated (phaseTimestamps r) \<Longrightarrow> phase_start r d = Some x \<Longrightarrow> x \<noteq> None"
  using dated_phase_time[of r] by (auto simp: phase_start_def Let_def split: if_splits option.splits) metis

lemma next_start_Some: "next_start ss = Some x \<Longrightarrow> Some x \<in> set ss"
  by (auto simp: next_start_def find_Some_iff split: option.splits) (metis nth_mem)

lemma date_string_total: "x \<noteq> Some None \<Longrightarrow> \<exists>s. date_string x = Inr s \<and> (s = None \<longleftrightarrow> x = None)"
  by (auto simp: date_string_def split: option.splits)

definition finish_of :: "test_run \<Rightarrow> phase_definition \<Rightarrow> js_date option list \<Rightarrow> js_date option" where
  "finish_of r d later = (case next_start later of
     Some f \<Rightarrow> Some f | None \<Rightarrow> if pdId d = ''cleanup'' then map_option Some (finishedAt r) else None)"

definition sound_entry :: "test_run \<Rightarrow> phase_definition \<Rightarrow> timeline_entry \<Rightarrow> bool" where
  "sound_entry r d e =
     (tlId e = pdId d
      \<and> (tlState e = Phase_Failed \<longrightarrow> Some (pdId d) = failed_phase_id r)
      \<and> (tlState e = Phase_Active \<longrightarrow> Some (pdId d) = active_phase_id r)
      \<and> (tlState e = Phase_Completed \<longrightarrow> tlStartedAt e \<noteq> None)
      \<and> (\<forall>n. tlDurationMs e = Some n \<longrightarrow> 0 \<le> n))"

lemma entry_of_phase_sound:
  assumes "dated (phaseTimestamps r)"
  shows "\<exists>e. entry_of_phase r d (phase_start r d) (map (phase_start r) ds) = Inr e \<and> sound_entry r d e"
proof -
  let ?f = "finish_of r d (map (phase_start r) ds)"
  have "phase_start r d \<noteq> Some None" using dated_start[OF assms] by blast
  then obtain s where s: "date_string (phase_start r d) = Inr s" "s = None \<longleftrightarrow> phase_start r d = None"
    using date_string_total by metis
  have "?f \<noteq> Some None"
    using dated_start[OF assms] next_start_Some[of "map (phase_start r) ds"]
    by (auto simp: finish_of_def split: option.splits)
  then obtain f where f: "date_string ?f = Inr f" using date_string_total by metis
  have "0 \<le> n" if "duration_between x y = Some n" for x y n
    using that by (auto simp: duration_between_def split: option.splits)
  with s f show ?thesis
    by (auto simp: entry_of_phase_def finish_of_def[symmetric] sound_entry_def phase_state_of_def Let_def)
qed

lemma timeline_sound:
  assumes "dated (phaseTimestamps r)"
  shows "\<exists>es. timeline_from r ds = Inr es \<and> list_all2 (sound_entry r) ds es"
proof (induction ds)
  case (Cons d ds)
  then show ?case using entry_of_phase_sound[OF assms, of d ds] by (auto simp del: list.map)
qed simp

lemma filter_key_le: "distinct (map f xs) \<Longrightarrow> length (filter (\<lambda>x. Some (f x) = y) xs) \<le> 1"
proof (induction xs)
  case (Cons x xs)
  then show ?case by (cases "Some (f x) = y") (auto simp: filter_empty_conv image_iff)
qed simp

lemma filter_length_mono: "\<forall>x\<in>set xs. P x \<longrightarrow> Q x \<Longrightarrow> length (filter P xs) \<le> length (filter Q xs)"
  by (induction xs) (auto simp: le_SucI)

lemma one_mark: "failed_phase_id r = None \<or> active_phase_id r = None"
  by (auto simp: failed_phase_id_def active_phase_id_def is_terminal_def)

lemma marked_le:
  assumes "list_all2 (sound_entry r) ds es" "distinct (map pdId ds)"
  shows "length (filter (\<lambda>e. tlState e \<in> {Phase_Failed, Phase_Active}) es) \<le> 1"
proof -
  define y where "y = (if failed_phase_id r = None then active_phase_id r else failed_phase_id r)"
  have ids: "map tlId es = map pdId ds"
    using assms(1) by induction (auto simp: sound_entry_def)
  have "Some (tlId e) = y" if "sound_entry r d e" "tlState e \<in> {Phase_Failed, Phase_Active}" for d e
    using that one_mark[of r] by (auto simp: sound_entry_def y_def)
  then have "\<forall>e\<in>set es. tlState e \<in> {Phase_Failed, Phase_Active} \<longrightarrow> Some (tlId e) = y"
    using assms(1) by (fastforce simp: list_all2_conv_all_nth in_set_conv_nth)
  then have "length (filter (\<lambda>e. tlState e \<in> {Phase_Failed, Phase_Active}) es) \<le> length (filter (\<lambda>e. Some (tlId e) = y) es)"
    by (rule filter_length_mono)
  also have "\<dots> \<le> 1" by (rule filter_key_le) (simp add: ids assms(2))
  finally show ?thesis .
qed

lemma length_phase_definitions: "length phase_definitions = 9"
  by (simp add: phase_definitions_def)

text \<open>
  The timeline of a run whose timestamps can be read always exists and lists the nine phases in their
  order.  At most one of them is marked as active or failed, an active one only while the run goes on and
  a failed one only if it ended in a failure; a phase shown as completed was started, and no duration is
  negative, even where the clock went back.
\<close>

theorem timeline_marks_one_phase:
  assumes "dated (phaseTimestamps r)"
  shows "\<exists>es. build_phase_timeline r = Inr es \<and> map tlId es = map pdId phase_definitions
    \<and> length (filter (\<lambda>e. tlState e \<in> {Phase_Failed, Phase_Active}) es) \<le> 1
    \<and> (\<forall>e\<in>set es. (tlState e = Phase_Active \<longrightarrow> \<not> is_terminal (status r))
        \<and> (tlState e = Phase_Failed \<longrightarrow> is_terminal (status r) \<and> status r \<noteq> PASSED)
        \<and> (tlState e = Phase_Completed \<longrightarrow> tlStartedAt e \<noteq> None)
        \<and> (\<forall>n. tlDurationMs e = Some n \<longrightarrow> 0 \<le> n))"
proof -
  obtain es where es: "build_phase_timeline r = Inr es" "list_all2 (sound_entry r) phase_definitions es"
    using timeline_sound[OF assms] unfolding build_phase_timeline_def by blast
  have "map tlId es = map pdId phase_definitions"
    using es(2) by induction (auto simp: sound_entry_def)
  moreover have "length (filter (\<lambda>e. tlState e \<in> {Phase_Failed, Phase_Active}) es) \<le> 1"
    by (rule marked_le[OF es(2)]) (simp add: phase_definitions_def)
  moreover have "\<exists>d. sound_entry r d e" if "e \<in> set es" for e
    using es(2) that by (auto simp: list_all2_conv_all_nth in_set_conv_nth)
  moreover have "failed_phase_id r \<noteq> None \<Longrightarrow> is_terminal (status r) \<and> status r \<noteq> PASSED"
    "active_phase_id r \<noteq> None \<Longrightarrow> \<not> is_terminal (status r)"
    by (auto simp: failed_phase_id_def active_phase_id_def is_terminal_def terminal_failures_def split: if_splits)
  ultimately show ?thesis using es(1) unfolding sound_entry_def by (metis option.distinct(1))
qed

theorem timeline_marks_one_phase_witness:
  "\<exists>es. build_phase_timeline (ended_run INFRA_FAILED (Some HEALTHCHECK) None) = Inr es \<and> length es = 9"
proof -
  have "dated (phaseTimestamps (ended_run INFRA_FAILED (Some HEALTHCHECK) None))"
    by (simp add: ended_run_def dated_def)
  from timeline_marks_one_phase[OF this] obtain es where
    "build_phase_timeline (ended_run INFRA_FAILED (Some HEALTHCHECK) None) = Inr es"
    "map tlId es = map pdId phase_definitions" by blast
  then show ?thesis by (metis length_map length_phase_definitions)
qed

text \<open>The evidence of a failed step's diagnosis is that step.\<close>

lemma step_evidence:
  "dcFailedResult c = Some f \<Longrightarrow> e \<in> set (dgPrimary (diagnose_test_failure c)) \<Longrightarrow> deRef e = Ref_Result (svId f)"
  by (auto simp: diagnose_test_failure_def diagnose_http_timeout_def diagnose_unexpected_status_def
      diagnose_assertion_mismatch_def diagnose_variable_extraction_def test_result_evidence_def evidence_of_def Let_def
      split: if_splits option.splits)

text \<open>
  The two accounts of a run that failed in its tests agree: the primary failure is its first failed
  step, the headline is that step's message, and every piece of primary evidence of the structured
  diagnosis refers to the same step.
\<close>

theorem report_and_diagnosis_agree:
  assumes "status r = TEST_FAILED" "failureCategory r = Some TEST_ASSERTION" "find svFailed results = Some f"
    and "svErrorMessage f = Some m" "m \<noteq> []"
  shows "\<exists>report p d. build_report r results logs = Inr report \<and> rpHeadline report = m
    \<and> rpPrimary report = Some p \<and> pyResult p = Some (svId f) \<and> pyMessage p = m
    \<and> rpDiagnosis report = Some d \<and> (\<forall>e\<in>set (dgPrimary d). deRef e = Ref_Result (svId f))"
proof -
  let ?c = "build_context r results logs"
  have "\<not> is_cleanup_only_failure ?c" by (simp add: is_cleanup_only_failure_def assms(3))
  then have "diagnose r results logs = Inr (Some (diagnose_test_failure ?c))"
    using assms(1) by (simp add: diagnose_def is_terminal_failure_status_def Let_def)
  moreover have "deRef e = Ref_Result (svId f)" if "e \<in> set (dgPrimary (diagnose_test_failure ?c))" for e
    using step_evidence[OF _ that] assms(3) by simp
  ultimately show ?thesis
    using assms by (simp add: build_report_def build_primary_failure_def build_headline_def is_terminal_def
        terminal_failures_def primary_failure_from_def else_text_def Let_def)
qed

theorem report_and_diagnosis_agree_witness:
  "\<exists>report. build_report (ended_run TEST_FAILED (Some TEST_ASSERTION) None)
      [wrong_status_result\<lparr>svFailed := False\<rparr>, wrong_status_result] [] = Inr report
    \<and> Option.bind (rpPrimary report) pyResult = Some ''t1''"
  using report_and_diagnosis_agree[of "ended_run TEST_FAILED (Some TEST_ASSERTION) None"
      "[wrong_status_result\<lparr>svFailed := False\<rparr>, wrong_status_result]" wrong_status_result _ "[]"]
  by (auto simp: ended_run_def wrong_status_result_def)

text \<open>
  A run that was cancelled before any phase began is reported as one whose environment was validated and
  whose health check passed: an ended run counts as having reached every phase.
\<close>

lemma cancelled_in_queue_reported_healthy:
  assumes "status r = CANCELLED" "phaseTimestamps r = None" "executionMetadata r = []"
    and "failureCategory r \<in> {None, Some CANCELLED_CATEGORY}"
  shows "opt_prop (Some (build_environment_result r)) ''status'' = Some (JStr ''passed'')
    \<and> opt_prop (Some (build_healthcheck_result r)) ''status'' = Some (JStr ''passed'')"
  using assms by (auto simp: build_environment_result_def build_healthcheck_result_def reported_def has_reached_phase_def
      is_phase_def phase_statuses_def terminal_failures_def read_phase_timestamps_def phase_time_def obj_of_def
      opt_prop_def Let_def)

end
