(* ===== verification/Run_Comparison.thy ===== *)
theory Run_Comparison
  imports Diagnosis_Props
begin

text \<open>
  The comparison of a run with the last run of its project that passed
  (\<open>test-runs/test-run-comparison.service.ts\<close>).  The runs of the project come as a list.
\<close>

section \<open>What is compared\<close>

record timed_result = stored_result +
  trDurationMs :: int

record comparison_run =
  cnRun :: test_run
  cnResults :: "timed_result list"
  cnEnvironment :: "(string \<times> nat) option"
  cnSuites :: "(string \<times> nat) list"

record run_ref =
  rfId :: string
  rfStatus :: test_run_status
  rfFinishedAt :: "string option"

record suite_comparison =
  scName :: string
  scCurrent :: nat
  scBaseline :: "nat option"
  scChanged :: bool

record image_comparison =
  icService :: string
  icCurrent :: "string option"
  icBaseline :: "string option"
  icChanged :: bool

record step_diff =
  sdStep :: "string option"
  sdTest :: string
  sdCurrentFailed :: bool
  sdBaselineFailed :: "bool option"
  sdStatusChanged :: bool
  sdCurrentActual :: "int option"
  sdBaselineActual :: "int option"
  sdCurrentMs :: int
  sdBaselineMs :: "int option"
  sdRegressionMs :: "int option"
  sdRegressionPercent :: "rat option"

record run_comparison =
  rcBaseline :: "run_ref option"
  rcCurrent :: run_ref
  rcEnvironmentCurrent :: "(string \<times> nat) option"
  rcEnvironmentBaseline :: "(string \<times> nat) option"
  rcEnvironmentChanged :: bool
  rcSuites :: "suite_comparison list"
  rcImages :: "image_comparison list"
  rcSteps :: "step_diff list"
  rcStatusChanges :: nat
  rcRegressions :: nat

text \<open>\<open>new Map(entries)\<close>: the last entry of a key counts.\<close>

definition js_map :: "('k \<times> 'v) list \<Rightarrow> 'k \<Rightarrow> 'v option" where
  "js_map entries = map_of (rev entries)"

section \<open>The baseline\<close>

definition find_baseline :: "comparison_run list \<Rightarrow> comparison_run \<Rightarrow> comparison_run option" where
  "find_baseline all current =
     (case finishedAt (cnRun current) of
        None \<Rightarrow> None
      | Some t \<Rightarrow>
          (let earlier = filter (\<lambda>c. projectId (cnRun c) = projectId (cnRun current) \<and> status (cnRun c) = PASSED
                 \<and> (case finishedAt (cnRun c) of None \<Rightarrow> False | Some f \<Rightarrow> f < t)) all in
           case sort_by (\<lambda>l r. descending (the (finishedAt (cnRun l))) (the (finishedAt (cnRun r)))) earlier of
             [] \<Rightarrow> None | c # _ \<Rightarrow> Some c))"

section \<open>The comparisons\<close>

definition compare_suite_revisions :: "(string \<times> nat) list \<Rightarrow> (string \<times> nat) list \<Rightarrow> suite_comparison list" where
  "compare_suite_revisions current baseline =
     map (\<lambda>(name, n). let old = js_map baseline name in
       \<lparr>scName = name, scCurrent = n, scBaseline = old, scChanged = (old \<noteq> None \<and> Some n \<noteq> old)\<rparr>) current"

definition read_image_references :: "test_run \<Rightarrow> (string \<times> string) list" where
  "read_image_references r =
     (case map_of (executionMetadata r) ''imageReferences'' of
        Some (JArr xs) \<Rightarrow> List.map_filter (\<lambda>x.
          case (opt_prop (Some x) ''serviceName'', opt_prop (Some x) ''image'') of
            (Some (JStr s), Some (JStr i)) \<Rightarrow> Some (s, i) | _ \<Rightarrow> None) xs
      | _ \<Rightarrow> [])"

definition compare_image_references ::
    "(string \<times> string) list \<Rightarrow> (string \<times> string) list \<Rightarrow> image_comparison list" where
  "compare_image_references current baseline =
     map (\<lambda>s. let new = js_map current s; old = js_map baseline s in
        \<lparr>icService = s, icCurrent = new, icBaseline = old, icChanged = (new \<noteq> old)\<rparr>)
       (rev (remdups (rev (map fst current @ map fst baseline))))"

definition step_baseline :: "timed_result list \<Rightarrow> timed_result \<Rightarrow> timed_result option" where
  "step_baseline baseline current =
     (let by_step = js_map (map (\<lambda>r. (the (svStepId r), r)) (filter (\<lambda>r. truthy_str (svStepId r)) baseline));
          by_name = js_map (map (\<lambda>r. (svTestName r, r)) baseline) in
      case (if truthy_str (svStepId current) then by_step (the (svStepId current)) else None) of
        Some b \<Rightarrow> Some b
      | None \<Rightarrow> by_name (svTestName current))"

definition diff_of_step :: "timed_result list \<Rightarrow> timed_result \<Rightarrow> step_diff" where
  "diff_of_step baseline current =
     (let b = step_baseline baseline current;
          ms = map_option (\<lambda>b. trDurationMs current - trDurationMs b) b in
      \<lparr>sdStep = svStepId current, sdTest = svTestName current, sdCurrentFailed = svFailed current,
       sdBaselineFailed = map_option svFailed b,
       sdStatusChanged = (case b of None \<Rightarrow> False | Some b \<Rightarrow> svFailed b \<noteq> svFailed current),
       sdCurrentActual = svActualStatus current, sdBaselineActual = Option.bind b svActualStatus,
       sdCurrentMs = trDurationMs current, sdBaselineMs = map_option trDurationMs b,
       sdRegressionMs = ms,
       sdRegressionPercent = (case b of
           None \<Rightarrow> None
         | Some b \<Rightarrow> if trDurationMs b > 0
             then Some (of_int (the ms) / of_int (trDurationMs b) * 100) else None)\<rparr>)"

definition build_step_diffs :: "timed_result list \<Rightarrow> timed_result list \<Rightarrow> step_diff list" where
  "build_step_diffs current baseline = map (diff_of_step baseline) current"

definition ref_of_run :: "comparison_run \<Rightarrow> run_ref" where
  "ref_of_run c = \<lparr>rfId = runId (cnRun c), rfStatus = status (cnRun c),
     rfFinishedAt = map_option iso_string (finishedAt (cnRun c))\<rparr>"

definition compare_run :: "comparison_run list \<Rightarrow> comparison_run \<Rightarrow> run_comparison" where
  "compare_run all current =
     (let baseline = find_baseline all current;
          steps = build_step_diffs (cnResults current) (case baseline of None \<Rightarrow> [] | Some b \<Rightarrow> cnResults b);
          old = Option.bind baseline cnEnvironment in
      \<lparr>rcBaseline = map_option ref_of_run baseline, rcCurrent = ref_of_run current,
       rcEnvironmentCurrent = cnEnvironment current, rcEnvironmentBaseline = old,
       rcEnvironmentChanged = (map_option fst (cnEnvironment current) \<noteq> map_option fst old),
       rcSuites = compare_suite_revisions (cnSuites current) (case baseline of None \<Rightarrow> [] | Some b \<Rightarrow> cnSuites b),
       rcImages = compare_image_references (read_image_references (cnRun current))
         (case baseline of None \<Rightarrow> [] | Some b \<Rightarrow> read_image_references (cnRun b)),
       rcSteps = steps,
       rcStatusChanges = length (filter sdStatusChanged steps),
       rcRegressions = length (filter (\<lambda>d. case sdRegressionPercent d of None \<Rightarrow> False | Some p \<Rightarrow> p > 20) steps)\<rparr>)"

section \<open>Properties\<close>

definition passed_before :: "comparison_run \<Rightarrow> comparison_run \<Rightarrow> bool" where
  "passed_before current c =
     (projectId (cnRun c) = projectId (cnRun current) \<and> status (cnRun c) = PASSED
      \<and> (\<exists>f t. finishedAt (cnRun c) = Some f \<and> finishedAt (cnRun current) = Some t \<and> f < t))"

lemma find_baseline_first:
  "find_baseline all current =
     (case sort_by (\<lambda>l r. descending (the (finishedAt (cnRun l))) (the (finishedAt (cnRun r))))
        (filter (passed_before current) all) of [] \<Rightarrow> None | c # _ \<Rightarrow> Some c)"
proof (cases "finishedAt (cnRun current)")
  case None
  then show ?thesis by (simp add: find_baseline_def passed_before_def sort_by_def)
next
  case (Some t)
  then have "filter (passed_before current) all
      = filter (\<lambda>c. projectId (cnRun c) = projectId (cnRun current) \<and> status (cnRun c) = PASSED
                 \<and> (case finishedAt (cnRun c) of None \<Rightarrow> False | Some f \<Rightarrow> f < t)) all"
    by (intro filter_cong) (auto simp: passed_before_def split: option.splits)
  with Some show ?thesis by (simp add: find_baseline_def Let_def)
qed

text \<open>
  A run is compared with the latest run of its project that passed and finished before it, and with
  none exactly if there is no such run.
\<close>

theorem baseline_is_latest_pass:
  "case find_baseline all current of
     None \<Rightarrow> \<not> (\<exists>c\<in>set all. passed_before current c)
   | Some b \<Rightarrow> b \<in> set all \<and> passed_before current b
       \<and> \<not> (\<exists>c\<in>set all. passed_before current c \<and> the (finishedAt (cnRun b)) < the (finishedAt (cnRun c)))"
proof -
  let ?key = "\<lambda>c. the (finishedAt (cnRun c))"
  let ?xs = "filter (passed_before current) all"
  show ?thesis
  proof (cases "sort_by (\<lambda>l r. descending (?key l) (?key r)) ?xs")
    case Nil
    then have "?xs = []" by (metis length_0_conv length_sort_by)
    with Nil show ?thesis by (auto simp: find_baseline_first filter_empty_conv)
  next
    case (Cons b rest)
    obtain i where i: "i < length ?xs" "?xs ! i = b" "\<forall>j<length ?xs. ?key (?xs ! j) \<le> ?key b"
      using down.sort_by_first[OF Cons] by (auto simp: descending_def)
    then have "b \<in> set ?xs" by (metis nth_mem)
    moreover have "?key c \<le> ?key b" if "c \<in> set ?xs" for c
      using that i(3) by (auto simp: in_set_conv_nth simp del: set_filter)
    ultimately show ?thesis using Cons by (fastforce simp: find_baseline_first)
  qed
qed

lemma js_map_distinct: "distinct (map fst es) \<Longrightarrow> js_map es = map_of es"
  by (simp add: js_map_def map_of_inject_set rev_map[symmetric])

lemma step_baseline_by_id:
  assumes "distinct (map svStepId rs)" "\<forall>r\<in>set rs. truthy_str (svStepId r)" "b \<in> set rs" "svStepId b = svStepId r"
  shows "step_baseline rs r = Some b"
proof -
  have all: "filter (\<lambda>r. truthy_str (svStepId r)) rs = rs" using assms(2) by (simp add: filter_id_conv)
  have ids: "Some (the (svStepId x)) = svStepId x" if "x \<in> set rs" for x
    using assms(2) that by (cases "svStepId x") auto
  have "inj_on (\<lambda>x. the (svStepId x)) (set rs)"
    using assms(1) ids unfolding distinct_map inj_on_def by metis
  then have "distinct (map (\<lambda>x. the (svStepId x)) rs)" using assms(1) by (simp add: distinct_map)
  then have "js_map (map (\<lambda>r. (the (svStepId r), r)) rs) (the (svStepId b)) = Some b"
    using assms(3) by (simp add: js_map_distinct comp_def map_of_eq_Some_iff)
  then show ?thesis using assms(2-4) by (auto simp: step_baseline_def Let_def all)
qed

text \<open>
  Step results are compared by the ids of the steps: if each step of both runs has its own id, a step
  counts as changed exactly if the step with its id had the other verdict, and runs with the same results
  show no change and no regression.
\<close>

theorem steps_are_compared_by_id:
  assumes "distinct (map svStepId (cnResults b))" "\<forall>r\<in>set (cnResults b). truthy_str (svStepId r)"
    and "find_baseline all current = Some b"
    and "\<forall>r\<in>set (cnResults current). svStepId r \<in> svStepId ` set (cnResults b)"
  shows "rcStatusChanges (compare_run all current)
      = length (filter (\<lambda>r. \<exists>p\<in>set (cnResults b). svStepId p = svStepId r \<and> svFailed p \<noteq> svFailed r) (cnResults current))
    \<and> (cnResults current = cnResults b \<longrightarrow>
        rcStatusChanges (compare_run all current) = 0 \<and> rcRegressions (compare_run all current) = 0)"
proof -
  have base: "\<exists>p\<in>set (cnResults b). svStepId p = svStepId r \<and> step_baseline (cnResults b) r = Some p"
    if "r \<in> set (cnResults current)" for r
    using step_baseline_by_id[OF assms(1,2)] assms(4) that by (metis (no_types, lifting) image_iff)
  have uniq: "p = q" if "p \<in> set (cnResults b)" "q \<in> set (cnResults b)" "svStepId p = svStepId q" for p q
    using assms(1) that by (auto simp: distinct_map inj_on_def)
  have changed: "sdStatusChanged (diff_of_step (cnResults b) r)
      \<longleftrightarrow> (\<exists>p\<in>set (cnResults b). svStepId p = svStepId r \<and> svFailed p \<noteq> svFailed r)"
    if r: "r \<in> set (cnResults current)" for r
  proof -
    obtain p where p: "p \<in> set (cnResults b)" "svStepId p = svStepId r" "step_baseline (cnResults b) r = Some p"
      using base[OF r] by blast
    then have "sdStatusChanged (diff_of_step (cnResults b) r) \<longleftrightarrow> svFailed p \<noteq> svFailed r"
      by (simp add: diff_of_step_def Let_def)
    with p uniq show ?thesis by metis
  qed
  let ?changed = "\<lambda>r. \<exists>p\<in>set (cnResults b). svStepId p = svStepId r \<and> svFailed p \<noteq> svFailed r"
  have "rcStatusChanges (compare_run all current)
      = length (filter (\<lambda>r. sdStatusChanged (diff_of_step (cnResults b) r)) (cnResults current))"
    by (simp add: compare_run_def assms(3) build_step_diffs_def filter_map comp_def Let_def)
  also have "filter (\<lambda>r. sdStatusChanged (diff_of_step (cnResults b) r)) (cnResults current)
      = filter ?changed (cnResults current)"
    by (rule filter_cong[OF refl], rule changed)
  finally have count: "rcStatusChanges (compare_run all current) = length (filter ?changed (cnResults current))" .
  have "step_baseline (cnResults b) r = Some r" if "cnResults current = cnResults b" "r \<in> set (cnResults b)" for r
    using step_baseline_by_id[OF assms(1,2) that(2)] by simp
  then have "rcRegressions (compare_run all current) = 0 \<and> rcStatusChanges (compare_run all current) = 0"
    if "cnResults current = cnResults b"
    using that by (auto simp: compare_run_def assms(3) build_step_diffs_def diff_of_step_def Let_def filter_empty_conv)
  with count show ?thesis by blast
qed

definition step_result :: "string \<Rightarrow> string \<Rightarrow> bool \<Rightarrow> int \<Rightarrow> timed_result" where
  "step_result i suite failed ms =
     \<lparr>svId = i, svStepId = Some ''s1'', svStepType = ''apiRequest'', svSuiteName = suite, svTestName = ''first'',
      svFailed = failed, svMethod = ''GET'', svPath = ''/'', svExpectedStatus = 200, svActualStatus = Some 200,
      svErrorMessage = None, svAssertions = None, trDurationMs = ms\<rparr>"

definition finished_run :: "string \<Rightarrow> int \<Rightarrow> timed_result list \<Rightarrow> comparison_run" where
  "finished_run i t results =
     \<lparr>cnRun = (ended_run PASSED None None)\<lparr>runId := i, finishedAt := Some t\<rparr>, cnResults = results, cnEnvironment = None,
      cnSuites = []\<rparr>"

lemma baseline_of_two:
  "find_baseline [finished_run ''r1'' 10 rs, finished_run ''r2'' 20 rs'] (finished_run ''r2'' 20 rs')
     = Some (finished_run ''r1'' 10 rs)"
  by (simp add: find_baseline_def finished_run_def ended_run_def sort_by_def)

theorem steps_are_compared_by_id_witness:
  "rcStatusChanges (compare_run [finished_run ''r1'' 10 [step_result ''t1'' ''A'' True 5],
      finished_run ''r2'' 20 [step_result ''t2'' ''A'' False 6]] (finished_run ''r2'' 20 [step_result ''t2'' ''A'' False 6])) = 1"
  using steps_are_compared_by_id[OF _ _ baseline_of_two, of "[step_result ''t1'' ''A'' True 5]" "[step_result ''t2'' ''A'' False 6]"]
  by (simp add: finished_run_def step_result_def)

text \<open>
  Step ids are unique only within a suite.  Two equal runs of two suites with the same step id show a
  regression: the slow step is compared with the fast one of the other suite.
\<close>

lemma equal_runs_show_regression:
  "rcRegressions (compare_run [finished_run ''r1'' 10 [step_result ''t1'' ''A'' False 50, step_result ''t2'' ''B'' False 10],
      finished_run ''r2'' 20 [step_result ''t1'' ''A'' False 50, step_result ''t2'' ''B'' False 10]]
      (finished_run ''r2'' 20 [step_result ''t1'' ''A'' False 50, step_result ''t2'' ''B'' False 10])) = 1"
  unfolding compare_run_def baseline_of_two Let_def
  by (simp add: finished_run_def build_step_diffs_def diff_of_step_def step_baseline_def step_result_def js_map_def)

end
