(* ===== verification/Flow_Editor.thy ===== *)
theory Flow_Editor
  imports Plan_Compiler
begin

text \<open>
  The flow editor of the user interface without its rendering
  (\<open>src/testing-environment-frontend/src/features/test-suites/flow-builder\<close>): the graph functions, the
  validation, the node factory, the clipboard, and the state of the editor with its history.  Nodes and
  edges are those of the compilers (theory \<open>Flow_Types\<close>); the position of a node on the canvas is kept
  beside it.  \<open>addEdge\<close> and \<open>applyNodeChanges\<close> of the drawing library are parameters.
\<close>

section \<open>The graph\<close>

text \<open>
  \<open>topologicalSort\<close> visits the targets in the order of the edges and, unlike the compilers, queues
  every target, whether it is one of the nodes or not.
\<close>

definition topological_sort :: "string list \<Rightarrow> edge_list \<Rightarrow> string list" where
  "topological_sort ids es =
     kahn None False (map (\<lambda>i. (i, i)) (ids @ map snd es)) id (outgoing_targets es) (incoming_count es)
       (filter (\<lambda>i. incoming_count es i = 0) ids) []"

definition has_cycle :: "string list \<Rightarrow> edge_list \<Rightarrow> bool" where
  "has_cycle ids es = (length (topological_sort ids es) \<noteq> length ids)"

definition edges_branch :: "edge_list \<Rightarrow> bool" where
  "edges_branch es =
     (list_ex (\<lambda>e. 1 < incoming_count es (snd e)) es
      \<or> list_ex (\<lambda>e. 1 < length (outgoing_targets es (fst e))) es)"

definition can_connect_linear :: "string \<Rightarrow> string \<Rightarrow> edge_list \<Rightarrow> bool" where
  "can_connect_linear source target es =
     (source \<noteq> target \<and> filter (\<lambda>e. snd e = target) es = [] \<and> filter (\<lambda>e. fst e = source) es = [])"

definition find_orphan_node_ids :: "string list \<Rightarrow> edge_list \<Rightarrow> string list" where
  "find_orphan_node_ids ids es =
     (if length ids \<le> 1 then []
      else if es = [] then drop 1 ids
      else filter (\<lambda>i. i \<notin> fst ` set es \<union> snd ` set es) ids)"

fun find_duplicate_ids :: "string list \<Rightarrow> string list \<Rightarrow> string list \<Rightarrow> string list" where
  "find_duplicate_ids seen duplicates [] = duplicates"
| "find_duplicate_ids seen duplicates (i # ids) =
     find_duplicate_ids (i # seen)
       (if i \<in> set seen \<and> i \<notin> set duplicates then duplicates @ [i] else duplicates) ids"

section \<open>Nodes\<close>

definition editor_retry_policy :: retry_policy where
  "editor_retry_policy = \<lparr>maxAttempts = Fin 1, backoffMs = Fin 0\<rparr>"

definition normalize_node :: "flow_node \<Rightarrow> flow_node" where
  "normalize_node n =
     (let t = (case nType n of None \<Rightarrow> ''apiRequest'' | Some t \<Rightarrow> t) in
      n\<lparr>nType := Some t,
        nVersion := Some (case nVersion n of None \<Rightarrow> t @ ''/v1'' | Some v \<Rightarrow> v),
        nTimeoutMs := Some (case nTimeoutMs n of None \<Rightarrow> Fin 30000 | Some m \<Rightarrow> m),
        nRetryPolicy := Some (case nRetryPolicy n of None \<Rightarrow> editor_retry_policy | Some r \<Rightarrow> r),
        nContinueOnFailure := Some (nContinueOnFailure n = Some True)\<rparr>)"

definition shown_text :: "string option \<Rightarrow> string" where
  "shown_text v = (case v of None \<Rightarrow> ''undefined'' | Some s \<Rightarrow> s)"

definition shown_number :: "jsnum option \<Rightarrow> string" where
  "shown_number v = (case v of None \<Rightarrow> ''undefined'' | Some n \<Rightarrow> num_string n)"

definition shown_json :: "json option \<Rightarrow> string" where
  "shown_json v = (case v of None \<Rightarrow> ''undefined'' | Some j \<Rightarrow> json_string j)"

definition step_type_label :: "flow_node \<Rightarrow> string" where
  "step_type_label n =
     (if is_node_type ''wait'' n then ''Wait''
      else if is_node_type ''pollUntil'' n then ''Poll until''
      else if is_node_type ''setVariable'' n then ''Set variable''
      else if is_node_type ''assert'' n then ''Assert''
      else text_of (nMethod n))"

definition step_summary :: "flow_node \<Rightarrow> string" where
  "step_summary n =
     (if is_node_type ''wait'' n then shown_number (nDurationMs n) @ '' ms''
      else if is_node_type ''pollUntil'' n
      then shown_text (nMethod n) @ '' '' @ shown_text (nPath n) @ '' for '' @ shown_number (nTimeoutSeconds n) @ ''s''
      else if is_node_type ''setVariable'' n then text_of (nVariableName n)
      else if is_node_type ''assert'' n
      then shown_text (nFieldPath n) @ '' '' @ shown_json (nOperator n)
      else text_of (nPath n))"

definition flow_variables :: "flow_node list \<Rightarrow> string list" where
  "flow_variables ns =
     rev (remdups (rev (filter (\<lambda>v. v \<noteq> [])
       (concat (map (\<lambda>n.
          if is_node_type ''wait'' n \<or> is_node_type ''assert'' n then []
          else if is_node_type ''setVariable'' n then [text_of (nVariableName n)]
          else (case nSave n of None \<Rightarrow> [] | Some es \<Rightarrow> map fst es)) ns)))))"

definition node_matches_search :: "flow_node \<Rightarrow> string \<Rightarrow> bool" where
  "node_matches_search n query =
     (let normalized = to_lower (trim query) in
      normalized = [] \<or>
      str_includes (to_lower (join_with '' '' [text_of (nName n), node_id n, step_type_label n, step_summary n,
        if nType n \<in> {None, Some ''apiRequest'', Some ''pollUntil''} then text_of (nPath n) else []])) normalized)"

section \<open>Validation\<close>

datatype validation_field =
    Name_Field | Path_Field | Duration_Field | Variable_Field | Field_Path_Field | Timeout_Field
  | Interval_Field | Assertions_Field | Save_Field | Graph_Field

record validation_issue =
  viNode :: string
  viField :: validation_field
  viMessage :: string

definition issue :: "string \<Rightarrow> validation_field \<Rightarrow> string \<Rightarrow> validation_issue" where
  "issue i f m = \<lparr>viNode = i, viField = f, viMessage = m\<rparr>"

definition issue_if :: "bool \<Rightarrow> 'a \<Rightarrow> 'a list" where
  "issue_if b x = (if b then [x] else [])"

text \<open>\<open>v.trim()\<close> of a field the types declare as a string.\<close>

definition trimmed_field :: "string option \<Rightarrow> js_error + string" where
  "trimmed_field v =
     (case v of None \<Rightarrow> Inl (TypeError ''Cannot read properties of undefined (reading 'trim')'') | Some s \<Rightarrow> Inr (trim s))"

definition assertion_issue :: "flow_node \<Rightarrow> flow_assertion \<Rightarrow> js_error + validation_issue list" where
  "assertion_issue n a =
     sbind (trimmed_field (faFieldPath a)) (\<lambda>p.
     Inr (issue_if (p = []) (issue (node_id n) Assertions_Field
       (''Assertion in \"'' @ node_name n @ ''\" needs a response field path.''))))"

definition poll_issues :: "flow_node \<Rightarrow> validation_issue list" where
  "poll_issues n =
     issue_if (\<not> is_positive (nTimeoutSeconds n)) (issue (node_id n) Timeout_Field
         (''Poll step \"'' @ node_name n @ ''\" needs a timeout greater than 0 seconds.''))
     @ issue_if (\<not> is_positive (nIntervalSeconds n)) (issue (node_id n) Interval_Field
         (''Poll step \"'' @ node_name n @ ''\" needs a retry interval greater than 0 seconds.''))
     @ issue_if (case (nTimeoutSeconds n, nIntervalSeconds n) of (Some t, Some i) \<Rightarrow> num_less t i | _ \<Rightarrow> False)
         (issue (node_id n) Interval_Field
           (''Poll step \"'' @ node_name n @ ''\" interval cannot be greater than timeout.''))"

definition request_issues :: "flow_node \<Rightarrow> js_error + validation_issue list" where
  "request_issues n =
     sbind (trimmed_field (nPath n)) (\<lambda>p.
     sbind (traverse (assertion_issue n) (node_assertions n)) (\<lambda>as.
     Inr (issue_if (p = []) (issue (node_id n) Path_Field (''API step \"'' @ node_name n @ ''\" needs a path.''))
       @ concat (map (\<lambda>(k, v). issue_if (trim k = []) (issue (node_id n) Save_Field
           (''Saved variable in \"'' @ node_name n @ ''\" needs a name.'')))
         (case nSave n of None \<Rightarrow> [] | Some es \<Rightarrow> es))
       @ concat as
       @ (if is_node_type ''pollUntil'' n then poll_issues n else []))))"

definition config_issues :: "flow_node \<Rightarrow> js_error + validation_issue list" where
  "config_issues n =
     (if is_node_type ''wait'' n
      then Inr (issue_if (\<not> is_positive (nDurationMs n)) (issue (node_id n) Duration_Field
        (''Wait step \"'' @ node_name n @ ''\" needs a duration greater than 0 ms.'')))
      else if is_node_type ''setVariable'' n
      then sbind (trimmed_field (nVariableName n)) (\<lambda>v.
        Inr (issue_if (v = []) (issue (node_id n) Variable_Field
          (''Set variable step \"'' @ node_name n @ ''\" needs a variable name.''))))
      else if is_node_type ''assert'' n
      then sbind (trimmed_field (nFieldPath n)) (\<lambda>p.
        Inr (issue_if (p = []) (issue (node_id n) Field_Path_Field
          (''Assert step \"'' @ node_name n @ ''\" needs a response field path.''))))
      else request_issues n)"

definition node_issues :: "flow_node \<Rightarrow> js_error + validation_issue list" where
  "node_issues n =
     sbind (trimmed_field (nName n)) (\<lambda>name.
     sbind (config_issues n) (\<lambda>rest.
     Inr (issue_if (name = []) (issue (node_id n) Name_Field (''Step '' @ node_id n @ '' needs a name.'')) @ rest)))"

definition graph_issues :: "string list \<Rightarrow> edge_list \<Rightarrow> validation_issue list" where
  "graph_issues ids es =
     map (\<lambda>i. issue i Graph_Field (''Duplicate step id \"'' @ i @ ''\".'')) (find_duplicate_ids [] [] ids)
     @ (if has_cycle ids es
        then map (\<lambda>i. issue i Graph_Field ''Flow contains a cycle. Steps must form a directed acyclic graph.'') ids
        else [])
     @ (if edges_branch es
        then map (\<lambda>i. issue i Graph_Field
          ''Branching flows are not supported. Each step can have at most one incoming and one outgoing connection.'') ids
        else [])
     @ map (\<lambda>i. issue i Graph_Field ''Step is not connected to the flow.'') (find_orphan_node_ids ids es)"

definition validate_editor_flow :: "flow_node list \<Rightarrow> flow_edge list \<Rightarrow> js_error + validation_issue list" where
  "validate_editor_flow ns es =
     sbind (traverse node_issues (map normalize_node ns)) (\<lambda>rest.
     Inr (graph_issues (map node_id ns) (map edge_pair es) @ concat rest))"

definition issues_for_node :: "validation_issue list \<Rightarrow> string \<Rightarrow> validation_issue list" where
  "issues_for_node issues i = filter (\<lambda>x. viNode x = i) issues"

definition node_is_valid :: "validation_issue list \<Rightarrow> string \<Rightarrow> bool" where
  "node_is_valid issues i = (length (issues_for_node issues i) = 0)"

section \<open>The flow that is saved\<close>

definition build_flow_definition :: "string \<Rightarrow> flow_node list \<Rightarrow> flow_edge list \<Rightarrow> flow_suite" where
  "build_flow_definition suite ns es =
     \<lparr>fVersion = Some ''1.1'', fSuiteName = Some suite, fNodes = Elements ns, fEdges = Elements es\<rparr>"

end
