(* ===== verification/Editor_State.thy ===== *)
theory Editor_State
  imports Flow_Editor
begin

text \<open>
  The state of the flow editor (\<open>flow-builder/hooks/useFlowEditorState.ts\<close> with the factory, clipboard,
  layout and serialization functions it calls): nodes and edges, selection, and the history behind undo
  and redo.  Every handler runs on the state of the last rendering.  \<open>now\<close> is the clock.
\<close>

type_synonym position = "rat \<times> rat"

record editor_node =
  enId :: string
  enPosition :: position
  enFlow :: flow_node

type_synonym snapshot = "editor_node list \<times> flow_edge list"

section \<open>The factory\<close>

definition default_position :: "nat \<Rightarrow> position" where
  "default_position index = (120 + of_nat index * 48, 80 + of_nat index * 32)"

definition node_shell :: "string \<Rightarrow> string \<Rightarrow> string \<Rightarrow> jsnum \<Rightarrow> flow_node" where
  "node_shell i t name timeout =
     \<lparr>nId = Some i, nName = Some name, nType = Some t, nVersion = Some (t @ ''/v1''), nTimeoutMs = Some timeout,
      nRetryPolicy = Some editor_retry_policy, nContinueOnFailure = Some False, nMethod = None, nPath = None,
      nHeaders = None, nQuery = None, nJsonBody = None, nExpectStatus = None, nJsonContains = None,
      nAssertions = None, nSave = None, nDurationMs = None, nTimeoutSeconds = None, nIntervalSeconds = None,
      nFailureMessage = None, nVariableName = None, nValue = None, nFromStepId = None, nSourceStepId = None,
      nFieldPath = None, nOperator = None, nExpectedValue = None\<rparr>"

definition fresh_id :: "string \<Rightarrow> int \<Rightarrow> nat \<Rightarrow> string" where
  "fresh_id kind now index = kind @ ''-'' @ dec_int now @ ''-'' @ dec_nat index"

definition create_api_node :: "int \<Rightarrow> nat \<Rightarrow> flow_node" where
  "create_api_node now index =
     (node_shell (fresh_id ''api'' now index) ''apiRequest'' (''API call '' @ dec_nat index) (Fin 30000))
       \<lparr>nMethod := Some ''GET'', nPath := Some ''/'', nExpectStatus := Some (JNum (Fin 200))\<rparr>"

definition create_wait_node :: "int \<Rightarrow> nat \<Rightarrow> flow_node" where
  "create_wait_node now index =
     (node_shell (fresh_id ''wait'' now index) ''wait'' (''Wait '' @ dec_nat index) (Fin 60000))
       \<lparr>nDurationMs := Some (Fin 1000)\<rparr>"

definition create_poll_node :: "int \<Rightarrow> nat \<Rightarrow> flow_node" where
  "create_poll_node now index =
     (node_shell (fresh_id ''poll'' now index) ''pollUntil'' (''Poll '' @ dec_nat index) (Fin 30000))
       \<lparr>nMethod := Some ''GET'', nPath := Some ''/'', nExpectStatus := Some (JNum (Fin 200)),
        nTimeoutSeconds := Some (Fin 30), nIntervalSeconds := Some (Fin 2)\<rparr>"

definition create_set_variable_node :: "int \<Rightarrow> nat \<Rightarrow> flow_node" where
  "create_set_variable_node now index =
     (node_shell (fresh_id ''set-variable'' now index) ''setVariable'' (''Set variable '' @ dec_nat index) (Fin 30000))
       \<lparr>nVariableName := Some (''variable_'' @ dec_nat index), nValue := Some (JStr [])\<rparr>"

definition create_assert_node :: "int \<Rightarrow> nat \<Rightarrow> flow_node" where
  "create_assert_node now index =
     (node_shell (fresh_id ''assert'' now index) ''assert'' (''Assert '' @ dec_nat index) (Fin 30000))
       \<lparr>nFieldPath := Some ''$.'', nOperator := Some (JStr ''exists'')\<rparr>"

datatype node_template = Health_Check | Create_Resource | Poll_Status | Wait_1s | Assert_Field

definition create_node_from_template :: "node_template \<Rightarrow> int \<Rightarrow> nat \<Rightarrow> flow_node" where
  "create_node_from_template t now index =
     (case t of
        Health_Check \<Rightarrow> (create_api_node now index)\<lparr>nName := Some ''Health check'', nMethod := Some ''GET'',
          nPath := Some ''/health'', nExpectStatus := Some (JNum (Fin 200))\<rparr>
      | Create_Resource \<Rightarrow> (create_api_node now index)\<lparr>nName := Some ''Create resource'', nMethod := Some ''POST'',
          nPath := Some ''/resources'', nExpectStatus := Some (JNum (Fin 201))\<rparr>
      | Poll_Status \<Rightarrow> (create_poll_node now index)\<lparr>nName := Some ''Poll status'', nMethod := Some ''GET'',
          nPath := Some ''/status'', nTimeoutSeconds := Some (Fin 60), nIntervalSeconds := Some (Fin 2)\<rparr>
      | Wait_1s \<Rightarrow> (create_wait_node now index)\<lparr>nName := Some ''Wait 1s'', nDurationMs := Some (Fin 1000)\<rparr>
      | Assert_Field \<Rightarrow> (create_assert_node now index)\<lparr>nName := Some ''Assert field exists'',
          nFieldPath := Some ''$.data'', nOperator := Some (JStr ''exists'')\<rparr>)"

section \<open>Serialization, clipboard, layout\<close>

definition to_react_node :: "flow_node \<Rightarrow> position \<Rightarrow> editor_node" where
  "to_react_node n p = \<lparr>enId = node_id n, enPosition = p, enFlow = n\<rparr>"

definition to_react_nodes :: "(flow_node \<times> position) list \<Rightarrow> editor_node list" where
  "to_react_nodes ns = map (\<lambda>(n, p). to_react_node (normalize_node n) p) ns"

record clipboard =
  clNodes :: "(flow_node \<times> position) list"
  clEdges :: "(string \<times> string) list"

definition copy_selection :: "editor_node list \<Rightarrow> flow_edge list \<Rightarrow> string list \<Rightarrow> clipboard" where
  "copy_selection ns es selected =
     \<lparr>clNodes = map (\<lambda>n. (enFlow n, enPosition n)) (filter (\<lambda>n. enId n \<in> set selected) ns),
      clEdges = map edge_pair (filter (\<lambda>e. eSource e \<in> set selected \<and> eTarget e \<in> set selected) es)\<rparr>"

definition pasted_id :: "int \<Rightarrow> flow_node \<Rightarrow> nat \<Rightarrow> string" where
  "pasted_id now n index = fresh_id (node_type n) now index"

text \<open>The map from copied to new ids; a copied edge whose end was not copied would have no id here.\<close>

definition id_map :: "int \<Rightarrow> clipboard \<Rightarrow> string \<Rightarrow> string" where
  "id_map now c i =
     shown_text (map_of (rev (map (\<lambda>(k, n, p). (node_id n, pasted_id now n k)) (enumerate 0 (clNodes c)))) i)"

definition paste_clipboard :: "int \<Rightarrow> clipboard \<Rightarrow> editor_node list \<Rightarrow> editor_node list \<times> flow_edge list" where
  "paste_clipboard now c existing =
     (existing @ map (\<lambda>(k, n, p). to_react_node (n\<lparr>nId := Some (pasted_id now n k)\<rparr>) (fst p + 40, snd p + 40))
        (enumerate 0 (clNodes c)),
      map (\<lambda>(k, a, b). \<lparr>eId = ''edge-'' @ id_map now c a @ ''-'' @ id_map now c b @ ''-'' @ dec_int now @ ''-'' @ dec_nat k,
                        eSource = id_map now c a, eTarget = id_map now c b\<rparr>)
        (enumerate 0 (clEdges c)))"

definition duplicate_nodes ::
    "int \<Rightarrow> editor_node list \<Rightarrow> flow_edge list \<Rightarrow> string list \<Rightarrow> editor_node list \<times> flow_edge list \<times> string list" where
  "duplicate_nodes now ns es selected =
     (case paste_clipboard now (copy_selection ns es selected) ns of (ns', new) \<Rightarrow>
       (ns', es @ new, map enId (drop (length ns) ns')))"

definition index_of :: "string list \<Rightarrow> string \<Rightarrow> int" where
  "index_of ids i = (if i \<in> set ids then int (length (takeWhile (\<lambda>j. j \<noteq> i) ids)) else - 1)"

definition auto_layout :: "editor_node list \<Rightarrow> flow_edge list \<Rightarrow> editor_node list" where
  "auto_layout ns es =
     (let ordered = topological_sort (map enId ns) (map edge_pair es) in
      map (\<lambda>n. n\<lparr>enPosition := (80 + of_int (index_of ordered (enId n)) * 280, 120)\<rparr>) ns)"

section \<open>State and history\<close>

record editor =
  edNodes :: "editor_node list"
  edEdges :: "flow_edge list"
  edSelected :: "string list"
  edHistory :: "snapshot list"
  edIndex :: nat
  edSkipHistory :: bool
  edCanUndo :: bool
  edCanRedo :: bool
  edClipboard :: "clipboard option"

definition history_limit :: nat where
  "history_limit = 50"

definition open_editor :: "(flow_node \<times> position) list \<Rightarrow> flow_edge list \<Rightarrow> editor" where
  "open_editor ns es =
     (let nodes = to_react_nodes ns in
      \<lparr>edNodes = nodes, edEdges = es, edSelected = (case nodes of [] \<Rightarrow> [] | n # _ \<Rightarrow> [enId n]),
       edHistory = [(nodes, es)], edIndex = 0, edSkipHistory = False, edCanUndo = False, edCanRedo = False,
       edClipboard = None\<rparr>)"

definition sync_history_flags :: "editor \<Rightarrow> editor" where
  "sync_history_flags s =
     s\<lparr>edCanUndo := edIndex s > 0, edCanRedo := edIndex s < length (edHistory s) - 1\<rparr>"

definition commit_snapshot :: "snapshot \<Rightarrow> editor \<Rightarrow> editor" where
  "commit_snapshot snap s =
     (if edSkipHistory s then s\<lparr>edSkipHistory := False\<rparr>
      else (let truncated = take (edIndex s + 1) (edHistory s) @ [snap];
                kept = (if length truncated > history_limit then tl truncated else truncated) in
        sync_history_flags (s\<lparr>edHistory := kept, edIndex := length kept - 1\<rparr>)))"

definition apply_snapshot :: "snapshot \<Rightarrow> editor \<Rightarrow> editor" where
  "apply_snapshot snap s =
     sync_history_flags (s\<lparr>edSkipHistory := True, edNodes := fst snap, edEdges := snd snap,
       edSelected := filter (\<lambda>i. i \<in> enId ` set (fst snap)) (edSelected s)\<rparr>)"

definition set_state_with_history :: "editor_node list \<Rightarrow> flow_edge list \<Rightarrow> editor \<Rightarrow> editor" where
  "set_state_with_history ns es s = commit_snapshot (ns, es) (s\<lparr>edNodes := ns, edEdges := es\<rparr>)"

definition undo :: "editor \<Rightarrow> editor" where
  "undo s =
     (if edIndex s = 0 then s
      else apply_snapshot (edHistory s ! (edIndex s - 1)) (s\<lparr>edIndex := edIndex s - 1\<rparr>))"

definition redo :: "editor \<Rightarrow> editor" where
  "redo s =
     (if edIndex s \<ge> length (edHistory s) - 1 then s
      else apply_snapshot (edHistory s ! (edIndex s + 1)) (s\<lparr>edIndex := edIndex s + 1\<rparr>))"

definition select_node :: "string option \<Rightarrow> bool \<Rightarrow> editor \<Rightarrow> editor" where
  "select_node i adding s =
     s\<lparr>edSelected :=
        (if \<not> truthy_str i then []
         else if adding
         then (if the i \<in> set (edSelected s) then filter (\<lambda>j. j \<noteq> the i) (edSelected s) else edSelected s @ [the i])
         else [the i])\<rparr>"

definition select_all :: "editor \<Rightarrow> editor" where
  "select_all s = s\<lparr>edSelected := map enId (edNodes s)\<rparr>"

section \<open>Editing\<close>

type_synonym edge_adder = "flow_edge \<Rightarrow> flow_edge list \<Rightarrow> flow_edge list"

definition add_node :: "edge_adder \<Rightarrow> int \<Rightarrow> flow_node \<Rightarrow> position \<Rightarrow> editor \<Rightarrow> editor" where
  "add_node add_edge now n p s =
     (let nodes = edNodes s;
          edges = (if nodes = [] then edEdges s
            else add_edge \<lparr>eId = ''edge-'' @ enId (last nodes) @ ''-'' @ node_id n @ ''-'' @ dec_int now,
                   eSource = enId (last nodes), eTarget = node_id n\<rparr> (edEdges s)) in
      (set_state_with_history (nodes @ [to_react_node n p]) edges s)\<lparr>edSelected := [node_id n]\<rparr>)"

definition add_template :: "edge_adder \<Rightarrow> int \<Rightarrow> node_template \<Rightarrow> editor \<Rightarrow> editor" where
  "add_template add_edge now t s =
     (let index = length (edNodes s) + 1 in
      add_node add_edge now (create_node_from_template t now index) (default_position index) s)"

definition update_node :: "flow_node \<Rightarrow> position \<Rightarrow> editor \<Rightarrow> editor" where
  "update_node n p s =
     set_state_with_history
       (map (\<lambda>m. if enId m = node_id n then m\<lparr>enFlow := n, enPosition := p\<rparr> else m) (edNodes s)) (edEdges s) s"

definition delete_selected :: "editor \<Rightarrow> editor" where
  "delete_selected s =
     (set_state_with_history (filter (\<lambda>n. enId n \<notin> set (edSelected s)) (edNodes s))
        (filter (\<lambda>e. eSource e \<notin> set (edSelected s) \<and> eTarget e \<notin> set (edSelected s)) (edEdges s)) s)
       \<lparr>edSelected := []\<rparr>"

definition copy_selected :: "editor \<Rightarrow> editor" where
  "copy_selected s = s\<lparr>edClipboard := Some (copy_selection (edNodes s) (edEdges s) (edSelected s))\<rparr>"

definition duplicate_selected :: "int \<Rightarrow> editor \<Rightarrow> editor" where
  "duplicate_selected now s =
     (if edSelected s = [] then s
      else (case duplicate_nodes now (edNodes s) (edEdges s) (edSelected s) of (ns, es, new_ids) \<Rightarrow>
        (set_state_with_history ns (edEdges s @ es) (copy_selected s))\<lparr>edSelected := new_ids\<rparr>))"

definition paste :: "int \<Rightarrow> editor \<Rightarrow> editor" where
  "paste now s =
     (case edClipboard s of
        None \<Rightarrow> s
      | Some c \<Rightarrow>
          if clNodes c = [] then s
          else (case paste_clipboard now c (edNodes s) of (ns, new) \<Rightarrow>
            (set_state_with_history ns (edEdges s @ new) s)
              \<lparr>edSelected := map enId (drop (length (edNodes s)) ns)\<rparr>))"

definition run_auto_layout :: "editor \<Rightarrow> editor" where
  "run_auto_layout s = set_state_with_history (auto_layout (edNodes s) (edEdges s)) (edEdges s) s"

text \<open>\<open>changed\<close> is what \<open>applyNodeChanges\<close> makes of the nodes, \<open>structural\<close> whether one was added or removed.\<close>

definition on_nodes_change :: "bool \<Rightarrow> editor_node list \<Rightarrow> editor \<Rightarrow> editor" where
  "on_nodes_change structural changed s =
     (if structural
      then (let ids = enId ` set changed in
        set_state_with_history changed (filter (\<lambda>e. eSource e \<in> ids \<and> eTarget e \<in> ids) (edEdges s))
          (s\<lparr>edSelected := filter (\<lambda>i. i \<in> ids) (edSelected s)\<rparr>))
      else s\<lparr>edNodes := changed\<rparr>)"

definition on_node_drag_stop :: "editor \<Rightarrow> editor" where
  "on_node_drag_stop s = commit_snapshot (edNodes s, edEdges s) s"

definition on_edges_change :: "(string \<times> string option) list \<Rightarrow> editor \<Rightarrow> editor" where
  "on_edges_change changes s =
     set_state_with_history (edNodes s)
       (filter (\<lambda>e. \<not> list_ex (\<lambda>(t, i). t = ''remove'' \<and> i = Some (eId e)) changes) (edEdges s)) s"

definition on_connect :: "edge_adder \<Rightarrow> int \<Rightarrow> string \<Rightarrow> string \<Rightarrow> editor \<Rightarrow> editor" where
  "on_connect add_edge now source target s =
     (if source = [] \<or> target = [] then s
      else if \<not> can_connect_linear source target (map edge_pair (edEdges s)) then s
      else set_state_with_history (edNodes s)
        (add_edge \<lparr>eId = ''edge-'' @ source @ ''-'' @ target @ ''-'' @ dec_int now, eSource = source, eTarget = target\<rparr>
          (edEdges s)) s)"

definition restore_snapshot :: "(flow_node \<times> position) list \<Rightarrow> flow_edge list \<Rightarrow> editor \<Rightarrow> editor" where
  "restore_snapshot ns es s =
     (let snap = (to_react_nodes ns, es) in
      (apply_snapshot snap (s\<lparr>edHistory := [snap], edIndex := 0\<rparr>))\<lparr>edCanUndo := False, edCanRedo := False\<rparr>)"

section \<open>Keyboard\<close>

datatype shortcut =
  Undo_Key | Redo_Key | Copy_Key | Paste_Key | Duplicate_Key | Select_All_Key | Search_Key | Delete_Key | Clear_Key

text \<open>\<open>editable\<close>: the focus is in an input; \<open>meta\<close>: the meta or the control key is down.\<close>

definition shortcut_of :: "bool \<Rightarrow> bool \<Rightarrow> bool \<Rightarrow> string \<Rightarrow> editor \<Rightarrow> shortcut option" where
  "shortcut_of editable meta shift key s =
     (let k = to_lower key; given = (\<lambda>b a. if b then Some a else None) in
      if editable then None
      else if meta \<and> k = ''z'' \<and> \<not> shift then given (edCanUndo s) Undo_Key
      else if meta \<and> shift \<and> k = ''z'' \<or> meta \<and> k = ''y'' then given (edCanRedo s) Redo_Key
      else if meta \<and> k = ''c'' then given (edSelected s \<noteq> []) Copy_Key
      else if meta \<and> k = ''v'' then Some Paste_Key
      else if meta \<and> k = ''d'' then Some Duplicate_Key
      else if meta \<and> k = ''a'' then Some Select_All_Key
      else if meta \<and> k = ''f'' then Some Search_Key
      else if key = ''Delete'' \<or> key = ''Backspace'' then given (edSelected s \<noteq> []) Delete_Key
      else given (key = ''Escape'') Clear_Key)"

text \<open>Deleting is asked first; the search field is focused.\<close>

definition press :: "int \<Rightarrow> shortcut option \<Rightarrow> editor \<Rightarrow> editor" where
  "press now k s =
     (case k of
        Some Undo_Key \<Rightarrow> undo s | Some Redo_Key \<Rightarrow> redo s | Some Copy_Key \<Rightarrow> copy_selected s
      | Some Paste_Key \<Rightarrow> paste now s | Some Duplicate_Key \<Rightarrow> duplicate_selected now s
      | Some Select_All_Key \<Rightarrow> select_all s
      | Some Clear_Key \<Rightarrow> select_node None False s
      | _ \<Rightarrow> s)"

end
