(* ===== verification/Flow_Editor_Props.thy ===== *)
theory Flow_Editor_Props
  imports Flow_Editor Plan_Props
begin

text \<open>
  The editor's validation beside the compiler's: both detect the same cycles and branches, and a flow
  the editor shows no issue for compiles.
\<close>

section \<open>Two topological sorts\<close>

lemma visit_targets_map_of:
  "map_of nm = map_of nm' \<Longrightarrow> visit_targets cmp nm ts cnt q = visit_targets cmp nm' ts cnt q"
  by (induction ts arbitrary: cnt q) (simp_all add: Let_def)

lemma kahn_map_of:
  "map_of nm = map_of nm' \<Longrightarrow> kahn cmp b nm key out cnt q ordered = kahn cmp b nm' key out cnt q ordered"
proof (induction cmp b nm key out cnt q ordered rule: kahn.induct)
  case (2 cmp b nm key out cnt n q ordered)
  then show ?case using visit_targets_map_of[OF 2(2)] by simp
qed simp

lemma map_of_identity: "map_of (map (\<lambda>i. (i, i)) xs) = (\<lambda>k. if k \<in> set xs then Some k else None)"
  by (induction xs) auto

lemma topological_sort_known:
  assumes "snd ` set es \<subseteq> set ids"
  shows "topological_sort ids es = topo_order None False id ids es"
proof -
  have "set (ids @ map snd es) = set (rev ids)" using assms by auto
  then have "map_of (map (\<lambda>i. (i, i)) (ids @ map snd es)) = map_of (map (\<lambda>i. (i, i)) (rev ids))"
    by (simp only: map_of_identity)
  then show ?thesis
    unfolding topological_sort_def topo_order_def
    by (simp only: place_def option.case rev_map id_apply) (rule kahn_map_of)
qed

lemma has_cycle_iff:
  assumes "distinct ids" "fst ` set es \<union> snd ` set es \<subseteq> set ids"
  shows "has_cycle ids es \<longleftrightarrow> \<not> acyclic (set es)"
proof -
  have closed: "\<forall>(a, b)\<in>set es. a \<in> id ` set ids \<and> b \<in> id ` set ids" using assms(2) by auto
  have "topological_sort ids es = topo_order None False id ids es"
    using assms(2) by (intro topological_sort_known) auto
  then show ?thesis
    using topo_order_complete_iff[of id ids es None False] closed assms(1) by (simp add: has_cycle_def)
qed

section \<open>Validation\<close>

lemma some_incoming: "1 < incoming_count es i \<Longrightarrow> \<exists>e\<in>set es. snd e = i"
  by (rule ccontr) (simp add: incoming_count_def filter_False)

lemma some_outgoing: "1 < length (outgoing_targets es i) \<Longrightarrow> \<exists>e\<in>set es. fst e = i"
  by (rule ccontr) (simp add: outgoing_targets_def filter_False)

lemma edges_branch_iff:
  assumes "fst ` set es \<union> snd ` set es \<subseteq> node_id ` set ns"
  shows "edges_branch es \<longleftrightarrow> has_branching ns es"
proof
  assume "edges_branch es"
  then obtain e where "e \<in> set es" "1 < incoming_count es (snd e) \<or> 1 < length (outgoing_targets es (fst e))"
    by (auto simp: edges_branch_def list_ex_iff)
  then have "fst e \<in> node_id ` set ns" "snd e \<in> node_id ` set ns"
    using assms by auto
  then obtain n m where "n \<in> set ns" "node_id n = fst e" "m \<in> set ns" "node_id m = snd e"
    by (elim imageE) (rule that, auto)
  then show "has_branching ns es"
    using \<open>1 < incoming_count es (snd e) \<or> 1 < length (outgoing_targets es (fst e))\<close>
    unfolding has_branching_def list_ex_iff by metis
next
  assume "has_branching ns es"
  then obtain n where "1 < incoming_count es (node_id n) \<or> 1 < length (outgoing_targets es (node_id n))"
    by (auto simp: has_branching_def list_ex_iff)
  then show "edges_branch es"
    using some_incoming[of es "node_id n"] some_outgoing[of es "node_id n"]
    unfolding edges_branch_def list_ex_iff by metis
qed

section \<open>What the editor accepts compiles\<close>

lemma issue_if_Nil [simp]: "issue_if b x = [] \<longleftrightarrow> \<not> b"
  by (simp add: issue_if_def)

lemma trimmed_field_Inr [simp]: "trimmed_field v = Inr s \<longleftrightarrow> (\<exists>t. v = Some t \<and> s = trim t)"
  by (auto simp: trimmed_field_def split: option.splits)

lemma find_duplicate_ids_keeps: "set dups \<subseteq> set (find_duplicate_ids seen dups ids)"
  by (induction ids arbitrary: seen dups) (auto dest!: subsetD split: if_splits, fastforce+)

lemma no_duplicates:
  "find_duplicate_ids seen [] ids = [] \<Longrightarrow> distinct ids \<and> set ids \<inter> set seen = {}"
proof (induction ids arbitrary: seen)
  case (Cons i ids)
  have "i \<notin> set seen"
    using Cons.prems find_duplicate_ids_keeps[of "[i]" "i # seen" ids] by (auto split: if_splits)
  with Cons show ?case by fastforce
qed simp

text \<open>
  The fields the editor's dialogs always fill in: an id, a method for a request, an operator for each of
  its assertions, a type of the five.
\<close>

definition filled_in :: "flow_node \<Rightarrow> bool" where
  "filled_in n =
     (\<not> blank (nId n) \<and> is_supported_node n
      \<and> (node_type n \<in> {''apiRequest'', ''pollUntil''} \<longrightarrow>
          \<not> blank (nMethod n) \<and> list_all has_operator (node_assertions n)))"

lemma normalize_node_sel [simp]:
  "nId (normalize_node n) = nId n" "nName (normalize_node n) = nName n" "node_id (normalize_node n) = node_id n"
  "nMethod (normalize_node n) = nMethod n" "nPath (normalize_node n) = nPath n"
  "node_assertions (normalize_node n) = node_assertions n" "nSave (normalize_node n) = nSave n"
  "nDurationMs (normalize_node n) = nDurationMs n" "nTimeoutSeconds (normalize_node n) = nTimeoutSeconds n"
  "nIntervalSeconds (normalize_node n) = nIntervalSeconds n" "nVariableName (normalize_node n) = nVariableName n"
  "nFieldPath (normalize_node n) = nFieldPath n" "node_name (normalize_node n) = node_name n"
  "nType (normalize_node n) = Some (node_type n)"
  by (simp_all add: normalize_node_def Let_def node_id_def node_assertions_def node_name_def node_type_def)

lemma migrate_node_sel:
  "nMethod (migrate_node n) = nMethod n" "nPath (migrate_node n) = nPath n" "node_type (migrate_node n) = node_type n"
  "node_assertions (migrate_node n) = node_assertions n"
  "nDurationMs (migrate_node n) = nDurationMs n" "nTimeoutSeconds (migrate_node n) = nTimeoutSeconds n"
  "nIntervalSeconds (migrate_node n) = nIntervalSeconds n" "nVariableName (migrate_node n) = nVariableName n"
  "nFieldPath (migrate_node n) = nFieldPath n" "nType (migrate_node n) = Some (node_type n)"
  by (simp_all add: migrate_node_def Let_def node_assertions_def node_type_def)

lemma validate_assertions_ok:
  "list_all (\<lambda>a. \<not> blank (faFieldPath a) \<and> has_operator a) l \<Longrightarrow> validate_assertions name l = Inr ()"
  by (induction l) auto

lemma traverse_Nils: "traverse f xs = Inr as \<Longrightarrow> concat as = [] \<Longrightarrow> x \<in> set xs \<Longrightarrow> f x = Inr []"
  by (induction xs arbitrary: as) (auto simp: sbind_Inr_iff)

lemma request_issues_Nil:
  assumes "request_issues n = Inr []"
  shows "\<not> blank (nPath n)" "list_all (\<lambda>a. \<not> blank (faFieldPath a)) (node_assertions n)"
    "is_node_type ''pollUntil'' n \<Longrightarrow> poll_issues n = []"
proof -
  obtain p as where p: "trimmed_field (nPath n) = Inr p" "p \<noteq> []"
    and as: "traverse (assertion_issue n) (node_assertions n) = Inr as" "concat as = []"
    and poll: "is_node_type ''pollUntil'' n \<Longrightarrow> poll_issues n = []"
    using assms by (auto simp: request_issues_def sbind_Inr_iff split: if_splits)
  show "\<not> blank (nPath n)" using p by auto
  have "\<not> blank (faFieldPath a)" if "a \<in> set (node_assertions n)" for a
    using traverse_Nils[OF as that] by (auto simp: assertion_issue_def sbind_Inr_iff)
  then show "list_all (\<lambda>a. \<not> blank (faFieldPath a)) (node_assertions n)" by (simp add: list_all_iff)
  show "is_node_type ''pollUntil'' n \<Longrightarrow> poll_issues n = []" by (rule poll)
qed

lemma poll_issues_Nil: "poll_issues n = [] \<Longrightarrow> validate_poll_times m = Inr ()"
  if "nTimeoutSeconds m = nTimeoutSeconds n" "nIntervalSeconds m = nIntervalSeconds n"
  using that by (auto simp: poll_issues_def validate_poll_times_def is_positive_def split: option.splits)

text \<open>What no issue means for a node: the compiler accepts it.\<close>

lemma node_without_issue:
  assumes "node_issues (normalize_node n) = Inr []" "filled_in n"
  shows "\<not> blank (nName n)" "validate_node_config (migrate_node n) = Inr ()"
proof -
  let ?n = "normalize_node n"
  have name: "\<not> blank (nName n)" and cfg: "config_issues ?n = Inr []"
    using assms(1) by (auto simp: node_issues_def sbind_Inr_iff)
  show "\<not> blank (nName n)" by (rule name)
  have type: "is_node_type t ?n \<longleftrightarrow> node_type n = t" "is_node_type t (migrate_node n) \<longleftrightarrow> node_type n = t" for t
    by (simp_all add: is_node_type_def migrate_node_sel)
  have req: "validate_request_node (migrate_node n) = Inr ()"
    if "request_issues ?n = Inr []" "node_type n \<in> {''apiRequest'', ''pollUntil''}"
    using request_issues_Nil(1,2)[OF that(1)] assms(2) that(2)
    by (auto simp: validate_request_node_def migrate_node_sel filled_in_def list_all_iff intro!: validate_assertions_ok)
  have poll: "validate_poll_times (migrate_node n) = Inr ()"
    if "request_issues ?n = Inr []" "node_type n = ''pollUntil''"
    using request_issues_Nil(3)[OF that(1)] that(2)
    by (intro poll_issues_Nil[of _ ?n]) (simp_all add: type migrate_node_sel)
  show "validate_node_config (migrate_node n) = Inr ()"
    using cfg assms(2) req poll
    by (auto simp: config_issues_def validate_node_config_def type migrate_node_sel sbind_Inr_iff filled_in_def
        is_supported_node_def split: if_splits)
qed

lemma validate_nodes_Inr:
  assumes "distinct (map node_id ns)" "set (map node_id ns) \<inter> set ids = {}"
    and "\<forall>n\<in>set ns. \<not> blank (nId n) \<and> \<not> blank (nName n) \<and> is_supported_node n \<and> validate_node_config n = Inr ()"
  shows "validate_nodes ids ns = Inr ()"
  using assms by (induction ids ns rule: validate_nodes.induct) auto

definition edges_known :: "flow_node list \<Rightarrow> flow_edge list \<Rightarrow> bool" where
  "edges_known ns es = (\<forall>e\<in>set es. eSource e \<in> node_id ` set ns \<and> eTarget e \<in> node_id ` set ns)"

lemma accepted_flow_is_valid:
  assumes "validate_editor_flow ns es = Inr []" "ns \<noteq> []" "\<not> blank (Some suite)"
    and "list_all filled_in ns" "edges_known ns es"
  shows "\<exists>f. migrate (Some (build_flow_definition suite ns es)) = Inr f
    \<and> validate_flow f = Inr (map migrate_node ns, map edge_pair es) \<and> acyclic (set (map edge_pair es))"
proof -
  let ?pairs = "map edge_pair es" and ?ids = "map node_id ns"
  obtain rest where rest: "traverse node_issues (map normalize_node ns) = Inr rest" "concat rest = []"
    and graph: "graph_issues ?ids ?pairs = []"
    using assms(1) by (auto simp: validate_editor_flow_def sbind_Inr_iff)
  have known: "fst ` set ?pairs \<union> snd ` set ?pairs \<subseteq> node_id ` set ns"
    using assms(5) by (auto simp: edges_known_def edge_pair_def)
  have ids: "distinct ?ids" using graph no_duplicates[of "[]" ?ids] by (auto simp: graph_issues_def)
  have acyclic: "acyclic (set ?pairs)"
    using graph assms(2) has_cycle_iff[OF ids, of ?pairs] known by (auto simp: graph_issues_def split: if_splits)
  have "\<not> edges_branch ?pairs"
    using graph assms(2) by (auto simp: graph_issues_def split: if_splits)
  then have branch: "\<not> has_branching (map migrate_node ns) ?pairs"
    using edges_branch_iff[of ?pairs "map migrate_node ns"] known by (simp add: image_image)
  have "node_issues (normalize_node n) = Inr []" if "n \<in> set ns" for n
    using traverse_Nils[OF rest, of "normalize_node n"] that by simp
  then have nodes: "\<forall>n\<in>set (map migrate_node ns). \<not> blank (nId n) \<and> \<not> blank (nName n) \<and> is_supported_node n
      \<and> validate_node_config n = Inr ()"
    using assms(4) node_without_issue
    by (auto simp: list_all_iff filled_in_def is_supported_node_def migrate_node_sel(3))
  define f where "f = (build_flow_definition suite ns es)\<lparr>fVersion := Some current_dsl_version,
    fNodes := Elements (map migrate_node ns)\<rparr>"
  have "migrate (Some (build_flow_definition suite ns es)) = Inr f"
    by (simp add: migrate_def f_def build_flow_definition_def current_dsl_version_def)
  moreover have "validate_nodes [] (map migrate_node ns) = Inr ()"
    by (rule validate_nodes_Inr) (use ids nodes in \<open>simp_all add: comp_def\<close>)
  then have "validate_flow f = Inr (map migrate_node ns, ?pairs)"
    using assms(2,3,5) branch
    by (cases ns) (auto simp: validate_flow_def f_def build_flow_definition_def edges_known_def edge_known_def list_all_iff
        image_image)
  ultimately show ?thesis using acyclic by blast
qed

text \<open>
  C21: A flow the editor shows no issue for can be compiled by the server: with at least one step, a name
  for the suite, the fields the dialogs fill in and edges between its steps, the compiler turns it into a
  plan with exactly its steps, each under its trimmed id.
\<close>

theorem accepted_flow_compiles:
  assumes "validate_editor_flow ns es = Inr []" "ns \<noteq> []" "\<not> blank (Some suite)"
    and "list_all filled_in ns" "edges_known ns es"
  shows "\<exists>r. compile_visual lc yaml_dump (Some (build_flow_definition suite ns es)) options = Inr r
    \<and> mset (map sId (pSteps (crPlan r))) = mset (map (\<lambda>n. trim (node_id n)) ns)"
proof -
  obtain f where f: "migrate (Some (build_flow_definition suite ns es)) = Inr f"
    "validate_flow f = Inr (map migrate_node ns, map edge_pair es)" "acyclic (set (map edge_pair es))"
    using accepted_flow_is_valid[OF assms] by blast
  obtain r where r: "compile_visual lc yaml_dump (Some (build_flow_definition suite ns es)) options = Inr r"
    "pSteps (crPlan r) = map (\<lambda>n. normalize_step (to_execution_step n))
        (compiled_order lc (map migrate_node ns) (map edge_pair es))"
    using compile_visual_result(2)[OF f] by blast
  have "map sId (pSteps (crPlan r)) = map (\<lambda>n. trim (node_id n)) (compiled_order lc (map migrate_node ns) (map edge_pair es))"
    by (simp add: r(2) normalize_step_def to_execution_step_def Let_def)
  then have "mset (map sId (pSteps (crPlan r)))
      = mset (map (\<lambda>n. trim (node_id n)) (compiled_order lc (map migrate_node ns) (map edge_pair es)))"
    by simp
  also have "\<dots> = mset (map (\<lambda>n. trim (node_id n)) (map migrate_node ns))"
    using mset_compiled_order(1)[OF f(2,3), of lc] by (metis mset_map)
  also have "\<dots> = mset (map (\<lambda>n. trim (node_id n)) ns)" by (simp add: comp_def)
  finally show ?thesis using r(1) by blast
qed

definition api_node :: "string \<Rightarrow> flow_node" where
  "api_node i = (blank_node i ''apiRequest'')\<lparr>nMethod := Some ''GET'', nPath := Some ''/''\<rparr>"

theorem accepted_flow_compiles_witness:
  "\<exists>r. compile_visual code_unit_cmp (\<lambda>_. []) (Some (build_flow_definition ''Users'' [api_node ''a'', api_node ''b'']
      [\<lparr>eId = ''e1'', eSource = ''a'', eTarget = ''b''\<rparr>])) no_options = Inr r \<and> length (pSteps (crPlan r)) = 2"
proof -
  have v: "validate_editor_flow [api_node ''a'', api_node ''b''] [\<lparr>eId = ''e1'', eSource = ''a'', eTarget = ''b''\<rparr>] = Inr []"
    by code_simp
  have f: "\<not> blank (Some ''Users'')" "list_all filled_in [api_node ''a'', api_node ''b'']"
    "edges_known [api_node ''a'', api_node ''b''] [\<lparr>eId = ''e1'', eSource = ''a'', eTarget = ''b''\<rparr>]"
    by code_simp+
  obtain r where r: "compile_visual code_unit_cmp (\<lambda>_. []) (Some (build_flow_definition ''Users''
      [api_node ''a'', api_node ''b''] [\<lparr>eId = ''e1'', eSource = ''a'', eTarget = ''b''\<rparr>])) no_options = Inr r"
    "mset (map sId (pSteps (crPlan r))) = mset (map (\<lambda>n. trim (node_id n)) [api_node ''a'', api_node ''b''])"
    using accepted_flow_compiles[OF v _ f] by blast
  from arg_cong[OF r(2), of size] have "length (pSteps (crPlan r)) = 2" by simp
  with r(1) show ?thesis by blast
qed

text \<open>
  The editor is stricter than the compiler: two steps without an edge are an issue, and compile.
\<close>

lemma unconnected_steps_compile:
  "(case validate_editor_flow [api_node ''a'', api_node ''b''] [] of Inr issues \<Rightarrow> issues \<noteq> [] | Inl e \<Rightarrow> False)
   \<and> (case compile_visual code_unit_cmp (\<lambda>_. []) (Some (build_flow_definition ''Users'' [api_node ''a'', api_node ''b''] []))
        no_options of Inr r \<Rightarrow> True | Inl e \<Rightarrow> False)"
  by (rule conjI; code_simp)

text \<open>
  Opening a flow in the editor and saving it is the server's migration, except that a \<open>wait\<close> step
  without a timeout gets 30 seconds from the editor and 60 from the server.
\<close>

lemma editor_normalizes_as_server:
  "node_type n \<noteq> ''wait'' \<or> nTimeoutMs n \<noteq> None \<Longrightarrow> normalize_node n = migrate_node n"
  by (auto simp: normalize_node_def migrate_node_def Let_def node_type_def default_timeout_ms_def
      editor_retry_policy_def default_retry_policy_def split: option.splits)

lemma wait_timeouts_differ:
  "nTimeoutMs (normalize_node (blank_node ''w'' ''wait'')) = Some (Fin 30000)
   \<and> nTimeoutMs (migrate_node (blank_node ''w'' ''wait'')) = Some (Fin 60000)"
  by (simp add: normalize_node_def migrate_node_def blank_node_def default_timeout_ms_def)

end
