(* ===== verification/Editor_Props.thy ===== *)
theory Editor_Props
  imports Editor_State Flow_Editor_Props
begin

text \<open>
  The history of the editor and the graph it shows: what every sequence of edits preserves, undo and
  redo, and where they lose work.
\<close>

section \<open>What edits preserve\<close>

definition history_ok :: "editor \<Rightarrow> bool" where
  "history_ok s =
     (edIndex s < length (edHistory s) \<and> length (edHistory s) \<le> history_limit
      \<and> (edCanUndo s \<longleftrightarrow> 0 < edIndex s) \<and> (edCanRedo s \<longleftrightarrow> edIndex s < length (edHistory s) - 1))"

definition ids_of :: "editor_node list \<Rightarrow> string set" where
  "ids_of ns = enId ` set ns"

definition graph_ok :: "snapshot \<Rightarrow> bool" where
  "graph_ok snap =
     ((\<forall>n\<in>set (fst snap). enId n = node_id (enFlow n))
      \<and> (\<forall>e\<in>set (snd snap). eSource e \<in> ids_of (fst snap) \<and> eTarget e \<in> ids_of (fst snap)))"

definition clipboard_ok :: "clipboard option \<Rightarrow> bool" where
  "clipboard_ok c = (case c of None \<Rightarrow> True | Some c \<Rightarrow>
     \<forall>(a, b)\<in>set (clEdges c). {a, b} \<subseteq> (\<lambda>(n, p). node_id n) ` set (clNodes c))"

definition editor_ok :: "editor \<Rightarrow> bool" where
  "editor_ok s =
     (history_ok s \<and> graph_ok (edNodes s, edEdges s) \<and> (\<forall>snap\<in>set (edHistory s). graph_ok snap)
      \<and> clipboard_ok (edClipboard s))"

lemma history_ok_sync [simp]: "edIndex s < length (edHistory s) \<Longrightarrow> length (edHistory s) \<le> history_limit \<Longrightarrow>
    history_ok (sync_history_flags s)"
  by (simp add: history_ok_def sync_history_flags_def)

lemma sync_sel [simp]:
  "edNodes (sync_history_flags s) = edNodes s" "edEdges (sync_history_flags s) = edEdges s"
  "edHistory (sync_history_flags s) = edHistory s" "edClipboard (sync_history_flags s) = edClipboard s"
  "edIndex (sync_history_flags s) = edIndex s" "edSkipHistory (sync_history_flags s) = edSkipHistory s"
  by (simp_all add: sync_history_flags_def)

lemma commit_keeps:
  assumes "history_ok s"
  shows "history_ok (commit_snapshot snap s)"
    and "set (edHistory (commit_snapshot snap s)) \<subseteq> insert snap (set (edHistory s))"
    and "edNodes (commit_snapshot snap s) = edNodes s" "edEdges (commit_snapshot snap s) = edEdges s"
    and "edClipboard (commit_snapshot snap s) = edClipboard s"
proof -
  let ?t = "take (edIndex s + 1) (edHistory s) @ [snap]"
  have len: "length ?t \<le> Suc history_limit" "?t \<noteq> []" using assms by (auto simp: history_ok_def)
  show "history_ok (commit_snapshot snap s)"
  proof (cases "edSkipHistory s")
    case True
    with assms show ?thesis by (simp add: commit_snapshot_def history_ok_def)
  next
    case False
    with assms len show ?thesis
      by (auto simp: commit_snapshot_def Let_def history_limit_def history_ok_def sync_history_flags_def)
  qed
  show "set (edHistory (commit_snapshot snap s)) \<subseteq> insert snap (set (edHistory s))"
  proof -
    have "set ?t \<subseteq> insert snap (set (edHistory s))" using set_take_subset by fastforce
    moreover have "set (tl ?t) \<subseteq> set ?t" by (cases ?t) auto
    ultimately show ?thesis by (auto simp: commit_snapshot_def Let_def simp del: set_append)
  qed
  show "edNodes (commit_snapshot snap s) = edNodes s" "edEdges (commit_snapshot snap s) = edEdges s"
    "edClipboard (commit_snapshot snap s) = edClipboard s"
    by (simp_all add: commit_snapshot_def Let_def)
qed

lemma set_state_ok:
  assumes "editor_ok s" "graph_ok (ns, es)"
  shows "editor_ok (set_state_with_history ns es s)"
proof -
  have "history_ok (s\<lparr>edNodes := ns, edEdges := es\<rparr>)" using assms(1) by (simp add: editor_ok_def history_ok_def)
  note keeps = commit_keeps[OF this, of "(ns, es)"]
  show ?thesis
    using assms keeps unfolding editor_ok_def set_state_with_history_def by auto
qed

lemma editor_ok_select [simp]: "editor_ok (s\<lparr>edSelected := x\<rparr>) \<longleftrightarrow> editor_ok s"
  by (simp add: editor_ok_def history_ok_def)

lemma apply_snapshot_ok:
  assumes "editor_ok s" "graph_ok snap"
  shows "editor_ok (apply_snapshot snap s)"
  using assms by (auto simp: editor_ok_def apply_snapshot_def history_ok_def sync_history_flags_def)

lemma graph_ok_mono:
  "graph_ok (ns, es) \<Longrightarrow> set es' \<subseteq> set es \<Longrightarrow> graph_ok (ns, es')"
  by (auto simp: graph_ok_def)

lemma graph_ok_same_nodes:
  assumes "graph_ok (ns, es)" "map enId ns' = map enId ns" "\<forall>n\<in>set ns'. enId n = node_id (enFlow n)"
  shows "graph_ok (ns', es)"
proof -
  have "ids_of ns' = ids_of ns" using assms(2) unfolding ids_of_def by (metis set_map)
  with assms show ?thesis by (simp add: graph_ok_def)
qed

section \<open>Copied nodes\<close>

lemma copy_selection_ok: "graph_ok (ns, es) \<Longrightarrow> clipboard_ok (Some (copy_selection ns es selected))"
  by (fastforce simp: graph_ok_def clipboard_ok_def copy_selection_def edge_pair_def ids_of_def image_image)

lemma map_of_hit: "a \<in> fst ` set m \<Longrightarrow> \<exists>i. map_of m a = Some i \<and> (a, i) \<in> set m"
  by (metis map_of_SomeD map_of_eq_None_iff not_None_eq)

lemma in_enumerate: "(k, x) \<in> set (enumerate 0 xs) \<Longrightarrow> x \<in> set xs"
  by (auto simp: in_set_enumerate_eq)

lemma id_map_range:
  assumes "a \<in> (\<lambda>(n, p). node_id n) ` set (clNodes c)"
  shows "id_map now c a \<in> (\<lambda>(k, n, p). pasted_id now n k) ` set (enumerate 0 (clNodes c))"
proof -
  let ?m = "map (\<lambda>(k, n, p). (node_id n, pasted_id now n k)) (enumerate 0 (clNodes c))"
  obtain n p where "(n, p) \<in> set (clNodes c)" and a: "a = node_id n" using assms by auto
  then obtain k where "k < length (clNodes c)" "clNodes c ! k = (n, p)" by (auto simp: in_set_conv_nth)
  then have "(k, n, p) \<in> set (enumerate 0 (clNodes c))" by (simp add: in_set_enumerate_eq)
  then have "(node_id n, pasted_id now n k) \<in> set ?m" unfolding set_map by (rule rev_image_eqI) simp
  then have "a \<in> fst ` set (rev ?m)" unfolding a set_rev by (rule rev_image_eqI) simp
  then obtain i where i: "map_of (rev ?m) a = Some i" "(a, i) \<in> set ?m"
    using map_of_hit[of a "rev ?m"] unfolding set_rev by blast
  from i(2) obtain t where t: "t \<in> set (enumerate 0 (clNodes c))" "(a, i) = (\<lambda>(k, n, p). (node_id n, pasted_id now n k)) t"
    by auto
  then have "i = (\<lambda>(k, n, p). pasted_id now n k) t" by (simp add: split_beta)
  with i(1) t(1) show ?thesis by (simp add: id_map_def shown_text_def)
qed

lemma paste_ok:
  assumes "graph_ok (ns, es)" "clipboard_ok (Some c)" "paste_clipboard now c ns = (ns', new)"
  shows "graph_ok (ns', es @ new)" "graph_ok (ns', es @ es @ new)"
proof -
  let ?pasted = "(\<lambda>(k, n, p). pasted_id now n k) ` set (enumerate 0 (clNodes c))"
  have ids: "ids_of ns' = ids_of ns \<union> ?pasted"
    using assms(3) by (force simp: paste_clipboard_def ids_of_def to_react_node_def node_id_def image_image split_beta)
  have "eSource e \<in> ?pasted \<and> eTarget e \<in> ?pasted" if e: "e \<in> set new" for e
  proof -
    obtain k a b where k: "(k, a, b) \<in> set (enumerate 0 (clEdges c))" "eSource e = id_map now c a" "eTarget e = id_map now c b"
      using e assms(3) by (auto simp: paste_clipboard_def)
    have "(a, b) \<in> set (clEdges c)" using k(1) by (rule in_enumerate)
    then have "a \<in> (\<lambda>(n, p). node_id n) ` set (clNodes c)" "b \<in> (\<lambda>(n, p). node_id n) ` set (clNodes c)"
      using assms(2) by (auto simp: clipboard_ok_def)
    then show ?thesis unfolding k(2,3) by (intro conjI id_map_range)
  qed
  moreover have "\<forall>n\<in>set ns'. enId n = node_id (enFlow n)"
    using assms(1,3) by (auto simp: paste_clipboard_def graph_ok_def to_react_node_def node_id_def)
  ultimately show "graph_ok (ns', es @ new)" "graph_ok (ns', es @ es @ new)"
    using assms(1) by (auto simp: graph_ok_def ids)
qed

section \<open>Every sequence of edits\<close>

text \<open>
  A step of the user.  The drawing library connects nodes that are drawn, and a change that neither adds
  nor removes a node keeps their ids.
\<close>

inductive edit :: "edge_adder \<Rightarrow> editor \<Rightarrow> editor \<Rightarrow> bool" for add_edge where
  "edit add_edge s (undo s)"
| "edit add_edge s (redo s)"
| "edit add_edge s (select_node i b s)"
| "edit add_edge s (select_all s)"
| "edit add_edge s (add_node add_edge now n p s)"
| "edit add_edge s (add_template add_edge now t s)"
| "edit add_edge s (update_node n p s)"
| "edit add_edge s (delete_selected s)"
| "edit add_edge s (copy_selected s)"
| "edit add_edge s (duplicate_selected now s)"
| "edit add_edge s (paste now s)"
| "edit add_edge s (run_auto_layout s)"
| "\<forall>n\<in>set changed. enId n = node_id (enFlow n) \<Longrightarrow> structural \<or> map enId changed = map enId (edNodes s) \<Longrightarrow>
   edit add_edge s (on_nodes_change structural changed s)"
| "edit add_edge s (on_node_drag_stop s)"
| "edit add_edge s (on_edges_change changes s)"
| "{a, b} \<subseteq> ids_of (edNodes s) \<Longrightarrow> edit add_edge s (on_connect add_edge now a b s)"
| "edges_known (map fst ns) es \<Longrightarrow> edit add_edge s (restore_snapshot ns es s)"

definition adds_at_most :: "edge_adder \<Rightarrow> bool" where
  "adds_at_most add_edge = (\<forall>e es. set (add_edge e es) \<subseteq> insert e (set es))"

lemma undo_ok: "editor_ok s \<Longrightarrow> editor_ok (undo s)"
proof (cases "edIndex s = 0")
  case False
  assume ok: "editor_ok s"
  then have "edHistory s ! (edIndex s - 1) \<in> set (edHistory s)" by (auto simp: editor_ok_def history_ok_def)
  with ok have "graph_ok (edHistory s ! (edIndex s - 1))" by (auto simp: editor_ok_def)
  with ok False show ?thesis
    by (auto simp: undo_def editor_ok_def apply_snapshot_def history_ok_def sync_history_flags_def)
qed (simp add: undo_def)

lemma redo_ok: "editor_ok s \<Longrightarrow> editor_ok (redo s)"
proof (cases "edIndex s \<ge> length (edHistory s) - 1")
  case False
  assume ok: "editor_ok s"
  then have "edHistory s ! (edIndex s + 1) \<in> set (edHistory s)" using False by (auto simp: editor_ok_def history_ok_def)
  with ok have "graph_ok (edHistory s ! (edIndex s + 1))" by (auto simp: editor_ok_def)
  with ok False show ?thesis
    by (auto simp: redo_def editor_ok_def apply_snapshot_def history_ok_def sync_history_flags_def)
qed (simp add: redo_def)

lemma graph_of: "editor_ok s \<Longrightarrow> graph_ok (edNodes s, edEdges s)"
  by (simp add: editor_ok_def)

lemma add_node_ok:
  assumes "editor_ok s" "adds_at_most add_edge"
  shows "editor_ok (add_node add_edge now n p s)"
proof -
  have "graph_ok (edNodes s @ [to_react_node n p], es)"
    if "set es \<subseteq> insert e (set (edEdges s))" "eSource e \<in> ids_of (edNodes s)" "eTarget e = node_id n" for es e
    using graph_of[OF assms(1)] that by (fastforce simp: graph_ok_def ids_of_def to_react_node_def)
  moreover have "graph_ok (edNodes s @ [to_react_node n p], edEdges s)" if "edNodes s = []"
    using graph_of[OF assms(1)] that by (auto simp: graph_ok_def ids_of_def to_react_node_def)
  moreover have "enId (last (edNodes s)) \<in> ids_of (edNodes s)" if "edNodes s \<noteq> []"
    using that by (simp add: ids_of_def)
  moreover have "set (add_edge e (edEdges s)) \<subseteq> insert e (set (edEdges s))" for e
    using assms(2) by (simp add: adds_at_most_def)
  ultimately have "graph_ok (edNodes s @ [to_react_node n p], if edNodes s = [] then edEdges s
      else add_edge \<lparr>eId = i, eSource = enId (last (edNodes s)), eTarget = node_id n\<rparr> (edEdges s))" for i
    by (auto split: if_splits) (metis flow_edge.select_convs(2,3))
  then show ?thesis
    unfolding add_node_def Let_def by (simp add: set_state_ok[OF assms(1)])
qed

lemma graph_ok_opened: "edges_known (map fst ns) es \<Longrightarrow> graph_ok (to_react_nodes ns, es)"
  by (force simp: graph_ok_def edges_known_def ids_of_def to_react_nodes_def to_react_node_def image_image split_beta)

lemma restore_ok:
  assumes "editor_ok s" "edges_known (map fst ns) es"
  shows "editor_ok (restore_snapshot ns es s)"
proof -
  note graph_ok_opened[OF assms(2)]
  with assms(1) show ?thesis
    by (auto simp: restore_snapshot_def editor_ok_def apply_snapshot_def history_ok_def sync_history_flags_def
        history_limit_def)
qed

lemma clipboard_ok_update: "editor_ok s \<Longrightarrow> clipboard_ok c \<Longrightarrow> editor_ok (s\<lparr>edClipboard := c\<rparr>)"
  by (simp add: editor_ok_def history_ok_def)

lemma copy_selected_ok: "editor_ok s \<Longrightarrow> editor_ok (copy_selected s)"
  unfolding copy_selected_def by (simp add: clipboard_ok_update copy_selection_ok graph_of)

lemma update_node_ok: "editor_ok s \<Longrightarrow> editor_ok (update_node n p s)"
  unfolding update_node_def
  by (rule set_state_ok, assumption, rule graph_ok_same_nodes[OF graph_of])
    (auto dest!: graph_of simp: graph_ok_def)

lemma ids_of_filter: "ids_of (filter (\<lambda>n. enId n \<notin> S) ns) = ids_of ns - S"
  by (auto simp: ids_of_def)

lemma delete_selected_ok: "editor_ok s \<Longrightarrow> editor_ok (delete_selected s)"
  unfolding delete_selected_def editor_ok_select
  by (rule set_state_ok, assumption) (use graph_of[of s] in \<open>simp add: graph_ok_def ids_of_filter\<close>)

lemma run_auto_layout_ok: "editor_ok s \<Longrightarrow> editor_ok (run_auto_layout s)"
  unfolding run_auto_layout_def
  by (rule set_state_ok, assumption, rule graph_ok_same_nodes[OF graph_of])
    (auto dest!: graph_of simp: graph_ok_def auto_layout_def Let_def comp_def)

lemma duplicate_selected_ok:
  assumes "editor_ok s"
  shows "editor_ok (duplicate_selected now s)"
proof -
  obtain ns' new where p: "paste_clipboard now (copy_selection (edNodes s) (edEdges s) (edSelected s)) (edNodes s) = (ns', new)"
    by fastforce
  have "graph_ok (ns', edEdges s @ edEdges s @ new)"
    by (rule paste_ok(2)[OF graph_of[OF assms] copy_selection_ok[OF graph_of[OF assms]] p])
  with assms p show ?thesis
    by (simp add: duplicate_selected_def duplicate_nodes_def set_state_ok copy_selected_ok)
qed

lemma paste_keeps_ok:
  assumes "editor_ok s"
  shows "editor_ok (paste now s)"
proof (cases "edClipboard s")
  case (Some c)
  obtain ns' new where p: "paste_clipboard now c (edNodes s) = (ns', new)" by fastforce
  have "clipboard_ok (Some c)" using assms Some by (simp add: editor_ok_def)
  then have "graph_ok (ns', edEdges s @ new)" by (rule paste_ok(1)[OF graph_of[OF assms] _ p])
  with assms p Some show ?thesis by (simp add: paste_def set_state_ok)
qed (simp add: paste_def assms)

lemma on_nodes_change_ok:
  assumes "editor_ok s" "\<forall>n\<in>set changed. enId n = node_id (enFlow n)"
    "structural \<or> map enId changed = map enId (edNodes s)"
  shows "editor_ok (on_nodes_change structural changed s)"
proof (cases structural)
  case True
  with assms show ?thesis
    unfolding on_nodes_change_def Let_def
    by (simp, intro set_state_ok) (auto simp: graph_ok_def ids_of_def)
next
  case False
  have "graph_ok (changed, edEdges s)"
    using graph_ok_same_nodes[OF graph_of[OF assms(1)]] assms(2,3) False by blast
  with assms(1) False show ?thesis by (simp add: on_nodes_change_def editor_ok_def history_ok_def)
qed

lemma on_node_drag_stop_ok: "editor_ok s \<Longrightarrow> editor_ok (on_node_drag_stop s)"
  using set_state_ok[of s "edNodes s" "edEdges s", OF _ graph_of]
  by (simp add: on_node_drag_stop_def set_state_with_history_def)

lemma on_edges_change_ok: "editor_ok s \<Longrightarrow> editor_ok (on_edges_change changes s)"
  unfolding on_edges_change_def
  by (rule set_state_ok, assumption, rule graph_ok_mono[OF graph_of]) auto

lemma on_connect_ok:
  assumes "editor_ok s" "adds_at_most add_edge" "{a, b} \<subseteq> ids_of (edNodes s)"
  shows "editor_ok (on_connect add_edge now a b s)"
proof -
  have "graph_ok (edNodes s, add_edge \<lparr>eId = i, eSource = a, eTarget = b\<rparr> (edEdges s))" for i
  proof -
    have "set (add_edge \<lparr>eId = i, eSource = a, eTarget = b\<rparr> (edEdges s))
            \<subseteq> insert \<lparr>eId = i, eSource = a, eTarget = b\<rparr> (set (edEdges s))"
      using assms(2) by (simp add: adds_at_most_def)
    then show ?thesis using graph_of[OF assms(1)] assms(3) by (fastforce simp: graph_ok_def)
  qed
  with assms(1) show ?thesis by (simp add: on_connect_def set_state_ok)
qed

lemma edit_ok: "edit add_edge s s' \<Longrightarrow> adds_at_most add_edge \<Longrightarrow> editor_ok s \<Longrightarrow> editor_ok s'"
  by (induction rule: edit.induct)
    (simp_all add: undo_ok redo_ok add_node_ok add_template_def Let_def update_node_ok delete_selected_ok
      copy_selected_ok duplicate_selected_ok paste_keeps_ok run_auto_layout_ok on_nodes_change_ok
      on_node_drag_stop_ok on_edges_change_ok on_connect_ok restore_ok select_node_def select_all_def)

lemma open_ok: "edges_known (map fst ns) es \<Longrightarrow> editor_ok (open_editor ns es)"
  by (simp add: open_editor_def Let_def editor_ok_def history_ok_def history_limit_def clipboard_ok_def graph_ok_opened)

text \<open>
  C22: Whatever the user does in the flow editor (editing, copying, pasting, laying out, connecting, undoing,
  redoing, restoring a draft, in any order), the history stays within its fifty snapshots and its flags tell
  the truth, and the edges of the flow shown and of every snapshot in the history connect existing nodes.
\<close>
theorem editor_history_is_consistent:
  assumes "edges_known (map fst ns) es" "adds_at_most add_edge"
    and "(edit add_edge)\<^sup>*\<^sup>* (open_editor ns es) s"
  shows "edIndex s < length (edHistory s) \<and> length (edHistory s) \<le> history_limit
    \<and> (edCanUndo s \<longleftrightarrow> 0 < edIndex s) \<and> (edCanRedo s \<longleftrightarrow> edIndex s < length (edHistory s) - 1)
    \<and> (\<forall>(nodes, edges) \<in> insert (edNodes s, edEdges s) (set (edHistory s)).
         \<forall>e\<in>set edges. {eSource e, eTarget e} \<subseteq> enId ` set nodes)"
proof -
  have "editor_ok s"
    using assms(3) by (induction rule: rtranclp_induct) (auto intro: open_ok[OF assms(1)] edit_ok[OF _ assms(2)])
  then show ?thesis by (auto simp: editor_ok_def history_ok_def graph_ok_def ids_of_def)
qed

lemma editor_history_is_consistent_witness:
  "\<exists>s. (edit (\<lambda>e es. es @ [e]))\<^sup>*\<^sup>* (open_editor [] []) s \<and> length (edNodes s) = 2 \<and> edEdges s \<noteq> []
     \<and> length (edHistory s) \<le> history_limit"
proof -
  let ?add = "\<lambda>e es. es @ [e] :: flow_edge list"
  let ?one = "add_template ?add 7 Health_Check (open_editor [] [])"
  let ?two = "add_template ?add 8 Wait_1s ?one"
  have "(edit ?add)\<^sup>*\<^sup>* (open_editor [] []) ?two"
    by (rule rtranclp.rtrancl_into_rtrancl[OF r_into_rtranclp]) (rule edit.intros)+
  moreover from this have "length (edHistory ?two) \<le> history_limit"
    using editor_history_is_consistent[of "[]" "[]" ?add ?two] by (simp add: edges_known_def adds_at_most_def)
  moreover have "length (edNodes ?two) = 2 \<and> edEdges ?two \<noteq> []"
    by (simp add: add_template_def add_node_def Let_def set_state_with_history_def commit_snapshot_def
        open_editor_def to_react_nodes_def)
  ultimately show ?thesis by blast
qed

section \<open>Undo and redo\<close>

text \<open>
  C23: When the history is at the flow shown and nothing was undone before, an edit followed by undo shows the
  flow from before the edit, and redo then shows the edited flow again, also when the history is full of its
  fifty snapshots and the oldest of them goes.
\<close>
theorem undo_reverts_and_redo_repeats:
  assumes "history_ok s" "\<not> edSkipHistory s" "edHistory s ! edIndex s = (edNodes s, edEdges s)"
  shows "let s' = set_state_with_history ns es s in
    (edNodes (undo s'), edEdges (undo s')) = (edNodes s, edEdges s)
    \<and> (edNodes (redo (undo s')), edEdges (redo (undo s'))) = (ns, es)
    \<and> edHistory (redo (undo s')) = edHistory s' \<and> \<not> edCanRedo s' \<and> edCanUndo s'"
proof -
  let ?t = "take (edIndex s + 1) (edHistory s)"
  define kept where "kept = (if length (?t @ [(ns, es)]) > history_limit then tl (?t @ [(ns, es)]) else ?t @ [(ns, es)])"
  have len: "length ?t = edIndex s + 1" "?t ! edIndex s = (edNodes s, edEdges s)"
    using assms(1,3) by (simp_all add: history_ok_def)
  obtain init where kept: "kept = init @ [(edNodes s, edEdges s), (ns, es)]"
  proof -
    have "?t = take (edIndex s) ?t @ [?t ! edIndex s]"
      using len(1) by (metis Suc_eq_plus1 lessI order_refl take_Suc_conv_app_nth take_all)
    then have t: "?t = take (edIndex s) ?t @ [(edNodes s, edEdges s)]" unfolding len(2) .
    show ?thesis
    proof (cases "length (?t @ [(ns, es)]) > history_limit")
      case False
      then have "kept = take (edIndex s) ?t @ [(edNodes s, edEdges s), (ns, es)]"
        using t unfolding kept_def by (metis append.assoc append_Cons append_Nil)
      then show ?thesis by (rule that)
    next
      case True
      then have "take (edIndex s) ?t \<noteq> []" using len by (auto simp: history_limit_def)
      then have "kept = tl (take (edIndex s) ?t) @ [(edNodes s, edEdges s), (ns, es)]"
        using t True unfolding kept_def by (metis append.assoc append_Cons append_Nil tl_append2)
      then show ?thesis by (rule that)
    qed
  qed
  have s': "set_state_with_history ns es s
      = sync_history_flags (s\<lparr>edNodes := ns, edEdges := es, edHistory := kept, edIndex := length kept - 1\<rparr>)"
    using assms(2) by (simp add: set_state_with_history_def commit_snapshot_def kept_def Let_def)
  show ?thesis
    by (simp add: s' Let_def undo_def redo_def apply_snapshot_def sync_history_flags_def kept nth_append)
qed

lemma undo_reverts_and_redo_repeats_witness:
  "let s' = set_state_with_history [to_react_node (create_wait_node 7 1) (80, 120)] [] (open_editor [] []) in
     edNodes (undo s') = [] \<and> edNodes (redo (undo s')) \<noteq> []"
proof -
  let ?s = "open_editor [] []"
  have "history_ok ?s" "\<not> edSkipHistory ?s" "edHistory ?s ! edIndex ?s = (edNodes ?s, edEdges ?s)" "edNodes ?s = []"
    by (simp_all add: open_editor_def history_ok_def history_limit_def to_react_nodes_def)
  then show ?thesis
    using undo_reverts_and_redo_repeats[of ?s "[to_react_node (create_wait_node 7 1) (80, 120)]" "[]"]
    by (simp add: Let_def)
qed

text \<open>
  After an undo the next edit is not recorded: the mark that keeps an applied snapshot out of the history
  is still set.  The history then offers to redo, which replaces the edit by the undone flow.
\<close>
lemma edit_after_undo_is_not_recorded:
  assumes "0 < edIndex s"
  shows "edHistory (set_state_with_history ns es (undo s)) = edHistory s"
    and "edIndex (set_state_with_history ns es (undo s)) = edIndex s - 1"
    and "edIndex s < length (edHistory s) \<Longrightarrow>
      edNodes (redo (set_state_with_history ns es (undo s))) = fst (edHistory s ! edIndex s)"
  using assms
  by (auto simp: set_state_with_history_def commit_snapshot_def undo_def redo_def apply_snapshot_def sync_history_flags_def)

section \<open>Linear flows\<close>

text \<open>Duplicating adds the edges there are a second time, so every flow with an edge branches.\<close>
lemma duplicate_repeats_edges:
  assumes "edSelected s \<noteq> []"
  shows "\<exists>new. edEdges (duplicate_selected now s) = edEdges s @ edEdges s @ new"
proof -
  obtain ns' new where p: "paste_clipboard now (copy_selection (edNodes s) (edEdges s) (edSelected s)) (edNodes s) = (ns', new)"
    by fastforce
  with assms show ?thesis
    by (auto simp: duplicate_selected_def duplicate_nodes_def set_state_with_history_def commit_snapshot_def
        copy_selected_def sync_history_flags_def Let_def)
qed

lemma duplicate_branches:
  assumes "edSelected s \<noteq> []" "edEdges s \<noteq> []"
  shows "edges_branch (map edge_pair (edEdges (duplicate_selected now s)))"
proof -
  obtain new where new: "edEdges (duplicate_selected now s) = edEdges s @ edEdges s @ new"
    using duplicate_repeats_edges[OF assms(1)] by blast
  obtain e rest where "edEdges s = e # rest" using assms(2) by (cases "edEdges s") auto
  then show ?thesis unfolding new by (simp add: edges_branch_def incoming_count_def)
qed

text \<open>A new node is linked to the node that was added last, although that one may already have a successor.\<close>
lemma added_node_can_branch:
  assumes "edNodes s \<noteq> []" "e \<in> set (edEdges s)" "eSource e = enId (last (edNodes s))"
  shows "edges_branch (map edge_pair (edEdges (add_node (\<lambda>e es. es @ [e]) now n p s)))"
  using assms
  by (fastforce simp: add_node_def Let_def set_state_with_history_def commit_snapshot_def edges_branch_def
      outgoing_targets_def edge_pair_def sync_history_flags_def filter_empty_conv)

text \<open>Connecting by hand keeps the flow linear.\<close>

lemma linear_connection:
  "\<not> edges_branch es \<Longrightarrow> can_connect_linear a b es \<Longrightarrow> \<not> edges_branch (es @ [(a, b)])"
  by (auto simp: edges_branch_def can_connect_linear_def list_ex_iff incoming_count_def outgoing_targets_def)

lemma connecting_keeps_linear:
  assumes "\<not> edges_branch (map edge_pair (edEdges s))"
  shows "\<not> edges_branch (map edge_pair (edEdges (on_connect (\<lambda>e es. es @ [e]) now a b s)))"
proof (cases "a = [] \<or> b = [] \<or> \<not> can_connect_linear a b (map edge_pair (edEdges s))")
  case True
  with assms show ?thesis by (auto simp: on_connect_def)
next
  case False
  then have "map edge_pair (edEdges (on_connect (\<lambda>e es. es @ [e]) now a b s)) = map edge_pair (edEdges s) @ [(a, b)]"
    by (simp add: on_connect_def set_state_with_history_def commit_snapshot_def Let_def edge_pair_def
        sync_history_flags_def)
  then show ?thesis using False linear_connection[OF assms] by simp
qed

end
