(* ===== verification/Dry_Runs.thy ===== *)
theory Dry_Runs
  imports Orchestrator Run_Queue
begin

text \<open>
  Dry runs of an environment (\<open>environment-configs/environment-dry-run-*.ts\<close>,
  \<open>queue/environment-dry-run-queue.service.ts\<close>): a worker starts the environment of a configuration
  revision, waits for its health check and stops it.  The tables and the queue are part of the world
  outside a worker, beside the rest that the services act on; the worker's own variables are those of
  the runner's store.
\<close>

section \<open>Tables\<close>

datatype dry_status =
    DRY_CREATED | DRY_QUEUED | DRY_PREPARING_WORKSPACE | DRY_VALIDATING_ENVIRONMENT | DRY_PULLING_IMAGES
  | DRY_STARTING_ENVIRONMENT | DRY_WAITING_FOR_HEALTHCHECK | DRY_COLLECTING_LOGS | DRY_CLEANING_UP
  | DRY_PASSED | DRY_INFRA_FAILED | DRY_TIMED_OUT | DRY_CANCEL_REQUESTED | DRY_CANCELLED

datatype dry_failure =
    DRY_ENVIRONMENT_VALIDATION | DRY_IMAGE_PULL | DRY_CONTAINER_START | DRY_HEALTHCHECK | DRY_NETWORK
  | DRY_TIMEOUT | DRY_CANCELLATION | DRY_INTERNAL

record dry_run =
  dyProject :: string
  dyRevision :: string
  dyStatus :: dry_status
  dyQueueJobId :: "string option"
  dyFailure :: "dry_failure option"
  dyError :: "string option"
  dyStartedAt :: "int option"
  dyFinishedAt :: "int option"
  dyCancelRequestedAt :: "int option"

text \<open>\<open>dwProjects\<close> gives the company of a project, \<open>dwRevisions\<close> the project of a revision.\<close>

record ('q, 'y) dry_world =
  dwRuns :: "string \<rightharpoonup> dry_run"
  dwLogs :: "string \<Rightarrow> (string \<times> string) list"
  dwQueue :: 'q
  dwProjects :: "string \<rightharpoonup> string"
  dwRevisions :: "string \<rightharpoonup> string"
  dwRest :: 'y

type_synonym ('q, 'y, 'a) dry = "(('q, 'y) dry_world, 'a) runner"

definition dry_call ::
    "(('q, 'y) dry_world \<Rightarrow> (js_error + 'a) \<times> ('q, 'y) dry_world) \<Rightarrow> ('q, 'y, 'a) dry" where
  "dry_call f = io_call (\<lambda>s. case f (rsOutside s) of (r, x) \<Rightarrow> (r, s\<lparr>rsOutside := x\<rparr>))"

text \<open>A service of the rest of the world changes no table.\<close>

definition on_rest :: "('y, 'a) service \<Rightarrow> (('q, 'y) dry_world, 'a) service" where
  "on_rest f x = (case f (dwRest x) of (r, ms, y) \<Rightarrow> (r, ms, x\<lparr>dwRest := y\<rparr>))"

definition worker_services :: "'y services \<Rightarrow> ('q, 'y) dry_world services" where
  "worker_services api =
     \<lparr>srvFetch = (\<lambda>a. on_rest (srvFetch api a)), srvProbe = (\<lambda>u. on_rest (srvProbe api u)),
      srvPutArtifact = (\<lambda>k v. on_rest (srvPutArtifact api k v)),
      srvAppendLog = (\<lambda>i s m. on_rest (srvAppendLog api i s m)), srvReport = (\<lambda>i. on_rest (srvReport api i)),
      srvDocker = (\<lambda>a d. on_rest (srvDocker api a d)), srvMakeDir = (\<lambda>d. on_rest (srvMakeDir api d)),
      srvWriteFile = (\<lambda>f t. on_rest (srvWriteFile api f t)), srvRemoveDir = (\<lambda>d. on_rest (srvRemoveDir api d)),
      srvSecretRows = (\<lambda>ks. on_rest (srvSecretRows api ks)), srvSecretsUsed = (\<lambda>ks. on_rest (srvSecretsUsed api ks)),
      srvFirstSuccess = (\<lambda>p t. on_rest (srvFirstSuccess api p t))\<rparr>"

section \<open>The state service\<close>

definition find_dry_run :: "string \<Rightarrow> ('q, 'y, dry_run option) dry" where
  "find_dry_run i = dry_call (\<lambda>x. (Inr (dwRuns x i), x))"

definition get_dry_run :: "string \<Rightarrow> ('q, 'y, dry_run) dry" where
  "get_dry_run i =
     io_bind (find_dry_run i) (\<lambda>found. case found of
       None \<Rightarrow> io_throw (NotFoundException ''Environment dry run not found'')
     | Some r \<Rightarrow> io_return r)"

definition update_dry_run :: "string \<Rightarrow> (dry_run \<Rightarrow> dry_run) \<Rightarrow> ('q, 'y, unit) dry" where
  "update_dry_run i upd =
     dry_call (\<lambda>x. case dwRuns x i of
       None \<Rightarrow> (Inl (PlainError ''No record was found for an update''), x)
     | Some r \<Rightarrow> (Inr (), x\<lparr>dwRuns := (dwRuns x)(i \<mapsto> upd r)\<rparr>))"

definition update_dry_runs ::
    "string \<Rightarrow> (dry_run \<Rightarrow> bool) \<Rightarrow> (dry_run \<Rightarrow> dry_run) \<Rightarrow> ('q, 'y, nat) dry" where
  "update_dry_runs i cond upd =
     dry_call (\<lambda>x. case dwRuns x i of
       None \<Rightarrow> (Inr 0, x)
     | Some r \<Rightarrow> if cond r then (Inr 1, x\<lparr>dwRuns := (dwRuns x)(i \<mapsto> upd r)\<rparr>) else (Inr 0, x))"

definition dry_transition ::
    "string \<Rightarrow> dry_status \<Rightarrow> dry_status \<Rightarrow> (dry_run \<Rightarrow> dry_run) \<Rightarrow> ('q, 'y, dry_run) dry" where
  "dry_transition i from_status to_status data =
     io_bind (update_dry_runs i (\<lambda>r. dyStatus r = from_status) (\<lambda>r. data (r\<lparr>dyStatus := to_status\<rparr>))) (\<lambda>count.
     if count = 0 then io_throw (NotFoundException ''Environment dry run transition failed'')
     else get_dry_run i)"

definition dry_mark_queued :: "string \<Rightarrow> string \<Rightarrow> ('q, 'y, dry_run) dry" where
  "dry_mark_queued i job = dry_transition i DRY_CREATED DRY_QUEUED (\<lambda>r. r\<lparr>dyQueueJobId := Some job\<rparr>)"

definition dry_enter_phase :: "string \<Rightarrow> dry_status \<Rightarrow> ('q, 'y, unit) dry" where
  "dry_enter_phase i st =
     io_bind (get_dry_run i) (\<lambda>row.
     io_bind (io_peek clock) (\<lambda>now.
     update_dry_run i (\<lambda>r. r\<lparr>dyStatus := st,
       dyStartedAt := Some (case dyStartedAt row of None \<Rightarrow> now | Some t \<Rightarrow> t)\<rparr>)))"

definition dry_mark_passed :: "string \<Rightarrow> ('q, 'y, unit) dry" where
  "dry_mark_passed i =
     io_bind (io_peek clock) (\<lambda>now.
     update_dry_run i (\<lambda>r. r\<lparr>dyStatus := DRY_PASSED, dyFinishedAt := Some now\<rparr>))"

definition dry_mark_infra_failed :: "string \<Rightarrow> dry_failure \<Rightarrow> string \<Rightarrow> ('q, 'y, unit) dry" where
  "dry_mark_infra_failed i category message =
     io_bind (io_peek clock) (\<lambda>now.
     update_dry_run i (\<lambda>r. r\<lparr>dyStatus := DRY_INFRA_FAILED, dyFailure := Some category,
       dyError := Some message, dyFinishedAt := Some now\<rparr>))"

definition dry_request_cancel :: "string \<Rightarrow> ('q, 'y, unit) dry" where
  "dry_request_cancel i =
     io_bind (io_peek clock) (\<lambda>now.
     update_dry_run i (\<lambda>r. r\<lparr>dyStatus := DRY_CANCEL_REQUESTED, dyCancelRequestedAt := Some now\<rparr>))"

definition dry_mark_cancelled :: "string \<Rightarrow> string option \<Rightarrow> ('q, 'y, unit) dry" where
  "dry_mark_cancelled i message =
     io_bind (io_peek clock) (\<lambda>now.
     update_dry_run i (\<lambda>r. r\<lparr>dyStatus := DRY_CANCELLED, dyError := keep_unless message (dyError r),
       dyFinishedAt := Some now\<rparr>))"

definition cancel_requested :: "dry_run \<Rightarrow> bool" where
  "cancel_requested r = (dyStatus r = DRY_CANCEL_REQUESTED \<or> dyCancelRequestedAt r \<noteq> None)"

definition dry_cancellation_requested :: "string \<Rightarrow> ('q, 'y, bool) dry" where
  "dry_cancellation_requested i =
     io_bind (find_dry_run i) (\<lambda>found. io_return (case found of None \<Rightarrow> False | Some r \<Rightarrow> cancel_requested r))"

definition max_dry_logs :: nat where
  "max_dry_logs = 500"

definition append_dry_log :: "string \<Rightarrow> string \<Rightarrow> string \<Rightarrow> ('q, 'y, unit) dry" where
  "append_dry_log i source message =
     io_bind (dry_call (\<lambda>x. (Inr (length (dwLogs x i)), x))) (\<lambda>count.
     if max_dry_logs \<le> count then io_return ()
     else dry_call (\<lambda>x. if dwRuns x i = None then (Inl (PlainError ''Foreign key constraint violated''), x)
       else (Inr (), x\<lparr>dwLogs := (dwLogs x)(i := dwLogs x i @ [(source, take 20000 message)])\<rparr>)))"

section \<open>The queue\<close>

definition dry_job_id :: "string \<Rightarrow> string" where
  "dry_job_id i = ''environment-dry-run:'' @ i"

definition dry_enqueue :: "'q job_queue \<Rightarrow> string \<Rightarrow> ('q, 'y, string) dry" where
  "dry_enqueue jobs i =
     io_bind (get_dry_run i) (\<lambda>row.
     if dyStatus row \<noteq> DRY_CREATED
     then io_return (case dyQueueJobId row of None \<Rightarrow> dry_job_id i | Some j \<Rightarrow> j)
     else io_then (dry_call (\<lambda>x. (Inr (), x\<lparr>dwQueue := queue_add jobs (dry_job_id i) i (dwQueue x)\<rparr>)))
       (io_then (dry_mark_queued i (dry_job_id i)) (io_return (dry_job_id i))))"

definition dry_cancel_queued :: "'q job_queue \<Rightarrow> string \<Rightarrow> ('q, 'y, queue_cancel) dry" where
  "dry_cancel_queued jobs i =
     io_bind (dry_call (\<lambda>x. (Inr (queue_state jobs (dry_job_id i) (dwQueue x)), x))) (\<lambda>job.
     if job = None then io_return Missing
     else io_bind (dry_call (\<lambda>x. (Inr (queue_state jobs (dry_job_id i) (dwQueue x)), x))) (\<lambda>state.
       if state \<in> Some ` set pending_states
       then io_then
         (dry_call (\<lambda>x. case queue_remove jobs (dry_job_id i) (dwQueue x) of
             Inl e \<Rightarrow> (Inl e, x) | Inr q \<Rightarrow> (Inr (), x\<lparr>dwQueue := q\<rparr>)))
         (io_return Removed)
       else io_return Active))"

section \<open>The service of the API\<close>

definition dry_project_or_throw :: "string \<Rightarrow> string \<Rightarrow> ('q, 'y, unit) dry" where
  "dry_project_or_throw project company =
     dry_call (\<lambda>x. (case dwProjects x project of
         None \<Rightarrow> Inl (NotFoundException ''Project not found'')
       | Some c \<Rightarrow> if c \<noteq> company then Inl (ForbiddenException ''Project belongs to another company'') else Inr (), x))"

definition find_project_dry_run :: "string \<Rightarrow> string \<Rightarrow> ('q, 'y, dry_run option) dry" where
  "find_project_dry_run project i =
     dry_call (\<lambda>x. (Inr (case dwRuns x i of
         None \<Rightarrow> None | Some r \<Rightarrow> if dyProject r = project then Some r else None), x))"

definition dry_find :: "string \<Rightarrow> string \<Rightarrow> string \<Rightarrow> ('q, 'y, dry_run) dry" where
  "dry_find project company i =
     io_then (dry_project_or_throw project company)
     (io_bind (find_project_dry_run project i) (\<lambda>found. case found of
        None \<Rightarrow> io_throw (NotFoundException ''Environment dry run not found'')
      | Some r \<Rightarrow> io_return r))"

definition insert_dry_run :: "string \<Rightarrow> string \<Rightarrow> string \<Rightarrow> ('q, 'y, unit) dry" where
  "insert_dry_run i project revision =
     dry_call (\<lambda>x. if dwRuns x i \<noteq> None then (Inl (PlainError ''Unique constraint failed''), x)
       else (Inr (), x\<lparr>dwRuns := (dwRuns x)(i \<mapsto>
         \<lparr>dyProject = project, dyRevision = revision, dyStatus = DRY_CREATED, dyQueueJobId = Some (dry_job_id i),
          dyFailure = None, dyError = None, dyStartedAt = None, dyFinishedAt = None, dyCancelRequestedAt = None\<rparr>)\<rparr>))"

text \<open>\<open>i\<close> is the random id of the new row.\<close>

definition dry_create ::
    "'q job_queue \<Rightarrow> string \<Rightarrow> string \<Rightarrow> string \<Rightarrow> string \<Rightarrow> ('q, 'y, dry_run) dry" where
  "dry_create jobs i project company revision =
     io_then (dry_project_or_throw project company)
     (io_bind (dry_call (\<lambda>x. (Inr (dwRevisions x revision = Some project), x))) (\<lambda>known.
      if \<not> known then io_throw (NotFoundException ''Environment config revision not found'')
      else io_then (insert_dry_run i project revision)
        (io_then
          (io_catch (io_then (dry_enqueue jobs i) (io_return ()))
            (\<lambda>e. io_bind (io_peek clock) (\<lambda>now.
              io_then (update_dry_run i (\<lambda>r. r\<lparr>dyStatus := DRY_INFRA_FAILED, dyError := Some (error_message e),
                  dyFinishedAt := Some now\<rparr>))
                (io_throw (BadRequestException (error_message e))))))
          (dry_find project company i))))"

definition dry_ended :: "dry_status list" where
  "dry_ended = [DRY_PASSED, DRY_INFRA_FAILED, DRY_CANCELLED]"

definition dry_cancel ::
    "'q job_queue \<Rightarrow> string \<Rightarrow> string \<Rightarrow> string \<Rightarrow> ('q, 'y, dry_run) dry" where
  "dry_cancel jobs project company i =
     io_then (dry_project_or_throw project company)
     (io_bind (find_project_dry_run project i) (\<lambda>found. case found of
        None \<Rightarrow> io_throw (NotFoundException ''Environment dry run not found'')
      | Some row \<Rightarrow>
          if dyStatus row \<in> set dry_ended then dry_find project company i
          else io_bind (io_peek clock) (\<lambda>now.
            io_bind (update_dry_runs i (\<lambda>r. dyProject r = project \<and> dyStatus r \<notin> set dry_ended)
                (\<lambda>r. r\<lparr>dyStatus := DRY_CANCEL_REQUESTED, dyCancelRequestedAt := Some now\<rparr>)) (\<lambda>count.
            if count = 0 then dry_find project company i
            else io_then (dry_cancel_queued jobs i) (dry_find project company i)))))"

section \<open>The worker\<close>

record dry_inputs =
  diBaseUrl :: string
  diRevision :: environment_revision

record runtime_config =
  rtBaseUrl :: string
  rtHealthPath :: string
  rtHealthStatus :: jsnum
  rtHealthTimeout :: jsnum

definition given_or_empty :: "json option \<Rightarrow> json" where
  "given_or_empty v = (case v of Some j \<Rightarrow> if j = JNull then JObj [] else j | None \<Rightarrow> JObj [])"

definition parse_runtime_config ::
    "(string \<Rightarrow> js_error + json option) \<Rightarrow> string \<Rightarrow> string \<Rightarrow> js_error + runtime_config" where
  "parse_runtime_config yaml_load runtime fallback =
     sbind (yaml_load runtime) (\<lambda>parsed.
     let app = given_or_empty (opt_prop parsed ''app'');
         health = given_or_empty (json_get app ''healthcheck'') in
     Inr \<lparr>rtBaseUrl = (case json_get app ''base_url'' of Some (JStr s) \<Rightarrow> s | _ \<Rightarrow> fallback),
          rtHealthPath = (case json_get health ''path'' of Some (JStr s) \<Rightarrow> s | _ \<Rightarrow> ''/health''),
          rtHealthStatus = (case json_get health ''expected_status'' of Some (JNum n) \<Rightarrow> n | _ \<Rightarrow> Fin 200),
          rtHealthTimeout = (case json_get health ''timeout_seconds'' of Some (JNum n) \<Rightarrow> n | _ \<Rightarrow> Fin 60)\<rparr>)"

text \<open>
  The target of the health check.  A status that is not a whole number is never answered: \<open>-1\<close> stands for
  it.  A timeout that is not a number (or minus infinity) is over at once, as zero seconds are.  With an
  infinite timeout, which YAML can write, the loop need not end; the model gives up instead.
\<close>

definition dry_health_target :: "string \<Rightarrow> runtime_config \<Rightarrow> js_error + health_target" where
  "dry_health_target url c =
     (let expected = (case rtHealthStatus c of Fin q \<Rightarrow> if q = of_int \<lfloor>q\<rfloor> then \<lfloor>q\<rfloor> else - 1 | _ \<Rightarrow> - 1) in
      case rtHealthTimeout c of
        PosInf \<Rightarrow> Inl (PlainError ''Unbounded health check'')
      | Fin q \<Rightarrow> Inr \<lparr>htUrl = url, htExpected = expected, htTimeoutSeconds = q\<rparr>
      | _ \<Rightarrow> Inr \<lparr>htUrl = url, htExpected = expected, htTimeoutSeconds = 0\<rparr>)"

definition dry_log :: "string \<Rightarrow> string \<Rightarrow> string \<Rightarrow> ('q, 'y, unit) dry" where
  "dry_log i source message =
     io_bind (io_peek rsMaskValues) (\<lambda>values. append_dry_log i source (mask_string values message))"

definition dry_resolve :: "'y services \<Rightarrow> runner_config \<Rightarrow> dry_inputs \<Rightarrow> ('q, 'y, unit) dry" where
  "dry_resolve api cfg inp =
     io_bind (resolve_for_run (worker_services api) cfg
       \<lparr>riBaseUrl = diBaseUrl inp, riHealthPath = [], riHealthStatus = 0, riHealthTimeout = 0,
        riEnvironment = Some (diRevision inp), riSuites = []\<rparr> (diRevision inp)) (\<lambda>secs.
     io_modify (\<lambda>s. s\<lparr>rsSecrets := secs, rsMaskValues := create_context (map snd secs)\<rparr>))"

definition dry_prepare :: "'y services \<Rightarrow> runner_config \<Rightarrow> string \<Rightarrow> ('q, 'y, unit) dry" where
  "dry_prepare api cfg i =
     io_then (dry_enter_phase i DRY_PREPARING_WORKSPACE)
     (io_bind (create_workspace (worker_services api) cfg (''dry-run-'' @ i)) (\<lambda>workspace.
      io_then (io_modify (\<lambda>s. s\<lparr>rsWorkspace := workspace\<rparr>))
        (dry_log i ''SYSTEM'' ''Preparing isolated workspace'')))"

definition dry_validate :: "'y services \<Rightarrow> runner_config \<Rightarrow> string \<Rightarrow> dry_inputs \<Rightarrow> ('q, 'y, runtime_config) dry" where
  "dry_validate api cfg i inp =
     io_then (dry_enter_phase i DRY_VALIDATING_ENVIRONMENT)
     (io_bind (io_peek rsSecrets) (\<lambda>secs.
      io_bind (io_peek rsWorkspace) (\<lambda>workspace.
      let er = diRevision inp;
          compose = replace_string_references secs (erCompose er);
          runtime = replace_string_references secs (erRuntime er) in
      io_then
        (if erDocker er
         then io_then (io_lift (validate_compose (yamlLoad (rcYaml cfg)) compose))
           (call_service (srvWriteFile (worker_services api) (workspace @ ''/docker-compose.test.yml'') compose))
         else io_return ())
      (io_then (call_service (srvWriteFile (worker_services api) (workspace @ ''/backend-test.yml'') runtime))
        (io_lift (parse_runtime_config (yamlLoad (rcYaml cfg)) runtime (diBaseUrl inp)))))))"

definition dry_start :: "'y services \<Rightarrow> string \<Rightarrow> dry_inputs \<Rightarrow> ('q, 'y, unit) dry" where
  "dry_start api i inp =
     (if erDocker (diRevision inp)
      then io_then (dry_enter_phase i DRY_PULLING_IMAGES)
        (io_then (dry_log i ''SYSTEM'' ''Preparing docker images'')
        (io_then (dry_enter_phase i DRY_STARTING_ENVIRONMENT)
        (io_then (dry_log i ''SYSTEM'' ''Starting docker compose environment'')
        (io_bind (io_peek rsWorkspace) (\<lambda>workspace.
         io_then (docker_up (worker_services api) workspace) (io_return ()))))))
      else io_return ())"

definition dry_health ::
    "'y services \<Rightarrow> runner_config \<Rightarrow> string \<Rightarrow> runtime_config \<Rightarrow> ('q, 'y, health_result) dry" where
  "dry_health api cfg i c =
     io_then (dry_enter_phase i DRY_WAITING_FOR_HEALTHCHECK)
     (io_bind (io_lift (sbind (rcUrl cfg (rtHealthPath c) (rtBaseUrl c)) (\<lambda>url. dry_health_target url c)))
       (wait_for_health (worker_services api)))"

definition dry_collect :: "'y services \<Rightarrow> string \<Rightarrow> dry_inputs \<Rightarrow> ('q, 'y, unit) dry" where
  "dry_collect api i inp =
     io_then (dry_enter_phase i DRY_COLLECTING_LOGS)
     (if erDocker (diRevision inp)
      then io_bind (io_peek rsWorkspace) (\<lambda>workspace.
        io_bind (io_catch (call_service (srvDocker (worker_services api) [''logs'', ''--no-color''] workspace))
            (\<lambda>_. io_return [])) (\<lambda>logs.
        if logs \<noteq> [] then dry_log i ''DOCKER'' logs else io_return ()))
      else io_return ())"

definition dry_cleanup :: "'y services \<Rightarrow> string \<Rightarrow> dry_inputs \<Rightarrow> ('q, 'y, unit) dry" where
  "dry_cleanup api i inp =
     io_then (dry_enter_phase i DRY_CLEANING_UP)
     (io_bind (io_peek rsWorkspace) (\<lambda>workspace.
      if erDocker (diRevision inp) \<and> workspace \<noteq> []
      then io_catch (io_then (docker_down (worker_services api) workspace) (io_return ()))
        (\<lambda>e. dry_log i ''ERROR'' (error_message e))
      else io_return ()))"

definition unless_cancelled :: "string \<Rightarrow> ('q, 'y, unit) dry \<Rightarrow> ('q, 'y, unit) dry" where
  "unless_cancelled i m =
     io_bind (dry_cancellation_requested i) (\<lambda>cancelled.
     if cancelled then dry_mark_cancelled i (Some ''Dry run cancelled'') else m)"

definition dry_body ::
    "'y services \<Rightarrow> runner_config \<Rightarrow> string \<Rightarrow> dry_inputs \<Rightarrow> ('q, 'y, unit) dry" where
  "dry_body api cfg i inp =
     io_bind (find_dry_run i) (\<lambda>found. case found of
       None \<Rightarrow> io_return ()
     | Some _ \<Rightarrow>
         io_then (dry_resolve api cfg inp)
         (io_then (dry_prepare api cfg i)
         (io_bind (dry_validate api cfg i inp) (\<lambda>c.
          unless_cancelled i
            (io_then (dry_start api i inp)
            (io_then (dry_health api cfg i c)
            (io_then (dry_collect api i inp)
            (io_then (dry_cleanup api i inp)
              (unless_cancelled i (dry_mark_passed i))))))))))"

definition dry_on_error :: "string \<Rightarrow> js_error \<Rightarrow> ('q, 'y, unit) dry" where
  "dry_on_error i e =
     io_bind (io_peek rsMaskValues) (\<lambda>values.
     let message = mask_string values (error_message e) in
     io_then (io_ignore (dry_log i ''ERROR'' message))
     (io_bind (dry_cancellation_requested i) (\<lambda>cancelled.
      if cancelled then io_ignore (dry_mark_cancelled i (Some message))
      else io_ignore (dry_mark_infra_failed i DRY_INTERNAL message))))"

definition dry_release :: "'y services \<Rightarrow> ('q, 'y, unit) dry" where
  "dry_release api =
     io_bind (io_peek rsWorkspace) (\<lambda>workspace.
     if workspace = [] then io_return ()
     else io_ignore (call_service (srvRemoveDir (worker_services api) workspace)))"

definition dry_execute ::
    "'y services \<Rightarrow> runner_config \<Rightarrow> string \<Rightarrow> dry_inputs \<Rightarrow> ('q, 'y, unit) dry" where
  "dry_execute api cfg i inp =
     io_then (io_modify (\<lambda>s. s\<lparr>rsWorkspace := [], rsSecrets := [], rsMaskValues := [], rsAborted := None\<rparr>))
     (io_finally (io_catch (dry_body api cfg i inp) (dry_on_error i)) (dry_release api))"

text \<open>\<open>processDryRun\<close> reads the row for the logging context first; \<open>onFailed\<close> marks the run as failed too.\<close>

definition process_dry_run ::
    "'y services \<Rightarrow> runner_config \<Rightarrow> string \<Rightarrow> dry_inputs \<Rightarrow> ('q, 'y, unit) dry" where
  "process_dry_run api cfg i inp =
     io_then (find_dry_run i)
     (io_catch (dry_execute api cfg i inp)
       (\<lambda>e. io_then (io_ignore (dry_mark_infra_failed i DRY_INTERNAL (error_message e))) (io_throw e)))"

definition dry_on_failed :: "string \<Rightarrow> nat \<Rightarrow> nat option \<Rightarrow> js_error \<Rightarrow> ('q, 'y, unit) dry" where
  "dry_on_failed i attemptsMade attempts e =
     (if attemptsMade < (case attempts of None \<Rightarrow> 1 | Some n \<Rightarrow> n) then io_return ()
      else io_ignore (dry_mark_infra_failed i DRY_INTERNAL (error_message e)))"

end
