(* ===== verification/Dry_Props.thy ===== *)
theory Dry_Props
  imports Dry_Runs Worker_Props
begin

text \<open>
  Dry runs always end; they pass only if the environment answered its health check; cancelling, creating
  and the places where the code goes wrong.
\<close>

section \<open>Invariants of the world outside\<close>

text \<open>
  \<open>keeps P m\<close>: \<open>m\<close> preserves \<open>P\<close>; \<open>ensures P m Q\<close>: when \<open>m\<close> returns from \<open>P\<close>, \<open>Q\<close> holds.  In a
  calm world \<open>J\<close> holds outside, the others act within \<open>R\<close>, and every call is answered.
\<close>

definition keeps :: "('s world \<Rightarrow> bool) \<Rightarrow> ('s, 'a) io \<Rightarrow> bool" where
  "keeps P m = (\<forall>w. P w \<longrightarrow> P (snd (m w)))"

definition ensures :: "('s world \<Rightarrow> bool) \<Rightarrow> ('s, 'a) io \<Rightarrow> ('a \<Rightarrow> 's world \<Rightarrow> bool) \<Rightarrow> bool" where
  "ensures P m Q = (\<forall>w a w'. P w \<longrightarrow> m w = (Inr a, w') \<longrightarrow> Q a w')"

definition calm ::
    "('x \<Rightarrow> bool) \<Rightarrow> ('x runner_store \<Rightarrow> 'x runner_store \<Rightarrow> bool) \<Rightarrow> 'x runner_store world \<Rightarrow> bool" where
  "calm J R w = (J (rsOutside (store w)) \<and> rely R (pending w) \<and> (\<forall>c\<in>set (pending w). reply c = Done))"

lemma keepsD: "keeps P m \<Longrightarrow> P w \<Longrightarrow> m w = (r, w') \<Longrightarrow> P w'"
  unfolding keeps_def by (metis snd_conv)

lemma keeps_pure:
  "keeps P (io_return a)" "keeps P (io_throw e)" "keeps P (io_lift q)" "keeps P (io_peek f)"
  by (simp_all add: keeps_def io_return_def io_throw_def io_lift_def io_peek_def)

lemma keeps_bind: "keeps P m \<Longrightarrow> (\<And>a. keeps P (f a)) \<Longrightarrow> keeps P (io_bind m f)"
  by (auto simp: keeps_def io_bind_def split: prod.split sum.split)

lemma keeps_then: "keeps P m \<Longrightarrow> keeps P k \<Longrightarrow> keeps P (io_then m k)"
  by (simp add: io_then_def keeps_bind)

lemma keeps_catch: "keeps P m \<Longrightarrow> (\<And>e. keeps P (h e)) \<Longrightarrow> keeps P (io_catch m h)"
  by (auto simp: keeps_def io_catch_def split: prod.split sum.split)

lemma keeps_ignore: "keeps P m \<Longrightarrow> keeps P (io_ignore m)"
  by (simp add: io_ignore_def keeps_catch keeps_then keeps_pure)

lemma keeps_if: "keeps P m \<Longrightarrow> keeps P k \<Longrightarrow> keeps P (if b then m else k)"
  by simp

lemma keeps_option: "keeps P m \<Longrightarrow> (\<And>x. keeps P (k x)) \<Longrightarrow> keeps P (case v of None \<Rightarrow> m | Some x \<Rightarrow> k x)"
  by (cases v) simp_all

lemmas keeps_rules = keeps_pure keeps_bind keeps_then keeps_catch keeps_ignore keeps_if keeps_option

lemma ensures_bind:
  "ensures P m A \<Longrightarrow> (\<And>a. ensures (A a) (f a) Q) \<Longrightarrow> ensures P (io_bind m f) Q"
  by (fastforce simp: ensures_def io_bind_def split: prod.splits sum.splits)

lemma ensures_kept: "keeps P m \<Longrightarrow> ensures P m (\<lambda>_. P)"
  unfolding keeps_def ensures_def by (metis snd_conv)

lemma ensures_then: "keeps P m \<Longrightarrow> ensures P k Q \<Longrightarrow> ensures P (io_then m k) Q"
  unfolding io_then_def by (rule ensures_bind[OF ensures_kept]) auto

lemma ensures_after: "keeps P m \<Longrightarrow> (\<And>a. ensures P (f a) Q) \<Longrightarrow> ensures P (io_bind m f) Q"
  by (rule ensures_bind[OF ensures_kept]) auto

lemma ensures_if: "ensures P m Q \<Longrightarrow> ensures P k Q \<Longrightarrow> ensures P (if b then m else k) Q"
  by simp

locale outside_invariant =
  fixes J :: "'x \<Rightarrow> bool" and R :: "'x runner_store \<Rightarrow> 'x runner_store \<Rightarrow> bool"
  assumes stable: "J (rsOutside s) \<Longrightarrow> R s t \<Longrightarrow> J (rsOutside t)"
begin

lemma keeps_call:
  assumes "\<And>s. J (rsOutside s) \<Longrightarrow> J (rsOutside (snd (f s)))"
  shows "keeps (calm J R) (io_call f)"
  unfolding keeps_def
proof (intro allI impI)
  fix w assume w: "calm J R w"
  show "calm J R (snd (io_call f w))"
  proof (cases "pending w")
    case Nil
    with w assms[of "store w"] show ?thesis by (auto simp: io_call_def calm_def split: prod.split)
  next
    case (Cons c cs)
    then have "J (rsOutside (others c (store w)))" "reply c = Done"
      using w stable by (auto simp: calm_def)
    with w Cons assms[of "others c (store w)"] show ?thesis
      by (auto simp: io_call_def calm_def Let_def split: prod.split)
  qed
qed

lemma keeps_service:
  assumes "\<And>x. J x \<Longrightarrow> J (snd (snd (f x)))"
  shows "keeps (calm J R) (call_service f)"
  unfolding call_service_def by (rule keeps_call) (use assms in \<open>auto split: prod.split\<close>, force)

lemma keeps_dry_call:
  assumes "\<And>x. J x \<Longrightarrow> J (snd (f x))"
  shows "keeps (calm J R) (io_call (\<lambda>s. case f (rsOutside s) of (r, x) \<Rightarrow> (r, s\<lparr>rsOutside := x\<rparr>)))"
  by (rule keeps_call) (use assms in \<open>auto split: prod.split\<close>, force)

lemma keeps_modify: "(\<And>s. rsOutside (f s) = rsOutside s) \<Longrightarrow> keeps (calm J R) (io_modify f)"
  by (simp add: keeps_def io_modify_def calm_def)

lemma keeps_timer: "keeps (calm J R) (timer ms)"
  using stable by (auto simp: keeps_def timer_def calm_def Let_def split: list.split)

lemma keeps_sleep: "keeps (calm J R) (abortable_sleep ms)"
  unfolding abortable_sleep_def by (intro keeps_rules keeps_timer)

lemma keeps_probe:
  assumes "\<And>x. J x \<Longrightarrow> J (snd (snd (srvProbe api (htUrl t) x)))"
  shows "keeps (calm J R) (probe api t st a)"
  unfolding probe_def by (intro keeps_rules keeps_service assms)

lemma keeps_wait_for:
  assumes "\<And>x. J x \<Longrightarrow> J (snd (snd (srvProbe api (htUrl t) x)))"
  shows "calm J R w \<Longrightarrow> calm J R (snd (wait_for api t st d a m w))"
  using assms
proof (induction api t st d a m w rule: wait_for.induct)
  case (1 api t st d a m w)
  show ?case
  proof (cases "of_int (clock (store w)) < d")
    case False
    with 1(2) show ?thesis by (subst wait_for.simps) simp
  next
    case True
    obtain q w1 where p: "probe api t st a w = (q, w1)" by force
    have w1: "calm J R w1" using keepsD[OF keeps_probe[of api t] 1(2) p] 1(3) by blast
    show ?thesis
    proof (cases "\<exists>a' m'. q = Inr (Inr (a', m'))")
      case False
      with True p w1 show ?thesis by (subst wait_for.simps) (auto split: sum.split)
    next
      case go: True
      then obtain a' m' where q: "q = Inr (Inr (a', m'))" by blast
      obtain z w2 where s: "abortable_sleep 1000 w1 = (z, w2)" by force
      have w2: "calm J R w2" by (rule keepsD[OF keeps_sleep w1 s])
      show ?thesis
      proof (cases z)
        case (Inl e)
        with True p q s w2 show ?thesis by (subst wait_for.simps) simp
      next
        case (Inr u)
        have "calm J R (snd (wait_for api t st d a' m' w2))"
          using 1(1)[of q w1 "Inr (a', m')" "(a', m')" a' m' z w2 u] True p q s Inr w2 1(3) by simp
        with True p q s Inr show ?thesis by (subst wait_for.simps) simp
      qed
    qed
  qed
qed

lemma keeps_wait_for_health:
  assumes "\<And>x. J x \<Longrightarrow> J (snd (snd (srvProbe api (htUrl t) x)))"
  shows "keeps (calm J R) (wait_for_health api t)"
  using keeps_wait_for[of api t] assms by (auto simp: keeps_def wait_for_health_def Let_def)

end

lemma keeps_finally: "keeps P m \<Longrightarrow> keeps P f \<Longrightarrow> keeps P (io_finally m f)"
  unfolding keeps_def io_finally_def by (auto split: prod.split sum.split)

section \<open>Environments that do not answer\<close>

text \<open>Whatever the runtime file says after the secrets are filled in, the expected status is never answered.\<close>

definition unhealthy :: "'y services \<Rightarrow> runner_config \<Rightarrow> dry_inputs \<Rightarrow> bool" where
  "unhealthy api cfg inp =
     (\<forall>secs c url t y.
        parse_runtime_config (yamlLoad (rcYaml cfg)) (replace_string_references secs (erRuntime (diRevision inp)))
          (diBaseUrl inp) = Inr c \<longrightarrow>
        dry_health_target url c = Inr t \<longrightarrow> fst (srvProbe api url y) \<noteq> Inr (htExpected t))"

lemma target_url: "dry_health_target url c = Inr t \<Longrightarrow> htUrl t = url"
  by (auto simp: dry_health_target_def Let_def split: jsnum.splits)

lemma service_answer:
  assumes "call_service f w = (Inr a, w')"
  shows "\<exists>x. fst (f x) = Inr a"
proof (cases "pending w")
  case Nil
  with assms show ?thesis
    by (auto simp: call_service_def io_call_def split: prod.splits intro!: exI[of _ "rsOutside (store w)"])
next
  case (Cons c cs)
  with assms show ?thesis
    by (auto simp: call_service_def io_call_def Let_def split: prod.splits outcome.splits
        intro!: exI[of _ "rsOutside (others c (store w))"])
qed

lemma probe_never:
  assumes "\<And>x. fst (srvProbe api (htUrl t) x) \<noteq> Inr (htExpected t)"
  shows "fst (probe api t st a w) \<noteq> Inr (Inl ok)"
proof
  assume "fst (probe api t st a w) = Inr (Inl ok)"
  then obtain w1 w2 where "call_service (srvProbe api (htUrl t)) w1 = (Inr (htExpected t), w2)"
    by (auto simp: probe_def io_bind_def io_catch_def io_peek_def io_return_def io_throw_def
        split: option.splits prod.splits sum.splits if_splits)
  from service_answer[OF this] assms show False by blast
qed

lemma wait_for_never:
  assumes "\<And>x. fst (srvProbe api (htUrl t) x) \<noteq> Inr (htExpected t)"
  shows "fst (wait_for api t st d a m w) \<noteq> Inr ok"
  using assms
proof (induction api t st d a m w rule: wait_for.induct)
  case (1 api t st d a m w)
  show ?case
  proof (cases "of_int (clock (store w)) < d")
    case False
    then show ?thesis by (subst wait_for.simps) simp
  next
    case True
    obtain q w1 where p: "probe api t st a w = (q, w1)" by force
    show ?thesis
    proof (cases "\<exists>a' m'. q = Inr (Inr (a', m'))")
      case False
      with True p probe_never[OF 1(2), of st a w] show ?thesis
        by (subst wait_for.simps) (auto split: sum.split)
    next
      case go: True
      then obtain a' m' where q: "q = Inr (Inr (a', m'))" by blast
      obtain z w2 where s: "abortable_sleep 1000 w1 = (z, w2)" by force
      show ?thesis
      proof (cases z)
        case (Inl e)
        with True p q s show ?thesis by (subst wait_for.simps) simp
      next
        case (Inr u)
        have "fst (wait_for api t st d a' m' w2) \<noteq> Inr ok"
          using 1(1)[of q w1 "Inr (a', m')" "(a', m')" a' m' z w2 u] True p q s Inr 1(2) by simp
        with True p q s Inr show ?thesis by (subst wait_for.simps) simp
      qed
    qed
  qed
qed

lemma unhealthy_never:
  assumes "unhealthy api cfg inp" "parse_runtime_config (yamlLoad (rcYaml cfg))
      (replace_string_references secs (erRuntime (diRevision inp))) (diBaseUrl inp) = Inr c"
  shows "dry_health api cfg i c w \<noteq> (Inr h, w')"
proof
  assume "dry_health api cfg i c w = (Inr h, w')"
  then obtain url t w1 where t: "dry_health_target url c = Inr t" "wait_for_health (worker_services api) t w1 = (Inr h, w')"
    by (auto simp: dry_health_def io_then_def io_bind_def io_lift_def sbind_Inr_iff split: prod.splits sum.splits)
  have "fst (srvProbe (worker_services api) (htUrl t) x) \<noteq> Inr (htExpected t)" for x
    using assms(1)[unfolded unhealthy_def] assms(2) t(1) target_url[OF t(1)]
    by (auto simp: worker_services_def on_rest_def split_beta)
  note no = wait_for_never[of "worker_services api" t, OF this]
  from t(2) show False
    unfolding wait_for_health_def Let_def using no by (metis fst_conv)
qed

section \<open>What a worker keeps\<close>

text \<open>
  An invariant of the tables and the rest that the services keep (stopping the containers apart), and
  every update of a row that does not mark it as passed.
\<close>

locale dry_invariant = outside_invariant J R
  for J :: "('q, 'y) dry_world \<Rightarrow> bool" and R +
  fixes api :: "'y services"
  assumes keep_row: "J x \<Longrightarrow> dwRuns x i = Some r \<Longrightarrow> dyStatus r' \<noteq> DRY_PASSED \<Longrightarrow> J (x\<lparr>dwRuns := (dwRuns x)(i \<mapsto> r')\<rparr>)"
    and keep_log: "J x \<Longrightarrow> J (x\<lparr>dwLogs := l\<rparr>)"
    and keep_probe: "J x \<Longrightarrow> J (x\<lparr>dwRest := snd (snd (srvProbe api u (dwRest x)))\<rparr>)"
    and keep_docker: "J x \<Longrightarrow> a \<noteq> [''down'', ''-v''] \<Longrightarrow> J (x\<lparr>dwRest := snd (snd (srvDocker api a d (dwRest x)))\<rparr>)"
    and keep_make: "J x \<Longrightarrow> J (x\<lparr>dwRest := snd (snd (srvMakeDir api d (dwRest x)))\<rparr>)"
    and keep_write: "J x \<Longrightarrow> J (x\<lparr>dwRest := snd (snd (srvWriteFile api f t (dwRest x)))\<rparr>)"
    and keep_remove: "J x \<Longrightarrow> J (x\<lparr>dwRest := snd (snd (srvRemoveDir api d (dwRest x)))\<rparr>)"
    and keep_secret_rows: "J x \<Longrightarrow> J (x\<lparr>dwRest := snd (snd (srvSecretRows api ks (dwRest x)))\<rparr>)"
    and keep_secrets_used: "J x \<Longrightarrow> J (x\<lparr>dwRest := snd (snd (srvSecretsUsed api ks (dwRest x)))\<rparr>)"
begin

lemma keeps_worker_services:
  "keeps (calm J R) (call_service (srvProbe (worker_services api) u))"
  "a \<noteq> [''down'', ''-v''] \<Longrightarrow> keeps (calm J R) (call_service (srvDocker (worker_services api) a d))"
  "keeps (calm J R) (call_service (srvMakeDir (worker_services api) d))"
  "keeps (calm J R) (call_service (srvWriteFile (worker_services api) f t))"
  "keeps (calm J R) (call_service (srvRemoveDir (worker_services api) d))"
  "keeps (calm J R) (call_service (srvSecretRows (worker_services api) ks))"
  "keeps (calm J R) (call_service (srvSecretsUsed (worker_services api) ks))"
  by (rule keeps_service; simp add: worker_services_def on_rest_def split_beta
      keep_probe keep_docker keep_make keep_write keep_remove keep_secret_rows keep_secrets_used)+

lemma keeps_read: "keeps (calm J R) (find_dry_run i)" "keeps (calm J R) (get_dry_run i)"
    "keeps (calm J R) (dry_cancellation_requested i)"
  unfolding get_dry_run_def dry_cancellation_requested_def find_dry_run_def dry_call_def
  by (intro keeps_rules keeps_dry_call; simp)+

lemma keeps_update:
  "(\<And>r. dyStatus (upd r) \<noteq> DRY_PASSED) \<Longrightarrow> keeps (calm J R) (update_dry_run i upd)"
  unfolding update_dry_run_def dry_call_def
  by (rule keeps_dry_call) (auto intro!: keep_row simp del: fun_upd_apply split: option.split)

lemma keeps_phase: "st \<noteq> DRY_PASSED \<Longrightarrow> keeps (calm J R) (dry_enter_phase i st)"
  unfolding dry_enter_phase_def by (intro keeps_rules keeps_read keeps_update) simp

lemma keeps_append_log: "keeps (calm J R) (append_dry_log i src m)"
  unfolding append_dry_log_def dry_call_def by (intro keeps_rules keeps_dry_call) (simp_all add: keep_log)

lemma keeps_log: "keeps (calm J R) (dry_log i src m)"
  unfolding dry_log_def by (intro keeps_rules keeps_append_log)

lemma keeps_marks: "keeps (calm J R) (dry_mark_cancelled i m)" "keeps (calm J R) (dry_mark_infra_failed i f e)"
  unfolding dry_mark_cancelled_def dry_mark_infra_failed_def by (intro keeps_rules keeps_update; simp)+

lemma keeps_let: "(\<And>x. keeps P (k x)) \<Longrightarrow> keeps P (let x = v in k x)"
  by simp

lemmas worker_keeps = keeps_rules keeps_let keeps_worker_services keeps_read keeps_log keeps_marks keeps_modify

lemma keeps_resolve: "keeps (calm J R) (dry_resolve api cfg inp)"
  unfolding dry_resolve_def resolve_for_run_def by (intro worker_keeps) simp

lemma keeps_prepare: "keeps (calm J R) (dry_prepare api cfg i)"
  unfolding dry_prepare_def create_workspace_def by (intro worker_keeps keeps_phase) simp_all

lemma keeps_validate: "keeps (calm J R) (dry_validate api cfg i inp)"
  unfolding dry_validate_def by (intro worker_keeps keeps_phase) simp_all

lemma keeps_start: "keeps (calm J R) (dry_start api i inp)"
  unfolding dry_start_def docker_up_def by (intro worker_keeps keeps_phase) simp_all

lemma keeps_health: "keeps (calm J R) (dry_health api cfg i c)"
proof -
  have "J x \<Longrightarrow> J (snd (snd (srvProbe (worker_services api) u x)))" for u x
    by (simp add: worker_services_def on_rest_def split_beta keep_probe)
  then show ?thesis
    unfolding dry_health_def by (intro worker_keeps keeps_phase keeps_wait_for_health) simp_all
qed

lemma keeps_collect: "keeps (calm J R) (dry_collect api i inp)"
  unfolding dry_collect_def by (intro worker_keeps keeps_phase) simp_all

lemma keeps_release: "keeps (calm J R) (dry_release api)"
  unfolding dry_release_def by (intro worker_keeps)

lemma keeps_on_error: "keeps (calm J R) (dry_on_error i e)"
  unfolding dry_on_error_def by (intro worker_keeps)

text \<open>When the environment never answers as expected, nothing after the health check is done.\<close>

lemma keeps_never: "keeps P m \<Longrightarrow> ensures P m (\<lambda>_ _. False) \<Longrightarrow> keeps P (io_then m k)"
  unfolding keeps_def ensures_def io_then_def io_bind_def
  by (auto split: prod.split sum.split)

lemma keeps_known: "keeps P m \<Longrightarrow> ensures P m (\<lambda>a _. V a) \<Longrightarrow> (\<And>a. V a \<Longrightarrow> keeps P (f a)) \<Longrightarrow> keeps P (io_bind m f)"
  unfolding keeps_def ensures_def io_bind_def
  by (auto split: prod.split sum.split)

lemma validate_parses:
  "ensures (calm J R) (dry_validate api cfg i inp) (\<lambda>c _. \<exists>secs. parse_runtime_config (yamlLoad (rcYaml cfg))
     (replace_string_references secs (erRuntime (diRevision inp))) (diBaseUrl inp) = Inr c)"
  unfolding dry_validate_def Let_def
  by (intro ensures_then ensures_after worker_keeps keeps_phase) (auto simp: ensures_def io_lift_def)

lemma keeps_unhealthy:
  assumes "unhealthy api cfg inp"
  shows "keeps (calm J R) (dry_execute api cfg i inp)"
proof -
  have never: "ensures (calm J R) (dry_health api cfg i c) (\<lambda>_ _. False)"
    if "parse_runtime_config (yamlLoad (rcYaml cfg))
      (replace_string_references secs (erRuntime (diRevision inp))) (diBaseUrl inp) = Inr c" for c secs
    using unhealthy_never[OF assms that] unfolding ensures_def by blast
  have "keeps (calm J R) (dry_body api cfg i inp)"
    unfolding dry_body_def unless_cancelled_def
    by (intro keeps_option keeps_pure keeps_then keeps_if keeps_bind[OF keeps_read(1)] keeps_bind[OF keeps_read(3)]
        keeps_known[OF keeps_validate validate_parses] keeps_never[OF keeps_health] keeps_resolve keeps_prepare keeps_start
        keeps_marks) (auto intro: never)
  then show ?thesis
    unfolding dry_execute_def
    by (intro keeps_then keeps_modify keeps_finally keeps_catch keeps_on_error keeps_release) simp_all
qed

end

section \<open>Dry runs end\<close>

definition dry_present :: "string \<Rightarrow> ('q, 'y) dry_world \<Rightarrow> bool" where
  "dry_present i x = (dwRuns x i \<noteq> None)"

definition dry_closed :: "string \<Rightarrow> ('q, 'y) dry_world \<Rightarrow> bool" where
  "dry_closed i x = (\<exists>r. dwRuns x i = Some r \<and> dyStatus r \<in> set dry_ended \<and> dyFinishedAt r \<noteq> None)"

text \<open>What the others do: a dry run is not deleted, and an ended one stays ended.\<close>

definition dry_step :: "string \<Rightarrow> ('q, 'y) dry_world runner_store \<Rightarrow> ('q, 'y) dry_world runner_store \<Rightarrow> bool" where
  "dry_step i s t =
     ((dry_present i (rsOutside s) \<longrightarrow> dry_present i (rsOutside t))
      \<and> (dry_closed i (rsOutside s) \<longrightarrow> dry_closed i (rsOutside t)))"

interpretation dry_step: step_relation "dry_step i"
  by unfold_locales (auto simp: dry_step_def)

interpretation present: dry_invariant "dry_present i" "dry_step i" api
  by unfold_locales (auto simp: dry_present_def dry_step_def)

interpretation closed: outside_invariant "dry_closed i" "dry_step i"
  by unfold_locales (auto simp: dry_step_def)

lemma closed_release: "keeps (calm (dry_closed i) (dry_step i)) (dry_release api)"
  unfolding dry_release_def
  by (intro keeps_rules closed.keeps_service) (auto simp: worker_services_def on_rest_def dry_closed_def split_beta)

text \<open>A call in a calm world is answered.\<close>

lemma calm_update:
  assumes "calm (dry_present i) (dry_step i) w" "\<And>r. dyStatus (upd r) \<in> set dry_ended \<and> dyFinishedAt (upd r) \<noteq> None"
  shows "\<exists>w'. update_dry_run i upd w = (Inr (), w') \<and> calm (dry_closed i) (dry_step i) w'"
proof (cases "pending w")
  case Nil
  with assms show ?thesis
    by (auto simp: update_dry_run_def dry_call_def io_call_def calm_def dry_present_def dry_closed_def)
next
  case (Cons c cs)
  then have "dry_present i (rsOutside (others c (store w)))" "reply c = Done"
    using assms(1) by (auto simp: calm_def dry_step_def)
  with Cons assms show ?thesis
    by (auto simp: update_dry_run_def dry_call_def io_call_def calm_def dry_present_def dry_closed_def Let_def)
qed

lemma calm_read:
  assumes "calm (dry_present i) (dry_step i) w"
  shows "\<exists>r w'. find_dry_run i w = (Inr (Some r), w') \<and> calm (dry_present i) (dry_step i) w'"
proof -
  have "\<exists>r w'. find_dry_run i w = (Inr (Some r), w')"
    using assms
    by (cases "pending w")
      (auto simp: find_dry_run_def dry_call_def io_call_def calm_def dry_present_def dry_step_def Let_def)
  then show ?thesis using keepsD[OF present.keeps_read(1) assms] by blast
qed

lemma calm_marks:
  assumes "calm (dry_present i) (dry_step i) w"
  shows "\<exists>w'. dry_mark_passed i w = (Inr (), w') \<and> calm (dry_closed i) (dry_step i) w'"
    and "\<exists>w'. dry_mark_cancelled i m w = (Inr (), w') \<and> calm (dry_closed i) (dry_step i) w'"
    and "\<exists>w'. dry_mark_infra_failed i f e w = (Inr (), w') \<and> calm (dry_closed i) (dry_step i) w'"
  unfolding dry_mark_passed_def dry_mark_cancelled_def dry_mark_infra_failed_def io_bind_def io_peek_def
  by (simp_all add: calm_update[OF assms] dry_ended_def)

lemma marks_close:
  "ensures (calm (dry_present i) (dry_step i)) (dry_mark_passed i) (\<lambda>_. calm (dry_closed i) (dry_step i))"
  "ensures (calm (dry_present i) (dry_step i)) (dry_mark_cancelled i m) (\<lambda>_. calm (dry_closed i) (dry_step i))"
  unfolding ensures_def using calm_marks by (metis prod.inject)+

lemma unless_cancelled_closes:
  assumes "ensures (calm (dry_present i) (dry_step i)) m (\<lambda>_. calm (dry_closed i) (dry_step i))"
  shows "ensures (calm (dry_present i) (dry_step i)) (unless_cancelled i m) (\<lambda>_. calm (dry_closed i) (dry_step i))"
  unfolding unless_cancelled_def
  by (intro ensures_after ensures_if present.keeps_read marks_close assms)

lemma keeps_cleanup: "keeps (calm (dry_present i) (dry_step i)) (dry_cleanup api j inp)"
  unfolding dry_cleanup_def docker_down_def
  by (intro keeps_rules present.keeps_phase present.keeps_service present.keeps_log)
    (auto simp: worker_services_def on_rest_def dry_present_def split_beta)

lemma body_closes:
  "ensures (calm (dry_present i) (dry_step i)) (dry_body api cfg i inp) (\<lambda>_. calm (dry_closed i) (dry_step i))"
proof -
  have "ensures (calm (dry_present i) (dry_step i)) (find_dry_run i)
      (\<lambda>found w. found \<noteq> None \<and> calm (dry_present i) (dry_step i) w)"
    using calm_read unfolding ensures_def by (metis Inr_inject option.distinct(1) prod.inject)
  then show ?thesis
    unfolding dry_body_def
  proof (rule ensures_bind, goal_cases)
    case (1 found)
    let ?rest = "io_then (dry_resolve api cfg inp)
         (io_then (dry_prepare api cfg i)
         (io_bind (dry_validate api cfg i inp) (\<lambda>c.
          unless_cancelled i
            (io_then (dry_start api i inp)
            (io_then (dry_health api cfg i c)
            (io_then (dry_collect api i inp)
            (io_then (dry_cleanup api i inp)
              (unless_cancelled i (dry_mark_passed i)))))))))"
    have "ensures (calm (dry_present i) (dry_step i)) ?rest (\<lambda>_. calm (dry_closed i) (dry_step i))"
      by (intro ensures_then ensures_after unless_cancelled_closes marks_close keeps_cleanup
          present.keeps_resolve present.keeps_prepare present.keeps_validate present.keeps_start
          present.keeps_health present.keeps_collect)
    then show ?case by (cases found) (auto simp: ensures_def)
  qed
qed

lemma dry_on_error_closes:
  assumes "calm (dry_present i) (dry_step i) w"
  shows "\<exists>w'. dry_on_error i e w = (Inr (), w') \<and> calm (dry_closed i) (dry_step i) w'"
proof -
  let ?m = "mask_string (rsMaskValues (store w)) (error_message e)"
  obtain w1 where 1: "io_ignore (dry_log i ''ERROR'' ?m) w = (Inr (), w1)" "calm (dry_present i) (dry_step i) w1"
    using keepsD[OF present.keeps_log assms] by (metis io_ignore_snd prod.collapse)
  obtain b w2 where 2: "dry_cancellation_requested i w1 = (Inr b, w2)" "calm (dry_present i) (dry_step i) w2"
    using calm_read[OF 1(2)] by (auto simp: dry_cancellation_requested_def io_bind_def io_return_def)
  have "\<exists>w'. (if b then io_ignore (dry_mark_cancelled i (Some ?m)) else io_ignore (dry_mark_infra_failed i DRY_INTERNAL ?m)) w2
      = (Inr (), w') \<and> calm (dry_closed i) (dry_step i) w'"
    using calm_marks(2)[OF 2(2), of "Some ?m"] calm_marks(3)[OF 2(2), of DRY_INTERNAL ?m]
    by (auto simp: io_ignore_snd)
  then show ?thesis
    using 1(1) 2(1) by (simp add: dry_on_error_def io_bind_def io_then_def io_peek_def Let_def)
qed

lemma dry_run_ends:
  assumes "dry_present i (rsOutside (store w))" "rely (dry_step i) (pending w)" "\<forall>c\<in>set (pending w). reply c = Done"
  shows "\<exists>w' r. dry_execute api cfg i inp w = (Inr (), w') \<and> dwRuns (rsOutside (store w')) i = Some r
    \<and> dyStatus r \<in> set dry_ended \<and> dyFinishedAt r \<noteq> None"
proof -
  let ?init = "\<lambda>s. s\<lparr>rsWorkspace := [], rsSecrets := [], rsMaskValues := [], rsAborted := None\<rparr>"
  let ?w = "w\<lparr>store := ?init (store w)\<rparr>"
  have w: "calm (dry_present i) (dry_step i) ?w" using assms by (simp add: calm_def)
  obtain q w1 where b: "dry_body api cfg i inp ?w = (q, w1)" by force
  have "\<exists>w2. io_catch (dry_body api cfg i inp) (dry_on_error i) ?w = (Inr (), w2) \<and> calm (dry_closed i) (dry_step i) w2"
  proof (cases q)
    case (Inr u)
    with b body_closes[of i api cfg inp] w show ?thesis by (auto simp: ensures_def io_catch_def)
  next
    case (Inl e)
    have "calm (dry_present i) (dry_step i) w1"
    proof -
      have "keeps (calm (dry_present i) (dry_step i)) (dry_body api cfg i inp)"
        unfolding dry_body_def unless_cancelled_def dry_mark_passed_def update_dry_run_def dry_call_def
        by (intro keeps_rules present.keeps_read present.keeps_resolve present.keeps_prepare present.keeps_validate
            present.keeps_start present.keeps_health present.keeps_collect keeps_cleanup present.keeps_marks
            present.keeps_dry_call) (auto simp: dry_present_def split: option.split)
      then show ?thesis using w b by (rule keepsD)
    qed
    with b Inl dry_on_error_closes show ?thesis by (simp add: io_catch_def)
  qed
  then obtain w2 where 2: "io_catch (dry_body api cfg i inp) (dry_on_error i) ?w = (Inr (), w2)"
      "calm (dry_closed i) (dry_step i) w2" by blast
  obtain w3 where 3: "dry_release api w2 = (Inr (), w3)"
    by (cases "rsWorkspace (store w2) = []")
      (auto simp: dry_release_def io_bind_def io_peek_def io_return_def io_ignore_snd)
  have "calm (dry_closed i) (dry_step i) w3" by (rule keepsD[OF closed_release 2(2) 3])
  moreover have "dry_execute api cfg i inp w = (Inr (), w3)"
    using 2(1) 3 by (simp add: dry_execute_def io_then_def io_bind_def io_modify_def io_finally_def)
  ultimately show ?thesis by (auto simp: calm_def dry_closed_def)
qed


definition silent_services :: "unit services" where
  "silent_services =
     (let fail = (\<lambda>y. (Inl (PlainError ''refused''), 0, y)); ok = (\<lambda>y. (Inr (), 0, y)) in
      \<lparr>srvFetch = (\<lambda>_. fail), srvProbe = (\<lambda>_ y. (Inl (PlainError ''refused''), 0, y)), srvPutArtifact = (\<lambda>_ _. ok),
       srvAppendLog = (\<lambda>_ _ _. ok), srvReport = (\<lambda>_. ok), srvDocker = (\<lambda>_ _ y. (Inr [], 0, y)), srvMakeDir = (\<lambda>_. ok),
       srvWriteFile = (\<lambda>_ _. ok), srvRemoveDir = (\<lambda>_. ok), srvSecretRows = (\<lambda>_ y. (Inr [], 0, y)),
       srvSecretsUsed = (\<lambda>_. ok), srvFirstSuccess = (\<lambda>_ _. ok)\<rparr>)"

definition plain_config :: runner_config where
  "plain_config =
     \<lparr>rcRunner = ''w'', rcLease = 1, rcRoot = ''/tmp'', rcUrl = (\<lambda>path base. Inr (base @ path)), rcDecrypt = (\<lambda>v k. v),
      rcYaml = \<lparr>localeCompare = (\<lambda>_ _. 0), yamlLoad = (\<lambda>_. Inr (Some (JObj []))), yamlDump = (\<lambda>_. [])\<rparr>\<rparr>"

definition plain_inputs :: dry_inputs where
  "plain_inputs = \<lparr>diBaseUrl = ''http://app'',
     diRevision = \<lparr>erDocker = False, erCompose = [], erRuntime = [], erVisual = None\<rparr>\<rparr>"

definition created_world :: "string \<Rightarrow> dry_status \<Rightarrow> (string \<rightharpoonup> string, unit) dry_world" where
  "created_world i st =
     \<lparr>dwRuns = [i \<mapsto> \<lparr>dyProject = ''p'', dyRevision = ''r'', dyStatus = st, dyQueueJobId = None, dyFailure = None,
        dyError = None, dyStartedAt = None, dyFinishedAt = None, dyCancelRequestedAt = None\<rparr>],
      dwLogs = (\<lambda>_. []), dwQueue = Map.empty, dwProjects = [''p'' \<mapsto> ''c''], dwRevisions = [''r'' \<mapsto> ''p''], dwRest = ()\<rparr>"

definition worker_store :: "'x \<Rightarrow> 'x runner_store" where
  "worker_store x =
     \<lparr>clock = 0, runs = Map.empty, rsVariables = [], rsResponses = [], rsAborted = None, rsStopped = True,
      rsResults = [], rsWorkspace = [], rsUsesDocker = False, rsSecrets = [], rsMaskValues = [], rsOutside = x\<rparr>"


section \<open>Dry runs of environments that never answer\<close>

definition not_passed :: "string \<Rightarrow> ('q, 'y) dry_world \<Rightarrow> bool" where
  "not_passed i x = (\<forall>r. dwRuns x i = Some r \<longrightarrow> dyStatus r \<noteq> DRY_PASSED)"

definition never_passes :: "string \<Rightarrow> ('q, 'y) dry_world runner_store \<Rightarrow> ('q, 'y) dry_world runner_store \<Rightarrow> bool" where
  "never_passes i s t = (dry_step i s t \<and> (not_passed i (rsOutside s) \<longrightarrow> not_passed i (rsOutside t)))"

interpretation failing: dry_invariant "not_passed i" "never_passes i" api
  by unfold_locales (auto simp: not_passed_def never_passes_def)



text \<open>
  The containers of such an environment are left running: with services that record what Docker Compose is
  asked for, \<open>down -v\<close> is never asked for.
\<close>

definition records_docker :: "string list list services \<Rightarrow> bool" where
  "records_docker api =
     ((\<forall>a d y. snd (snd (srvDocker api a d y)) = y @ [a])
      \<and> (\<forall>u y. snd (snd (srvProbe api u y)) = y) \<and> (\<forall>d y. snd (snd (srvMakeDir api d y)) = y)
      \<and> (\<forall>f t y. snd (snd (srvWriteFile api f t y)) = y) \<and> (\<forall>d y. snd (snd (srvRemoveDir api d y)) = y)
      \<and> (\<forall>k y. snd (snd (srvSecretRows api k y)) = y) \<and> (\<forall>k y. snd (snd (srvSecretsUsed api k y)) = y))"

lemma failed_dry_run_keeps_containers:
  assumes "records_docker api" "unhealthy api cfg inp" "dwRest (rsOutside s) = []"
  shows "[''down'', ''-v''] \<notin> set (dwRest (rsOutside (store (snd (dry_execute api cfg i inp (quiet s))))))"
proof -
  let ?J = "\<lambda>x :: ('a, string list list) dry_world. [''down'', ''-v''] \<notin> set (dwRest x)"
  have "dry_invariant ?J (\<lambda>s t. rsOutside s = rsOutside t) api"
    using assms(1) by unfold_locales (auto simp: records_docker_def)
  from dry_invariant.keeps_unhealthy[OF this assms(2), of i] show ?thesis
    using assms(3) by (simp add: keeps_def calm_def)
qed

section \<open>Creating and cancelling\<close>

text \<open>A worker enters phases and marks results whatever the status is: an ended dry run is run again.\<close>

lemma ended_dry_run_starts_again:
  assumes "dwRuns (rsOutside s) i = Some r"
  shows "\<exists>t r'. dry_enter_phase i st (quiet s) = (Inr (), quiet t) \<and> dwRuns (rsOutside t) i = Some r' \<and> dyStatus r' = st"
  using assms
  by (simp add: dry_enter_phase_def get_dry_run_def find_dry_run_def update_dry_run_def dry_call_def io_bind_def io_peek_def
      io_return_def io_call_quiet)

lemma io_simps:
  "io_bind m f w = (case m w of (Inl e, w') \<Rightarrow> (Inl e, w') | (Inr a, w') \<Rightarrow> f a w')"
  "io_then m k w = (case m w of (Inl e, w') \<Rightarrow> (Inl e, w') | (Inr a, w') \<Rightarrow> k w')"
  "io_catch m h w = (case m w of (Inl e, w') \<Rightarrow> h e w' | (Inr a, w') \<Rightarrow> (Inr a, w'))"
  by (simp_all add: io_bind_def io_then_def io_catch_def)

lemmas dry_call_simps = find_dry_run_def get_dry_run_def update_dry_run_def update_dry_runs_def
  dry_project_or_throw_def find_project_dry_run_def insert_dry_run_def dry_call_def io_call_quiet io_simps
  io_peek_run io_return_run io_throw_run

lemma create_queues:
  assumes "bull_queue jobs" "dwProjects (rsOutside s) project = Some company" "dwRevisions (rsOutside s) revision = Some project"
    and "dwRuns (rsOutside s) i = None" "queue_state jobs (dry_job_id i) (dwQueue (rsOutside s)) = None"
  shows "\<exists>t r. dry_create jobs i project company revision (quiet s) = (Inr r, quiet t)
    \<and> dwRuns (rsOutside t) i = Some r \<and> dyStatus r = DRY_QUEUED \<and> dyProject r = project \<and> dyFinishedAt r = None
    \<and> dwProjects (rsOutside t) project = Some company
    \<and> queue_state jobs (dry_job_id i) (dwQueue (rsOutside t)) = Some ''waiting''"
  using assms bull_queue.add_state[OF assms(1), of "dry_job_id i" "dwQueue (rsOutside s)" i]
  by (simp add: dry_create_def dry_enqueue_def dry_mark_queued_def dry_transition_def dry_find_def dry_call_simps)

lemma cancel_leaves_request:
  assumes "bull_queue jobs" "dwProjects (rsOutside s) project = Some company" "dwRuns (rsOutside s) i = Some r"
    and "dyProject r = project" "dyStatus r = DRY_QUEUED" "queue_state jobs (dry_job_id i) (dwQueue (rsOutside s)) = Some ''waiting''"
  shows "\<exists>t r'. dry_cancel jobs project company i (quiet s) = (Inr r', quiet t) \<and> dwRuns (rsOutside t) i = Some r'
    \<and> dyStatus r' = DRY_CANCEL_REQUESTED \<and> dyFinishedAt r' = dyFinishedAt r
    \<and> queue_state jobs (dry_job_id i) (dwQueue (rsOutside t)) = None"
proof -
  obtain q where "queue_remove jobs (dry_job_id i) (dwQueue (rsOutside s)) = Inr q" "queue_state jobs (dry_job_id i) q = None"
    using bull_queue.remove_pending[OF assms(1,6)] by (auto simp: pending_states_def)
  with assms(2-6) show ?thesis
    by (simp add: dry_cancel_def dry_cancel_queued_def dry_find_def dry_call_simps dry_ended_def pending_states_def)
qed

text \<open>
  Creating a dry run of a revision of the project, with nobody interfering, leaves it queued with its
  job in the queue; cancelling it before a worker has taken it removes the job and leaves the dry run at
  the request, without an end and with no job that could still end it.
\<close>
theorem cancelled_waiting_dry_run_never_ends:
  assumes "bull_queue jobs" "dwProjects (rsOutside s) project = Some company" "dwRevisions (rsOutside s) revision = Some project"
    and "dwRuns (rsOutside s) i = None" "queue_state jobs (dry_job_id i) (dwQueue (rsOutside s)) = None"
  shows "\<exists>t u r r'.
    dry_create jobs i project company revision (quiet s) = (Inr r, quiet t) \<and> dyStatus r = DRY_QUEUED
    \<and> queue_state jobs (dry_job_id i) (dwQueue (rsOutside t)) = Some ''waiting''
    \<and> dry_cancel jobs project company i (quiet t) = (Inr r', quiet u)
    \<and> dwRuns (rsOutside u) i = Some r' \<and> dyStatus r' = DRY_CANCEL_REQUESTED \<and> dyFinishedAt r' = None
    \<and> queue_state jobs (dry_job_id i) (dwQueue (rsOutside u)) = None"
  using create_queues[OF assms] cancel_leaves_request[OF assms(1)] by fastforce

lemma cancelled_waiting_dry_run_never_ends_witness:
  "\<exists>t u r r'. dry_create map_queue ''d'' ''p'' ''c'' ''r'' (quiet (worker_store (created_world ''e'' DRY_QUEUED))) = (Inr r, quiet t)
    \<and> dry_cancel map_queue ''p'' ''c'' ''d'' (quiet t) = (Inr r', quiet u) \<and> dyStatus r' = DRY_CANCEL_REQUESTED"
  using cancelled_waiting_dry_run_never_ends[OF jobs.bull_queue_axioms, of "worker_store (created_world ''e'' DRY_QUEUED)"
      "''p''" "''c''" "''r''" "''d''"]
  by (fastforce simp: worker_store_def created_world_def map_queue_def)

text \<open>
  A worker that takes the job before the creator has marked the dry run as queued: the creator reports a
  failed transition, marks the running dry run as failed, and the request is answered with an error.
\<close>

definition taken_by_worker :: "string \<Rightarrow> ('q, 'y) dry_world runner_store \<Rightarrow> ('q, 'y) dry_world runner_store" where
  "taken_by_worker i s = store (snd (dry_enter_phase i DRY_PREPARING_WORKSPACE (quiet s)))"

lemma creation_overtaken_by_worker:
  assumes "dwRuns (rsOutside s) i = Some r" "dyStatus r = DRY_CREATED"
    and "pending w = [CallEnv id Done, CallEnv id Done, CallEnv (taken_by_worker i) Done]" "store w = s"
  shows "fst (dry_enqueue jobs i w) = Inl (NotFoundException ''Environment dry run transition failed'')"
  using assms
  by (simp add: dry_enqueue_def dry_mark_queued_def dry_transition_def taken_by_worker_def dry_enter_phase_def
      dry_call_simps io_call_def Let_def)

text \<open>The requests of the API respect what a worker relies on.\<close>

lemma api_respects_workers:
  "upholds (dry_step i) (dry_cancel jobs project company j)"
  "upholds (dry_step i) (dry_create jobs j project company revision)"
proof -
  have tables: "upholds (dry_step i) (dry_project_or_throw project company)"
      "upholds (dry_step i) (find_project_dry_run project j)" "upholds (dry_step i) (find_dry_run j)" for project company j
    unfolding dry_project_or_throw_def find_project_dry_run_def find_dry_run_def dry_call_def
    by (rule dry_step.upholds_call; simp add: dry_step_def)+
  have queue: "upholds (dry_step i) (dry_cancel_queued jobs j)"
    unfolding dry_cancel_queued_def dry_call_def
    by (intro dry_step.upholds_rules upholds_if dry_step.upholds_call)
      (auto simp: dry_step_def dry_present_def dry_closed_def split: sum.split)
  have "upholds (dry_step i) (dry_find project company j)" for project company j
    unfolding dry_find_def by (intro dry_step.upholds_rules upholds_option tables)
  note tables = tables this
  show "upholds (dry_step i) (dry_cancel jobs project company j)"
    unfolding dry_cancel_def update_dry_runs_def dry_call_def
    by (intro dry_step.upholds_rules upholds_option upholds_if tables queue dry_step.upholds_call)
      (auto simp: dry_step_def dry_present_def dry_closed_def split: option.split)
  show "upholds (dry_step i) (dry_create jobs j project company revision)"
    unfolding dry_create_def dry_enqueue_def dry_mark_queued_def dry_transition_def get_dry_run_def insert_dry_run_def
      update_dry_run_def update_dry_runs_def dry_call_def Let_def
    by (intro dry_step.upholds_rules upholds_option upholds_if tables dry_step.upholds_call)
      (auto simp: dry_step_def dry_present_def dry_closed_def dry_ended_def split: option.split)
qed

end
