(* ===== verification/Secret_Crypto.thy ===== *)
theory Secret_Crypto
  imports Masking
begin

text \<open>
  \<open>SecretCryptoService\<close> (\<open>secrets/secret-crypto.service.ts\<close>): the keys by version, and the text form of an
  encrypted value: the random start value, the tag and the encrypted bytes in Base64, with colons between.
  AES-GCM is a parameter; Base64 is written out.
\<close>

type_synonym bytes = "nat list"

section \<open>Base64\<close>

definition b64_alphabet :: string where
  "b64_alphabet = ''ABCDEFGHIJKLMNOPQRSTUVWXYZabcdefghijklmnopqrstuvwxyz0123456789+/''"

definition b64_char :: "nat \<Rightarrow> char" where
  "b64_char n = b64_alphabet ! n"

fun base64_encode :: "bytes \<Rightarrow> string" where
  "base64_encode [] = []"
| "base64_encode [a] = [b64_char (a div 4), b64_char (a mod 4 * 16), CHR ''='', CHR ''='']"
| "base64_encode [a, b] =
     [b64_char (a div 4), b64_char (a mod 4 * 16 + b div 16), b64_char (b mod 16 * 4), CHR ''='']"
| "base64_encode (a # b # c # r) =
     b64_char (a div 4) # b64_char (a mod 4 * 16 + b div 16) # b64_char (b mod 16 * 4 + c div 64)
       # b64_char (c mod 64) # base64_encode r"

text \<open>Reading skips what is not in the alphabet and takes its two URL-safe variants.\<close>

definition b64_value :: "char \<Rightarrow> nat option" where
  "b64_value c =
     (if c = CHR ''-'' then Some 62 else if c = CHR ''_'' then Some 63
      else map_of (zip b64_alphabet [0..<64]) c)"

fun b64_bytes :: "nat list \<Rightarrow> bytes" where
  "b64_bytes (p # q # r # s # rest) =
     (p * 4 + q div 16) # (q mod 16 * 16 + r div 4) # (r mod 4 * 64 + s) # b64_bytes rest"
| "b64_bytes [p, q, r] = [p * 4 + q div 16, q mod 16 * 16 + r div 4]"
| "b64_bytes [p, q] = [p * 4 + q div 16]"
| "b64_bytes _ = []"

definition base64_decode :: "string \<Rightarrow> bytes" where
  "base64_decode s = b64_bytes (List.map_filter b64_value s)"

lemma b64_alphabet_values:
  "list_all (\<lambda>n. b64_value (b64_char n) = Some n \<and> b64_char n \<noteq> CHR '':'') [0..<64]"
  by code_simp

lemma b64_char: "n < 64 \<Longrightarrow> b64_value (b64_char n) = Some n" "n < 64 \<Longrightarrow> b64_char n \<noteq> CHR '':''"
  using b64_alphabet_values by (auto simp: list_all_iff)

lemma b64_padding: "b64_value (CHR ''='') = None"
  by code_simp

lemma base64_round: "\<forall>b\<in>set bs. b < 256 \<Longrightarrow> base64_decode (base64_encode bs) = bs"
proof (induction bs rule: base64_encode.induct)
  case (4 a b c r)
  have "a div 4 < 64" "a mod 4 * 16 + b div 16 < 64" "b mod 16 * 4 + c div 64 < 64" "c mod 64 < 64"
    using 4(2) by auto
  moreover have "b div 16 < 16" "c div 64 < 4" using 4(2) by auto
  moreover from this have "b div 16 div 16 = 0" "b div 16 mod 16 = b div 16" "c div 64 div 4 = 0" "c div 64 mod 4 = c div 64"
    by simp_all
  moreover have "b div 16 * 16 + b mod 16 = b" "c div 64 * 64 + c mod 64 = c" by simp_all
  moreover have "base64_decode (base64_encode r) = r" using 4 by simp
  ultimately show ?case
    unfolding base64_encode.simps base64_decode_def by (simp only: map_filter_simps b64_char option.case b64_bytes.simps) simp
next
  case (2 a)
  then have "a div 4 < 64" "a mod 4 * 16 < 64" by auto
  then show ?case by (simp add: base64_decode_def map_filter_simps b64_char b64_padding)
next
  case (3 a b)
  then have "a div 4 < 64" "a mod 4 * 16 + b div 16 < 64" "b mod 16 * 4 < 64" "b div 16 < 16" by auto
  moreover from this have "b div 16 div 16 = 0" "b div 16 mod 16 = b div 16" by simp_all
  moreover have "b div 16 * 16 + b mod 16 = b" by simp
  ultimately show ?case by (simp add: base64_decode_def map_filter_simps b64_char b64_padding)
qed (simp add: base64_decode_def map_filter_simps)

lemma base64_no_colon: "\<forall>b\<in>set bs. b < 256 \<Longrightarrow> CHR '':'' \<notin> set (base64_encode bs)"
proof (induction bs rule: base64_encode.induct)
  case (4 a b c r)
  have "a div 4 < 64" "a mod 4 * 16 + b div 16 < 64" "b mod 16 * 4 + c div 64 < 64" "c mod 64 < 64"
    using 4(2) by auto
  with 4 show ?case using b64_char(2) by (auto dest: sym)
next
  case (2 a)
  then have "a div 4 < 64" "a mod 4 * 16 < 64" by auto
  then show ?case using b64_char(2) by (auto dest: sym)
next
  case (3 a b)
  then have "a div 4 < 64" "a mod 4 * 16 + b div 16 < 64" "b mod 16 * 4 < 64" by auto
  then show ?case using b64_char(2) by (auto dest: sym)
qed simp

section \<open>The service\<close>

text \<open>\<open>createCipheriv\<close> and \<open>createDecipheriv\<close>: key, start value and text give the encrypted bytes and the tag, and back.\<close>

record cipher =
  cfSeal :: "bytes \<Rightarrow> bytes \<Rightarrow> string \<Rightarrow> bytes \<times> bytes"
  cfOpen :: "bytes \<Rightarrow> bytes \<Rightarrow> bytes \<Rightarrow> bytes \<Rightarrow> js_error + string"

record crypto_service =
  csCipher :: cipher
  csKeys :: "(string \<times> bytes) list"
  csActive :: string

definition pad_end :: "nat \<Rightarrow> char \<Rightarrow> string \<Rightarrow> string" where
  "pad_end n c s = s @ replicate (n - length s) c"

definition normalize_key :: "string \<Rightarrow> bytes" where
  "normalize_key raw =
     (let decoded = base64_decode raw in
      if length decoded = 32 then decoded else take 32 (map of_char (pad_end 32 (CHR ''0'') raw)))"

definition key_entry :: "string \<times> json \<Rightarrow> js_error + string \<times> bytes" where
  "key_entry e =
     (case snd e of JStr raw \<Rightarrow> Inr (fst e, normalize_key raw)
      | _ \<Rightarrow> Inl (TypeError ''The first argument must be of type string''))"

definition load_keys :: "string option \<Rightarrow> string option \<Rightarrow> js_error + (string \<times> bytes) list" where
  "load_keys configured single =
     (if \<not> blank configured
      then (case json_parse (the configured) of
          None \<Rightarrow> Inl (PlainError ''Unexpected token in JSON'')
        | Some JNull \<Rightarrow> Inl (TypeError ''Cannot convert undefined or null to object'')
        | Some parsed \<Rightarrow> traverse key_entry (entries_of parsed))
      else Inr [(''v1'', normalize_key (case single of None \<Rightarrow> [] | Some s \<Rightarrow> s))])"

definition new_crypto_service ::
    "cipher \<Rightarrow> string option \<Rightarrow> string option \<Rightarrow> string option \<Rightarrow> js_error + crypto_service" where
  "new_crypto_service cipher configured single active =
     sbind (load_keys configured single) (\<lambda>keys.
     let version = (case active of None \<Rightarrow> ''v1'' | Some v \<Rightarrow> v) in
     if map_of (rev keys) version = None
     then Inl (BadRequestException ''Active secret encryption key version is not configured'')
     else Inr \<lparr>csCipher = cipher, csKeys = keys, csActive = version\<rparr>)"

definition get_key :: "crypto_service \<Rightarrow> string \<Rightarrow> js_error + bytes" where
  "get_key cs version =
     (case map_of (rev (csKeys cs)) version of
        None \<Rightarrow> Inl (BadRequestException (''Secret encryption key version is not configured: '' @ version))
      | Some k \<Rightarrow> Inr k)"

text \<open>\<open>iv\<close>: the twelve random bytes.\<close>

definition encrypt :: "crypto_service \<Rightarrow> bytes \<Rightarrow> string \<Rightarrow> string \<Rightarrow> js_error + string" where
  "encrypt cs iv v version =
     sbind (get_key cs version) (\<lambda>key.
     case cfSeal (csCipher cs) key iv v of (encrypted, tag) \<Rightarrow>
     Inr (base64_encode iv @ '':'' @ base64_encode tag @ '':'' @ base64_encode encrypted))"

definition decrypt :: "crypto_service \<Rightarrow> string \<Rightarrow> string \<Rightarrow> js_error + string" where
  "decrypt cs payload version =
     (case split_str '':'' payload of
        iv # tag # encrypted # _ \<Rightarrow>
          if iv = [] \<or> tag = [] \<or> encrypted = []
          then Inl (BadRequestException ''Invalid encrypted secret payload'')
          else sbind (get_key cs version) (\<lambda>key.
            cfOpen (csCipher cs) key (base64_decode iv) (base64_decode tag) (base64_decode encrypted))
      | _ \<Rightarrow> Inl (BadRequestException ''Invalid encrypted secret payload''))"

section \<open>Round trip\<close>

text \<open>
  What the code relies on of AES-GCM: bytes, sixteen of them in the tag, as many encrypted bytes as the
  text has characters, and opening with the same key and start value gives the text back.
\<close>

definition is_bytes :: "bytes \<Rightarrow> bool" where
  "is_bytes bs = (\<forall>b\<in>set bs. b < 256)"

definition sound_cipher :: "cipher \<Rightarrow> bool" where
  "sound_cipher c =
     (\<forall>key iv v. is_bytes (fst (cfSeal c key iv v)) \<and> is_bytes (snd (cfSeal c key iv v))
        \<and> length (snd (cfSeal c key iv v)) = 16 \<and> length (fst (cfSeal c key iv v)) = length v
        \<and> cfOpen c key iv (snd (cfSeal c key iv v)) (fst (cfSeal c key iv v)) = Inr v)"

lemma split_no_sep: "c \<notin> set a \<Longrightarrow> split_str [c] a = [a]"
  by (induction a) auto

lemma split_sep: "c \<notin> set a \<Longrightarrow> split_str [c] (a @ [c] @ b) = a # split_str [c] b"
  by (induction a) auto

lemma base64_empty: "base64_encode bs = [] \<longleftrightarrow> bs = []"
  by (cases bs rule: base64_encode.cases) auto

lemma decrypt_encrypt:
  assumes "sound_cipher (csCipher cs)" "is_bytes iv" "iv \<noteq> []" "get_key cs version = Inr key"
  shows "\<exists>payload. encrypt cs iv v version = Inr payload
    \<and> decrypt cs payload version = (if v = [] then Inl (BadRequestException ''Invalid encrypted secret payload'') else Inr v)"
proof -
  obtain ct tag where s: "cfSeal (csCipher cs) key iv v = (ct, tag)" by fastforce
  have ok: "is_bytes ct" "is_bytes tag" "length tag = 16" "length ct = length v"
    "cfOpen (csCipher cs) key iv tag ct = Inr v"
    using assms(1)[unfolded sound_cipher_def, rule_format, of key iv v] by (simp_all add: s)
  let ?p = "base64_encode iv @ '':'' @ base64_encode tag @ '':'' @ base64_encode ct"
  have "CHR '':'' \<notin> set (base64_encode iv)" "CHR '':'' \<notin> set (base64_encode tag)" "CHR '':'' \<notin> set (base64_encode ct)"
    using base64_no_colon[of iv] base64_no_colon[of tag] base64_no_colon[of ct] assms(2) ok(1,2)
    by (simp_all add: is_bytes_def)
  then have "split_str '':'' ?p = [base64_encode iv, base64_encode tag, base64_encode ct]"
    by (simp add: split_sep[where c = "CHR '':''", simplified] split_no_sep)
  moreover have "tag \<noteq> []" "ct = [] \<longleftrightarrow> v = []" using ok(3,4) by auto
  ultimately have "decrypt cs ?p version = (if v = [] then Inl (BadRequestException ''Invalid encrypted secret payload'') else Inr v)"
    using assms(2-4) ok base64_round unfolding is_bytes_def
    by (simp add: decrypt_def base64_empty)
  with s assms(4) show ?thesis by (simp add: encrypt_def)
qed

text \<open>
  C26: What was encrypted with a configured key version decrypts with that version to the same value: the
  Base64 parts and the colons between them are read back.  Only the empty value does not come back: its
  payload has an empty third part, which decryption rejects as invalid.
\<close>
theorem encrypted_value_comes_back:
  assumes "sound_cipher (csCipher cs)" "is_bytes iv" "length iv = 12" "get_key cs version = Inr key"
  shows "\<exists>payload. encrypt cs iv v version = Inr payload
    \<and> decrypt cs payload version = (if v = [] then Inl (BadRequestException ''Invalid encrypted secret payload'') else Inr v)"
  using decrypt_encrypt[OF assms(1,2) _ assms(4)] assms(3) by fastforce

definition plain_cipher :: cipher where
  "plain_cipher =
     \<lparr>cfSeal = (\<lambda>key iv v. (map of_char v, replicate 16 0)), cfOpen = (\<lambda>key iv tag ct. Inr (map char_of ct))\<rparr>"

lemma plain_cipher_sound: "sound_cipher plain_cipher"
  by (auto simp: sound_cipher_def plain_cipher_def is_bytes_def comp_def)

definition plain_crypto :: crypto_service where
  "plain_crypto = \<lparr>csCipher = plain_cipher, csKeys = [(''v1'', [1]), (''v2'', [2])], csActive = ''v2''\<rparr>"

lemma encrypted_value_comes_back_witness:
  "\<exists>payload. encrypt plain_crypto (replicate 12 7) ''s3cret'' ''v2'' = Inr payload
     \<and> decrypt plain_crypto payload ''v2'' = Inr ''s3cret''"
  using encrypted_value_comes_back[of plain_crypto "replicate 12 7" "''v2''" "[2]" "''s3cret''"] plain_cipher_sound
  by (simp add: plain_crypto_def get_key_def is_bytes_def)

end
