(* ===== verification/Secret_Store.thy ===== *)
theory Secret_Store
  imports Secret_Crypto Transactions Run_Queue
begin

text \<open>
  The secrets of a project (\<open>secrets/secrets.service.ts\<close>) and the rotation of their keys
  (\<open>secrets/secret-rotation.service.ts\<close>) on tables that other requests change too.  The random start
  values are arguments: \<open>iv i\<close> is drawn when the secret \<open>i\<close> is encrypted.  Ids are not empty.
\<close>

section \<open>Tables\<close>

record secret =
  seId :: string
  seProject :: string
  seKey :: string
  seEncrypted :: string
  seVersion :: string
  seCreatedBy :: string
  seRotatedAt :: "int option"

datatype rotation_status = ROTATION_PENDING | ROTATION_RUNNING | ROTATION_COMPLETED | ROTATION_FAILED

record rotation_job =
  rjId :: string
  rjStatus :: rotation_status
  rjCompany :: string
  rjFrom :: string
  rjTo :: string
  rjTotal :: nat
  rjProcessed :: nat
  rjCursor :: "string option"
  rjError :: "string option"
  rjActor :: "string option"
  rjStartedAt :: "int option"
  rjFinishedAt :: "int option"

record secret_audit =
  saType :: string
  saCompany :: string
  saProject :: string
  saActor :: "string option"
  saResource :: string
  saMetadata :: "(string \<times> string) list"

record 'q secret_tables =
  stClock :: int
  stProjects :: "string \<rightharpoonup> string"
  stSecrets :: "secret list"
  stJobs :: "rotation_job list"
  stAudit :: "secret_audit list"
  stQueue :: 'q

type_synonym ('q, 'a) secret_io = "('q secret_tables, 'a) io"
type_synonym ('q, 'a) secret_tx = "('q secret_tables, 'a) tx"

definition st_project_or_throw :: "string \<Rightarrow> string \<Rightarrow> ('q, unit) secret_io" where
  "st_project_or_throw project company =
     io_bind (io_read (\<lambda>s. stProjects s project)) (\<lambda>found. case found of
       None \<Rightarrow> io_throw (NotFoundException ''Project not found'')
     | Some c \<Rightarrow> if c \<noteq> company then io_throw (ForbiddenException ''Project belongs to another company'')
         else io_return ())"

definition find_secret :: "string \<Rightarrow> string \<Rightarrow> 'q secret_tables \<Rightarrow> secret option" where
  "find_secret project key s = find (\<lambda>x. seProject x = project \<and> seKey x = key) (stSecrets s)"

definition insert_secret :: "secret \<Rightarrow> 'q secret_tables patch" where
  "insert_secret x s =
     (if find_secret (seProject x) (seKey x) s \<noteq> None then Inl p2002
      else Inr (s\<lparr>stSecrets := stSecrets s @ [x]\<rparr>))"

definition with_secret :: "string \<Rightarrow> (secret \<Rightarrow> secret) \<Rightarrow> 'q secret_tables \<Rightarrow> 'q secret_tables" where
  "with_secret i f s = s\<lparr>stSecrets := map (\<lambda>x. if seId x = i then f x else x) (stSecrets s)\<rparr>"

definition has_secret :: "string \<Rightarrow> 'q secret_tables \<Rightarrow> bool" where
  "has_secret i s = list_ex (\<lambda>x. seId x = i) (stSecrets s)"

text \<open>\<open>secret.update\<close> with the time of the call; it fails when the row is gone.\<close>

definition tx_update_secret :: "string \<Rightarrow> (int \<Rightarrow> secret \<Rightarrow> secret) \<Rightarrow> ('q, unit) secret_tx" where
  "tx_update_secret i f =
     tx_statement (\<lambda>s. if has_secret i s then Inr ((), \<lambda>t. Inr (with_secret i (f (stClock s)) t)) else Inl p2025)"

definition audit :: "secret_audit \<Rightarrow> 'q secret_tables \<Rightarrow> 'q secret_tables" where
  "audit a s = s\<lparr>stAudit := stAudit s @ [a]\<rparr>"

definition record_audit :: "secret_audit \<Rightarrow> ('q, unit) secret_io" where
  "record_audit a = io_call (\<lambda>s. (Inr (), audit a s))"

section \<open>SecretsService\<close>

text \<open>What is shown of a secret: not its encrypted value.\<close>

definition safe :: "secret \<Rightarrow> secret" where
  "safe x = x\<lparr>seEncrypted := []\<rparr>"

definition rotated_value :: "string \<Rightarrow> string \<Rightarrow> int \<Rightarrow> secret \<Rightarrow> secret" where
  "rotated_value payload version now x = x\<lparr>seEncrypted := payload, seVersion := version, seRotatedAt := Some now\<rparr>"

text \<open>\<open>i\<close> is the random id of a new secret, \<open>iv\<close> and \<open>iv'\<close> the start values of the first and the second attempt.\<close>

definition create_or_rotate_tx ::
    "crypto_service \<Rightarrow> bytes \<Rightarrow> string \<Rightarrow> string \<Rightarrow> string \<Rightarrow> string \<Rightarrow> string \<Rightarrow> ('q, secret \<times> bool) secret_tx" where
  "create_or_rotate_tx cs iv i project user key v =
     tx_bind (tx_read (find_secret project key)) (\<lambda>existing.
     tx_bind (tx_lift (encrypt cs iv v (csActive cs))) (\<lambda>payload.
     case existing of
       None \<Rightarrow> (let x = \<lparr>seId = i, seProject = project, seKey = key, seEncrypted = payload, seVersion = csActive cs,
                       seCreatedBy = user, seRotatedAt = None\<rparr> in
         tx_statement (\<lambda>s. sbind (insert_secret x s) (\<lambda>_. Inr ((x, False), insert_secret x))))
     | Some x \<Rightarrow>
         tx_statement (\<lambda>s. if has_secret (seId x) s
           then Inr ((rotated_value payload (csActive cs) (stClock s) x, True),
                     \<lambda>t. Inr (with_secret (seId x) (rotated_value payload (csActive cs) (stClock s)) t))
           else Inl p2025)))"

definition create_or_rotate ::
    "crypto_service \<Rightarrow> bytes \<Rightarrow> bytes \<Rightarrow> string \<Rightarrow> string \<Rightarrow> string \<Rightarrow> string \<Rightarrow> string \<Rightarrow> ('q, secret \<times> bool) secret_io" where
  "create_or_rotate cs iv iv' i project user key v =
     io_catch (transaction (create_or_rotate_tx cs iv i project user key v))
       (\<lambda>e. if e = p2002
         then io_bind (io_read (find_secret project key)) (\<lambda>found. case found of
             None \<Rightarrow> io_throw p2025
           | Some x \<Rightarrow>
               io_bind (io_lift (encrypt cs iv' v (csActive cs))) (\<lambda>payload.
               io_call (\<lambda>s. if has_secret (seId x) s
                 then (Inr (rotated_value payload (csActive cs) (stClock s) x, True),
                       with_secret (seId x) (rotated_value payload (csActive cs) (stClock s)) s)
                 else (Inl p2025, s))))
         else io_throw e)"

definition create_secret ::
    "crypto_service \<Rightarrow> bytes \<Rightarrow> bytes \<Rightarrow> string \<Rightarrow> string \<Rightarrow> string \<Rightarrow> string \<Rightarrow> string \<Rightarrow> string \<Rightarrow> ('q, secret) secret_io" where
  "create_secret cs iv iv' i project company user key v =
     io_then (st_project_or_throw project company)
     (io_bind (create_or_rotate cs iv iv' i project user key v) (\<lambda>(x, rotation).
      io_then (record_audit \<lparr>saType = (if rotation then ''secret.rotated'' else ''secret.created''), saCompany = company,
          saProject = project, saActor = Some user, saResource = seId x,
          saMetadata = [(''key'', seKey x), (''encryptionKeyVersion'', csActive cs)]\<rparr>)
        (io_return (safe x))))"

definition list_secrets :: "string \<Rightarrow> string \<Rightarrow> ('q, secret list) secret_io" where
  "list_secrets project company =
     io_then (st_project_or_throw project company)
     (io_bind (io_read (\<lambda>s. sort_key seKey (filter (\<lambda>x. seProject x = project) (stSecrets s)))) (\<lambda>xs.
      io_return (map safe xs)))"

definition delete_secret :: "string \<Rightarrow> string \<Rightarrow> string \<Rightarrow> string \<Rightarrow> ('q, unit) secret_io" where
  "delete_secret project i company user =
     io_then (st_project_or_throw project company)
     (io_bind (io_read (\<lambda>s. find (\<lambda>x. seId x = i \<and> seProject x = project) (stSecrets s))) (\<lambda>found. case found of
        None \<Rightarrow> io_throw (NotFoundException ''Secret not found'')
      | Some x \<Rightarrow>
          io_then (io_call (\<lambda>s. if has_secret i s
              then (Inr (), s\<lparr>stSecrets := filter (\<lambda>x. seId x \<noteq> i) (stSecrets s)\<rparr>) else (Inl p2025, s)))
            (record_audit \<lparr>saType = ''secret.deleted'', saCompany = company, saProject = project, saActor = Some user,
               saResource = seId x, saMetadata = [(''key'', seKey x)]\<rparr>)))"

section \<open>Rotation of the keys\<close>

definition in_company :: "string \<Rightarrow> 'q secret_tables \<Rightarrow> secret \<Rightarrow> bool" where
  "in_company company s x = (stProjects s (seProject x) = Some company)"

definition secrets_with_key :: "string \<Rightarrow> string \<Rightarrow> 'q secret_tables \<Rightarrow> secret list" where
  "secrets_with_key company version s =
     filter (\<lambda>x. seVersion x = version \<and> in_company company s x) (stSecrets s)"

definition active_job :: "rotation_job \<Rightarrow> bool" where
  "active_job j = (rjStatus j = ROTATION_PENDING \<or> rjStatus j = ROTATION_RUNNING)"

definition same_pair :: "rotation_job \<Rightarrow> rotation_job \<Rightarrow> bool" where
  "same_pair j k = (rjCompany j = rjCompany k \<and> rjFrom j = rjFrom k \<and> rjTo j = rjTo k)"

text \<open>The unique index on the active jobs of a company and a pair of versions.\<close>

definition active_elsewhere :: "rotation_job \<Rightarrow> 'q secret_tables \<Rightarrow> bool" where
  "active_elsewhere j s = list_ex (\<lambda>k. rjId k \<noteq> rjId j \<and> same_pair k j \<and> active_job k) (stJobs s)"

definition find_active_job :: "string \<Rightarrow> string \<Rightarrow> string \<Rightarrow> ('q, rotation_job option) secret_io" where
  "find_active_job company from_version to_version =
     io_read (\<lambda>s. find (\<lambda>j. rjCompany j = company \<and> rjFrom j = from_version \<and> rjTo j = to_version \<and> active_job j)
       (rev (stJobs s)))"

definition new_job :: "string \<Rightarrow> string \<Rightarrow> string \<Rightarrow> string \<Rightarrow> string option \<Rightarrow> nat \<Rightarrow> rotation_job" where
  "new_job i company from_version to_version actor n =
     \<lparr>rjId = i, rjStatus = ROTATION_PENDING, rjCompany = company, rjFrom = from_version, rjTo = to_version, rjTotal = n,
      rjProcessed = 0, rjCursor = None, rjError = None, rjActor = actor, rjStartedAt = None, rjFinishedAt = None\<rparr>"

definition create_job_or_load ::
    "string \<Rightarrow> string \<Rightarrow> string \<Rightarrow> string \<Rightarrow> string option \<Rightarrow> ('q, rotation_job) secret_io" where
  "create_job_or_load i company from_version to_version actor =
     io_catch
       (io_bind (io_read (\<lambda>s. length (secrets_with_key company from_version s))) (\<lambda>n.
        io_call (\<lambda>s. let j = new_job i company from_version to_version actor n in
          if active_elsewhere j s then (Inl p2002, s) else (Inr j, s\<lparr>stJobs := stJobs s @ [j]\<rparr>))))
       (\<lambda>e. if e = p2002
         then io_bind (find_active_job company from_version to_version) (\<lambda>found. case found of
           Some j \<Rightarrow> io_return j | None \<Rightarrow> io_throw e)
         else io_throw e)"

definition rotation_job_id :: "string \<Rightarrow> string" where
  "rotation_job_id i = ''secret-rotation:'' @ i"

definition enqueue_rotation ::
    "crypto_service \<Rightarrow> 'q job_queue \<Rightarrow> string \<Rightarrow> string \<Rightarrow> string option \<Rightarrow> ('q, rotation_job) secret_io" where
  "enqueue_rotation cs jobs i company actor =
     io_bind (io_read (\<lambda>s. sort (remdups (map seVersion
         (filter (\<lambda>x. seVersion x \<noteq> csActive cs \<and> in_company company s x) (stSecrets s)))))) (\<lambda>versions.
     case versions of
       [] \<Rightarrow> io_throw (ConflictException ''No secrets require key rotation'')
     | from_version # _ \<Rightarrow>
         if from_version = [] then io_throw (ConflictException ''No secrets require key rotation'')
         else io_bind (find_active_job company from_version (csActive cs)) (\<lambda>found.
           io_bind (case found of Some j \<Rightarrow> io_return j
               | None \<Rightarrow> create_job_or_load i company from_version (csActive cs) actor) (\<lambda>job.
           io_then (io_call (\<lambda>s. (Inr (), s\<lparr>stQueue := queue_add jobs (rotation_job_id (rjId job)) (rjId job) (stQueue s)\<rparr>)))
             (io_return job))))"

definition with_job :: "string \<Rightarrow> (rotation_job \<Rightarrow> rotation_job) \<Rightarrow> 'q secret_tables \<Rightarrow> 'q secret_tables" where
  "with_job i f s = s\<lparr>stJobs := map (\<lambda>j. if rjId j = i then f j else j) (stJobs s)\<rparr>"

definition has_job_row :: "string \<Rightarrow> 'q secret_tables \<Rightarrow> bool" where
  "has_job_row i s = list_ex (\<lambda>j. rjId j = i) (stJobs s)"

definition update_job :: "rotation_job \<Rightarrow> (int \<Rightarrow> rotation_job \<Rightarrow> rotation_job) \<Rightarrow> ('q, unit) secret_io" where
  "update_job job f =
     io_call (\<lambda>s. if \<not> has_job_row (rjId job) s then (Inl p2025, s)
       else if active_job (f (stClock s) job) \<and> active_elsewhere job s then (Inl p2002, s)
       else (Inr (), with_job (rjId job) (f (stClock s)) s))"

definition batch_size :: nat where
  "batch_size = 50"

definition after_cursor :: "string option \<Rightarrow> string \<Rightarrow> bool" where
  "after_cursor cursor i = (case cursor of None \<Rightarrow> True | Some c \<Rightarrow> c < i)"

definition next_batch :: "rotation_job \<Rightarrow> string option \<Rightarrow> 'q secret_tables \<Rightarrow> secret list" where
  "next_batch job cursor s =
     take batch_size (sort_key seId
       (filter (\<lambda>x. after_cursor cursor (seId x)) (secrets_with_key (rjCompany job) (rjFrom job) s)))"

definition rotation_audit :: "rotation_job \<Rightarrow> secret \<Rightarrow> secret_audit" where
  "rotation_audit job x =
     \<lparr>saType = ''secret.rotated'', saCompany = rjCompany job, saProject = seProject x, saActor = rjActor job,
      saResource = seId x, saMetadata = [(''key'', seKey x), (''fromKeyVersion'', rjFrom job),
        (''toKeyVersion'', rjTo job), (''rotationJobId'', rjId job)]\<rparr>"

definition rotate_one :: "crypto_service \<Rightarrow> (string \<Rightarrow> bytes) \<Rightarrow> rotation_job \<Rightarrow> secret \<Rightarrow> ('q, unit) secret_tx" where
  "rotate_one cs iv job x =
     tx_bind (tx_lift (sbind (decrypt cs (seEncrypted x) (seVersion x)) (\<lambda>v. encrypt cs (iv (seId x)) v (rjTo job)))) (\<lambda>payload.
     tx_bind (tx_update_secret (seId x) (rotated_value payload (rjTo job))) (\<lambda>_.
     tx_statement (\<lambda>s. Inr ((), \<lambda>t. Inr (audit (rotation_audit job x) t)))))"

fun tx_for :: "'a list \<Rightarrow> ('a \<Rightarrow> ('s, unit) tx) \<Rightarrow> ('s, unit) tx" where
  "tx_for [] f = tx_return ()"
| "tx_for (x # xs) f = tx_bind (f x) (\<lambda>_. tx_for xs f)"

definition rotate_batch ::
    "crypto_service \<Rightarrow> (string \<Rightarrow> bytes) \<Rightarrow> rotation_job \<Rightarrow> nat \<Rightarrow> secret list \<Rightarrow> ('q, unit) secret_tx" where
  "rotate_batch cs iv job processed batch =
     tx_bind (tx_for batch (rotate_one cs iv job)) (\<lambda>_.
     tx_statement (\<lambda>s. if has_job_row (rjId job) s
       then Inr ((), \<lambda>t. Inr (with_job (rjId job)
         (\<lambda>j. j\<lparr>rjProcessed := processed + length batch, rjCursor := Some (seId (last batch))\<rparr>) t))
       else Inl p2025))"

text \<open>
  The loop over the batches ends: a batch takes up interference, or the secrets behind the new cursor are
  fewer, since a batch changes no id.
\<close>

definition secret_ids :: "'q secret_tables \<Rightarrow> string list" where
  "secret_ids s = map seId (stSecrets s)"

definition patch_keeps_ids :: "'q secret_tables patch \<Rightarrow> bool" where
  "patch_keeps_ids p = (\<forall>s t. p s = Inr t \<longrightarrow> secret_ids t = secret_ids s)"

definition id_keeping :: "('q, 'a) secret_tx \<Rightarrow> bool" where
  "id_keeping m =
     (\<forall>own w r w'. m own w = (r, w') \<longrightarrow>
        length (pending w') \<le> length (pending w) \<and> (pending w = [] \<longrightarrow> w' = w)
        \<and> (\<forall>a own'. r = Inr (a, own') \<longrightarrow> patch_keeps_ids own \<longrightarrow> patch_keeps_ids own'))"

lemma id_keeping_return: "id_keeping (tx_return a)"
  by (simp add: id_keeping_def tx_return_def)

lemma id_keeping_lift: "id_keeping (tx_lift r)"
  by (cases r) (simp_all add: id_keeping_def tx_lift_def)

lemma id_keeping_bind:
  assumes "id_keeping m" "\<And>a. id_keeping (k a)"
  shows "id_keeping (tx_bind m k)"
  unfolding id_keeping_def
proof (intro allI impI)
  fix own and w :: "'a secret_tables world" and r w' assume run: "tx_bind m k own w = (r, w')"
  obtain q w1 where m: "m own w = (q, w1)" by force
  note 1 = assms(1)[unfolded id_keeping_def, rule_format, OF m]
  show "length (pending w') \<le> length (pending w) \<and> (pending w = [] \<longrightarrow> w' = w)
        \<and> (\<forall>a own'. r = Inr (a, own') \<longrightarrow> patch_keeps_ids own \<longrightarrow> patch_keeps_ids own')"
  proof (cases q)
    case (Inl e)
    with run m 1 show ?thesis by (auto simp: tx_bind_def)
  next
    case (Inr p)
    obtain a own1 where p: "p = (a, own1)" by force
    with run m Inr have "k a own1 w1 = (r, w')" by (simp add: tx_bind_def)
    note 2 = assms(2)[of a, unfolded id_keeping_def, rule_format, OF this]
    with 1 Inr p show ?thesis by force
  qed
qed

lemma id_keeping_statement:
  assumes "\<And>s a p. f s = Inr (a, p) \<Longrightarrow> patch_keeps_ids p"
  shows "id_keeping (tx_statement f)"
proof -
  have patch: "patch_keeps_ids (\<lambda>s. sbind (own s) p)"
    if "patch_keeps_ids own" "f s = Inr (a, p)" for own s a p
    using that assms[OF that(2)] by (auto simp: patch_keeps_ids_def)
  show ?thesis
    unfolding id_keeping_def
  proof (intro allI impI)
    fix own and w :: "'a secret_tables world" and r w' assume run: "tx_statement f own w = (r, w')"
    show "length (pending w') \<le> length (pending w) \<and> (pending w = [] \<longrightarrow> w' = w)
        \<and> (\<forall>a own'. r = Inr (a, own') \<longrightarrow> patch_keeps_ids own \<longrightarrow> patch_keeps_ids own')"
    proof (cases "pending w")
      case Nil
      with run patch show ?thesis by (fastforce simp: tx_statement_def io_call_def split: prod.splits)
    next
      case (Cons c cs)
      with run patch show ?thesis
        by (cases "reply c") (fastforce simp: tx_statement_def io_call_def Let_def split: prod.splits)+
    qed
  qed
qed

lemma id_keeping_for: "(\<And>x. id_keeping (f x)) \<Longrightarrow> id_keeping (tx_for xs f)"
  by (induction xs) (simp_all add: id_keeping_return id_keeping_bind)

lemma with_secret_ids: "(\<And>x. seId (f x) = seId x) \<Longrightarrow> secret_ids (with_secret i f s) = secret_ids s"
  by (simp add: secret_ids_def with_secret_def)

lemma id_keeping_batch: "id_keeping (rotate_batch cs iv job n batch)"
  unfolding rotate_batch_def rotate_one_def tx_update_secret_def
  by (intro id_keeping_bind id_keeping_for id_keeping_lift id_keeping_statement)
    (auto simp: patch_keeps_ids_def rotated_value_def with_secret_ids secret_ids_def audit_def with_job_def with_secret_def
      split: if_splits)

lemma transaction_keeps_ids:
  assumes "id_keeping m" "transaction m w = (r, w')"
  shows "length (pending w') \<le> length (pending w)"
    and "pending w = [] \<Longrightarrow> secret_ids (store w') = secret_ids (store w)"
proof -
  obtain q w1 where m: "m Inr w = (q, w1)" by force
  note 1 = assms(1)[unfolded id_keeping_def, rule_format, OF m]
  have inr: "patch_keeps_ids Inr" by (simp add: patch_keeps_ids_def)
  show "length (pending w') \<le> length (pending w)"
  proof (cases q)
    case (Inl e)
    with 1 m assms(2) show ?thesis by (simp add: transaction_def)
  next
    case (Inr p)
    with 1 m assms(2) show ?thesis
      by (cases p; cases "pending w1"; cases "reply (hd (pending w1))")
        (auto simp: transaction_def io_call_def Let_def split: prod.splits)
  qed
  show "secret_ids (store w') = secret_ids (store w)" if n: "pending w = []"
  proof (cases q)
    case (Inl e)
    with 1 m assms(2) n show ?thesis by (simp add: transaction_def)
  next
    case (Inr p)
    obtain a own where p: "p = (a, own)" by force
    have "patch_keeps_ids own" "w1 = w" using 1 Inr p n inr by auto
    with m assms(2) n Inr p show ?thesis
      by (cases "own (store w)") (auto simp: transaction_def io_call_def patch_keeps_ids_def)
  qed
qed

lemma next_batch_ids:
  assumes "x \<in> set (next_batch job cursor s)"
  shows "seId x \<in> set (secret_ids s)" "after_cursor cursor (seId x)"
  using assms by (auto simp: next_batch_def secrets_with_key_def secret_ids_def dest!: in_set_takeD)

definition behind_cursor :: "string option \<Rightarrow> 'q secret_tables \<Rightarrow> nat" where
  "behind_cursor cursor s = length (filter (after_cursor cursor) (secret_ids s))"

lemma behind_cursor_less:
  assumes "x \<in> set (next_batch job cursor s)" "secret_ids t = secret_ids s"
  shows "behind_cursor (Some (seId x)) t < behind_cursor cursor s"
proof -
  have "filter (after_cursor (Some (seId x))) (secret_ids s)
      = filter (\<lambda>i. seId x < i) (filter (after_cursor cursor) (secret_ids s))"
    using next_batch_ids(2)[OF assms(1)] by (auto simp: after_cursor_def intro!: filter_cong split: option.splits)
  moreover have "seId x \<in> set (filter (after_cursor cursor) (secret_ids s))"
    using next_batch_ids[OF assms(1)] by simp
  then have "length (filter (\<lambda>i. seId x < i) (filter (after_cursor cursor) (secret_ids s)))
      < length (filter (after_cursor cursor) (secret_ids s))"
    by (rule length_filter_less) simp
  ultimately show ?thesis by (simp add: behind_cursor_def assms(2))
qed

function rotate_loop ::
    "crypto_service \<Rightarrow> (string \<Rightarrow> bytes) \<Rightarrow> rotation_job \<Rightarrow> nat \<Rightarrow> string option \<Rightarrow> 'q secret_tables world \<Rightarrow>
     (js_error + unit) \<times> 'q secret_tables world" where
  "rotate_loop cs iv job processed cursor w =
     (case io_read (next_batch job cursor) w of
        (Inl e, w1) \<Rightarrow> (Inl e, w1)
      | (Inr batch, w1) \<Rightarrow>
          if batch = [] then (Inr (), w1)
          else (case transaction (rotate_batch cs iv job processed batch) w1 of
              (Inl e, w2) \<Rightarrow> (Inl e, w2)
            | (Inr u, w2) \<Rightarrow> rotate_loop cs iv job (processed + length batch) (Some (seId (last batch))) w2))"
  by pat_completeness auto

termination rotate_loop
proof (relation "measures [\<lambda>(cs, iv, job, n, cursor, w). length (pending w),
    \<lambda>(cs, iv, job, n, cursor, w). behind_cursor cursor (store w)]", goal_cases)
  case 1
  show ?case by (rule wf_measures)
next
  case (2 cs iv job processed cursor w r w1 batch r2 w2 u)
  have t: "transaction (rotate_batch cs iv job processed batch) w1 = (Inr u, w2)" using 2 by simp
  note k = transaction_keeps_ids[OF id_keeping_batch t]
  show ?case
  proof (cases "pending w")
    case (Cons c rest)
    then have "length (pending w1) < length (pending w)"
      using 2 by (cases "reply c") (auto simp: io_read_def io_call_def Let_def)
    with k(1) show ?thesis by simp
  next
    case Nil
    then have w1: "w1 = w" "batch = next_batch job cursor (store w)" using 2 by (auto simp: io_read_def io_call_def)
    have "last batch \<in> set (next_batch job cursor (store w))" using 2 w1 by simp
    moreover have "secret_ids (store w2) = secret_ids (store w)" using k(2) w1 Nil by simp
    ultimately have "behind_cursor (Some (seId (last batch))) (store w2) < behind_cursor cursor (store w)"
      by (rule behind_cursor_less)
    with w1 Nil k(1) show ?thesis by simp
  qed
qed

declare rotate_loop.simps [simp del]

definition process_rotation :: "crypto_service \<Rightarrow> (string \<Rightarrow> bytes) \<Rightarrow> string \<Rightarrow> ('q, unit) secret_io" where
  "process_rotation cs iv i =
     io_bind (io_read (\<lambda>s. find (\<lambda>j. rjId j = i) (stJobs s))) (\<lambda>found. case found of
       None \<Rightarrow> io_throw (NotFoundException ''Secret rotation job not found'')
     | Some job \<Rightarrow>
         if rjStatus job = ROTATION_COMPLETED then io_return ()
         else io_bind (io_peek stClock) (\<lambda>started.
           io_bind (io_read (\<lambda>s. length (secrets_with_key (rjCompany job) (rjFrom job) s))) (\<lambda>n.
           io_then (update_job job (\<lambda>now j. j\<lparr>rjStatus := ROTATION_RUNNING,
               rjStartedAt := Some (case rjStartedAt job of None \<Rightarrow> started | Some t \<Rightarrow> t), rjError := None, rjTotal := n\<rparr>))
             (io_catch
               (io_then (rotate_loop cs iv job (rjProcessed job) (rjCursor job))
                 (update_job job (\<lambda>now j. j\<lparr>rjStatus := ROTATION_COMPLETED, rjFinishedAt := Some now, rjError := None\<rparr>)))
               (\<lambda>e. io_then
                 (update_job job (\<lambda>now j. j\<lparr>rjStatus := ROTATION_FAILED, rjError := Some (error_message e),
                    rjFinishedAt := Some now\<rparr>))
                 (io_throw e))))))"

end
