(* ===== verification/Secret_Props.thy ===== *)
theory Secret_Props
  imports Secret_Store
begin

text \<open>
  A rotation that nobody disturbs re-encrypts every secret of the company and changes no value; a value that
  is set while a rotation runs can be lost.
\<close>

section \<open>One batch\<close>

definition reveal :: "crypto_service \<Rightarrow> secret \<Rightarrow> js_error + string" where
  "reveal cs x = decrypt cs (seEncrypted x) (seVersion x)"

definition new_payload :: "crypto_service \<Rightarrow> (string \<Rightarrow> bytes) \<Rightarrow> rotation_job \<Rightarrow> secret \<Rightarrow> js_error + string" where
  "new_payload cs iv job x = sbind (reveal cs x) (\<lambda>v. encrypt cs (iv (seId x)) v (rjTo job))"

definition rotate_row :: "crypto_service \<Rightarrow> (string \<Rightarrow> bytes) \<Rightarrow> rotation_job \<Rightarrow> secret \<Rightarrow> 'q secret_tables \<Rightarrow>
    js_error + unit \<times> 'q secret_tables" where
  "rotate_row cs iv job x s =
     sbind (new_payload cs iv job x) (\<lambda>payload.
     if has_secret (seId x) s
     then Inr ((), audit (rotation_audit job x) (with_secret (seId x) (rotated_value payload (rjTo job) (stClock s)) s))
     else Inl p2025)"

lemma quiet_rotate_one: "tx_quiet (rotate_one cs iv job x) (rotate_row cs iv job x)"
proof -
  let ?up = "\<lambda>payload s. if has_secret (seId x) s
    then Inr ((), \<lambda>t. Inr (with_secret (seId x) (rotated_value payload (rjTo job) (stClock s)) t)) else Inl p2025"
  have up: "tx_quiet (tx_statement (?up payload)) (\<lambda>s. sbind (?up payload s) (\<lambda>(a, patch). sbind (patch s) (\<lambda>t. Inr (a, t))))" for payload
    by (rule tx_quiet_statement) (auto split: if_splits)
  let ?au = "\<lambda>s :: 'a secret_tables. Inr ((), \<lambda>t. Inr (audit (rotation_audit job x) t))"
  have au: "tx_quiet (tx_statement ?au) (\<lambda>s. sbind (?au s) (\<lambda>(a, patch). sbind (patch s) (\<lambda>t. Inr (a, t))))"
    by (rule tx_quiet_statement) auto
  have "rotate_row cs iv job x = (\<lambda>s. sbind (sbind (new_payload cs iv job x) (\<lambda>a. Inr (a, s))) (\<lambda>(payload, s).
      sbind (sbind (?up payload s) (\<lambda>(a, patch). sbind (patch s) (\<lambda>t. Inr (a, t)))) (\<lambda>(_, s).
      sbind (?au s) (\<lambda>(a, patch). sbind (patch s) (\<lambda>t. Inr (a, t))))))"
  proof (rule ext)
    fix s :: "'a secret_tables"
    show "rotate_row cs iv job x s = sbind (sbind (new_payload cs iv job x) (\<lambda>a. Inr (a, s))) (\<lambda>(payload, s).
      sbind (sbind (?up payload s) (\<lambda>(a, patch). sbind (patch s) (\<lambda>t. Inr (a, t)))) (\<lambda>(_, s).
      sbind (?au s) (\<lambda>(a, patch). sbind (patch s) (\<lambda>t. Inr (a, t)))))"
      by (cases "new_payload cs iv job x"; cases "has_secret (seId x) s") (simp_all add: rotate_row_def)
  qed
  then show ?thesis
    unfolding rotate_one_def tx_update_secret_def reveal_def[symmetric] new_payload_def[symmetric]
    by (simp only:) (intro tx_quiet_bind tx_quiet_lift up au)
qed

fun rotate_rows :: "crypto_service \<Rightarrow> (string \<Rightarrow> bytes) \<Rightarrow> rotation_job \<Rightarrow> secret list \<Rightarrow> 'q secret_tables \<Rightarrow>
    js_error + unit \<times> 'q secret_tables" where
  "rotate_rows cs iv job [] s = Inr ((), s)"
| "rotate_rows cs iv job (x # xs) s = sbind (rotate_row cs iv job x s) (\<lambda>(_, t). rotate_rows cs iv job xs t)"

lemma quiet_rotate_rows: "tx_quiet (tx_for xs (rotate_one cs iv job)) (rotate_rows cs iv job xs)"
proof (induction xs)
  case Nil
  show ?case using tx_quiet_return[of "()"] by (simp add: tx_quiet_def)
next
  case (Cons x xs)
  show ?case
    using tx_quiet_bind[OF quiet_rotate_one[of cs iv job x] Cons] by (simp add: tx_quiet_def)
qed

text \<open>The secret after its rotation.\<close>

definition reencrypted :: "crypto_service \<Rightarrow> (string \<Rightarrow> bytes) \<Rightarrow> rotation_job \<Rightarrow> int \<Rightarrow> secret \<Rightarrow> secret" where
  "reencrypted cs iv job now x = rotated_value (projr (new_payload cs iv job x)) (rjTo job) now x"

lemma rotate_rows_effect:
  assumes "\<forall>x\<in>set xs. \<exists>p. new_payload cs iv job x = Inr p" "set xs \<subseteq> set (stSecrets s)"
    and "distinct (map seId xs)" "distinct (map seId (stSecrets s))"
  shows "\<exists>t. rotate_rows cs iv job xs s = Inr ((), t)
    \<and> stSecrets t = map (\<lambda>x. if seId x \<in> seId ` set xs then reencrypted cs iv job (stClock s) x else x) (stSecrets s)
    \<and> stClock t = stClock s \<and> stProjects t = stProjects s \<and> stJobs t = stJobs s"
  using assms
proof (induction xs arbitrary: s)
  case Nil
  then show ?case by simp
next
  case (Cons x xs)
  obtain p where p: "new_payload cs iv job x = Inr p" using Cons.prems(1) by auto
  let ?f = "rotated_value p (rjTo job) (stClock s)"
  let ?s = "audit (rotation_audit job x) (with_secret (seId x) ?f s)"
  have x: "x \<in> set (stSecrets s)" using Cons.prems(2) by simp
  have same: "z = x" if "z \<in> set (stSecrets s)" "seId z = seId x" for z
    using that x Cons.prems(4) by (metis distinct_map inj_onD)
  have row: "rotate_row cs iv job x s = Inr ((), ?s)"
    using x p by (auto simp: rotate_row_def has_secret_def list_ex_iff)
  have sec: "stSecrets ?s = map (\<lambda>z. if seId z = seId x then reencrypted cs iv job (stClock s) z else z) (stSecrets s)"
  proof -
    have "reencrypted cs iv job (stClock s) z = ?f z" if "z \<in> set (stSecrets s)" "seId z = seId x" for z
      using same[OF that] by (simp add: reencrypted_def p)
    then show ?thesis by (simp add: audit_def with_secret_def)
  qed
  have ids: "map seId (stSecrets ?s) = map seId (stSecrets s)"
    by (simp add: sec reencrypted_def rotated_value_def)
  have "set xs \<subseteq> set (stSecrets ?s)"
  proof
    fix y assume "y \<in> set xs"
    then have "y \<in> set (stSecrets s)" "seId y \<noteq> seId x" using Cons.prems(2,3) by (auto simp: image_iff)
    then show "y \<in> set (stSecrets ?s)" unfolding sec by force
  qed
  from Cons.IH[OF _ this] Cons.prems(1,3,4) ids obtain t where
    t: "rotate_rows cs iv job xs ?s = Inr ((), t)"
      "stSecrets t = map (\<lambda>x. if seId x \<in> seId ` set xs then reencrypted cs iv job (stClock ?s) x else x) (stSecrets ?s)"
      "stClock t = stClock ?s" "stProjects t = stProjects ?s" "stJobs t = stJobs ?s" by auto
  have clock: "stClock ?s = stClock s" "stProjects ?s = stProjects s" "stJobs ?s = stJobs s"
    by (simp_all add: audit_def with_secret_def)
  have "seId x \<notin> seId ` set xs" using Cons.prems(3) by auto
  then have "stSecrets t = map (\<lambda>z. if seId z \<in> seId ` set (x # xs) then reencrypted cs iv job (stClock s) z else z) (stSecrets s)"
    unfolding t(2) sec clock by (auto simp: reencrypted_def rotated_value_def)
  with row t clock show ?case by auto
qed

definition advance_job :: "rotation_job \<Rightarrow> nat \<Rightarrow> string \<Rightarrow> rotation_job \<Rightarrow> rotation_job" where
  "advance_job job n cursor j = (if rjId j = rjId job then j\<lparr>rjProcessed := n, rjCursor := Some cursor\<rparr> else j)"

lemma rotate_batch_effect:
  assumes "\<forall>x\<in>set xs. \<exists>p. new_payload cs iv job x = Inr p" "set xs \<subseteq> set (stSecrets s)"
    and "distinct (map seId xs)" "distinct (map seId (stSecrets s))" "has_job_row (rjId job) s"
  shows "\<exists>t. transaction (rotate_batch cs iv job n xs) (quiet s) = (Inr (), quiet t)
    \<and> stSecrets t = map (\<lambda>x. if seId x \<in> seId ` set xs then reencrypted cs iv job (stClock s) x else x) (stSecrets s)
    \<and> stClock t = stClock s \<and> stProjects t = stProjects s
    \<and> stJobs t = map (advance_job job (n + length xs) (seId (last xs))) (stJobs s)"
proof -
  let ?up = "\<lambda>s :: 'a secret_tables. if has_job_row (rjId job) s
       then Inr ((), \<lambda>t. Inr (with_job (rjId job)
         (\<lambda>j. j\<lparr>rjProcessed := n + length xs, rjCursor := Some (seId (last xs))\<rparr>) t))
       else Inl p2025"
  have up: "tx_quiet (tx_statement ?up) (\<lambda>s. sbind (?up s) (\<lambda>(a, patch). sbind (patch s) (\<lambda>t. Inr (a, t))))"
    by (rule tx_quiet_statement) (auto split: if_splits)
  have q: "tx_quiet (rotate_batch cs iv job n xs) (\<lambda>s. sbind (rotate_rows cs iv job xs s) (\<lambda>(u, s).
      sbind (?up s) (\<lambda>(a, patch). sbind (patch s) (\<lambda>t. Inr (a, t)))))"
    unfolding rotate_batch_def by (intro tx_quiet_bind quiet_rotate_rows up)
  obtain t where t: "rotate_rows cs iv job xs s = Inr ((), t)"
    "stSecrets t = map (\<lambda>x. if seId x \<in> seId ` set xs then reencrypted cs iv job (stClock s) x else x) (stSecrets s)"
    "stClock t = stClock s" "stProjects t = stProjects s" "stJobs t = stJobs s"
    using rotate_rows_effect[OF assms(1-4)] by blast
  have "has_job_row (rjId job) t" using assms(5) t(5) by (simp add: has_job_row_def)
  with t show ?thesis
    by (simp add: transaction_quiet[OF q] with_job_def advance_job_def)
qed

section \<open>The whole rotation\<close>

text \<open>What a rotation may do to a secret: nothing, or encrypt the same value with the new key.\<close>

definition same_value :: "crypto_service \<Rightarrow> string \<Rightarrow> secret \<Rightarrow> secret \<Rightarrow> bool" where
  "same_value cs version x y =
     (y = x \<or> seId y = seId x \<and> seProject y = seProject x \<and> seKey y = seKey x \<and> seVersion y = version
        \<and> (\<exists>v. reveal cs x = Inr v \<and> reveal cs y = Inr v))"

lemma same_value_trans: "same_value cs v x y \<Longrightarrow> same_value cs v y z \<Longrightarrow> same_value cs v x z"
  by (auto simp: same_value_def)

definition rotation_ready :: "crypto_service \<Rightarrow> (string \<Rightarrow> bytes) \<Rightarrow> rotation_job \<Rightarrow> 'q secret_tables \<Rightarrow> bool" where
  "rotation_ready cs iv job s =
     (sound_cipher (csCipher cs) \<and> (\<forall>i. is_bytes (iv i) \<and> length (iv i) = 12) \<and> (\<exists>k. get_key cs (rjTo job) = Inr k)
      \<and> rjFrom job \<noteq> rjTo job \<and> distinct (map seId (stSecrets s))
      \<and> (\<forall>x\<in>set (secrets_with_key (rjCompany job) (rjFrom job) s). \<exists>v. reveal cs x = Inr v \<and> v \<noteq> []))"

lemma reencrypted_same_value:
  assumes "rotation_ready cs iv job s" "x \<in> set (secrets_with_key (rjCompany job) (rjFrom job) s)"
  shows "\<exists>p. new_payload cs iv job x = Inr p" "same_value cs (rjTo job) x (reencrypted cs iv job now x)"
proof -
  obtain v key where v: "reveal cs x = Inr v" "v \<noteq> []" "get_key cs (rjTo job) = Inr key"
    using assms by (auto simp: rotation_ready_def)
  have iv: "is_bytes (iv (seId x))" "iv (seId x) \<noteq> []"
    using assms(1) by (auto simp: rotation_ready_def dest: spec[of _ "seId x"])
  obtain p where p: "encrypt cs (iv (seId x)) v (rjTo job) = Inr p" "decrypt cs p (rjTo job) = Inr v"
    using decrypt_encrypt[of cs, OF _ iv v(3), of v] assms(1) v(2) by (auto simp: rotation_ready_def)
  then show "\<exists>p. new_payload cs iv job x = Inr p" using v by (simp add: new_payload_def)
  from p v show "same_value cs (rjTo job) x (reencrypted cs iv job now x)"
    by (simp add: same_value_def reencrypted_def new_payload_def rotated_value_def reveal_def)
qed

lemma next_batch_facts:
  assumes "distinct (map seId (stSecrets s))"
  shows "set (next_batch job cursor s) \<subseteq> set (secrets_with_key (rjCompany job) (rjFrom job) s)"
    and "distinct (map seId (next_batch job cursor s))"
    and "x \<in> set (secrets_with_key (rjCompany job) (rjFrom job) s) \<Longrightarrow> after_cursor cursor (seId x) \<Longrightarrow>
      x \<notin> set (next_batch job cursor s) \<Longrightarrow> next_batch job cursor s \<noteq> [] \<Longrightarrow>
      seId (last (next_batch job cursor s)) < seId x"
    and "next_batch job cursor s = [] \<Longrightarrow> x \<in> set (secrets_with_key (rjCompany job) (rjFrom job) s) \<Longrightarrow>
      \<not> after_cursor cursor (seId x)"
proof -
  let ?sel = "filter (\<lambda>x. after_cursor cursor (seId x)) (secrets_with_key (rjCompany job) (rjFrom job) s)"
  let ?sorted = "sort_key seId ?sel"
  let ?b = "next_batch job cursor s"
  have b: "?b = take batch_size ?sorted" by (simp add: next_batch_def)
  show "set ?b \<subseteq> set (secrets_with_key (rjCompany job) (rjFrom job) s)"
    unfolding b by (auto dest!: in_set_takeD)
  have d0: "distinct (map seId ?sel)"
    using assms by (simp add: secrets_with_key_def distinct_map_filter)
  then have d: "distinct (map seId ?sorted)"
    by (simp add: distinct_map)
  then show "distinct (map seId ?b)"
    unfolding b take_map[symmetric] by (rule distinct_take)
  show "\<not> after_cursor cursor (seId x)"
    if "?b = []" "x \<in> set (secrets_with_key (rjCompany job) (rjFrom job) s)"
  proof -
    have "?sorted = []" using that(1) by (simp add: b batch_size_def)
    then have "?sel = []" by (metis length_0_conv length_sort)
    with that(2) show ?thesis by (auto simp: filter_empty_conv)
  qed
  show "seId (last ?b) < seId x"
    if x: "x \<in> set (secrets_with_key (rjCompany job) (rjFrom job) s)" "after_cursor cursor (seId x)" "x \<notin> set ?b" "?b \<noteq> []"
  proof -
    have "x \<in> set ?sorted" using x by simp
    then have drop: "x \<in> set (drop batch_size ?sorted)"
      using x(3) by (metis Un_iff append_take_drop_id b set_append)
    have "sorted (map seId (take batch_size ?sorted @ drop batch_size ?sorted))" by simp
    then have le: "seId (last ?b) \<le> seId x"
      using drop x(4) unfolding map_append sorted_append b by auto
    have "seId (last ?b) \<noteq> seId x"
    proof
      assume "seId (last ?b) = seId x"
      then have "last ?b = x"
        using d x(4) \<open>x \<in> set ?sorted\<close> unfolding b by (metis distinct_map inj_onD in_set_takeD last_in_set)
      with x(3,4) show False by (metis last_in_set)
    qed
    with le show ?thesis by simp
  qed
qed

definition rotated :: "crypto_service \<Rightarrow> rotation_job \<Rightarrow> 'q secret_tables \<Rightarrow> 'q secret_tables \<Rightarrow> bool" where
  "rotated cs job s t =
     (list_all2 (same_value cs (rjTo job)) (stSecrets s) (stSecrets t)
      \<and> (\<forall>x\<in>set (stSecrets s). x \<notin> set (secrets_with_key (rjCompany job) (rjFrom job) s) \<longrightarrow> x \<in> set (stSecrets t))
      \<and> stProjects t = stProjects s \<and> map rjId (stJobs t) = map rjId (stJobs s)
      \<and> map same_pair (stJobs t) = map same_pair (stJobs s) \<and> map rjStatus (stJobs t) = map rjStatus (stJobs s))"

lemma list_all2_map_same: "(\<And>x. x \<in> set xs \<Longrightarrow> P x (f x)) \<Longrightarrow> list_all2 P xs (map f xs)"
  by (induction xs) auto

lemma has_job_row_iff: "has_job_row i s \<longleftrightarrow> i \<in> set (map rjId (stJobs s))"
  by (auto simp: has_job_row_def list_ex_iff)

text \<open>One batch: the invariant of the loop.\<close>

lemma batch_step:
  assumes ready: "rotation_ready cs iv job s" and row: "has_job_row (rjId job) s"
    and behind: "\<forall>x\<in>set (secrets_with_key (rjCompany job) (rjFrom job) s). after_cursor cursor (seId x)"
    and b: "next_batch job cursor s = b" "b \<noteq> []"
  obtains t where "transaction (rotate_batch cs iv job n b) (quiet s) = (Inr (), quiet t)"
    "rotated cs job s t" "rotation_ready cs iv job t" "has_job_row (rjId job) t"
    "\<forall>x\<in>set (secrets_with_key (rjCompany job) (rjFrom job) t). after_cursor (Some (seId (last b))) (seId x)"
    "length (secrets_with_key (rjCompany job) (rjFrom job) s) = length (secrets_with_key (rjCompany job) (rjFrom job) t) + length b"
    "\<forall>j\<in>set (stJobs t). rjId j = rjId job \<longrightarrow> rjProcessed j = n + length b"
proof -
  let ?sel = "\<lambda>s. secrets_with_key (rjCompany job) (rjFrom job) s"
  have d: "distinct (map seId (stSecrets s))" using ready by (simp add: rotation_ready_def)
  note facts = next_batch_facts[OF d, where job = job and cursor = cursor, unfolded b(1)]
  have sub: "set (?sel s) \<subseteq> set (stSecrets s)" by (auto simp: secrets_with_key_def)
  have payloads: "\<forall>x\<in>set b. \<exists>p. new_payload cs iv job x = Inr p"
    using reencrypted_same_value(1)[OF ready] facts(1) by blast
  obtain t where t: "transaction (rotate_batch cs iv job n b) (quiet s) = (Inr (), quiet t)"
    "stSecrets t = map (\<lambda>x. if seId x \<in> seId ` set b then reencrypted cs iv job (stClock s) x else x) (stSecrets s)"
    "stProjects t = stProjects s" "stJobs t = map (advance_job job (n + length b) (seId (last b))) (stJobs s)"
    using rotate_batch_effect[OF payloads subset_trans[OF facts(1) sub] facts(2) d row] by blast
  have mem: "seId x \<in> seId ` set b \<longleftrightarrow> x \<in> set b" if "x \<in> set (stSecrets s)" for x
  proof
    assume "seId x \<in> seId ` set b"
    then obtain y where y: "y \<in> set b" "seId x = seId y" by auto
    then have "y \<in> set (stSecrets s)" using facts(1) sub by blast
    with y that d have "x = y" by (auto simp: distinct_map dest: inj_onD)
    with y show "x \<in> set b" by simp
  qed simp
  have sec: "stSecrets t = map (\<lambda>x. if x \<in> set b then reencrypted cs iv job (stClock s) x else x) (stSecrets s)"
    unfolding t(2) using mem by simp
  have ne: "rjFrom job \<noteq> rjTo job" using ready by (simp add: rotation_ready_def)
  have gen: "filter (\<lambda>x. seVersion x = rjFrom job \<and> stProjects s (seProject x) = Some (rjCompany job))
      (map (\<lambda>x. if x \<in> set b then reencrypted cs iv job (stClock s) x else x) xs)
    = filter (\<lambda>x. x \<notin> set b)
      (filter (\<lambda>x. seVersion x = rjFrom job \<and> stProjects s (seProject x) = Some (rjCompany job)) xs)" for xs
    using ne by (induction xs) (auto simp: reencrypted_def rotated_value_def)
  have selt: "?sel t = filter (\<lambda>x. x \<notin> set b) (?sel s)"
    unfolding secrets_with_key_def sec in_company_def t(3) by (rule gen)
  have rot: "rotated cs job s t"
    unfolding rotated_def
  proof (intro conjI)
    show "list_all2 (same_value cs (rjTo job)) (stSecrets s) (stSecrets t)"
      unfolding sec
      by (rule list_all2_map_same) (use reencrypted_same_value(2)[OF ready] facts(1) in \<open>auto simp: same_value_def\<close>)
    show "\<forall>x\<in>set (stSecrets s). x \<notin> set (?sel s) \<longrightarrow> x \<in> set (stSecrets t)"
      unfolding sec using facts(1) by force
  qed (simp_all add: t comp_def advance_job_def same_pair_def fun_eq_iff)
  have ids: "map seId (stSecrets t) = map seId (stSecrets s)"
    by (simp add: sec reencrypted_def rotated_value_def)
  have "rotation_ready cs iv job t"
    using ready unfolding rotation_ready_def ids selt by auto
  moreover have "has_job_row (rjId job) t"
    using row rot unfolding has_job_row_iff rotated_def by simp
  moreover have "\<forall>x\<in>set (?sel t). after_cursor (Some (seId (last b))) (seId x)"
    using facts(3)[OF _ _ _ b(2)] behind by (auto simp: selt after_cursor_def)
  moreover have "length (?sel s) = length (?sel t) + length b"
  proof -
    have "distinct (?sel s)" "distinct b" using d facts(2) by (auto simp: secrets_with_key_def distinct_map)
    moreover have "set (filter (\<lambda>x. x \<in> set b) (?sel s)) = set b" using facts(1) by auto
    ultimately have "length (filter (\<lambda>x. x \<in> set b) (?sel s)) = length b"
      by (metis distinct_card distinct_filter)
    then show ?thesis using sum_length_filter_compl[of "\<lambda>x. x \<in> set b" "?sel s"] by (simp add: selt)
  qed
  moreover have "\<forall>j\<in>set (stJobs t). rjId j = rjId job \<longrightarrow> rjProcessed j = n + length b"
    by (auto simp: t(4) advance_job_def)
  ultimately show thesis using that t(1) rot by blast
qed

lemma rotated_refl: "rotated cs job s s"
  by (simp add: rotated_def list_all2_same same_value_def)

lemma rotated_trans:
  assumes "rotated cs job s t" "rotated cs job t u"
    and "\<And>x. x \<in> set (stSecrets s) \<Longrightarrow> x \<notin> set (secrets_with_key (rjCompany job) (rjFrom job) s) \<Longrightarrow>
      x \<notin> set (secrets_with_key (rjCompany job) (rjFrom job) t)"
  shows "rotated cs job s u"
proof -
  have "list_all2 (same_value cs (rjTo job)) (stSecrets s) (stSecrets u)"
    by (rule list_all2_trans[OF same_value_trans]) (use assms(1,2) in \<open>auto simp: rotated_def\<close>)
  moreover have "x \<in> set (stSecrets u)"
    if "x \<in> set (stSecrets s)" "x \<notin> set (secrets_with_key (rjCompany job) (rjFrom job) s)" for x
    using assms(1,2) assms(3)[OF that] that unfolding rotated_def by blast
  moreover have "stProjects u = stProjects s" "map rjId (stJobs u) = map rjId (stJobs s)"
      "map same_pair (stJobs u) = map same_pair (stJobs s)" "map rjStatus (stJobs u) = map rjStatus (stJobs s)"
    using assms(1,2) by (simp_all add: rotated_def)
  ultimately show ?thesis unfolding rotated_def by blast
qed

lemma loop_rotates_all:
  assumes "rotation_ready cs iv job s" "has_job_row (rjId job) s"
    and "\<forall>x\<in>set (secrets_with_key (rjCompany job) (rjFrom job) s). after_cursor cursor (seId x)"
    and "\<forall>j\<in>set (stJobs s). rjId j = rjId job \<longrightarrow> rjProcessed j = n"
  shows "\<exists>t. rotate_loop cs iv job n cursor (quiet s) = (Inr (), quiet t) \<and> rotated cs job s t
    \<and> secrets_with_key (rjCompany job) (rjFrom job) t = []
    \<and> (\<forall>j\<in>set (stJobs t). rjId j = rjId job \<longrightarrow>
        rjProcessed j = n + length (secrets_with_key (rjCompany job) (rjFrom job) s))"
  using assms
proof (induction "length (secrets_with_key (rjCompany job) (rjFrom job) s)" arbitrary: s n cursor rule: less_induct)
  case less
  let ?sel = "\<lambda>s. secrets_with_key (rjCompany job) (rjFrom job) s"
  let ?b = "next_batch job cursor s"
  have d: "distinct (map seId (stSecrets s))" using less.prems(1) by (simp add: rotation_ready_def)
  have read: "io_read (next_batch job cursor) (quiet s) = (Inr ?b, quiet s)" by (simp add: io_read_quiet)
  show ?case
  proof (cases "?b = []")
    case True
    then have "?sel s = []"
      using next_batch_facts(4)[OF d True] less.prems(3) by (cases "?sel s") auto
    with True read less.prems(4) rotated_refl show ?thesis by (subst rotate_loop.simps) auto
  next
    case False
    obtain t where t: "transaction (rotate_batch cs iv job n ?b) (quiet s) = (Inr (), quiet t)"
      "rotated cs job s t" "rotation_ready cs iv job t" "has_job_row (rjId job) t"
      "\<forall>x\<in>set (?sel t). after_cursor (Some (seId (last ?b))) (seId x)" "length (?sel s) = length (?sel t) + length ?b"
      "\<forall>j\<in>set (stJobs t). rjId j = rjId job \<longrightarrow> rjProcessed j = n + length ?b"
      using batch_step[OF less.prems(1-3) refl False] by metis
    have "length (?sel t) < length (?sel s)" using t(6) False by simp
    from less.hyps[OF this t(3-5,7)] obtain u where u:
      "rotate_loop cs iv job (n + length ?b) (Some (seId (last ?b))) (quiet t) = (Inr (), quiet u)"
      "rotated cs job t u" "?sel u = []"
      "\<forall>j\<in>set (stJobs u). rjId j = rjId job \<longrightarrow> rjProcessed j = n + length ?b + length (?sel t)" by blast
    have "rotated cs job s u"
    proof (rule rotated_trans[OF t(2) u(2)])
      fix x assume x: "x \<in> set (stSecrets s)" "x \<notin> set (?sel s)"
      then show "x \<notin> set (?sel t)"
        using t(2) by (auto simp: secrets_with_key_def in_company_def rotated_def)
    qed
    then show ?thesis
      using read False t(1,6) u by (subst rotate_loop.simps) (auto simp: add.assoc)
  qed
qed

text \<open>
  C25: A rotation that nobody disturbs re-encrypts every secret of the company with the new key and changes
  no value: afterwards no secret of the company has the old key, every other secret is as it was, every
  secret still decrypts to its value, and the job is completed and has counted them.  It may have been
  interrupted before, as long as no secret with the old key lies before its cursor.
\<close>
theorem rotation_keeps_every_value:
  assumes "rotation_ready cs iv job s" "job \<in> set (stJobs s)" "distinct (map rjId (stJobs s))"
    and "rjStatus job \<noteq> ROTATION_COMPLETED" "\<not> active_elsewhere job s"
    and "\<forall>x\<in>set (secrets_with_key (rjCompany job) (rjFrom job) s). after_cursor (rjCursor job) (seId x)"
  shows "\<exists>t j. process_rotation cs iv (rjId job) (quiet s) = (Inr (), quiet t)
    \<and> secrets_with_key (rjCompany job) (rjFrom job) t = []
    \<and> list_all2 (same_value cs (rjTo job)) (stSecrets s) (stSecrets t)
    \<and> (\<forall>x\<in>set (stSecrets s). x \<notin> set (secrets_with_key (rjCompany job) (rjFrom job) s) \<longrightarrow> x \<in> set (stSecrets t))
    \<and> j \<in> set (stJobs t) \<and> rjId j = rjId job \<and> rjStatus j = ROTATION_COMPLETED
    \<and> rjProcessed j = rjProcessed job + length (secrets_with_key (rjCompany job) (rjFrom job) s)"
proof -
  let ?sel = "\<lambda>s. secrets_with_key (rjCompany job) (rjFrom job) s"
  let ?start = "\<lambda>j. j\<lparr>rjStatus := ROTATION_RUNNING,
      rjStartedAt := Some (case rjStartedAt job of None \<Rightarrow> stClock s | Some t \<Rightarrow> t), rjError := None, rjTotal := length (?sel s)\<rparr>"
  let ?s = "with_job (rjId job) ?start s"
  have only: "j = job" if "j \<in> set (stJobs s)" "rjId j = rjId job" for j
    using that assms(2,3) by (auto simp: distinct_map dest: inj_onD)
  have find: "find (\<lambda>j. rjId j = rjId job) (stJobs s) = Some job"
  proof (cases "find (\<lambda>j. rjId j = rjId job) (stJobs s)")
    case None
    then show ?thesis using assms(2) by (auto simp: find_None_iff)
  next
    case (Some j)
    then have "j \<in> set (stJobs s)" "rjId j = rjId job" by (auto simp: find_Some_iff)
    with Some only show ?thesis by simp
  qed
  have row: "has_job_row (rjId job) s" using assms(2) by (auto simp: has_job_row_def list_ex_iff)
  have begin_job: "update_job job (\<lambda>now. ?start) (quiet s) = (Inr (), quiet ?s)"
    using row assms(5) by (simp add: update_job_def io_call_quiet)
  have same: "?sel ?s = ?sel s" "stSecrets ?s = stSecrets s" by (simp_all add: with_job_def secrets_with_key_def in_company_def)
  have "rotation_ready cs iv job ?s" using assms(1) unfolding rotation_ready_def same .
  moreover have "has_job_row (rjId job) ?s"
    using row by (auto simp: has_job_row_iff with_job_def image_iff)
  moreover have "\<forall>j\<in>set (stJobs ?s). rjId j = rjId job \<longrightarrow> rjProcessed j = rjProcessed job"
    using only by (auto simp: with_job_def dest!: only)
  ultimately obtain t where t: "rotate_loop cs iv job (rjProcessed job) (rjCursor job) (quiet ?s) = (Inr (), quiet t)"
    "rotated cs job ?s t" "?sel t = []"
    "\<forall>j\<in>set (stJobs t). rjId j = rjId job \<longrightarrow> rjProcessed j = rjProcessed job + length (?sel s)"
    using loop_rotates_all[of cs iv job ?s "rjCursor job" "rjProcessed job"] assms(6) unfolding same by blast
  let ?finish = "\<lambda>now j. j\<lparr>rjStatus := ROTATION_COMPLETED, rjFinishedAt := Some now, rjError := None\<rparr>"
  let ?t = "with_job (rjId job) (?finish (stClock t)) t"
  have ids: "map rjId (stJobs t) = map rjId (stJobs s)"
    using t(2) by (simp add: rotated_def with_job_def comp_def)
  then have "rjId job \<in> set (map rjId (stJobs t))" using assms(2) by simp
  then obtain j where j: "j \<in> set (stJobs t)" "rjId j = rjId job" by auto
  have "has_job_row (rjId job) t" using j by (auto simp: has_job_row_def list_ex_iff)
  then have end_job: "update_job job ?finish (quiet t) = (Inr (), quiet ?t)"
    by (simp add: update_job_def io_call_quiet active_job_def)
  have run: "process_rotation cs iv (rjId job) (quiet s) = (Inr (), quiet ?t)"
    using assms(4) begin_job t(1) end_job
    by (simp add: process_rotation_def io_bind_def io_then_def io_catch_def io_read_quiet io_peek_run find cong: option.case_cong)
  have secrets: "stSecrets ?t = stSecrets t" "?sel ?t = []"
    using t(3) by (simp_all add: with_job_def secrets_with_key_def in_company_def)
  have "?finish (stClock t) j \<in> set (stJobs ?t)" using j by (force simp: with_job_def)
  moreover have "rjProcessed (?finish (stClock t) j) = rjProcessed job + length (?sel s)" using t(4) j by simp
  ultimately show ?thesis
    using run secrets t(2) j(2) unfolding rotated_def same by (intro exI[of _ ?t] exI[of _ "?finish (stClock t) j"]) simp
qed

definition old_secret :: "string \<Rightarrow> string \<Rightarrow> secret" where
  "old_secret i v =
     \<lparr>seId = i, seProject = ''p'', seKey = ''KEY_'' @ i, seEncrypted = projr (encrypt plain_crypto (replicate 12 1) v ''v1''),
      seVersion = ''v1'', seCreatedBy = ''u'', seRotatedAt = None\<rparr>"

definition company_tables :: "rotation_job \<Rightarrow> (string \<rightharpoonup> string) secret_tables" where
  "company_tables j =
     \<lparr>stClock = 5, stProjects = [''p'' \<mapsto> ''c''], stSecrets = [old_secret ''a'' ''one'', old_secret ''b'' ''two''],
      stJobs = [j], stAudit = [], stQueue = Map.empty\<rparr>"

lemma reveal_old_secret: "v \<noteq> [] \<Longrightarrow> reveal plain_crypto (old_secret i v) = Inr v"
  using decrypt_encrypt[of plain_crypto "replicate 12 1" "''v1''" "[1]" v] plain_cipher_sound
  by (auto simp: reveal_def old_secret_def plain_crypto_def get_key_def is_bytes_def)

lemma rotation_keeps_every_value_witness:
  "\<exists>t j. process_rotation plain_crypto (\<lambda>_. replicate 12 2) ''j'' (quiet (company_tables (new_job ''j'' ''c'' ''v1'' ''v2'' None 2)))
      = (Inr (), quiet t) \<and> secrets_with_key ''c'' ''v1'' t = [] \<and> j \<in> set (stJobs t) \<and> rjProcessed j = 2"
proof -
  let ?j = "new_job ''j'' ''c'' ''v1'' ''v2'' None 2"
  have sel: "secrets_with_key ''c'' ''v1'' (company_tables ?j) = [old_secret ''a'' ''one'', old_secret ''b'' ''two'']"
    by (simp add: secrets_with_key_def company_tables_def in_company_def old_secret_def)
  have ready: "rotation_ready plain_crypto (\<lambda>_. replicate 12 2) ?j (company_tables ?j)"
    unfolding rotation_ready_def new_job_def rotation_job.select_convs sel[unfolded new_job_def]
  proof (intro conjI)
    show "\<forall>x\<in>set [old_secret ''a'' ''one'', old_secret ''b'' ''two'']. \<exists>v. reveal plain_crypto x = Inr v \<and> v \<noteq> []"
      using reveal_old_secret[of "''one''" "''a''"] reveal_old_secret[of "''two''" "''b''"] by simp
  qed (simp_all add: plain_crypto_def plain_cipher_sound is_bytes_def get_key_def company_tables_def old_secret_def)
  have j: "rjId ?j = ''j''" "rjCompany ?j = ''c''" "rjFrom ?j = ''v1''" "rjTo ?j = ''v2''" "rjProcessed ?j = 0"
      "rjStatus ?j = ROTATION_PENDING" "rjCursor ?j = None"
    by (simp_all add: new_job_def)
  have s: "stJobs (company_tables ?j) = [?j]" by (simp add: company_tables_def)
  show ?thesis
    using rotation_keeps_every_value[OF ready] sel j s by (simp add: active_elsewhere_def after_cursor_def numeral_2_eq_2) blast
qed

section \<open>A value that is lost\<close>

text \<open>
  The batch is read before the transaction starts, and its rows are written back whatever they hold then: a
  value that is set in between is replaced by the old one, encrypted with the new key.
\<close>

lemma rotation_overwrites_new_value:
  assumes "rotation_ready cs iv job s" "x \<in> set (secrets_with_key (rjCompany job) (rjFrom job) s)"
    and "stSecrets t = map (\<lambda>z. if seId z = seId x then rotated_value payload version now x else z) (stSecrets s)"
  shows "\<exists>u y. rotate_row cs iv job x t = Inr ((), u) \<and> y \<in> set (stSecrets u) \<and> seId y = seId x
    \<and> reveal cs y = reveal cs x"
proof -
  obtain p where p: "new_payload cs iv job x = Inr p" using reencrypted_same_value(1)[OF assms(1,2)] by blast
  have x: "x \<in> set (stSecrets s)" using assms(2) by (simp add: secrets_with_key_def)
  let ?y = "rotated_value p (rjTo job) (stClock t) (rotated_value payload version now x)"
  have "rotated_value payload version now x \<in> set (stSecrets t)" using x assms(3) by force
  then have "has_secret (seId x) t"
    unfolding has_secret_def list_ex_iff by (rule bexI[rotated]) (simp add: rotated_value_def)
  moreover have "?y \<in> set (stSecrets (with_secret (seId x) (rotated_value p (rjTo job) (stClock t)) t))"
    unfolding with_secret_def using \<open>_ \<in> set (stSecrets t)\<close>
    by (auto intro!: image_eqI[of _ _ "rotated_value payload version now x"] simp: rotated_value_def)
  moreover have "reveal cs ?y = reveal cs x"
  proof -
    have "seVersion (reencrypted cs iv job (stClock t) x) \<noteq> seVersion x"
      using assms(1,2) by (auto simp: reencrypted_def rotated_value_def rotation_ready_def secrets_with_key_def)
    then have "reencrypted cs iv job (stClock t) x \<noteq> x" by metis
    with reencrypted_same_value(2)[OF assms(1,2), of "stClock t"] p show ?thesis
      by (auto simp: same_value_def reencrypted_def reveal_def rotated_value_def)
  qed
  ultimately show ?thesis
    by (intro exI[of _ "audit (rotation_audit job x) (with_secret (seId x) (rotated_value p (rjTo job) (stClock t)) t)"] exI[of _ ?y])
      (simp add: rotate_row_def p audit_def rotated_value_def)
qed

text \<open>Only active jobs exclude each other: enqueueing twice gives one job.\<close>

lemma second_request_joins_job:
  assumes "find (\<lambda>j. rjCompany j = company \<and> rjFrom j = v \<and> rjTo j = csActive cs \<and> active_job j) (rev (stJobs s)) = Some j"
    and "sort (remdups (map seVersion (filter (\<lambda>x. seVersion x \<noteq> csActive cs \<and> in_company company s x) (stSecrets s)))) = v # vs"
    and "v \<noteq> []"
  shows "\<exists>t. enqueue_rotation cs jobs i company actor (quiet s) = (Inr j, quiet t) \<and> stJobs t = stJobs s"
  using assms
  by (simp add: enqueue_rotation_def find_active_job_def io_bind_def io_then_def io_read_quiet io_call_quiet io_return_run)

section \<open>No key configured\<close>

text \<open>Without any configuration the service starts, and its key is thirty-two times the digit zero.\<close>

lemma empty_key: "normalize_key [] = replicate 32 48"
  by code_simp

lemma unconfigured_key_is_known:
  "new_crypto_service c None None None = Inr \<lparr>csCipher = c, csKeys = [(''v1'', replicate 32 48)], csActive = ''v1''\<rparr>"
  by (simp add: new_crypto_service_def load_keys_def empty_key Let_def)

end
