(* ===== verification/Suite_Revisions.thy ===== *)
theory Suite_Revisions
  imports Env_Revisions Plan_Compiler
begin

text \<open>
  The stored test suites and their revisions (\<open>test-suites/test-suites.service.ts\<close>): drafts written in
  retried transactions with the plan compiled from them, publication, comparison.  The ids are random:
  \<open>ids n\<close> are those drawn at the attempt \<open>n\<close> of a transaction.
\<close>

section \<open>Tables\<close>

record suite_revision =
  tvId :: string
  tvSuite :: string
  tvNumber :: nat
  tvPublished :: bool
  tvMode :: string
  tvVisual :: "flow_suite option"
  tvYaml :: string
  tvPlan :: "exec_plan option"
  tvCreatedBy :: string
  tvPublishedBy :: "string option"
  tvPublishedAt :: "int option"

record suite_row =
  tsId :: string
  tsProject :: string
  tsName :: string
  tsDeletedAt :: "int option"

record suite_store =
  suNow :: int
  suProjects :: "string \<rightharpoonup> string"
  suSuites :: "suite_row list"
  suRevisions :: "suite_revision list"

text \<open>The YAML of a request may be left out (\<open>None\<close>) or \<open>null\<close> (\<open>Some None\<close>).\<close>

record suite_dto =
  sdName :: "string option"
  sdYaml :: "string option option"
  sdMode :: "string option"
  sdVisual :: "flow_suite option"

text \<open>What the compiler takes from outside: the collation, and js-yaml.\<close>

record yaml_tools =
  ytCollation :: "string \<Rightarrow> string \<Rightarrow> int"
  ytLoad :: "string \<Rightarrow> js_error + json option"
  ytDump :: "json \<Rightarrow> string"

definition has_suite :: "string \<Rightarrow> suite_store \<Rightarrow> bool" where
  "has_suite sid s = list_ex (\<lambda>r. tsId r = sid) (suSuites s)"

definition with_suite :: "string \<Rightarrow> (suite_row \<Rightarrow> suite_row) \<Rightarrow> suite_store \<Rightarrow> suite_store" where
  "with_suite sid f s = s\<lparr>suSuites := map (\<lambda>r. if tsId r = sid then f r else r) (suSuites s)\<rparr>"

definition insert_suite :: "suite_row \<Rightarrow> suite_store patch" where
  "insert_suite row s = Inr (s\<lparr>suSuites := suSuites s @ [row]\<rparr>)"

definition insert_suite_revision :: "suite_revision \<Rightarrow> suite_store patch" where
  "insert_suite_revision row s =
     (if list_ex (\<lambda>r. tvSuite r = tvSuite row \<and> tvNumber r = tvNumber row) (suRevisions s)
      then Inl p2002
      else Inr (s\<lparr>suRevisions := suRevisions s @ [row]\<rparr>))"

definition suite_revisions :: "string \<Rightarrow> suite_store \<Rightarrow> suite_revision list" where
  "suite_revisions sid s = filter (\<lambda>r. tvSuite r = sid) (suRevisions s)"

text \<open>\<open>orderBy: { revisionNumber: 'desc' }\<close>\<close>

definition latest_first :: "suite_revision list \<Rightarrow> suite_revision list" where
  "latest_first rs = sort_by (\<lambda>l r. descending (int (tvNumber l)) (int (tvNumber r))) rs"

definition find_suite :: "string \<Rightarrow> string \<Rightarrow> suite_store \<Rightarrow> suite_row option" where
  "find_suite pid sid s =
     find (\<lambda>r. tsId r = sid \<and> tsProject r = pid \<and> tsDeletedAt r = None) (suSuites s)"

definition suite_project :: "string \<Rightarrow> string \<Rightarrow> (suite_store, unit) io" where
  "suite_project pid company =
     io_bind (io_read (\<lambda>s. suProjects s pid)) (\<lambda>found. case found of
       None \<Rightarrow> io_throw (NotFoundException ''Project not found'')
     | Some c \<Rightarrow> if c \<noteq> company then io_throw (ForbiddenException ''Project belongs to another company'')
         else io_return ())"

section \<open>Writing a draft\<close>

definition resolve_source_mode :: "suite_dto \<Rightarrow> js_error + string" where
  "resolve_source_mode dto =
     (if sdVisual dto \<noteq> None \<and> sdYaml dto \<noteq> None
      then Inl (BadRequestException ''Use either visual flow or raw YAML as canonical source'')
      else if truthy_str (sdMode dto) then Inr (the (sdMode dto))
      else Inr (if sdVisual dto \<noteq> None then ''VISUAL'' else ''RAW_YAML''))"

record revision_data =
  rdMode :: string
  rdYaml :: string
  rdVisual :: "flow_suite option"
  rdPlan :: exec_plan

definition revision_options :: "string \<Rightarrow> compile_options" where
  "revision_options rid = \<lparr>oSuiteRevisionId = Some rid, oTimeoutMs = None\<rparr>"

definition suite_revision_data :: "yaml_tools \<Rightarrow> suite_dto \<Rightarrow> string \<Rightarrow> js_error + revision_data" where
  "suite_revision_data yt dto rid =
     sbind (resolve_source_mode dto) (\<lambda>mode.
     if mode = ''VISUAL''
     then (case sdVisual dto of
         None \<Rightarrow> Inl (BadRequestException ''Visual flow is required for VISUAL source mode'')
       | Some flow \<Rightarrow>
           sbind (compile_visual (ytCollation yt) (ytDump yt) (Some flow) (revision_options rid)) (\<lambda>compiled.
           Inr \<lparr>rdMode = ''VISUAL'', rdYaml = crYaml compiled, rdVisual = Some flow, rdPlan = crPlan compiled\<rparr>))
     else if blank (Option.bind (sdYaml dto) id)
     then Inl (BadRequestException ''YAML content or visual flow is required'')
     else sbind (compile_raw_yaml (ytCollation yt) (ytLoad yt) (ytDump yt) (the (Option.bind (sdYaml dto) id))
             (revision_options rid)) (\<lambda>compiled.
           Inr \<lparr>rdMode = ''RAW_YAML'', rdYaml = crYaml compiled, rdVisual = None, rdPlan = crPlan compiled\<rparr>))"

definition suite_draft :: "string \<Rightarrow> string \<Rightarrow> nat \<Rightarrow> string \<Rightarrow> revision_data \<Rightarrow> suite_revision" where
  "suite_draft rid sid n user d =
     \<lparr>tvId = rid, tvSuite = sid, tvNumber = n, tvPublished = False, tvMode = rdMode d, tvVisual = rdVisual d,
      tvYaml = rdYaml d, tvPlan = Some (rdPlan d), tvCreatedBy = user, tvPublishedBy = None, tvPublishedAt = None\<rparr>"

definition highest_number :: "suite_revision list \<Rightarrow> nat" where
  "highest_number rs = foldr (\<lambda>r n. max (tvNumber r) n) rs 0"

definition create_suite_revision ::
    "yaml_tools \<Rightarrow> string \<Rightarrow> string \<Rightarrow> string \<Rightarrow> suite_dto \<Rightarrow> (suite_store, unit) tx" where
  "create_suite_revision yt rid sid user dto =
     tx_bind (tx_read (\<lambda>s. highest_number (suite_revisions sid s))) (\<lambda>latest.
     tx_bind (tx_lift (suite_revision_data yt dto rid)) (\<lambda>d.
     tx_statement (\<lambda>s. let row = suite_draft rid sid (latest + 1) user d in
       sbind (insert_suite_revision row s) (\<lambda>_. Inr ((), insert_suite_revision row)))))"

text \<open>The transaction is tried a second time when the number was taken in between.\<close>

definition write_suite_draft :: "(nat \<Rightarrow> (suite_store, 'a) tx) \<Rightarrow> (suite_store, 'a) io" where
  "write_suite_draft callback =
     io_catch (transaction (callback 1)) (\<lambda>e. if e = p2002 then transaction (callback 2) else io_throw e)"

section \<open>Responses\<close>

definition normalize_mode :: "suite_revision \<Rightarrow> suite_revision" where
  "normalize_mode r = r\<lparr>tvMode := (if tvMode r = ''VISUAL'' then ''VISUAL'' else ''RAW_YAML'')\<rparr>"

record suite_response =
  spSuite :: suite_row
  spYaml :: string
  spVisual :: "flow_suite option"
  spCurrent :: suite_revision
  spPublished :: "suite_revision option"

definition to_suite_response :: "suite_row \<Rightarrow> suite_revision list \<Rightarrow> js_error + suite_response" where
  "to_suite_response row revisions =
     (case revisions of
        [] \<Rightarrow> Inl (NotFoundException ''Test suite revision not found'')
      | current # _ \<Rightarrow> Inr \<lparr>spSuite = row, spYaml = tvYaml current, spVisual = tvVisual current,
          spCurrent = normalize_mode current, spPublished = map_option normalize_mode (find tvPublished revisions)\<rparr>)"

definition find_suite_response :: "string \<Rightarrow> string \<Rightarrow> string \<Rightarrow> (suite_store, suite_response) io" where
  "find_suite_response pid sid company =
     io_then (suite_project pid company)
     (io_bind (io_read (\<lambda>s. map_option (\<lambda>r. (r, latest_first (suite_revisions sid s))) (find_suite pid sid s)))
       (\<lambda>found. case found of
          None \<Rightarrow> io_throw (NotFoundException ''Test suite not found'')
        | Some (row, revisions) \<Rightarrow> io_lift (to_suite_response row revisions)))"

text \<open>A page of a listing.\<close>

record 'a result_page =
  pgData :: "'a list"
  pgPage :: nat
  pgLimit :: nat
  pgTotal :: nat
  pgTotalPages :: nat

definition page_slice :: "nat \<Rightarrow> nat \<Rightarrow> 'a list \<Rightarrow> 'a list" where
  "page_slice page limit xs = take limit (drop ((page - 1) * limit) xs)"

definition page_result :: "nat \<Rightarrow> nat \<Rightarrow> 'a list \<Rightarrow> nat \<Rightarrow> 'a result_page" where
  "page_result page limit xs n =
     \<lparr>pgData = xs, pgPage = page, pgLimit = limit, pgTotal = n, pgTotalPages = (n + limit - 1) div limit\<rparr>"

text \<open>The suites, the last created first.  Both queries start at once; the answers come one by one.\<close>

definition live_suites :: "string \<Rightarrow> suite_store \<Rightarrow> suite_row list" where
  "live_suites pid s = filter (\<lambda>r. tsProject r = pid \<and> tsDeletedAt r = None) (suSuites s)"

definition list_suites :: "string \<Rightarrow> string \<Rightarrow> nat \<Rightarrow> nat \<Rightarrow> (suite_store, suite_response result_page) io" where
  "list_suites pid company page limit =
     io_then (suite_project pid company)
     (io_bind (io_read (\<lambda>s. map (\<lambda>r. (r, latest_first (suite_revisions (tsId r) s)))
          (page_slice page limit (rev (live_suites pid s))))) (\<lambda>rows.
      io_bind (io_read (\<lambda>s. length (live_suites pid s))) (\<lambda>n.
      io_bind (io_lift (traverse (\<lambda>(r, rs). to_suite_response r rs) rows)) (\<lambda>d.
      io_return (page_result page limit d n)))))"

section \<open>Operations\<close>

definition create_suite ::
    "yaml_tools \<Rightarrow> (nat \<Rightarrow> string \<times> string) \<Rightarrow> string \<Rightarrow> string \<Rightarrow> string \<Rightarrow> suite_dto \<Rightarrow>
     (suite_store, suite_response) io" where
  "create_suite yt ids pid company user dto =
     io_then (suite_project pid company)
     (io_bind (write_suite_draft (\<lambda>n. case ids n of (sid, rid) \<Rightarrow>
        tx_bind (tx_statement (\<lambda>s.
          let row = \<lparr>tsId = sid, tsProject = pid,
            tsName = (case sdName dto of None \<Rightarrow> [] | Some m \<Rightarrow> m), tsDeletedAt = None\<rparr> in
          Inr (row, insert_suite row))) (\<lambda>row.
        tx_bind (create_suite_revision yt rid (tsId row) user dto) (\<lambda>_. tx_return row)))) (\<lambda>row.
      find_suite_response pid (tsId row) company))"

definition get_suite_for_project :: "string \<Rightarrow> string \<Rightarrow> string \<Rightarrow> (suite_store, suite_row) io" where
  "get_suite_for_project pid sid company =
     io_then (suite_project pid company)
     (io_bind (io_read (find_suite pid sid)) (\<lambda>found. case found of
        None \<Rightarrow> io_throw (NotFoundException ''Test suite not found'')
      | Some r \<Rightarrow> io_return r))"

text \<open>\<open>dto.name ?? dto.visualFlow?.suiteName\<close>\<close>

definition flow_name :: "suite_dto \<Rightarrow> string option" where
  "flow_name dto = Option.bind (sdVisual dto) fSuiteName"

definition new_suite_name :: "suite_dto \<Rightarrow> string option" where
  "new_suite_name dto = (case sdName dto of Some n \<Rightarrow> Some n | None \<Rightarrow> flow_name dto)"

definition rename_suite :: "string option \<Rightarrow> suite_row \<Rightarrow> suite_row" where
  "rename_suite name r = (case name of None \<Rightarrow> r | Some n \<Rightarrow> r\<lparr>tsName := n\<rparr>)"

definition update_suite ::
    "yaml_tools \<Rightarrow> (nat \<Rightarrow> string) \<Rightarrow> string \<Rightarrow> string \<Rightarrow> string \<Rightarrow> string \<Rightarrow> suite_dto \<Rightarrow>
     (suite_store, suite_response) io" where
  "update_suite yt ids pid sid company user dto =
     io_then (get_suite_for_project pid sid company)
     (if sdVisual dto = None \<and> sdYaml dto = None
      then (if \<not> truthy_str (sdName dto)
        then io_throw (BadRequestException ''Test suite update must include a name, YAML content, or visual flow'')
        else io_then (io_call (\<lambda>s. if has_suite sid s
              then (Inr (), with_suite sid (rename_suite (sdName dto)) s) else (Inl p2025, s)))
            (find_suite_response pid sid company))
      else io_then (write_suite_draft (\<lambda>n.
          tx_bind (if truthy_str (sdName dto) \<or> truthy_str (flow_name dto)
            then tx_statement (\<lambda>s. if has_suite sid s
              then Inr ((), \<lambda>t. Inr (with_suite sid (rename_suite (new_suite_name dto)) t)) else Inl p2025)
            else tx_return ()) (\<lambda>_.
          create_suite_revision yt (ids n) sid user dto)))
        (find_suite_response pid sid company))"

definition delete_suite :: "string \<Rightarrow> string \<Rightarrow> string \<Rightarrow> (suite_store, unit) io" where
  "delete_suite pid sid company =
     io_then (get_suite_for_project pid sid company)
     (io_bind (io_peek suNow) (\<lambda>now.
      io_call (\<lambda>s. if has_suite sid s
        then (Inr (), with_suite sid (\<lambda>r. r\<lparr>tsDeletedAt := Some now\<rparr>) s) else (Inl p2025, s))))"

definition compile_suite_flow :: "yaml_tools \<Rightarrow> string \<Rightarrow> string \<Rightarrow> flow_suite option \<Rightarrow> (suite_store, compile_result) io" where
  "compile_suite_flow yt pid company flow =
     io_then (suite_project pid company)
       (io_lift (compile_visual (ytCollation yt) (ytDump yt) flow \<lparr>oSuiteRevisionId = None, oTimeoutMs = None\<rparr>))"

definition list_suite_revisions :: "string \<Rightarrow> string \<Rightarrow> string \<Rightarrow> (suite_store, suite_revision list) io" where
  "list_suite_revisions pid sid company =
     io_then (get_suite_for_project pid sid company)
     (io_bind (io_read (\<lambda>s. latest_first (suite_revisions sid s))) (\<lambda>rs. io_return (map normalize_mode rs)))"

text \<open>\<open>updateMany\<close> with the condition that the revision still is a draft.\<close>

definition is_draft :: "string \<Rightarrow> suite_revision \<Rightarrow> bool" where
  "is_draft rid r = (tvId r = rid \<and> \<not> tvPublished r)"

definition mark_published :: "string \<Rightarrow> string \<Rightarrow> int \<Rightarrow> suite_store \<Rightarrow> suite_store" where
  "mark_published rid user now s = s\<lparr>suRevisions := map (\<lambda>r. if is_draft rid r
     then r\<lparr>tvPublished := True, tvPublishedBy := Some user, tvPublishedAt := Some now\<rparr> else r) (suRevisions s)\<rparr>"

definition publish_draft :: "string \<Rightarrow> string \<Rightarrow> int \<Rightarrow> (suite_store, nat) io" where
  "publish_draft rid user now =
     io_call (\<lambda>s. (Inr (length (filter (is_draft rid) (suRevisions s))), mark_published rid user now s))"

definition publish_suite_revision ::
    "string \<Rightarrow> string \<Rightarrow> string \<Rightarrow> string \<Rightarrow> string \<Rightarrow> (suite_store, suite_response) io" where
  "publish_suite_revision pid sid company user rid =
     io_then (get_suite_for_project pid sid company)
     (io_bind (io_read (\<lambda>s. find (\<lambda>r. tvId r = rid) (suite_revisions sid s))) (\<lambda>found. case found of
        None \<Rightarrow> io_throw (NotFoundException ''Test suite revision not found'')
      | Some r \<Rightarrow>
          if tvPublished r then io_throw (ConflictException ''Test suite revision is already published'')
          else io_bind (io_peek suNow) (\<lambda>now.
            io_bind (publish_draft (tvId r) user now) (\<lambda>count.
            if count = 0 then io_throw (ConflictException ''Test suite revision is already published'')
            else find_suite_response pid sid company))))"

definition compare_suite_revisions ::
    "string \<Rightarrow> string \<Rightarrow> string \<Rightarrow> string \<Rightarrow> string \<Rightarrow>
     (suite_store, suite_revision \<times> suite_revision \<times> (nat \<times> string option \<times> string option) list) io" where
  "compare_suite_revisions pid sid company from_id to_id =
     (if from_id = [] \<or> to_id = []
      then io_throw (BadRequestException ''Both from and to revision IDs are required'')
      else io_then (get_suite_for_project pid sid company)
       (io_bind (io_read (\<lambda>s. filter (\<lambda>r. tvId r \<in> {from_id, to_id}) (suite_revisions sid s))) (\<lambda>rs.
        case (find (\<lambda>r. tvId r = from_id) rs, find (\<lambda>r. tvId r = to_id) rs) of
          (Some a, Some b) \<Rightarrow> io_return (normalize_mode a, normalize_mode b, diff_lines (tvYaml a) (tvYaml b))
        | _ \<Rightarrow> io_throw (NotFoundException ''Test suite revision not found''))))"

end
