(* ===== verification/Suite_Props.thy ===== *)
theory Suite_Props
  imports Suite_Revisions
begin

text \<open>
  The revisions of the test suites are a history: whatever several clients of the service do at the same
  time, no stored revision is lost or rewritten, and each carries the plan that was compiled from it.
\<close>

section \<open>The history\<close>

text \<open>A stored revision may only be published.\<close>

definition later :: "suite_revision \<Rightarrow> suite_revision \<Rightarrow> bool" where
  "later r r' =
     (r' = r \<or> \<not> tvPublished r
        \<and> r' = r\<lparr>tvPublished := True, tvPublishedBy := tvPublishedBy r', tvPublishedAt := tvPublishedAt r'\<rparr>)"

lemma later_refl [simp]: "later r r"
  by (simp add: later_def)

lemma later_iff:
  "later r r' \<longleftrightarrow> r' = r \<or> \<not> tvPublished r
     \<and> (\<exists>u n. r' = r\<lparr>tvPublished := True, tvPublishedBy := u, tvPublishedAt := n\<rparr>)"
  by (auto simp: later_def)

lemma later_trans: "later a b \<Longrightarrow> later b c \<Longrightarrow> later a c"
  by (auto simp: later_iff)

lemma later_same:
  assumes "later r r'"
  shows "tvId r' = tvId r" "tvSuite r' = tvSuite r" "tvNumber r' = tvNumber r" "tvMode r' = tvMode r"
    "tvVisual r' = tvVisual r" "tvYaml r' = tvYaml r" "tvPlan r' = tvPlan r" "tvPublished r \<Longrightarrow> r' = r"
proof -
  from assms show "tvId r' = tvId r" "tvSuite r' = tvSuite r" "tvNumber r' = tvNumber r" "tvMode r' = tvMode r"
    "tvVisual r' = tvVisual r" "tvYaml r' = tvYaml r" "tvPlan r' = tvPlan r"
    by (auto simp: later_iff)
qed (use assms in \<open>auto simp: later_def\<close>)

text \<open>The plan of a revision names it, and its YAML is that plan.\<close>

definition carries_plan :: "yaml_tools \<Rightarrow> suite_revision \<Rightarrow> bool" where
  "carries_plan yt r =
     (case tvPlan r of None \<Rightarrow> False
      | Some p \<Rightarrow> pSuiteRevisionId p = tvId r \<and> tvYaml r = export_yaml (ytCollation yt) (ytDump yt) p
          \<and> (tvMode r = ''VISUAL'' \<longleftrightarrow> tvVisual r \<noteq> None))"

lemma later_carries_plan: "later r r' \<Longrightarrow> carries_plan yt r \<Longrightarrow> carries_plan yt r'"
  by (simp add: carries_plan_def later_same split: option.splits)

definition numbered_once :: "suite_store \<Rightarrow> bool" where
  "numbered_once s = distinct (map (\<lambda>r. (tvSuite r, tvNumber r)) (suRevisions s))"

definition suite_history :: "yaml_tools \<Rightarrow> suite_store \<Rightarrow> suite_store \<Rightarrow> bool" where
  "suite_history yt s t =
     (let n = length (suRevisions s) in
      list_all2 later (suRevisions s) (take n (suRevisions t)) \<and> list_all (carries_plan yt) (drop n (suRevisions t))
      \<and> (numbered_once s \<longrightarrow> numbered_once t))"

lemma suite_history_iff:
  "suite_history yt s t \<longleftrightarrow> (\<exists>rs new. suRevisions t = rs @ new \<and> list_all2 later (suRevisions s) rs
     \<and> list_all (carries_plan yt) new \<and> (numbered_once s \<longrightarrow> numbered_once t))"
proof
  assume "suite_history yt s t"
  then show "\<exists>rs new. suRevisions t = rs @ new \<and> list_all2 later (suRevisions s) rs
     \<and> list_all (carries_plan yt) new \<and> (numbered_once s \<longrightarrow> numbered_once t)"
    unfolding suite_history_def Let_def
    by (intro exI[of _ "take (length (suRevisions s)) (suRevisions t)"] exI[of _ "drop (length (suRevisions s)) (suRevisions t)"])
      simp
next
  assume "\<exists>rs new. suRevisions t = rs @ new \<and> list_all2 later (suRevisions s) rs
     \<and> list_all (carries_plan yt) new \<and> (numbered_once s \<longrightarrow> numbered_once t)"
  then show "suite_history yt s t"
    unfolding suite_history_def Let_def by (auto simp: list_all2_lengthD)
qed

lemma suite_history_refl: "suite_history yt s s"
  by (simp add: suite_history_def list_all2_refl)

lemma suite_history_trans:
  assumes "suite_history yt s t" "suite_history yt t u"
  shows "suite_history yt s u"
proof -
  obtain rs new where t: "suRevisions t = rs @ new" "list_all2 later (suRevisions s) rs" "list_all (carries_plan yt) new"
    using assms(1) unfolding suite_history_iff by blast
  obtain rs' new' where u: "suRevisions u = rs' @ new'" "list_all2 later (rs @ new) rs'" "list_all (carries_plan yt) new'"
    using assms(2) unfolding suite_history_iff t(1) by blast
  obtain as bs where ab: "rs' = as @ bs" "list_all2 later rs as" "list_all2 later new bs"
    using u(2) by (auto simp: list_all2_append1)
  have "list_all2 later (suRevisions s) as" by (rule list_all2_trans[OF later_trans t(2) ab(2)])
  moreover have "list_all (carries_plan yt) bs"
    using ab(3) t(3) by (induction rule: list_all2_induct) (auto intro: later_carries_plan)
  moreover have "numbered_once s \<longrightarrow> numbered_once u" using assms by (simp add: suite_history_def Let_def)
  ultimately show ?thesis
    unfolding suite_history_iff by (intro exI[of _ as] exI[of _ "bs @ new'"]) (simp add: u(1,3) ab(1))
qed

interpretation suites: step_relation "suite_history yt"
  by unfold_locales (rule suite_history_refl, erule (1) suite_history_trans)

lemma same_revisions_history: "suRevisions t = suRevisions s \<Longrightarrow> suite_history yt s t"
  by (simp add: suite_history_def numbered_once_def list_all2_refl)

section \<open>What the operations do to it\<close>

lemma imported_plan_id:
  assumes "import_raw_yaml lc yaml_load content options = Inr p" "oSuiteRevisionId options = Some rid" "rid \<noteq> []"
  shows "pSuiteRevisionId p = rid"
proof -
  have "\<exists>doc tests. raw_suite lc doc tests options = Inr p"
  proof (cases "yaml_load content")
    case (Inr d)
    with assms(1) show ?thesis
      by (cases d; cases "json_get (the d) ''tests''"; cases "the (json_get (the d) ''tests'')")
        (auto simp: import_raw_yaml_def split: if_splits)
  qed (use assms(1) in \<open>simp add: import_raw_yaml_def\<close>)
  then obtain doc tests where "raw_suite lc doc tests options = Inr p" by blast
  then show ?thesis using assms(2,3) by (auto simp: raw_suite_def sbind_Inr_iff normalize_plan_def)
qed

lemma plan_suite_revision:
  assumes "suite_revision_data yt dto rid = Inr d" "rid \<noteq> []"
  shows "pSuiteRevisionId (rdPlan d) = rid" "rdYaml d = export_yaml (ytCollation yt) (ytDump yt) (rdPlan d)"
    "rdMode d = ''VISUAL'' \<longleftrightarrow> rdVisual d \<noteq> None"
proof -
  have v: "pSuiteRevisionId (crPlan r) = rid \<and> crYaml r = export_yaml (ytCollation yt) (ytDump yt) (crPlan r)"
    if "compile_visual (ytCollation yt) (ytDump yt) flow (revision_options rid) = Inr r" for flow r
    using that assms(2) by (auto simp: compile_visual_def sbind_Inr_iff Let_def normalize_plan_def revision_options_def)
  have y: "pSuiteRevisionId (crPlan r) = rid \<and> crYaml r = export_yaml (ytCollation yt) (ytDump yt) (crPlan r)"
    if "compile_raw_yaml (ytCollation yt) (ytLoad yt) (ytDump yt) c (revision_options rid) = Inr r" for c r
    using that assms(2) imported_plan_id[of "ytCollation yt" "ytLoad yt" c "revision_options rid"]
    by (auto simp: compile_raw_yaml_def sbind_Inr_iff revision_options_def)
  have "pSuiteRevisionId (rdPlan d) = rid \<and> rdYaml d = export_yaml (ytCollation yt) (ytDump yt) (rdPlan d)
      \<and> (rdMode d = ''VISUAL'' \<longleftrightarrow> rdVisual d \<noteq> None)"
    using assms(1) v y by (auto simp: suite_revision_data_def sbind_Inr_iff split: option.splits if_splits)
  then show "pSuiteRevisionId (rdPlan d) = rid" "rdYaml d = export_yaml (ytCollation yt) (ytDump yt) (rdPlan d)"
    "rdMode d = ''VISUAL'' \<longleftrightarrow> rdVisual d \<noteq> None" by blast+
qed

lemma insert_revision_history:
  assumes "suite_revision_data yt dto rid = Inr d" "rid \<noteq> []"
  shows "patch_upholds (suite_history yt) (insert_suite_revision (suite_draft rid sid n user d))"
proof -
  have "carries_plan yt (suite_draft rid sid n user d)"
    using plan_suite_revision[OF assms] by (simp add: carries_plan_def suite_draft_def)
  then show ?thesis
    by (auto simp: patch_upholds_def insert_suite_revision_def suite_history_def numbered_once_def list_ex_iff
        list_all2_refl split: if_splits)
qed

lemma create_revision_history:
  assumes "rid \<noteq> []"
  shows "tx_upholds (suite_history yt) (create_suite_revision yt rid sid user dto)"
proof -
  have "tx_upholds (suite_history yt) (tx_bind (tx_lift (suite_revision_data yt dto rid)) (\<lambda>d.
     tx_statement (\<lambda>s. let row = suite_draft rid sid (latest + 1) user d in
       sbind (insert_suite_revision row s) (\<lambda>_. Inr ((), insert_suite_revision row)))))" for latest
  proof (cases "suite_revision_data yt dto rid")
    case (Inl e)
    then show ?thesis
      by (auto simp: tx_upholds_def tx_bind_def tx_lift_def upholds_def suite_history_refl)
  next
    case (Inr d)
    have skip: "tx_bind (tx_lift (Inr d)) k = k d" for k :: "revision_data \<Rightarrow> (suite_store, unit) tx"
      by (intro ext) (simp add: tx_bind_def tx_lift_def)
    have "tx_upholds (suite_history yt) (tx_statement (\<lambda>s. let row = suite_draft rid sid (latest + 1) user d in
       sbind (insert_suite_revision row s) (\<lambda>_. Inr ((), insert_suite_revision row))))"
      by (rule suites.tx_upholds_statement)
        (auto simp: Let_def sbind_Inr_iff insert_revision_history[OF Inr assms])
    with Inr show ?thesis by (simp only: skip)
  qed
  then show ?thesis
    unfolding create_suite_revision_def by (rule suites.tx_upholds_bind[OF suites.tx_upholds_read])
qed

lemma write_draft_history:
  "(\<And>n. tx_upholds (suite_history yt) (cb n)) \<Longrightarrow> upholds (suite_history yt) (write_suite_draft cb)"
  unfolding write_suite_draft_def
  by (intro suites.upholds_catch suites.upholds_transaction) (auto intro: suites.upholds_transaction suites.upholds_throw)

lemma suite_reads [intro]:
  "upholds (suite_history yt) (suite_project pid company)"
  "upholds (suite_history yt) (find_suite_response pid sid company)"
  "upholds (suite_history yt) (get_suite_for_project pid sid company)"
proof -
  show p: "upholds (suite_history yt) (suite_project pid company)" for pid company
    unfolding suite_project_def
    by (intro suites.upholds_rules) (auto split: option.splits intro: suites.upholds_rules)
  show "upholds (suite_history yt) (find_suite_response pid sid company)"
    "upholds (suite_history yt) (get_suite_for_project pid sid company)"
    unfolding find_suite_response_def get_suite_for_project_def
    by (intro suites.upholds_rules p; auto split: option.splits intro: suites.upholds_rules)+
qed

lemma with_suite_history: "suite_history yt s (with_suite sid f s)"
  by (rule same_revisions_history) (simp add: with_suite_def)

lemma update_row_history:
  "upholds (suite_history yt) (io_call (\<lambda>s. if has_suite sid s then (Inr (), with_suite sid (f s) s) else (Inl p2025, s)))"
  by (rule suites.upholds_call) (simp add: with_suite_history suite_history_refl)

lemma create_suite_history:
  assumes "\<And>n. snd (ids n) \<noteq> []"
  shows "upholds (suite_history yt) (create_suite yt ids pid company user dto)"
proof -
  have "tx_upholds (suite_history yt) (tx_statement (\<lambda>s. let row = f s in Inr (row, insert_suite row)))" for f
    by (rule suites.tx_upholds_statement)
      (auto simp: Let_def patch_upholds_def insert_suite_def intro: same_revisions_history)
  then show ?thesis
    unfolding create_suite_def using assms
    by (auto intro!: suites.upholds_then suites.upholds_bind write_draft_history suites.tx_upholds_bind
        suites.tx_upholds_return create_revision_history split: prod.splits) (metis snd_conv)
qed

lemma update_suite_history:
  assumes "\<And>n. ids n \<noteq> []"
  shows "upholds (suite_history yt) (update_suite yt ids pid sid company user dto)"
proof -
  have "tx_upholds (suite_history yt) (tx_statement (\<lambda>s. if has_suite sid s
      then Inr ((), \<lambda>t. Inr (with_suite sid f t)) else Inl p2025))" for f
    by (rule suites.tx_upholds_statement)
      (auto simp: patch_upholds_def with_suite_history split: if_splits)
  then show ?thesis
    unfolding update_suite_def using assms
    by (auto intro!: suites.upholds_then write_draft_history suites.tx_upholds_bind suites.upholds_throw
        suites.tx_upholds_return create_revision_history update_row_history)
qed

lemma delete_suite_history: "upholds (suite_history yt) (delete_suite pid sid company)"
  unfolding delete_suite_def
  by (intro suites.upholds_then suites.upholds_bind suites.upholds_peek update_row_history suite_reads)

lemma list_all2_map_later: "(\<And>r. later r (f r)) \<Longrightarrow> list_all2 later rs (map f rs)"
  by (induction rs) auto

lemma mark_published_history: "suite_history yt s (mark_published rid user now s)"
proof -
  have "map (\<lambda>r. (tvSuite r, tvNumber r)) (suRevisions (mark_published rid user now s))
      = map (\<lambda>r. (tvSuite r, tvNumber r)) (suRevisions s)"
    by (simp add: mark_published_def)
  moreover have "list_all2 later (suRevisions s) (suRevisions (mark_published rid user now s))"
    unfolding mark_published_def by (simp, rule list_all2_map_later) (simp add: later_def is_draft_def)
  ultimately show ?thesis
    by (simp add: suite_history_def numbered_once_def mark_published_def del: map_map)
qed

lemma publish_draft_history: "upholds (suite_history yt) (publish_draft rid user now)"
  unfolding publish_draft_def by (rule suites.upholds_call) (simp add: mark_published_history)

lemma publish_history: "upholds (suite_history yt) (publish_suite_revision pid sid company user rid)"
  unfolding publish_suite_revision_def
  by (intro suites.upholds_rules suite_reads)
    (auto split: option.splits intro!: suites.upholds_rules publish_draft_history suite_reads)

text \<open>
  C27: The revisions of the test suites are a history.  Whatever other clients of the service do at the same
  time, and whatever calls fail on the way, a creation, an update, a deletion or a publication neither
  loses nor rewrites a stored revision: it stays where it was, as it was, except that a draft may have become
  published.  What is added carries the plan compiled from it, which names the revision and is what its
  YAML says.  Revision numbers stay unique in each suite.
\<close>
theorem revisions_are_a_history:
  assumes "rely (suite_history yt) interference" "\<And>n. ids n \<noteq> []" "\<And>n. snd (ids' n) \<noteq> []"
  shows "suite_history yt s (store (snd (create_suite yt ids' pid company user dto \<lparr>store = s, pending = interference\<rparr>)))
    \<and> suite_history yt s (store (snd (update_suite yt ids pid sid company user dto \<lparr>store = s, pending = interference\<rparr>)))
    \<and> suite_history yt s (store (snd (delete_suite pid sid company \<lparr>store = s, pending = interference\<rparr>)))
    \<and> suite_history yt s (store (snd (publish_suite_revision pid sid company user rid
           \<lparr>store = s, pending = interference\<rparr>)))"
proof -
  let ?w = "\<lparr>store = s, pending = interference\<rparr>"
  have "rely (suite_history yt) (pending ?w)" using assms(1) by simp
  from upholdsD[OF create_suite_history this] upholdsD[OF update_suite_history this]
    upholdsD[OF delete_suite_history this] upholdsD[OF publish_history this] assms(2,3)
  show ?thesis by simp
qed

section \<open>Publication\<close>

lemma suite_project_quiet:
  "suProjects s pid = Some company \<Longrightarrow> suite_project pid company (quiet s) = (Inr (), quiet s)"
  by (simp add: suite_project_def io_bind_def run_simps)

lemma get_suite_quiet:
  assumes "suProjects s pid = Some company" "find_suite pid sid s = Some row"
  shows "get_suite_for_project pid sid company (quiet s) = (Inr row, quiet s)"
  using assms by (simp add: get_suite_for_project_def io_then_def io_bind_def suite_project_quiet run_simps)

lemma find_suite_quiet:
  assumes "suProjects s pid = Some company" "find_suite pid sid s = Some row"
  shows "find_suite_response pid sid company (quiet s)
    = (to_suite_response row (latest_first (suite_revisions sid s)), quiet s)"
  using assms by (simp add: find_suite_response_def io_then_def io_bind_def suite_project_quiet run_simps)

lemma latest_first_facts:
  "set (latest_first rs) = set rs"
  "sorted_wrt (\<lambda>a b. tvNumber b \<le> tvNumber a) (latest_first rs)"
  using down.sort_by_sorted[of "\<lambda>r. int (tvNumber r)" rs]
  by (simp_all add: latest_first_def descending_def)

lemma find_first_greatest:
  assumes "find P rs = Some p" "sorted_wrt (\<lambda>a b. f b \<le> (f a :: nat)) rs"
  shows "p \<in> set rs \<and> P p \<and> (\<forall>q\<in>set rs. P q \<longrightarrow> f q \<le> f p)"
  using assms by (induction rs) (auto split: if_splits)

text \<open>The response names the published revision with the highest number.\<close>

lemma suite_response_published:
  assumes "list_ex tvPublished rs"
  shows "\<exists>res p. to_suite_response row (latest_first rs) = Inr res \<and> spPublished res = Some (normalize_mode p)
    \<and> p \<in> set rs \<and> tvPublished p \<and> (\<forall>q\<in>set rs. tvPublished q \<longrightarrow> tvNumber q \<le> tvNumber p)"
proof -
  let ?ls = "latest_first rs"
  obtain x where "x \<in> set ?ls" "tvPublished x" using assms latest_first_facts(1)[of rs] by (auto simp: list_ex_iff)
  then have "find tvPublished ?ls \<noteq> None" unfolding find_None_iff by blast
  then obtain p where p: "find tvPublished ?ls = Some p" by blast
  then obtain b r where "?ls = b # r" by (cases ?ls) simp_all
  then have "\<exists>res. to_suite_response row ?ls = Inr res \<and> spPublished res = Some (normalize_mode p)"
    using p by (simp add: to_suite_response_def del: find.simps)
  then show ?thesis
    using find_first_greatest[OF p latest_first_facts(2)] latest_first_facts(1)[of rs] by metis
qed

definition draft_of_suite :: "string \<Rightarrow> string \<Rightarrow> suite_store \<Rightarrow> bool" where
  "draft_of_suite sid rid s = list_ex (is_draft rid) (suite_revisions sid s)"

lemma publish_suite_quiet:
  assumes "suProjects s pid = Some company" "find_suite pid sid s = Some row" "distinct (map tvId (suRevisions s))"
  shows "case publish_suite_revision pid sid company user rid (quiet s) of
      (Inl e, w) \<Rightarrow> store w = s \<and> \<not> draft_of_suite sid rid s
    | (Inr res, w) \<Rightarrow> draft_of_suite sid rid s \<and> store w = mark_published rid user (suNow s) s
        \<and> (\<exists>p\<in>set (suite_revisions sid (store w)). tvPublished p \<and> spPublished res = Some (normalize_mode p)
            \<and> (\<forall>q\<in>set (suite_revisions sid (store w)). tvPublished q \<longrightarrow> tvNumber q \<le> tvNumber p))"
proof (cases "find (\<lambda>r. tvId r = rid) (suite_revisions sid s)")
  case None
  then have "\<not> draft_of_suite sid rid s" by (auto simp: draft_of_suite_def find_None_iff list_ex_iff is_draft_def)
  with None show ?thesis
    by (simp add: publish_suite_revision_def io_then_def io_bind_def get_suite_quiet[OF assms(1,2)] run_simps)
next
  case (Some r)
  then have r: "r \<in> set (suRevisions s)" "tvId r = rid" "tvSuite r = sid"
    by (auto simp: find_Some_iff suite_revisions_def dest: nth_mem)
  have only: "r1 = r" if "r1 \<in> set (suRevisions s)" "tvId r1 = rid" for r1
    using assms(3) r that by (metis distinct_map inj_on_def)
  show ?thesis
  proof (cases "tvPublished r")
    case True
    then have "\<not> draft_of_suite sid rid s"
      using only by (auto simp: draft_of_suite_def list_ex_iff is_draft_def suite_revisions_def)
    with True Some show ?thesis
      by (simp add: publish_suite_revision_def io_then_def io_bind_def get_suite_quiet[OF assms(1,2)] run_simps)
  next
    case False
    let ?s = "mark_published rid user (suNow s) s"
    have draft: "draft_of_suite sid rid s" "filter (is_draft rid) (suRevisions s) \<noteq> []"
      using r False by (auto simp: draft_of_suite_def list_ex_iff is_draft_def suite_revisions_def filter_empty_conv)
    have same: "suProjects ?s pid = Some company" "find_suite pid sid ?s = Some row"
      using assms(1,2) by (simp_all add: mark_published_def find_suite_def)
    have "r\<lparr>tvPublished := True, tvPublishedBy := Some user, tvPublishedAt := Some (suNow s)\<rparr> \<in> set (suite_revisions sid ?s)"
      using r False by (force simp: suite_revisions_def mark_published_def is_draft_def)
    then have "list_ex tvPublished (suite_revisions sid ?s)" by (force simp: list_ex_iff)
    then obtain res p where res: "to_suite_response row (latest_first (suite_revisions sid ?s)) = Inr res"
      "spPublished res = Some (normalize_mode p)" "p \<in> set (suite_revisions sid ?s)" "tvPublished p"
      "\<forall>q\<in>set (suite_revisions sid ?s). tvPublished q \<longrightarrow> tvNumber q \<le> tvNumber p"
      using suite_response_published by blast
    have "publish_suite_revision pid sid company user rid (quiet s) = (Inr res, quiet ?s)"
      using False Some draft(2) r(2) find_suite_quiet[OF same]
      by (simp add: publish_suite_revision_def io_then_def io_bind_def get_suite_quiet[OF assms(1,2)] run_simps
          publish_draft_def res(1))
    with res draft(1) show ?thesis by auto
  qed
qed

text \<open>
  A publication that nobody interferes with succeeds exactly when the suite has a draft with that id.
  Then that draft is published, every other revision stays as it was, also those published before, and
  the response names the published revision with the highest number, which need not be the one asked
  for.  A refused publication changes nothing.
\<close>
theorem suite_publication_outcome:
  assumes "suProjects s pid = Some company" "find_suite pid sid s = Some row" "distinct (map tvId (suRevisions s))"
  shows "case publish_suite_revision pid sid company user rid (quiet s) of
      (Inl e, w) \<Rightarrow> store w = s \<and> \<not> draft_of_suite sid rid s
    | (Inr res, w) \<Rightarrow> draft_of_suite sid rid s \<and> store w = mark_published rid user (suNow s) s
        \<and> (\<exists>p\<in>set (suite_revisions sid (store w)). tvPublished p \<and> spPublished res = Some (normalize_mode p)
            \<and> (\<forall>q\<in>set (suite_revisions sid (store w)). tvPublished q \<longrightarrow> tvNumber q \<le> tvNumber p))"
  by (rule publish_suite_quiet[OF assms])

text \<open>So going back to an older revision by publishing it changes nothing that is shown.\<close>

lemma older_publication_is_not_shown:
  assumes "suProjects s pid = Some company" "find_suite pid sid s = Some row" "distinct (map tvId (suRevisions s))"
    and "d \<in> set (suite_revisions sid s)" "is_draft rid d"
    and "q \<in> set (suite_revisions sid s)" "tvPublished q" "tvNumber d < tvNumber q"
  shows "\<exists>res w p. publish_suite_revision pid sid company user rid (quiet s) = (Inr res, w)
    \<and> spPublished res = Some p \<and> tvNumber q \<le> tvNumber p \<and> tvId p \<noteq> rid"
proof -
  let ?s = "mark_published rid user (suNow s) s"
  have draft: "draft_of_suite sid rid s" using assms(4,5) by (auto simp: draft_of_suite_def list_ex_iff)
  obtain res w where run: "publish_suite_revision pid sid company user rid (quiet s) = (Inr res, w)"
    using publish_suite_quiet[OF assms(1-3), of rid user] draft
    by (cases "publish_suite_revision pid sid company user rid (quiet s)"; cases "fst (publish_suite_revision pid sid company user rid (quiet s))")
      auto
  have q: "q \<in> set (suite_revisions sid ?s)"
    using assms(6,7) by (force simp: suite_revisions_def mark_published_def is_draft_def)
  obtain p where p: "p \<in> set (suite_revisions sid ?s)" "spPublished res = Some (normalize_mode p)" "tvNumber q \<le> tvNumber p"
    using publish_suite_quiet[OF assms(1-3), of rid user] q assms(7) unfolding run prod.case sum.case
    by (metis (no_types, lifting) run publish_suite_quiet)
  obtain p0 where p0: "p0 \<in> set (suRevisions s)" "tvId p = tvId p0" "tvNumber p = tvNumber p0"
    using p(1) by (auto simp: suite_revisions_def mark_published_def split: if_splits)
  have "tvId p \<noteq> rid"
  proof
    assume "tvId p = rid"
    then have "p0 = d"
      using assms(3-5) p0 by (auto simp: suite_revisions_def is_draft_def distinct_map inj_on_def)
    with p(3) p0(3) assms(8) show False by simp
  qed
  with run p show ?thesis by (auto simp: normalize_mode_def)
qed

section \<open>Examples\<close>

definition sample_revision :: "string \<Rightarrow> nat \<Rightarrow> bool \<Rightarrow> suite_revision" where
  "sample_revision i n pub = \<lparr>tvId = i, tvSuite = ''s1'', tvNumber = n, tvPublished = pub, tvMode = ''RAW_YAML'',
     tvVisual = None, tvYaml = ''a'', tvPlan = None, tvCreatedBy = ''u1'', tvPublishedBy = None, tvPublishedAt = None\<rparr>"

definition sample_suites :: "suite_revision list \<Rightarrow> suite_store" where
  "sample_suites rs = \<lparr>suNow = 5, suProjects = [''p1'' \<mapsto> ''c1''],
     suSuites = [\<lparr>tsId = ''s1'', tsProject = ''p1'', tsName = ''Login'', tsDeletedAt = None\<rparr>], suRevisions = rs\<rparr>"

definition sample_tools :: yaml_tools where
  "sample_tools = \<lparr>ytCollation = code_unit_cmp, ytLoad = (\<lambda>_. Inr None), ytDump = (\<lambda>_. [])\<rparr>"

lemma suite_publication_outcome_witness:
  "\<exists>res w p. publish_suite_revision ''p1'' ''s1'' ''c1'' ''u1'' ''r1''
       (quiet (sample_suites [sample_revision ''r1'' 1 False, sample_revision ''r2'' 2 True])) = (Inr res, w)
     \<and> spPublished res = Some p \<and> tvNumber p = 2"
proof -
  let ?s = "sample_suites [sample_revision ''r1'' 1 False, sample_revision ''r2'' 2 True]"
  let ?run = "publish_suite_revision ''p1'' ''s1'' ''c1'' ''u1'' ''r1'' (quiet ?s)"
  have draft: "draft_of_suite ''s1'' ''r1'' ?s"
    by (simp add: draft_of_suite_def suite_revisions_def is_draft_def sample_suites_def sample_revision_def)
  have ok: "suProjects ?s ''p1'' = Some ''c1''"
    "find_suite ''p1'' ''s1'' ?s = Some \<lparr>tsId = ''s1'', tsProject = ''p1'', tsName = ''Login'', tsDeletedAt = None\<rparr>"
    "distinct (map tvId (suRevisions ?s))"
    by (simp_all add: find_suite_def sample_suites_def sample_revision_def)
  note out = suite_publication_outcome[OF ok, of "''r1''" "''u1''"]
  have revs: "map (\<lambda>r. (tvNumber r, tvPublished r)) (suite_revisions ''s1'' (mark_published ''r1'' ''u1'' (suNow ?s) ?s))
      = [(1, True), (2, True)]"
    by (simp add: suite_revisions_def mark_published_def is_draft_def sample_suites_def sample_revision_def)
  obtain res w where run: "?run = (Inr res, w)"
    using out draft by (cases ?run; cases "fst ?run") auto
  from out have w: "store w = mark_published ''r1'' ''u1'' (suNow ?s) ?s" unfolding run prod.case sum.case by blast
  from out obtain p where p: "p \<in> set (suite_revisions ''s1'' (store w))"
    "spPublished res = Some (normalize_mode p)"
    "\<forall>q\<in>set (suite_revisions ''s1'' (store w)). tvPublished q \<longrightarrow> tvNumber q \<le> tvNumber p"
    unfolding run prod.case sum.case by blast
  have "tvNumber p = 2"
    using p(1,3) revs[folded w] by (auto simp: map_eq_Cons_conv)
  with run p(2) show ?thesis by (auto simp: normalize_mode_def)
qed

lemma revisions_are_a_history_witness:
  "suite_history sample_tools (sample_suites [sample_revision ''r1'' 1 False])
     (store (snd (publish_suite_revision ''p1'' ''s1'' ''c1'' ''u1'' ''r1''
        \<lparr>store = sample_suites [sample_revision ''r1'' 1 False],
         pending = [CallEnv id Done, CallEnv (mark_published ''r1'' ''u2'' 4) Done]\<rparr>)))"
  using revisions_are_a_history[of sample_tools "[CallEnv id Done, CallEnv (mark_published ''r1'' ''u2'' 4) Done]"
      "\<lambda>n. ''r9''" "\<lambda>n. (''s9'', ''r9'')"]
  by (simp add: suite_history_refl mark_published_history)

end
