(* ===== verification/Run_Creation.thy ===== *)
theory Run_Creation
  imports Run_Queue Suite_Props
begin

text \<open>
  Creation of runs (\<open>TestRunsService.create\<close>) with the limits of the company's plan
  (\<open>subscriptions/subscriptions.service.ts\<close>), projects (\<open>projects/projects.service.ts\<close>) and the
  company's profile (\<open>companies/companies.service.ts\<close>).  A run pins the published revisions of the
  suites it will execute.
\<close>

section \<open>Tables\<close>

record subscription_plan =
  plId :: string
  plName :: string
  plMaxProjects :: nat
  plMaxRuns :: nat
  plMaxConcurrent :: nat

record company_row =
  coId :: string
  coName :: string
  coPlan :: string
  coMembers :: nat

record run_snapshot =
  snRun :: string
  snSuite :: string
  snRevision :: string
  snPosition :: nat
  snName :: string

text \<open>
  The tables of the queue and the runs with those the creation of a run reads and writes.  \<open>pfRunIds\<close> and
  \<open>pfProjectIds\<close> are the rows in the order of their creation.
\<close>

record 'q platform = "'q queue_store" +
  pfPlans :: "subscription_plan list"
  pfCompanies :: "company_row list"
  pfProjectIds :: "string list"
  pfRunIds :: "string list"
  pfRunCreated :: "string \<rightharpoonup> int"
  pfRunEnvironment :: "string \<rightharpoonup> string"
  pfSnapshots :: "run_snapshot list"
  pfSuites :: suite_store
  pfEnvironments :: revision_store

type_synonym ('q, 'a) platform_io = "('q platform, 'a) io"
type_synonym ('q, 'a) platform_tx = "('q platform, 'a) tx"

section \<open>The first of the month\<close>

definition ms_per_day :: int where
  "ms_per_day = 86400000"

text \<open>The day of the month, counted from 0, of a day since 1970.\<close>

definition day_of_month :: "int \<Rightarrow> int" where
  "day_of_month day = (case civil_of_days day of (y, m, d) \<Rightarrow> d - 1)"

text \<open>\<open>setUTCDate(1)\<close> and \<open>setUTCHours(0, 0, 0, 0)\<close>\<close>

definition month_start :: "int \<Rightarrow> int" where
  "month_start now = (let day = now div ms_per_day in (day - day_of_month day) * ms_per_day)"

section \<open>Usage and limits\<close>

definition find_company :: "string \<Rightarrow> ('q, 'r) platform_scheme \<Rightarrow> company_row option" where
  "find_company company s = find (\<lambda>c. coId c = company) (pfCompanies s)"

definition plan_of :: "company_row \<Rightarrow> ('q, 'r) platform_scheme \<Rightarrow> subscription_plan option" where
  "plan_of c s = find (\<lambda>p. plId p = coPlan c) (pfPlans s)"

definition company_plan :: "string \<Rightarrow> ('q, 'r) platform_scheme \<Rightarrow> (company_row \<times> subscription_plan) option" where
  "company_plan company s =
     (case find_company company s of None \<Rightarrow> None
      | Some c \<Rightarrow> (case plan_of c s of None \<Rightarrow> None | Some p \<Rightarrow> Some (c, p)))"

definition company_or_throw :: "string \<Rightarrow> ('q, company_row \<times> subscription_plan) platform_io" where
  "company_or_throw company =
     io_call (\<lambda>s. (case company_plan company s of
        None \<Rightarrow> Inl (PlainError ''No Company found'') | Some cp \<Rightarrow> Inr cp, s))"

definition count_projects :: "string \<Rightarrow> ('q, 'r) platform_scheme \<Rightarrow> nat" where
  "count_projects company s = length (filter (\<lambda>i. projectCompany s i = Some company) (pfProjectIds s))"

definition company_run :: "string \<Rightarrow> (test_run \<Rightarrow> bool) \<Rightarrow> 'q platform \<Rightarrow> string \<Rightarrow> bool" where
  "company_run company P s tid =
     (case runs s tid of None \<Rightarrow> False | Some r \<Rightarrow> projectCompany s (projectId r) = Some company \<and> P r)"

definition count_runs_since :: "string \<Rightarrow> int \<Rightarrow> 'q platform \<Rightarrow> nat" where
  "count_runs_since company start s =
     length (filter (\<lambda>i. company_run company (\<lambda>_. True) s i
        \<and> (case pfRunCreated s i of None \<Rightarrow> False | Some t \<Rightarrow> start \<le> t)) (pfRunIds s))"

definition count_active_runs :: "string \<Rightarrow> 'q platform \<Rightarrow> nat" where
  "count_active_runs company s =
     length (filter (company_run company (\<lambda>r. status r \<in> set active_statuses) s) (pfRunIds s))"

definition assert_can_create_project :: "string \<Rightarrow> (('q, 'r) platform_scheme, unit) io" where
  "assert_can_create_project company =
     io_bind (io_call (\<lambda>s. (case company_plan company s of None \<Rightarrow> Inl (PlainError ''No Company found'')
         | Some (c, p) \<Rightarrow> Inr (p, count_projects company s), s))) (\<lambda>(p, n).
     if n \<ge> plMaxProjects p
     then io_throw (ConflictException ''Project limit reached for current subscription plan'') else io_return ())"

text \<open>The three queries of \<open>Promise.all\<close> start at once; the answers come one by one.\<close>

definition assert_can_start_run :: "string \<Rightarrow> string \<Rightarrow> ('q, unit) platform_io" where
  "assert_can_start_run pid company =
     io_bind (company_or_throw company) (\<lambda>(_, p).
     io_bind (io_peek clock) (\<lambda>now.
     io_bind (io_read (count_runs_since company (month_start now))) (\<lambda>monthly.
     io_bind (io_read (count_active_runs company)) (\<lambda>concurrent.
     io_then (io_call (\<lambda>s. (if projectCompany s pid = Some company then Inr ()
         else Inl (PlainError ''No Project found''), s)))
     (if monthly \<ge> plMaxRuns p
      then io_throw (ConflictException ''Monthly test run limit reached for current subscription plan'')
      else if concurrent \<ge> plMaxConcurrent p
      then io_throw (ConflictException ''Concurrent test run limit reached for current subscription plan'')
      else io_return ())))))"

record plan_usage =
  usProjects :: nat
  usRuns :: nat
  usConcurrent :: nat

definition get_usage :: "string \<Rightarrow> ('q, plan_usage) platform_io" where
  "get_usage company =
     io_bind (io_peek clock) (\<lambda>now.
     io_bind (io_read (count_projects company)) (\<lambda>projects.
     io_bind (io_read (count_runs_since company (month_start now))) (\<lambda>monthly.
     io_bind (io_read (count_active_runs company)) (\<lambda>concurrent.
     io_return \<lparr>usProjects = projects, usRuns = monthly, usConcurrent = concurrent\<rparr>))))"

definition assert_usage_fits_plan :: "subscription_plan \<Rightarrow> plan_usage \<Rightarrow> js_error + unit" where
  "assert_usage_fits_plan p u =
     (if usProjects u > plMaxProjects p
      then Inl (ConflictException (''Current project usage exceeds the '' @ plName p @ '' plan limit''))
      else if usRuns u > plMaxRuns p
      then Inl (ConflictException (''Current monthly run usage exceeds the '' @ plName p @ '' plan limit''))
      else if usConcurrent u > plMaxConcurrent p
      then Inl (ConflictException (''Current concurrent run usage exceeds the '' @ plName p @ '' plan limit''))
      else Inr ())"

record company_profile =
  cpCompany :: company_row
  cpPlan :: subscription_plan
  cpUsage :: plan_usage

definition get_me :: "string \<Rightarrow> ('q, company_profile) platform_io" where
  "get_me company =
     io_bind (io_peek clock) (\<lambda>now.
     io_bind (io_call (\<lambda>s. (case company_plan company s of None \<Rightarrow> Inl (PlainError ''No Company found'')
         | Some (c, p) \<Rightarrow> Inr (c, p, count_projects company s), s))) (\<lambda>(c, p, projects).
     io_bind (io_read (count_runs_since company (month_start now))) (\<lambda>monthly.
     io_bind (io_read (count_active_runs company)) (\<lambda>concurrent.
     io_return \<lparr>cpCompany = c, cpPlan = p,
       cpUsage = \<lparr>usProjects = projects, usRuns = monthly, usConcurrent = concurrent\<rparr>\<rparr>))))"

definition has_company :: "string \<Rightarrow> 'q platform \<Rightarrow> bool" where
  "has_company company s = list_ex (\<lambda>c. coId c = company) (pfCompanies s)"

definition update_company :: "string \<Rightarrow> (company_row \<Rightarrow> company_row) \<Rightarrow> ('q, unit) platform_io" where
  "update_company company f =
     io_call (\<lambda>s. if has_company company s
       then (Inr (), s\<lparr>pfCompanies := map (\<lambda>c. if coId c = company then f c else c) (pfCompanies s)\<rparr>)
       else (Inl p2025, s))"

definition update_me :: "string \<Rightarrow> string option \<Rightarrow> ('q, company_profile) platform_io" where
  "update_me company name =
     io_then (update_company company (\<lambda>c. case name of None \<Rightarrow> c | Some n \<Rightarrow> c\<lparr>coName := n\<rparr>)) (get_me company)"

definition change_plan :: "string \<Rightarrow> string \<Rightarrow> ('q, company_profile) platform_io" where
  "change_plan company name =
     io_bind (io_call (\<lambda>s. (case find_company company s of None \<Rightarrow> Inl (PlainError ''No Company found'')
         | Some c \<Rightarrow> Inr c, s))) (\<lambda>c.
     io_bind (io_read (\<lambda>s. find (\<lambda>p. plName p = name) (pfPlans s))) (\<lambda>target.
     io_bind (get_usage company) (\<lambda>usage.
     case target of
       None \<Rightarrow> io_throw (NotFoundException ''Subscription plan not found'')
     | Some p \<Rightarrow>
         if coPlan c = plId p then get_me company
         else io_then (io_lift (assert_usage_fits_plan p usage))
           (io_then (update_company company (\<lambda>c. c\<lparr>coPlan := plId p\<rparr>)) (get_me company)))))"

definition create_project :: "string \<Rightarrow> string \<Rightarrow> ('q, string) platform_io" where
  "create_project pid company =
     io_then (assert_can_create_project company)
       (io_call (\<lambda>s. (Inr pid, s\<lparr>projectCompany := (projectCompany s)(pid \<mapsto> company),
          pfProjectIds := pfProjectIds s @ [pid]\<rparr>)))"

section \<open>Creation of a run\<close>

definition published_environment :: "string \<Rightarrow> 'q platform \<Rightarrow> env_revision option" where
  "published_environment pid s =
     (case find_config pid (pfEnvironments s) of None \<Rightarrow> None
      | Some c \<Rightarrow> (case newest_first (filter rvPublished (revisions_of (cgId c) (pfEnvironments s))) of
          [] \<Rightarrow> None | r # _ \<Rightarrow> Some r))"

definition requested_environment :: "string \<Rightarrow> string \<Rightarrow> 'q platform \<Rightarrow> env_revision option" where
  "requested_environment pid rid s =
     (case find_config pid (pfEnvironments s) of None \<Rightarrow> None
      | Some c \<Rightarrow> find (\<lambda>r. rvId r = rid) (revisions_of (cgId c) (pfEnvironments s)))"

text \<open>A suite with its newest published revision.\<close>

definition newest_published :: "string \<Rightarrow> suite_store \<Rightarrow> suite_revision option" where
  "newest_published sid s =
     (case latest_first (filter tvPublished (suite_revisions sid s)) of [] \<Rightarrow> None | r # _ \<Rightarrow> Some r)"

definition suites_to_run :: "string \<Rightarrow> 'q platform \<Rightarrow> (suite_row \<times> suite_revision option) list" where
  "suites_to_run pid s =
     map (\<lambda>r. (r, newest_published (tsId r) (pfSuites s))) (live_suites pid (pfSuites s))"

definition created_run :: "string \<Rightarrow> string \<Rightarrow> test_run" where
  "created_run tid pid =
     \<lparr>runId = tid, projectId = pid, status = CREATED, statusReason = None, failureCategory = None,
      currentPhase = None, phaseTimestamps = None, queueJobId = Some (job_id tid), queuedAt = None,
      enqueuedAt = None, claimedAt = None, cancellationRequestedAt = None, cancelRequestedAt = None,
      cancelRequestedBy = None, cancellationReason = None, runnerId = None, leaseAcquiredAt = None,
      leaseExpiresAt = None, heartbeatAt = None, attempt = 0, cleanupError = None, startedAt = None,
      finishedAt = None, totalTests = 0, passedTests = 0, failedTests = 0, durationMs = None,
      errorMessage = None, executionMetadata = []\<rparr>"

definition snapshots_of :: "string \<Rightarrow> (suite_row \<times> suite_revision) list \<Rightarrow> run_snapshot list" where
  "snapshots_of tid rows =
     map (\<lambda>((r, v), n). \<lparr>snRun = tid, snSuite = tsId r, snRevision = tvId v, snPosition = n, snName = tsName r\<rparr>)
       (indexed 0 rows)"

definition insert_run ::
    "string \<Rightarrow> string \<Rightarrow> string \<Rightarrow> (suite_row \<times> suite_revision) list \<Rightarrow> int \<Rightarrow> 'q platform \<Rightarrow> 'q platform" where
  "insert_run tid pid env rows now s =
     s\<lparr>runs := (runs s)(tid \<mapsto> created_run tid pid), pfRunIds := pfRunIds s @ [tid],
       pfRunCreated := (pfRunCreated s)(tid \<mapsto> now), pfRunEnvironment := (pfRunEnvironment s)(tid \<mapsto> env),
       pfSnapshots := pfSnapshots s @ snapshots_of tid rows\<rparr>"

definition choose_environment :: "string \<Rightarrow> string option \<Rightarrow> ('q, env_revision) platform_tx" where
  "choose_environment pid requested =
     tx_bind (tx_read (\<lambda>s. if truthy_str requested then None else published_environment pid s)) (\<lambda>current.
     tx_bind (if truthy_str requested then tx_read (requested_environment pid (the requested)) else tx_return current) (\<lambda>found.
     tx_lift (case found of
         Some r \<Rightarrow> Inr r
       | None \<Rightarrow> if truthy_str requested then Inl (NotFoundException ''Environment config revision not found'')
           else Inl (BadRequestException ''Published environment config revision is required before running tests''))))"

definition choose_suites :: "string \<Rightarrow> ('q, (suite_row \<times> suite_revision) list) platform_tx" where
  "choose_suites pid =
     tx_bind (tx_read (suites_to_run pid)) (\<lambda>suites.
     tx_lift (if suites = []
       then Inl (BadRequestException ''At least one active test suite is required before running tests'')
       else if list_ex (\<lambda>(_, v). v = None) suites
       then Inl (BadRequestException ''All active test suites must have a published revision before running tests'')
       else Inr (map (\<lambda>(r, v). (r, the v)) suites)))"

definition create_run_tx :: "string \<Rightarrow> string \<Rightarrow> string option \<Rightarrow> ('q, unit) platform_tx" where
  "create_run_tx tid pid requested =
     tx_bind (choose_environment pid requested) (\<lambda>env.
     tx_bind (choose_suites pid) (\<lambda>rows.
     tx_statement (\<lambda>s. Inr ((), \<lambda>t. Inr (insert_run tid pid (rvId env) rows (clock s) t)))))"

definition create_run ::
    "'q job_queue \<Rightarrow> string \<Rightarrow> string \<Rightarrow> string \<Rightarrow> string option \<Rightarrow> ('q, test_run) platform_io" where
  "create_run api tid pid company requested =
     io_then (get_project_or_throw pid company)
     (io_then (assert_can_start_run pid company)
     (io_then (transaction (create_run_tx tid pid requested))
       (enqueue_created api pid tid company)))"

section \<open>Projects\<close>

text \<open>What the database removes with a project is a parameter.\<close>

definition find_project :: "string \<Rightarrow> string \<Rightarrow> ('q, unit) platform_io" where
  "find_project company pid =
     io_bind (io_read (\<lambda>s. projectCompany s pid = Some company)) (\<lambda>found.
     if found then io_return () else io_throw (NotFoundException ''Project not found''))"

definition remove_project ::
    "(string \<Rightarrow> 'q platform \<Rightarrow> js_error + 'q platform) \<Rightarrow> string \<Rightarrow> string \<Rightarrow> ('q, unit) platform_io" where
  "remove_project del company pid =
     io_then (find_project company pid)
       (io_call (\<lambda>s. case del pid s of Inl e \<Rightarrow> (Inl e, s) | Inr t \<Rightarrow> (Inr (), t)))"

section \<open>Listings\<close>

definition list_plans :: "('q, subscription_plan list) platform_io" where
  "list_plans = io_read (\<lambda>s. sort_key plMaxProjects (pfPlans s))"

definition list_projects :: "string \<Rightarrow> nat \<Rightarrow> nat \<Rightarrow> ('q, string result_page) platform_io" where
  "list_projects company page limit =
     io_bind (io_read (\<lambda>s. page_slice page limit
        (rev (filter (\<lambda>i. projectCompany s i = Some company) (pfProjectIds s))))) (\<lambda>rows.
     io_bind (io_read (count_projects company)) (\<lambda>n.
     io_return (page_result page limit rows n)))"

definition runs_of_project :: "string \<Rightarrow> 'q platform \<Rightarrow> test_run list" where
  "runs_of_project pid s =
     filter (\<lambda>r. projectId r = pid) (List.map_filter (runs s) (pfRunIds s))"

definition list_runs :: "string \<Rightarrow> string \<Rightarrow> nat \<Rightarrow> nat \<Rightarrow> ('q, test_run result_page) platform_io" where
  "list_runs pid company page limit =
     io_then (get_project_or_throw pid company)
     (io_bind (io_read (\<lambda>s. page_slice page limit (rev (runs_of_project pid s)))) (\<lambda>rows.
      io_bind (io_read (\<lambda>s. length (runs_of_project pid s))) (\<lambda>n.
      io_return (page_result page limit rows n))))"

end
