(* ===== verification/Creation_Props.thy ===== *)
theory Creation_Props
  imports Run_Creation Queue_Props
begin

text \<open>
  A run pins published revisions, whatever other clients do while it is created; the limits of a plan hold
  as long as requests come one at a time.
\<close>

section \<open>Pinned revisions\<close>

definition pins :: "suite_store \<Rightarrow> run_snapshot \<Rightarrow> bool" where
  "pins s sn = list_ex (\<lambda>r. tvId r = snRevision sn \<and> tvSuite r = snSuite sn \<and> tvPublished r) (suRevisions s)"

text \<open>The others keep the history of the suites, and pin published revisions too.\<close>

definition pinned_step :: "yaml_tools \<Rightarrow> 'q platform \<Rightarrow> 'q platform \<Rightarrow> bool" where
  "pinned_step yt s t =
     (suite_history yt (pfSuites s) (pfSuites t)
      \<and> list_all (\<lambda>sn. sn \<in> set (pfSnapshots s) \<or> pins (pfSuites t) sn) (pfSnapshots t))"

lemma history_keeps_published:
  assumes "suite_history yt s t" "r \<in> set (suRevisions s)" "tvPublished r"
  shows "r \<in> set (suRevisions t)"
proof -
  obtain rs new where t: "suRevisions t = rs @ new" "list_all2 later (suRevisions s) rs"
    using assms(1) unfolding suite_history_iff by blast
  obtain i where "i < length (suRevisions s)" "suRevisions s ! i = r" using assms(2) by (auto simp: in_set_conv_nth)
  with t(2) have "later r (rs ! i)" "rs ! i \<in> set rs" by (auto simp: list_all2_conv_all_nth)
  with later_same(8)[of r "rs ! i"] assms(3) t(1) show ?thesis by auto
qed

lemma pins_stay: "pins s sn \<Longrightarrow> suite_history yt s t \<Longrightarrow> pins t sn"
  using history_keeps_published by (fastforce simp: pins_def list_ex_iff)

interpretation creation: step_relation "pinned_step yt"
proof
  show "pinned_step yt s s" for s
    by (simp add: pinned_step_def suite_history_refl list_all_iff)
  show "pinned_step yt s u" if st: "pinned_step yt s t" and tu: "pinned_step yt t u" for s t u
  proof -
    have h: "suite_history yt (pfSuites s) (pfSuites u)"
      using st tu suite_history_trans unfolding pinned_step_def by blast
    moreover have "sn \<in> set (pfSnapshots s) \<or> pins (pfSuites u) sn" if "sn \<in> set (pfSnapshots u)" for sn
      using that st tu pins_stay unfolding pinned_step_def list_all_iff by blast
    ultimately show ?thesis by (simp add: pinned_step_def list_all_iff)
  qed
qed

lemma same_snapshots:
  "pfSuites t = pfSuites s \<Longrightarrow> pfSnapshots t = pfSnapshots s \<Longrightarrow> pinned_step yt s t"
  by (simp add: pinned_step_def suite_history_refl list_all_iff)

definition rows_pinned :: "(suite_row \<times> suite_revision) list \<Rightarrow> 'q platform \<Rightarrow> bool" where
  "rows_pinned rows s =
     list_all (\<lambda>(r, v). v \<in> set (suRevisions (pfSuites s)) \<and> tvSuite v = tsId r \<and> tvPublished v) rows"

lemma newest_published_facts:
  assumes "newest_published sid s = Some v"
  shows "v \<in> set (suRevisions s)" "tvSuite v = sid" "tvPublished v"
    "q \<in> set (suRevisions s) \<Longrightarrow> tvSuite q = sid \<Longrightarrow> tvPublished q \<Longrightarrow> tvNumber q \<le> tvNumber v"
proof -
  let ?ls = "latest_first (filter tvPublished (suite_revisions sid s))"
  obtain rest where ls: "?ls = v # rest" using assms by (auto simp: newest_published_def split: list.splits)
  have elems: "set ?ls = set (filter tvPublished (suite_revisions sid s))" by (rule latest_first_facts)
  have "v \<in> set ?ls" by (simp add: ls)
  then have "v \<in> set (filter tvPublished (suite_revisions sid s))" unfolding elems .
  then show "v \<in> set (suRevisions s)" "tvSuite v = sid" "tvPublished v" by (auto simp: suite_revisions_def)
  show "q \<in> set (suRevisions s) \<Longrightarrow> tvSuite q = sid \<Longrightarrow> tvPublished q \<Longrightarrow> tvNumber q \<le> tvNumber v"
  proof -
    assume "q \<in> set (suRevisions s)" "tvSuite q = sid" "tvPublished q"
    then have "q \<in> set ?ls" unfolding elems by (simp add: suite_revisions_def)
    with latest_first_facts(2)[of "filter tvPublished (suite_revisions sid s)"] show ?thesis by (auto simp: ls)
  qed
qed

lemma chosen_rows_pinned:
  assumes "rows = map (\<lambda>(r, v). (r, the v)) (suites_to_run pid s)" "\<not> list_ex (\<lambda>(_, v). v = None) (suites_to_run pid s)"
  shows "rows_pinned rows s"
  using assms newest_published_facts(1-3)
  by (fastforce simp: rows_pinned_def list_all_iff list_ex_iff suites_to_run_def)

lemma choose_suites_reads: "tx_reads (pinned_step yt) pre (choose_suites pid) rows_pinned"
  unfolding choose_suites_def
  by (rule creation.tx_reads_bind[OF creation.tx_reads_read], rule creation.tx_reads_lift)
    (auto split: if_splits intro: chosen_rows_pinned)

lemma choose_environment_reads: "tx_reads (pinned_step yt) pre (choose_environment pid requested) (\<lambda>_ _. True)"
  unfolding choose_environment_def
  by (intro creation.tx_reads_bind[OF creation.tx_reads_weaken[OF creation.tx_reads_read]]
      creation.tx_reads_bind[where mid = "\<lambda>_ _. True"] creation.tx_reads_lift)
    (auto intro: creation.tx_reads_weaken[OF creation.tx_reads_read] creation.tx_reads_return)

lemma rows_pinned_stay: "rows_pinned rows s \<Longrightarrow> pinned_step yt s t \<Longrightarrow> rows_pinned rows t"
  unfolding rows_pinned_def pinned_step_def list_all_iff using history_keeps_published by blast

lemma indexed_elems: "(x, n) \<in> set (indexed k xs) \<Longrightarrow> x \<in> set xs"
  by (induction xs arbitrary: k) auto

lemma insert_run_pins:
  assumes "rows_pinned rows s"
  shows "pinned_step yt s (insert_run tid pid env rows now s)"
proof -
  have "pins (pfSuites s) sn" if "sn \<in> set (snapshots_of tid rows)" for sn
    using that assms indexed_elems
    by (fastforce simp: snapshots_of_def pins_def rows_pinned_def list_all_iff list_ex_iff)
  then show ?thesis by (auto simp: pinned_step_def insert_run_def suite_history_refl list_all_iff)
qed

definition run_choices :: "string \<Rightarrow> string option \<Rightarrow> ('q, env_revision \<times> (suite_row \<times> suite_revision) list) platform_tx" where
  "run_choices pid requested =
     tx_bind (choose_environment pid requested) (\<lambda>env. tx_bind (choose_suites pid) (\<lambda>rows. tx_return (env, rows)))"

lemma create_run_tx_choices:
  "create_run_tx tid pid requested = tx_bind (run_choices pid requested)
     (\<lambda>p. tx_statement (\<lambda>s. Inr ((), \<lambda>t. Inr (insert_run tid pid (rvId (fst p)) (snd p) (clock s) t))))"
  by (intro ext) (simp add: create_run_tx_def run_choices_def tx_bind_def tx_return_def split: prod.splits sum.splits)

lemma run_choices_reads:
  "tx_reads (pinned_step yt) pre (run_choices pid requested) (\<lambda>p. rows_pinned (snd p))"
  unfolding run_choices_def
  by (rule creation.tx_reads_bind[OF choose_environment_reads], rule creation.tx_reads_bind[OF choose_suites_reads])
    (rule creation.tx_reads_return, simp)

lemma create_run_tx_pins: "upholds (pinned_step yt) (transaction (create_run_tx tid pid requested))"
  unfolding create_run_tx_choices
proof (rule creation.upholds_read_then_write[OF run_choices_reads])
  show "rows_pinned (snd p) s \<Longrightarrow> pinned_step yt s t \<Longrightarrow> rows_pinned (snd p) t" for p s t
    by (rule rows_pinned_stay)
  show "rows_pinned (snd p) s \<Longrightarrow> pinned_step yt s (insert_run tid pid (rvId (fst p)) (snd p) now s)" for p s now
    by (rule insert_run_pins)
qed

lemma run_table_pins:
  assumes "\<And>s. pfSuites (snd (f s)) = pfSuites s" "\<And>s. pfSnapshots (snd (f s)) = pfSnapshots s"
  shows "upholds (pinned_step yt) (io_call f)"
  by (rule creation.upholds_call) (simp add: same_snapshots assms)

lemma state_call_pins:
  "upholds (pinned_step yt) (find_run_or_throw tid)"
  "upholds (pinned_step yt) (update_many tid cond upd)"
  "upholds (pinned_step yt) (get_project_or_throw pid company)"
  "upholds (pinned_step yt) (add_job api tid)"
  "upholds (pinned_step yt) (company_or_throw company)"
  unfolding find_run_or_throw_def update_many_def get_project_or_throw_def add_job_def company_or_throw_def
  by (rule run_table_pins; simp add: update_row_def split: option.splits)+

lemma upholds_branch: "upholds R m \<Longrightarrow> upholds R k \<Longrightarrow> upholds R (if b then m else k)"
  by simp

lemma upholds_maybe: "upholds R m \<Longrightarrow> (\<And>x. upholds R (k x)) \<Longrightarrow> upholds R (case v of None \<Rightarrow> m | Some x \<Rightarrow> k x)"
  by (cases v) simp_all

lemmas pin_rules = creation.upholds_rules state_call_pins upholds_branch upholds_maybe

lemma enqueue_created_pins: "upholds (pinned_step yt) (enqueue_created api pid tid company)"
proof -
  have find: "upholds (pinned_step yt) (find_project_run pid tid company)"
    unfolding find_project_run_def by (intro pin_rules run_table_pins) simp_all
  have fail: "upholds (pinned_step yt) (mark_infra_failed tid INTERNAL reason None)" for reason
    unfolding mark_infra_failed_def transition_def find_run_def by (intro pin_rules)
  have queue: "upholds (pinned_step yt) (enqueue api tid)"
    unfolding enqueue_def get_queue_state_def mark_queued_if_created_def find_run_def Let_def by (intro pin_rules)
  show ?thesis
    unfolding enqueue_created_def by (intro pin_rules find fail queue)
qed

lemma create_run_pins: "upholds (pinned_step yt) (create_run api tid pid company requested)"
proof -
  have "upholds (pinned_step yt) (assert_can_start_run pid company)"
    unfolding assert_can_start_run_def case_prod_unfold by (intro pin_rules run_table_pins) simp_all
  then show ?thesis
    unfolding create_run_def by (intro pin_rules create_run_tx_pins enqueue_created_pins)
qed


section \<open>Creation alone\<close>

lemma project_quiet:
  "projectCompany s pid = Some company \<Longrightarrow> get_project_or_throw pid company (quiet s) = (Inr (), quiet s)"
  by (simp add: get_project_or_throw_def run_simps)

text \<open>What the creation needs: room in the plan, an environment and published suites.\<close>

definition room_for_run :: "string \<Rightarrow> 'q platform \<Rightarrow> bool" where
  "room_for_run company s =
     (case company_plan company s of None \<Rightarrow> False
      | Some (_, p) \<Rightarrow> count_runs_since company (month_start (clock s)) s < plMaxRuns p
          \<and> count_active_runs company s < plMaxConcurrent p)"

definition chosen_environment :: "string \<Rightarrow> string option \<Rightarrow> 'q platform \<Rightarrow> env_revision option" where
  "chosen_environment pid requested s =
     (if truthy_str requested then requested_environment pid (the requested) s else published_environment pid s)"

definition suites_ready :: "string \<Rightarrow> 'q platform \<Rightarrow> bool" where
  "suites_ready pid s = (suites_to_run pid s \<noteq> [] \<and> list_all (\<lambda>(_, v). v \<noteq> None) (suites_to_run pid s))"

definition pinned_rows :: "string \<Rightarrow> 'q platform \<Rightarrow> (suite_row \<times> suite_revision) list" where
  "pinned_rows pid s = map (\<lambda>(r, v). (r, the v)) (suites_to_run pid s)"

lemma assert_can_start_quiet:
  assumes "projectCompany s pid = Some company"
  shows "\<exists>r. assert_can_start_run pid company (quiet s) = (r, quiet s) \<and> (r = Inr () \<longleftrightarrow> room_for_run company s)"
proof (cases "company_plan company s")
  case None
  then show ?thesis
    by (simp add: assert_can_start_run_def company_or_throw_def io_bind_def run_simps room_for_run_def)
next
  case (Some cp)
  then show ?thesis
    using assms by (cases cp) (auto simp: assert_can_start_run_def company_or_throw_def io_bind_def io_then_def
        run_simps room_for_run_def not_le)
qed

lemma create_run_tx_quiet:
  "transaction (create_run_tx tid pid requested) (quiet s) =
     (case chosen_environment pid requested s of
        None \<Rightarrow> (Inl (if truthy_str requested then NotFoundException ''Environment config revision not found''
            else BadRequestException ''Published environment config revision is required before running tests''), quiet s)
      | Some env \<Rightarrow>
          if suites_to_run pid s = []
          then (Inl (BadRequestException ''At least one active test suite is required before running tests''), quiet s)
          else if \<not> suites_ready pid s
          then (Inl (BadRequestException ''All active test suites must have a published revision before running tests''), quiet s)
          else (Inr (), quiet (insert_run tid pid (rvId env) (pinned_rows pid s) (clock s) s)))"
proof -
  have read: "tx_read g Inr (quiet t) = (Inr (g t, Inr), quiet t)" for g :: "'q platform \<Rightarrow> 'x" and t
    by (simp add: tx_read_def tx_statement_def io_call_quiet)
  have env: "choose_environment pid requested Inr (quiet s) = (case chosen_environment pid requested s of
        None \<Rightarrow> (Inl (if truthy_str requested then NotFoundException ''Environment config revision not found''
            else BadRequestException ''Published environment config revision is required before running tests''), quiet s)
      | Some env \<Rightarrow> (Inr (env, Inr), quiet s))"
    by (simp add: choose_environment_def tx_bind_def read tx_return_def tx_lift_def chosen_environment_def split: option.splits)
  have suites: "choose_suites pid Inr (quiet s) =
      (if suites_to_run pid s = []
       then (Inl (BadRequestException ''At least one active test suite is required before running tests''), quiet s)
       else if \<not> suites_ready pid s
       then (Inl (BadRequestException ''All active test suites must have a published revision before running tests''), quiet s)
       else (Inr (pinned_rows pid s, Inr), quiet s))"
    by (auto simp: choose_suites_def tx_bind_def read tx_lift_def suites_ready_def pinned_rows_def list_all_iff list_ex_iff)
  show ?thesis
    unfolding create_run_tx_def transaction_def
    by (simp add: tx_bind_def env suites tx_statement_def io_call_quiet split: option.splits)
qed

lemma enqueue_created_quiet:
  assumes "runs s tid = Some r" "recoverable r" "status r = CREATED" "projectId r = pid" "projectCompany s pid = Some company"
  shows "enqueue_created api pid tid company (quiet s) = (Inr (queued_row tid (clock s) r),
     quiet (s\<lparr>runs := (runs s)(tid \<mapsto> queued_row tid (clock s) r), queue := queue_add api (job_id tid) tid (queue s)\<rparr>))"
proof -
  have "projectId (queued_row tid (clock s) r) = pid"
    using assms(4) by (simp add: queued_row_def queued_data_def cleared_lease_def)
  then show ?thesis
    using assms by (simp add: enqueue_created_def io_bind_def io_then_def io_catch_def enqueue_quiet io_return_def
        find_project_run_def project_quiet io_call_quiet)
qed

definition queued_run :: "'q job_queue \<Rightarrow> string \<Rightarrow> string \<Rightarrow> string \<Rightarrow> 'q platform \<Rightarrow> 'q platform" where
  "queued_run api tid pid env s =
     (let t = insert_run tid pid env (pinned_rows pid s) (clock s) s in
      t\<lparr>runs := (runs t)(tid \<mapsto> queued_row tid (clock s) (created_run tid pid)),
        queue := queue_add api (job_id tid) tid (queue t)\<rparr>)"

definition run_possible :: "string \<Rightarrow> string \<Rightarrow> string option \<Rightarrow> 'q platform \<Rightarrow> bool" where
  "run_possible pid company requested s =
     (room_for_run company s \<and> chosen_environment pid requested s \<noteq> None \<and> suites_ready pid s)"

lemma create_run_quiet:
  assumes "projectCompany s pid = Some company"
  shows "if run_possible pid company requested s
    then create_run api tid pid company requested (quiet s) = (Inr (queued_row tid (clock s) (created_run tid pid)),
      quiet (queued_run api tid pid (rvId (the (chosen_environment pid requested s))) s))
    else \<exists>e. create_run api tid pid company requested (quiet s) = (Inl e, quiet s)"
proof -
  obtain r where start: "assert_can_start_run pid company (quiet s) = (r, quiet s)" "r = Inr () \<longleftrightarrow> room_for_run company s"
    using assert_can_start_quiet[OF assms] by blast
  have row: "recoverable (created_run tid pid)" "status (created_run tid pid) = CREATED" "projectId (created_run tid pid) = pid"
    by (simp_all add: created_run_def recoverable_def)
  note run = create_run_def io_then_def io_bind_def project_quiet[OF assms] start(1)
  show ?thesis
  proof (cases "room_for_run company s")
    case False
    with start(2) show ?thesis by (cases r) (simp_all add: run run_possible_def)
  next
    case True
    then have r: "r = Inr ()" using start(2) by simp
    show ?thesis
    proof (cases "chosen_environment pid requested s")
      case None
      then show ?thesis by (simp add: run r create_run_tx_quiet run_possible_def)
    next
      case (Some env)
      let ?t = "insert_run tid pid (rvId env) (pinned_rows pid s) (clock s) s"
      have "runs ?t tid = Some (created_run tid pid)" "projectCompany ?t pid = Some company" "clock ?t = clock s"
        using assms by (simp_all add: insert_run_def)
      note queue = enqueue_created_quiet[OF this(1) row this(2), of api, unfolded this(3)]
      show ?thesis
        using Some True queue by (simp add: run r create_run_tx_quiet run_possible_def suites_ready_def queued_run_def Let_def)
    qed
  qed
qed

text \<open>
  C29: Alone, a run is created exactly when the company's plan has room for it, the requested environment
  revision exists (or, when none is requested, one is published), and the project has active suites, all of
  them with a published revision.  Then it is queued, runs in that environment and pins for each active
  suite, in the order of their creation, its published revision with the highest number.  Otherwise
  nothing has changed.
\<close>
theorem run_creation_outcome:
  assumes "projectCompany s pid = Some company"
  shows "case create_run api tid pid company requested (quiet s) of
      (Inl e, w) \<Rightarrow> store w = s \<and> \<not> run_possible pid company requested s
    | (Inr r, w) \<Rightarrow> run_possible pid company requested s \<and> status r = QUEUED \<and> runs (store w) tid = Some r
        \<and> pfRunEnvironment (store w) tid = map_option rvId (chosen_environment pid requested s)
        \<and> (\<exists>rows. map fst rows = live_suites pid (pfSuites s)
            \<and> pfSnapshots (store w) = pfSnapshots s @ snapshots_of tid rows
            \<and> (\<forall>(row, v)\<in>set rows. v \<in> set (suite_revisions (tsId row) (pfSuites s)) \<and> tvPublished v
                \<and> (\<forall>q\<in>set (suite_revisions (tsId row) (pfSuites s)). tvPublished q \<longrightarrow> tvNumber q \<le> tvNumber v)))"
proof (cases "run_possible pid company requested s")
  case False
  with create_run_quiet[OF assms, of requested api tid] show ?thesis by auto
next
  case True
  then obtain env where env: "chosen_environment pid requested s = Some env" by (auto simp: run_possible_def)
  have "list_all (\<lambda>(_, v). v \<noteq> None) (suites_to_run pid s)" using True by (simp add: run_possible_def suites_ready_def)
  then have rows: "\<forall>(row, v)\<in>set (pinned_rows pid s). newest_published (tsId row) (pfSuites s) = Some v"
    by (fastforce simp: pinned_rows_def suites_to_run_def list_all_iff)
  have "\<forall>(row, v)\<in>set (pinned_rows pid s). v \<in> set (suite_revisions (tsId row) (pfSuites s)) \<and> tvPublished v
      \<and> (\<forall>q\<in>set (suite_revisions (tsId row) (pfSuites s)). tvPublished q \<longrightarrow> tvNumber q \<le> tvNumber v)"
  proof (clarify)
    fix row v assume "(row, v) \<in> set (pinned_rows pid s)"
    then have n: "newest_published (tsId row) (pfSuites s) = Some v" using rows by blast
    show "v \<in> set (suite_revisions (tsId row) (pfSuites s)) \<and> tvPublished v
        \<and> (\<forall>q\<in>set (suite_revisions (tsId row) (pfSuites s)). tvPublished q \<longrightarrow> tvNumber q \<le> tvNumber v)"
      using newest_published_facts(1-3)[OF n] newest_published_facts(4)[OF n] by (simp add: suite_revisions_def)
  qed
  moreover have "map fst (pinned_rows pid s) = live_suites pid (pfSuites s)"
    by (simp add: pinned_rows_def suites_to_run_def comp_def case_prod_unfold)
  ultimately show ?thesis
    using True create_run_quiet[OF assms, of requested api tid]
    by (auto simp: queued_run_def insert_run_def Let_def env intro!: exI[of _ "pinned_rows pid s"])
qed

section \<open>Limits\<close>

definition within_plan :: "string \<Rightarrow> 'q platform \<Rightarrow> bool" where
  "within_plan company s =
     (case company_plan company s of None \<Rightarrow> True
      | Some (_, p) \<Rightarrow> count_projects company s \<le> plMaxProjects p
          \<and> count_runs_since company (month_start (clock s)) s \<le> plMaxRuns p
          \<and> count_active_runs company s \<le> plMaxConcurrent p)"

lemma month_day_bounds:
  fixes doy :: int
  shows "0 \<le> doy - (153 * ((5 * doy + 2) div 153) + 2) div 5"
    and "doy - (153 * ((5 * doy + 2) div 153) + 2) div 5 \<le> 30"
proof -
  define q where "q = (5 * doy + 2) div 153"
  define r where "r = (153 * q + 2) div 5"
  have "5 * doy + 2 = 153 * q + (5 * doy + 2) mod 153" "153 * q + 2 = 5 * r + (153 * q + 2) mod 5"
    unfolding q_def r_def by (rule mult_div_mod_eq[symmetric])+
  moreover have "0 \<le> (5 * doy + 2) mod 153" "(5 * doy + 2) mod 153 < 153" "0 \<le> (153 * q + 2) mod 5" "(153 * q + 2) mod 5 < 5"
    by simp_all
  ultimately have "0 \<le> doy - r" "doy - r \<le> 30" by linarith+
  then show "0 \<le> doy - (153 * ((5 * doy + 2) div 153) + 2) div 5"
    "doy - (153 * ((5 * doy + 2) div 153) + 2) div 5 \<le> 30"
    unfolding q_def r_def .
qed

lemma day_of_month_bounds: "0 \<le> day_of_month day" "day_of_month day \<le> 30"
  unfolding day_of_month_def civil_of_days_def Let_def prod.case add_diff_cancel_right' by (rule month_day_bounds)+

lemma month_start_bounds: "month_start now \<le> now" "now < month_start now + 31 * ms_per_day"
proof -
  define day where "day = now div ms_per_day"
  define d where "d = day_of_month day"
  have m: "0 < ms_per_day" by (simp add: ms_per_day_def)
  have "now = day * ms_per_day + now mod ms_per_day" "0 \<le> now mod ms_per_day" "now mod ms_per_day < ms_per_day"
    using m by (simp_all add: day_def)
  moreover have "0 \<le> d * ms_per_day" "d * ms_per_day \<le> 30 * ms_per_day"
    using m day_of_month_bounds[of day] by (auto simp: d_def intro: mult_right_mono)
  moreover have "month_start now = day * ms_per_day - d * ms_per_day"
    by (simp add: month_start_def Let_def day_def[symmetric] d_def[symmetric] left_diff_distrib)
  ultimately show "month_start now \<le> now" "now < month_start now + 31 * ms_per_day" by linarith+
qed

lemma company_plan_cong:
  "pfCompanies t = pfCompanies s \<Longrightarrow> pfPlans t = pfPlans s \<Longrightarrow> company_plan company t = company_plan company s"
  by (simp add: company_plan_def find_company_def plan_of_def cong: option.case_cong)

definition fresh_project :: "string \<Rightarrow> 'q platform \<Rightarrow> bool" where
  "fresh_project pid s =
     (pid \<notin> set (pfProjectIds s)
      \<and> list_all (\<lambda>i. case runs s i of None \<Rightarrow> True | Some r \<Rightarrow> projectId r \<noteq> pid) (pfRunIds s))"

definition insert_project :: "string \<Rightarrow> string \<Rightarrow> 'q platform \<Rightarrow> 'q platform" where
  "insert_project pid company s = s\<lparr>projectCompany := (projectCompany s)(pid \<mapsto> company),
     pfProjectIds := pfProjectIds s @ [pid]\<rparr>"

lemma count_projects_insert:
  assumes "pid \<notin> set (pfProjectIds s)"
  shows "count_projects company (insert_project pid owner s)
    = count_projects company s + (if owner = company then 1 else 0)"
proof -
  have "filter (\<lambda>i. ((projectCompany s)(pid \<mapsto> owner)) i = Some company) (pfProjectIds s)
      = filter (\<lambda>i. projectCompany s i = Some company) (pfProjectIds s)"
    using assms by (intro filter_cong) auto
  then show ?thesis by (simp add: count_projects_def insert_project_def)
qed

lemma run_counts_insert_project:
  assumes "fresh_project pid s"
  shows "count_runs_since company start (insert_project pid owner s) = count_runs_since company start s"
    and "count_active_runs company (insert_project pid owner s) = count_active_runs company s"
proof -
  have "company_run company P (insert_project pid owner s) i = company_run company P s i" if "i \<in> set (pfRunIds s)" for i P
    using assms that by (auto simp: company_run_def insert_project_def fresh_project_def list_all_iff split: option.splits)
  then show "count_runs_since company start (insert_project pid owner s) = count_runs_since company start s"
    "count_active_runs company (insert_project pid owner s) = count_active_runs company s"
    unfolding count_runs_since_def count_active_runs_def
    by (auto simp: insert_project_def intro!: arg_cong[of _ _ length] filter_cong split: option.splits)
qed

lemma create_project_quiet:
  "create_project pid company (quiet s) =
     (case company_plan company s of None \<Rightarrow> (Inl (PlainError ''No Company found''), quiet s)
      | Some (_, p) \<Rightarrow> if plMaxProjects p \<le> count_projects company s
          then (Inl (ConflictException ''Project limit reached for current subscription plan''), quiet s)
          else (Inr pid, quiet (insert_project pid company s)))"
  by (simp add: create_project_def assert_can_create_project_def io_then_def io_bind_def io_call_quiet io_throw_def
      io_return_def insert_project_def split: option.splits)

lemma create_project_within:
  assumes "within_plan company s" "fresh_project pid s"
  shows "within_plan company (store (snd (create_project pid company (quiet s))))"
proof (cases "company_plan company s")
  case None
  with assms(1) show ?thesis by (simp add: create_project_quiet)
next
  case (Some cp)
  obtain c p where cp: "cp = (c, p)" by force
  have plan: "company_plan company (insert_project pid company s) = Some (c, p)"
    using Some cp company_plan_cong[of "insert_project pid company s" s] by (simp add: insert_project_def)
  have "clock (insert_project pid company s) = clock s" by (simp add: insert_project_def)
  then show ?thesis
    using assms Some run_counts_insert_project[OF assms(2)] count_projects_insert[of pid s company company]
    by (auto simp: create_project_quiet cp within_plan_def plan fresh_project_def)
qed

lemma run_counts_queued:
  assumes "tid \<notin> set (pfRunIds s)"
  shows "count_runs_since company start (queued_run api tid pid env s) \<le> count_runs_since company start s + 1"
    and "count_active_runs company (queued_run api tid pid env s) \<le> count_active_runs company s + 1"
    and "count_projects company (queued_run api tid pid env s) = count_projects company s"
proof -
  let ?t = "queued_run api tid pid env s"
  have ids: "pfRunIds ?t = pfRunIds s @ [tid]" by (simp add: queued_run_def insert_run_def Let_def)
  have old: "company_run company P ?t i = company_run company P s i" "pfRunCreated ?t i = pfRunCreated s i"
    if "i \<in> set (pfRunIds s)" for i P
    using assms that by (auto simp: company_run_def queued_run_def insert_run_def Let_def cong: option.case_cong)
  have "filter (\<lambda>i. company_run company (\<lambda>_. True) ?t i \<and> (case pfRunCreated ?t i of None \<Rightarrow> False | Some t \<Rightarrow> start \<le> t)) (pfRunIds s)
      = filter (\<lambda>i. company_run company (\<lambda>_. True) s i \<and> (case pfRunCreated s i of None \<Rightarrow> False | Some t \<Rightarrow> start \<le> t)) (pfRunIds s)"
    by (rule filter_cong) (simp_all add: old)
  then show "count_runs_since company start ?t \<le> count_runs_since company start s + 1"
    by (simp add: count_runs_since_def ids)
  have "filter (company_run company (\<lambda>r. status r \<in> set active_statuses) ?t) (pfRunIds s)
      = filter (company_run company (\<lambda>r. status r \<in> set active_statuses) s) (pfRunIds s)"
    by (rule filter_cong) (simp_all add: old)
  then show "count_active_runs company ?t \<le> count_active_runs company s + 1"
    by (simp add: count_active_runs_def ids)
  show "count_projects company ?t = count_projects company s"
    by (simp add: count_projects_def queued_run_def insert_run_def Let_def)
qed

lemma create_run_within:
  assumes "within_plan company s" "tid \<notin> set (pfRunIds s)"
  shows "within_plan company (store (snd (create_run api tid pid company requested (quiet s))))"
proof (cases "projectCompany s pid = Some company")
  case False
  then show ?thesis
    using assms(1) by (auto simp: create_run_def io_then_def io_bind_def get_project_or_throw_def io_call_quiet split: option.splits)
next
  case True
  note run = create_run_quiet[OF True, of requested api tid]
  show ?thesis
  proof (cases "run_possible pid company requested s")
    case False
    with run assms(1) show ?thesis by auto
  next
    case possible: True
    let ?t = "queued_run api tid pid (rvId (the (chosen_environment pid requested s))) s"
    obtain c p where cp: "company_plan company s = Some (c, p)"
      "count_runs_since company (month_start (clock s)) s < plMaxRuns p" "count_active_runs company s < plMaxConcurrent p"
      using possible by (auto simp: run_possible_def room_for_run_def split: option.splits)
    have "company_plan company ?t = Some (c, p)" "clock ?t = clock s"
      using cp(1) company_plan_cong[of ?t s] by (simp_all add: queued_run_def insert_run_def Let_def)
    moreover note counts = run_counts_queued[OF assms(2), where company = company and api = api and pid = pid
        and env = "rvId (the (chosen_environment pid requested s))"]
    have "count_runs_since company (month_start (clock s)) ?t \<le> plMaxRuns p" "count_active_runs company ?t \<le> plMaxConcurrent p"
      using counts(1)[of "month_start (clock s)"] counts(2) cp(2,3) by linarith+
    ultimately have "within_plan company ?t" using assms(1) cp(1) counts(3) by (simp add: within_plan_def)
    with run possible show ?thesis by simp
  qed
qed

lemma counts_company_update:
  "count_projects company (s\<lparr>pfCompanies := cs\<rparr>) = count_projects company s"
  "count_runs_since company start (s\<lparr>pfCompanies := cs\<rparr>) = count_runs_since company start s"
  "count_active_runs company (s\<lparr>pfCompanies := cs\<rparr>) = count_active_runs company s"
proof -
  have "company_run company P (s\<lparr>pfCompanies := cs\<rparr>) = company_run company P s" for P
    by (rule ext) (simp add: company_run_def cong: option.case_cong)
  then show "count_projects company (s\<lparr>pfCompanies := cs\<rparr>) = count_projects company s"
    "count_runs_since company start (s\<lparr>pfCompanies := cs\<rparr>) = count_runs_since company start s"
    "count_active_runs company (s\<lparr>pfCompanies := cs\<rparr>) = count_active_runs company s"
    by (simp_all add: count_projects_def count_runs_since_def count_active_runs_def)
qed

lemma find_map_same:
  assumes "\<And>c. k (f c) = k c"
  shows "find (\<lambda>c. k c = x) (map f cs) = map_option f (find (\<lambda>c. k c = x) cs)"
  by (induction cs) (simp_all add: assms)

lemma find_unique_key:
  assumes "distinct (map k ps)" "p \<in> set ps"
  shows "find (\<lambda>q. k q = k p) ps = Some p"
  using assms by (induction ps) (auto simp: image_iff)

lemma get_me_quiet: "store (snd (get_me company (quiet s))) = s"
  by (simp add: get_me_def io_bind_def run_simps split: option.splits prod.splits)

definition moved_to_plan :: "string \<Rightarrow> string \<Rightarrow> 'q platform \<Rightarrow> 'q platform" where
  "moved_to_plan company plan s =
     s\<lparr>pfCompanies := map (\<lambda>c. if coId c = company then c\<lparr>coPlan := plan\<rparr> else c) (pfCompanies s)\<rparr>"

definition usage_of :: "string \<Rightarrow> 'q platform \<Rightarrow> plan_usage" where
  "usage_of company s =
     \<lparr>usProjects = count_projects company s, usRuns = count_runs_since company (month_start (clock s)) s,
      usConcurrent = count_active_runs company s\<rparr>"

lemma change_plan_quiet:
  "store (snd (change_plan company name (quiet s))) = s
   \<or> (\<exists>p. p \<in> set (pfPlans s) \<and> assert_usage_fits_plan p (usage_of company s) = Inr ()
       \<and> store (snd (change_plan company name (quiet s))) = moved_to_plan company (plId p) s)"
proof -
  have usage: "get_usage company (quiet s) = (Inr (usage_of company s), quiet s)"
    by (simp add: get_usage_def io_bind_def run_simps usage_of_def)
  have update: "io_then (update_company company (\<lambda>c. c\<lparr>coPlan := plan\<rparr>)) (get_me company) (quiet s)
      = (if has_company company s then get_me company (quiet (moved_to_plan company plan s)) else (Inl p2025, quiet s))" for plan
    by (simp add: io_then_def io_bind_def update_company_def run_simps moved_to_plan_def)
  show ?thesis
  proof (cases "find (\<lambda>p. plName p = name) (pfPlans s)")
    case None
    then show ?thesis by (simp add: change_plan_def io_bind_def run_simps usage split: option.splits)
  next
    case (Some p)
    then have "p \<in> set (pfPlans s)" by (auto simp: find_Some_iff)
    with Some show ?thesis
      by (cases "assert_usage_fits_plan p (usage_of company s)")
        (auto simp: change_plan_def io_bind_def run_simps usage io_then_def[of "io_lift _"] update get_me_quiet split: option.splits)
  qed
qed

lemma change_plan_within:
  assumes "within_plan company s" "distinct (map plId (pfPlans s))"
  shows "within_plan company (store (snd (change_plan company name (quiet s))))"
  using change_plan_quiet[of company name s]
proof (elim disjE exE conjE)
  assume "store (snd (change_plan company name (quiet s))) = s"
  with assms(1) show ?thesis by simp
next
  fix p assume p: "p \<in> set (pfPlans s)" "assert_usage_fits_plan p (usage_of company s) = Inr ()"
    "store (snd (change_plan company name (quiet s))) = moved_to_plan company (plId p) s"
  let ?t = "moved_to_plan company (plId p) s"
  have "company_plan company ?t = None \<or> (\<exists>c. company_plan company ?t = Some (c, p))"
  proof (cases "find_company company s")
    case None
    then show ?thesis
      by (simp add: company_plan_def find_company_def moved_to_plan_def find_map_same[of coId])
  next
    case (Some c)
    then have "coId c = company" by (auto simp: find_company_def find_Some_iff)
    then have "find_company company ?t = Some (c\<lparr>coPlan := plId p\<rparr>)"
      using Some by (simp add: find_company_def moved_to_plan_def find_map_same[of coId])
    then show ?thesis
      using find_unique_key[OF assms(2) p(1)] by (simp add: company_plan_def plan_of_def moved_to_plan_def)
  qed
  moreover have "count_projects company ?t \<le> plMaxProjects p"
    "count_runs_since company (month_start (clock s)) ?t \<le> plMaxRuns p" "count_active_runs company ?t \<le> plMaxConcurrent p"
    using p(2) by (auto simp: moved_to_plan_def counts_company_update assert_usage_fits_plan_def usage_of_def split: if_splits)
  moreover have "clock ?t = clock s" by (simp add: moved_to_plan_def)
  ultimately show ?thesis unfolding p(3) by (auto simp: within_plan_def)
qed

text \<open>
  C30: The limits of a plan hold as long as requests come one at a time: a company within its limits still is
  after the creation of a project or of a run and after a change of its plan, whether the request
  succeeds or not.  The run counts since the first of the month of the clock.
\<close>
theorem plan_limits_hold_one_at_a_time:
  assumes "within_plan company s" "fresh_project new_pid s" "tid \<notin> set (pfRunIds s)" "distinct (map plId (pfPlans s))"
  shows "within_plan company (store (snd (create_project new_pid company (quiet s))))
    \<and> within_plan company (store (snd (create_run api tid pid company requested (quiet s))))
    \<and> within_plan company (store (snd (change_plan company name (quiet s))))"
  using create_project_within[OF assms(1,2)] create_run_within[OF assms(1,3)] change_plan_within[OF assms(1,4)] by blast

text \<open>Two requests at once can exceed them: nothing is checked again when the row is inserted.\<close>

lemma simultaneous_projects_exceed_limit:
  assumes "company_plan company s = Some (c, p)" "count_projects company s + 1 = plMaxProjects p"
    and "pid \<notin> set (pfProjectIds s)" "other \<notin> set (pfProjectIds s)" "pid \<noteq> other"
  shows "\<exists>w. create_project pid company
      \<lparr>store = s, pending = [CallEnv id Done, CallEnv (insert_project other company) Done]\<rparr> = (Inr pid, w)
    \<and> count_projects company (store w) = plMaxProjects p + 1"
proof -
  have "pid \<notin> set (pfProjectIds (insert_project other company s))"
    using assms(3,5) by (simp add: insert_project_def)
  then have "count_projects company (insert_project pid company (insert_project other company s)) = plMaxProjects p + 1"
    using assms(2,4) by (simp add: count_projects_insert)
  then show ?thesis
    using assms(1,2) by (simp add: create_project_def assert_can_create_project_def io_then_def io_bind_def io_call_def
        io_return_def Let_def insert_project_def[symmetric])
qed

section \<open>Examples\<close>

definition sample_platform :: "(string \<rightharpoonup> string) platform" where
  "sample_platform = \<lparr>clock = 86400000, runs = Map.empty, queue = Map.empty, projectCompany = [''p1'' \<mapsto> ''c1''],
     pfPlans = [\<lparr>plId = ''b1'', plName = ''BASIC'', plMaxProjects = 2, plMaxRuns = 10, plMaxConcurrent = 1\<rparr>],
     pfCompanies = [\<lparr>coId = ''c1'', coName = ''Acme'', coPlan = ''b1'', coMembers = 1\<rparr>], pfProjectIds = [''p1''],
     pfRunIds = [], pfRunCreated = Map.empty, pfRunEnvironment = Map.empty, pfSnapshots = [],
     pfSuites = sample_suites [sample_revision ''r1'' 1 True, sample_revision ''r2'' 2 False],
     pfEnvironments = stored [stored_revision ''v1'' 1 True]\<rparr>"

lemma sample_run_possible: "run_possible ''p1'' ''c1'' None sample_platform"
  by code_simp

lemma sample_within_plan: "within_plan ''c1'' sample_platform" "fresh_project ''p2'' sample_platform"
  by code_simp+

definition after_sample_run :: "(string \<rightharpoonup> string) platform" where
  "after_sample_run = queued_run map_queue ''t1'' ''p1'' ''v1'' sample_platform"

definition sample_snapshot :: run_snapshot where
  "sample_snapshot = \<lparr>snRun = ''t1'', snSuite = ''s1'', snRevision = ''r1'', snPosition = 0, snName = ''Login''\<rparr>"

lemma after_sample_run_snapshots: "pfSnapshots after_sample_run = [sample_snapshot]"
  by code_simp

lemma sample_environment: "map_option rvId (chosen_environment ''p1'' None sample_platform) = Some ''v1''"
  by code_simp

lemma sample_run:
  "store (snd (create_run map_queue ''t1'' ''p1'' ''c1'' None (quiet sample_platform))) = after_sample_run"
proof -
  have "projectCompany sample_platform ''p1'' = Some ''c1''" by (simp add: sample_platform_def)
  from create_run_quiet[OF this, of None map_queue "''t1''"] sample_environment sample_run_possible
  show ?thesis by (auto simp: after_sample_run_def)
qed


lemma run_creation_outcome_witness:
  "\<exists>r w. create_run map_queue ''t1'' ''p1'' ''c1'' None (quiet sample_platform) = (Inr r, w)
     \<and> status r = QUEUED \<and> pfRunEnvironment (store w) ''t1'' = Some ''v1''"
proof -
  let ?run = "create_run map_queue ''t1'' ''p1'' ''c1'' None (quiet sample_platform)"
  have "projectCompany sample_platform ''p1'' = Some ''c1''" by (simp add: sample_platform_def)
  note out = run_creation_outcome[OF this, where api = map_queue and tid = "''t1''" and requested = None]
  show ?thesis
  proof (cases ?run)
    case (Pair q w)
    with out sample_run_possible sample_environment show ?thesis by (cases q) auto
  qed
qed

lemma plan_limits_hold_one_at_a_time_witness:
  "within_plan ''c1'' (store (snd (create_project ''p2'' ''c1'' (quiet sample_platform))))
   \<and> within_plan ''c1'' (store (snd (create_run map_queue ''t1'' ''p1'' ''c1'' None (quiet sample_platform))))
   \<and> within_plan ''c1'' (store (snd (change_plan ''c1'' ''BASIC'' (quiet sample_platform))))"
  by (rule plan_limits_hold_one_at_a_time[OF sample_within_plan]) (simp_all add: sample_platform_def)

end
