(* ===== verification/Import_Common.thy ===== *)
theory Import_Common
  imports Templates Masking Compose_Import
begin

text \<open>
  What the parsers of API descriptions share (\<open>test-suites/import/parsers/import-parser-utils.ts\<close>,
  \<open>test-suites/import/import-warning.service.ts\<close>, \<open>test-suites/types/api-import.types.ts\<close>): the imported
  operation, the split of a URL, and the replacement of literal credentials by secret references.
\<close>

section \<open>Types\<close>

record imported_response =
  irStatus :: string
  irDescription :: "string option"
  irBody :: "json option"

datatype auth_type = Bearer_Auth | Api_Key_Auth | Basic_Auth | Oauth_Auth

record auth_scheme =
  ahType :: auth_type
  ahName :: string
  ahLocation :: "string option"
  ahParameter :: "string option"
  ahSecret :: "string option"
  ahMetadata :: "json option"

record import_warning =
  imCode :: string
  imSeverity :: severity
  imOperation :: "string option"
  imMessage :: string

record imported_operation =
  opId :: string
  opName :: string
  opMethod :: string
  opPath :: string
  opHeaders :: "string obj"
  opQuery :: "string obj"
  opBody :: "json option"
  opResponses :: "imported_response list option"
  opMetadata :: json

record manual_request =
  mqName :: "string option"
  mqMethod :: string
  mqPath :: string
  mqHeaders :: "json option"
  mqQuery :: "json option"
  mqBody :: "json option"
  mqStatus :: "jsnum option"

record import_input =
  inSource :: string
  inContent :: "string option"
  inFiles :: "string obj option"
  inManual :: "manual_request option"

record import_result =
  rsOperations :: "imported_operation list"
  rsAuth :: "auth_scheme list"
  rsWarnings :: "import_warning list"

text \<open>
  The platform's \<open>crypto\<close> and URL classes, and the library \<open>js-yaml\<close>: the first eight hex digits of SHA-1,
  path and search of \<open>new URL(s)\<close> when it does not throw, the entries of \<open>new URLSearchParams(s)\<close>, the value
  of \<open>yaml.load\<close> (objects with their entries in the order JavaScript enumerates them) or the error it
  throws, and the message of the \<open>SyntaxError\<close> that \<open>JSON.parse\<close> throws.
\<close>

record web_tools =
  wtHash :: "string \<Rightarrow> string"
  wtUrl :: "string \<Rightarrow> (string \<times> string) option"
  wtParams :: "string \<Rightarrow> string obj"
  wtYaml :: "string \<Rightarrow> js_error + json option"
  wtSyntax :: "string \<Rightarrow> string"

section \<open>Utilities\<close>

definition http_methods :: "string list" where
  "http_methods = [''GET'', ''POST'', ''PUT'', ''PATCH'', ''DELETE'', ''HEAD'', ''OPTIONS'']"

text \<open>\<open>replace(/[^a-z0-9]+/g, '-')\<close>: the flag says whether the last character was replaced.\<close>

definition is_slug_char :: "char \<Rightarrow> bool" where
  "is_slug_char c = (let n = (of_char c :: nat) in (48 \<le> n \<and> n \<le> 57) \<or> (97 \<le> n \<and> n \<le> 122))"

fun dash_runs :: "bool \<Rightarrow> string \<Rightarrow> string" where
  "dash_runs inside [] = []"
| "dash_runs inside (c # s) =
     (if is_slug_char c then c # dash_runs False s
      else if inside then dash_runs True s else CHR ''-'' # dash_runs True s)"

definition trim_dashes :: "string \<Rightarrow> string" where
  "trim_dashes s = rev (dropWhile (\<lambda>c. c = CHR ''-'') (rev (dropWhile (\<lambda>c. c = CHR ''-'') s)))"

definition stable_operation_id :: "web_tools \<Rightarrow> string list \<Rightarrow> string" where
  "stable_operation_id wt parts =
     (let base = take 72 (trim_dashes (dash_runs False (to_lower (join_with ''-'' parts)))) in
      (if base = [] then ''operation'' else base) @ ''-'' @ wtHash wt (join_with ''|'' parts))"

definition ensure_content :: "string option \<Rightarrow> string \<Rightarrow> js_error + string" where
  "ensure_content content label =
     (if blank content then Inl (BadRequestException (label @ '' import content is required''))
      else Inr (the content))"

definition normalize_method :: "string option \<Rightarrow> js_error + string" where
  "normalize_method m =
     (case map_option (\<lambda>s. to_upper (trim s)) m of
        Some n \<Rightarrow> if n \<in> set http_methods then Inr n
          else Inl (BadRequestException (''Unsupported HTTP method: '' @ the m))
      | None \<Rightarrow> Inl (BadRequestException ''Unsupported HTTP method: unknown''))"

definition split_url :: "web_tools \<Rightarrow> string \<Rightarrow> js_error + string \<times> string obj" where
  "split_url wt raw =
     (let v = trim raw in
      if v = [] then Inl (BadRequestException ''Request URL or path is required'')
      else (let parts = split_char (CHR ''?'')
                  (case wtUrl wt v of Some (p, search) \<Rightarrow> p @ search | None \<Rightarrow> v);
                path = hd parts in
            Inr (if starts_with path ''/'' then path else CHR ''/'' # path,
                 from_entries (wtParams wt (if 1 < length parts then parts ! 1 else [])))))"

definition clean_record :: "json option \<Rightarrow> string obj" where
  "clean_record v =
     (case v of
        Some (JObj es) \<Rightarrow> from_entries (map (\<lambda>(k, x). (trim k, json_string x))
          (filter (\<lambda>(k, x). trim k \<noteq> [] \<and> x \<noteq> JNull) es))
      | _ \<Rightarrow> [])"

definition text_record :: "string obj \<Rightarrow> json option" where
  "text_record es = Some (JObj (map (\<lambda>(k, v). (k, JStr v)) es))"

text \<open>\<open>/^2\d\d$/\<close>\<close>

definition is_success_status :: "string \<Rightarrow> bool" where
  "is_success_status s = (length s = 3 \<and> starts_with s ''2'' \<and> list_all is_digit s)"

definition expected_status :: "imported_response list option \<Rightarrow> jsnum" where
  "expected_status responses =
     (let rs = (case responses of None \<Rightarrow> [] | Some rs \<Rightarrow> rs) in
      case find (\<lambda>r. is_success_status (irStatus r)) rs of
        Some r \<Rightarrow> string_number (irStatus r)
      | None \<Rightarrow> (case rs of [] \<Rightarrow> Fin 200 | r # _ \<Rightarrow> string_number (irStatus r)))"

section \<open>ImportWarningService\<close>

definition destructive_methods :: "string list" where
  "destructive_methods = [''POST'', ''PUT'', ''PATCH'', ''DELETE'']"

definition is_destructive :: "string \<Rightarrow> bool" where
  "is_destructive m = (to_upper m \<in> set destructive_methods)"

definition destructive_warnings :: "imported_operation list \<Rightarrow> import_warning list" where
  "destructive_warnings ops =
     map (\<lambda>o'. \<lparr>imCode = ''DESTRUCTIVE_OPERATION'', imSeverity = Sev_Warning, imOperation = Some (opId o'),
        imMessage = to_upper (opMethod o') @ '' '' @ opPath o'
          @ '' can mutate data and requires confirmation before flow generation.''\<rparr>)
       (filter (\<lambda>o'. is_destructive (opMethod o')) ops)"

fun has_secret_reference :: "string \<Rightarrow> bool" where
  "has_secret_reference [] = False"
| "has_secret_reference (c # s) = (match_secret (c # s) \<noteq> None \<or> has_secret_reference s)"

text \<open>\<open>/(api[_-]?key|token|secret|password)/i\<close>; the pattern for query names adds words that contain \<open>token\<close>.\<close>

definition api_key_rx :: rx where
  "api_key_rx = seqs [ilit ''api'', Opt (one_of ''_-''), ilit ''key'']"

definition is_sensitive_header :: "string \<Rightarrow> bool" where
  "is_sensitive_header name = rx_test (any_of [api_key_rx, ilit ''token'', ilit ''secret'', ilit ''password'']) name"

definition is_sensitive_query :: "string \<Rightarrow> bool" where
  "is_sensitive_query name =
     rx_test (any_of [api_key_rx, seqs [ilit ''access'', Opt (one_of ''_-''), ilit ''token''],
       seqs [ilit ''refresh'', Opt (one_of ''_-''), ilit ''token''], ilit ''token'', ilit ''secret'', ilit ''password'']) name"

text \<open>\<open>/^Bearer\s+(.+)$/i\<close>\<close>

definition auth_prefix :: "string \<Rightarrow> string \<Rightarrow> bool" where
  "auth_prefix kind v = rx_test (seqs [AtStart, ilit kind, some_space, Plus dot, AtEnd]) v"

definition secret_placeholder :: "string \<Rightarrow> string" where
  "secret_placeholder key = ''{{ secret.'' @ key @ '' }}''"

definition bearer_placeholder :: string where
  "bearer_placeholder = ''Bearer '' @ secret_placeholder ''API_TOKEN''"

definition basic_placeholder :: string where
  "basic_placeholder = ''Basic '' @ secret_placeholder ''BASIC_AUTH''"

definition credential_warning :: "string option \<Rightarrow> string \<Rightarrow> import_warning" where
  "credential_warning oid message =
     \<lparr>imCode = ''LITERAL_CREDENTIAL_REPLACED'', imSeverity = Sev_Warning, imOperation = oid, imMessage = message\<rparr>"

definition header_scheme :: "auth_type \<Rightarrow> string \<Rightarrow> string \<Rightarrow> string \<Rightarrow> auth_scheme" where
  "header_scheme t name parameter secret =
     \<lparr>ahType = t, ahName = name, ahLocation = Some ''header'', ahParameter = Some parameter, ahSecret = Some secret,
      ahMetadata = None\<rparr>"

definition sanitize_header ::
    "string \<Rightarrow> string \<Rightarrow> string \<Rightarrow> string \<times> auth_scheme list \<times> import_warning list" where
  "sanitize_header name v oid =
     (if to_lower name = ''authorization'' \<and> auth_prefix ''Bearer'' v \<and> \<not> has_secret_reference v
      then (bearer_placeholder, [header_scheme Bearer_Auth ''Authorization'' name ''API_TOKEN''],
            [credential_warning (Some oid) ''Bearer token was replaced with {{ secret.API_TOKEN }}.''])
      else if to_lower name = ''authorization'' \<and> auth_prefix ''Basic'' v \<and> \<not> has_secret_reference v
      then (basic_placeholder, [header_scheme Basic_Auth ''Authorization'' name ''BASIC_AUTH''],
            [credential_warning (Some oid) ''Basic credentials were replaced with {{ secret.BASIC_AUTH }}.''])
      else if is_sensitive_header name \<and> v \<noteq> [] \<and> \<not> has_secret_reference v
      then (secret_placeholder ''API_KEY'', [header_scheme Api_Key_Auth name name ''API_KEY''],
            [credential_warning (Some oid)
              (''Header \"'' @ name @ ''\" looked sensitive and was replaced with {{ secret.API_KEY }}.'')])
      else (v, [], []))"

definition sanitize_query ::
    "string \<Rightarrow> string \<Rightarrow> string \<Rightarrow> string \<times> auth_scheme list \<times> import_warning list" where
  "sanitize_query name v oid =
     (if is_sensitive_query name \<and> v \<noteq> [] \<and> \<not> has_secret_reference v
      then (secret_placeholder ''API_KEY'',
            [\<lparr>ahType = Api_Key_Auth, ahName = to_upper name, ahLocation = Some ''query'', ahParameter = Some name,
              ahSecret = Some ''API_KEY'', ahMetadata = None\<rparr>],
            [credential_warning (Some oid)
              (''Query parameter \"'' @ name @ ''\" looked sensitive and was replaced with {{ secret.API_KEY }}.'')])
      else (v, [], []))"

definition sanitize_operation ::
    "imported_operation \<Rightarrow> imported_operation \<times> auth_scheme list \<times> import_warning list" where
  "sanitize_operation o' =
     (let hs = map (\<lambda>(k, v). (k, sanitize_header k v (opId o'))) (opHeaders o');
          qs = map (\<lambda>(k, v). (k, sanitize_query k v (opId o'))) (opQuery o') in
      (o'\<lparr>opHeaders := from_entries (map (\<lambda>(k, v, _). (k, v)) hs), opQuery := from_entries (map (\<lambda>(k, v, _). (k, v)) qs)\<rparr>,
       concat (map (\<lambda>(_, _, a, _). a) (hs @ qs)), concat (map (\<lambda>(_, _, _, w). w) (hs @ qs))))"

fun auth_type_name :: "auth_type \<Rightarrow> string" where
  "auth_type_name Bearer_Auth = ''BEARER''"
| "auth_type_name Api_Key_Auth = ''API_KEY''"
| "auth_type_name Basic_Auth = ''BASIC''"
| "auth_type_name Oauth_Auth = ''OAUTH''"

definition scheme_key :: "auth_scheme \<Rightarrow> string" where
  "scheme_key a =
     auth_type_name (ahType a) @ '':'' @ (case ahLocation a of None \<Rightarrow> [] | Some l \<Rightarrow> l) @ '':''
       @ (case ahParameter a of None \<Rightarrow> ahName a | Some p \<Rightarrow> p) @ '':'' @ (case ahSecret a of None \<Rightarrow> [] | Some s \<Rightarrow> s)"

fun merge_by_key :: "string set \<Rightarrow> auth_scheme list \<Rightarrow> auth_scheme list" where
  "merge_by_key seen [] = []"
| "merge_by_key seen (a # as) =
     (if scheme_key a \<in> seen then merge_by_key seen as else a # merge_by_key (insert (scheme_key a) seen) as)"

definition merge_auth_schemes :: "auth_scheme list \<Rightarrow> auth_scheme list" where
  "merge_auth_schemes as = merge_by_key {} as"

definition suggested_secrets :: "auth_scheme list \<Rightarrow> string list" where
  "suggested_secrets as =
     sort_by code_unit_cmp (rev (remdups (rev (concat (map (\<lambda>a. if truthy_str (ahSecret a) then [the (ahSecret a)] else []) as)))))"

definition ignored_executable_warning :: "string \<Rightarrow> import_warning" where
  "ignored_executable_warning source =
     \<lparr>imCode = ''EXECUTABLE_IMPORT_CONTENT_IGNORED'', imSeverity = Sev_Warning, imOperation = None,
      imMessage = source @ '' scripts, tests, or hooks were ignored. Imported content is never executed.''\<rparr>"

section \<open>ManualRequestImportParser\<close>

definition plain_response :: "string \<Rightarrow> string \<Rightarrow> imported_response" where
  "plain_response st description = \<lparr>irStatus = st, irDescription = Some description, irBody = None\<rparr>"

definition single_result :: "auth_scheme list \<Rightarrow> import_warning list \<Rightarrow> imported_operation \<Rightarrow> import_result" where
  "single_result auth warnings o' =
     (case sanitize_operation o' of (o2, as, ws) \<Rightarrow>
       \<lparr>rsOperations = [o2], rsAuth = auth @ as, rsWarnings = warnings @ ws @ destructive_warnings [o2]\<rparr>)"

definition update_all :: "string obj \<Rightarrow> string obj \<Rightarrow> string obj" where
  "update_all es fs = from_entries (es @ fs)"

definition parse_manual :: "web_tools \<Rightarrow> import_input \<Rightarrow> js_error + import_result" where
  "parse_manual wt input =
     (case inManual input of
        None \<Rightarrow> Inl (BadRequestException ''Manual request import needs manualRequest'')
      | Some r \<Rightarrow>
          sbind (normalize_method (Some (mqMethod r))) (\<lambda>method.
          sbind (split_url wt (mqPath r)) (\<lambda>(path, query).
          let responses = [plain_response (num_string (case mqStatus r of None \<Rightarrow> Fin 200 | Some n \<Rightarrow> n)) ''Expected status''] in
          Inr (single_result [] []
            \<lparr>opId = stable_operation_id wt [''manual'', method, path],
             opName = (case trimmed (mqName r) of None \<Rightarrow> method @ '' '' @ path | Some n \<Rightarrow> n),
             opMethod = method, opPath = path, opHeaders = clean_record (mqHeaders r),
             opQuery = update_all query (clean_record (mqQuery r)), opBody = mqBody r, opResponses = Some responses,
             opMetadata = JObj [(''sourceType'', JStr ''MANUAL''),
               (''expectedStatus'', JNum (expected_status (Some responses)))]\<rparr>))))"

end
