(* ===== verification/Import_Curl.thy ===== *)
theory Import_Curl
  imports Import_Common
begin

text \<open>
  The parser of cURL commands (\<open>test-suites/import/parsers/curl-import.parser.ts\<close>): shell syntax is
  refused, the rest is cut into tokens, the options are read one by one.
\<close>

section \<open>Tokens\<close>

fun command_substitution :: "string \<Rightarrow> bool" where
  "command_substitution [] = False"
| "command_substitution (c # s) =
     (c = CHR ''$'' \<and> starts_with (dropWhile is_ws s) ''('' \<or> command_substitution s)"

definition has_shell_syntax :: "string \<Rightarrow> bool" where
  "has_shell_syntax command =
     (list_ex (\<lambda>c. c \<in> set ''|;<>`'') command \<or> command_substitution command)"

definition push_token :: "string list \<Rightarrow> string \<Rightarrow> string list" where
  "push_token tokens current = (if current = [] then tokens else tokens @ [current])"

text \<open>The quote character (34 or 39), the backslash (92); the arguments are the loop's variables.\<close>

definition is_quote :: "char \<Rightarrow> bool" where
  "is_quote c = (c = CHR 0x22 \<or> c = CHR 0x27)"

fun tokenize_from :: "string list \<Rightarrow> string \<Rightarrow> char option \<Rightarrow> bool \<Rightarrow> string \<Rightarrow> js_error + string list" where
  "tokenize_from tokens current quote escaping [] =
     (if quote \<noteq> None then Inl (BadRequestException ''cURL command contains an unterminated quote'')
      else Inr (push_token tokens current))"
| "tokenize_from tokens current quote escaping (c # s) =
     (if escaping then tokenize_from tokens (current @ [c]) quote False s
      else if c = CHR 0x5C \<and> quote \<noteq> Some (CHR 0x27) then tokenize_from tokens current quote True s
      else if is_quote c \<and> quote = None then tokenize_from tokens current (Some c) False s
      else if quote = Some c then tokenize_from tokens current None False s
      else if quote = None \<and> is_ws c then tokenize_from (push_token tokens current) [] None False s
      else tokenize_from tokens (current @ [c]) quote False s)"

definition tokenize :: "string \<Rightarrow> js_error + string list" where
  "tokenize command = tokenize_from [] [] None False command"

section \<open>Options\<close>

record curl_state =
  cuMethod :: string
  cuUrl :: string
  cuBody :: "json option"
  cuGet :: bool
  cuHeaders :: "string obj"
  cuAuth :: "auth_scheme list"
  cuWarnings :: "import_warning list"

definition curl_start :: curl_state where
  "curl_start = \<lparr>cuMethod = [], cuUrl = [], cuBody = None, cuGet = False, cuHeaders = [], cuAuth = [], cuWarnings = []\<rparr>"

definition add_header :: "string obj \<Rightarrow> string \<Rightarrow> js_error + string obj" where
  "add_header headers h =
     (let name = takeWhile (\<lambda>c. c \<noteq> CHR '':'') h in
      if name = [] \<or> name = h then Inl (BadRequestException (''Invalid cURL header: '' @ h))
      else Inr (AList.update (trim name) (trim (drop (length name + 1) h)) headers))"

definition parse_body :: "string \<Rightarrow> json option" where
  "parse_body raw =
     (let t = trim raw in if t = [] then None
      else (case json_parse t of Some j \<Rightarrow> Some j | None \<Rightarrow> Some (JStr t)))"

definition with_method :: "string \<Rightarrow> curl_state \<Rightarrow> js_error + curl_state" where
  "with_method m st = sbind (normalize_method (Some m)) (\<lambda>n. Inr (st\<lparr>cuMethod := n\<rparr>))"

definition with_header :: "string \<Rightarrow> curl_state \<Rightarrow> js_error + curl_state" where
  "with_header h st = sbind (add_header (cuHeaders st) h) (\<lambda>hs. Inr (st\<lparr>cuHeaders := hs\<rparr>))"

definition with_body :: "string \<Rightarrow> curl_state \<Rightarrow> curl_state" where
  "with_body raw st =
     st\<lparr>cuBody := parse_body raw, cuMethod := (if cuMethod st = [] then ''POST'' else cuMethod st)\<rparr>"

definition with_user :: "curl_state \<Rightarrow> curl_state" where
  "with_user st =
     st\<lparr>cuHeaders := AList.update ''Authorization'' basic_placeholder (cuHeaders st),
        cuAuth := cuAuth st @ [header_scheme Basic_Auth ''Authorization'' ''Authorization'' ''BASIC_AUTH''],
        cuWarnings := cuWarnings st @ [credential_warning None
          ''cURL basic auth credentials were replaced with {{ secret.BASIC_AUTH }}.'']\<rparr>"

text \<open>One turn of the loop: \<open>next\<close> is the following token, and the flag says whether it was taken.\<close>

definition take_value :: "string \<Rightarrow> string option \<Rightarrow> (string \<Rightarrow> js_error + curl_state) \<Rightarrow> js_error + curl_state \<times> bool" where
  "take_value token nxt f =
     (case nxt of
        None \<Rightarrow> Inl (BadRequestException (''cURL option '' @ token @ '' needs a value''))
      | Some v \<Rightarrow> sbind (f v) (\<lambda>st. Inr (st, True)))"

definition data_options :: "string list" where
  "data_options = [''-d'', ''--data'', ''--data-raw'', ''--data-binary'', ''--data-ascii'']"

definition curl_step :: "string \<Rightarrow> string option \<Rightarrow> curl_state \<Rightarrow> js_error + curl_state \<times> bool" where
  "curl_step token nxt st =
     (if token = ''-X'' \<or> token = ''--request'' then take_value token nxt (\<lambda>v. with_method v st)
      else if starts_with token ''-X'' \<and> length token > 2 then sbind (with_method (drop 2 token) st) (\<lambda>st. Inr (st, False))
      else if token = ''-H'' \<or> token = ''--header'' then take_value token nxt (\<lambda>v. with_header v st)
      else if starts_with token ''-H'' \<and> length token > 2 then sbind (with_header (drop 2 token) st) (\<lambda>st. Inr (st, False))
      else if token \<in> set data_options then take_value token nxt (\<lambda>v. Inr (with_body v st))
      else if starts_with token ''-d'' \<and> length token > 2 then Inr (with_body (drop 2 token) st, False)
      else if token = ''--url'' then take_value token nxt (\<lambda>v. Inr (st\<lparr>cuUrl := v\<rparr>))
      else if token = ''-u'' \<or> token = ''--user'' then take_value token nxt (\<lambda>v. Inr (with_user st))
      else if token = ''-G'' \<or> token = ''--get''
      then Inr (st\<lparr>cuGet := True, cuMethod := (if cuMethod st = [] then ''GET'' else cuMethod st)\<rparr>, False)
      else if \<not> starts_with token ''-'' \<and> cuUrl st = [] then Inr (st\<lparr>cuUrl := token\<rparr>, False)
      else Inr (st, False))"

fun curl_options :: "curl_state \<Rightarrow> string list \<Rightarrow> js_error + curl_state" where
  "curl_options st [] = Inr st"
| "curl_options st [t] = sbind (curl_step t None st) (\<lambda>(st', used). Inr st')"
| "curl_options st (t # v # rest) =
     sbind (curl_step t (Some v) st) (\<lambda>(st', used).
       if used then curl_options st' rest else curl_options st' (v # rest))"

section \<open>The parser\<close>

definition curl_arguments :: "string \<Rightarrow> js_error + string list" where
  "curl_arguments content =
     (if has_shell_syntax content
      then Inl (BadRequestException ''cURL import rejects shell operators and command substitution'')
      else sbind (tokenize content) (\<lambda>tokens.
        let args = (if take 1 tokens = [''curl''] then drop 1 tokens else tokens) in
        if args = [] then Inl (BadRequestException ''cURL command does not include a URL'') else Inr args))"

definition curl_query :: "web_tools \<Rightarrow> curl_state \<Rightarrow> string obj \<times> json option" where
  "curl_query wt st =
     (case cuBody st of
        Some (JStr b) \<Rightarrow> if cuGet st \<and> b \<noteq> [] then (from_entries (wtParams wt b), None) else ([], cuBody st)
      | _ \<Rightarrow> ([], cuBody st))"

definition parse_curl :: "web_tools \<Rightarrow> import_input \<Rightarrow> js_error + import_result" where
  "parse_curl wt input =
     sbind (ensure_content (inContent input) ''cURL'') (\<lambda>content.
     sbind (curl_arguments content) (\<lambda>args.
     sbind (curl_options curl_start args) (\<lambda>st.
     if cuUrl st = [] then Inl (BadRequestException ''cURL command does not include a URL'')
     else case curl_query wt st of (query, body) \<Rightarrow>
       sbind (split_url wt (cuUrl st)) (\<lambda>(path, url_query).
       sbind (normalize_method (Some (if cuMethod st = [] then ''GET'' else cuMethod st))) (\<lambda>method.
       let result = single_result (cuAuth st) (cuWarnings st)
             \<lparr>opId = stable_operation_id wt [''curl'', method, path], opName = method @ '' '' @ path,
              opMethod = method, opPath = path, opHeaders = clean_record (text_record (cuHeaders st)),
              opQuery = update_all url_query query, opBody = body,
              opResponses = Some [plain_response ''200'' ''Default cURL expectation''],
              opMetadata = JObj [(''sourceType'', JStr ''CURL''), (''rawCommand'', JStr content)]\<rparr>
       in Inr (result\<lparr>rsAuth := merge_auth_schemes (rsAuth result)\<rparr>))))))"

section \<open>Properties\<close>

text \<open>Quoting by single quotes, as the shells do it for arguments without one.\<close>

definition quote_argument :: "string \<Rightarrow> string" where
  "quote_argument a = CHR 0x27 # a @ [CHR 0x27]"

lemma tokenize_quoted:
  assumes "CHR 0x27 \<notin> set a"
  shows "tokenize_from tokens current (Some (CHR 0x27)) False (a @ CHR 0x27 # s)
    = tokenize_from tokens (current @ a) None False s"
  using assms by (induction a arbitrary: current) (auto simp: is_quote_def)

lemma tokenize_arguments:
  assumes "\<forall>a\<in>set args. a \<noteq> [] \<and> CHR 0x27 \<notin> set a"
  shows "tokenize_from tokens [] None False (join_with '' '' (map quote_argument args)) = Inr (tokens @ args)"
  using assms
proof (induction args arbitrary: tokens)
  case Nil
  then show ?case by (simp add: push_token_def)
next
  case (Cons a args)
  then have a: "a \<noteq> []" "CHR 0x27 \<notin> set a" by auto
  have ws: "is_ws (CHR '' '')" "\<not> is_quote (CHR '' '')" by (simp_all add: is_ws_def is_quote_def)
  show ?case
  proof (cases args)
    case Nil
    then show ?thesis
      using tokenize_quoted[OF a(2), of tokens "[]" "[]"] a(1)
      by (simp add: quote_argument_def is_quote_def push_token_def)
  next
    case (Cons b bs)
    then have "join_with '' '' (map quote_argument (a # args))
        = CHR 0x27 # a @ CHR 0x27 # CHR '' '' # join_with '' '' (map quote_argument args)"
      by (simp add: quote_argument_def)
    with tokenize_quoted[OF a(2), of tokens "[]" "CHR '' '' # join_with '' '' (map quote_argument args)"] a(1) ws
      Cons.IH[of "tokens @ [a]"] Cons.prems
    show ?thesis by (simp add: is_quote_def push_token_def)
  qed
qed

text \<open>
  The tokenizer reads back what a shell would pass on: arguments in single quotes with spaces between
  them come out as they are, with everything they contain (spaces, double quotes, backslashes), as long as they
  are not empty and contain no single quote.
\<close>
theorem quoted_arguments_read_back:
  assumes "\<forall>a\<in>set args. a \<noteq> [] \<and> CHR 0x27 \<notin> set a"
  shows "tokenize (join_with '' '' (map quote_argument args)) = Inr args"
  using tokenize_arguments[OF assms, of "[]"] by (simp add: tokenize_def)

lemma quoted_arguments_read_back_witness:
  "tokenize (join_with '' '' (map quote_argument [''curl'', ''-H'', ''X-Name: a b''])) = Inr [''curl'', ''-H'', ''X-Name: a b'']"
  by (rule quoted_arguments_read_back) simp

text \<open>
  A line that is continued with a backslash becomes a token of its own, a line feed, which then is taken for the
  URL; data given before \<open>-G\<close> makes the request a \<open>POST\<close>.
\<close>

lemma continued_line_becomes_url:
  "sbind (curl_arguments (''curl -X POST '' @ [CHR 0x5C, CHR 0x0A] @ '' https://a.test/x'')) (curl_options curl_start)
    = Inr (curl_start\<lparr>cuMethod := ''POST'', cuUrl := [CHR 0x0A]\<rparr>)"
  by code_simp

lemma data_before_get_posts:
  "map_sum id cuMethod (sbind (curl_arguments ''curl -d q=1 -G https://a.test/x'') (curl_options curl_start)) = Inr ''POST''"
  by code_simp

end
