(* ===== verification/Import_Postman.thy ===== *)
theory Import_Postman
  imports Import_Common
begin

text \<open>
  The parser of Postman collections (\<open>test-suites/import/parsers/postman-import.parser.ts\<close>).  Names and keys are
  read as the text JavaScript makes of them.
\<close>

section \<open>Parts of a request\<close>

text \<open>Lists of \<open>{ key, value, disabled }\<close>: headers, query parameters, URL-encoded bodies.\<close>

definition entry_text :: "json \<Rightarrow> string \<Rightarrow> string" where
  "entry_text e key = json_string (the (coalesce (json_get e key) (Some (JStr []))))"

definition postman_entries :: "json option \<Rightarrow> string obj" where
  "postman_entries v =
     (case v of
        Some (JArr es) \<Rightarrow> from_entries (filter (\<lambda>(k, _). k \<noteq> [])
          (map (\<lambda>e. (entry_text e ''key'', entry_text e ''value''))
            (filter (\<lambda>e. is_object e \<and> \<not> json_truthy_opt (json_get e ''disabled'')) es)))
      | _ \<Rightarrow> [])"

definition postman_url :: "json option \<Rightarrow> js_error + string" where
  "postman_url v =
     (case v of
        Some (JStr s) \<Rightarrow> Inr s
      | Some (JObj es) \<Rightarrow>
          (case map_of es ''raw'' of
             Some (JStr s) \<Rightarrow> Inr s
           | _ \<Rightarrow> (case map_of es ''path'' of
               Some (JArr ps) \<Rightarrow> Inr (CHR ''/'' # join_with ''/'' (map (\<lambda>p. if p = JNull then [] else json_string p) ps))
             | _ \<Rightarrow> Inl (BadRequestException ''Postman request is missing URL'')))
      | _ \<Rightarrow> Inl (BadRequestException ''Postman request is missing URL''))"

definition postman_query :: "json option \<Rightarrow> string obj" where
  "postman_query v = (case v of Some (JObj es) \<Rightarrow> postman_entries (map_of es ''query'') | _ \<Rightarrow> [])"

definition parse_maybe_json :: "string \<Rightarrow> json" where
  "parse_maybe_json s = (case json_parse s of Some j \<Rightarrow> j | None \<Rightarrow> JStr s)"

definition postman_body :: "json option \<Rightarrow> json option" where
  "postman_body v =
     (case v of
        Some (JObj es) \<Rightarrow>
          (case (map_of es ''mode'', map_of es ''raw'', map_of es ''urlencoded'') of
             (Some (JStr m), Some (JStr raw), _) \<Rightarrow>
               if m = ''raw'' then Some (parse_maybe_json raw)
               else if m = ''urlencoded'' \<and> (case map_of es ''urlencoded'' of Some (JArr _) \<Rightarrow> True | _ \<Rightarrow> False)
               then text_record (postman_entries (map_of es ''urlencoded'')) else v
           | (Some (JStr m), _, Some (JArr us)) \<Rightarrow>
               if m = ''urlencoded'' then text_record (postman_entries (Some (JArr us))) else v
           | _ \<Rightarrow> v)
      | _ \<Rightarrow> None)"

definition postman_response :: "json \<Rightarrow> js_error + imported_response" where
  "postman_response r =
     sbind (prop_of (Some r) ''code'') (\<lambda>code.
     Inr \<lparr>irStatus = json_string (the (coalesce code (Some (JStr ''200'')))),
          irDescription = (if json_truthy_opt (json_get r ''name'') then Some (json_string (the (json_get r ''name''))) else None),
          irBody = (case json_get r ''body'' of Some (JStr s) \<Rightarrow> Some (parse_maybe_json s) | b \<Rightarrow> b)\<rparr>)"

definition postman_responses :: "json option \<Rightarrow> js_error + imported_response list" where
  "postman_responses v = (case v of Some (JArr rs) \<Rightarrow> traverse postman_response rs | _ \<Rightarrow> Inr [])"

section \<open>Authentication\<close>

definition auth_entry :: "string \<Rightarrow> json list \<Rightarrow> json option" where
  "auth_entry key es = find (\<lambda>e. is_object e \<and> json_get e ''key'' = Some (JStr key)) es"

text \<open>The headers with the placeholder, the detected scheme, and the warning.\<close>

definition auth_suggested :: "string \<Rightarrow> import_warning" where
  "auth_suggested message =
     \<lparr>imCode = ''AUTH_SECRET_REFERENCE_SUGGESTED'', imSeverity = Sev_Info, imOperation = None, imMessage = message\<rparr>"

definition postman_auth ::
    "json option \<Rightarrow> string obj \<Rightarrow> string obj \<times> auth_scheme list \<times> import_warning list" where
  "postman_auth auth headers =
     (if \<not> json_truthy_opt auth then (headers, [], [])
      else
        let type = to_lower (json_string (the (coalesce (json_get (the auth) ''type'') (Some (JStr [])))));
            ws = (if type = [] then [] else
              [auth_suggested (''Postman '' @ type @ '' auth was converted to project secret references.'')]) in
        if type = ''bearer''
        then (AList.update ''Authorization'' bearer_placeholder headers,
              [(header_scheme Bearer_Auth ''bearer'' ''Authorization'' ''API_TOKEN'')\<lparr>ahMetadata := auth\<rparr>], ws)
        else if type = ''basic''
        then (AList.update ''Authorization'' basic_placeholder headers,
              [(header_scheme Basic_Auth ''basic'' ''Authorization'' ''BASIC_AUTH'')\<lparr>ahMetadata := auth\<rparr>], ws)
        else if type = ''apikey''
        then
          let es = (case json_get (the auth) ''apikey'' of Some (JArr es) \<Rightarrow> es | _ \<Rightarrow> []);
              name = json_string (the (coalesce (opt_prop (auth_entry ''key'' es) ''value'') (Some (JStr ''X-API-Key'')))) in
          if opt_prop (auth_entry ''in'' es) ''value'' = Some (JStr ''query'')
          then (headers, [\<lparr>ahType = Api_Key_Auth, ahName = name, ahLocation = Some ''query'', ahParameter = Some name,
                 ahSecret = Some ''API_KEY'', ahMetadata = auth\<rparr>], ws)
          else (AList.update name (secret_placeholder ''API_KEY'') headers,
                [(header_scheme Api_Key_Auth name name ''API_KEY'')\<lparr>ahMetadata := auth\<rparr>], ws)
        else if type = ''oauth2''
        then (AList.update ''Authorization'' bearer_placeholder headers,
              [\<lparr>ahType = Oauth_Auth, ahName = ''oauth2'', ahLocation = Some ''metadata'', ahParameter = None,
                ahSecret = Some ''API_TOKEN'', ahMetadata = auth\<rparr>], ws)
        else (headers, [], ws))"

section \<open>Operations\<close>

definition postman_operation ::
    "web_tools \<Rightarrow> json \<Rightarrow> string list \<Rightarrow> json option \<Rightarrow>
     js_error + imported_operation \<times> auth_scheme list \<times> import_warning list" where
  "postman_operation wt item parents auth =
     (let request = the (json_get item ''request'') in
      sbind (normalize_method (Some (json_string (the (coalesce (json_get request ''method'') (Some (JStr ''GET''))))))) (\<lambda>method.
      sbind (postman_url (json_get request ''url'')) (\<lambda>url.
      sbind (split_url wt url) (\<lambda>(path, url_query).
      case postman_auth auth (postman_entries (json_get request ''header'')) of (headers, as, ws) \<Rightarrow>
      sbind (postman_responses (json_get item ''response'')) (\<lambda>responses.
      let name = json_get item ''name'';
          name_or = (\<lambda>d. json_string (the (coalesce name (Some (JStr d))))) in
      Inr (\<lparr>opId = stable_operation_id wt ([''postman''] @ parents @ [name_or method, method, path]),
            opName = join_with '' / '' (filter (\<lambda>s. s \<noteq> []) (parents @ [name_or (method @ '' '' @ path)])),
            opMethod = method, opPath = path, opHeaders = clean_record (text_record headers),
            opQuery = clean_record (text_record (update_all url_query (postman_query (json_get request ''url'')))),
            opBody = postman_body (json_get request ''body''), opResponses = Some responses,
            opMetadata = JObj ([(''sourceType'', JStr ''POSTMAN''), (''folder'', JArr (map JStr parents))]
              @ (case name of None \<Rightarrow> [] | Some n \<Rightarrow> [(''rawName'', n)]))\<rparr>, as, ws))))))"

type_synonym import_parts = "imported_operation list \<times> auth_scheme list \<times> import_warning list"

definition no_parts :: import_parts where
  "no_parts = ([], [], [])"

definition join_parts :: "import_parts \<Rightarrow> import_parts \<Rightarrow> import_parts" where
  "join_parts a b = (case (a, b) of ((os, as, ws), (os', as', ws')) \<Rightarrow> (os @ os', as @ as', ws @ ws'))"

definition postman_leaf :: "web_tools \<Rightarrow> json \<Rightarrow> string list \<Rightarrow> json option \<Rightarrow> js_error + import_parts" where
  "postman_leaf wt item parents inherited =
     (case json_get item ''request'' of
        None \<Rightarrow> Inr no_parts
      | Some request \<Rightarrow>
          if \<not> is_object request then Inr no_parts
          else sbind (postman_operation wt item parents (coalesce (json_get request ''auth'') inherited)) (\<lambda>(o', as, ws).
            case sanitize_operation o' of (o2, as', ws') \<Rightarrow> Inr ([o2], as @ as', ws @ ws')))"

function walk_items :: "web_tools \<Rightarrow> json list \<Rightarrow> string list \<Rightarrow> json option \<Rightarrow> js_error + import_parts" where
  "walk_items wt [] parents inherited = Inr no_parts"
| "walk_items wt (item # items) parents inherited =
     sbind (prop_of (Some item) ''name'') (\<lambda>name.
     sbind (case item of
         JObj es \<Rightarrow> (case map_of es ''item'' of
             Some (JArr children) \<Rightarrow>
               walk_items wt children (parents @ [json_string (the (coalesce name (Some (JStr ''Folder''))))])
                 (coalesce (map_of es ''auth'') inherited)
           | _ \<Rightarrow> postman_leaf wt item parents inherited)
       | _ \<Rightarrow> Inr no_parts) (\<lambda>here.
     sbind (walk_items wt items parents inherited) (\<lambda>rest. Inr (join_parts here rest))))"
  by pat_completeness auto

termination walk_items
proof (relation "measure (\<lambda>(wt, items, parents, inherited). size_list size items)", goal_cases)
  case 1
  show ?case by simp
next
  case (2 wt item items parents inherited name es v children)
  then have "size (JArr children) < Suc (size_list (size_prod (\<lambda>_. 0) size) es)" by (intro map_of_size) auto
  with 2 show ?case by simp
qed simp_all

definition postman_document :: "web_tools \<Rightarrow> string \<Rightarrow> js_error + json" where
  "postman_document wt content =
     (case json_parse content of
        None \<Rightarrow> Inl (BadRequestException (''Invalid Postman collection JSON: '' @ wtSyntax wt content))
      | Some (JObj es) \<Rightarrow> Inr (JObj es)
      | Some _ \<Rightarrow> Inl (BadRequestException ''Postman collection must be an object''))"

definition parse_postman :: "web_tools \<Rightarrow> import_input \<Rightarrow> js_error + import_result" where
  "parse_postman wt input =
     sbind (ensure_content (inContent input) ''Postman'') (\<lambda>content.
     sbind (postman_document wt content) (\<lambda>document.
     case json_get document ''item'' of
       Some (JArr (i # is)) \<Rightarrow>
         sbind (walk_items wt (i # is) [] (json_get document ''auth'')) (\<lambda>(ops, as, ws).
         Inr \<lparr>rsOperations = ops, rsAuth = merge_auth_schemes as, rsWarnings = ws @ destructive_warnings ops\<rparr>)
     | _ \<Rightarrow> Inl (BadRequestException ''Postman collection must include item[]'')))"

end
