(* ===== verification/Import_Openapi.thy ===== *)
theory Import_Openapi
  imports Import_Common
begin

text \<open>
  The parser of OpenAPI documents (\<open>test-suites/import/parsers/openapi-import.parser.ts\<close>).  The document is the
  JSON value of \<open>yaml.load\<close>; the functions that push warnings return them beside their result.
\<close>

section \<open>The document and its references\<close>

definition parse_document :: "web_tools \<Rightarrow> string \<Rightarrow> js_error + json" where
  "parse_document wt content =
     (case wtYaml wt content of
        Inl (BadRequestException m) \<Rightarrow> Inl (BadRequestException m)
      | Inl e \<Rightarrow> Inl (BadRequestException (''Invalid OpenAPI document: '' @ error_message e))
      | Inr (Some (JObj es)) \<Rightarrow>
          if json_truthy_opt (map_of es ''openapi'') \<or> json_truthy_opt (map_of es ''swagger'') then Inr (JObj es)
          else Inl (BadRequestException ''OpenAPI document must include openapi or swagger version'')
      | Inr _ \<Rightarrow> Inl (BadRequestException ''OpenAPI document must be an object''))"

text \<open>\<open>part.replace(/~1/g, '/').replace(/~0/g, '~')\<close> is split and join (\<open>replace_text\<close>).\<close>

definition replace_text :: "string \<Rightarrow> string \<Rightarrow> string \<Rightarrow> string" where
  "replace_text old new s = join_with new (split_str old s)"

definition pointer_part :: "string \<Rightarrow> string" where
  "pointer_part part = replace_text ''~0'' ''~'' (replace_text ''~1'' ''/'' part)"

fun follow_pointer :: "json option \<Rightarrow> string list \<Rightarrow> json option" where
  "follow_pointer current [] = current"
| "follow_pointer current (part # parts) =
     follow_pointer (case current of Some (JObj es) \<Rightarrow> map_of es part | _ \<Rightarrow> None) parts"

definition external_reference :: "string \<Rightarrow> import_warning" where
  "external_reference ref =
     \<lparr>imCode = ''EXTERNAL_REF_IGNORED'', imSeverity = Sev_Warning, imOperation = None,
      imMessage = ''External OpenAPI reference was ignored: '' @ ref\<rparr>"

definition resolve_ref :: "json option \<Rightarrow> json \<Rightarrow> json option \<times> import_warning list" where
  "resolve_ref v document =
     (case v of
        Some (JObj es) \<Rightarrow>
          (case map_of es ''$ref'' of
             None \<Rightarrow> (v, [])
           | Some r \<Rightarrow>
               (let ref = json_string r in
                if \<not> starts_with ref ''#/'' then (None, [external_reference ref])
                else (follow_pointer (Some document) (map pointer_part (split_char (CHR ''/'') (drop 2 ref))), [])))
      | _ \<Rightarrow> (v, []))"

section \<open>Examples\<close>

text \<open>\<open>Object.values(v)\<close>, with the characters of a string.\<close>

fun values_of :: "json \<Rightarrow> json list" where
  "values_of (JStr s) = map (\<lambda>c. JStr [c]) s"
| "values_of v = map snd (entries_of v)"

text \<open>\<open>'example' in value\<close> throws for a value that is no object.\<close>

definition example_from :: "json \<Rightarrow> js_error + json option" where
  "example_from v =
     (if \<not> is_object v
      then Inl (TypeError (''Cannot use 'in' operator to search for 'example' in '' @ json_string v))
      else if has_key v ''example'' then Inr (json_get v ''example'')
      else (case json_get v ''examples'' of
          Some (JObj es) \<Rightarrow>
            (case es of
               [] \<Rightarrow> Inr None
             | (_, first) # _ \<Rightarrow>
                 if is_object first \<and> has_key first ''value'' then Inr (json_get first ''value'') else Inr (Some first))
        | _ \<Rightarrow> Inr None))"

definition first_media :: "json option \<Rightarrow> json option" where
  "first_media content =
     coalesce (opt_prop content ''application/json'')
       (case coalesce content (Some (JObj [])) of Some c \<Rightarrow> (case values_of c of [] \<Rightarrow> None | v # _ \<Rightarrow> Some v) | None \<Rightarrow> None)"

definition media_example :: "json option \<Rightarrow> js_error + json option" where
  "media_example media = (if json_truthy_opt media then example_from (the media) else Inr None)"

definition request_body_example :: "json option \<Rightarrow> json \<Rightarrow> js_error + json option \<times> import_warning list" where
  "request_body_example v document =
     (case resolve_ref v document of
        (Some (JObj es), ws) \<Rightarrow> sbind (media_example (first_media (map_of es ''content''))) (\<lambda>b. Inr (b, ws))
      | (_, ws) \<Rightarrow> Inr (None, ws))"

definition response_body_example :: "json option \<Rightarrow> js_error + json option" where
  "response_body_example response = media_example (first_media (opt_prop response ''content''))"

definition openapi_response :: "json \<Rightarrow> string \<times> json \<Rightarrow> js_error + imported_response \<times> import_warning list" where
  "openapi_response document e =
     (case e of (st, response) \<Rightarrow>
      (case resolve_ref (Some response) document of (resolved, ws) \<Rightarrow>
        sbind (response_body_example resolved) (\<lambda>body.
        Inr (\<lparr>irStatus = st,
              irDescription = (let d = opt_prop resolved ''description'' in
                if json_truthy_opt d then Some (json_string (the d)) else None),
              irBody = body\<rparr>, ws))))"

definition openapi_responses :: "json option \<Rightarrow> json \<Rightarrow> js_error + imported_response list \<times> import_warning list" where
  "openapi_responses v document =
     (case v of
        Some (JObj es) \<Rightarrow>
          sbind (traverse (openapi_response document) es) (\<lambda>rs. Inr (map fst rs, concat (map snd rs)))
      | _ \<Rightarrow> Inr ([], []))"

section \<open>Parameters\<close>

definition openapi_parameters :: "json option \<Rightarrow> json \<Rightarrow> json list \<times> import_warning list" where
  "openapi_parameters v document =
     (case v of
        Some (JArr ps) \<Rightarrow>
          (let rs = map (\<lambda>p. resolve_ref (Some p) document) ps in
           (concat (map (\<lambda>r. case fst r of Some (JObj es) \<Rightarrow> [JObj es] | _ \<Rightarrow> []) rs), concat (map snd rs)))
      | _ \<Rightarrow> ([], []))"

definition parameter_entry :: "json \<Rightarrow> js_error + (string \<times> string \<times> json option) list" where
  "parameter_entry p =
     (let name = json_string (the (coalesce (json_get p ''name'') (Some (JStr [])))) in
      if name = [] then Inr []
      else sbind (example_from p) (\<lambda>e.
        Inr [(name, json_string (the (coalesce e (Some (JStr [])))), json_get p ''in'')]))"

definition entries_in :: "string \<Rightarrow> (string \<times> string \<times> json option) list \<Rightarrow> string obj" where
  "entries_in position es =
     clean_record (text_record (from_entries (concat (map
       (\<lambda>(name, v, place_of). if place_of = Some (JStr position) then [(name, v)] else []) es))))"

definition request_parts :: "json list \<Rightarrow> js_error + string obj \<times> string obj" where
  "request_parts ps =
     sbind (traverse parameter_entry ps) (\<lambda>es.
     Inr (entries_in ''header'' (concat es), entries_in ''query'' (concat es)))"

section \<open>Security schemes\<close>

definition scheme_text :: "json \<Rightarrow> string \<Rightarrow> string \<Rightarrow> string" where
  "scheme_text scheme key other = json_string (the (coalesce (json_get scheme key) (Some (JStr other))))"

definition detect_scheme :: "string \<times> json \<Rightarrow> js_error + auth_scheme list" where
  "detect_scheme e =
     (case e of (name, scheme) \<Rightarrow>
      sbind (prop_of (Some scheme) ''type'') (\<lambda>t.
      let type = to_lower (json_string (the (coalesce t (Some (JStr [])))));
          location = scheme_text scheme ''in'' ''metadata'';
          kind = to_lower (scheme_text scheme ''scheme'' []) in
      Inr (if type = ''http'' \<and> kind = ''bearer''
           then [(header_scheme Bearer_Auth name ''Authorization'' ''API_TOKEN'')\<lparr>ahMetadata := Some scheme\<rparr>]
           else if type = ''http'' \<and> kind = ''basic''
           then [(header_scheme Basic_Auth name ''Authorization'' ''BASIC_AUTH'')\<lparr>ahMetadata := Some scheme\<rparr>]
           else if type = ''apiKey''
           then [\<lparr>ahType = Api_Key_Auth, ahName = name,
                  ahLocation = Some (if location \<in> {''header'', ''query'', ''cookie''} then location else ''metadata''),
                  ahParameter = Some (scheme_text scheme ''name'' name), ahSecret = Some ''API_KEY'',
                  ahMetadata = Some scheme\<rparr>]
           else if type = ''oauth2'' \<or> type = ''openIdConnect''
           then [\<lparr>ahType = Oauth_Auth, ahName = name, ahLocation = Some ''metadata'', ahParameter = None,
                  ahSecret = Some ''API_TOKEN'', ahMetadata = Some scheme\<rparr>]
           else [])))"

definition detect_security_schemes :: "json \<Rightarrow> js_error + auth_scheme list" where
  "detect_security_schemes document =
     (case coalesce (opt_prop (json_get document ''components'') ''securitySchemes'') (Some (JObj [])) of
        None \<Rightarrow> Inr []
      | Some schemes \<Rightarrow> sbind (traverse detect_scheme (entries_of schemes)) (\<lambda>as. Inr (concat as)))"

text \<open>\<open>record[key] = record[key] ?? value\<close>\<close>

definition set_default :: "string \<Rightarrow> string \<Rightarrow> string obj \<Rightarrow> string obj" where
  "set_default key v es = (if map_of es key = None then es @ [(key, v)] else es)"

definition apply_scheme :: "auth_scheme \<Rightarrow> string obj \<times> string obj \<Rightarrow> string obj \<times> string obj" where
  "apply_scheme a request =
     (case request of (headers, query) \<Rightarrow>
      (case ahType a of
         Basic_Auth \<Rightarrow> (set_default ''Authorization'' basic_placeholder headers, query)
       | Api_Key_Auth \<Rightarrow>
           (let key = (case ahParameter a of None \<Rightarrow> ahName a | Some p \<Rightarrow> p) in
            if ahLocation a = Some ''query'' then (headers, set_default key (secret_placeholder ''API_KEY'') query)
            else (set_default key (secret_placeholder ''API_KEY'') headers, query))
       | _ \<Rightarrow> (set_default ''Authorization'' bearer_placeholder headers, query)))"

definition referenced_names :: "json list \<Rightarrow> string list" where
  "referenced_names security = concat (map (\<lambda>r. case r of JObj es \<Rightarrow> map fst es | _ \<Rightarrow> []) security)"

definition security_converted :: import_warning where
  "security_converted =
     \<lparr>imCode = ''AUTH_SECRET_REFERENCE_SUGGESTED'', imSeverity = Sev_Info, imOperation = None,
      imMessage = ''OpenAPI security schemes were converted to project secret references.''\<rparr>"

definition apply_security ::
    "string obj \<times> string obj \<Rightarrow> json option \<Rightarrow> json option \<Rightarrow> auth_scheme list \<Rightarrow>
     (string obj \<times> string obj) \<times> import_warning list" where
  "apply_security request operation_security document_security as =
     (case (if operation_security = None then document_security else operation_security) of
        Some (JArr (r # rs)) \<Rightarrow>
          if as = [] then (request, [])
          else (fold apply_scheme (filter (\<lambda>a. ahName a \<in> set (referenced_names (r # rs))) as) request,
                [security_converted])
      | _ \<Rightarrow> (request, []))"

section \<open>Operations\<close>

definition given :: "string \<Rightarrow> json option \<Rightarrow> json obj" where
  "given key v = (case v of None \<Rightarrow> [] | Some j \<Rightarrow> [(key, j)])"

text \<open>The body of the loop over the methods of a path: the operations, schemes and warnings so far are extended.\<close>

definition openapi_operation ::
    "web_tools \<Rightarrow> json \<Rightarrow> string \<Rightarrow> json list \<Rightarrow> string \<Rightarrow> json \<Rightarrow>
     imported_operation list \<times> auth_scheme list \<times> import_warning list \<Rightarrow>
     js_error + imported_operation list \<times> auth_scheme list \<times> import_warning list" where
  "openapi_operation wt document path path_parameters method operation sofar =
     (case sofar of (ops, as, ws) \<Rightarrow>
      case openapi_parameters (json_get operation ''parameters'') document of (own, ws1) \<Rightarrow>
      sbind (request_parts (path_parameters @ own)) (\<lambda>parts.
      case apply_security parts (json_get operation ''security'') (json_get document ''security'') as
        of ((headers, query), ws2) \<Rightarrow>
      sbind (openapi_responses (json_get operation ''responses'') document) (\<lambda>(responses, ws3).
      sbind (request_body_example (json_get operation ''requestBody'') document) (\<lambda>(body, ws4).
      let oid = json_get operation ''operationId'';
          imported =
            \<lparr>opId = json_string (the (coalesce oid (Some (JStr (stable_operation_id wt [''openapi'', method, path]))))),
             opName = json_string (the (coalesce (json_get operation ''summary'')
               (coalesce oid (Some (JStr (to_upper method @ '' '' @ path)))))),
             opMethod = to_upper method, opPath = path, opHeaders = headers, opQuery = query, opBody = body,
             opResponses = Some responses,
             opMetadata = JObj ([(''sourceType'', JStr ''OPENAPI'')] @ given ''operationId'' oid
               @ given ''tags'' (json_get operation ''tags'')
               @ given ''security'' (coalesce (json_get operation ''security'') (json_get document ''security'')))\<rparr>
      in case sanitize_operation imported of (o2, as', ws5) \<Rightarrow>
        Inr (ops @ [o2], as @ as', ws @ ws1 @ ws2 @ ws3 @ ws4 @ ws5)))))"

fun openapi_methods ::
    "web_tools \<Rightarrow> json \<Rightarrow> string \<Rightarrow> json \<Rightarrow> json list \<Rightarrow> string list \<Rightarrow>
     imported_operation list \<times> auth_scheme list \<times> import_warning list \<Rightarrow>
     js_error + imported_operation list \<times> auth_scheme list \<times> import_warning list" where
  "openapi_methods wt document path item path_parameters [] sofar = Inr sofar"
| "openapi_methods wt document path item path_parameters (m # ms) sofar =
     sbind (case json_get item m of
         None \<Rightarrow> Inr sofar
       | Some operation \<Rightarrow>
           if is_object operation then openapi_operation wt document path path_parameters m operation sofar else Inr sofar)
       (openapi_methods wt document path item path_parameters ms)"

fun openapi_paths ::
    "web_tools \<Rightarrow> json \<Rightarrow> json obj \<Rightarrow> imported_operation list \<times> auth_scheme list \<times> import_warning list \<Rightarrow>
     js_error + imported_operation list \<times> auth_scheme list \<times> import_warning list" where
  "openapi_paths wt document [] sofar = Inr sofar"
| "openapi_paths wt document ((path, item) # paths) sofar =
     sbind (if \<not> is_object item then Inr sofar
       else (case openapi_parameters (json_get item ''parameters'') document of (path_parameters, ws1) \<Rightarrow>
         case sofar of (ops, as, ws) \<Rightarrow>
         openapi_methods wt document path item path_parameters (map to_lower http_methods) (ops, as, ws @ ws1)))
       (openapi_paths wt document paths)"

definition parse_openapi :: "web_tools \<Rightarrow> import_input \<Rightarrow> js_error + import_result" where
  "parse_openapi wt input =
     sbind (ensure_content (inContent input) ''OpenAPI'') (\<lambda>content.
     sbind (parse_document wt content) (\<lambda>document.
     case json_get document ''paths'' of
       Some (JObj paths) \<Rightarrow>
         sbind (detect_security_schemes document) (\<lambda>schemes.
         sbind (openapi_paths wt document paths ([], schemes, [])) (\<lambda>(ops, as, ws).
         Inr \<lparr>rsOperations = ops, rsAuth = merge_auth_schemes as, rsWarnings = ws @ destructive_warnings ops\<rparr>))
     | _ \<Rightarrow> Inl (BadRequestException ''OpenAPI document must include paths'')))"

section \<open>What the scheme detection misses\<close>

lemma lower_case_only: "to_lower s \<noteq> ''apiKey'' \<and> to_lower s \<noteq> ''openIdConnect''"
proof -
  have no: "lower_char c \<noteq> CHR ''K'' \<and> lower_char c \<noteq> CHR ''I''" for c
  proof -
    have "(of_char (lower_char c) :: nat) \<noteq> 75 \<and> (of_char (lower_char c) :: nat) \<noteq> 73"
      by (auto simp: lower_char_def Let_def)
    then show ?thesis by auto
  qed
  then have "CHR ''K'' \<notin> set (to_lower s) \<and> CHR ''I'' \<notin> set (to_lower s)"
    unfolding to_lower_def by (metis (no_types) imageE list.set_map)
  moreover have "CHR ''K'' \<in> set ''apiKey''" "CHR ''I'' \<in> set ''openIdConnect''" by simp_all
  ultimately show ?thesis by metis
qed

text \<open>The type is lower-cased and compared with \<open>'apiKey'\<close>: no API key of a document is ever detected.\<close>

lemma api_key_schemes_are_missed:
  assumes "detect_security_schemes document = Inr as" "a \<in> set as"
  shows "ahType a \<noteq> Api_Key_Auth"
proof -
  have one: "ahType a \<noteq> Api_Key_Auth" if "detect_scheme e = Inr bs" "a \<in> set bs" for e bs
    using that lower_case_only
    by (cases e) (auto simp: detect_scheme_def Let_def header_scheme_def split: if_splits)
  consider (found) schemes bss where "traverse detect_scheme (entries_of schemes) = Inr bss" "as = concat bss"
    | (missing) "as = []"
    using assms(1) by (auto simp: detect_security_schemes_def split: option.splits)
  then show ?thesis
  proof cases
    case found
    with assms(2) obtain bs where bs: "bs \<in> set bss" "a \<in> set bs" by auto
    with found(1) obtain e where "detect_scheme e = Inr bs" by (blast dest: traverse_member)
    with one bs(2) show ?thesis by blast
  qed (use assms(2) in simp)
qed

end
