(* ===== verification/Import_Bruno.thy ===== *)
theory Import_Bruno
  imports Import_Common
begin

text \<open>
  The parser of Bruno files and OpenCollection YAML (\<open>test-suites/import/parsers/bruno-import.parser.ts\<close>).
\<close>

section \<open>Blocks and dictionaries\<close>

text \<open>
  \<open>/([A-Za-z][A-Za-z0-9:-]*)\s*\{/g\<close>: no name character is a space or a brace, so the longest name is the only
  one to try at a position.
\<close>

definition is_letter :: "char \<Rightarrow> bool" where
  "is_letter c = (let n = (of_char c :: nat) in (65 \<le> n \<and> n \<le> 90) \<or> (97 \<le> n \<and> n \<le> 122))"

definition is_block_char :: "char \<Rightarrow> bool" where
  "is_block_char c = (is_letter c \<or> is_digit c \<or> c = CHR '':'' \<or> c = CHR ''-'')"

definition block_head :: "string \<Rightarrow> (string \<times> string) option" where
  "block_head s =
     (case s of
        [] \<Rightarrow> None
      | c # _ \<Rightarrow>
          if is_letter c
          then (case dropWhile is_ws (dropWhile is_block_char s) of
              CHR 0x7B # rest \<Rightarrow> Some (takeWhile is_block_char s, rest)
            | _ \<Rightarrow> None)
          else None)"

fun next_block :: "string \<Rightarrow> (string \<times> string) option" where
  "next_block [] = None"
| "next_block (c # s) = (case block_head (c # s) of Some m \<Rightarrow> Some m | None \<Rightarrow> next_block s)"

text \<open>The text up to the brace that closes the block, and what follows it.\<close>

fun close_block :: "nat \<Rightarrow> string \<Rightarrow> (string \<times> string) option" where
  "close_block depth [] = None"
| "close_block depth (c # s) =
     (if c = CHR 0x7D \<and> depth = 1 then Some ([], s)
      else map_option (\<lambda>(body, rest). (c # body, rest))
        (close_block (if c = CHR 0x7B then depth + 1 else if c = CHR 0x7D then depth - 1 else depth) s))"

lemma block_head_shorter: "block_head s = Some (name, rest) \<Longrightarrow> length rest < length s"
proof (unfold block_head_def, cases s)
  case (Cons c t)
  assume "(case s of [] \<Rightarrow> None | c # _ \<Rightarrow>
      if is_letter c then (case dropWhile is_ws (dropWhile is_block_char s) of
          CHR 0x7B # rest \<Rightarrow> Some (takeWhile is_block_char s, rest) | _ \<Rightarrow> None) else None) = Some (name, rest)"
  then have "dropWhile is_ws (dropWhile is_block_char s) = CHR 0x7B # rest"
    using Cons by (auto split: if_splits list.splits char.splits bool.splits)
  then have "length (CHR 0x7B # rest) \<le> length s"
    using length_dropWhile_le[of is_ws "dropWhile is_block_char s"] length_dropWhile_le[of is_block_char s] by simp
  then show ?thesis by simp
qed simp

lemma next_block_shorter: "next_block s = Some (name, rest) \<Longrightarrow> length rest < length s"
proof (induction s)
  case (Cons c s)
  then show ?case by (cases "block_head (c # s)") (auto dest: block_head_shorter)
qed simp

lemma close_block_shorter: "close_block depth s = Some (body, rest) \<Longrightarrow> length rest < length s"
  by (induction s arbitrary: depth body) (auto split: if_splits intro: less_SucI)

function bru_blocks :: "string \<Rightarrow> (string \<times> string) list" where
  "bru_blocks s =
     (case next_block s of
        None \<Rightarrow> []
      | Some (name, rest) \<Rightarrow>
          (case close_block 1 rest of
             Some (body, rest') \<Rightarrow> (name, trim body) # bru_blocks rest'
           | None \<Rightarrow> bru_blocks rest))"
  by pat_completeness auto

termination
  by (relation "measure length") (auto dest!: next_block_shorter close_block_shorter)

declare bru_blocks.simps [simp del]

text \<open>\<open>split(/\r?\n/)\<close> and \<open>trim\<close> of every line are the same as the split at line feeds and \<open>trim\<close>.\<close>

definition dictionary_line :: "string \<Rightarrow> string \<times> string" where
  "dictionary_line line =
     (let key = takeWhile (\<lambda>c. c \<noteq> CHR '':'') line in (trim key, trim (drop (length key + 1) line)))"

definition dictionary :: "string option \<Rightarrow> string obj" where
  "dictionary content =
     (if \<not> truthy_str content then []
      else from_entries (filter (\<lambda>(k, _). k \<noteq> []) (map dictionary_line
        (filter (\<lambda>line. line \<noteq> [] \<and> \<not> starts_with line ''~'' \<and> CHR '':'' \<in> set line)
          (map trim (split_char (CHR 0x0A) (the content)))))))"

section \<open>Requests in \<open>.bru\<close> files\<close>

definition bruno_methods :: "string list" where
  "bruno_methods = [''get'', ''post'', ''put'', ''patch'', ''delete'', ''head'', ''options'']"

definition find_block :: "(string \<Rightarrow> bool) \<Rightarrow> (string \<times> string) list \<Rightarrow> (string \<times> string) option" where
  "find_block P blocks = find (\<lambda>b. P (fst b)) blocks"

definition block_dictionary :: "string \<Rightarrow> (string \<times> string) list \<Rightarrow> string obj" where
  "block_dictionary name blocks = dictionary (map_option snd (find_block (\<lambda>n. n = name) blocks))"

definition bruno_body :: "web_tools \<Rightarrow> (string \<times> string) option \<Rightarrow> json option" where
  "bruno_body wt block =
     (case block of
        None \<Rightarrow> None
      | Some (_, body) \<Rightarrow>
          (case json_parse (trim body) of
             Some j \<Rightarrow> Some j
           | None \<Rightarrow> (case wtYaml wt (trim body) of Inr v \<Rightarrow> v | Inl e \<Rightarrow> Some (JStr (trim body)))))"

definition executable_block :: "string \<Rightarrow> bool" where
  "executable_block name = (starts_with name ''script'' \<or> name = ''tests'' \<or> name = ''test'')"

definition without_suffix :: "string \<Rightarrow> string \<Rightarrow> string" where
  "without_suffix suffix s = (if ends_with s suffix then take (length s - length suffix) s else s)"

definition parse_bru ::
    "web_tools \<Rightarrow> string \<Rightarrow> string \<Rightarrow> js_error + imported_operation list \<times> import_warning list" where
  "parse_bru wt content file =
     (let blocks = bru_blocks content;
          ws = (if list_ex (\<lambda>b. executable_block (fst b)) blocks
                then [ignored_executable_warning (''Bruno '' @ file)] else []);
          meta = block_dictionary ''meta'' blocks in
      case find_block (\<lambda>n. n \<in> set bruno_methods) blocks of
        None \<Rightarrow> Inr ([], ws)
      | Some (verb, data) \<Rightarrow>
          sbind (split_url wt (case map_of (dictionary (Some data)) ''url'' of Some u \<Rightarrow> u | None \<Rightarrow> ''/'')) (\<lambda>(path, query).
          sbind (normalize_method (Some verb)) (\<lambda>method.
          Inr ([\<lparr>opId = stable_operation_id wt [''bruno'', file, verb, path],
                 opName = (case map_of meta ''name'' of Some n \<Rightarrow> n | None \<Rightarrow> without_suffix ''.bru'' file),
                 opMethod = method, opPath = path, opHeaders = block_dictionary ''headers'' blocks,
                 opQuery = update_all query (block_dictionary ''params:query'' blocks),
                 opBody = bruno_body wt (find_block (\<lambda>n. n = ''body'' \<or> starts_with n ''body:'') blocks),
                 opResponses = Some [plain_response ''200'' ''Default Bruno expectation''],
                 opMetadata = JObj [(''sourceType'', JStr ''BRUNO''), (''fileName'', JStr file), (''meta'', the (text_record meta))]\<rparr>],
               ws))))"

section \<open>OpenCollection YAML\<close>

function flatten_items :: "json list \<Rightarrow> json list" where
  "flatten_items [] = []"
| "flatten_items (item # items) =
     (case item of
        JObj es \<Rightarrow> JObj es #
          (case coalesce (map_of es ''items'') (coalesce (map_of es ''item'') (map_of es ''requests'')) of
             Some (JArr children) \<Rightarrow> flatten_items children
           | _ \<Rightarrow> [])
      | _ \<Rightarrow> []) @ flatten_items items"
  by pat_completeness auto

termination flatten_items
proof (relation "measure (size_list size)", goal_cases)
  case 1
  show ?case by simp
next
  case (2 item items es v children)
  then obtain k where "map_of es k = Some (JArr children)" by (auto simp: coalesce_def split: if_splits)
  then have "size (JArr children) < Suc (size_list (size_prod (\<lambda>_. 0) size) es)" by (rule map_of_size)
  with 2 show ?case by simp
qed simp_all

definition collection_items :: "json obj \<Rightarrow> json list" where
  "collection_items document =
     (case List.map_filter (\<lambda>k. case map_of document k of Some (JArr xs) \<Rightarrow> Some xs | _ \<Rightarrow> None)
         [''requests'', ''items'', ''item'', ''collection''] of
        xs # _ \<Rightarrow> flatten_items xs
      | [] \<Rightarrow> if list_ex (\<lambda>k. json_truthy_opt (map_of document k)) [''method'', ''url'', ''path''] then [JObj document] else [])"

definition collection_operation ::
    "web_tools \<Rightarrow> string \<Rightarrow> nat \<times> json \<Rightarrow> js_error + imported_operation list" where
  "collection_operation wt file e =
     (case e of (index, item) \<Rightarrow>
      sbind (if json_truthy_opt (json_get item ''method'')
             then sbind (normalize_method (Some (json_string (the (json_get item ''method''))))) (\<lambda>m. Inr (Some m))
             else Inr None) (\<lambda>verb.
      let url = json_string (the (coalesce (json_get item ''url'') (coalesce (json_get item ''path'') (Some (JStr []))))) in
      if verb = None \<or> url = [] then Inr []
      else sbind (split_url wt url) (\<lambda>(path, query).
        let method = the verb in
        Inr [\<lparr>opId = stable_operation_id wt [''bruno-yaml'', file, dec_nat index, method, path],
              opName = json_string (the (coalesce (json_get item ''name'') (Some (JStr (method @ '' '' @ path))))),
              opMethod = method, opPath = path, opHeaders = clean_record (json_get item ''headers''),
              opQuery = update_all query (clean_record (coalesce (json_get item ''query'') (json_get item ''params''))),
              opBody = json_get item ''body'',
              opResponses = Some [plain_response
                (json_string (the (coalesce (json_get item ''expectedStatus'') (Some (JStr ''200''))))) ''Default Bruno expectation''],
              opMetadata = JObj [(''sourceType'', JStr ''BRUNO''), (''fileName'', JStr file), (''format'', JStr ''OpenCollection YAML'')]\<rparr>])))"

definition parse_open_collection ::
    "web_tools \<Rightarrow> string \<Rightarrow> string \<Rightarrow> js_error + imported_operation list \<times> import_warning list" where
  "parse_open_collection wt content file =
     (case wtYaml wt content of
        Inl e \<Rightarrow> parse_bru wt content file
      | Inr (Some (JObj document)) \<Rightarrow>
          (let items = collection_items document in
           sbind (traverse (collection_operation wt file) (zip [0..<length items] items)) (\<lambda>ops. Inr (concat ops, [])))
      | Inr _ \<Rightarrow> Inr ([], []))"

section \<open>The parser\<close>

definition looks_like_yaml :: "string \<Rightarrow> bool" where
  "looks_like_yaml content =
     list_ex (\<lambda>line. list_ex (starts_with line) [''requests:'', ''items:'', ''item:'', ''collection:'', ''method:''])
       (split_char (CHR 0x0A) (map (\<lambda>c. if c = CHR 0x0D then CHR 0x0A else c) (trim_start content)))"

definition bruno_contents :: "import_input \<Rightarrow> js_error + string obj" where
  "bruno_contents input =
     (case (case inFiles input of None \<Rightarrow> [] | Some fs \<Rightarrow> fs) of
        [] \<Rightarrow> sbind (ensure_content (inContent input) ''Bruno'') (\<lambda>c. Inr [(''pasted.bru'', c)])
      | files \<Rightarrow> Inr (filter (\<lambda>(name, _). list_ex (ends_with name) [''.bru'', ''.yaml'', ''.yml'']) files))"

definition parse_bruno_file ::
    "web_tools \<Rightarrow> string \<times> string \<Rightarrow> js_error + imported_operation list \<times> import_warning list" where
  "parse_bruno_file wt e =
     (case e of (name, content) \<Rightarrow>
      if looks_like_yaml content then parse_open_collection wt content name else parse_bru wt content name)"

definition parse_bruno :: "web_tools \<Rightarrow> import_input \<Rightarrow> js_error + import_result" where
  "parse_bruno wt input =
     sbind (bruno_contents input) (\<lambda>files.
     sbind (traverse (parse_bruno_file wt) files) (\<lambda>results.
     let ops = concat (map fst results); ws = concat (map snd results) in
     if ops = [] then Inl (BadRequestException ''Bruno import did not include supported HTTP requests'')
     else
       let ss = map sanitize_operation ops; sanitized = map fst ss in
       Inr \<lparr>rsOperations = sanitized, rsAuth = merge_auth_schemes (concat (map (\<lambda>(_, as, _). as) ss)),
            rsWarnings = ws @ concat (map (\<lambda>(_, _, w). w) ss) @ destructive_warnings sanitized\<rparr>))"

end
