(* ===== verification/Import_Flow.thy ===== *)
theory Import_Flow
  imports Import_Curl Import_Postman Import_Openapi Import_Bruno Plan_Props Run_Creation
begin

text \<open>
  From imported operations to a visual flow (\<open>test-suites/import/import-flow.factory.ts\<close>), and the service
  behind the import routes (\<open>test-suites/import/api-import.service.ts\<close>).
\<close>

section \<open>ImportFlowFactory\<close>

definition template_names :: "string list" where
  "template_names = [''SMOKE_TEST'', ''AUTHENTICATED_JOURNEY'', ''CRUD_LIFECYCLE'', ''ASYNC_POLLING'', ''READINESS_TEST'']"

definition info_warning :: "string \<Rightarrow> severity \<Rightarrow> string \<Rightarrow> import_warning" where
  "info_warning code sev message = \<lparr>imCode = code, imSeverity = sev, imOperation = None, imMessage = message\<rparr>"

definition crud_rank :: "imported_operation \<Rightarrow> int" where
  "crud_rank o' =
     (let m = to_upper (opMethod o') in
      if m = ''POST'' then 0 else if m = ''GET'' then 1 else if m = ''PUT'' \<or> m = ''PATCH'' then 2
      else if m = ''DELETE'' then 3 else 4)"

definition method_in :: "string list \<Rightarrow> imported_operation \<Rightarrow> bool" where
  "method_in ms o' = (to_upper (opMethod o') \<in> set ms)"

text \<open>\<open>/health|ready|readiness|live|status/i\<close> and \<open>/status|health|ready|progress|poll/i\<close>.\<close>

definition path_matches :: "string list \<Rightarrow> imported_operation \<Rightarrow> bool" where
  "path_matches words o' = list_ex (includes_ci (opPath o')) words"

definition readiness_words :: "string list" where
  "readiness_words = [''health'', ''ready'', ''readiness'', ''live'', ''status'']"

definition poll_words :: "string list" where
  "poll_words = [''status'', ''health'', ''ready'', ''progress'', ''poll'']"

definition select_operations ::
    "string \<Rightarrow> imported_operation list \<Rightarrow> imported_operation list \<times> import_warning list" where
  "select_operations template ops =
     (if template = ''SMOKE_TEST''
      then (let safe = filter (method_in [''GET'', ''HEAD'', ''OPTIONS'']) ops in
        (if safe = [] then ops else safe,
         if length safe < length ops
         then [info_warning ''SMOKE_TEMPLATE_FILTERED_MUTATIONS'' Sev_Info ''Smoke test template uses only read-only operations.'']
         else []))
      else if template = ''READINESS_TEST''
      then (let ready = filter (path_matches readiness_words) ops in
        (if ready = [] then filter (method_in [''GET'', ''HEAD'']) ops else ready,
         if ready = []
         then [info_warning ''READINESS_ENDPOINT_NOT_FOUND'' Sev_Warning
           ''No obvious readiness endpoint was found; selected read-only operations will be used.'']
         else []))
      else if template = ''CRUD_LIFECYCLE'' then (sort_by (\<lambda>l r. crud_rank l - crud_rank r) ops, [])
      else (ops, []))"

definition import_node_id :: "web_tools \<Rightarrow> imported_operation \<Rightarrow> nat \<Rightarrow> string \<Rightarrow> string" where
  "import_node_id wt o' index prefix = stable_operation_id wt [prefix, dec_nat (index + 1), opId o']"

definition text_entries :: "string obj \<Rightarrow> json obj" where
  "text_entries es = map (\<lambda>(k, v). (k, JStr v)) es"

definition api_node :: "web_tools \<Rightarrow> imported_operation \<Rightarrow> nat \<Rightarrow> flow_node" where
  "api_node wt o' index =
     (blank_node (import_node_id wt o' index ''api'') ''apiRequest'')
       \<lparr>nVersion := Some ''apiRequest/v1'', nName := Some (opName o'), nMethod := Some (to_upper (opMethod o')),
        nPath := Some (opPath o'), nHeaders := Some (text_entries (opHeaders o')),
        nQuery := Some (text_entries (opQuery o')), nJsonBody := opBody o',
        nExpectStatus := Some (JNum (expected_status (opResponses o'))), nTimeoutMs := Some (Fin 30000),
        nRetryPolicy := Some \<lparr>maxAttempts = Fin 1, backoffMs = Fin 0\<rparr>, nContinueOnFailure := Some False\<rparr>"

definition poll_node :: "web_tools \<Rightarrow> imported_operation \<Rightarrow> nat \<Rightarrow> flow_node" where
  "poll_node wt o' index =
     (api_node wt o' index)
       \<lparr>nId := Some (import_node_id wt o' index ''poll''), nType := Some ''pollUntil'', nVersion := Some ''pollUntil/v1'',
        nTimeoutSeconds := Some (Fin 60), nIntervalSeconds := Some (Fin 2),
        nFailureMessage := Some (''Polling '' @ opPath o' @ '' did not reach expected status.'')\<rparr>"

definition async_polling_nodes ::
    "web_tools \<Rightarrow> imported_operation list \<Rightarrow> flow_node list \<times> import_warning list" where
  "async_polling_nodes wt ops =
     (case ops of
        [] \<Rightarrow> ([], [])
      | start # rest \<Rightarrow>
          (case (case find (path_matches poll_words) rest of Some o' \<Rightarrow> Some o' | None \<Rightarrow> find (path_matches poll_words) ops) of
             Some p \<Rightarrow>
               if opId p = opId start
               then ([api_node wt start 0], [info_warning ''ASYNC_POLL_ENDPOINT_NOT_FOUND'' Sev_Warning
                 ''Async polling template could not find a distinct status endpoint; generated a single request step.''])
               else ([api_node wt start 0, poll_node wt p 1], [])
           | None \<Rightarrow> ([api_node wt start 0], [info_warning ''ASYNC_POLL_ENDPOINT_NOT_FOUND'' Sev_Warning
               ''Async polling template could not find a distinct status endpoint; generated a single request step.''])))"

definition linear_edges :: "flow_node list \<Rightarrow> flow_edge list" where
  "linear_edges ns =
     map (\<lambda>(a, b). \<lparr>eId = ''edge-'' @ node_id a @ ''-'' @ node_id b, eSource = node_id a, eTarget = node_id b\<rparr>)
       (zip ns (tl ns))"

definition flow_nodes ::
    "web_tools \<Rightarrow> string \<Rightarrow> imported_operation list \<Rightarrow> flow_node list \<times> import_warning list" where
  "flow_nodes wt template selected =
     (if template = ''ASYNC_POLLING'' then async_polling_nodes wt selected
      else (map (\<lambda>(i, o'). api_node wt o' i) (zip [0..<length selected] selected), []))"

definition create_flow ::
    "web_tools \<Rightarrow> string option \<Rightarrow> string \<Rightarrow> imported_operation list \<Rightarrow> bool \<Rightarrow>
     js_error + flow_suite \<times> import_warning list" where
  "create_flow wt name template ops acknowledged =
     (if blank name then bad ''Suite name is required''
      else if ops = [] then bad ''At least one imported operation must be selected''
      else if list_ex (\<lambda>o'. is_destructive (opMethod o')) ops \<and> \<not> acknowledged
      then bad ''Destructive imported operations require acknowledgeDestructive=true''
      else (case select_operations template ops of (selected, ws) \<Rightarrow>
        if selected = [] then bad ''Selected template did not produce any flow steps''
        else (case flow_nodes wt template selected of (ns, ws') \<Rightarrow>
          Inr (\<lparr>fVersion = Some ''1.1'', fSuiteName = Some (trim (the name)), fNodes = Elements ns,
                fEdges = Elements (linear_edges ns)\<rparr>, ws @ ws'))))"

section \<open>ApiImportService\<close>

definition max_import_chars :: nat where
  "max_import_chars = 1024 * 1024"

definition normalize_input :: "import_input \<Rightarrow> js_error + import_input" where
  "normalize_input input =
     (let files = (case inFiles input of None \<Rightarrow> [] | Some fs \<Rightarrow> fs);
          size = (case inContent input of None \<Rightarrow> 0 | Some c \<Rightarrow> length c) + sum_list (map (length \<circ> snd) files) in
      if max_import_chars < size then bad ''API import content exceeds the 1 MiB limit''
      else if inSource input \<noteq> ''BRUNO'' \<and> inSource input \<noteq> ''MANUAL'' \<and> blank (inContent input) \<and> inFiles input \<noteq> None
      then Inr (input\<lparr>inContent := (case files of [] \<Rightarrow> None | (_, c) # _ \<Rightarrow> Some c)\<rparr>)
      else Inr input)"

definition parse_import :: "web_tools \<Rightarrow> import_input \<Rightarrow> js_error + import_result" where
  "parse_import wt input =
     (if inSource input = ''OPENAPI'' then parse_openapi wt input
      else if inSource input = ''POSTMAN'' then parse_postman wt input
      else if inSource input = ''BRUNO'' then parse_bruno wt input
      else if inSource input = ''CURL'' then parse_curl wt input
      else if inSource input = ''MANUAL'' then parse_manual wt input
      else bad ''Unsupported API import source type'')"

record import_preview = import_result +
  ivTemplates :: "string list"
  ivSecrets :: "string list"

definition preview_of :: "import_result \<Rightarrow> import_preview" where
  "preview_of r =
     (let as = merge_auth_schemes (rsAuth r) in
      \<lparr>rsOperations = rsOperations r, rsAuth = as, rsWarnings = rsWarnings r, ivTemplates = template_names,
       ivSecrets = suggested_secrets as\<rparr>)"

definition preview ::
    "web_tools \<Rightarrow> string \<Rightarrow> string \<Rightarrow> import_input \<Rightarrow> (('q, 'z) queue_store_scheme, import_preview) io" where
  "preview wt pid company input =
     io_then (get_project_or_throw pid company)
       (io_lift (sbind (normalize_input input) (\<lambda>i. sbind (parse_import wt i) (\<lambda>r. Inr (preview_of r)))))"

record generate_input =
  giSuite :: "string option"
  giTemplate :: string
  giOperations :: "imported_operation list"
  giAcknowledge :: "bool option"

record generated_flow =
  gfFlow :: flow_suite
  gfYaml :: string
  gfTests :: nat
  gfWarnings :: "import_warning list"
  gfSecrets :: "string list"

definition generated_from ::
    "web_tools \<Rightarrow> (string \<Rightarrow> string \<Rightarrow> int) \<Rightarrow> (json \<Rightarrow> string) \<Rightarrow> generate_input \<Rightarrow> js_error + generated_flow" where
  "generated_from wt lc yaml_dump input =
     sbind (create_flow wt (giSuite input) (giTemplate input) (giOperations input) (giAcknowledge input = Some True)) (\<lambda>(flow, ws).
     sbind (compile_visual lc yaml_dump (Some flow) no_options) (\<lambda>compiled.
     Inr \<lparr>gfFlow = flow, gfYaml = crYaml compiled, gfTests = crTestsCount compiled,
          gfWarnings = ws @ map (info_warning ''FLOW_COMPILE_WARNING'' Sev_Warning) (crWarnings compiled),
          gfSecrets = suggested_secrets (merge_auth_schemes
            (concat (map (\<lambda>o'. fst (snd (sanitize_operation o'))) (giOperations input))))\<rparr>))"

definition generate_flow ::
    "web_tools \<Rightarrow> (string \<Rightarrow> string \<Rightarrow> int) \<Rightarrow> (json \<Rightarrow> string) \<Rightarrow> string \<Rightarrow> string \<Rightarrow> generate_input \<Rightarrow>
     (('q, 'z) queue_store_scheme, generated_flow) io" where
  "generate_flow wt lc yaml_dump pid company input =
     io_then (get_project_or_throw pid company) (io_lift (generated_from wt lc yaml_dump input))"

end
