(* ===== verification/Import_Safety.thy ===== *)
theory Import_Safety
  imports Import_Flow Creation_Props
begin

text \<open>
  The sanitizer of imported operations: every parser applies it, and no literal credential is left in the
  headers and query parameters of a preview.
\<close>

section \<open>Sanitized operations\<close>

definition exposes_header :: "string \<Rightarrow> string \<Rightarrow> bool" where
  "exposes_header name v =
     (\<not> has_secret_reference v
      \<and> (is_sensitive_header name \<and> v \<noteq> []
         \<or> to_lower name = ''authorization'' \<and> (auth_prefix ''Bearer'' v \<or> auth_prefix ''Basic'' v)))"

definition exposes_query :: "string \<Rightarrow> string \<Rightarrow> bool" where
  "exposes_query name v = (\<not> has_secret_reference v \<and> is_sensitive_query name \<and> v \<noteq> [])"

definition credential_free :: "imported_operation \<Rightarrow> bool" where
  "credential_free o' =
     ((\<forall>(k, v)\<in>set (opHeaders o'). \<not> exposes_header k v) \<and> (\<forall>(k, v)\<in>set (opQuery o'). \<not> exposes_query k v))"

lemma placeholders_refer:
  "has_secret_reference bearer_placeholder" "has_secret_reference basic_placeholder"
  "has_secret_reference (secret_placeholder ''API_KEY'')"
  by code_simp+

lemma sanitize_header_keeps:
  "sanitize_header k v oid = (if exposes_header k v then sanitize_header k v oid else (v, [], []))"
  by (auto simp: sanitize_header_def exposes_header_def)

lemma sanitize_header_safe: "\<not> exposes_header k (fst (sanitize_header k v oid))"
  using placeholders_refer by (auto simp: sanitize_header_def exposes_header_def)

lemma sanitize_query_keeps:
  "sanitize_query k v oid = (if exposes_query k v then sanitize_query k v oid else (v, [], []))"
  by (auto simp: sanitize_query_def exposes_query_def)

lemma sanitize_query_safe: "\<not> exposes_query k (fst (sanitize_query k v oid))"
  using placeholders_refer by (auto simp: sanitize_query_def exposes_query_def)

lemma sanitize_operation_entries:
  "opHeaders (fst (sanitize_operation o')) = from_entries (map (\<lambda>e. (fst e, fst (sanitize_header (fst e) (snd e) (opId o')))) (opHeaders o'))"
  "opQuery (fst (sanitize_operation o')) = from_entries (map (\<lambda>e. (fst e, fst (sanitize_query (fst e) (snd e) (opId o')))) (opQuery o'))"
  by (simp_all add: sanitize_operation_def Let_def comp_def split_beta)

lemma from_entries_mapped: "(k, v) \<in> set (from_entries (map f es)) \<Longrightarrow> \<exists>e\<in>set es. f e = (k, v)"
  using set_from_entries[of "map f es"] by (metis imageE list.set_map subsetD)

lemma sanitize_operation_safe: "credential_free (fst (sanitize_operation o'))"
  using sanitize_header_safe sanitize_query_safe
  by (auto simp: credential_free_def sanitize_operation_entries dest!: from_entries_mapped)

lemma sanitize_operation_distinct:
  "distinct (map fst (opHeaders (fst (sanitize_operation o'))))" "distinct (map fst (opQuery (fst (sanitize_operation o'))))"
  by (simp_all add: sanitize_operation_def Let_def from_entries_distinct)

text \<open>A second pass changes nothing and finds nothing.\<close>

lemma sanitize_safe_operation:
  assumes "credential_free o'" "distinct (map fst (opHeaders o'))" "distinct (map fst (opQuery o'))"
  shows "sanitize_operation o' = (o', [], [])"
proof -
  have hs: "map (\<lambda>(k, v). (k, sanitize_header k v oid)) (opHeaders o') = map (\<lambda>(k, v). (k, v, [], [])) (opHeaders o')" for oid
    using assms(1) by (intro map_cong) (auto simp: credential_free_def sanitize_header_keeps)
  have qs: "map (\<lambda>(k, v). (k, sanitize_query k v oid)) (opQuery o') = map (\<lambda>(k, v). (k, v, [], [])) (opQuery o')" for oid
    using assms(1) by (intro map_cong) (auto simp: credential_free_def sanitize_query_keeps)
  show ?thesis
    using assms(2,3) by (simp add: sanitize_operation_def Let_def hs qs comp_def split_beta from_entries_id)
qed

lemma sanitize_twice: "sanitize_operation (fst (sanitize_operation o')) = (fst (sanitize_operation o'), [], [])"
  by (intro sanitize_safe_operation sanitize_operation_safe sanitize_operation_distinct)

section \<open>Every parser sanitizes\<close>

definition sanitized :: "imported_operation \<Rightarrow> bool" where
  "sanitized o' = (\<exists>o0. o' = fst (sanitize_operation o0))"

lemma sanitized_result: "sanitized (fst (sanitize_operation o'))" "sanitize_operation o' = (o2, as, ws) \<Longrightarrow> sanitized o2"
  unfolding sanitized_def by (blast, metis fst_conv)

lemma single_result_sanitized: "list_all sanitized (rsOperations (single_result as ws o'))"
  by (auto simp: single_result_def split_beta sanitized_result)

lemma postman_leaf_sanitized: "postman_leaf wt item parents auth = Inr p \<Longrightarrow> list_all sanitized (fst p)"
  by (auto simp: postman_leaf_def no_parts_def split_beta sanitized_result split: option.splits if_splits)

lemma walk_items_sanitized: "walk_items wt items parents auth = Inr p \<Longrightarrow> list_all sanitized (fst p)"
proof (induction wt items parents auth arbitrary: p rule: walk_items.induct)
  case (2 wt item items parents auth)
  then obtain name here rest where h: "(case item of
         JObj es \<Rightarrow> (case map_of es ''item'' of
             Some (JArr children) \<Rightarrow>
               walk_items wt children (parents @ [json_string (the (coalesce name (Some (JStr ''Folder''))))])
                 (coalesce (map_of es ''auth'') auth)
           | _ \<Rightarrow> postman_leaf wt item parents auth)
       | _ \<Rightarrow> Inr no_parts) = Inr here"
    and r: "walk_items wt items parents auth = Inr rest" and j: "p = join_parts here rest"
    by auto
  have "list_all sanitized (fst here)"
    using h 2(1) postman_leaf_sanitized by (auto simp: no_parts_def split: json.splits option.splits)
  moreover have "list_all sanitized (fst rest)" using 2(2) r by blast
  ultimately show ?case using j by (simp add: join_parts_def split_beta)
qed (auto simp: no_parts_def)

lemma openapi_operation_sanitized:
  assumes "openapi_operation wt document path ps m operation sofar = Inr p" "list_all sanitized (fst sofar)"
  shows "list_all sanitized (fst p)"
  using assms by (auto simp: openapi_operation_def Let_def split_beta sanitized_result)

lemma openapi_methods_sanitized:
  "openapi_methods wt document path item ps ms sofar = Inr p \<Longrightarrow> list_all sanitized (fst sofar) \<Longrightarrow>
   list_all sanitized (fst p)"
proof (induction ms arbitrary: sofar)
  case (Cons m ms)
  then obtain nx where one: "(case json_get item m of None \<Rightarrow> Inr sofar
       | Some operation \<Rightarrow> if is_object operation
           then openapi_operation wt document path ps m operation sofar else Inr sofar) = Inr nx"
    and rest: "openapi_methods wt document path item ps ms nx = Inr p"
    by auto
  have "list_all sanitized (fst nx)"
    using one Cons.prems(2) openapi_operation_sanitized by (auto split: option.splits if_splits)
  then show ?case using Cons.IH[OF rest] by simp
qed simp

lemma openapi_paths_sanitized:
  "openapi_paths wt document paths sofar = Inr p \<Longrightarrow> list_all sanitized (fst sofar) \<Longrightarrow> list_all sanitized (fst p)"
proof (induction paths arbitrary: sofar)
  case (Cons e paths)
  obtain path item where e: "e = (path, item)" by force
  show ?case
  proof (cases "is_object item")
    case False
    with Cons show ?thesis by (simp add: e)
  next
    case True
    then obtain nx where one: "openapi_methods wt document path item (fst (openapi_parameters (json_get item ''parameters'') document))
         (map to_lower http_methods)
         (fst sofar, fst (snd sofar), snd (snd sofar) @ snd (openapi_parameters (json_get item ''parameters'') document)) = Inr nx"
      and rest: "openapi_paths wt document paths nx = Inr p"
      using Cons.prems(1) by (simp only: e openapi_paths.simps split_beta) auto
    have "list_all sanitized (fst nx)" using openapi_methods_sanitized[OF one] Cons.prems(2) by simp
    then show ?thesis by (rule Cons.IH[OF rest])
  qed
qed simp

lemma parse_openapi_sanitized:
  assumes "parse_openapi wt input = Inr r"
  shows "list_all sanitized (rsOperations r)"
proof -
  obtain document where d: "(case json_get document ''paths'' of
       Some (JObj paths) \<Rightarrow>
         sbind (detect_security_schemes document) (\<lambda>schemes.
         sbind (openapi_paths wt document paths ([], schemes, [])) (\<lambda>p.
         Inr \<lparr>rsOperations = fst p, rsAuth = merge_auth_schemes (fst (snd p)),
              rsWarnings = snd (snd p) @ destructive_warnings (fst p)\<rparr>))
     | _ \<Rightarrow> Inl (BadRequestException ''OpenAPI document must include paths'')) = Inr r"
    using assms unfolding parse_openapi_def split_beta by (simp only: sbind_Inr_iff) blast
  then obtain paths schemes p where "openapi_paths wt document paths ([], schemes, []) = Inr p" "rsOperations r = fst p"
    by (auto split: option.splits json.splits simp del: openapi_paths.simps)
  then show ?thesis using openapi_paths_sanitized by fastforce
qed

lemma parse_postman_sanitized:
  assumes "parse_postman wt input = Inr r"
  shows "list_all sanitized (rsOperations r)"
proof -
  obtain document where d: "(case json_get document ''item'' of
       Some (JArr (i # is)) \<Rightarrow>
         sbind (walk_items wt (i # is) [] (json_get document ''auth'')) (\<lambda>p.
         Inr \<lparr>rsOperations = fst p, rsAuth = merge_auth_schemes (fst (snd p)),
              rsWarnings = snd (snd p) @ destructive_warnings (fst p)\<rparr>)
     | _ \<Rightarrow> Inl (BadRequestException ''Postman collection must include item[]'')) = Inr r"
    using assms unfolding parse_postman_def split_beta by (simp only: sbind_Inr_iff) blast
  then obtain items p where "walk_items wt items [] (json_get document ''auth'') = Inr p" "rsOperations r = fst p"
    by (auto split: option.splits json.splits list.splits simp del: walk_items.simps)
  then show ?thesis using walk_items_sanitized by fastforce
qed

lemma parse_bruno_sanitized: "parse_bruno wt input = Inr r \<Longrightarrow> list_all sanitized (rsOperations r)"
  by (auto simp: parse_bruno_def Let_def list_all_iff sanitized_result split: if_splits)

lemma parse_curl_sanitized: "parse_curl wt input = Inr r \<Longrightarrow> list_all sanitized (rsOperations r)"
  using single_result_sanitized by (auto simp: parse_curl_def Let_def split: if_splits prod.splits)

lemma parse_manual_sanitized: "parse_manual wt input = Inr r \<Longrightarrow> list_all sanitized (rsOperations r)"
  using single_result_sanitized by (auto simp: parse_manual_def Let_def split: option.splits prod.splits)

lemma parse_import_sanitized: "parse_import wt input = Inr r \<Longrightarrow> list_all sanitized (rsOperations r)"
  by (auto simp: parse_import_def bad_def split: if_splits
      dest: parse_openapi_sanitized parse_postman_sanitized parse_bruno_sanitized parse_curl_sanitized parse_manual_sanitized)

lemma preview_result:
  assumes "preview wt pid company input w = (Inr p, w')"
  obtains i r where "normalize_input input = Inr i" "parse_import wt i = Inr r" "p = preview_of r"
proof -
  have "\<exists>w1. io_lift (sbind (normalize_input input) (\<lambda>i. sbind (parse_import wt i) (\<lambda>r. Inr (preview_of r)))) w1 = (Inr p, w')"
    using assms by (auto simp: preview_def io_defs split: sum.splits prod.splits)
  then show ?thesis using that by (auto simp: io_lift_def)
qed

text \<open>
  C31: Whatever the source of an import, the headers and query parameters of every operation of the preview hold no
  literal credential: a bearer or basic authorization, a header or a parameter with a sensitive name is
  replaced by a secret reference (or already was one), and a second pass of the sanitizer changes nothing.
\<close>
theorem preview_holds_no_credentials:
  assumes "preview wt pid company input w = (Inr p, w')" "o' \<in> set (rsOperations p)"
  shows "credential_free o' \<and> sanitize_operation o' = (o', [], [])"
proof -
  obtain i r where "parse_import wt i = Inr r" "p = preview_of r" using preview_result[OF assms(1)] by blast
  then have "sanitized o'"
    using parse_import_sanitized assms(2) by (fastforce simp: preview_of_def Let_def list_all_iff)
  then show ?thesis
    unfolding sanitized_def using sanitize_operation_safe sanitize_twice by metis
qed

definition no_tools :: web_tools where
  "no_tools = \<lparr>wtHash = (\<lambda>_. ''0a1b2c3d''), wtUrl = (\<lambda>_. None), wtParams = (\<lambda>_. []), wtYaml = (\<lambda>_. Inr None),
     wtSyntax = (\<lambda>_. [])\<rparr>"

definition sample_import :: import_input where
  "sample_import = \<lparr>inSource = ''MANUAL'', inContent = None, inFiles = None,
     inManual = Some \<lparr>mqName = None, mqMethod = ''get'', mqPath = ''/me'',
       mqHeaders = Some (JObj [(''Authorization'', JStr ''Bearer abc'')]), mqQuery = None, mqBody = None, mqStatus = None\<rparr>\<rparr>"

lemma sample_import_parsed:
  "map_sum id (\<lambda>r. map opHeaders (rsOperations r)) (parse_import no_tools sample_import)
    = Inr [[(''Authorization'', bearer_placeholder)]]"
  by code_simp

lemma preview_holds_no_credentials_witness:
  "\<exists>p w' o'. preview no_tools ''p1'' ''c1'' sample_import (quiet sample_platform) = (Inr p, w')
    \<and> o' \<in> set (rsOperations p) \<and> opHeaders o' = [(''Authorization'', bearer_placeholder)] \<and> credential_free o'"
proof -
  obtain r where r: "parse_import no_tools sample_import = Inr r"
      "map opHeaders (rsOperations r) = [[(''Authorization'', bearer_placeholder)]]"
    using sample_import_parsed by (cases "parse_import no_tools sample_import") simp_all
  then obtain o' where o': "rsOperations r = [o']" "opHeaders o' = [(''Authorization'', bearer_placeholder)]"
    by (cases "rsOperations r") auto
  have "normalize_input sample_import = Inr sample_import"
    by (simp add: normalize_input_def sample_import_def max_import_chars_def)
  moreover have "get_project_or_throw ''p1'' ''c1'' (quiet sample_platform) = (Inr (), quiet sample_platform)"
    by (simp add: get_project_or_throw_def run_simps sample_platform_def)
  ultimately have "preview no_tools ''p1'' ''c1'' sample_import (quiet sample_platform) = (Inr (preview_of r), quiet sample_platform)"
    using r(1) by (simp add: preview_def io_defs io_lift_def)
  with preview_holds_no_credentials[OF this, of o'] o' show ?thesis by (auto simp: preview_of_def Let_def)
qed

end
