(* ===== verification/Import_Props.thy ===== *)
theory Import_Props
  imports Import_Safety
begin

text \<open>
  What the factory of flows guarantees: the plan compiler accepts a generated flow and keeps its order.  The last section
  states what the import does not do.
\<close>

section \<open>Generated flows\<close>

text \<open>A node id begins with the position of its operation, so no two are equal.\<close>

lemma digits_value_snoc: "digits_value (s @ [c]) = 10 * digits_value s + (of_char c - 48)"
  by (simp add: digits_value_def)

lemma digits_value_dec: "digits_value (dec_nat n) = n"
proof (induction n rule: dec_nat.induct)
  case (1 n)
  show ?case
  proof (cases "n < 10")
    case True
    then show ?thesis by (simp add: dec_nat.simps[of n] digits_value_def digit_char_def)
  next
    case False
    with 1 have "digits_value (dec_nat n) = 10 * (n div 10) + n mod 10"
      by (simp add: dec_nat.simps[of n] digits_value_snoc digit_char_def)
    then show ?thesis by simp
  qed
qed

lemma dec_nat_inject: "dec_nat m = dec_nat n \<longleftrightarrow> m = n"
  by (metis digits_value_dec)

lemma dec_nat_not_Nil: "dec_nat n \<noteq> []"
  by (subst dec_nat.simps) simp

lemma digit_slug: "is_digit c \<Longrightarrow> is_slug_char c"
  by (simp add: is_digit_def is_slug_char_def Let_def)

lemma dash_runs_slugs: "list_all is_slug_char a \<Longrightarrow> a \<noteq> [] \<Longrightarrow> dash_runs inside (a @ s) = a @ dash_runs False s"
proof (induction a arbitrary: inside)
  case (Cons c a)
  then show ?case by (cases a) auto
qed simp

lemma trim_dashes_kept:
  assumes "a \<noteq> []" "hd a \<noteq> CHR ''-''" "last a \<noteq> CHR ''-''"
  shows "\<exists>z. trim_dashes (a @ CHR ''-'' # s) = a @ z \<and> (z = [] \<or> hd z = CHR ''-'')"
proof -
  let ?w = "CHR ''-'' # s" and ?d = "\<lambda>c. c = CHR ''-''"
  have front: "dropWhile ?d (a @ ?w) = a @ ?w" using assms(1,2) by (cases a) auto
  have "rev (dropWhile ?d (rev ?w @ rev a)) = a @ rev (dropWhile ?d (rev ?w))"
  proof (cases "\<forall>c\<in>set (rev ?w). ?d c")
    case True
    moreover have "dropWhile ?d (rev a) = rev a"
      using assms(1,3) by (cases "rev a") (auto simp: last_rev hd_rev[symmetric])
    ultimately show ?thesis by (simp add: dropWhile_append2 dropWhile_append del: rev.simps)
  next
    case False
    then obtain c where "c \<in> set (rev ?w)" "\<not> ?d c" by blast
    then have "dropWhile ?d (rev ?w @ rev a) = dropWhile ?d (rev ?w) @ rev a" by (rule dropWhile_append1)
    then show ?thesis by simp
  qed
  moreover have "rev (dropWhile ?d (rev ?w)) = [] \<or> hd (rev (dropWhile ?d (rev ?w))) = CHR ''-''"
  proof -
    have "?w = rev (dropWhile ?d (rev ?w)) @ rev (takeWhile ?d (rev ?w))"
      by (metis rev_append rev_rev_ident takeWhile_dropWhile_id)
    then show ?thesis by (metis hd_append2 list.sel(1))
  qed
  ultimately show ?thesis using front by (auto simp: trim_dashes_def)
qed

lemma lower_slug: "is_slug_char c \<Longrightarrow> lower_char c = c"
  by (auto simp: is_slug_char_def lower_char_def Let_def)

lemma import_node_id_prefix:
  assumes "prefix \<noteq> []" "list_all is_slug_char prefix" "length prefix + length (dec_nat (i + 1)) < 72"
  shows "\<exists>t. import_node_id wt o' i prefix = prefix @ CHR ''-'' # dec_nat (i + 1) @ CHR ''-'' # t"
proof -
  let ?d = "dec_nat (i + 1)" let ?p = "prefix @ CHR ''-'' # ?d"
  have d: "list_all is_slug_char ?d" "?d \<noteq> []" 
    using dec_nat_digits[of "i + 1"] dec_nat_not_Nil digit_slug by (auto simp: list_all_iff)
  have low: "to_lower prefix = prefix" "to_lower ?d = ?d"
    using assms(2) d(1) lower_slug by (auto simp: to_lower_def list_all_iff intro: map_idI)
  have dash: "\<not> is_slug_char (CHR ''-'')" "lower_char (CHR ''-'') = CHR ''-''"
    by (simp_all add: is_slug_char_def lower_char_def Let_def)
  have "to_lower (join_with ''-'' [prefix, ?d, opId o']) = prefix @ CHR ''-'' # ?d @ CHR ''-'' # to_lower (opId o')"
    using low dash(2) by (simp add: to_lower_def)
  then have runs: "dash_runs False (to_lower (join_with ''-'' [prefix, ?d, opId o']))
      = ?p @ CHR ''-'' # dash_runs True (to_lower (opId o'))"
    using assms(1,2) d dash(1) by (simp add: dash_runs_slugs)
  have "hd prefix \<in> set prefix" "last ?d \<in> set ?d" using assms(1) d(2) by simp_all
  then have "is_slug_char (hd prefix)" "is_slug_char (last ?d)" using assms(2) d(1) unfolding list_all_iff by blast+
  then have "hd ?p \<noteq> CHR ''-''" "last ?p \<noteq> CHR ''-''"
    using assms(1) d(2) dash(1) by auto
  then obtain z where z: "trim_dashes (?p @ CHR ''-'' # dash_runs True (to_lower (opId o'))) = ?p @ z" "z = [] \<or> hd z = CHR ''-''"
    using trim_dashes_kept[of ?p] by auto
  have len: "length ?p \<le> 72" using assms(3) by simp
  then have cut: "take 72 (?p @ z) = ?p @ take (72 - length ?p) z" by (simp only: take_append[of 72 ?p z] take_all[OF len])
  have "import_node_id wt o' i prefix = ?p @ take (72 - length ?p) z @ CHR ''-'' # wtHash wt (join_with ''|'' [prefix, ?d, opId o'])"
    unfolding import_node_id_def stable_operation_id_def Let_def runs z(1) cut using assms(1) by simp
  moreover have "\<exists>t. take (72 - length ?p) z @ CHR ''-'' # h = CHR ''-'' # t" for h
    using z(2) by (cases z; cases "72 - length ?p") auto
  ultimately show ?thesis by (metis append.assoc append_Cons)
qed

lemma import_node_ids_differ:
  assumes "prefix \<in> {''api'', ''poll''}" "prefix' \<in> {''api'', ''poll''}" "(prefix, i) \<noteq> (prefix', j)"
    and "length (dec_nat (i + 1)) \<le> 60" "length (dec_nat (j + 1)) \<le> 60"
  shows "import_node_id wt a i prefix \<noteq> import_node_id wt b j prefix'"
proof
  assume eq: "import_node_id wt a i prefix = import_node_id wt b j prefix'"
  have slug: "list_all is_slug_char p \<and> p \<noteq> [] \<and> length p \<le> 4" if "p \<in> {''api'', ''poll''}" for p
    using that by (auto simp: is_slug_char_def Let_def)
  obtain t t' where t: "prefix @ CHR ''-'' # dec_nat (i + 1) @ CHR ''-'' # t = prefix' @ CHR ''-'' # dec_nat (j + 1) @ CHR ''-'' # t'"
    using import_node_id_prefix[of prefix i wt a] import_node_id_prefix[of prefix' j wt b] slug assms eq by fastforce
  then have same: "prefix = prefix'" using assms(1,2) by auto
  have no: "CHR ''-'' \<notin> set (dec_nat n)" for n
  proof -
    have "\<not> is_digit (CHR ''-'')" by (simp add: is_digit_def)
    then show ?thesis using dec_nat_digits[of n] by (auto simp: list_all_iff)
  qed
  have key: "takeWhile (\<lambda>c. c \<noteq> CHR ''-'') (dec_nat n @ CHR ''-'' # s) = dec_nat n" for n s
    using no[of n] by (subst takeWhile_append2) auto
  have "dec_nat (i + 1) @ CHR ''-'' # t = dec_nat (j + 1) @ CHR ''-'' # t'" using t same by simp
  then have "dec_nat (i + 1) = dec_nat (j + 1)" using key[of "i + 1" t] key[of "j + 1" t'] by (simp only:)
  then have "i = j" by (simp add: dec_nat_inject)
  with same assms(3) show False by simp
qed

text \<open>A list whose members come in order in another list without repetitions is that list.\<close>

lemma ordered_is_same:
  "distinct xs \<Longrightarrow> distinct ys \<Longrightarrow> set xs = set ys \<Longrightarrow> sorted_wrt (before_in ys) xs \<Longrightarrow> ys = xs"
proof (induction xs arbitrary: ys)
  case (Cons x xs)
  obtain us vs where ys: "ys = us @ x # vs" using Cons.prems(3) by (metis list.set_intros(1) split_list)
  have "us = []"
  proof (rule ccontr)
    assume "us \<noteq> []"
    then obtain u us' where us: "us = u # us'" by (cases us) auto
    then have u: "u \<in> set xs" using Cons.prems(2,3) ys by auto
    have "before_in ys u x" unfolding before_in_def ys us by (intro exI[of _ "u # us'"] exI[of _ vs]) simp
    moreover have "before_in ys x u" using Cons.prems(4) u by simp
    ultimately show False using before_in_trans[OF Cons.prems(2)] before_in_irrefl[OF Cons.prems(2)] by blast
  qed
  then have ys: "ys = x # vs" using ys by simp
  have rest: "before_in vs a b" if ab: "before_in ys a b" "a \<noteq> x" for a b
  proof -
    obtain us ws where u: "x # vs = us @ b # ws" "a \<in> set us" using ab(1) by (auto simp: before_in_def ys)
    then obtain us' where "us = x # us'" by (cases us) auto
    with u ab(2) show ?thesis by (auto simp: before_in_def)
  qed
  have "x \<notin> set xs" using Cons.prems(1) by simp
  with rest have step: "before_in vs a b" if "a \<in> set xs" "before_in ys a b" for a b using that by metis
  have "sorted_wrt (before_in ys) xs" using Cons.prems(4) by simp
  then have "sorted_wrt (before_in vs) xs" by (rule sorted_wrt_mono_rel[rotated]) (rule step)
  moreover have "set xs = set vs"
  proof -
    have "insert x (set xs) = insert x (set vs)" "x \<notin> set xs" "x \<notin> set vs"
      using Cons.prems(1,2,3) unfolding ys by simp_all
    then show ?thesis by (simp add: insert_ident)
  qed
  moreover have "distinct xs" "distinct vs" using Cons.prems(1,2) unfolding ys by simp_all
  ultimately have "vs = xs" by (intro Cons.IH)
  then show ?case using ys by simp
qed simp

lemma consecutive_sorted:
  assumes "distinct ys" "\<And>a b. (a, b) \<in> set (zip xs (tl xs)) \<Longrightarrow> before_in ys a b"
  shows "sorted_wrt (before_in ys) xs"
  using assms(2)
proof (induction xs)
  case (Cons x xs)
  then have s: "sorted_wrt (before_in ys) xs" by (cases xs) auto
  show ?case
  proof (cases xs)
    case (Cons y zs)
    then have xy: "before_in ys x y" using Cons.prems by simp
    have "before_in ys x z" if "z \<in> set zs" for z
      using before_in_trans[OF assms(1) xy, of z] s that Cons by simp
    then show ?thesis using s xy Cons by simp
  qed simp
qed simp

lemma consecutive_before: "(a, b) \<in> set (zip xs (tl xs)) \<Longrightarrow> before_in xs a b"
proof (induction xs)
  case (Cons x xs)
  show ?case
  proof (cases xs)
    case (Cons y ys)
    then consider "a = x" "b = y" | "(a, b) \<in> set (zip xs (tl xs))" using Cons.prems by auto
    then show ?thesis
    proof cases
      case 1
      then show ?thesis using Cons unfolding before_in_def by (intro exI[of _ "[x]"] exI[of _ ys]) simp
    next
      case 2
      then obtain us vs where "xs = us @ b # vs" "a \<in> set us" using Cons.IH by (auto simp: before_in_def)
      then show ?thesis unfolding before_in_def by (intro exI[of _ "x # us"] exI[of _ vs]) simp
    qed
  qed (use Cons.prems in simp)
qed simp

lemma linear_pairs: "map edge_pair (linear_edges ns) = zip (map node_id ns) (tl (map node_id ns))"
  by (simp add: linear_edges_def edge_pair_def comp_def split_beta map_tl[symmetric] zip_map_map)

lemma linear_no_branch:
  assumes "distinct xs"
  shows "incoming_count (zip xs (tl xs)) i \<le> 1" "length (outgoing_targets (zip xs (tl xs)) i) \<le> 1"
proof -
  have one: "length (filter (\<lambda>e. f e = i) es) \<le> 1" if "distinct (map f es)" for f :: "string \<times> string \<Rightarrow> string" and es
    using that by (induction es) (auto simp: filter_empty_conv image_iff)
  have "map snd (zip xs (tl xs)) = tl xs" "map fst (zip xs (tl xs)) = butlast xs"
    by (cases xs, simp_all add: map_snd_zip_take map_fst_zip_take butlast_conv_take)
  then have "distinct (map snd (zip xs (tl xs)))" "distinct (map fst (zip xs (tl xs)))"
    using assms by (simp_all add: distinct_tl distinct_butlast)
  then show "incoming_count (zip xs (tl xs)) i \<le> 1" "length (outgoing_targets (zip xs (tl xs)) i) \<le> 1"
    using one[of snd "zip xs (tl xs)"] one[of fst "zip xs (tl xs)"]
    by (simp_all add: incoming_count_def outgoing_targets_def)
qed

lemma linear_flow_compiles:
  assumes "fVersion flow = Some ''1.1''" "fSuiteName flow = Some name" "trim name \<noteq> []"
    and "fNodes flow = Elements ns" "fEdges flow = Elements (linear_edges ns)" "ns \<noteq> []"
    and ids: "distinct (map node_id ns)"
    and ok: "validate_nodes [] (map migrate_node ns) = Inr ()"
  shows "\<exists>r. compile_visual lc yaml_dump (Some flow) options = Inr r
    \<and> pSteps (crPlan r) = map (\<lambda>n. normalize_step (to_execution_step (migrate_node n))) ns"
proof -
  let ?ms = "map migrate_node ns" let ?is = "map node_id ns"
  let ?es = "zip ?is (tl ?is)"
  obtain f where m: "migrate (Some flow) = Inr f" and f: "fNodes f = Elements ?ms" "fEdges f = Elements (linear_edges ns)"
    "fSuiteName f = Some name"
    using assms(1,2,4,5) by (simp add: migrate_def current_dsl_version_def)
  have names: "map node_id ?ms = ?is" by simp
  have ends: "a \<in> set ?is \<and> b \<in> set ?is" if "(a, b) \<in> set ?es" for a b
    using before_in_set[OF consecutive_before[OF that]] .
  have known: "list_all (edge_known ?ms) (linear_edges ns)"
    unfolding list_all_iff
  proof
    fix e assume "e \<in> set (linear_edges ns)"
    then have "edge_pair e \<in> set (map edge_pair (linear_edges ns))" by simp
    then have "(eSource e, eTarget e) \<in> set ?es" by (simp only: linear_pairs edge_pair_def)
    then have "eSource e \<in> set ?is" "eTarget e \<in> set ?is" using ends by blast+
    then show "edge_known ?ms e" by (simp add: edge_known_def image_image)
  qed
  have branch: "\<not> has_branching ?ms ?es"
    using linear_no_branch[OF ids] by (auto simp: has_branching_def list_ex_iff not_less)
  obtain n ns' where ms: "?ms = n # ns'" using assms(6) by (cases ns) auto
  have v: "validate_flow f = Inr (?ms, ?es)"
    using assms(3) ok known branch unfolding validate_flow_def f ms by (simp add: linear_pairs)
  have "set ?es \<subseteq> {(a, b). before_in ?is a b}" using consecutive_before by blast
  then have ac: "acyclic (set ?es)" by (rule acyclic_subset[OF before_in_acyclic[OF ids]])
  let ?o = "compiled_order lc ?ms ?es"
  have mset: "mset ?o = mset ?ms" and ordered: "\<And>a b. (a, b) \<in> set ?es \<Longrightarrow> before_in (map node_id ?o) a b"
    using mset_compiled_order[OF v ac] by auto
  have mi: "mset (map node_id ?o) = mset ?is" using mset by (metis mset_map names)
  then have d: "distinct (map node_id ?o)" "set ?is = set (map node_id ?o)"
    using ids by (metis mset_eq_imp_distinct_iff, metis mset_eq_setD)
  have "map node_id ?o = ?is"
    by (rule ordered_is_same[OF ids d]) (rule consecutive_sorted[OF d(1) ordered])
  moreover have "inj_on node_id (set ?o \<union> set ?ms)"
    using ids names mset by (metis Un_absorb distinct_map mset_eq_setD)
  ultimately have "?o = ?ms" using names by (metis inj_on_map_eq_map)
  then show ?thesis
    using compile_visual_result(2)[OF m v ac, of lc yaml_dump options] by (auto simp: comp_def)
qed

text \<open>What the compiler asks of a request node, for the nodes of the factory.\<close>

definition plain_operation :: "imported_operation \<Rightarrow> bool" where
  "plain_operation o' = (trim (opName o') \<noteq> [] \<and> trim (opMethod o') \<noteq> [] \<and> trim (opPath o') \<noteq> [])"

definition import_node :: "web_tools \<Rightarrow> flow_node \<Rightarrow> bool" where
  "import_node wt n = (\<exists>o' i. plain_operation o' \<and> (n = api_node wt o' i \<or> n = poll_node wt o' i))"

lemma import_node_valid:
  assumes "import_node wt n" "trim (node_id n) \<noteq> []"
  shows "\<not> blank (nId (migrate_node n))" "\<not> blank (nName (migrate_node n))" "is_supported_node (migrate_node n)"
    "validate_node_config (migrate_node n) = Inr ()"
proof -
  obtain o' i where o': "plain_operation o'" "n = api_node wt o' i \<or> n = poll_node wt o' i"
    using assms(1) by (auto simp: import_node_def)
  show "\<not> blank (nId (migrate_node n))" using assms(2) by (auto simp: node_id_def split: option.splits)
  show "\<not> blank (nName (migrate_node n))" "is_supported_node (migrate_node n)"
    using o' by (auto simp: api_node_def poll_node_def blank_node_def plain_operation_def migrate_node_def
        is_supported_node_def node_type_def)
  have m: "trim (to_upper (opMethod o')) \<noteq> []" using o'(1) by (simp add: plain_operation_def trim_to_upper)
  have request: "validate_request_node (migrate_node k) = Inr ()"
    if "nMethod k = Some (to_upper (opMethod o'))" "nPath k = Some (opPath o')" "nAssertions k = None" for k
    using that m o'(1) by (simp add: validate_request_node_def migrate_node_def Let_def node_assertions_def plain_operation_def)
  have "validate_request_node (migrate_node (api_node wt o' i)) = Inr ()" "validate_request_node (migrate_node (poll_node wt o' i)) = Inr ()"
    by (rule request; simp add: api_node_def poll_node_def blank_node_def)+
  moreover have "validate_node_config (migrate_node (api_node wt o' i)) = validate_request_node (migrate_node (api_node wt o' i))"
    by (simp add: validate_node_config_def is_node_type_def migrate_node_def api_node_def blank_node_def Let_def)
  moreover have "validate_node_config (migrate_node (poll_node wt o' i))
      = sbind (validate_request_node (migrate_node (poll_node wt o' i))) (\<lambda>_. validate_poll_times (migrate_node (poll_node wt o' i)))"
    by (simp add: validate_node_config_def is_node_type_def migrate_node_def poll_node_def Let_def)
  moreover have "validate_poll_times (migrate_node (poll_node wt o' i)) = Inr ()"
    by (simp add: validate_poll_times_def migrate_node_def poll_node_def Let_def is_positive_def num_pos_def)
  ultimately show "validate_node_config (migrate_node n) = Inr ()" using o'(2) by auto
qed

lemma import_nodes_valid:
  assumes "\<forall>n\<in>set ns. import_node wt n \<and> trim (node_id n) \<noteq> []"
    and "distinct (map node_id ns)" "set (map node_id ns) \<inter> set seen = {}"
  shows "validate_nodes seen (map migrate_node ns) = Inr ()"
  using assms
proof (induction ns arbitrary: seen)
  case (Cons n ns)
  then show ?case using import_node_valid[of wt n] by auto
qed simp

text \<open>The nodes of the factory.\<close>

lemma small_position: "i < length ops \<Longrightarrow> length ops < 10 ^ 60 \<Longrightarrow> length (dec_nat (i + 1)) \<le> 60"
  by (rule length_dec_nat) simp_all

lemma node_ids [simp]:
  "node_id (api_node wt o' i) = import_node_id wt o' i ''api''" "node_id (poll_node wt o' i) = import_node_id wt o' i ''poll''"
  by (simp_all add: node_id_def api_node_def poll_node_def blank_node_def)

lemma import_node_id_text:
  assumes "prefix \<in> {''api'', ''poll''}" "length (dec_nat (i + 1)) \<le> 60"
  shows "trim (import_node_id wt o' i prefix) \<noteq> []"
proof -
  have "list_all is_slug_char prefix" "prefix \<noteq> []" "length prefix \<le> 4"
    using assms(1) by (auto simp: is_slug_char_def Let_def)
  then obtain t where t: "import_node_id wt o' i prefix = prefix @ t"
    using import_node_id_prefix[of prefix i wt o'] assms(2) by fastforce
  have "hd prefix \<in> set prefix" "\<not> is_ws (hd prefix)" using assms(1) by (auto simp: is_ws_def)
  then have "\<not> list_all is_ws (import_node_id wt o' i prefix)" by (auto simp: t list_all_iff)
  then show ?thesis by (simp add: trim_Nil_iff)
qed

lemma api_nodes_of_flow:
  fixes wt
  assumes "list_all plain_operation ops" "length ops < 10 ^ 60"
  defines "ns \<equiv> map (\<lambda>(i, o'). api_node wt o' i) (zip [0..<length ops] ops)"
  shows "\<forall>n\<in>set ns. import_node wt n \<and> trim (node_id n) \<noteq> []" "distinct (map node_id ns)"
proof -
  have nth: "ns ! i = api_node wt (ops ! i) i" if "i < length ops" for i using that by (simp add: ns_def)
  have len: "length ns = length ops" by (simp add: ns_def)
  show "\<forall>n\<in>set ns. import_node wt n \<and> trim (node_id n) \<noteq> []"
  proof
    fix n assume "n \<in> set ns"
    then obtain i where i: "i < length ops" "n = api_node wt (ops ! i) i" using nth len by (auto simp: in_set_conv_nth)
    then have "plain_operation (ops ! i)" using assms(1) by (simp add: list_all_length)
    then show "import_node wt n \<and> trim (node_id n) \<noteq> []"
      using i small_position[OF i(1) assms(2)] import_node_id_text[of "''api''" i wt "ops ! i"]
      unfolding import_node_def by auto
  qed
  show "distinct (map node_id ns)"
    unfolding distinct_conv_nth
  proof (intro allI impI)
    fix i j assume "i < length (map node_id ns)" "j < length (map node_id ns)" "i \<noteq> j"
    then show "map node_id ns ! i \<noteq> map node_id ns ! j"
      using import_node_ids_differ[of "''api''" "''api''" i j wt "ops ! i" "ops ! j"] small_position[of _ ops] assms(2)
      by (simp add: len nth)
  qed
qed

lemma async_nodes_of_flow:
  fixes wt
  assumes "list_all plain_operation ops" "ops \<noteq> []"
  defines "ns \<equiv> fst (async_polling_nodes wt ops)"
  shows "ns \<noteq> []" "\<forall>n\<in>set ns. import_node wt n \<and> trim (node_id n) \<noteq> []" "distinct (map node_id ns)"
proof -
  obtain start rest where ops: "ops = start # rest" using assms(2) by (cases ops) auto
  have "ns = [api_node wt start 0] \<or> (\<exists>p\<in>set ops. ns = [api_node wt start 0, poll_node wt p 1])"
    by (auto simp: ns_def async_polling_nodes_def ops find_Some_iff split: option.splits)
  moreover have small: "length (dec_nat (0 + 1)) \<le> 60" "length (dec_nat (1 + 1)) \<le> 60"
    by (simp_all add: dec_nat.simps)
  moreover have "import_node wt (api_node wt start 0)" "\<And>p. p \<in> set ops \<Longrightarrow> import_node wt (poll_node wt p 1)"
    using assms(1) unfolding import_node_def list_all_iff ops by auto
  ultimately show "ns \<noteq> []" "\<forall>n\<in>set ns. import_node wt n \<and> trim (node_id n) \<noteq> []" "distinct (map node_id ns)"
    using import_node_id_text[of "''api''" 0 wt start] import_node_id_text[of "''poll''" 1 wt]
      import_node_ids_differ[of "''api''" "''poll''" 0 1 wt start] by auto
qed

lemma selected_operations:
  assumes "list_all plain_operation ops"
  shows "list_all plain_operation (fst (select_operations template ops))" "length (fst (select_operations template ops)) \<le> length ops"
proof -
  have "set (fst (select_operations template ops)) \<subseteq> set ops" by (auto simp: select_operations_def Let_def)
  then show "list_all plain_operation (fst (select_operations template ops))" using assms by (auto simp: list_all_iff)
  show "length (fst (select_operations template ops)) \<le> length ops"
    by (auto simp: select_operations_def Let_def)
qed

text \<open>
  C32: A flow generated from imported operations is a flow the plan compiler accepts, whatever the template, the
  suite name, the compile options and the ids of the operations: its nodes are compiled to steps one by one, in the order of the flow.
  The operations must have a name, a method and a path that are not blank; their number is at most \<open>10 ^ 60\<close>,
  so that the position, which keeps the node ids apart, is not cut off.
\<close>
theorem generated_flow_compiles:
  assumes "create_flow wt name template ops acknowledged = Inr (flow, ws)"
    and "list_all plain_operation ops" "length ops < 10 ^ 60"
  shows "\<exists>ns r. fNodes flow = Elements ns \<and> ns \<noteq> [] \<and> compile_visual lc yaml_dump (Some flow) options = Inr r
    \<and> pSteps (crPlan r) = map (\<lambda>n. normalize_step (to_execution_step (migrate_node n))) ns"
proof -
  obtain selected ws1 where s: "select_operations template ops = (selected, ws1)" by force
  obtain ns ws2 where n: "flow_nodes wt template selected = (ns, ws2)" by force
  have name: "\<not> blank name" and ne: "selected \<noteq> []"
    and flow: "flow = \<lparr>fVersion = Some ''1.1'', fSuiteName = Some (trim (the name)), fNodes = Elements ns,
                fEdges = Elements (linear_edges ns)\<rparr>"
    using assms(1) by (auto simp: create_flow_def bad_def s n split: if_splits)
  have plain: "list_all plain_operation selected" "length selected < 10 ^ 60"
    using selected_operations[OF assms(2), of template] assms(3) by (simp_all add: s)
  have "ns \<noteq> [] \<and> (\<forall>n\<in>set ns. import_node wt n \<and> trim (node_id n) \<noteq> []) \<and> distinct (map node_id ns)"
  proof (cases "template = ''ASYNC_POLLING''")
    case True
    with n have "ns = fst (async_polling_nodes wt selected)" by (simp add: flow_nodes_def)
    then show ?thesis using async_nodes_of_flow[OF plain(1) ne, of wt] by simp
  next
    case False
    with n have "ns = map (\<lambda>(i, o'). api_node wt o' i) (zip [0..<length selected] selected)" by (simp add: flow_nodes_def)
    then show ?thesis using api_nodes_of_flow[OF plain, of wt] ne by auto
  qed
  then show ?thesis
    using linear_flow_compiles[of flow "trim (the name)" ns lc yaml_dump options] import_nodes_valid[of ns wt "[]"] name
    by (auto simp: flow blank_def split: option.splits)
qed

definition sample_operation :: "string \<Rightarrow> string \<Rightarrow> imported_operation" where
  "sample_operation m path =
     \<lparr>opId = m, opName = m @ '' '' @ path, opMethod = m, opPath = path, opHeaders = [], opQuery = [], opBody = None,
      opResponses = Some [plain_response ''201'' ''Created''], opMetadata = JNull\<rparr>"

lemma generated_flow_compiles_witness:
  "\<exists>flow ws ns r. create_flow no_tools (Some '' Users '') ''CRUD_LIFECYCLE''
      [sample_operation ''DELETE'' ''/users'', sample_operation ''POST'' ''/users''] True = Inr (flow, ws)
    \<and> fNodes flow = Elements ns
    \<and> compile_visual code_unit_cmp unary_dump (Some flow) no_options = Inr r
    \<and> pSteps (crPlan r) = map (\<lambda>n. normalize_step (to_execution_step (migrate_node n))) ns"
proof -
  let ?ops = "[sample_operation ''DELETE'' ''/users'', sample_operation ''POST'' ''/users'']"
  have "(case create_flow no_tools (Some '' Users '') ''CRUD_LIFECYCLE'' ?ops True of Inr _ \<Rightarrow> True | _ \<Rightarrow> False)"
    by code_simp
  then obtain flow ws where c: "create_flow no_tools (Some '' Users '') ''CRUD_LIFECYCLE'' ?ops True = Inr (flow, ws)"
    by (auto split: sum.splits)
  have "list_all plain_operation ?ops" by code_simp
  then show ?thesis
    using generated_flow_compiles[OF c, of code_unit_cmp unary_dump no_options] c by simp blast
qed

section \<open>Gaps\<close>

text \<open>
  The secrets that \<open>generateFlow\<close> suggests come from literal credentials in the operations it is given.  The operations
  of a preview have none left, so nothing is suggested for a flow that refers to secrets.
\<close>

lemma previewed_operations_suggest_nothing:
  assumes "preview wt pid company input w = (Inr p, w')" "set ops \<subseteq> set (rsOperations p)"
    and "generated_from wt' lc yaml_dump \<lparr>giSuite = name, giTemplate = template, giOperations = ops, giAcknowledge = ack\<rparr> = Inr g"
  shows "gfSecrets g = []"
proof -
  obtain i r where "parse_import wt i = Inr r" "p = preview_of r" using preview_result[OF assms(1)] by blast
  then have "sanitized o'" if "o' \<in> set ops" for o'
    using that parse_import_sanitized assms(2) by (fastforce simp: preview_of_def Let_def list_all_iff)
  then have "fst (snd (sanitize_operation o')) = []" if "o' \<in> set ops" for o'
    using that sanitize_twice unfolding sanitized_def by (metis fst_conv snd_conv)
  then have none: "concat (map (\<lambda>o'. fst (snd (sanitize_operation o'))) ops) = []" by simp
  have "gfSecrets g = suggested_secrets (merge_auth_schemes (concat (map (\<lambda>o'. fst (snd (sanitize_operation o'))) ops)))"
    using assms(3) by (auto simp: generated_from_def)
  then show ?thesis unfolding none by (simp add: suggested_secrets_def merge_auth_schemes_def)
qed

text \<open>When no operation only reads, the smoke test runs them all and says that it uses only read-only ones.\<close>

lemma smoke_test_runs_mutations:
  assumes "filter (method_in [''GET'', ''HEAD'', ''OPTIONS'']) ops = []" "ops \<noteq> []"
  shows "select_operations ''SMOKE_TEST'' ops = (ops, [info_warning ''SMOKE_TEMPLATE_FILTERED_MUTATIONS'' Sev_Info
    ''Smoke test template uses only read-only operations.''])"
  using assms by (simp add: select_operations_def)

text \<open>A response under \<open>default\<close> or \<open>2XX\<close> makes the expected status not a number.\<close>

lemma named_response_expects_nan:
  "expected_status (Some [plain_response ''default'' []]) = NaN" "expected_status (Some [plain_response ''2XX'' []]) = NaN"
  by code_simp+

text \<open>Authorization headers of other kinds stay, and so does the command that a cURL import came from.\<close>

lemma digest_credentials_stay:
  "sanitize_header ''Authorization'' ''Digest abc'' oid = (''Digest abc'', [], [])"
proof -
  have "\<not> auth_prefix ''Bearer'' ''Digest abc''" "\<not> auth_prefix ''Basic'' ''Digest abc''" "\<not> is_sensitive_header ''Authorization''"
    by code_simp+
  then show ?thesis unfolding sanitize_header_def by simp
qed

lemma curl_command_is_kept:
  assumes "parse_curl wt input = Inr r"
  shows "\<exists>o'. rsOperations r = [o'] \<and> json_get (opMetadata o') ''rawCommand'' = Some (JStr (the (inContent input)))"
proof -
  have "ensure_content (inContent input) l = Inr c \<Longrightarrow> c = the (inContent input)" for l c
    by (auto simp: ensure_content_def split: if_splits)
  moreover have "opMetadata (fst (sanitize_operation o')) = opMetadata o'" for o' by (simp add: sanitize_operation_def Let_def)
  ultimately show ?thesis
    using assms by (auto simp: parse_curl_def Let_def single_result_def split_beta split: if_splits)
qed

end
