(* ===== verification/Artifact_Store.thy ===== *)
theory Artifact_Store
  imports Suite_Exec Secret_Crypto Transactions
begin

text \<open>
  Stored artifacts: the storage in the file system (\<open>artifacts/filesystem-artifact-storage.service.ts\<close>), the table of
  artifacts (\<open>artifacts/artifacts.service.ts\<close>), the log of a run with its limits
  (\<open>artifacts/artifact-log-writer.service.ts\<close>) and the removal of expired artifacts
  (\<open>artifacts/artifact-retention.service.ts\<close>).  Log texts are lists of Unicode code points, as the limits
  count the bytes of UTF-8.  \<open>gzip\<close> and SHA-256 are parameters, metrics are left out.
\<close>

section \<open>Paths\<close>

text \<open>\<open>path.normalize\<close>, \<open>path.join\<close> and \<open>path.resolve\<close> of Node on POSIX; \<open>out\<close> holds the segments so far, last first.\<close>

fun clean_segments :: "bool \<Rightarrow> string list \<Rightarrow> string list \<Rightarrow> string list" where
  "clean_segments climb out [] = rev out"
| "clean_segments climb out (s # ss) =
     (if s = [] \<or> s = ''.'' then clean_segments climb out ss
      else if s = ''..''
      then (if out \<noteq> [] \<and> hd out \<noteq> ''..'' then clean_segments climb (tl out) ss
            else clean_segments climb (if climb then ''..'' # out else out) ss)
      else clean_segments climb (s # out) ss)"

definition path_normalize :: "string \<Rightarrow> string" where
  "path_normalize s =
     (if s = [] then ''.''
      else
        let absolute = starts_with s ''/''; trailing = (last s = CHR ''/'');
            p = join_with ''/'' (clean_segments (\<not> absolute) [] (split_char (CHR ''/'') s)) in
        if p = [] then (if absolute then ''/'' else if trailing then ''./'' else ''.'')
        else (if absolute then ''/'' else []) @ p @ (if trailing then ''/'' else []))"

text \<open>\<open>resolve\<close> of an absolute path.\<close>

definition path_resolve :: "string \<Rightarrow> string" where
  "path_resolve s = CHR ''/'' # join_with ''/'' (clean_segments False [] (split_char (CHR ''/'') s))"

definition back_slash :: char where
  "back_slash = CHR 0x5C"

definition resolve_path :: "string \<Rightarrow> string \<Rightarrow> js_error + string" where
  "resolve_path base key =
     (if starts_with key ''/'' \<or> starts_with key [back_slash] then Inl (PlainError ''Artifact object key must be relative'')
      else
        let normalized = path_normalize key in
        if ''..'' \<in> set (split_char (CHR ''/'') (map (\<lambda>c. if c = back_slash then CHR ''/'' else c) normalized))
        then Inl (PlainError ''Artifact object key cannot contain parent segments'')
        else
          let path = path_resolve (path_normalize (base @ CHR ''/'' # normalized)) in
          if path \<noteq> base \<and> \<not> starts_with path (base @ ''/'') then Inl (PlainError ''Artifact object key escapes storage root'')
          else Inr path)"

section \<open>Tables\<close>

datatype artifact_type = SYSTEM_LOG | DOCKER_LOG | RESPONSE_BODY | REPORT_JSON | JUNIT_XML

datatype log_source = LOG_SYSTEM | LOG_DOCKER | LOG_TEST | LOG_ERROR

record artifact =
  arId :: string
  arRun :: string
  arStep :: "string option"
  arType :: artifact_type
  arKey :: string
  arMime :: string
  arSize :: nat
  arChecksum :: string
  arGzip :: bool
  arUntil :: int
  arCreated :: int

type_synonym code_points = "nat list"

record log_chunk =
  lcId :: string
  lcRun :: string
  lcArtifact :: "string option"
  lcSource :: log_source
  lcSequence :: int
  lcPreview :: code_points
  lcSize :: nat
  lcTruncated :: bool
  lcCreated :: int

text \<open>Of a test result only the link to the stored response; the files by their path.\<close>

record artifact_tables =
  atClock :: int
  atArtifacts :: "artifact list"
  atChunks :: "log_chunk list"
  atResponses :: "(string \<times> string option) list"
  atFiles :: "string \<rightharpoonup> bytes"

record artifact_env =
  aeRoot :: string
  aePreviewLimit :: "string option"
  aeTotalLimit :: "string option"
  aeRetentionDays :: "string option"
  aeZip :: "bytes \<Rightarrow> bytes"
  aeUnzip :: "bytes \<Rightarrow> js_error + bytes"
  aeHash :: "bytes \<Rightarrow> string"

type_synonym 'a artifact_io = "(artifact_tables, 'a) io"
type_synonym 'a artifact_tx = "(artifact_tables, 'a) tx"

section \<open>FilesystemArtifactStorage\<close>

text \<open>The directories are made on demand; making them and writing the file are one call.\<close>

definition storage_put :: "artifact_env \<Rightarrow> string \<Rightarrow> bytes \<Rightarrow> (nat \<times> string) artifact_io" where
  "storage_put env key data =
     io_bind (io_lift (resolve_path (aeRoot env) key)) (\<lambda>path.
     io_then (io_call (\<lambda>s. (Inr (), s\<lparr>atFiles := (atFiles s)(path \<mapsto> data)\<rparr>)))
       (io_return (length data, aeHash env data)))"

definition storage_get :: "artifact_env \<Rightarrow> string \<Rightarrow> bytes artifact_io" where
  "storage_get env key =
     io_bind (io_lift (resolve_path (aeRoot env) key)) (\<lambda>path.
     io_call (\<lambda>s. (case atFiles s path of
         None \<Rightarrow> Inl (PlainError (''ENOENT: no such file or directory, open '' @ path))
       | Some data \<Rightarrow> Inr data, s)))"

definition storage_delete :: "artifact_env \<Rightarrow> string \<Rightarrow> unit artifact_io" where
  "storage_delete env key =
     io_bind (io_lift (resolve_path (aeRoot env) key)) (\<lambda>path.
     io_call (\<lambda>s. (Inr (), s\<lparr>atFiles := (atFiles s)(path := None)\<rparr>)))"

definition create_download_url :: "artifact_env \<Rightarrow> string \<Rightarrow> string artifact_io" where
  "create_download_url env key =
     io_bind (io_lift (resolve_path (aeRoot env) key)) (\<lambda>_. io_return (''artifact://'' @ key))"

section \<open>ArtifactsService\<close>

definition positive_env :: "string option \<Rightarrow> rat \<Rightarrow> rat" where
  "positive_env v fallback =
     (case v of
        None \<Rightarrow> fallback
      | Some s \<Rightarrow> (case string_number s of Fin q \<Rightarrow> if 0 < q then q else fallback | _ \<Rightarrow> fallback))"

definition preview_limit_bytes :: "artifact_env \<Rightarrow> rat" where
  "preview_limit_bytes env = positive_env (aePreviewLimit env) (16 * 1024)"

definition total_log_limit_bytes :: "artifact_env \<Rightarrow> rat" where
  "total_log_limit_bytes env = positive_env (aeTotalLimit env) (10 * 1024 * 1024)"

definition retention_until :: "artifact_env \<Rightarrow> rat option \<Rightarrow> int \<Rightarrow> int" where
  "retention_until env days now =
     \<lfloor>of_int now + positive_env (aeRetentionDays env)
       (case days of Some d \<Rightarrow> if 0 < d then d else 30 | None \<Rightarrow> 30) * 24 * 60 * 60 * 1000\<rfloor>"

record artifact_input =
  aiRun :: string
  aiStep :: "string option"
  aiType :: artifact_type
  aiKey :: string
  aiMime :: string
  aiData :: bytes
  aiGzip :: bool
  aiUntil :: int

definition payload_of :: "artifact_env \<Rightarrow> artifact_input \<Rightarrow> bytes" where
  "payload_of env input = (if aiGzip input then aeZip env (aiData input) else aiData input)"

definition new_artifact :: "string \<Rightarrow> artifact_input \<Rightarrow> nat \<times> string \<Rightarrow> int \<Rightarrow> artifact" where
  "new_artifact i input stored now =
     \<lparr>arId = i, arRun = aiRun input, arStep = aiStep input, arType = aiType input, arKey = aiKey input,
      arMime = aiMime input, arSize = fst stored, arChecksum = snd stored, arGzip = aiGzip input,
      arUntil = aiUntil input, arCreated = now\<rparr>"

text \<open>An absent \<open>stepId\<close> leaves the column of the row as it is.\<close>

definition replaced_artifact :: "artifact_input \<Rightarrow> nat \<times> string \<Rightarrow> artifact \<Rightarrow> artifact" where
  "replaced_artifact input stored a =
     a\<lparr>arStep := (case aiStep input of None \<Rightarrow> arStep a | st \<Rightarrow> st), arType := aiType input, arMime := aiMime input,
       arSize := fst stored, arChecksum := snd stored, arGzip := aiGzip input, arUntil := aiUntil input\<rparr>"

definition artifact_at :: "string \<Rightarrow> artifact_tables \<Rightarrow> artifact option" where
  "artifact_at key s = find (\<lambda>a. arKey a = key) (atArtifacts s)"

definition create_artifact :: "artifact_env \<Rightarrow> string \<Rightarrow> artifact_input \<Rightarrow> artifact artifact_io" where
  "create_artifact env i input =
     io_bind (storage_put env (aiKey input) (payload_of env input)) (\<lambda>stored.
     io_call (\<lambda>s. (if artifact_at (aiKey input) s \<noteq> None then (Inl p2002, s)
       else let a = new_artifact i input stored (atClock s) in (Inr a, s\<lparr>atArtifacts := atArtifacts s @ [a]\<rparr>))))"

definition put_or_replace :: "artifact_env \<Rightarrow> string \<Rightarrow> artifact_input \<Rightarrow> artifact artifact_io" where
  "put_or_replace env i input =
     io_bind (storage_put env (aiKey input) (payload_of env input)) (\<lambda>stored.
     io_call (\<lambda>s. case artifact_at (aiKey input) s of
         None \<Rightarrow> let a = new_artifact i input stored (atClock s) in (Inr a, s\<lparr>atArtifacts := atArtifacts s @ [a]\<rparr>)
       | Some a \<Rightarrow> (Inr (replaced_artifact input stored a),
           s\<lparr>atArtifacts := map (\<lambda>x. if arKey x = aiKey input then replaced_artifact input stored x else x) (atArtifacts s)\<rparr>)))"

definition read_artifact :: "artifact_env \<Rightarrow> artifact \<Rightarrow> bytes artifact_io" where
  "read_artifact env a =
     io_bind (storage_get env (arKey a)) (\<lambda>payload.
     if arGzip a then io_lift (aeUnzip env payload) else io_return payload)"

section \<open>Byte limits\<close>

text \<open>\<open>Buffer.from(text, 'utf8')\<close>\<close>

definition utf8_bytes :: "nat \<Rightarrow> bytes" where
  "utf8_bytes c =
     (if c < 128 then [c]
      else if c < 2048 then [192 + c div 64, 128 + c mod 64]
      else if c < 65536 then [224 + c div 4096, 128 + c div 64 mod 64, 128 + c mod 64]
      else [240 + c div 262144, 128 + c div 4096 mod 64, 128 + c div 64 mod 64, 128 + c mod 64])"

definition utf8_encode :: "code_points \<Rightarrow> bytes" where
  "utf8_encode t = concat (map utf8_bytes t)"

definition utf8_size :: "code_points \<Rightarrow> nat" where
  "utf8_size t = length (utf8_encode t)"

text \<open>
  \<open>buffer.subarray(0, n).toString('utf8')\<close>: a character whose bytes are cut becomes one replacement
  character, U+FFFD.
\<close>

fun cut_text :: "nat \<Rightarrow> code_points \<Rightarrow> code_points" where
  "cut_text n [] = []"
| "cut_text n (c # t) =
     (let w = length (utf8_bytes c) in
      if w \<le> n then c # cut_text (n - w) t else if n = 0 then [] else [0xFFFD])"

definition truncate_text_by_bytes :: "code_points \<Rightarrow> rat \<Rightarrow> code_points \<times> bool" where
  "truncate_text_by_bytes t limit =
     (if of_nat (utf8_size t) \<le> limit then (t, False) else (cut_text (nat \<lfloor>limit\<rfloor>) t, True))"

section \<open>ArtifactLogWriterService\<close>

definition current_log_bytes :: "string \<Rightarrow> artifact_tables \<Rightarrow> nat" where
  "current_log_bytes rid s = sum_list (map lcSize (filter (\<lambda>c. lcRun c = rid) (atChunks s)))"

definition source_chunks :: "string \<Rightarrow> log_source \<Rightarrow> artifact_tables \<Rightarrow> log_chunk list" where
  "source_chunks rid src s = filter (\<lambda>c. lcRun c = rid \<and> lcSource c = src) (atChunks s)"

definition latest_chunk :: "string \<Rightarrow> log_source \<Rightarrow> artifact_tables \<Rightarrow> log_chunk option" where
  "latest_chunk rid src s =
     (case sort_by (\<lambda>a b. lcSequence b - lcSequence a) (source_chunks rid src s) of [] \<Rightarrow> None | c # _ \<Rightarrow> Some c)"

definition insert_chunk :: "log_chunk \<Rightarrow> artifact_tables \<Rightarrow> (js_error + log_chunk) \<times> artifact_tables" where
  "insert_chunk c s =
     (if list_ex (\<lambda>x. lcSequence x = lcSequence c) (source_chunks (lcRun c) (lcSource c) s) then (Inl p2002, s)
      else let c' = c\<lparr>lcCreated := atClock s\<rparr> in (Inr c', s\<lparr>atChunks := atChunks s @ [c']\<rparr>))"

definition create_chunk ::
    "artifact_env \<Rightarrow> string \<Rightarrow> string \<Rightarrow> log_source \<Rightarrow> code_points \<Rightarrow> bool \<Rightarrow> nat \<Rightarrow> log_chunk artifact_io" where
  "create_chunk env i rid src message truncated n =
     io_bind (io_read (latest_chunk rid src)) (\<lambda>latest.
     case truncate_text_by_bytes message (preview_limit_bytes env) of (shown, shortened) \<Rightarrow>
     io_call (insert_chunk
       \<lparr>lcId = i, lcRun = rid, lcArtifact = None, lcSource = src,
        lcSequence = (case latest of None \<Rightarrow> 0 | Some c \<Rightarrow> lcSequence c) + 1, lcPreview = shown, lcSize = n,
        lcTruncated = (truncated \<or> shortened), lcCreated = 0\<rparr>))"

definition create_limit_marker :: "artifact_env \<Rightarrow> string \<Rightarrow> string \<Rightarrow> log_source \<Rightarrow> log_chunk option artifact_io" where
  "create_limit_marker env i rid src =
     io_bind (io_read (latest_chunk rid src)) (\<lambda>latest.
     case latest of
       Some c \<Rightarrow> if lcTruncated c \<and> lcSize c = 0 then io_return None
         else io_bind (create_chunk env i rid src [] True 0) (\<lambda>c. io_return (Some c))
     | None \<Rightarrow> io_bind (create_chunk env i rid src [] True 0) (\<lambda>c. io_return (Some c)))"

definition points :: "string \<Rightarrow> code_points" where
  "points s = map of_char s"

text \<open>\<open>JSON.stringify\<close> of a text: characters above 255 are written as they are.\<close>

definition quote_points :: "code_points \<Rightarrow> code_points" where
  "quote_points t = 34 # concat (map (\<lambda>c. if c < 256 then points (escape_char (char_of c)) else [c]) t) @ [34]"

fun source_name :: "log_source \<Rightarrow> string" where
  "source_name LOG_SYSTEM = ''SYSTEM''"
| "source_name LOG_DOCKER = ''DOCKER''"
| "source_name LOG_TEST = ''TEST''"
| "source_name LOG_ERROR = ''ERROR''"

definition chunk_line :: "log_chunk \<Rightarrow> code_points" where
  "chunk_line c =
     points (''{\"sequence\":'' @ dec_int (lcSequence c) @ '',\"source\":'' @ quote_string (source_name (lcSource c)) @ '',\"message\":'')
       @ quote_points (lcPreview c)
       @ points ('',\"truncated\":'' @ (if lcTruncated c then ''true'' else ''false'') @ '',\"createdAt\":''
           @ quote_string (iso_string (lcCreated c)) @ ''}'')"

fun join_lines :: "code_points list \<Rightarrow> code_points" where
  "join_lines [] = []"
| "join_lines [x] = x"
| "join_lines (x # y # ys) = x @ 10 # join_lines (y # ys)"

definition same_log :: "string \<Rightarrow> log_source \<Rightarrow> log_chunk \<Rightarrow> bool" where
  "same_log rid src c = (lcRun c = rid \<and> (if src = LOG_DOCKER then lcSource c = src else lcSource c \<noteq> LOG_DOCKER))"

definition created_order :: "log_chunk \<Rightarrow> log_chunk \<Rightarrow> int" where
  "created_order a b = (if lcCreated a = lcCreated b then lcSequence a - lcSequence b else lcCreated a - lcCreated b)"

definition log_rows :: "string \<Rightarrow> log_source \<Rightarrow> artifact_tables \<Rightarrow> log_chunk list" where
  "log_rows rid src s =
     sort_by (if src = LOG_DOCKER then \<lambda>a b. lcSequence a - lcSequence b else created_order)
       (filter (same_log rid src) (atChunks s))"

definition log_content :: "log_source \<Rightarrow> log_chunk list \<Rightarrow> code_points" where
  "log_content src cs = join_lines (map (if src = LOG_DOCKER then lcPreview else chunk_line) cs)"

definition log_key :: "string \<Rightarrow> log_source \<Rightarrow> string" where
  "log_key rid src =
     ''runs/'' @ rid @ (if src = LOG_DOCKER then ''/logs/docker/compose.log.gz'' else ''/logs/system.ndjson.gz'')"

definition log_input :: "artifact_env \<Rightarrow> string \<Rightarrow> log_source \<Rightarrow> log_chunk list \<Rightarrow> int \<Rightarrow> artifact_input" where
  "log_input env rid src cs now =
     (let content = log_content src cs in
      \<lparr>aiRun = rid, aiStep = None, aiType = (if src = LOG_DOCKER then DOCKER_LOG else SYSTEM_LOG), aiKey = log_key rid src,
       aiMime = (if src = LOG_DOCKER then ''text/plain'' else ''application/x-ndjson''),
       aiData = utf8_encode (content @ (if content = [] then [] else [10])), aiGzip = True,
       aiUntil = retention_until env None now\<rparr>)"

text \<open>\<open>updateMany\<close> fails with a foreign key error when the artifact is gone.\<close>

definition p2003 :: js_error where
  "p2003 = PlainError ''Foreign key constraint failed''"

definition link_chunks :: "string \<Rightarrow> log_source \<Rightarrow> string \<Rightarrow> unit artifact_io" where
  "link_chunks rid src i =
     io_call (\<lambda>s.
       let hit = (\<lambda>c. same_log rid src c \<and> lcArtifact c = None) in
       if list_ex hit (atChunks s) \<and> \<not> list_ex (\<lambda>a. arId a = i) (atArtifacts s) then (Inl p2003, s)
       else (Inr (), s\<lparr>atChunks := map (\<lambda>c. if hit c then c\<lparr>lcArtifact := Some i\<rparr> else c) (atChunks s)\<rparr>))"

definition rebuild_source_artifact ::
    "artifact_env \<Rightarrow> string \<Rightarrow> string \<Rightarrow> log_source \<Rightarrow> string option \<Rightarrow> unit artifact_io" where
  "rebuild_source_artifact env i rid src previous =
     io_bind (io_read (log_rows rid src)) (\<lambda>cs.
     io_bind (io_peek atClock) (\<lambda>now.
     io_bind (put_or_replace env i (log_input env rid src cs now)) (\<lambda>a.
     if \<not> truthy_str previous \<or> previous \<noteq> Some (arId a) then link_chunks rid src (arId a) else io_return ())))"

text \<open>\<open>i\<close> and \<open>j\<close> are the random ids of a new chunk and a new artifact.\<close>

definition append_log ::
    "artifact_env \<Rightarrow> string \<Rightarrow> string \<Rightarrow> string \<Rightarrow> log_source \<Rightarrow> code_points \<Rightarrow> unit artifact_io" where
  "append_log env i j rid src message =
     (let total = total_log_limit_bytes env in
      io_bind (io_read (current_log_bytes rid)) (\<lambda>existing.
      if total \<le> of_nat existing
      then io_bind (create_limit_marker env i rid src) (\<lambda>marker.
        if marker \<noteq> None then rebuild_source_artifact env j rid src None else io_return ())
      else
        let available = total - of_nat existing; truncated = (available < of_nat (utf8_size message));
            limited = (if truncated then cut_text (nat \<lfloor>available\<rfloor>) message else message) in
        io_bind (create_chunk env i rid src limited truncated (utf8_size limited)) (\<lambda>c.
        rebuild_source_artifact env j rid src (lcArtifact c))))"

section \<open>ArtifactRetentionService\<close>

definition unlink_artifact :: "string \<Rightarrow> artifact_tables \<Rightarrow> artifact_tables" where
  "unlink_artifact i s =
     s\<lparr>atChunks := map (\<lambda>c. if lcArtifact c = Some i then c\<lparr>lcArtifact := None\<rparr> else c) (atChunks s),
       atResponses := map (\<lambda>(r, a). (r, if a = Some i then None else a)) (atResponses s)\<rparr>"

definition remove_row :: "string \<Rightarrow> artifact_tables \<Rightarrow> artifact_tables" where
  "remove_row i s = s\<lparr>atArtifacts := filter (\<lambda>a. arId a \<noteq> i) (atArtifacts s)\<rparr>"

text \<open>The database runs the three statements of the batch as one transaction.\<close>

definition delete_artifact :: "artifact_env \<Rightarrow> artifact \<Rightarrow> unit artifact_io" where
  "delete_artifact env a =
     io_then (io_ignore (storage_delete env (arKey a)))
       (io_call (\<lambda>s. if list_ex (\<lambda>x. arId x = arId a) (atArtifacts s)
          then (Inr (), remove_row (arId a) (unlink_artifact (arId a) s)) else (Inl p2025, s)))"

definition expired_artifacts :: "int \<Rightarrow> artifact_tables \<Rightarrow> artifact list" where
  "expired_artifacts now s = take 100 (filter (\<lambda>a. arUntil a < now) (atArtifacts s))"

definition cleanup_expired :: "artifact_env \<Rightarrow> nat artifact_io" where
  "cleanup_expired env =
     io_bind (io_peek atClock) (\<lambda>now.
     io_bind (io_read (expired_artifacts now)) (\<lambda>expired.
     io_then (io_for expired (delete_artifact env)) (io_return (length expired))))"

end
