(* ===== verification/Artifact_Props.thy ===== *)
theory Artifact_Props
  imports Artifact_Store Compose_Import
begin

text \<open>
  What the artifact services guarantee: files stay below the root of the storage, links to artifacts stay live,
  stored data reads back, the log of a run keeps its limit, and only expired artifacts are removed.
\<close>

section \<open>Paths\<close>

definition plain_segment :: "string \<Rightarrow> bool" where
  "plain_segment s = (s \<noteq> [] \<and> s \<noteq> ''.'' \<and> s \<noteq> ''..'' \<and> CHR ''/'' \<notin> set s)"

definition path_of :: "string list \<Rightarrow> string" where
  "path_of ss = CHR ''/'' # join_with ''/'' ss"

lemma split_char_piece: "w \<in> set (split_char c s) \<Longrightarrow> c \<notin> set w"
  by (induction s arbitrary: w) (auto split: list.splits if_splits)

lemma clean_segments_plain:
  "list_all plain_segment out \<Longrightarrow> \<forall>s\<in>set ss. CHR ''/'' \<notin> set s \<Longrightarrow> list_all plain_segment (clean_segments False out ss)"
proof (induction ss arbitrary: out)
  case (Cons s ss)
  have "list_all plain_segment (tl out)" using Cons.prems(1) by (cases out) auto
  moreover have "s \<noteq> [] \<Longrightarrow> s \<noteq> ''.'' \<Longrightarrow> s \<noteq> ''..'' \<Longrightarrow> plain_segment s" using Cons.prems(2) by (simp add: plain_segment_def)
  ultimately show ?case using Cons by simp
qed simp

lemma clean_segments_id: "list_all plain_segment ss \<Longrightarrow> clean_segments climb out ss = rev out @ ss"
  by (induction ss arbitrary: out) (auto simp: plain_segment_def)

lemma split_join: "ss \<noteq> [] \<Longrightarrow> \<forall>s\<in>set ss. c \<notin> set s \<Longrightarrow> split_char c (join_with [c] ss) = ss"
proof (induction ss)
  case (Cons s ss)
  then show ?case by (cases ss) (simp_all add: split_char_absent split_char_first)
qed simp

lemma plain_no_slash: "list_all plain_segment ss \<Longrightarrow> \<forall>s\<in>set ss. CHR ''/'' \<notin> set s"
  by (auto simp: list_all_iff plain_segment_def)

lemma join_plain:
  assumes "list_all plain_segment ss" "ss \<noteq> []"
  shows "join_with ''/'' ss \<noteq> []" "hd (join_with ''/'' ss) \<noteq> CHR ''/''" "last (join_with ''/'' ss) \<noteq> CHR ''/''"
proof -
  have "join_with ''/'' ss \<noteq> [] \<and> hd (join_with ''/'' ss) \<noteq> CHR ''/'' \<and> last (join_with ''/'' ss) \<noteq> CHR ''/''"
    using assms
  proof (induction ss)
    case (Cons s ss)
    then have s: "s \<noteq> []" "CHR ''/'' \<notin> set s" by (auto simp: plain_segment_def)
    then have ends: "hd s \<noteq> CHR ''/''" "last s \<noteq> CHR ''/''" by (metis hd_in_set, metis last_in_set)
    show ?case
    proof (cases ss)
      case Nil
      then show ?thesis using s ends by simp
    next
      case (Cons t ts)
      then show ?thesis using s ends Cons.IH Cons.prems by simp
    qed
  qed simp
  then show "join_with ''/'' ss \<noteq> []" "hd (join_with ''/'' ss) \<noteq> CHR ''/''" "last (join_with ''/'' ss) \<noteq> CHR ''/''" by auto
qed

lemma join_append: "as \<noteq> [] \<Longrightarrow> bs \<noteq> [] \<Longrightarrow> join_with ''/'' (as @ bs) = join_with ''/'' as @ CHR ''/'' # join_with ''/'' bs"
proof (induction as)
  case (Cons a as)
  then show ?case by (cases as; cases bs) simp_all
qed simp

lemma path_split:
  assumes "list_all plain_segment ss" "ss \<noteq> []"
  shows "split_char (CHR ''/'') (path_of ss) = [] # ss"
  using split_join[OF assms(2), of "CHR ''/''"] plain_no_slash[OF assms(1)] by (simp add: path_of_def)

lemma path_of_normal:
  assumes "list_all plain_segment ss" "ss \<noteq> []"
  shows "path_normalize (path_of ss) = path_of ss" "path_resolve (path_of ss) = path_of ss"
proof -
  have clean: "clean_segments False [] (split_char (CHR ''/'') (path_of ss)) = ss"
    unfolding path_split[OF assms] using clean_segments_id[OF assms(1)] by simp
  then show "path_resolve (path_of ss) = path_of ss" unfolding path_resolve_def by (simp add: path_of_def)
  have ends: "path_of ss \<noteq> []" "starts_with (path_of ss) ''/''" "last (path_of ss) \<noteq> CHR ''/''"
    using join_plain[OF assms] by (simp_all add: path_of_def)
  show "path_normalize (path_of ss) = path_of ss"
    unfolding path_normalize_def Let_def if_not_P[OF ends(1)] if_P[OF ends(2)] if_not_P[OF ends(3)]
    using ends(2) clean join_plain(1)[OF assms] by (simp add: path_of_def)
qed

lemma starts_with_append: "starts_with (a @ b) a"
  by (simp add: starts_with_iff)

text \<open>A key of plain segments is the path of its file below the root.\<close>

lemma plain_key_resolves:
  assumes "list_all plain_segment rs" "rs \<noteq> []" "list_all plain_segment ks" "ks \<noteq> []"
    and "back_slash \<notin> set (join_with ''/'' ks)"
  shows "resolve_path (path_of rs) (join_with ''/'' ks) = Inr (path_of (rs @ ks))"
proof -
  define k where "k = join_with ''/'' ks"
  note j = join_plain[OF assms(3,4), folded k_def]
  have nb: "back_slash \<notin> set k" using assms(5) by (simp only: k_def not_False_eq_True)
  have same: "map (\<lambda>c. if c = back_slash then CHR ''/'' else c) k = k"
  proof (rule map_idI)
    fix c assume "c \<in> set k"
    with nb have "c \<noteq> back_slash" by blast
    then show "(if c = back_slash then CHR ''/'' else c) = c" by simp
  qed
  have split: "split_char (CHR ''/'') k = ks"
    unfolding k_def using split_join assms(4) plain_no_slash[OF assms(3)] by blast
  have rel: "\<not> starts_with k ''/''" "\<not> starts_with k [back_slash]"
  proof -
    obtain c t where k: "k = c # t" using j(1) by (cases k) auto
    have "c \<noteq> CHR ''/''" using j(2) unfolding k by simp
    moreover have "c \<noteq> back_slash" using nb unfolding k by auto
    ultimately show "\<not> starts_with k ''/''" "\<not> starts_with k [back_slash]" unfolding k by simp_all
  qed
  have norm: "path_normalize k = k"
    using j(1,3) rel(1) clean_segments_id[OF assms(3), of True "[]"] unfolding path_normalize_def Let_def split
    by (simp add: k_def[symmetric])
  have up: "''..'' \<notin> set ks" using assms(3) by (auto simp: list_all_iff plain_segment_def)
  have at_base: "path_of rs @ CHR ''/'' # k = path_of (rs @ ks)"
    using join_append[OF assms(2,4)] by (simp add: path_of_def k_def)
  have full: "path_resolve (path_normalize (path_of (rs @ ks))) = path_of (rs @ ks)"
    using path_of_normal[of "rs @ ks"] assms(1-4) by simp
  have below: "starts_with (path_of (rs @ ks)) (path_of rs @ ''/'')"
    unfolding at_base[symmetric] by (simp add: starts_with_iff)
  have "resolve_path (path_of rs) k = Inr (path_of (rs @ ks))"
    unfolding resolve_path_def Let_def norm same split at_base full using rel up below by simp
  then show ?thesis by (simp only: k_def)
qed

text \<open>
  C34: The storage writes, reads and removes files only below its root: the path a key resolves to is made of plain
  segments, without \<open>.\<close> or \<open>..\<close>, and is the root or begins with the root and a slash.
\<close>
theorem stored_paths_stay_below_root:
  assumes "resolve_path base key = Inr path"
  shows "(path = base \<or> starts_with path (base @ ''/'')) \<and> (\<exists>ss. list_all plain_segment ss \<and> path = path_of ss)"
proof -
  obtain s where "path = path_resolve s" and below: "path = base \<or> starts_with path (base @ ''/'')"
    using assms by (auto simp: resolve_path_def Let_def split: if_splits)
  moreover have "list_all plain_segment (clean_segments False [] (split_char (CHR ''/'') s))"
    by (rule clean_segments_plain) (auto dest: split_char_piece)
  ultimately show ?thesis unfolding path_resolve_def path_of_def by blast
qed

lemma stored_paths_stay_below_root_witness:
  "starts_with ''/data/runs/r1/report.json'' ''/data/''
    \<and> resolve_path ''/data'' ''runs/r1/report.json'' = Inr ''/data/runs/r1/report.json''
    \<and> (\<exists>ss. list_all plain_segment ss \<and> ''/data/runs/r1/report.json'' = path_of ss)"
proof -
  have r: "resolve_path ''/data'' ''runs/r1/report.json'' = Inr ''/data/runs/r1/report.json''" by code_simp
  then show ?thesis using stored_paths_stay_below_root[OF r] by simp
qed

text \<open>
  The check for parent segments follows the normalisation, so a key with one inside is accepted and names the file of
  another key; a storage root of \<open>/\<close> refuses every key.
\<close>

lemma keys_share_a_file:
  "resolve_path ''/data'' ''runs/r1/../r2/report.json'' = resolve_path ''/data'' ''runs/r2/report.json''"
  by code_simp

lemma slash_root_refuses:
  "resolve_path ''/'' ''runs/r1/report.json'' = Inl (PlainError ''Artifact object key escapes storage root'')"
  by code_simp

section \<open>Stored data\<close>

lemma storage_put_alone:
  "resolve_path (aeRoot env) key = Inr path \<Longrightarrow>
   storage_put env key data (quiet s) = (Inr (length data, aeHash env data), quiet (s\<lparr>atFiles := (atFiles s)(path \<mapsto> data)\<rparr>))"
  by (simp add: storage_put_def io_defs run_simps)

lemma put_or_replace_alone:
  assumes "put_or_replace env i input (quiet s) = (Inr a, w)"
  obtains path t where "resolve_path (aeRoot env) (aiKey input) = Inr path" "w = quiet t" "arKey a = aiKey input"
    "arGzip a = aiGzip input" "atFiles t = (atFiles s)(path \<mapsto> payload_of env input)"
proof -
  obtain path where path: "resolve_path (aeRoot env) (aiKey input) = Inr path"
    using assms by (cases "resolve_path (aeRoot env) (aiKey input)")
      (auto simp: put_or_replace_def storage_put_def io_defs run_simps)
  let ?stored = "(length (payload_of env input), aeHash env (payload_of env input))"
  show ?thesis
  proof (cases "artifact_at (aiKey input) s")
    case None
    then show ?thesis using that[OF path] assms
      by (auto simp: put_or_replace_def io_defs storage_put_alone[OF path] run_simps artifact_at_def Let_def new_artifact_def)
  next
    case (Some b)
    then have "arKey b = aiKey input" unfolding artifact_at_def by (auto simp: find_Some_iff)
    then show ?thesis using that[OF path] assms Some
      by (auto simp: put_or_replace_def io_defs storage_put_alone[OF path] run_simps artifact_at_def Let_def replaced_artifact_def)
  qed
qed

text \<open>
  What is stored under a key, new or in place of earlier data, is what the artifact reads back, compressed or not.
\<close>
theorem stored_artifact_reads_back:
  assumes "\<And>d. aeUnzip env (aeZip env d) = Inr d"
    and "put_or_replace env i input (quiet s) = (Inr a, w)"
  shows "read_artifact env a w = (Inr (aiData input), w)"
proof -
  obtain path t where "resolve_path (aeRoot env) (aiKey input) = Inr path" "w = quiet t" "arKey a = aiKey input"
    "arGzip a = aiGzip input" "atFiles t = (atFiles s)(path \<mapsto> payload_of env input)"
    by (rule put_or_replace_alone[OF assms(2)])
  then show ?thesis
    using assms(1) by (simp add: read_artifact_def storage_get_def io_defs run_simps payload_of_def)
qed

definition archive_env :: artifact_env where
  "archive_env = \<lparr>aeRoot = ''/data'', aePreviewLimit = None, aeTotalLimit = Some ''1'', aeRetentionDays = None,
     aeZip = rev, aeUnzip = (\<lambda>d. Inr (rev d)), aeHash = (\<lambda>_. ''00'')\<rparr>"

definition no_artifacts :: artifact_tables where
  "no_artifacts = \<lparr>atClock = 0, atArtifacts = [], atChunks = [], atResponses = [], atFiles = Map.empty\<rparr>"

definition sample_report :: artifact_input where
  "sample_report = \<lparr>aiRun = ''r1'', aiStep = None, aiType = REPORT_JSON, aiKey = ''runs/r1/report.json'',
     aiMime = ''application/json'', aiData = [123, 125], aiGzip = True, aiUntil = 1000\<rparr>"

lemma stored_artifact_reads_back_witness:
  "\<exists>a w. put_or_replace archive_env ''a1'' sample_report (quiet no_artifacts) = (Inr a, w)
    \<and> read_artifact archive_env a w = (Inr [123, 125], w)"
proof -
  have path: "resolve_path (aeRoot archive_env) (aiKey sample_report) = Inr ''/data/runs/r1/report.json''" by code_simp
  obtain a w where a: "put_or_replace archive_env ''a1'' sample_report (quiet no_artifacts) = (Inr a, w)"
    by (simp add: put_or_replace_def io_defs storage_put_alone[OF path] run_simps artifact_at_def Let_def no_artifacts_def)
  have "read_artifact archive_env a w = (Inr (aiData sample_report), w)"
    by (rule stored_artifact_reads_back[OF _ a]) (simp add: archive_env_def)
  with a show ?thesis by (auto simp: sample_report_def)
qed

section \<open>Links\<close>

text \<open>The chunks and results that refer to an artifact refer to a row that exists.\<close>

definition links_live :: "artifact_tables \<Rightarrow> bool" where
  "links_live s =
     ((\<forall>c\<in>set (atChunks s). \<forall>i. lcArtifact c = Some i \<longrightarrow> i \<in> arId ` set (atArtifacts s))
      \<and> (\<forall>p\<in>set (atResponses s). \<forall>i. snd p = Some i \<longrightarrow> i \<in> arId ` set (atArtifacts s)))"

definition links_step :: "artifact_tables \<Rightarrow> artifact_tables \<Rightarrow> bool" where
  "links_step s t = (links_live s \<longrightarrow> links_live t)"

interpretation links: step_relation links_step
  by unfold_locales (auto simp: links_step_def)

lemma links_same:
  "atChunks t = atChunks s \<Longrightarrow> atResponses t = atResponses s \<Longrightarrow> arId ` set (atArtifacts s) \<subseteq> arId ` set (atArtifacts t) \<Longrightarrow>
   links_step s t"
  unfolding links_step_def links_live_def by (simp only:) blast

lemma storage_links:
  "upholds links_step (storage_put env key data)" "upholds links_step (storage_get env key)"
  "upholds links_step (storage_delete env key)"
  unfolding storage_put_def storage_get_def storage_delete_def
  by (intro links.upholds_rules links.upholds_call links_same; simp split: option.splits)+

lemma put_or_replace_links: "upholds links_step (put_or_replace env i input)"
  unfolding put_or_replace_def
proof (intro links.upholds_bind storage_links links.upholds_call links_same, goal_cases)
  case (3 stored s)
  have "arId (if P then replaced_artifact input stored x else x) = arId x" for P x by (simp add: replaced_artifact_def)
  then have "arId ` set (map (\<lambda>x. if P x then replaced_artifact input stored x else x) as) = arId ` set as" for P as
    by (simp only: set_map image_image)
  then show ?case by (auto simp: Let_def split: option.splits)
qed (auto simp: Let_def split: option.splits)

lemma create_artifact_links: "upholds links_step (create_artifact env i input)"
  unfolding create_artifact_def
  by (intro links.upholds_rules links.upholds_call links_same storage_links; auto simp: Let_def)

lemma insert_chunk_links: "lcArtifact c = None \<Longrightarrow> links_step s (snd (insert_chunk c s))"
  by (auto simp: insert_chunk_def Let_def links_step_def links_live_def)

lemma create_chunk_links: "upholds links_step (create_chunk env i rid src m tr n)"
  unfolding create_chunk_def split_beta
  by (intro links.upholds_rules links.upholds_call insert_chunk_links) simp

lemma link_chunks_links: "upholds links_step (link_chunks rid src i)"
  unfolding link_chunks_def
proof (rule links.upholds_call, goal_cases)
  case (1 s)
  show ?case by (auto simp: Let_def links_step_def links_live_def list_ex_iff)
qed

lemma rebuild_links: "upholds links_step (rebuild_source_artifact env i rid src previous)"
  unfolding rebuild_source_artifact_def
  by (intro links.upholds_rules put_or_replace_links) (simp add: link_chunks_links links.upholds_return)

lemma marker_links: "upholds links_step (create_limit_marker env i rid src)"
  unfolding create_limit_marker_def
  by (intro links.upholds_rules) (auto intro!: links.upholds_rules create_chunk_links split: option.splits)

lemma links_branch: "upholds links_step m \<Longrightarrow> upholds links_step k \<Longrightarrow> upholds links_step (if b then m else k)"
  by simp

lemma append_links: "upholds links_step (append_log env i j rid src m)"
  unfolding append_log_def Let_def
  by (intro links.upholds_rules links_branch marker_links rebuild_links create_chunk_links)

lemma unlinked_row_links: "links_step s (remove_row i (unlink_artifact i s))"
proof -
  have keep: "k \<in> arId ` set as \<Longrightarrow> k \<noteq> i \<Longrightarrow> k \<in> arId ` set (filter (\<lambda>a. arId a \<noteq> i) as)" for k as by auto
  show ?thesis
    unfolding links_step_def links_live_def
  proof (intro impI conjI ballI allI, goal_cases)
    case (1 c k)
    then obtain c0 where "c0 \<in> set (atChunks s)" "lcArtifact c0 = Some k" "k \<noteq> i"
      by (auto simp: remove_row_def unlink_artifact_def split: if_splits)
    with 1(1) keep[of k "atArtifacts s"] show ?case by (simp add: remove_row_def unlink_artifact_def)
  next
    case (2 p k)
    then obtain q where "(q, Some k) \<in> set (atResponses s)" "k \<noteq> i"
      by (auto simp: remove_row_def unlink_artifact_def split: if_splits)
    with 2(1) keep[of k "atArtifacts s"] show ?case by (fastforce simp: remove_row_def unlink_artifact_def)
  qed
qed

lemma delete_links: "upholds links_step (delete_artifact env a)"
  unfolding delete_artifact_def
  by (intro links.upholds_rules links.upholds_call storage_links) (auto simp: unlinked_row_links links.step_refl)

lemma cleanup_links: "upholds links_step (cleanup_expired env)"
  unfolding cleanup_expired_def by (intro links.upholds_rules delete_links)

text \<open>
  C33: No operation leaves a log chunk or a test result with a link to an artifact that is gone, whatever other clients
  do meanwhile, as long as they keep the links live too.
\<close>
theorem artifact_links_stay_live:
  assumes "m \<in> {io_then (append_log env i j rid src message) (io_return ()), io_then (cleanup_expired env) (io_return ()),
      io_then (create_artifact env i input) (io_return ()), io_then (put_or_replace env i input) (io_return ())}"
    and "rely links_step (pending w)" "links_live (store w)"
  shows "links_live (store (snd (m w)))"
proof -
  have "upholds links_step m"
    using assms(1) append_links cleanup_links create_artifact_links put_or_replace_links
    by (auto intro!: links.upholds_then links.upholds_return)
  then show ?thesis using upholdsD assms(2,3) unfolding links_step_def by blast
qed

definition old_report :: artifact where
  "old_report = new_artifact ''a1'' sample_report (2, ''00'') 0"

definition linked_tables :: artifact_tables where
  "linked_tables = no_artifacts\<lparr>atClock := 2000, atArtifacts := [old_report], atResponses := [(''q1'', Some ''a1'')]\<rparr>"

lemma artifact_links_stay_live_witness:
  "links_live (store (snd (io_then (cleanup_expired archive_env) (io_return ()) (quiet linked_tables))))"
proof (rule artifact_links_stay_live)
  show "io_then (cleanup_expired archive_env) (io_return ())
      \<in> {io_then (append_log archive_env [] [] [] LOG_DOCKER []) (io_return ()), io_then (cleanup_expired archive_env) (io_return ()),
      io_then (create_artifact archive_env [] sample_report) (io_return ()), io_then (put_or_replace archive_env [] sample_report) (io_return ())}"
    by blast
  show "rely links_step (pending (quiet linked_tables))" by simp
  show "links_live (store (quiet linked_tables))"
    by (simp add: links_live_def linked_tables_def no_artifacts_def old_report_def new_artifact_def)
qed

section \<open>The limit of the log\<close>

lemma cut_text_size: "utf8_size (cut_text n t) \<le> n + (if \<forall>c\<in>set t. c < 128 then 0 else 2)"
proof (induction t arbitrary: n)
  case (Cons c t)
  let ?w = "length (utf8_bytes c)"
  have rep: "length (utf8_bytes 0xFFFD) = 3" by (simp add: utf8_bytes_def)
  show ?case
  proof (cases "?w \<le> n")
    case True
    then show ?thesis using Cons[of "n - ?w"] by (auto simp: utf8_size_def utf8_encode_def Let_def split: if_splits)
  next
    case False
    moreover from False have "0 < n \<Longrightarrow> \<not> c < 128" by (auto simp: utf8_bytes_def split: if_splits)
    ultimately show ?thesis using rep by (auto simp: utf8_size_def utf8_encode_def Let_def)
  qed
qed (simp add: utf8_size_def utf8_encode_def)

lemma create_chunk_alone:
  assumes "create_chunk env i rid src m tr n (quiet s) = (r, w)"
  shows "\<exists>t. w = quiet t \<and> (current_log_bytes rid t = current_log_bytes rid s
    \<or> current_log_bytes rid t = current_log_bytes rid s + n)"
  using assms
  by (auto simp: create_chunk_def io_defs run_simps split_beta insert_chunk_def Let_def current_log_bytes_def split: if_splits)

lemma rebuild_alone:
  assumes "rebuild_source_artifact env i rid src previous (quiet s) = (r, w)"
  shows "\<exists>t. w = quiet t \<and> current_log_bytes x t = current_log_bytes x s"
proof -
  define input where "input = log_input env rid src (log_rows rid src s) (atClock s)"
  obtain r1 w1 where p: "put_or_replace env i input (quiet s) = (r1, w1)" by force
  then obtain t1 where t1: "w1 = quiet t1" "atChunks t1 = atChunks s"
    by (cases "resolve_path (aeRoot env) (aiKey input)")
      (auto simp: put_or_replace_def storage_put_def io_defs run_simps Let_def split: option.splits)
  have same: "current_log_bytes x t1 = current_log_bytes x s" by (simp add: current_log_bytes_def t1)
  have link: "\<exists>t. link_chunks rid src k (quiet t1) = (q, quiet t) \<and> current_log_bytes x t = current_log_bytes x t1"
    if "link_chunks rid src k (quiet t1) = (q, v)" for k q v
  proof -
    have "sum_list (map lcSize (filter (\<lambda>c. lcRun c = x) (map (\<lambda>c. if P c then c\<lparr>lcArtifact := Some k\<rparr> else c) cs)))
        = sum_list (map lcSize (filter (\<lambda>c. lcRun c = x) cs))" for P cs
      by (induction cs) auto
    then show ?thesis using that by (auto simp: link_chunks_def run_simps Let_def current_log_bytes_def split: if_splits)
  qed
  show ?thesis
  proof (cases r1)
    case (Inl e)
    then show ?thesis using assms p t1 same
      by (auto simp: rebuild_source_artifact_def io_defs run_simps input_def)
  next
    case (Inr a)
    show ?thesis
    proof (cases "\<not> truthy_str previous \<or> previous \<noteq> Some (arId a)")
      case True
      then have "link_chunks rid src (arId a) (quiet t1) = (r, w)" using assms p t1 Inr
        by (simp add: rebuild_source_artifact_def io_defs run_simps input_def)
      from link[OF this] same this show ?thesis by auto
    next
      case False
      then have "w = quiet t1" using assms p t1 Inr
        by (auto simp: rebuild_source_artifact_def io_defs run_simps input_def)
      with same show ?thesis by blast
    qed
  qed
qed

definition log_slack :: "code_points \<Rightarrow> nat" where
  "log_slack t = (if \<forall>c\<in>set t. c < 128 then 0 else 2)"

text \<open>
  The log of a run keeps the limit on its total size: one message at a time, the recorded bytes never exceed the
  limit by more than two (a character cut at the limit is replaced by one of three bytes), and not at all when the
  messages are ASCII.
\<close>
theorem log_keeps_its_limit:
  assumes "append_log env i j rid src message (quiet s) = (r, w)"
    and "of_nat (current_log_bytes rid s) \<le> total_log_limit_bytes env + of_nat (log_slack message)"
  shows "of_nat (current_log_bytes rid (store w)) \<le> total_log_limit_bytes env + of_nat (log_slack message)"
proof -
  let ?L = "total_log_limit_bytes env" let ?n = "current_log_bytes rid s"
  show ?thesis
  proof (cases "?L \<le> of_nat ?n")
    case True
    obtain r1 w1 where m: "create_limit_marker env i rid src (quiet s) = (r1, w1)" by force
    have "create_limit_marker env i rid src (quiet s) = (Inr None, quiet s)
      \<or> (\<exists>q. create_chunk env i rid src [] True 0 (quiet s) = (q, w1))"
      using m by (auto simp: create_limit_marker_def io_defs run_simps split: option.splits if_splits sum.splits prod.splits)
    then obtain t1 where t1: "w1 = quiet t1" "current_log_bytes rid t1 = ?n"
      using m create_chunk_alone[of env i rid src "[]" True 0 s] by fastforce
    have "\<exists>t. w = quiet t \<and> current_log_bytes rid t = ?n"
    proof (cases "\<exists>c. r1 = Inr (Some c)")
      case True
      then have "rebuild_source_artifact env j rid src None (quiet t1) = (r, w)"
        using assms(1) \<open>?L \<le> of_nat ?n\<close> m t1(1) by (auto simp: append_log_def Let_def io_defs run_simps)
      from rebuild_alone[OF this, of rid] show ?thesis using t1(2) by simp
    next
      case False
      then have "w = quiet t1"
        using assms(1) \<open>?L \<le> of_nat ?n\<close> m t1(1)
        by (cases r1) (auto simp: append_log_def Let_def io_defs run_simps)
      then show ?thesis using t1(2) by blast
    qed
    then show ?thesis using assms(2) by auto
  next
    case False
    define a where "a = ?L - of_nat ?n"
    define limited where "limited = (if a < of_nat (utf8_size message) then cut_text (nat \<lfloor>a\<rfloor>) message else message)"
    have a: "0 < a" using False by (simp add: a_def)
    have size: "of_nat (utf8_size limited) \<le> a + of_nat (log_slack message)"
    proof (cases "a < of_nat (utf8_size message)")
      case True
      have "of_nat (nat \<lfloor>a\<rfloor>) \<le> a" using a by simp
      moreover have "utf8_size limited \<le> nat \<lfloor>a\<rfloor> + log_slack message"
        using cut_text_size[of "nat \<lfloor>a\<rfloor>" message] True by (simp add: limited_def log_slack_def)
      then have "(of_nat (utf8_size limited) :: rat) \<le> of_nat (nat \<lfloor>a\<rfloor>) + of_nat (log_slack message)"
        by (metis of_nat_add of_nat_le_iff)
      ultimately show ?thesis by simp
    qed (use a in \<open>simp add: limited_def\<close>)
    obtain r1 w1 where c: "create_chunk env i rid src limited (a < of_nat (utf8_size message)) (utf8_size limited) (quiet s) = (r1, w1)"
      by force
    then obtain t1 where t1: "w1 = quiet t1" "current_log_bytes rid t1 \<le> ?n + utf8_size limited"
      using create_chunk_alone[OF c] by auto
    have run: "append_log env i j rid src message (quiet s)
        = io_bind (create_chunk env i rid src limited (a < of_nat (utf8_size message)) (utf8_size limited))
            (\<lambda>c. rebuild_source_artifact env j rid src (lcArtifact c)) (quiet s)"
      using False by (simp add: append_log_def Let_def io_bind_def run_simps limited_def a_def)
    have "\<exists>t. w = quiet t \<and> current_log_bytes rid t = current_log_bytes rid t1"
    proof (cases r1)
      case (Inl e)
      then have "w = quiet t1" using assms(1) c t1(1) by (simp add: run io_bind_def)
      then show ?thesis by blast
    next
      case (Inr b)
      then have "rebuild_source_artifact env j rid src (lcArtifact b) (quiet t1) = (r, w)"
        using assms(1) c t1(1) by (simp add: run io_bind_def)
      from rebuild_alone[OF this, of rid] show ?thesis by simp
    qed
    then obtain t where t: "w = quiet t" "current_log_bytes rid t = current_log_bytes rid t1" by blast
    have "(of_nat (current_log_bytes rid t) :: rat) \<le> of_nat (?n + utf8_size limited)"
      using t1(2) t(2) by (simp only: of_nat_le_iff)
    also have "\<dots> \<le> ?L + of_nat (log_slack message)" using size by (simp add: a_def)
    finally show ?thesis by (simp add: t(1))
  qed
qed

text \<open>With a limit of one byte, a two-byte character is logged as three bytes.\<close>

definition sample_append :: "(js_error + unit) \<times> artifact_tables world" where
  "sample_append = append_log archive_env ''c1'' ''a1'' ''r1'' LOG_DOCKER [233] (quiet no_artifacts)"

lemma sample_limits: "total_log_limit_bytes archive_env = 1" "preview_limit_bytes archive_env = 16384"
proof -
  have "string_number ''1'' = Fin 1" by code_simp
  then show "total_log_limit_bytes archive_env = 1" by (simp add: total_log_limit_bytes_def positive_env_def archive_env_def)
qed (simp add: preview_limit_bytes_def positive_env_def archive_env_def)

lemma sample_append_bytes: "current_log_bytes ''r1'' (store (snd sample_append)) = 3"
proof -
  have size: "length (utf8_bytes 233) = 2" "utf8_size [233] = 2" "cut_text 1 [233] = [0xFFFD]" "utf8_size [0xFFFD] = 3"
    by (simp_all add: utf8_size_def utf8_encode_def utf8_bytes_def Let_def)
  obtain c t where c: "create_chunk archive_env ''c1'' ''r1'' LOG_DOCKER [0xFFFD] True 3 (quiet no_artifacts) = (Inr c, quiet t)"
    "current_log_bytes ''r1'' t = 3"
    by (simp add: create_chunk_def io_defs run_simps truncate_text_by_bytes_def size sample_limits insert_chunk_def
        latest_chunk_def source_chunks_def no_artifacts_def Let_def current_log_bytes_def)
  obtain r w where r: "rebuild_source_artifact archive_env ''a1'' ''r1'' LOG_DOCKER (lcArtifact c) (quiet t) = (r, w)" by force
  have "current_log_bytes ''r1'' no_artifacts = 0" by (simp add: current_log_bytes_def no_artifacts_def)
  then have "sample_append = (r, w)"
    using c(1) r by (simp add: sample_append_def append_log_def Let_def io_bind_def run_simps sample_limits size)
  then have "store (snd sample_append) = store w" by (metis snd_conv)
  then show ?thesis using rebuild_alone[OF r, of "''r1''"] c(2) by auto
qed

lemma total_limit_pos: "0 < total_log_limit_bytes env"
  by (auto simp: total_log_limit_bytes_def positive_env_def split: option.splits jsnum.splits)

lemma log_keeps_its_limit_witness:
  "of_nat (current_log_bytes ''r1'' (store (snd sample_append))) \<le> total_log_limit_bytes archive_env + of_nat (log_slack [233])"
proof -
  obtain r w where w: "append_log archive_env ''c1'' ''a1'' ''r1'' LOG_DOCKER [233] (quiet no_artifacts) = (r, w)" by force
  have "current_log_bytes ''r1'' no_artifacts = 0" by (simp add: current_log_bytes_def no_artifacts_def)
  then have "of_nat (current_log_bytes ''r1'' no_artifacts) \<le> total_log_limit_bytes archive_env + of_nat (log_slack [233])"
    using total_limit_pos[of archive_env] by simp
  from log_keeps_its_limit[OF w this] show ?thesis by (simp add: sample_append_def w)
qed

section \<open>Retention\<close>

text \<open>What the removal of one artifact leaves, when nobody interferes.\<close>

definition purge :: "artifact_env \<Rightarrow> artifact \<Rightarrow> artifact_tables \<Rightarrow> artifact_tables" where
  "purge env a s =
     remove_row (arId a) (unlink_artifact (arId a)
       (case resolve_path (aeRoot env) (arKey a) of Inl _ \<Rightarrow> s | Inr p \<Rightarrow> s\<lparr>atFiles := (atFiles s)(p := None)\<rparr>))"

lemma delete_alone:
  assumes "a \<in> set (atArtifacts s)"
  shows "delete_artifact env a (quiet s) = (Inr (), quiet (purge env a s))"
  using assms
  by (cases "resolve_path (aeRoot env) (arKey a)")
    (auto simp: delete_artifact_def storage_delete_def io_defs run_simps purge_def list_ex_iff)

lemma purge_artifacts: "atArtifacts (purge env a s) = filter (\<lambda>x. arId x \<noteq> arId a) (atArtifacts s)"
  by (simp add: purge_def remove_row_def unlink_artifact_def split: sum.splits)

lemma purge_files: "atFiles (purge env a s) p = (if resolve_path (aeRoot env) (arKey a) = Inr p then None else atFiles s p)"
  by (auto simp: purge_def remove_row_def unlink_artifact_def split: sum.splits)

lemma delete_all_alone:
  "distinct (map arId xs) \<Longrightarrow> set xs \<subseteq> set (atArtifacts s) \<Longrightarrow>
   \<exists>t. io_for xs (delete_artifact env) (quiet s) = (Inr (), quiet t)
     \<and> atArtifacts t = filter (\<lambda>a. arId a \<notin> arId ` set xs) (atArtifacts s)
     \<and> (\<forall>p. atFiles t p = (if \<exists>a\<in>set xs. resolve_path (aeRoot env) (arKey a) = Inr p then None else atFiles s p))"
proof (induction xs arbitrary: s)
  case (Cons x xs)
  let ?s = "purge env x s"
  have "set xs \<subseteq> set (atArtifacts ?s)"
  proof
    fix y assume y: "y \<in> set xs"
    then have "arId y \<in> arId ` set xs" by blast
    with Cons.prems(1) have "arId y \<noteq> arId x" by auto
    then show "y \<in> set (atArtifacts ?s)" using y Cons.prems(2) by (auto simp: purge_artifacts)
  qed
  moreover have "distinct (map arId xs)" using Cons.prems(1) by simp
  ultimately obtain t where t: "io_for xs (delete_artifact env) (quiet ?s) = (Inr (), quiet t)"
    "atArtifacts t = filter (\<lambda>a. arId a \<notin> arId ` set xs) (atArtifacts ?s)"
    "\<forall>p. atFiles t p = (if \<exists>a\<in>set xs. resolve_path (aeRoot env) (arKey a) = Inr p then None else atFiles ?s p)"
    using Cons.IH by blast
  have "io_for (x # xs) (delete_artifact env) (quiet s) = (Inr (), quiet t)"
    using delete_alone[of x s env] Cons.prems(2) t(1) by (simp add: io_defs)
  moreover have "atArtifacts t = filter (\<lambda>a. arId a \<notin> arId ` set (x # xs)) (atArtifacts s)"
    by (auto simp: t(2) purge_artifacts intro: filter_cong)
  moreover have "\<forall>p. atFiles t p = (if \<exists>a\<in>set (x # xs). resolve_path (aeRoot env) (arKey a) = Inr p then None else atFiles s p)"
    by (auto simp: t(3) purge_files)
  ultimately show ?case by blast
qed (simp add: run_simps)

text \<open>
  Alone, a retention pass removes exactly the expired artifacts it found, at most a hundred, with their files, and
  reports their number; every other row and file stays.
\<close>
theorem retention_removes_expired_only:
  assumes "distinct (map arId (atArtifacts s))"
  shows "\<exists>t. cleanup_expired env (quiet s) = (Inr (length (expired_artifacts (atClock s) s)), quiet t)
    \<and> atArtifacts t = filter (\<lambda>a. a \<notin> set (expired_artifacts (atClock s) s)) (atArtifacts s)
    \<and> (\<forall>p. atFiles t p = (if \<exists>a\<in>set (expired_artifacts (atClock s) s). resolve_path (aeRoot env) (arKey a) = Inr p
         then None else atFiles s p))"
proof -
  let ?xs = "expired_artifacts (atClock s) s"
  have sub: "set ?xs \<subseteq> set (atArtifacts s)"
    unfolding expired_artifacts_def using set_take_subset by fastforce
  have d: "distinct (map arId ?xs)"
    using assms by (auto simp: expired_artifacts_def take_map[symmetric] distinct_map_filter intro: distinct_take)
  obtain t where t: "io_for ?xs (delete_artifact env) (quiet s) = (Inr (), quiet t)"
     "atArtifacts t = filter (\<lambda>a. arId a \<notin> arId ` set ?xs) (atArtifacts s)"
     "\<forall>p. atFiles t p = (if \<exists>a\<in>set ?xs. resolve_path (aeRoot env) (arKey a) = Inr p then None else atFiles s p)"
    using delete_all_alone[OF d sub, of env] by blast
  have "arId a \<in> arId ` set ?xs \<longleftrightarrow> a \<in> set ?xs" if "a \<in> set (atArtifacts s)" for a
    using assms sub that by (auto simp: distinct_map inj_on_def)
  then have "atArtifacts t = filter (\<lambda>a. a \<notin> set ?xs) (atArtifacts s)" unfolding t(2) by (intro filter_cong) auto
  moreover have "cleanup_expired env (quiet s) = (Inr (length ?xs), quiet t)"
    using t(1) by (simp add: cleanup_expired_def io_defs run_simps)
  ultimately show ?thesis using t(3) by blast
qed

lemma retention_removes_expired_only_witness:
  "\<exists>t. cleanup_expired archive_env (quiet linked_tables) = (Inr 1, quiet t) \<and> atArtifacts t = []"
  using retention_removes_expired_only[of linked_tables archive_env]
  by (simp add: linked_tables_def old_report_def new_artifact_def sample_report_def no_artifacts_def expired_artifacts_def) blast

text \<open>
  An artifact that is written again, with a new date, between the search for expired rows and their removal is removed
  with its new content.
\<close>

definition renew :: "int \<Rightarrow> artifact_tables \<Rightarrow> artifact_tables" where
  "renew until s = s\<lparr>atArtifacts := map (\<lambda>a. a\<lparr>arUntil := until\<rparr>) (atArtifacts s)\<rparr>"

lemma renewed_artifact_is_removed:
  "atArtifacts (store (snd (cleanup_expired archive_env
    \<lparr>store = linked_tables, pending = [CallEnv id Done, CallEnv (renew 100000) Done]\<rparr>))) = []"
  by code_simp

end
