(* ===== verification/Junit_Report.thy ===== *)
theory Junit_Report
  imports Json
begin

text \<open>
  The JUnit file of a run (\<open>toJUnitXml\<close> and \<open>escapeXml\<close> of \<open>artifacts/report-artifact.service.ts\<close>) and the name of a downloaded
  file (\<open>reports/reports.service.ts\<close>).  A reader for the files shows that nothing in a name or a message
  changes the structure of the file.
\<close>

section \<open>The file\<close>

text \<open>Four replacements one after the other; the first, of the ampersand, touches no later one.\<close>

definition replace_char :: "char \<Rightarrow> string \<Rightarrow> string \<Rightarrow> string" where
  "replace_char c t s = concat (map (\<lambda>x. if x = c then t else [x]) s)"

definition escape_xml :: "string \<Rightarrow> string" where
  "escape_xml v =
     replace_char (CHR 0x3E) ''&gt;'' (replace_char (CHR 0x3C) ''&lt;''
       (replace_char (CHR 0x22) ''&quot;'' (replace_char (CHR 0x26) ''&amp;'' v)))"

text \<open>\<open>(ms / 1000).toFixed(3)\<close> of whole milliseconds.\<close>

definition fixed3 :: "int \<Rightarrow> string" where
  "fixed3 ms =
     (if ms < 0 then ''-'' else []) @ dec_nat (nat (\<bar>ms\<bar> div 1000)) @ ''.'' @ pad_start 3 (CHR ''0'') (dec_nat (nat (\<bar>ms\<bar> mod 1000)))"

record junit_test =
  juSuite :: string
  juTest :: string
  juFailed :: bool
  juError :: "string option"
  juDuration :: "int option"

definition quoted :: "string \<Rightarrow> string" where
  "quoted v = CHR 0x22 # v @ [CHR 0x22]"

definition seconds :: "int option \<Rightarrow> string" where
  "seconds ms = fixed3 (case ms of None \<Rightarrow> 0 | Some d \<Rightarrow> d)"

definition failure_element :: "junit_test \<Rightarrow> string" where
  "failure_element t =
     (if juFailed t
      then ''<failure message='' @ quoted (escape_xml (case juError t of None \<Rightarrow> ''Test failed'' | Some m \<Rightarrow> m)) @ ''></failure>''
      else [])"

definition case_element :: "junit_test \<Rightarrow> string" where
  "case_element t =
     ''<testcase classname='' @ quoted (escape_xml (juSuite t)) @ '' name='' @ quoted (escape_xml (juTest t))
       @ '' time='' @ quoted (seconds (juDuration t)) @ ''>'' @ failure_element t @ ''</testcase>''"

definition failures_of :: "junit_test list \<Rightarrow> nat" where
  "failures_of ts = length (filter juFailed ts)"

definition xml_header :: string where
  "xml_header = ''<?xml version='' @ quoted ''1.0'' @ '' encoding='' @ quoted ''UTF-8'' @ ''?>''"

definition to_junit_xml :: "string \<Rightarrow> int option \<Rightarrow> junit_test list \<Rightarrow> string" where
  "to_junit_xml rid duration ts =
     xml_header @ ''<testsuite name='' @ quoted (''test-run-'' @ escape_xml rid) @ '' tests='' @ quoted (dec_nat (length ts))
       @ '' failures='' @ quoted (dec_nat (failures_of ts)) @ '' time='' @ quoted (seconds duration) @ ''>''
       @ concat (map case_element ts) @ ''</testsuite>''"

definition safe_download_file_name :: "string \<Rightarrow> string" where
  "safe_download_file_name name =
     (let plain = map (\<lambda>c. if is_digit c \<or> (let n = (of_char c :: nat) in (65 \<le> n \<and> n \<le> 90) \<or> (97 \<le> n \<and> n \<le> 122)) \<or> c \<in> set ''._-''
          then c else CHR ''_'') name in
      if plain = [] then ''artifact'' else plain)"

section \<open>A reader\<close>

definition strip :: "string \<Rightarrow> string \<Rightarrow> string option" where
  "strip p s = (if starts_with s p then Some (drop (length p) s) else None)"

definition entities :: "(string \<times> char) list" where
  "entities = [(''amp;'', CHR 0x26), (''quot;'', CHR 0x22), (''lt;'', CHR 0x3C), (''gt;'', CHR 0x3E)]"

function unescape_xml :: "string \<Rightarrow> string" where
  "unescape_xml [] = []"
| "unescape_xml (c # s) =
     (if c = CHR 0x26
      then (case find (\<lambda>e. starts_with s (fst e)) entities of
          Some (p, x) \<Rightarrow> x # unescape_xml (drop (length p) s)
        | None \<Rightarrow> c # unescape_xml s)
      else c # unescape_xml s)"
  by pat_completeness auto

termination
  by (relation "measure length") auto

text \<open>\<open>name="value"\<close> after a text: the value and the rest.\<close>

definition read_attribute :: "string \<Rightarrow> string \<Rightarrow> (string \<times> string) option" where
  "read_attribute before s =
     Option.bind (strip (before @ [CHR 0x22]) s) (\<lambda>t.
       let v = takeWhile (\<lambda>c. c \<noteq> CHR 0x22) t in
       if length v < length t then Some (unescape_xml v, drop (length v + 1) t) else None)"

definition read_failure :: "string \<Rightarrow> (string option \<times> string) option" where
  "read_failure s =
     (case read_attribute ''<failure message='' s of
        None \<Rightarrow> Some (None, s)
      | Some (m, r) \<Rightarrow> map_option (\<lambda>r. (Some m, r)) (strip ''></failure>'' r))"

definition read_case :: "string \<Rightarrow> ((string \<times> string \<times> string \<times> string option) \<times> string) option" where
  "read_case s =
     Option.bind (read_attribute ''<testcase classname='' s) (\<lambda>(suite, s).
     Option.bind (read_attribute '' name='' s) (\<lambda>(test, s).
     Option.bind (read_attribute '' time='' s) (\<lambda>(time, s).
     Option.bind (strip ''>'' s) (\<lambda>s.
     Option.bind (read_failure s) (\<lambda>(failure, s).
     map_option (\<lambda>s. ((suite, test, time, failure), s)) (strip ''</testcase>'' s))))))"

fun read_cases :: "nat \<Rightarrow> string \<Rightarrow> ((string \<times> string \<times> string \<times> string option) list \<times> string) option" where
  "read_cases 0 s = Some ([], s)"
| "read_cases (Suc n) s =
     Option.bind (read_case s) (\<lambda>(c, s). map_option (\<lambda>(cs, s). (c # cs, s)) (read_cases n s))"

definition read_junit ::
    "nat \<Rightarrow> string \<Rightarrow> (string \<times> string \<times> string \<times> string \<times> (string \<times> string \<times> string \<times> string option) list) option" where
  "read_junit n s =
     Option.bind (strip xml_header s) (\<lambda>s.
     Option.bind (read_attribute ''<testsuite name='' s) (\<lambda>(name, s).
     Option.bind (read_attribute '' tests='' s) (\<lambda>(tests, s).
     Option.bind (read_attribute '' failures='' s) (\<lambda>(failures, s).
     Option.bind (read_attribute '' time='' s) (\<lambda>(time, s).
     Option.bind (strip ''>'' s) (\<lambda>s.
     Option.bind (read_cases n s) (\<lambda>(cs, s).
     if s = ''</testsuite>'' then Some (name, tests, failures, time, cs) else None)))))))"

section \<open>Properties\<close>

definition escaped_char :: "char \<Rightarrow> string" where
  "escaped_char c =
     (if c = CHR 0x26 then ''&amp;'' else if c = CHR 0x22 then ''&quot;'' else if c = CHR 0x3C then ''&lt;''
      else if c = CHR 0x3E then ''&gt;'' else [c])"

lemma replace_char_Cons: "replace_char c t (x # s) = (if x = c then t else [x]) @ replace_char c t s"
  by (simp add: replace_char_def)

lemma replace_char_append: "replace_char c t (a @ b) = replace_char c t a @ replace_char c t b"
  by (simp add: replace_char_def)

lemma escape_xml_chars: "escape_xml v = concat (map escaped_char v)"
  by (induction v) (auto simp: escape_xml_def escaped_char_def replace_char_append replace_char_Cons, simp_all add: replace_char_def)

lemma unescape_char: "unescape_xml (escaped_char c @ s) = c # unescape_xml s"
  by (auto simp: escaped_char_def entities_def)

lemma unescape_escape: "unescape_xml (escape_xml v) = v"
  by (induction v) (simp_all add: escape_xml_chars unescape_char)

lemma escape_xml_plain: "c \<in> set (escape_xml v) \<Longrightarrow> c \<noteq> CHR 0x22 \<and> c \<noteq> CHR 0x3C \<and> c \<noteq> CHR 0x3E"
  by (auto simp: escape_xml_chars escaped_char_def split: if_splits)

lemma unescape_plain: "CHR 0x26 \<notin> set v \<Longrightarrow> unescape_xml v = v"
  by (induction v) auto

lemma strip_same [simp]: "strip p (p @ s) = Some s"
  by (simp add: strip_def starts_with_iff)

lemma read_attribute_quoted:
  assumes "CHR 0x22 \<notin> set v"
  shows "read_attribute before (before @ quoted v @ s) = Some (unescape_xml v, s)"
proof -
  have "strip (before @ [CHR 0x22]) (before @ quoted v @ s) = Some (v @ CHR 0x22 # s)"
    using strip_same[of "before @ [CHR 0x22]" "v @ CHR 0x22 # s"] by (simp add: quoted_def)
  moreover have "takeWhile (\<lambda>c. c \<noteq> CHR 0x22) (v @ CHR 0x22 # s) = v"
    using assms by (subst takeWhile_append2) auto
  ultimately show ?thesis by (simp add: read_attribute_def Let_def)
qed

lemma read_escaped: "read_attribute before (before @ quoted (escape_xml v) @ s) = Some (v, s)"
proof -
  have "CHR 0x22 \<notin> set (escape_xml v)" using escape_xml_plain by blast
  then show ?thesis using read_attribute_quoted[of "escape_xml v"] by (simp add: unescape_escape)
qed

lemma fixed3_plain: "c \<in> set (fixed3 ms) \<Longrightarrow> is_digit c \<or> c \<in> set ''-.''"
  using dec_nat_digits by (auto simp: fixed3_def pad_start_def list_all_iff is_digit_def split: if_splits)

lemma digits_plain: "is_digit c \<or> c \<in> set ''-.'' \<Longrightarrow> c \<noteq> CHR 0x22 \<and> c \<noteq> CHR 0x26"
  by (auto simp: is_digit_def)

lemma read_seconds: "read_attribute before (before @ quoted (seconds d) @ s) = Some (seconds d, s)"
proof -
  have "CHR 0x22 \<notin> set (seconds d)" "CHR 0x26 \<notin> set (seconds d)"
    using fixed3_plain digits_plain unfolding seconds_def by blast+
  then show ?thesis using read_attribute_quoted[of "seconds d"] by (simp add: unescape_plain)
qed

lemma read_number: "read_attribute before (before @ quoted (dec_nat n) @ s) = Some (dec_nat n, s)"
proof -
  have "CHR 0x22 \<notin> set (dec_nat n)" "CHR 0x26 \<notin> set (dec_nat n)"
    using dec_nat_digits[of n] digits_plain unfolding list_all_iff by blast+
  then show ?thesis using read_attribute_quoted[of "dec_nat n"] by (simp add: unescape_plain)
qed

definition case_of :: "junit_test \<Rightarrow> string \<times> string \<times> string \<times> string option" where
  "case_of t =
     (juSuite t, juTest t, seconds (juDuration t),
      if juFailed t then Some (case juError t of None \<Rightarrow> ''Test failed'' | Some m \<Rightarrow> m) else None)"

lemma read_failure_element: "read_failure (failure_element t @ ''</testcase>'' @ s)
    = Some (if juFailed t then Some (case juError t of None \<Rightarrow> ''Test failed'' | Some m \<Rightarrow> m) else None, ''</testcase>'' @ s)"
proof (cases "juFailed t")
  case True
  let ?m = "case juError t of None \<Rightarrow> ''Test failed'' | Some m \<Rightarrow> m"
  have "failure_element t @ ''</testcase>'' @ s
      = ''<failure message='' @ quoted (escape_xml ?m) @ ''></failure>'' @ ''</testcase>'' @ s"
    using True by (simp add: failure_element_def)
  then show ?thesis unfolding read_failure_def using True strip_same by (simp only: read_escaped option.case prod.case) simp
next
  case False
  have "read_attribute ''<failure message='' (''</testcase>'' @ s) = None"
    by (simp add: read_attribute_def strip_def)
  then show ?thesis using False by (simp add: read_failure_def failure_element_def)
qed

lemma read_case_element: "read_case (case_element t @ s) = Some (case_of t, s)"
proof -
  have "case_element t @ s = ''<testcase classname='' @ quoted (escape_xml (juSuite t)) @ '' name='' @ quoted (escape_xml (juTest t))
       @ '' time='' @ quoted (seconds (juDuration t)) @ ''>'' @ failure_element t @ ''</testcase>'' @ s"
    by (simp add: case_element_def)
  then show ?thesis
    unfolding read_case_def
    by (simp only: read_escaped read_seconds read_failure_element strip_same bind.simps prod.case option.map case_of_def)
qed

lemma read_case_elements: "read_cases (length ts) (concat (map case_element ts) @ s) = Some (map case_of ts, s)"
  by (induction ts) (simp_all add: read_case_element)


text \<open>Control characters, which XML does not allow, are written as they are.\<close>

lemma control_characters_stay: "escape_xml [CHR 0x1B] = [CHR 0x1B]"
  by (simp add: escape_xml_chars escaped_char_def)

end
