(* ===== verification/Audit_Log.thy ===== *)
theory Audit_Log
  imports Suite_Revisions Masking Access
begin

text \<open>
  The audit log (\<open>audit/\<close>) with the removal of secret fields, and the log records of the platform
  (\<open>observability/\<close>): their redaction and the execution context they carry.  A key \<open>__proto__\<close>, which an assignment does
  not add to an object, is not modelled.
\<close>

section \<open>AuditSanitizerService\<close>

definition audit_secret_keys :: "string list" where
  "audit_secret_keys =
     [''authorization'', ''cookie'', ''password'', ''passwordHash'', ''token'', ''accessToken'', ''accesstoken'', ''apitoken'',
      ''secret'', ''encryptedvalue'', ''value'']"

definition redacted :: string where
  "redacted = ''[REDACTED]''"

fun audit_sanitize :: "json \<Rightarrow> json" where
  "audit_sanitize (JArr xs) = JArr (map audit_sanitize xs)"
| "audit_sanitize (JObj es) =
     JObj (map (\<lambda>(k, v). (k, if to_lower k \<in> set audit_secret_keys then JStr redacted else audit_sanitize v)) es)"
| "audit_sanitize v = v"

section \<open>AuditService\<close>

text \<open>The caller with the ids only audit records use.\<close>

record actor = principal +
  paService :: "string option"
  paToken :: "string option"

record audit_input =
  auAction :: string
  auCompany :: "string option"
  auProject :: "string option"
  auPrincipal :: "actor option"
  auResourceType :: "string option"
  auResourceId :: "string option"
  auRequestId :: "string option"
  auMetadata :: "json option"

record audit_event =
  evType :: string
  evAction :: string
  evCompany :: "string option"
  evProject :: "string option"
  evActorType :: principal_type
  evActorUser :: "string option"
  evService :: "string option"
  evToken :: "string option"
  evResourceType :: "string option"
  evResourceId :: "string option"
  evRequestId :: "string option"
  evMetadata :: json
  evCreated :: int

record audit_store =
  aoNow :: int
  aoEvents :: "audit_event list"

definition audit_row :: "audit_input \<Rightarrow> int \<Rightarrow> audit_event" where
  "audit_row input now =
     (let p = auPrincipal input in
      \<lparr>evType = auAction input, evAction = auAction input,
       evCompany = (case auCompany input of None \<Rightarrow> map_option prCompany p | c \<Rightarrow> c), evProject = auProject input,
       evActorType = (case p of None \<Rightarrow> USER | Some a \<Rightarrow> prType a), evActorUser = Option.bind p prUser,
       evService = Option.bind p paService, evToken = Option.bind p paToken, evResourceType = auResourceType input,
       evResourceId = auResourceId input, evRequestId = auRequestId input,
       evMetadata = (case auMetadata input of None \<Rightarrow> JNull | Some m \<Rightarrow> audit_sanitize m), evCreated = now\<rparr>)"

definition record_event :: "audit_input \<Rightarrow> (audit_store, unit) io" where
  "record_event input = io_call (\<lambda>s. (Inr (), s\<lparr>aoEvents := aoEvents s @ [audit_row input (aoNow s)]\<rparr>))"

text \<open>The dates of a query are in milliseconds; an empty text is no filter.\<close>

record audit_query =
  aqPage :: nat
  aqLimit :: nat
  aqAction :: "string option"
  aqActor :: "string option"
  aqProject :: "string option"
  aqResourceType :: "string option"
  aqResourceId :: "string option"
  aqFrom :: "int option"
  aqTo :: "int option"

definition query_allows :: "string option \<Rightarrow> string option \<Rightarrow> bool" where
  "query_allows wanted v = (truthy_str wanted \<longrightarrow> v = wanted)"

definition event_matches :: "string \<Rightarrow> audit_query \<Rightarrow> audit_event \<Rightarrow> bool" where
  "event_matches company q e =
     (evCompany e = Some company \<and> query_allows (aqAction q) (Some (evAction e)) \<and> query_allows (aqActor q) (evActorUser e)
      \<and> query_allows (aqProject q) (evProject e) \<and> query_allows (aqResourceType q) (evResourceType e)
      \<and> query_allows (aqResourceId q) (evResourceId e)
      \<and> (case aqFrom q of None \<Rightarrow> True | Some t \<Rightarrow> t \<le> evCreated e) \<and> (case aqTo q of None \<Rightarrow> True | Some t \<Rightarrow> evCreated e \<le> t))"

definition matching_events :: "string \<Rightarrow> audit_query \<Rightarrow> audit_store \<Rightarrow> audit_event list" where
  "matching_events company q s = filter (event_matches company q) (aoEvents s)"

text \<open>Both queries start at once; the answers come one by one.\<close>

definition list_events :: "string \<Rightarrow> audit_query \<Rightarrow> (audit_store, audit_event result_page) io" where
  "list_events company q =
     io_bind (io_read (\<lambda>s. page_slice (aqPage q) (aqLimit q)
         (sort_by (\<lambda>a b. evCreated b - evCreated a) (matching_events company q s)))) (\<lambda>rows.
     io_bind (io_read (\<lambda>s. length (matching_events company q s))) (\<lambda>n.
     io_return (page_result (aqPage q) (aqLimit q) rows n)))"

section \<open>AuditInterceptor\<close>

datatype header_value = OneHeader string | ManyHeaders "string list"

definition header_text :: "header_value option \<Rightarrow> string option" where
  "header_text h =
     (case h of None \<Rightarrow> None | Some (OneHeader v) \<Rightarrow> Some v
      | Some (ManyHeaders vs) \<Rightarrow> (case vs of [] \<Rightarrow> None | v # _ \<Rightarrow> Some v))"

record audit_request =
  aqMethod :: string
  aqRoute :: "string option"
  aqPath :: string
  aqUser :: "actor option"
  aqParams :: request_params
  aqParamValues :: json
  aqBody :: "json option"
  aqRequestId :: "header_value option"

definition request_action :: "audit_request \<Rightarrow> string" where
  "request_action r = to_lower (aqMethod r) @ '':'' @ (case aqRoute r of None \<Rightarrow> aqPath r | Some p \<Rightarrow> p)"

definition request_resource_type :: "request_params \<Rightarrow> string option" where
  "request_resource_type ps =
     (if truthy_str (rpRunId ps) then Some ''run''
      else if truthy_str (rpSecretId ps) then Some ''secret''
      else if truthy_str (rpSuiteId ps) then Some ''suite''
      else if truthy_str (rpRevisionId ps) then Some ''revision''
      else if truthy_str (rpProjectId ps) \<or> truthy_str (rpId ps) then Some ''project''
      else None)"

definition request_resource_id :: "request_params \<Rightarrow> string option" where
  "request_resource_id ps =
     first_some [rpRunId ps, rpSecretId ps, rpSuiteId ps, rpRevisionId ps, rpProjectId ps, rpId ps]"

definition request_event :: "audit_request \<Rightarrow> audit_input" where
  "request_event r =
     \<lparr>auAction = request_action r, auCompany = None, auProject = rpProjectId (aqParams r), auPrincipal = aqUser r,
      auResourceType = request_resource_type (aqParams r), auResourceId = request_resource_id (aqParams r),
      auRequestId = header_text (aqRequestId r),
      auMetadata = Some (JObj (present
        [(''method'', Some (JStr (aqMethod r))), (''path'', map_option JStr (aqRoute r)), (''params'', Some (aqParamValues r)),
         (''body'', aqBody r)]))\<rparr>"

text \<open>What follows an operation: a failed one is not recorded; the record is not awaited, so its failure changes nothing.\<close>

definition intercept :: "audit_request \<Rightarrow> (audit_store, 'a) io \<Rightarrow> (audit_store, 'a) io" where
  "intercept r operation =
     io_bind operation (\<lambda>x.
     if aqUser r = None \<or> aqMethod r = ''GET'' then io_return x
     else io_then (io_ignore (record_event (request_event r))) (io_return x))"

section \<open>RedactionService\<close>

text \<open>The values a log record may hold.\<close>

datatype log_value =
    LUndefined
  | LNull
  | LBool bool
  | LNum jsnum
  | LText string
  | LError string string "string option"
  | LList "log_value list"
  | LObject "(string \<times> log_value) list"

definition secret_key_parts :: "string list" where
  "secret_key_parts = [''authorization'', ''cookie'', ''password'', ''passwd'', ''secret'', ''token'', ''apikey'', ''api_key'', ''encryptedvalue'']"

definition is_secret_key :: "string \<Rightarrow> bool" where
  "is_secret_key key =
     (let normalized = map (\<lambda>c. if c = CHR ''-'' \<or> is_ws c then CHR ''_'' else c) (to_lower key) in
      list_ex (str_includes normalized) secret_key_parts)"

text \<open>\<open>/\bBearer\s+[A-Za-z0-9._~+/=-]+/gi\<close> and \<open>/\bBasic\s+[A-Za-z0-9+/=-]+/gi\<close>\<close>

definition token_char :: "string \<Rightarrow> char \<Rightarrow> bool" where
  "token_char extra c =
     (let n = (of_char c :: nat) in
      (48 \<le> n \<and> n \<le> 57) \<or> (65 \<le> n \<and> n \<le> 90) \<or> (97 \<le> n \<and> n \<le> 122) \<or> c \<in> set extra)"

definition bearer_pattern :: rx where
  "bearer_pattern = seqs [Bound, ilit ''Bearer'', some_space, Plus (Ch (token_char ''._~+/=-''))]"

definition basic_pattern :: rx where
  "basic_pattern = seqs [Bound, ilit ''Basic'', some_space, Plus (Ch (token_char ''+/=-''))]"

definition redact_string :: "string \<Rightarrow> string" where
  "redact_string s =
     rx_replace basic_pattern (\<lambda>_. ''Basic [REDACTED]'') None (rx_replace bearer_pattern (\<lambda>_. ''Bearer [REDACTED]'') None s)"

fun redact :: "log_value \<Rightarrow> log_value" where
  "redact (LText s) = LText (redact_string s)"
| "redact (LError name message stack) =
     LObject [(''name'', LText name), (''message'', LText (redact_string message)),
       (''stack'', case stack of None \<Rightarrow> LUndefined | Some s \<Rightarrow> if s = [] then LUndefined else LText (redact_string s))]"
| "redact (LList xs) = LList (map redact xs)"
| "redact (LObject es) = LObject (map (\<lambda>(k, v). (k, if is_secret_key k then LText redacted else redact v)) es)"
| "redact v = v"

section \<open>ExecutionContextService and RequestContextMiddleware\<close>

text \<open>The fields of a context, each a text or \<open>undefined\<close>; the store of the asynchronous call may be empty.\<close>

type_synonym exec_context = "string \<rightharpoonup> string option"

definition without_empty_values :: "exec_context \<Rightarrow> exec_context" where
  "without_empty_values c = (\<lambda>k. case c k of Some v \<Rightarrow> if truthy_str v then Some v else None | None \<Rightarrow> None)"

definition current_context :: "exec_context option \<Rightarrow> exec_context" where
  "current_context st = (case st of None \<Rightarrow> Map.empty | Some c \<Rightarrow> c)"

definition run_context :: "exec_context option \<Rightarrow> exec_context \<Rightarrow> exec_context option" where
  "run_context st c = Some (current_context st ++ c)"

definition merge_context :: "exec_context option \<Rightarrow> exec_context \<Rightarrow> exec_context option" where
  "merge_context st c = map_option (\<lambda>current. current ++ without_empty_values c) st"

definition snapshot_context :: "exec_context option \<Rightarrow> exec_context \<Rightarrow> exec_context" where
  "snapshot_context st overrides = without_empty_values (current_context st ++ overrides)"

text \<open>\<open>fresh\<close> is the random id.  The id is also sent back in the header.\<close>

definition context_request_id :: "string \<Rightarrow> header_value option \<Rightarrow> string" where
  "context_request_id fresh h =
     (case header_text h of Some v \<Rightarrow> if trim v \<noteq> [] then trim v else fresh | None \<Rightarrow> fresh)"

definition request_context ::
    "string \<Rightarrow> header_value option \<Rightarrow> actor option \<Rightarrow> header_value option \<Rightarrow> header_value option \<Rightarrow> exec_context" where
  "request_context fresh h user project rid =
     [''requestId'' \<mapsto> Some (context_request_id fresh h), ''companyId'' \<mapsto> map_option prCompany user,
      ''projectId'' \<mapsto> (case header_text project of None \<Rightarrow> Option.bind user prProject | p \<Rightarrow> p),
      ''runId'' \<mapsto> header_text rid]"

section \<open>StructuredLoggerService\<close>

datatype log_level = LDebug | LErr | LLog | LVerbose | LWarn

record log_record =
  lrLevel :: log_level
  lrMessage :: string
  lrContext :: "string option"
  lrEvent :: "string option"
  lrError :: "log_value option"
  lrMetadata :: "(string \<times> log_value) list option"

definition log_plain :: "log_level \<Rightarrow> string \<Rightarrow> string option \<Rightarrow> log_record" where
  "log_plain level message context =
     \<lparr>lrLevel = level, lrMessage = message, lrContext = context, lrEvent = None, lrError = None, lrMetadata = None\<rparr>"

definition log_error :: "string \<Rightarrow> string option \<Rightarrow> string option \<Rightarrow> log_record" where
  "log_error message trace context =
     (log_plain LErr message (case context of None \<Rightarrow> trace | c \<Rightarrow> c))
       \<lparr>lrError := (if truthy_str context \<and> truthy_str trace then Some (LObject [(''stack'', LText (the trace))]) else None)\<rparr>"

definition log_event :: "string \<Rightarrow> (string \<times> log_value) list \<Rightarrow> log_record" where
  "log_event event metadata = (log_plain LLog event None)\<lparr>lrEvent := Some event, lrMetadata := Some metadata\<rparr>"

definition log_event_error :: "string \<Rightarrow> log_value \<Rightarrow> (string \<times> log_value) list \<Rightarrow> log_record" where
  "log_event_error event error metadata =
     (log_plain LErr event None)\<lparr>lrEvent := Some event, lrError := Some error, lrMetadata := Some metadata\<rparr>"

fun level_text :: "log_level \<Rightarrow> string" where
  "level_text LDebug = ''debug''"
| "level_text LErr = ''error''"
| "level_text LLog = ''info''"
| "level_text LVerbose = ''verbose''"
| "level_text LWarn = ''warn''"

fun truthy_log :: "log_value \<Rightarrow> bool" where
  "truthy_log LUndefined = False"
| "truthy_log LNull = False"
| "truthy_log (LBool b) = b"
| "truthy_log (LNum n) = json_truthy (JNum n)"
| "truthy_log (LText s) = (s \<noteq> [])"
| "truthy_log _ = True"

definition context_keys :: "string list" where
  "context_keys = [''requestId'', ''companyId'', ''projectId'', ''runId'', ''runnerId'', ''jobId'', ''stepId'']"

definition optional_text :: "string option \<Rightarrow> log_value" where
  "optional_text v = (case v of None \<Rightarrow> LUndefined | Some s \<Rightarrow> LText s)"

definition log_payload :: "int \<Rightarrow> exec_context option \<Rightarrow> log_record \<Rightarrow> (string \<times> log_value) list" where
  "log_payload now st r =
     [(''timestamp'', LText (iso_string now)), (''level'', LText (level_text (lrLevel r))),
      (''message'', LText (redact_string (lrMessage r))), (''context'', optional_text (lrContext r)),
      (''event'', optional_text (lrEvent r))]
     @ map (\<lambda>k. (k, optional_text (Option.bind (snapshot_context st Map.empty k) id))) context_keys
     @ (case lrMetadata r of None \<Rightarrow> [] | Some m \<Rightarrow> [(''metadata'', redact (LObject m))])
     @ (case lrError r of None \<Rightarrow> [] | Some e \<Rightarrow> if truthy_log e then [(''error'', redact e)] else [])"

text \<open>\<open>JSON.stringify\<close>: an undefined field is left out, an undefined element is \<open>null\<close>.  No error is left after \<open>redact\<close>.\<close>

fun log_json :: "log_value \<Rightarrow> json" where
  "log_json LUndefined = JNull"
| "log_json LNull = JNull"
| "log_json (LBool b) = JBool b"
| "log_json (LNum n) = JNum n"
| "log_json (LText s) = JStr s"
| "log_json (LError _ _ _) = JObj []"
| "log_json (LList xs) = JArr (map log_json xs)"
| "log_json (LObject es) = JObj (concat (map (\<lambda>(k, v). if v = LUndefined then [] else [(k, log_json v)]) es))"

definition log_text :: "int \<Rightarrow> exec_context option \<Rightarrow> log_record \<Rightarrow> string" where
  "log_text now st r = stringify (log_json (LObject (log_payload now st r))) @ [CHR 0x0A]"

section \<open>Properties\<close>

text \<open>Two values that differ at most below the fields whose name, in lower case, is a listed key.\<close>

definition hidden_field :: "string \<Rightarrow> bool" where
  "hidden_field k = (to_lower k \<in> {''authorization'', ''cookie'', ''password'', ''token'', ''accesstoken'', ''apitoken'', ''secret'',
     ''encryptedvalue'', ''value''})"

fun same_public :: "json \<Rightarrow> json \<Rightarrow> bool" where
  "same_public (JArr xs) w = (case w of JArr ys \<Rightarrow> list_all2 same_public xs ys | _ \<Rightarrow> False)"
| "same_public (JObj es) w = (case w of
     JObj fs \<Rightarrow> list_all2 (\<lambda>(k, a) (l, b). k = l \<and> (hidden_field k \<or> same_public a b)) es fs | _ \<Rightarrow> False)"
| "same_public v w = (v = w)"

lemma map_eq_all2:
  "(\<And>x y. x \<in> set xs \<Longrightarrow> y \<in> set ys \<Longrightarrow> (f x = g y) = P x y) \<Longrightarrow> (map f xs = map g ys) = list_all2 P xs ys"
proof (induction xs arbitrary: ys)
  case (Cons x xs)
  then show ?case by (cases ys) auto
qed simp

lemma hidden_field_listed: "to_lower k \<in> set audit_secret_keys \<longleftrightarrow> hidden_field k"
proof -
  have "(of_char (lower_char c) :: nat) \<noteq> 72 \<and> (of_char (lower_char c) :: nat) \<noteq> 84" for c
    by (cases "65 \<le> (of_char c :: nat) \<and> (of_char c :: nat) \<le> 90")
      (auto simp: lower_char_def Let_def take_bit_eq_mod)
  moreover have "(of_char CHR ''H'' :: nat) = 72" "(of_char CHR ''T'' :: nat) = 84" by simp_all
  ultimately have "lower_char c \<noteq> CHR ''H'' \<and> lower_char c \<noteq> CHR ''T''" for c by metis
  then have "CHR ''H'' \<notin> set (to_lower k) \<and> CHR ''T'' \<notin> set (to_lower k)"
    unfolding to_lower_def set_map by (metis imageE)
  then have "to_lower k \<noteq> ''passwordHash'' \<and> to_lower k \<noteq> ''accessToken''" by auto
  then show ?thesis by (auto simp: audit_secret_keys_def hidden_field_def)
qed

text \<open>
  What the audit log keeps of a request is its public part: two values have the same sanitized form exactly
  when they differ only below fields named in the list, whatever the case of their letters, at any depth.
\<close>
theorem audit_keeps_the_public_part: "audit_sanitize v = audit_sanitize w \<longleftrightarrow> same_public v w"
proof (induction v w rule: same_public.induct)
  case (1 xs w)
  then show ?case by (cases w) (simp_all add: map_eq_all2)
next
  case (2 es w)
  show ?case
  proof (cases w)
    case (JObj fs)
    have "((case p of (k, v) \<Rightarrow> (k, if to_lower k \<in> set audit_secret_keys then JStr redacted else audit_sanitize v))
        = (case q of (k, v) \<Rightarrow> (k, if to_lower k \<in> set audit_secret_keys then JStr redacted else audit_sanitize v)))
        = (case p of (k, a) \<Rightarrow> \<lambda>(l, b). k = l \<and> (hidden_field k \<or> same_public a b)) q"
      if "p \<in> set es" "q \<in> set fs" for p q
    proof (cases p; cases q)
      fix k a l b assume pq: "p = (k, a)" "q = (l, b)"
      show ?thesis
      proof (cases "k = l \<and> \<not> hidden_field k")
        case True
        then have "(audit_sanitize a = audit_sanitize b) = same_public a b" using 2 JObj pq that by blast
        then show ?thesis using True pq by (simp add: hidden_field_listed)
      qed (auto simp: pq hidden_field_listed)
    qed
    then show ?thesis
      unfolding JObj audit_sanitize.simps same_public.simps json.case json.inject by (rule map_eq_all2)
  qed simp_all
qed (case_tac w; simp)+

text \<open>
  The names are compared in lower case with a list that has two names in mixed case, which match nothing; and
  a text is kept as it is, with the credentials a pasted command may hold.
\<close>

lemma password_hash_stays: "audit_sanitize (JObj [(''passwordHash'', JStr h)]) = JObj [(''passwordHash'', JStr h)]"
proof -
  have "to_lower ''passwordHash'' \<notin> set audit_secret_keys" by code_simp
  then show ?thesis by simp
qed

lemma pasted_command_stays:
  "audit_sanitize (JObj [(''body'', JObj [(''source'', JStr ''CURL''), (''content'', JStr command)])])
    = JObj [(''body'', JObj [(''source'', JStr ''CURL''), (''content'', JStr command)])]"
proof -
  have "to_lower ''body'' \<notin> set audit_secret_keys" "to_lower ''source'' \<notin> set audit_secret_keys"
    "to_lower ''content'' \<notin> set audit_secret_keys" by code_simp+
  then show ?thesis by simp
qed

text \<open>A stack that is passed without a context is written as the context, which is not redacted.\<close>

lemma stack_as_context_stays:
  "(''context'', LText stack) \<in> set (log_payload now st (log_error message (Some stack) None))"
  by (simp add: log_payload_def log_error_def log_plain_def optional_text_def)

text \<open>A failed operation and a request without a caller leave no record.\<close>

lemma failed_operation_unrecorded: "fst (operation w) = Inl e \<Longrightarrow> intercept r operation w = (Inl e, snd (operation w))"
  by (cases "operation w") (simp add: intercept_def io_defs)

lemma anonymous_request_unrecorded: "aqUser r = None \<Longrightarrow> intercept r operation w = operation w"
  by (cases "operation w") (auto simp: intercept_def io_defs run_simps split: sum.splits)

text \<open>A caller sees the events of their own company, at most a page of them.\<close>

lemma list_events_alone:
  assumes "list_events company q (quiet s) = (Inr p, w)"
  shows "\<forall>e\<in>set (pgData p). evCompany e = Some company" "length (pgData p) \<le> aqLimit q"
proof -
  have "pgData p = page_slice (aqPage q) (aqLimit q) (sort_by (\<lambda>a b. evCreated b - evCreated a) (matching_events company q s))"
    using assms by (auto simp: list_events_def io_defs run_simps page_result_def)
  then show "\<forall>e\<in>set (pgData p). evCompany e = Some company" "length (pgData p) \<le> aqLimit q"
    by (auto simp: page_slice_def matching_events_def event_matches_def dest!: in_set_takeD in_set_dropD)
qed

text \<open>The snapshot of a context has no empty field, and nothing outside an asynchronous call.\<close>

lemma snapshot_fields: "snapshot_context st c k = Some v \<Longrightarrow> truthy_str v"
  by (auto simp: snapshot_context_def without_empty_values_def split: option.splits if_splits)

lemma merge_outside_is_lost: "merge_context None c = None"
  by (simp add: merge_context_def)

end
