(* ===== verification/Accounts.thy ===== *)
theory Accounts
  imports Team Audit_Log
begin

text \<open>
  Registration and sign-in (\<open>auth/auth.service.ts\<close>, \<open>users/users.service.ts\<close>) and what turns the token of a request
  into its caller (\<open>common/guards/jwt-auth.guard.ts\<close>, \<open>authorization/api-token-auth.service.ts\<close>).  bcrypt, the signature
  of JWTs and SHA-256 are parameters; a JWT stands for the id of its user, the only claim that is read.
\<close>

section \<open>Tables\<close>

record user_row =
  uwId :: string
  uwEmail :: string
  uwHash :: string
  uwFirst :: string
  uwLast :: string
  uwRole :: user_role
  uwCompany :: string

text \<open>\<open>Omit<User, 'passwordHash'>\<close>\<close>

record safe_user =
  sfId :: string
  sfEmail :: string
  sfFirst :: string
  sfLast :: string
  sfRole :: user_role
  sfCompany :: string

record company_account =
  caId :: string
  caName :: string
  caPlan :: string

record service_token = api_token +
  svId :: "string option"

record account_store =
  acNow :: int
  acPlans :: "string \<rightharpoonup> string"
  acCompanies :: "company_account list"
  acUsers :: "user_row list"
  acMembers :: "member list"
  acTokens :: "service_token list"

type_synonym ('r, 'a) account_io = "('r account_store_scheme, 'a) io"

record credentials =
  crHash :: "string \<Rightarrow> string"
  crCompare :: "string \<Rightarrow> string \<Rightarrow> bool"
  crSign :: "string \<Rightarrow> string"
  crVerify :: "string \<Rightarrow> js_error + string"
  crTokenHash :: "string \<Rightarrow> string"

definition safe_user :: "user_row \<Rightarrow> safe_user" where
  "safe_user u =
     \<lparr>sfId = uwId u, sfEmail = uwEmail u, sfFirst = uwFirst u, sfLast = uwLast u, sfRole = uwRole u, sfCompany = uwCompany u\<rparr>"

definition user_by_email :: "string \<Rightarrow> 'r account_store_scheme \<Rightarrow> user_row option" where
  "user_by_email email s = find (\<lambda>u. uwEmail u = email) (acUsers s)"

definition user_by_id :: "string \<Rightarrow> 'r account_store_scheme \<Rightarrow> user_row option" where
  "user_by_id uid s = find (\<lambda>u. uwId u = uid) (acUsers s)"

definition membership :: "string \<Rightarrow> string \<Rightarrow> 'r account_store_scheme \<Rightarrow> member option" where
  "membership company uid s = find (\<lambda>m. mbCompany m = company \<and> mbUser m = uid) (acMembers s)"

section \<open>AuthService\<close>

record register_dto =
  rgEmail :: string
  rgPassword :: string
  rgFirst :: string
  rgLast :: string
  rgCompany :: string

text \<open>The ids of the new company, user and member.\<close>

record account_ids =
  aiCompany :: string
  aiUser :: string
  aiMember :: string

definition insert_company :: "company_account \<Rightarrow> 'r account_store_scheme patch" where
  "insert_company c s =
     (if list_ex (\<lambda>x. caId x = caId c) (acCompanies s) then Inl p2002 else Inr (s\<lparr>acCompanies := acCompanies s @ [c]\<rparr>))"

definition insert_user :: "user_row \<Rightarrow> 'r account_store_scheme patch" where
  "insert_user u s =
     (if list_ex (\<lambda>x. uwId x = uwId u \<or> uwEmail x = uwEmail u) (acUsers s) then Inl p2002
      else Inr (s\<lparr>acUsers := acUsers s @ [u]\<rparr>))"

definition insert_member :: "member \<Rightarrow> 'r account_store_scheme patch" where
  "insert_member m s =
     (if list_ex (\<lambda>x. mbId x = mbId m \<or> (mbCompany x = mbCompany m \<and> mbUser x = mbUser m)) (acMembers s) then Inl p2002
      else Inr (s\<lparr>acMembers := acMembers s @ [m]\<rparr>))"

definition create_row :: "'s patch \<Rightarrow> ('s, unit) tx" where
  "create_row ins = tx_statement (\<lambda>s. sbind (ins s) (\<lambda>_. Inr ((), ins)))"

definition new_user :: "credentials \<Rightarrow> account_ids \<Rightarrow> register_dto \<Rightarrow> user_row" where
  "new_user cr ids dto =
     \<lparr>uwId = aiUser ids, uwEmail = to_lower (rgEmail dto), uwHash = crHash cr (rgPassword dto), uwFirst = rgFirst dto,
      uwLast = rgLast dto, uwRole = OWNER, uwCompany = aiCompany ids\<rparr>"

definition new_owner :: "account_ids \<Rightarrow> member" where
  "new_owner ids =
     \<lparr>mbId = aiMember ids, mbCompany = aiCompany ids, mbUser = aiUser ids, mbRole = OWNER, mbActive = True, mbRemovedAt = None\<rparr>"

definition register_tx ::
    "credentials \<Rightarrow> account_ids \<Rightarrow> register_dto \<Rightarrow> string \<Rightarrow> ('r account_store_scheme, user_row) tx" where
  "register_tx cr ids dto plan =
     tx_bind (create_row (insert_company \<lparr>caId = aiCompany ids, caName = rgCompany dto, caPlan = plan\<rparr>)) (\<lambda>_.
     tx_bind (create_row (insert_user (new_user cr ids dto))) (\<lambda>_.
     tx_bind (create_row (insert_member (new_owner ids))) (\<lambda>_.
     tx_return (new_user cr ids dto))))"

definition signed_in :: "credentials \<Rightarrow> user_row \<Rightarrow> string \<times> safe_user" where
  "signed_in cr u = (crSign cr (uwId u), safe_user u)"

definition register_user ::
    "credentials \<Rightarrow> account_ids \<Rightarrow> register_dto \<Rightarrow> ('r, string \<times> safe_user) account_io" where
  "register_user cr ids dto =
     io_bind (io_read (user_by_email (rgEmail dto))) (\<lambda>existing.
     if existing \<noteq> None then io_throw (ConflictException ''Email is already registered'')
     else io_bind (io_read (\<lambda>s. acPlans s ''FREE'')) (\<lambda>plan. case plan of
         None \<Rightarrow> io_throw (ConflictException ''Subscription plans are not seeded'')
       | Some p \<Rightarrow> io_bind (transaction (register_tx cr ids dto p)) (\<lambda>u. io_return (signed_in cr u))))"

definition sign_in :: "credentials \<Rightarrow> string \<Rightarrow> string \<Rightarrow> ('r, string \<times> safe_user) account_io" where
  "sign_in cr email password =
     io_bind (io_read (user_by_email (to_lower email))) (\<lambda>found. case found of
         None \<Rightarrow> io_throw UnauthorizedException
       | Some u \<Rightarrow>
           if \<not> crCompare cr password (uwHash u) then io_throw UnauthorizedException
           else io_bind (io_read (membership (uwCompany u) (uwId u))) (\<lambda>m. case m of
               None \<Rightarrow> io_throw UnauthorizedException
             | Some m \<Rightarrow> if mbActive m then io_return (signed_in cr u) else io_throw UnauthorizedException))"

text \<open>\<open>AuthService.me\<close> and \<open>UsersService.findSafeById\<close>\<close>

definition find_safe_user :: "string \<Rightarrow> ('r, safe_user) account_io" where
  "find_safe_user uid =
     io_call (\<lambda>s. (case user_by_id uid s of None \<Rightarrow> Inl (PlainError ''No User found'') | Some u \<Rightarrow> Inr (safe_user u), s))"

section \<open>The caller of a request\<close>

definition token_actor :: "service_token \<Rightarrow> actor" where
  "token_actor t = principal.extend (token_principal (api_token.truncate t)) \<lparr>paService = svId t, paToken = Some (atId t)\<rparr>"

definition validate_api_token :: "credentials \<Rightarrow> string \<Rightarrow> ('r, actor) account_io" where
  "validate_api_token cr raw =
     io_bind (io_read (\<lambda>s. find (\<lambda>t. atHash t = crTokenHash cr raw) (acTokens s))) (\<lambda>found. case found of
         None \<Rightarrow> io_throw UnauthorizedException
       | Some t \<Rightarrow>
           io_bind (io_peek acNow) (\<lambda>now.
           if atRevokedAt t \<noteq> None \<or> (case atExpiresAt t of None \<Rightarrow> False | Some x \<Rightarrow> x \<le> now) then io_throw UnauthorizedException
           else if atServiceAccountRevoked t then io_throw UnauthorizedException
           else io_bind (io_peek acNow) (\<lambda>used.
             io_then (io_call (\<lambda>s. if list_ex (\<lambda>x. atId x = atId t) (acTokens s)
                 then (Inr (), s\<lparr>acTokens := map (\<lambda>x. if atId x = atId t then x\<lparr>atLastUsedAt := Some used\<rparr> else x) (acTokens s)\<rparr>)
                 else (Inl p2025, s)))
               (io_return (token_actor t)))))"

definition user_actor :: "user_row \<Rightarrow> member \<Rightarrow> actor" where
  "user_actor u m =
     \<lparr>prType = USER, prCompany = uwCompany u, prRole = mbRole m, prUser = Some (uwId u), prScopes = None, prProject = None,
      paService = None, paToken = None\<rparr>"

text \<open>Whatever fails other than with \<open>UnauthorizedException\<close>, a rejected query as well, makes the text a candidate for an API token.\<close>

definition authenticate :: "credentials \<Rightarrow> string \<Rightarrow> ('r, actor) account_io" where
  "authenticate cr token =
     io_catch
       (io_bind (io_lift (crVerify cr token)) (\<lambda>uid.
        io_bind (io_read (user_by_id uid)) (\<lambda>found. case found of
            None \<Rightarrow> io_throw UnauthorizedException
          | Some u \<Rightarrow>
              io_bind (io_read (membership (uwCompany u) (uwId u))) (\<lambda>m. case m of
                  None \<Rightarrow> io_throw UnauthorizedException
                | Some m \<Rightarrow> if mbActive m then io_return (user_actor u m) else io_throw UnauthorizedException))))
       (\<lambda>e. if e = UnauthorizedException then io_throw e else validate_api_token cr token)"

definition extract_bearer_token :: "string option \<Rightarrow> js_error + string" where
  "extract_bearer_token header =
     (case header of
        None \<Rightarrow> Inl UnauthorizedException
      | Some h \<Rightarrow> if starts_with h ''Bearer '' then Inr (trim (drop 7 h)) else Inl UnauthorizedException)"

definition jwt_guard :: "credentials \<Rightarrow> string option \<Rightarrow> ('r, actor) account_io" where
  "jwt_guard cr header = io_bind (io_lift (extract_bearer_token header)) (authenticate cr)"

section \<open>Properties\<close>

lemma create_row_quiet: "tx_quiet (create_row ins) (\<lambda>s. sbind (ins s) (\<lambda>t. Inr ((), t)))"
proof -
  have "tx_quiet (create_row ins) (\<lambda>s. sbind (sbind (ins s) (\<lambda>_. Inr ((), ins))) (\<lambda>(a, patch). sbind (patch s) (\<lambda>s'. Inr (a, s'))))"
    unfolding create_row_def by (rule tx_quiet_statement) (auto simp: sbind_Inr_iff)
  moreover have "sbind (sbind (ins s) (\<lambda>_. Inr ((), ins))) (\<lambda>(a, patch). sbind (patch s) (\<lambda>s'. Inr (a, s')))
      = sbind (ins s) (\<lambda>t. Inr ((), t))" for s by (cases "ins s") simp_all
  ultimately show ?thesis by simp
qed

definition registered ::
    "credentials \<Rightarrow> account_ids \<Rightarrow> register_dto \<Rightarrow> string \<Rightarrow> 'r account_store_scheme \<Rightarrow> js_error + user_row \<times> 'r account_store_scheme" where
  "registered cr ids dto plan s =
     sbind (insert_company \<lparr>caId = aiCompany ids, caName = rgCompany dto, caPlan = plan\<rparr> s) (\<lambda>s.
     sbind (insert_user (new_user cr ids dto) s) (\<lambda>s.
     sbind (insert_member (new_owner ids) s) (\<lambda>s. Inr (new_user cr ids dto, s))))"

lemma register_tx_quiet: "tx_quiet (register_tx cr ids dto plan) (registered cr ids dto plan)"
proof -
  note q = tx_quiet_bind[OF create_row_quiet tx_quiet_bind[OF create_row_quiet tx_quiet_bind[OF create_row_quiet tx_quiet_return]]]
  show ?thesis
    unfolding register_tx_def
    by (rule back_subst[of "tx_quiet _", OF q]) (simp add: fun_eq_iff registered_def sbind_assoc)
qed

lemma find_appended: "\<not> list_ex P xs \<Longrightarrow> P y \<Longrightarrow> find P (xs @ [y]) = Some y"
  by (induction xs) auto

lemma register_quiet:
  assumes "register_user cr ids dto (quiet s) = (Inr r, w)"
  obtains t where "w = quiet t" "r = signed_in cr (new_user cr ids dto)"
    "user_by_email (to_lower (rgEmail dto)) t = Some (new_user cr ids dto)" "user_by_id (aiUser ids) t = Some (new_user cr ids dto)"
    "membership (aiCompany ids) (aiUser ids) t = Some (new_owner ids)"
proof -
  obtain p where "acPlans s ''FREE'' = Some p"
    using assms by (auto simp: register_user_def io_defs run_simps split: if_splits option.splits)
  then obtain u t where t: "registered cr ids dto p s = Inr (u, t)" "w = quiet t" "r = signed_in cr u"
    using assms by (auto simp: register_user_def io_defs run_simps transaction_quiet[OF register_tx_quiet]
      split: if_splits option.splits sum.splits)
  have "u = new_user cr ids dto"
    "user_by_email (to_lower (rgEmail dto)) t = Some (new_user cr ids dto)" "user_by_id (aiUser ids) t = Some (new_user cr ids dto)"
    "membership (aiCompany ids) (aiUser ids) t = Some (new_owner ids)"
    using t(1)
    by (auto simp: registered_def sbind_Inr_iff insert_company_def insert_user_def insert_member_def user_by_email_def
        user_by_id_def membership_def list_ex_iff new_user_def new_owner_def intro!: find_appended split: if_splits)
  with t show ?thesis using that by blast
qed


text \<open>
  The search for an existing account uses the e-mail as it was typed, but the row has it in lower case: registering it
  again with a capital letter fails on the unique constraint instead of the conflict.
\<close>

definition plain_credentials :: credentials where
  "plain_credentials =
     \<lparr>crHash = rev, crCompare = (\<lambda>p h. h = rev p), crSign = (\<lambda>u. u @ ''.jwt''),
      crVerify = (\<lambda>t. if drop (length t - 4) t = ''.jwt'' then Inr (take (length t - 4) t) else Inl (PlainError ''jwt malformed'')),
      crTokenHash = (\<lambda>t. ''hash:'' @ t)\<rparr>"

definition ada :: register_dto where
  "ada = \<lparr>rgEmail = ''Ada@x.io'', rgPassword = ''secret12'', rgFirst = ''Ada'', rgLast = ''L'', rgCompany = ''Engines''\<rparr>"

definition no_accounts :: account_store where
  "no_accounts = \<lparr>acNow = 0, acPlans = [''FREE'' \<mapsto> ''p1''], acCompanies = [], acUsers = [], acMembers = [], acTokens = []\<rparr>"

definition first_ids :: account_ids where
  "first_ids = \<lparr>aiCompany = ''c1'', aiUser = ''u1'', aiMember = ''m1''\<rparr>"

definition second_ids :: account_ids where
  "second_ids = \<lparr>aiCompany = ''c2'', aiUser = ''u2'', aiMember = ''m2''\<rparr>"

lemma lowered: "to_lower (rgEmail ada) = ''ada@x.io''" "to_lower ''ADA@X.io'' = ''ada@x.io''"
  by code_simp+


lemma find_only:
  assumes "m \<in> set xs" "P m" "\<forall>x\<in>set xs. P x \<longrightarrow> x = m"
  shows "find P xs = Some m"
proof -
  obtain y where y: "find P xs = Some y" using assms(1,2) by (metis find_None_iff not_None_eq)
  then have "y \<in> set xs \<and> P y" by (metis find_Some_iff nth_mem)
  then show ?thesis using y assms(3) by blast
qed

lemma registered_again_fails:
  "fst (register_user plain_credentials second_ids ada (snd (register_user plain_credentials first_ids ada (quiet no_accounts))))
    = Inl p2002"
proof -
  have typed: "rgEmail ada \<noteq> ''ada@x.io''" by (simp add: ada_def)
  define t where "t = no_accounts\<lparr>acCompanies := [\<lparr>caId = ''c1'', caName = rgCompany ada, caPlan = ''p1''\<rparr>],
    acUsers := [new_user plain_credentials first_ids ada], acMembers := [new_owner first_ids]\<rparr>"
  have "snd (register_user plain_credentials first_ids ada (quiet no_accounts)) = quiet t"
    by (simp add: t_def register_user_def io_defs run_simps transaction_quiet[OF register_tx_quiet] registered_def insert_company_def
        insert_user_def insert_member_def no_accounts_def first_ids_def user_by_email_def)
  moreover have "fst (register_user plain_credentials second_ids ada (quiet t)) = Inl p2002"
    using typed
    by (simp add: t_def register_user_def io_defs run_simps transaction_quiet[OF register_tx_quiet] registered_def
        insert_company_def insert_user_def no_accounts_def first_ids_def second_ids_def user_by_email_def new_user_def lowered)
  ultimately show ?thesis by simp
qed


definition after_removal :: account_store where
  "after_removal = \<lparr>acNow = 8, acPlans = Map.empty, acCompanies = [],
     acUsers = [\<lparr>uwId = ''u1'', uwEmail = ''a@x.io'', uwHash = ''h'', uwFirst = ''A'', uwLast = ''B'', uwRole = OWNER, uwCompany = ''c1''\<rparr>],
     acMembers = tsMembers (store (snd (remove_member ''c1'' ''m1'' (quiet two_owners)))), acTokens = []\<rparr>"


end
