(* ===== verification/Realtime.thy ===== *)
theory Realtime
  imports Accounts Step_Exec
begin

text \<open>
  The events of runs and the sockets that follow them (\<open>websocket/realtime.gateway.ts\<close>,
  \<open>websocket/realtime.service.ts\<close>).  A socket is in rooms; an event goes to the sockets in the room named by its run.
  Warnings are left out; Redis is a list of published messages.
\<close>

section \<open>State\<close>

record socket =
  skId :: string
  skUser :: "actor option"
  skRooms :: "string list"

record run_event =
  enRun :: string
  enSequence :: nat
  enType :: string
  enTime :: int
  enPayload :: json

record realtime_store = account_store +
  rtAccess :: access_db
  rtSequence :: "string \<rightharpoonup> nat"
  rtEvents :: "run_event list"
  rtServer :: bool
  rtSockets :: "socket list"
  rtReceived :: "(string \<times> run_event) list"
  rtPublished :: "run_event list"

type_synonym 'a realtime_io = "(realtime_store, 'a) io"

definition user_room :: "string \<Rightarrow> string" where
  "user_room uid = ''user:'' @ uid"

definition company_room :: "string \<Rightarrow> string" where
  "company_room company = ''company:'' @ company"

definition api_token_room :: "string \<Rightarrow> string" where
  "api_token_room tid = ''api-token:'' @ tid"

definition change_socket :: "string \<Rightarrow> (socket \<Rightarrow> socket) \<Rightarrow> realtime_store \<Rightarrow> realtime_store" where
  "change_socket k f s = s\<lparr>rtSockets := map (\<lambda>x. if skId x = k then f x else x) (rtSockets s)\<rparr>"

definition socket_user :: "string \<Rightarrow> realtime_store \<Rightarrow> actor option" where
  "socket_user k s = Option.bind (find (\<lambda>x. skId x = k) (rtSockets s)) skUser"

section \<open>RealtimeGateway\<close>

text \<open>\<open>replace(/^Bearer\s+/i, '')\<close>\<close>

definition strip_bearer :: "string \<Rightarrow> string" where
  "strip_bearer s = (case match_front (seqs [ilit ''Bearer'', some_space]) None s of None \<Rightarrow> s | Some (_, rest, _) \<Rightarrow> rest)"

text \<open>The token of the handshake, any JSON value, and the header.\<close>

definition extract_token :: "json option \<Rightarrow> string option \<Rightarrow> js_error + string" where
  "extract_token auth header =
     (case auth of
        Some (JStr t) \<Rightarrow> Inr (strip_bearer t)
      | _ \<Rightarrow> (case header of Some h \<Rightarrow> Inr (strip_bearer h) | None \<Rightarrow> Inl UnauthorizedException))"

definition join_room :: "string \<Rightarrow> string \<Rightarrow> unit realtime_io" where
  "join_room k room = io_call (\<lambda>s. (Inr (), change_socket k (\<lambda>x. x\<lparr>skRooms := room # skRooms x\<rparr>) s))"

definition disconnect :: "string \<Rightarrow> realtime_store \<Rightarrow> realtime_store" where
  "disconnect k s = s\<lparr>rtSockets := filter (\<lambda>x. skId x \<noteq> k) (rtSockets s)\<rparr>"

definition join_own_rooms :: "string \<Rightarrow> actor \<Rightarrow> unit realtime_io" where
  "join_own_rooms k p =
     io_then (if truthy_str (prUser p) then join_room k (user_room (the (prUser p))) else io_return ())
     (io_then (if truthy_str (paToken p) then join_room k (api_token_room (the (paToken p))) else io_return ())
       (join_room k (company_room (prCompany p))))"

definition handle_connection :: "credentials \<Rightarrow> string \<Rightarrow> json option \<Rightarrow> string option \<Rightarrow> unit realtime_io" where
  "handle_connection cr k auth header =
     io_catch
       (io_bind (io_bind (io_lift (extract_token auth header)) (authenticate cr)) (\<lambda>p.
        io_then (io_modify (change_socket k (\<lambda>x. x\<lparr>skUser := Some p\<rparr>))) (join_own_rooms k p)))
       (\<lambda>_. io_modify (disconnect k))"

definition run_resource :: "string \<Rightarrow> string \<times> string \<Rightarrow> resolved_resource" where
  "run_resource rid owner = \<lparr>reType = Run, reId = Some rid, reCompany = Some (snd owner), reProject = Some (fst owner)\<rparr>"

definition subscribe :: "string \<Rightarrow> string option \<Rightarrow> string realtime_io" where
  "subscribe k body =
     io_bind (io_peek (socket_user k)) (\<lambda>user. case user of
         None \<Rightarrow> io_throw UnauthorizedException
       | Some u \<Rightarrow>
           if prCompany u = [] \<or> \<not> truthy_str body then io_throw UnauthorizedException
           else io_bind (io_read (\<lambda>s. adRuns (rtAccess s) (the body))) (\<lambda>run. case run of
               None \<Rightarrow> io_throw UnauthorizedException
             | Some owner \<Rightarrow>
                 io_then (io_call (\<lambda>s. (assert_can (rtAccess s) (Some (principal.truncate u)) Run_Read (run_resource (the body) owner), s)))
                 (io_then (join_room k (the body)) (io_return (the body)))))"

section \<open>RealtimeService\<close>

text \<open>
  \<open>persistEvent\<close>.  The update locks the row of the run until the transaction ends, so that the transactions for one run
  follow one another: the transaction is one call.
\<close>

definition store_event :: "string \<Rightarrow> string \<Rightarrow> json option \<Rightarrow> realtime_store \<Rightarrow> (js_error + run_event) \<times> realtime_store" where
  "store_event etype rid payload s =
     (case rtSequence s rid of
        None \<Rightarrow> (Inl p2025, s)
      | Some n \<Rightarrow>
          let e = \<lparr>enRun = rid, enSequence = n + 1, enType = etype, enTime = acNow s,
            enPayload = (case payload of None \<Rightarrow> JObj [] | Some p \<Rightarrow> p)\<rparr> in
          (Inr e, s\<lparr>rtSequence := (rtSequence s)(rid \<mapsto> n + 1), rtEvents := rtEvents s @ [e]\<rparr>))"

definition persist_event :: "string \<Rightarrow> string \<Rightarrow> json option \<Rightarrow> run_event option realtime_io" where
  "persist_event etype rid payload =
     io_catch (io_bind (io_call (store_event etype rid payload)) (\<lambda>e. io_return (Some e))) (\<lambda>_. io_return None)"

definition receivers :: "string \<Rightarrow> realtime_store \<Rightarrow> socket list" where
  "receivers room s = filter (\<lambda>x. room \<in> set (skRooms x)) (rtSockets s)"

definition emit_to_socket :: "run_event \<Rightarrow> realtime_store \<Rightarrow> realtime_store" where
  "emit_to_socket e s =
     (if rtServer s then s\<lparr>rtReceived := rtReceived s @ map (\<lambda>x. (skId x, e)) (receivers (enRun e) s)\<rparr> else s)"

definition publish_event :: "run_event \<Rightarrow> unit realtime_io" where
  "publish_event e = io_ignore (io_call (\<lambda>s. (Inr (), s\<lparr>rtPublished := rtPublished s @ [e]\<rparr>)))"

definition emit_run_event :: "string \<Rightarrow> string \<Rightarrow> json option \<Rightarrow> run_event option realtime_io" where
  "emit_run_event etype rid payload =
     io_bind (persist_event etype rid payload) (\<lambda>message. case message of
         None \<Rightarrow> io_return None
       | Some e \<Rightarrow>
           io_bind (io_peek rtServer) (\<lambda>server.
           io_then (if server then io_modify (emit_to_socket e) else publish_event e) (io_return (Some e))))"

text \<open>The message handler of the subscriber in a process with a server.\<close>

definition on_message :: "run_event \<Rightarrow> unit realtime_io" where
  "on_message e = io_modify (emit_to_socket e)"

definition disconnect_room :: "string \<Rightarrow> realtime_store \<Rightarrow> realtime_store" where
  "disconnect_room room s =
     (if rtServer s then s\<lparr>rtSockets := filter (\<lambda>x. room \<notin> set (skRooms x)) (rtSockets s)\<rparr> else s)"

definition disconnect_user :: "string \<Rightarrow> realtime_store \<Rightarrow> realtime_store" where
  "disconnect_user uid = disconnect_room (user_room uid)"

definition disconnect_api_token :: "string \<Rightarrow> realtime_store \<Rightarrow> realtime_store" where
  "disconnect_api_token tid = disconnect_room (api_token_room tid)"

section \<open>Properties\<close>

text \<open>
  \<open>owner\<close> says to which project and company a run id belongs, also after the run is deleted: ids are UUIDs, never used
  twice.  The sockets that are still to connect are in the list without a user and without rooms.
\<close>

type_synonym run_owner = "string \<rightharpoonup> string \<times> string"

definition owners_ok :: "run_owner \<Rightarrow> bool" where
  "owners_ok owner = (\<forall>rid pid company. owner rid = Some (pid, company) \<longrightarrow> CHR '':'' \<notin> set rid \<and> company \<noteq> [])"

definition room_allowed :: "run_owner \<Rightarrow> actor option \<Rightarrow> string \<Rightarrow> bool" where
  "room_allowed owner user room =
     (case owner room of None \<Rightarrow> True | Some (_, company) \<Rightarrow> (\<exists>u. user = Some u \<and> prCompany u = company))"

text \<open>Every socket in the room of a run belongs to the company of the run.\<close>

definition rooms_ok :: "run_owner \<Rightarrow> realtime_store \<Rightarrow> bool" where
  "rooms_ok owner s =
     (adRuns (rtAccess s) \<subseteq>\<^sub>m owner \<and> distinct (map skId (rtSockets s))
      \<and> (\<forall>x\<in>set (rtSockets s). \<forall>room\<in>set (skRooms x). room_allowed owner (skUser x) room))"

text \<open>What every client keeps: the rooms, and the user of a socket once it is set.\<close>

definition users_kept :: "realtime_store \<Rightarrow> realtime_store \<Rightarrow> bool" where
  "users_kept s t =
     (\<forall>y\<in>set (rtSockets t). \<exists>x\<in>set (rtSockets s). skId x = skId y \<and> (skUser x \<noteq> None \<longrightarrow> skUser y = skUser x))"

definition rooms_step :: "run_owner \<Rightarrow> realtime_store \<Rightarrow> realtime_store \<Rightarrow> bool" where
  "rooms_step owner s t = (rooms_ok owner s \<longrightarrow> rooms_ok owner t \<and> users_kept s t)"

lemma users_kept_trans: "users_kept s t \<Longrightarrow> users_kept t u \<Longrightarrow> users_kept s u"
  unfolding users_kept_def by metis

interpretation rooms: step_relation "rooms_step owner"
proof unfold_locales
  show "rooms_step owner s s" for s by (auto simp: rooms_step_def users_kept_def)
  show "rooms_step owner s u" if "rooms_step owner s t" "rooms_step owner t u" for s t u
    using that users_kept_trans unfolding rooms_step_def by blast
qed

text \<open>While a socket connects, the others leave it without a user.\<close>

definition no_user :: "string \<Rightarrow> realtime_store \<Rightarrow> bool" where
  "no_user k s = (\<forall>x\<in>set (rtSockets s). skId x = k \<longrightarrow> skUser x = None)"

definition connecting_step :: "run_owner \<Rightarrow> string \<Rightarrow> realtime_store \<Rightarrow> realtime_store \<Rightarrow> bool" where
  "connecting_step owner k s t = (rooms_step owner s t \<and> (no_user k s \<longrightarrow> no_user k t))"

interpretation connecting: step_relation "connecting_step owner k"
  by unfold_locales (auto simp: connecting_step_def rooms.step_refl intro: rooms.step_trans)

lemma rely_connecting: "rely (connecting_step owner k) cs \<Longrightarrow> rely (rooms_step owner) cs"
  by (simp add: rely_def connecting_step_def)

section \<open>Guarantees from a condition\<close>

text \<open>A guarantee that is due only from stores with \<open>P\<close>, which the steps of the others keep.\<close>

definition upholds_from :: "('s \<Rightarrow> 's \<Rightarrow> bool) \<Rightarrow> ('s \<Rightarrow> bool) \<Rightarrow> ('s, 'a) io \<Rightarrow> bool" where
  "upholds_from R P m =
     (\<forall>w. rely R (pending w) \<and> P (store w) \<longrightarrow> R (store w) (store (snd (m w))) \<and> rely R (pending (snd (m w))))"

definition stable :: "('s \<Rightarrow> 's \<Rightarrow> bool) \<Rightarrow> ('s \<Rightarrow> bool) \<Rightarrow> bool" where
  "stable R P = (\<forall>s t. R s t \<longrightarrow> P s \<longrightarrow> P t)"

context step_relation
begin

lemma from_upholds: "upholds R m \<Longrightarrow> upholds_from R P m"
  by (simp add: upholds_def upholds_from_def)

lemma from_call_bind:
  assumes "stable R P" "\<And>s. P s \<Longrightarrow> R s (snd (f s))"
    and "\<And>s a. P s \<Longrightarrow> fst (f s) = Inr a \<Longrightarrow> upholds_from R P (k a)"
  shows "upholds_from R P (io_bind (io_call f) k)"
  unfolding upholds_from_def
proof (intro allI impI, elim conjE)
  fix w :: "'s world" assume w: "rely R (pending w)" "P (store w)"
  have call: "R (store w) (store w') \<and> rely R (pending w') \<and> P (store w')
      \<and> (\<forall>a. r = Inr a \<longrightarrow> upholds_from R P (k a))" if "io_call f w = (r, w')" for r w'
  proof (cases "pending w")
    case Nil
    have e: "R (store w) (snd (f (store w)))" "P (snd (f (store w)))"
      using w assms(1,2) unfolding stable_def by blast+
    show ?thesis
      using that w e assms(3)[OF w(2)] Nil by (cases "f (store w)") (auto simp: io_call_def)
  next
    case (Cons c cs)
    let ?s = "others c (store w)"
    have o: "R (store w) ?s" "P ?s" using w Cons assms(1) by (auto simp: stable_def)
    have e: "R (store w) (snd (f ?s))" "P (snd (f ?s))"
      using o assms(1,2) step_trans unfolding stable_def by blast+
    show ?thesis
      using that w(1) Cons o e assms(3)[OF o(2)]
      by (cases "f ?s"; cases "reply c") (auto simp: io_call_def Let_def)
  qed
  obtain r w' where r: "io_call f w = (r, w')" by force
  show "R (store w) (store (snd (io_bind (io_call f) k w))) \<and> rely R (pending (snd (io_bind (io_call f) k w)))"
  proof (cases r)
    case (Inl e)
    then show ?thesis using call[OF r] r by (simp add: io_bind_def)
  next
    case (Inr a)
    then have "R (store w') (store (snd (k a w'))) \<and> rely R (pending (snd (k a w')))"
      using call[OF r] by (auto simp: upholds_from_def)
    then show ?thesis using call[OF r] r Inr step_trans by (auto simp: io_bind_def)
  qed
qed

end

lemma stable_conj: "stable R P \<Longrightarrow> stable R Q \<Longrightarrow> stable R (\<lambda>s. P s \<and> Q s)"
  by (auto simp: stable_def)

section \<open>Operations\<close>

lemma same_sockets:
  assumes "rtSockets t = rtSockets s" "rtAccess t = rtAccess s"
  shows "rooms_step owner s t" "connecting_step owner k s t"
  using assms by (auto simp: connecting_step_def rooms_step_def rooms_ok_def users_kept_def no_user_def)

definition of_user :: "string \<Rightarrow> actor \<Rightarrow> realtime_store \<Rightarrow> bool" where
  "of_user k u s = (\<forall>x\<in>set (rtSockets s). skId x = k \<longrightarrow> skUser x = Some u)"

lemma user_stays: "stable (rooms_step owner) (\<lambda>s. rooms_ok owner s \<and> of_user k u s)"
  unfolding stable_def rooms_step_def users_kept_def of_user_def by (metis option.distinct(1))

lemma change_keeps:
  assumes "rooms_ok owner s" "\<And>x. skId (f x) = skId x"
    and "\<And>x. x \<in> set (rtSockets s) \<Longrightarrow> skId x = k \<Longrightarrow> \<forall>room\<in>set (skRooms (f x)). room_allowed owner (skUser (f x)) room"
  shows "rooms_ok owner (change_socket k f s)"
proof -
  let ?g = "\<lambda>x. if skId x = k then f x else x"
  have ids: "map skId (map ?g xs) = map skId xs" for xs by (induction xs) (simp_all add: assms(2))
  have "distinct (map skId (map ?g (rtSockets s)))" unfolding ids using assms(1) by (simp add: rooms_ok_def)
  moreover have "\<forall>x\<in>set (map ?g (rtSockets s)). \<forall>r\<in>set (skRooms x). room_allowed owner (skUser x) r"
    using assms(1,3) by (auto simp: rooms_ok_def)
  ultimately show ?thesis using assms(1) unfolding rooms_ok_def change_socket_def by simp
qed

lemma join_step:
  assumes "rooms_ok owner s" "\<And>x. x \<in> set (rtSockets s) \<Longrightarrow> skId x = k \<Longrightarrow> room_allowed owner (skUser x) room"
  shows "rooms_step owner s (change_socket k (\<lambda>x. x\<lparr>skRooms := room # skRooms x\<rparr>) s)"
proof -
  have "rooms_ok owner (change_socket k (\<lambda>x. x\<lparr>skRooms := room # skRooms x\<rparr>) s)"
    by (rule change_keeps) (use assms in \<open>auto simp: rooms_ok_def\<close>)
  then show ?thesis by (auto simp: rooms_step_def users_kept_def change_socket_def)
qed

lemma colon_allowed: "owners_ok owner \<Longrightarrow> CHR '':'' \<in> set room \<Longrightarrow> room_allowed owner user room"
  by (auto simp: owners_ok_def room_allowed_def split: option.splits)

lemma own_room_allowed:
  "owners_ok owner \<Longrightarrow> room_allowed owner user (user_room x) \<and> room_allowed owner user (company_room x)
    \<and> room_allowed owner user (api_token_room x)"
  by (intro conjI colon_allowed) (simp_all add: user_room_def company_room_def api_token_room_def)

lemma join_own_upholds:
  assumes "owners_ok owner"
  shows "upholds (rooms_step owner) (join_own_rooms k p)"
proof -
  have join: "upholds (rooms_step owner) (join_room k (r x))" if "r \<in> {user_room, company_room, api_token_room}" for r x
  proof -
    have ok: "room_allowed owner user (r x)" for user using own_room_allowed[OF assms] that by auto
    show ?thesis
      unfolding join_room_def
    proof (rule rooms.upholds_call, goal_cases)
      case (1 s)
      show ?case
      proof (cases "rooms_ok owner s")
        case True
        then show ?thesis using join_step ok by simp
      qed (simp add: rooms_step_def)
    qed
  qed
  have maybe: "upholds (rooms_step owner) (if b then m else io_return ())" if "upholds (rooms_step owner) m" for b m
    using that by (simp add: rooms.upholds_return)
  show ?thesis
    unfolding join_own_rooms_def by (intro rooms.upholds_then maybe join) simp_all
qed

definition subscribe_rest :: "string \<Rightarrow> string \<Rightarrow> actor \<Rightarrow> string realtime_io" where
  "subscribe_rest k rid u =
     io_bind (io_read (\<lambda>s. adRuns (rtAccess s) rid)) (\<lambda>run. case run of
         None \<Rightarrow> io_throw UnauthorizedException
       | Some ow \<Rightarrow>
           io_then (io_call (\<lambda>s. (assert_can (rtAccess s) (Some (principal.truncate u)) Run_Read (run_resource rid ow), s)))
           (io_then (join_room k rid) (io_return rid)))"

lemma allowed_company:
  assumes "owners_ok owner" "owner rid = Some ow"
    and "assert_can db (Some (principal.truncate u)) Run_Read (run_resource rid ow) = Inr x"
  shows "room_allowed owner (Some u) rid"
proof -
  obtain pid company where ow: "ow = (pid, company)" by force
  have "company \<noteq> []" using assms(1,2) ow by (auto simp: owners_ok_def)
  then have "prCompany u = company"
    using assms(3) ow by (simp add: assert_can_iff run_resource_def principal.defs)
  then show ?thesis using assms(2) ow by (simp add: room_allowed_def)
qed

lemma subscribe_from:
  assumes "owners_ok owner"
  shows "upholds_from (rooms_step owner) (\<lambda>s. rooms_ok owner s \<and> of_user k u s) (subscribe_rest k rid u)"
  unfolding subscribe_rest_def io_read_def
proof (rule rooms.from_call_bind[OF user_stays], goal_cases)
  case (2 s run)
  show ?case
  proof (cases run)
    case (Some ow)
    then have owner: "owner rid = Some ow" using 2 by (auto simp: rooms_ok_def map_le_def dom_def)
    show ?thesis
      unfolding Some option.case io_then_def
    proof (rule rooms.from_call_bind[OF user_stays], goal_cases)
      case (2 s x)
      then have allowed: "room_allowed owner (Some u) rid" using allowed_company[OF assms owner] by auto
      show ?case
        unfolding join_room_def
      proof (rule rooms.from_call_bind[OF user_stays], goal_cases)
        case (1 s)
        then have "rooms_step owner s (change_socket k (\<lambda>x. x\<lparr>skRooms := rid # skRooms x\<rparr>) s)"
          using allowed by (intro join_step) (auto simp: of_user_def)
        then show ?case by simp
      qed (simp add: rooms.from_upholds rooms.upholds_return)
    qed (simp add: rooms.step_refl)
  qed (simp add: rooms.from_upholds rooms.upholds_throw)
qed (simp add: rooms.step_refl)

lemma subscribe_keeps_rooms:
  assumes "owners_ok owner" "rely (rooms_step owner) (pending w)" "rooms_ok owner (store w)"
  shows "rooms_ok owner (store (snd (subscribe k body w)))"
proof (cases "socket_user k (store w)")
  case (Some u)
  then obtain x where f: "find (\<lambda>x. skId x = k) (rtSockets (store w)) = Some x" "skUser x = Some u"
    by (auto simp: socket_user_def bind_eq_Some_conv)
  then have x: "x \<in> set (rtSockets (store w))" "skId x = k" "skUser x = Some u"
    by (auto simp: find_Some_iff)
  then have user: "of_user k u (store w)"
    using assms(3) unfolding of_user_def rooms_ok_def by (metis distinct_map inj_onD)
  show ?thesis
  proof (cases "prCompany u = [] \<or> \<not> truthy_str body")
    case False
    then have "subscribe k body w = subscribe_rest k (the body) u w"
      using Some by (simp add: subscribe_def subscribe_rest_def io_bind_def io_peek_def)
    then show ?thesis
      using subscribe_from[OF assms(1), of k u "the body"] assms(2,3) user by (auto simp: upholds_from_def rooms_step_def)
  qed (use Some assms(3) in \<open>simp add: subscribe_def io_bind_def io_peek_def io_throw_def\<close>)
qed (use assms(3) in \<open>simp add: subscribe_def io_bind_def io_peek_def io_throw_def\<close>)

lemma modify_upholds: "(\<And>s. R s (f s)) \<Longrightarrow> upholds R (io_modify f)"
  by (simp add: upholds_def io_modify_def)

lemma validate_same: "upholds (connecting_step owner k) (validate_api_token cr raw)"
  unfolding validate_api_token_def
  by (intro connecting.upholds_rules) 
     (auto intro!: connecting.upholds_rules connecting.upholds_call same_sockets split: option.splits)

lemma authenticate_same: "upholds (connecting_step owner k) (authenticate cr token)"
  unfolding authenticate_def
  by (intro connecting.upholds_rules)
     (auto intro!: connecting.upholds_rules validate_same split: option.splits)

lemma disconnect_keeps: "rooms_ok owner s \<Longrightarrow> rooms_ok owner (disconnect k s)"
  by (auto simp: rooms_ok_def disconnect_def distinct_map_filter)

lemma set_user_keeps:
  assumes "rooms_ok owner s" "no_user k s"
  shows "rooms_ok owner (change_socket k (\<lambda>x. x\<lparr>skUser := Some p\<rparr>) s)"
proof (rule change_keeps[OF assms(1)], goal_cases)
  case (2 x)
  then have "\<forall>room\<in>set (skRooms x). room_allowed owner None room"
    using assms by (auto simp: rooms_ok_def no_user_def)
  then show ?case by (auto simp: room_allowed_def split: option.splits)
qed simp

lemma connection_keeps_rooms:
  assumes "owners_ok owner" "rely (connecting_step owner k) (pending w)" "rooms_ok owner (store w)" "no_user k (store w)"
  shows "rooms_ok owner (store (snd (handle_connection cr k auth header w)))"
proof -
  let ?m = "io_bind (io_lift (extract_token auth header)) (authenticate cr)"
  have "upholds (connecting_step owner k) ?m"
    by (intro connecting.upholds_bind connecting.upholds_lift authenticate_same)
  moreover obtain r w1 where m: "?m w = (r, w1)" by force
  ultimately have w1: "connecting_step owner k (store w) (store w1)" "rely (connecting_step owner k) (pending w1)"
    using upholds_run assms(2) by blast+
  then have ok: "rooms_ok owner (store w1)" "no_user k (store w1)" "rely (rooms_step owner) (pending w1)"
    using assms(3,4) by (auto simp: connecting_step_def rooms_step_def rely_connecting)
  show ?thesis
  proof (cases r)
    case (Inl e)
    then show ?thesis using m ok disconnect_keeps by (simp add: handle_connection_def io_defs io_modify_def)
  next
    case (Inr p)
    let ?w2 = "w1\<lparr>store := change_socket k (\<lambda>x. x\<lparr>skUser := Some p\<rparr>) (store w1)\<rparr>"
    obtain r3 w3 where j: "join_own_rooms k p ?w2 = (r3, w3)" by force
    have "rooms_step owner (store ?w2) (store w3)"
      using upholds_run(1)[OF join_own_upholds[OF assms(1)] _ j] ok(3) by simp
    then have "rooms_ok owner (store w3)" using set_user_keeps[OF ok(1,2)] by (simp add: rooms_step_def)
    then show ?thesis
      using m j Inr disconnect_keeps by (cases r3) (simp_all add: handle_connection_def io_defs io_modify_def)
  qed
qed

lemma persist_rooms: "upholds (rooms_step owner) (persist_event etype rid payload)"
  unfolding persist_event_def
  by (intro rooms.upholds_rules rooms.upholds_call same_sockets) (auto simp: store_event_def Let_def split: option.splits)

lemma emit_same: "rtSockets (emit_to_socket e s) = rtSockets s" "rtAccess (emit_to_socket e s) = rtAccess s"
  by (simp_all add: emit_to_socket_def)

lemma emit_rooms: "upholds (rooms_step owner) (emit_run_event etype rid payload)"
proof -
  have send: "upholds (rooms_step owner) (if server then io_modify (emit_to_socket e) else publish_event e)" for server e
    unfolding publish_event_def
    by (auto intro!: modify_upholds rooms.upholds_ignore rooms.upholds_call same_sockets simp: emit_same)
  show ?thesis
    unfolding emit_run_event_def
    by (rule rooms.upholds_bind[OF persist_rooms])
      (auto intro!: rooms.upholds_bind rooms.upholds_then rooms.upholds_peek rooms.upholds_return send split: option.split)
qed

lemma disconnect_room_keeps: "rooms_ok owner s \<Longrightarrow> rooms_ok owner (disconnect_room room s)"
  by (auto simp: rooms_ok_def disconnect_room_def distinct_map_filter)


section \<open>Numbers of events\<close>

definition events_of :: "string \<Rightarrow> realtime_store \<Rightarrow> run_event list" where
  "events_of rid s = filter (\<lambda>e. enRun e = rid) (rtEvents s)"

definition numbered :: "realtime_store \<Rightarrow> bool" where
  "numbered s = (\<forall>rid n. rtSequence s rid = Some n \<longrightarrow> map enSequence (events_of rid s) = [1..<Suc n])"

definition numbered_step :: "realtime_store \<Rightarrow> realtime_store \<Rightarrow> bool" where
  "numbered_step s t = (numbered s \<longrightarrow> numbered t)"

interpretation numbering: step_relation numbered_step
  by unfold_locales (auto simp: numbered_step_def)

lemma store_event_numbered: "numbered_step s (snd (store_event etype rid payload s))"
  by (auto simp: numbered_step_def numbered_def store_event_def events_of_def Let_def split: option.split)

lemma same_events: "rtSequence t = rtSequence s \<Longrightarrow> rtEvents t = rtEvents s \<Longrightarrow> numbered_step s t"
  by (simp add: numbered_step_def numbered_def events_of_def)

lemma persist_answers: "\<exists>x w'. persist_event etype rid payload w = (Inr x, w')"
  by (auto simp: persist_event_def io_defs io_return_def split: prod.split sum.split)

lemma ignore_answers: "\<exists>w'. io_ignore m w = (Inr (), w')"
  by (auto simp: io_defs io_return_def split: prod.split sum.split)


text \<open>
  Nothing looks at the token again: when it is revoked, and its sockets are closed, between its validation and the
  entry into its room, the socket stays and may subscribe.
\<close>

definition sample_token :: service_token where
  "sample_token = \<lparr>atId = ''t1'', atCompany = ''c1'', atName = ''ci'', atHash = ''hash:raw'', atScopes = [''run:read''],
     atProject = None, atExpiresAt = None, atRevokedAt = None, atLastUsedAt = None, atServiceAccountRevoked = False, svId = None\<rparr>"

definition one_socket :: realtime_store where
  "one_socket = \<lparr>acNow = 0, acPlans = Map.empty, acCompanies = [], acUsers = [], acMembers = [], acTokens = [sample_token],
     rtAccess = \<lparr>adRuns = [''r1'' \<mapsto> (''p1'', ''c1'')], adSecrets = Map.empty, adSuites = Map.empty, adSuiteRevisions = Map.empty,
       adEnvRevisions = Map.empty, adProjects = [''p1'' \<mapsto> ''c1''], adMembers = Map.empty\<rparr>,
     rtSequence = [''r1'' \<mapsto> 0], rtEvents = [], rtServer = True,
     rtSockets = [\<lparr>skId = ''k1'', skUser = None, skRooms = []\<rparr>], rtReceived = [], rtPublished = []\<rparr>"

definition revoke_and_close :: "realtime_store \<Rightarrow> realtime_store" where
  "revoke_and_close s = disconnect_api_token ''t1'' (s\<lparr>acTokens := map (\<lambda>t. t\<lparr>atRevokedAt := Some 1\<rparr>) (acTokens s)\<rparr>)"

lemma revoked_token_keeps_its_socket:
  "map skRooms (rtSockets (store (snd (handle_connection plain_credentials ''k1'' (Some (JStr ''raw'')) None
     \<lparr>store = one_socket, pending = [CallEnv id Done, CallEnv id Done, CallEnv revoke_and_close Done]\<rparr>))))
   = [[''company:c1'', ''api-token:t1'']]"
  by code_simp

definition sample_owner :: run_owner where
  "sample_owner = [''r1'' \<mapsto> (''p1'', ''c1'')]"



end
