(* ===== verification/Spec2Isabelle.thy ===== *)
theory Spec2Isabelle
  imports Queue_Props Flow_Compiler Plan_Props Worker_Props Team Env_Preflight Env_Revisions
    Run_Report Run_Comparison Editor_Props Dry_Props Secret_Props Creation_Props Import_Props
    Artifact_Props Junit_Report Audit_Log Accounts Realtime Onboarding
begin

text \<open>
  A verification library for the backend testing platform under \<open>src/testing-environment-backend\<close>.

  The program stores test suites (drawn as flows or written as YAML), compiles them to execution
  plans, queues test runs, and has workers execute a run: claim it, prepare a workspace, start the
  environment with Docker Compose, wait for its health check, execute the plan's steps over HTTP,
  and record results with the project's secrets masked.

  The theories, in the order of their imports:

  \<^item> \<open>Prelude\<close>, \<open>Json\<close>, \<open>Json_Text\<close>: exceptions as a sum type, JavaScript strings, JSON values with
    the operators the code applies to them, \<open>JSON.stringify\<close> and \<open>JSON.parse\<close>.
  \<^item> \<open>Async\<close>: asynchronous service code over a shared store; every awaited call lets other clients act
    first and may be rejected or lose its reply.  The locale \<open>step_relation\<close> proves guarantees
    compositionally.
  \<^item> \<open>Run_Status\<close>, \<open>Run_State\<close>, \<open>Run_Safety\<close>, \<open>Run_Props\<close>: the life cycle of a run
    (\<open>test-runs/test-run-status.constants.ts\<close>, \<open>test-runs/test-run-state.service.ts\<close>), its row and
    invariant, and what the methods of the state service do, alone and against other clients.
  \<^item> \<open>Run_Queue\<close>, \<open>Queue_Props\<close>: the queue service, the recovery scans and cancellation (\<open>queue/\<close>,
    \<open>test-runs/test-runs.service.ts\<close>) on an abstract BullMQ (locale \<open>bull_queue\<close>).
  \<^item> \<open>Topo_Sort\<close>, \<open>Flow_Types\<close>, \<open>Yaml_Adapter\<close>, \<open>Yaml_Round\<close>, \<open>Plan_Compiler\<close>, \<open>Plan_Props\<close>,
    \<open>Flow_Compiler\<close>: flows, plans and their YAML form (\<open>test-suites/\<close>): the topological sort, the two
    compilers, the adapter and the round trip of its export and import.
  \<^item> \<open>Assertions\<close>, \<open>Templates\<close>, \<open>Regex\<close>, \<open>Masking\<close>: the assertion engine, variable interpolation,
    secret references and masking (\<open>runner/\<close>, \<open>secrets/\<close>), the latter on a backtracking matcher for
    the regular expressions the code uses.
  \<^item> \<open>Step_Exec\<close>, \<open>Suite_Exec\<close>, \<open>Step_Props\<close>, \<open>Environment\<close>: the steps of a plan, the loop over the
    suites, the health check and the Compose guardrail (\<open>runner/\<close>).
  \<^item> \<open>Orchestrator\<close>, \<open>Worker_Table\<close>, \<open>Worker_Safety\<close>, \<open>Worker_Props\<close>: the worker of a run
    (\<open>runner/runner-orchestrator.service.ts\<close>) with its timers, its catch and finally clauses; it closes
    the run it claimed and disturbs no other, whatever other clients do.
  \<^item> \<open>Access\<close>, \<open>Team\<close>: the guard of the requests, roles, API tokens and members (\<open>authorization/\<close>,
    \<open>api-tokens/\<close>, \<open>team/\<close>).
  \<^item> \<open>Env_Config\<close>, \<open>Compose_Import\<close>, \<open>Env_Preflight\<close>: drawn environments, their compiler, the analyzer
    and importer of Compose files and the preflight (\<open>environment-configs/\<close>, \<open>environment-import/\<close>).
  \<^item> \<open>Transactions\<close>, \<open>Env_Revisions\<close>: transactions on a shared store and the service that keeps the
    revisions of an environment.
  \<^item> \<open>Suite_Revisions\<close>, \<open>Suite_Props\<close>: the stored test suites (\<open>test-suites/test-suites.service.ts\<close>): whatever
    clients do at the same time, their revisions are an append-only history with the plans compiled from them.
  \<^item> \<open>Run_Creation\<close>, \<open>Creation_Props\<close>: creation of runs (\<open>test-runs/test-runs.service.ts\<close>), the limits of
    the plans, projects and companies (\<open>subscriptions/\<close>, \<open>projects/\<close>, \<open>companies/\<close>): a run pins published
    suite revisions, and requests that come one at a time stay within the plan.
  \<^item> \<open>Diagnosis\<close>, \<open>Diagnosis_Props\<close>, \<open>Run_Report\<close>, \<open>Run_Comparison\<close>: what is said about an ended run
    (\<open>test-runs/failure-diagnosis/\<close>, \<open>test-runs/test-run-diagnosis.service.ts\<close>,
    \<open>test-runs/test-run-comparison.service.ts\<close>).
  \<^item> \<open>Dry_Runs\<close>, \<open>Dry_Props\<close>: dry runs of an environment (\<open>environment-configs/environment-dry-run-*.ts\<close>,
    \<open>queue/environment-dry-run-queue.service.ts\<close>): they end, and pass only if the environment answers.
  \<^item> \<open>Secret_Crypto\<close>, \<open>Secret_Store\<close>, \<open>Secret_Props\<close>: secrets at rest (\<open>secrets/\<close>): the
    encrypted form with its Base64, the service, and the rotation of keys in batches, which keeps every
    value when it runs alone and can undo a change made meanwhile.
  \<^item> \<open>Flow_Editor\<close>, \<open>Flow_Editor_Props\<close>, \<open>Editor_State\<close>, \<open>Editor_Props\<close>: the flow editor of the user
    interface without its rendering (\<open>features/test-suites/flow-builder/\<close> of the frontend): what its
    validation accepts the plan compiler compiles; its state, history and clipboard keep their invariant.

  \<^item> \<open>Import_Common\<close>, \<open>Import_Curl\<close>, \<open>Import_Postman\<close>, \<open>Import_Openapi\<close>, \<open>Import_Bruno\<close>, \<open>Import_Flow\<close>,
    \<open>Import_Safety\<close>, \<open>Import_Props\<close>: the import of API descriptions (\<open>test-suites/import/\<close>): its five parsers, the
    sanitizer that leaves no literal credential in headers and query, and the factory of flows, which the plan compiler accepts.
  \<^item> \<open>Artifact_Store\<close>, \<open>Artifact_Props\<close>, \<open>Junit_Report\<close>: stored artifacts, the log of a run and its limits, the removal of
    expired artifacts (\<open>artifacts/\<close>), and the JUnit file of a run, which a reader takes back to the results.
  \<^item> \<open>Audit_Log\<close>: the audit log (\<open>audit/\<close>), which keeps the public part of a request, and the log records with their
    redaction and context (\<open>observability/\<close>).
  \<^item> \<open>Accounts\<close>: registration, sign-in and what turns the token of a request into its caller (\<open>auth/\<close>,
    \<open>common/guards/jwt-auth.guard.ts\<close>): whoever registered signs in, and a removed member is locked out.
  \<^item> \<open>Realtime\<close>: sockets, their rooms and the numbered events of runs (\<open>websocket/\<close>): an event reaches the sockets of
    the company of its run and no others.
  \<^item> \<open>Onboarding\<close>: onboarding sessions and templates (\<open>onboarding/\<close>): a confirmed project can run at once.

  Bounds and loops.  No definition uses fuel: the poll, wait and health-check loops terminate because
  every awaited call uses up an entry of the finite list of interferences, after which the clock only
  moves forward; the parsers recurse on the rest of a text or on smaller values.  Interference is unbounded in what it does and in how often it happens.

  Modelling conventions.  Strings are lists of 8-bit characters; finite numbers are rationals, so the
  rounding of doubles is not modelled; objects are association lists in insertion order.  js-yaml,
  BullMQ, Docker, the network, the file system and cryptography are parameters or services of the
  world outside.

  Not modelled: the HTTP controllers and DTO classes, the rendering of the React user interface and the generated client,
  metrics and tracing, which decide nothing; the order JavaScript gives to object keys that look like integers; and the
  services not named above (the JSON report, the dashboard).
\<close>

end
